(* ===== verification/Prelude.thy ===== *)
theory Prelude
  imports Main "HOL-Library.AList" "HOL-Library.Char_ord" "HOL-Library.List_Lexorder"
    "HOL-Library.Multiset"
begin

section \<open>Shared notions: Go maps, strings, errors and handlers\<close>

text \<open>
  The generic part of the development.  Go maps are association lists (\<open>gomap\<close>), Go strings
  are byte lists with the operations of package \<open>strings\<close> that the source uses, a fallible
  call returns \<open>string + 'a\<close> with the message of the Go error on the left, and a handler is a
  function from a state to its result and the state it leaves (\<open>('s, 'a) go\<close>), composed
  with \<open>m_bind\<close>, which stops at the first error as \<open>if err != nil { return err }\<close> does.
  The triple \<open>hoare\<close> states what a handler does on its normal and on its error exit.
\<close>

named_theorems gomap_simps \<open>lookups after updates of Go maps\<close>
named_theorems hoare_rules \<open>rules of the triple for the handler combinators\<close>

subsection \<open>Go maps\<close>

text \<open>
  A Go map is an association list with distinct keys; the order of the list is the order in
  which \<open>range\<close> visits the entries.  Go leaves that order open, so every theorem about a map
  quantifies over all lists.  Writing a key that is present keeps its place.
\<close>

type_synonym 'a gomap = "(string \<times> 'a) list"

definition gm_get :: "'a gomap \<Rightarrow> string \<Rightarrow> 'a option" where
  "gm_get m k = map_of m k"

definition gm_put :: "string \<Rightarrow> 'a \<Rightarrow> 'a gomap \<Rightarrow> 'a gomap" where
  "gm_put k v m = AList.update k v m"

definition gm_delete :: "string \<Rightarrow> 'a gomap \<Rightarrow> 'a gomap" where
  "gm_delete k m = AList.delete k m"

definition gm_keys :: "'a gomap \<Rightarrow> string list" where
  "gm_keys m = map fst m"

definition gm_wf :: "'a gomap \<Rightarrow> bool" where
  "gm_wf m \<longleftrightarrow> distinct (map fst m)"

text \<open>Reading a missing key gives the zero value of the element type.\<close>

definition gm_get_or :: "'a \<Rightarrow> 'a gomap \<Rightarrow> string \<Rightarrow> 'a" where
  "gm_get_or z m k = (case gm_get m k of None \<Rightarrow> z | Some v \<Rightarrow> v)"

lemma gm_get_put [simp, gomap_simps]:
  "gm_get (gm_put k v m) k' = (if k' = k then Some v else gm_get m k')"
  by (simp add: gm_get_def gm_put_def update_conv')

lemma gm_get_delete [simp, gomap_simps]:
  "gm_get (gm_delete k m) k' = (if k' = k then None else gm_get m k')"
  by (simp add: gm_get_def gm_delete_def delete_conv')

lemma gm_get_Nil [simp]: "gm_get [] k = None"
  by (simp add: gm_get_def)

lemma gm_get_Cons: "gm_get ((k, v) # m) k' = (if k' = k then Some v else gm_get m k')"
  by (simp add: gm_get_def)

lemma gm_wf_Nil [simp]: "gm_wf []"
  by (simp add: gm_wf_def)

lemma gm_wf_put [simp, intro]: "gm_wf m \<Longrightarrow> gm_wf (gm_put k v m)"
  by (simp add: gm_wf_def gm_put_def distinct_update)

lemma gm_wf_delete [simp, intro]: "gm_wf m \<Longrightarrow> gm_wf (gm_delete k m)"
  by (simp add: gm_wf_def gm_delete_def distinct_delete)

lemma gm_get_SomeD: "gm_get m k = Some v \<Longrightarrow> (k, v) \<in> set m"
  by (simp add: gm_get_def map_of_SomeD)

lemma gm_get_wf: "gm_wf m \<Longrightarrow> gm_get m k = Some v \<longleftrightarrow> (k, v) \<in> set m"
  by (simp add: gm_get_def gm_wf_def)

lemma gm_get_None: "gm_get m k = None \<longleftrightarrow> k \<notin> set (gm_keys m)"
  by (simp add: gm_get_def gm_keys_def map_of_eq_None_iff)

lemma gm_get_mem: "k \<in> set (gm_keys m) \<longleftrightarrow> (\<exists>v. gm_get m k = Some v)"
  using gm_get_None [of m k] by (cases "gm_get m k") auto

lemma gm_keys_put [simp, gomap_simps]: "set (gm_keys (gm_put k v m)) = insert k (set (gm_keys m))"
  by (auto simp: gm_keys_def gm_put_def dom_update)

lemma gm_put_present:
  "gm_get m k \<noteq> None \<Longrightarrow> gm_keys (gm_put k v m) = gm_keys m"
  by (induction m) (auto simp: gm_get_def gm_put_def gm_keys_def split: if_splits)

lemma gm_put_absent: "gm_get m k = None \<Longrightarrow> gm_put k v m = m @ [(k, v)]"
  by (induction m) (auto simp: gm_get_def gm_put_def split: if_splits)

text \<open>
  A permutation of the entries is the same map: \<open>range\<close> may visit them in that order as well.
\<close>

lemma gm_get_perm:
  assumes "gm_wf m" and "mset m' = mset m"
  shows "gm_wf m' \<and> gm_get m' = gm_get m"
proof -
  have "mset (map fst m') = mset (map fst m)"
    using assms(2) by simp
  then have wf: "gm_wf m'"
    using assms(1) unfolding gm_wf_def by (metis mset_eq_imp_distinct_iff)
  have "set m' = set m"
    using assms(2) by (metis set_mset_mset)
  then have "gm_get m' k = gm_get m k" for k
    using wf assms(1) by (metis gm_get_wf option.exhaust)
  with wf show ?thesis by blast
qed

subsection \<open>Handlers: results, early returns and loops\<close>

type_synonym ('s, 'a) go = "'s \<Rightarrow> (string + 'a) \<times> 's"

definition m_ret :: "'a \<Rightarrow> ('s, 'a) go" where
  "m_ret x s = (Inr x, s)"

definition m_err :: "string \<Rightarrow> ('s, 'a) go" where
  "m_err e s = (Inl e, s)"

definition m_bind :: "('s, 'a) go \<Rightarrow> ('a \<Rightarrow> ('s, 'b) go) \<Rightarrow> ('s, 'b) go" where
  "m_bind m f s = (case m s of (Inl e, s') \<Rightarrow> (Inl e, s') | (Inr x, s') \<Rightarrow> f x s')"

definition m_then :: "('s, unit) go \<Rightarrow> ('s, 'b) go \<Rightarrow> ('s, 'b) go" where
  "m_then m n = m_bind m (\<lambda>_. n)"

definition m_gets :: "('s \<Rightarrow> 'a) \<Rightarrow> ('s, 'a) go" where
  "m_gets f s = (Inr (f s), s)"

definition m_modify :: "('s \<Rightarrow> 's) \<Rightarrow> ('s, unit) go" where
  "m_modify f s = (Inr (), f s)"

definition m_lift :: "string + 'a \<Rightarrow> ('s, 'a) go" where
  "m_lift r s = (r, s)"

text \<open>\<open>_ = call()\<close>: the error is dropped, the effects stay.\<close>

definition m_ignore :: "('s, 'a) go \<Rightarrow> ('s, unit) go" where
  "m_ignore m s = (Inr (), snd (m s))"

text \<open>\<open>x, err := call()\<close> with the error inspected by the caller.\<close>

definition m_try :: "('s, 'a) go \<Rightarrow> ('s, string + 'a) go" where
  "m_try m s = (Inr (fst (m s)), snd (m s))"

text \<open>\<open>fmt.Errorf("msg: %w", err)\<close> around a failed call.\<close>

definition m_wrap :: "string \<Rightarrow> ('s, 'a) go \<Rightarrow> ('s, 'a) go" where
  "m_wrap msg m s =
     (case m s of (Inl e, s') \<Rightarrow> (Inl (msg @ '': '' @ e), s') | (Inr x, s') \<Rightarrow> (Inr x, s'))"

text \<open>A loop whose body may return an error; \<open>m_fold\<close> threads the loop's local variables.\<close>

primrec m_iter :: "('a \<Rightarrow> ('s, unit) go) \<Rightarrow> 'a list \<Rightarrow> ('s, unit) go" where
  "m_iter f [] = m_ret ()"
| "m_iter f (x # xs) = m_bind (f x) (\<lambda>_. m_iter f xs)"

primrec m_fold :: "('a \<Rightarrow> 'b \<Rightarrow> ('s, 'b) go) \<Rightarrow> 'a list \<Rightarrow> 'b \<Rightarrow> ('s, 'b) go" where
  "m_fold f [] b = m_ret b"
| "m_fold f (x # xs) b = m_bind (f x b) (m_fold f xs)"

lemmas m_defs = m_ret_def m_err_def m_bind_def m_then_def m_gets_def m_modify_def m_lift_def
  m_ignore_def m_try_def m_wrap_def

lemma m_bind_ret [simp]: "m_bind (m_ret x) f = f x"
  by (rule ext) (simp add: m_defs)

lemma m_bind_err [simp]: "m_bind (m_err e) f = m_err e"
  by (rule ext) (simp add: m_defs)

lemma m_bind_assoc: "m_bind (m_bind m f) g = m_bind m (\<lambda>x. m_bind (f x) g)"
  by (rule ext) (simp add: m_bind_def split: prod.splits sum.splits)

text \<open>When a composed handler returns normally.\<close>

lemma m_bind_ok: "m_bind m f w = (Inr y, w') \<longleftrightarrow> (\<exists>x w1. m w = (Inr x, w1) \<and> f x w1 = (Inr y, w'))"
  by (auto simp: m_bind_def split: prod.splits sum.splits)

lemma m_then_ok: "m_then m n w = (Inr y, w') \<longleftrightarrow> (\<exists>w1. m w = (Inr (), w1) \<and> n w1 = (Inr y, w'))"
  by (auto simp: m_then_def m_bind_ok)

lemma m_ret_ok: "m_ret x w = (Inr y, w') \<longleftrightarrow> y = x \<and> w' = w"
  by (auto simp: m_ret_def)

lemma m_err_ok: "m_err e w = (Inr x, w') \<longleftrightarrow> False"
  by (simp add: m_err_def)

lemma m_wrap_ok: "m_wrap msg m w = (Inr x, w') \<longleftrightarrow> m w = (Inr x, w')"
  by (auto simp: m_wrap_def split: prod.splits sum.splits)

lemmas m_ok = m_bind_ok m_then_ok m_ret_ok m_err_ok m_wrap_ok

subsection \<open>The triple\<close>

text \<open>
  \<open>hoare P m Q E\<close>: from a state with \<open>P\<close>, a normal return of \<open>x\<close> leaves a state with
  \<open>Q x\<close> and an error return leaves a state with \<open>E\<close>.  Handlers are total, so nothing is left
  out.  \<open>keeps I m\<close> is the case of an invariant.
\<close>

definition hoare ::
  "('s \<Rightarrow> bool) \<Rightarrow> ('s, 'a) go \<Rightarrow> ('a \<Rightarrow> 's \<Rightarrow> bool) \<Rightarrow> ('s \<Rightarrow> bool) \<Rightarrow> bool" where
  "hoare P m Q E \<longleftrightarrow>
     (\<forall>s. P s \<longrightarrow> (\<forall>x s'. m s = (Inr x, s') \<longrightarrow> Q x s')) \<and>
     (\<forall>s. P s \<longrightarrow> (\<forall>e s'. m s = (Inl e, s') \<longrightarrow> E s'))"

definition keeps :: "('s \<Rightarrow> bool) \<Rightarrow> ('s, 'a) go \<Rightarrow> bool" where
  "keeps I m \<longleftrightarrow> hoare I m (\<lambda>_. I) I"

lemma hoareI:
  assumes "\<And>s e s'. P s \<Longrightarrow> m s = (Inl e, s') \<Longrightarrow> E s'"
    and "\<And>s x s'. P s \<Longrightarrow> m s = (Inr x, s') \<Longrightarrow> Q x s'"
  shows "hoare P m Q E"
  using assms unfolding hoare_def by blast

lemma hoareD_ok: "hoare P m Q E \<Longrightarrow> P s \<Longrightarrow> m s = (Inr x, s') \<Longrightarrow> Q x s'"
  unfolding hoare_def by blast

lemma hoareD_err: "hoare P m Q E \<Longrightarrow> P s \<Longrightarrow> m s = (Inl e, s') \<Longrightarrow> E s'"
  unfolding hoare_def by blast

lemma keepsD: "keeps I m \<Longrightarrow> I s \<Longrightarrow> I (snd (m s))"
  unfolding keeps_def by (cases "fst (m s)"; cases "m s") (auto dest: hoareD_ok hoareD_err)

lemma keepsI: "(\<And>s. I s \<Longrightarrow> I (snd (m s))) \<Longrightarrow> keeps I m"
  unfolding keeps_def by (rule hoareI) (metis snd_conv)+

lemma hoare_conseq:
  "hoare P m Q E \<Longrightarrow> (\<And>s. P' s \<Longrightarrow> P s) \<Longrightarrow> (\<And>x s. Q x s \<Longrightarrow> Q' x s) \<Longrightarrow>
   (\<And>s. E s \<Longrightarrow> E' s) \<Longrightarrow> hoare P' m Q' E'"
  unfolding hoare_def by blast

lemma hoare_pre: "hoare P m Q E \<Longrightarrow> (\<And>s. P' s \<Longrightarrow> P s) \<Longrightarrow> hoare P' m Q E"
  by (rule hoare_conseq)

lemma hoare_ret [hoare_rules]: "hoare (Q x) (m_ret x) Q E"
  by (simp add: hoare_def m_defs)

lemma hoare_err [hoare_rules]: "hoare E (m_err e) Q E"
  by (simp add: hoare_def m_defs)

lemma hoare_gets [hoare_rules]: "hoare (\<lambda>s. Q (f s) s) (m_gets f) Q E"
  by (simp add: hoare_def m_defs)

lemma hoare_modify [hoare_rules]: "hoare (\<lambda>s. Q () (f s)) (m_modify f) Q E"
  by (simp add: hoare_def m_defs)

lemma hoare_bind:
  assumes "hoare P m R E" and "\<And>x. hoare (R x) (f x) Q E"
  shows "hoare P (m_bind m f) Q E"
  by (rule hoareI; auto simp: m_bind_def split: prod.splits sum.splits
      dest: hoareD_ok [OF assms(1)] hoareD_err [OF assms(1)] hoareD_ok [OF assms(2)]
        hoareD_err [OF assms(2)])

lemma hoare_wrap: "hoare P m Q E \<Longrightarrow> hoare P (m_wrap msg m) Q E"
  by (fastforce simp: hoare_def m_wrap_def split: prod.splits sum.splits)

lemma hoare_iter:
  assumes "\<And>x. x \<in> set xs \<Longrightarrow> hoare I (f x) (\<lambda>_. I) E"
  shows "hoare I (m_iter f xs) (\<lambda>_. I) E"
  using assms
proof (induction xs)
  case Nil
  then show ?case by (simp add: hoare_def m_defs)
next
  case (Cons x xs)
  have "hoare I (m_iter f xs) (\<lambda>_. I) E"
    by (rule Cons.IH) (simp add: Cons.prems)
  with Cons.prems [of x] show ?case
    by (simp del: split_paired_All) (rule hoare_bind [where R = "\<lambda>_. I"])
qed

lemma hoare_fold:
  assumes "\<And>x b. x \<in> set xs \<Longrightarrow> hoare (I b) (f x b) I E"
  shows "hoare (I b) (m_fold f xs b) I E"
  using assms
proof (induction xs arbitrary: b)
  case Nil
  then show ?case by (simp add: hoare_def m_defs)
next
  case (Cons x xs)
  have IH: "hoare (I b) (m_fold f xs b) I E" for b
    by (rule Cons.IH) (simp add: Cons.prems)
  show ?case
    using hoare_bind [OF Cons.prems [of x b] IH] by simp
qed

lemma keeps_ret [intro]: "keeps I (m_ret x)"
  by (simp add: keeps_def hoare_def m_defs)

lemma keeps_err [intro]: "keeps I (m_err e)"
  by (simp add: keeps_def hoare_def m_defs)

lemma keeps_lift [intro]: "keeps I (m_lift r)"
  by (rule keepsI) (simp add: m_defs)

lemma keeps_gets [intro]: "keeps I (m_gets f)"
  by (simp add: keeps_def hoare_def m_defs)

lemma keeps_modify: "(\<And>s. I s \<Longrightarrow> I (f s)) \<Longrightarrow> keeps I (m_modify f)"
  by (simp add: keeps_def hoare_def m_defs)

lemma keeps_bind: "keeps I m \<Longrightarrow> (\<And>x. keeps I (f x)) \<Longrightarrow> keeps I (m_bind m f)"
  unfolding keeps_def by (rule hoare_bind)

lemma keeps_then: "keeps I m \<Longrightarrow> keeps I n \<Longrightarrow> keeps I (m_then m n)"
  unfolding m_then_def by (rule keeps_bind)

lemma keeps_ignore: "keeps I m \<Longrightarrow> keeps I (m_ignore m)"
  by (rule keepsI) (simp add: m_ignore_def keepsD)

lemma keeps_try: "keeps I m \<Longrightarrow> keeps I (m_try m)"
  by (rule keepsI) (simp add: m_try_def keepsD)

lemma keeps_wrap: "keeps I m \<Longrightarrow> keeps I (m_wrap msg m)"
  unfolding keeps_def by (rule hoare_wrap)

lemma keeps_iter: "(\<And>x. x \<in> set xs \<Longrightarrow> keeps I (f x)) \<Longrightarrow> keeps I (m_iter f xs)"
  unfolding keeps_def by (rule hoare_iter)

lemma keeps_fold: "(\<And>x b. x \<in> set xs \<Longrightarrow> keeps I (f x b)) \<Longrightarrow> keeps I (m_fold f xs b)"
  unfolding keeps_def by (rule hoare_fold [where I = "\<lambda>_. I"])

lemma keeps_if: "(b \<Longrightarrow> keeps I m) \<Longrightarrow> (\<not> b \<Longrightarrow> keeps I n) \<Longrightarrow> keeps I (if b then m else n)"
  by simp

lemma keeps_case_option:
  "(v = None \<Longrightarrow> keeps I m) \<Longrightarrow> (\<And>x. v = Some x \<Longrightarrow> keeps I (n x)) \<Longrightarrow>
   keeps I (case v of None \<Rightarrow> m | Some x \<Rightarrow> n x)"
  by (cases v) auto

lemma keeps_case_sum:
  "(\<And>e. v = Inl e \<Longrightarrow> keeps I (m e)) \<Longrightarrow> (\<And>x. v = Inr x \<Longrightarrow> keeps I (n x)) \<Longrightarrow>
   keeps I (case v of Inl e \<Rightarrow> m e | Inr x \<Rightarrow> n x)"
  by (cases v) auto

lemma keeps_case_prod:
  "(\<And>x y. v = (x, y) \<Longrightarrow> keeps I (f x y)) \<Longrightarrow> keeps I (case v of (x, y) \<Rightarrow> f x y)"
  by (cases v) auto

lemmas keeps_rules = keeps_ret keeps_err keeps_lift keeps_gets keeps_bind keeps_then
  keeps_ignore keeps_try keeps_wrap keeps_iter keeps_fold keeps_if keeps_case_option
  keeps_case_sum keeps_case_prod

text \<open>\<open>yields m P\<close>: whatever \<open>m\<close> returns without an error satisfies \<open>P\<close>.\<close>

definition yields :: "('s, 'a) go \<Rightarrow> ('a \<Rightarrow> bool) \<Rightarrow> bool" where
  "yields m P \<longleftrightarrow> (\<forall>s x s'. m s = (Inr x, s') \<longrightarrow> P x)"

lemma yieldsD: "yields m P \<Longrightarrow> m s = (Inr x, s') \<Longrightarrow> P x"
  unfolding yields_def by blast

lemma yields_ret: "P x \<Longrightarrow> yields (m_ret x) P"
  by (simp add: yields_def m_defs)

lemma yields_err: "yields (m_err e) P"
  by (simp add: yields_def m_defs)

lemma yields_bind: "(\<And>x. yields (f x) P) \<Longrightarrow> yields (m_bind m f) P"
  by (auto simp: yields_def m_bind_def split: prod.splits sum.splits)

lemma yields_if: "(b \<Longrightarrow> yields m P) \<Longrightarrow> (\<not> b \<Longrightarrow> yields n P) \<Longrightarrow> yields (if b then m else n) P"
  by simp

lemmas yields_rules = yields_ret yields_err yields_bind yields_if

lemma m_iter_append: "m_iter f (xs @ ys) = m_bind (m_iter f xs) (\<lambda>_. m_iter f ys)"
  by (induction xs) (simp_all add: m_bind_assoc)

subsection \<open>int64\<close>

text \<open>Sums and differences of int64 values wrap around; division truncates towards zero.\<close>

definition wrap64 :: "int \<Rightarrow> int" where
  "wrap64 x = (x + 2 ^ 63) mod 2 ^ 64 - 2 ^ 63"

definition go_div :: "int \<Rightarrow> int \<Rightarrow> int" where
  "go_div a b = sgn a * sgn b * (\<bar>a\<bar> div \<bar>b\<bar>)"

definition int64 :: "int \<Rightarrow> bool" where
  "int64 x \<longleftrightarrow> - (2 ^ 63) \<le> x \<and> x < 2 ^ 63"

lemma wrap64_id: "int64 x \<Longrightarrow> wrap64 x = x"
  by (simp add: wrap64_def int64_def)

lemma wrap64_range: "int64 (wrap64 x)"
proof -
  have "0 \<le> (x + 2 ^ 63) mod 2 ^ 64" and "(x + 2 ^ 63) mod 2 ^ 64 < 2 ^ 64"
    by simp_all
  then show ?thesis by (simp add: wrap64_def int64_def)
qed

lemma wrap64_add_wrap: "wrap64 (wrap64 x + y) = wrap64 (x + y)"
  unfolding wrap64_def using mod_add_left_eq [of "x + 2 ^ 63" "2 ^ 64" y]
  by (simp add: algebra_simps)

lemma wrap64_fold: "fold (\<lambda>x s. wrap64 (s + x)) xs (wrap64 a) = wrap64 (a + sum_list xs)"
  by (induction xs arbitrary: a) (simp_all add: wrap64_add_wrap add.assoc)

subsection \<open>Lists\<close>

lemma distinct_two_filters:
  "distinct (map f xs) \<Longrightarrow> (\<And>x. \<not> (P x \<and> Q x)) \<Longrightarrow> distinct (map f (filter P xs @ filter Q xs))"
  by (induction xs) auto

lemma fold_keeps:
  "(\<And>x s. x \<in> set xs \<Longrightarrow> I s \<Longrightarrow> I (f x s)) \<Longrightarrow> I s \<Longrightarrow> I (fold f xs s)"
  by (induction xs arbitrary: s) auto

end
