(* ===== verification/GoStrings.thy ===== *)
theory GoStrings
  imports Prelude
begin

section \<open>The string operations of the Go standard library that the source uses\<close>

text \<open>
  Go strings are byte sequences, here \<open>char list\<close>; the order of \<open>HOL-Library.List_Lexorder\<close>
  over \<open>Char_ord\<close> is Go's byte-wise order, so \<open>sort.Strings\<close> is \<open>sort\<close>.  White space and
  letter case are the ASCII ones: the identifiers, paths, labels and statuses these operations
  are applied to are ASCII.
\<close>

subsection \<open>strings\<close>

definition is_space :: "char \<Rightarrow> bool" where
  "is_space c \<longleftrightarrow> (let n = (of_char c :: nat) in 9 \<le> n \<and> n \<le> 13 \<or> n = 32)"

definition trim_space :: "string \<Rightarrow> string" where
  "trim_space s = rev (dropWhile is_space (rev (dropWhile is_space s)))"

definition trim_char :: "char \<Rightarrow> string \<Rightarrow> string" where
  "trim_char c s = rev (dropWhile (\<lambda>x. x = c) (rev (dropWhile (\<lambda>x. x = c) s)))"

primrec has_prefix :: "string \<Rightarrow> string \<Rightarrow> bool" where
  "has_prefix s [] = True"
| "has_prefix s (p # ps) = (case s of [] \<Rightarrow> False | c # cs \<Rightarrow> c = p \<and> has_prefix cs ps)"

definition has_suffix :: "string \<Rightarrow> string \<Rightarrow> bool" where
  "has_suffix s p = has_prefix (rev s) (rev p)"

definition trim_prefix :: "string \<Rightarrow> string \<Rightarrow> string" where
  "trim_prefix s p = (if has_prefix s p then drop (length p) s else s)"

definition trim_suffix :: "string \<Rightarrow> string \<Rightarrow> string" where
  "trim_suffix s p = (if has_suffix s p then take (length s - length p) s else s)"

primrec split_on :: "char \<Rightarrow> string \<Rightarrow> string list" where
  "split_on c [] = [[]]"
| "split_on c (x # xs) =
     (if x = c then [] # split_on c xs
      else (case split_on c xs of [] \<Rightarrow> [[x]] | p # ps \<Rightarrow> (x # p) # ps))"

fun join_with :: "string \<Rightarrow> string list \<Rightarrow> string" where
  "join_with sep [] = []"
| "join_with sep [s] = s"
| "join_with sep (s # t # ts) = s @ sep @ join_with sep (t # ts)"

definition ascii_lower :: "char \<Rightarrow> char" where
  "ascii_lower c = (let n = (of_char c :: nat) in if 65 \<le> n \<and> n \<le> 90 then char_of (n + 32) else c)"

definition equal_fold :: "string \<Rightarrow> string \<Rightarrow> bool" where
  "equal_fold s t \<longleftrightarrow> map ascii_lower s = map ascii_lower t"

definition contains_any :: "string \<Rightarrow> string \<Rightarrow> bool" where
  "contains_any s cs \<longleftrightarrow> list_ex (\<lambda>c. c \<in> set cs) s"

text \<open>
  \<open>strings.ReplaceAll(s, old, new)\<close> for a non-empty \<open>old\<close>: leftmost, not overlapping.
\<close>

function replace_all :: "string \<Rightarrow> string \<Rightarrow> string \<Rightarrow> string" where
  "replace_all s old new =
     (if s = [] \<or> old = [] then s
      else if has_prefix s old then new @ replace_all (drop (length old) s) old new
      else hd s # replace_all (tl s) old new)"
  by pat_completeness auto
termination
  by (relation "measure (\<lambda>(s, _, _). length s)") (auto simp: length_greater_0_conv)

declare replace_all.simps [simp del]

text \<open>
  \<open>strings.NewReplacer("/", "-", "\\", "-", " ", "-", ":", "-", "..", "-")\<close>: at each place the
  first old string that matches is replaced, and matches do not overlap.
\<close>

definition is_separator :: "char \<Rightarrow> bool" where
  "is_separator c \<longleftrightarrow> c = CHR ''/'' \<or> c = CHR 0x5C \<or> c = CHR '' '' \<or> c = CHR '':''"

fun replace_separators :: "string \<Rightarrow> string" where
  "replace_separators [] = []"
| "replace_separators (c # cs) =
     (if is_separator c then CHR ''-'' # replace_separators cs
      else if c = CHR ''.'' \<and> has_prefix cs [CHR ''.'']
        then CHR ''-'' # replace_separators (tl cs)
      else c # replace_separators cs)"

subsection \<open>fmt and strconv\<close>

definition digit_char :: "nat \<Rightarrow> char" where
  "digit_char n = char_of (48 + n)"

fun nat_dec :: "nat \<Rightarrow> string" where
  "nat_dec n = (if n < 10 then [digit_char n] else nat_dec (n div 10) @ [digit_char (n mod 10)])"

declare nat_dec.simps [simp del]

definition zero_pad :: "nat \<Rightarrow> string \<Rightarrow> string" where
  "zero_pad w s = replicate (w - length s) CHR ''0'' @ s"

text \<open>The verbs \<open>%d\<close> and \<open>%0wd\<close>; the sign counts towards the width.\<close>

definition fmt_d :: "int \<Rightarrow> string" where
  "fmt_d i = (if i < 0 then CHR ''-'' # nat_dec (nat (- i)) else nat_dec (nat i))"

definition fmt_0d :: "nat \<Rightarrow> int \<Rightarrow> string" where
  "fmt_0d w i = (if i < 0 then CHR ''-'' # zero_pad (w - 1) (nat_dec (nat (- i)))
                 else zero_pad w (nat_dec (nat i)))"

definition fmt_q :: "string \<Rightarrow> string" where
  "fmt_q s = CHR 0x22 # concat (map (\<lambda>c. if c = CHR 0x22 \<or> c = CHR 0x5C then [CHR 0x5C, c] else [c]) s)
     @ [CHR 0x22]"

definition is_digit :: "char \<Rightarrow> bool" where
  "is_digit c \<longleftrightarrow> (let n = (of_char c :: nat) in 48 \<le> n \<and> n \<le> 57)"

definition digit_val :: "char \<Rightarrow> nat" where
  "digit_val c = of_char c - 48"

definition dec_val :: "string \<Rightarrow> nat" where
  "dec_val s = foldl (\<lambda>n c. 10 * n + digit_val c) 0 s"

text \<open>\<open>strconv.Atoi\<close>: an optional sign, decimal digits only, in the range of a 64-bit \<open>int\<close>.\<close>

definition atoi_abs :: "string \<Rightarrow> nat option" where
  "atoi_abs s = (if s \<noteq> [] \<and> list_all is_digit s then Some (dec_val s) else None)"

definition atoi :: "string \<Rightarrow> int option" where
  "atoi s =
     (case s of
        [] \<Rightarrow> None
      | c # cs \<Rightarrow>
          (let neg = (c = CHR ''-'');
               body = (if c = CHR ''-'' \<or> c = CHR ''+'' then cs else s)
           in case atoi_abs body of
                None \<Rightarrow> None
              | Some n \<Rightarrow>
                  (let i = (if neg then - int n else int n)
                   in if - (2 ^ 63) \<le> i \<and> i < 2 ^ 63 then Some i else None)))"

subsection \<open>Facts about formatting\<close>

lemma digit_val_digit_char: "n < 10 \<Longrightarrow> digit_val (digit_char n) = n"
  by (simp add: digit_val_def digit_char_def)

lemma is_digit_digit_char: "n < 10 \<Longrightarrow> is_digit (digit_char n)"
  by (simp add: is_digit_def digit_char_def Let_def)

lemma dec_val_snoc: "dec_val (s @ [c]) = 10 * dec_val s + digit_val c"
  by (simp add: dec_val_def)

lemma dec_val_nat_dec: "dec_val (nat_dec n) = n"
proof (induction n rule: nat_dec.induct)
  case (1 n)
  show ?case
  proof (cases "n < 10")
    case True
    then show ?thesis
      by (subst nat_dec.simps) (simp add: dec_val_def digit_val_digit_char)
  next
    case False
    with "1.IH" have "dec_val (nat_dec (n div 10)) = n div 10" by simp
    with False show ?thesis
      by (subst nat_dec.simps) (simp add: dec_val_snoc digit_val_digit_char)
  qed
qed

lemma nat_dec_digits: "list_all is_digit (nat_dec n)"
proof (induction n rule: nat_dec.induct)
  case (1 n)
  then show ?case
    by (subst nat_dec.simps) (auto simp: is_digit_digit_char)
qed

lemma nat_dec_not_Nil: "nat_dec n \<noteq> []"
  by (subst nat_dec.simps) simp

lemma dec_val_zeros: "dec_val (replicate k CHR ''0'' @ s) = dec_val s"
  by (induction k) (simp_all add: dec_val_def digit_val_def)

lemma zero_pad_digits: "list_all is_digit s \<Longrightarrow> list_all is_digit (zero_pad w s)"
  by (auto simp: zero_pad_def list_all_iff is_digit_def)

lemma dec_val_fmt_0d: "0 \<le> i \<Longrightarrow> dec_val (fmt_0d w i) = nat i"
  by (simp add: fmt_0d_def zero_pad_def dec_val_zeros dec_val_nat_dec)

lemma fmt_0d_inj:
  assumes "0 \<le> i" and "0 \<le> j" and "fmt_0d w i = fmt_0d w j"
  shows "i = j"
  using assms by (metis dec_val_fmt_0d eq_nat_nat_iff)

lemma digit_not_sign: "is_digit c \<Longrightarrow> c \<noteq> CHR ''-'' \<and> c \<noteq> CHR ''+''"
  by (auto simp: is_digit_def)

lemma atoi_digits:
  assumes "s \<noteq> []" and "list_all is_digit s" and "int (dec_val s) < 2 ^ 63"
  shows "atoi s = Some (int (dec_val s))"
proof (cases s)
  case Nil
  with assms(1) show ?thesis by simp
next
  case (Cons c cs)
  with assms(2) have "c \<noteq> CHR ''-'' \<and> c \<noteq> CHR ''+''"
    by (simp add: digit_not_sign)
  moreover have "- (2 ^ 63) \<le> int (dec_val s)"
    by (rule order_trans [of _ 0]) simp_all
  ultimately show ?thesis
    using Cons assms by (simp add: atoi_def atoi_abs_def Let_def)
qed

lemma atoi_fmt_0d:
  assumes "0 \<le> i" and "i < 2 ^ 63"
  shows "atoi (fmt_0d w i) = Some i"
proof -
  have "fmt_0d w i \<noteq> []" and "list_all is_digit (fmt_0d w i)"
    using assms(1) nat_dec_not_Nil [of "nat i"]
    by (simp_all add: fmt_0d_def zero_pad_digits nat_dec_digits) (simp add: zero_pad_def)
  moreover have "int (dec_val (fmt_0d w i)) = i"
    using assms(1) by (simp add: dec_val_fmt_0d)
  ultimately show ?thesis
    using assms(2) by (simp add: atoi_digits)
qed

lemma fmt_0d_zero: "0 \<le> i \<Longrightarrow> fmt_0d 0 i = fmt_d i"
  by (simp add: fmt_0d_def fmt_d_def zero_pad_def)

lemma atoi_fmt_d_nonneg: "0 \<le> i \<Longrightarrow> i < 2 ^ 63 \<Longrightarrow> atoi (fmt_d i) = Some i"
  using atoi_fmt_0d [of i 0] by (simp add: fmt_0d_zero)

lemma fmt_d_digits: "0 \<le> i \<Longrightarrow> list_all is_digit (fmt_d i)"
  by (simp add: fmt_d_def nat_dec_digits)

subsection \<open>Facts about prefixes, splitting and joining\<close>

lemma dropWhile_idem [simp]: "dropWhile P (dropWhile P xs) = dropWhile P xs"
  by (induction xs) auto

lemma trim_space_idem: "trim_space (trim_space s) = trim_space s"
proof -
  let ?ys = "rev (dropWhile is_space (rev (dropWhile is_space s)))"
  have "dropWhile is_space ?ys = ?ys"
  proof (cases ?ys)
    case (Cons y ys)
    obtain zs where zs: "dropWhile is_space s = ?ys @ zs"
      by (metis dropWhile_eq_drop rev_append rev_rev_ident takeWhile_dropWhile_id)
    then have "hd (dropWhile is_space s) = y" using Cons by simp
    then have "\<not> is_space y" using hd_dropWhile [of is_space s] zs Cons by (metis Nil_is_append_conv dropWhile_eq_Nil_conv list.distinct(1))
    then show ?thesis using Cons by simp
  next
    case Nil
    show ?thesis unfolding Nil by simp
  qed
  then show ?thesis by (simp add: trim_space_def)
qed

lemma trim_space_ends:
  assumes "s \<noteq> []" and "\<not> is_space (hd s)" and "\<not> is_space (last s)"
  shows "trim_space s = s"
proof -
  have "dropWhile is_space s = s" using assms(1,2) by (cases s) auto
  moreover have "dropWhile is_space (rev s) = rev s" using assms(1,3) by (cases "rev s") (auto simp: hd_rev [symmetric])
  ultimately show ?thesis by (simp add: trim_space_def)
qed

lemma trim_space_last:
  assumes "trim_space s = s" and "s \<noteq> []"
  shows "\<not> is_space (last s)"
proof -
  define zs where "zs = dropWhile is_space (rev (dropWhile is_space s))"
  have "trim_space s = rev zs" by (simp add: trim_space_def zs_def)
  then have r: "rev zs = s" using assms(1) by simp
  then have "zs \<noteq> []" using assms(2) by auto
  then have "\<not> is_space (hd zs)" using hd_dropWhile [of is_space] unfolding zs_def by (metis dropWhile_eq_Nil_conv)
  moreover have "hd zs = last s" using r \<open>zs \<noteq> []\<close> by (metis last_rev)
  ultimately show ?thesis by simp
qed

lemma has_prefix_iff: "has_prefix s p \<longleftrightarrow> (\<exists>t. s = p @ t)"
  by (induction p arbitrary: s) (auto split: list.splits)

lemma has_prefix_append [simp]: "has_prefix (p @ t) p"
  by (auto simp: has_prefix_iff)

lemma has_prefix_refl [simp]: "has_prefix s s"
  by (auto simp: has_prefix_iff)

lemma trim_prefix_append [simp]: "trim_prefix (p @ t) p = t"
  by (simp add: trim_prefix_def)

lemma has_suffix_iff: "has_suffix s p \<longleftrightarrow> (\<exists>t. s = t @ p)"
  unfolding has_suffix_def has_prefix_iff by (metis rev_append rev_rev_ident)

lemma split_on_not_Nil: "split_on c s \<noteq> []"
  by (induction s) (auto split: list.splits)

lemma split_on_absent: "c \<notin> set s \<Longrightarrow> split_on c s = [s]"
  by (induction s) auto

lemma split_on_append: "c \<notin> set s \<Longrightarrow> split_on c (s @ c # t) = s # split_on c t"
  by (induction s) auto

lemma split_on_parts: "p \<in> set (split_on c s) \<Longrightarrow> c \<notin> set p"
proof (induction s arbitrary: p)
  case Nil
  then show ?case by simp
next
  case (Cons x xs)
  then show ?case
    by (cases "split_on c xs") (auto split: if_splits)
qed

lemma join_split: "join_with [c] (split_on c s) = s"
proof (induction s)
  case Nil
  then show ?case by simp
next
  case (Cons x xs)
  then show ?case
    by (cases "split_on c xs"; cases "tl (split_on c xs)") (auto simp: split_on_not_Nil)
qed

lemma split_join:
  "ps \<noteq> [] \<Longrightarrow> \<forall>p \<in> set ps. c \<notin> set p \<Longrightarrow> split_on c (join_with [c] ps) = ps"
  by (induction "[c]" ps rule: join_with.induct) (auto simp: split_on_absent split_on_append)

subsection \<open>Facts about the replacer\<close>

definition separator_free :: "string \<Rightarrow> bool" where
  "separator_free s \<longleftrightarrow> list_all (\<lambda>c. \<not> is_separator c) s \<and> (\<nexists>a b. s = a @ ''..'' @ b)"

fun no_dotdot :: "string \<Rightarrow> bool" where
  "no_dotdot [] \<longleftrightarrow> True"
| "no_dotdot (c # cs) \<longleftrightarrow> \<not> (c = CHR ''.'' \<and> has_prefix cs [CHR ''.'']) \<and> no_dotdot cs"

lemma no_dotdot_append: "no_dotdot (a @ b) \<Longrightarrow> no_dotdot b"
  by (induction a) auto

lemma no_dotdot_split: "no_dotdot s \<Longrightarrow> s \<noteq> a @ ''..'' @ b"
  using no_dotdot_append [of a "''..'' @ b"] by auto

lemma has_prefix_dot: "has_prefix s [c] \<longleftrightarrow> (\<exists>t. s = c # t)"
  by (cases s) auto

lemma replace_separators_hd_dot:
  "has_prefix (replace_separators s) [CHR ''.''] \<Longrightarrow> has_prefix s [CHR ''.'']"
  by (cases s) (auto split: if_splits)

lemma replace_separators_no_dotdot: "no_dotdot (replace_separators s)"
  by (induction s rule: replace_separators.induct) (auto simp del: has_prefix.simps dest: replace_separators_hd_dot)

lemma replace_separators_chars: "list_all (\<lambda>c. \<not> is_separator c) (replace_separators s)"
  by (induction s rule: replace_separators.induct) (auto simp: is_separator_def)

lemma replace_separators_free: "separator_free (replace_separators s)"
  unfolding separator_free_def
  using replace_separators_chars no_dotdot_split [OF replace_separators_no_dotdot] by blast

lemma replace_separators_Nil: "replace_separators s = [] \<longleftrightarrow> s = []"
  by (cases s) auto

end
