(* ===== verification/Json.thy ===== *)
theory Json
  imports Complex_Main GoStrings
begin

section \<open>Decoded JSON values\<close>

text \<open>
  Go's \<open>any\<close> as \<open>encoding/json\<close> produces it: the metadata of runs and attempts and the outputs
  of stages are trees of these values.  A number is a rational here; the source only stores and
  forwards the numbers it finds in such trees.  \<open>JTime\<close> is a \<open>time.Time\<close> put into such a tree
  by the source, which is encoded when the tree is written.  A type assertion \<open>v, ok := x.(T)\<close> is an option, and
  with the \<open>ok\<close> ignored it gives the zero value.  A \<open>map[string]any\<close> variable is
  \<open>jmap option\<close>, with \<open>None\<close> for the nil map.
\<close>

datatype json =
    JNull
  | JBool bool
  | JNum rat
  | JStr string
  | JArr "json list"
  | JObj "(string \<times> json) list"
  | JTime int

type_synonym jmap = "json gomap"

fun as_str :: "json \<Rightarrow> string option" where
  "as_str (JStr s) = Some s"
| "as_str _ = None"

fun as_bool :: "json \<Rightarrow> bool option" where
  "as_bool (JBool b) = Some b"
| "as_bool _ = None"

fun as_arr :: "json \<Rightarrow> json list option" where
  "as_arr (JArr xs) = Some xs"
| "as_arr _ = None"

fun as_obj :: "json \<Rightarrow> jmap option" where
  "as_obj (JObj m) = Some m"
| "as_obj _ = None"

text \<open>\<open>m[k].(T)\<close> on a possibly missing key.\<close>

definition jget_str :: "jmap \<Rightarrow> string \<Rightarrow> string" where
  "jget_str m k = (case Option.bind (gm_get m k) as_str of None \<Rightarrow> [] | Some s \<Rightarrow> s)"

definition jget_bool :: "jmap \<Rightarrow> string \<Rightarrow> bool option" where
  "jget_bool m k = Option.bind (gm_get m k) as_bool"

definition jget_arr :: "jmap \<Rightarrow> string \<Rightarrow> json list option" where
  "jget_arr m k = Option.bind (gm_get m k) as_arr"

definition jget_obj :: "jmap \<Rightarrow> string \<Rightarrow> jmap option" where
  "jget_obj m k = Option.bind (gm_get m k) as_obj"

text \<open>Reading through a map that may be nil.\<close>

definition meta_get :: "jmap option \<Rightarrow> string \<Rightarrow> json option" where
  "meta_get m k = (case m of None \<Rightarrow> None | Some o' \<Rightarrow> gm_get o' k)"

definition meta_obj :: "jmap option \<Rightarrow> string \<Rightarrow> jmap option" where
  "meta_obj m k = Option.bind (meta_get m k) as_obj"

definition jstrs :: "string list \<Rightarrow> json" where
  "jstrs xs = JArr (map JStr xs)"

lemma meta_get_None [simp]: "meta_get None k = None"
  by (simp add: meta_get_def)

lemma meta_get_Some [simp]: "meta_get (Some m) k = gm_get m k"
  by (simp add: meta_get_def)

subsection \<open>Amounts in messages\<close>

text \<open>The verb \<open>%.6f\<close>: rounded to the nearest millionth, ties to even.\<close>

definition round_half_even :: "rat \<Rightarrow> int" where
  "round_half_even x =
     (let f = \<lfloor>x\<rfloor>; d = x - of_int f
      in if d < 1 / 2 then f else if d > 1 / 2 then f + 1 else if even f then f else f + 1)"

definition fmt_6f :: "rat \<Rightarrow> string" where
  "fmt_6f r =
     (let n = round_half_even (\<bar>r\<bar> * 1000000)
      in (if r < 0 then ''-'' else []) @ fmt_d (n div 1000000) @ ''.'' @ fmt_0d 6 (n mod 1000000))"

end
