(* ===== verification/Model.thy ===== *)
theory Model
  imports Json
begin

section \<open>The data model (internal/model/types.go)\<close>

text \<open>
  Every struct of \<open>internal/model/types.go\<close> that the modelled code reads or writes is a record
  here, field by field and in the source's order, and its methods follow.  The fields carry a
  prefix per struct, since Isabelle's field names are global.  A \<open>*time.Time\<close> is
  \<open>time option\<close>; a \<open>time.Time\<close> is the number of nanoseconds since Go's zero time, so
  \<open>IsZero\<close> is \<open>= 0\<close>.  A float64 amount is a rational: the float rounding of
  sums and products is not modelled.  JSON schemas (\<open>json.RawMessage\<close>) are byte strings.
\<close>

type_synonym time = int

abbreviation IssueLabelRequested :: string where "IssueLabelRequested \<equiv> ''delivery/requested''"
abbreviation IssueLabelActive :: string where "IssueLabelActive \<equiv> ''delivery/active''"
abbreviation IssueLabelBlocked :: string where "IssueLabelBlocked \<equiv> ''delivery/blocked''"
abbreviation IssueLabelAwaitingApproval :: string where
  "IssueLabelAwaitingApproval \<equiv> ''delivery/awaiting-approval''"
abbreviation IssueLabelCompleted :: string where "IssueLabelCompleted \<equiv> ''delivery/completed''"
abbreviation IssueLabelFailed :: string where "IssueLabelFailed \<equiv> ''delivery/failed''"

abbreviation RunStatusPending :: string where "RunStatusPending \<equiv> ''pending''"
abbreviation RunStatusActive :: string where "RunStatusActive \<equiv> ''active''"
abbreviation RunStatusAwaitingApproval :: string where
  "RunStatusAwaitingApproval \<equiv> ''awaiting_approval''"
abbreviation RunStatusCompleted :: string where "RunStatusCompleted \<equiv> ''completed''"
abbreviation RunStatusFailed :: string where "RunStatusFailed \<equiv> ''failed''"

abbreviation AttemptStatusPending :: string where "AttemptStatusPending \<equiv> ''pending''"
abbreviation AttemptStatusRunning :: string where "AttemptStatusRunning \<equiv> ''running''"
abbreviation AttemptStatusSucceeded :: string where "AttemptStatusSucceeded \<equiv> ''succeeded''"
abbreviation AttemptStatusFailed :: string where "AttemptStatusFailed \<equiv> ''failed''"
abbreviation AttemptStatusBlocked :: string where "AttemptStatusBlocked \<equiv> ''blocked''"

subsection \<open>Execution identities and stage surfaces\<close>

type_synonym execution_identity = string
type_synonym stage_surface = string

abbreviation ExecutionIdentityAgent :: execution_identity where
  "ExecutionIdentityAgent \<equiv> ''agent''"
abbreviation ExecutionIdentityGenerator :: execution_identity where
  "ExecutionIdentityGenerator \<equiv> ''generator''"
abbreviation ExecutionIdentityGoverned :: execution_identity where
  "ExecutionIdentityGoverned \<equiv> ''governed''"

definition identity_valid :: "execution_identity \<Rightarrow> bool" where
  "identity_valid i \<longleftrightarrow>
     i = ExecutionIdentityAgent \<or> i = ExecutionIdentityGenerator \<or> i = ExecutionIdentityGoverned"

abbreviation StageSurfaceWorkspace :: stage_surface where "StageSurfaceWorkspace \<equiv> ''workspace''"
abbreviation StageSurfaceComponents :: stage_surface where "StageSurfaceComponents \<equiv> ''components''"
abbreviation StageSurfaceJournal :: stage_surface where "StageSurfaceJournal \<equiv> ''journal''"
abbreviation StageSurfaceGitOps :: stage_surface where "StageSurfaceGitOps \<equiv> ''gitops''"

subsection \<open>Delivery targets\<close>

record repo_target =
  rt_project_path :: string
  rt_default_branch :: string
  rt_working_branch_prefix :: string
  rt_ref :: string
  rt_materialization_path :: string

record path_ownership_rule =
  por_identity :: execution_identity
  por_paths :: "string list"
  por_mutable :: bool
  por_description :: string

record component_repository =
  cr_repo :: repo_target
  cr_ownership :: "path_ownership_rule list"

record application_release =
  ar_artifact_name :: string
  ar_image_repo :: string

record infrastructure_change =
  ic_ref :: string
  ic_gitops_only :: bool
  ic_terraform_root :: string

record database_change =
  dbc_bundle_ref :: string
  dbc_compatibility :: string
  dbc_gitops_managed_job :: bool

record release_definition =
  rd_application :: application_release
  rd_infrastructure :: infrastructure_change
  rd_database :: database_change

record delivery_component =
  dc_name :: string
  dc_kind :: string
  dc_deployable :: bool
  dc_depends_on :: "string list"
  dc_repo :: repo_target
  dc_repositories :: "component_repository list"
  dc_ownership :: "path_ownership_rule list"
  dc_release :: release_definition

record documentation_policy =
  dp_required :: bool
  dp_docs_component :: string
  dp_required_kinds :: "string list"

record journal_target =
  jt_name :: string
  jt_repo :: repo_target
  jt_path :: string
  jt_strategy :: string
  jt_description :: string

record gitops_target =
  gt_project_path :: string
  gt_environment :: string
  gt_path :: string
  gt_promotion_branch :: string
  gt_cluster :: string
  gt_ref :: string
  gt_materialization_path :: string

record runtime_secret_ref =
  rsr_name :: string
  rsr_provider :: string
  rsr_ref :: string

record rollback_policy =
  rp_app_auto_rollback :: bool
  rp_infra_rollbackable :: bool
  rp_db_rollbackable :: bool

record environment_target =
  et_name :: string
  et_gitops_repo :: gitops_target
  et_approval_required :: bool
  et_rollout_strategy :: string
  et_runtime_secret_refs :: "runtime_secret_ref list"
  et_rollback_policy :: rollback_policy

record promotion_targets =
  pt_local :: environment_target
  pt_dev :: environment_target
  pt_prod :: environment_target

record delivery_target =
  dt_name :: string
  dt_primary_component :: string
  dt_selected_components :: "string list"
  dt_deploy_as_unit :: bool
  dt_documentation :: documentation_policy
  dt_journal :: journal_target
  dt_application_repo :: repo_target
  dt_components :: "delivery_component gomap"
  dt_environments :: promotion_targets
  dt_release :: release_definition

subsection \<open>Work orders and issues\<close>

record inspection_point =
  ip_name :: string
  ip_category :: string
  ip_description :: string
  ip_immutable :: bool
  ip_readable_by_agent :: bool
  ip_executable_by_agent :: bool

record testing_policy =
  tp_strategy :: string
  tp_immutable :: bool
  tp_readable_by_agent :: bool
  tp_executable_by_agent :: bool
  tp_inspection_points :: "inspection_point list"

record issuer_authority =
  ia_can_create_pipeline :: bool
  ia_roles :: "string list"

record work_order_translation =
  wt_translator :: string
  wt_version :: string
  wt_status :: string
  wt_warnings :: "string list"

record work_order =
  wo_id :: string
  wo_source_issue_id :: string
  wo_issue_type :: string
  wo_requested_outcome :: string
  wo_policy_profile :: string
  wo_pipeline_template :: string
  wo_issuer_authority :: issuer_authority
  wo_testing :: testing_policy
  wo_delivery :: delivery_target
  wo_translation :: work_order_translation

record approval_gate =
  ag_label :: string
  ag_approved :: bool
  ag_approved_by :: string
  ag_approved_at :: "time option"

record artifact_ref =
  af_name :: string
  af_uri :: string
  af_digest :: string
  af_producer_stage :: string
  af_retention_policy :: string
  af_metadata :: "jmap option"

record delivery_issue =
  di_id :: string
  di_project_id :: string
  di_iid :: int
  di_title :: string
  di_description :: string
  di_labels :: "string list"
  di_work_order :: work_order
  di_target :: delivery_target
  di_requested_outcome :: string
  di_policy_profile :: string
  di_pipeline_template :: string
  di_approval :: approval_gate
  di_merge_requests :: "string list"
  di_artifacts :: "artifact_ref list"
  di_metadata :: "jmap option"
  di_updated_at :: time

subsection \<open>Stage specifications\<close>

record tooling_repo =
  tr_url :: string
  tr_ref :: string

record retry_policy =
  rtp_max_attempts :: int
  rtp_backoff_secs :: int

record artifact_policy =
  ap_required :: "string list"
  ap_retention :: string
  ap_publish_to_gitlab :: bool
  ap_signed_summaries :: bool
  ap_attach_manifests :: bool

record runtime_user_spec =
  ru_mode :: string
  ru_os_user :: string
  ru_container_user :: string
  ru_enforcement :: string

record stage_permissions =
  sp_writable :: "string list"
  sp_repo_control :: "string list"
  sp_network :: string
  sp_runtime_user :: runtime_user_spec

record stage_container =
  sc_run_as :: execution_identity
  sc_write_as :: execution_identity
  sc_permissions :: stage_permissions
  sc_materialize :: "string list"

record stage_transition =
  st_on_success :: "string list"
  st_on_failure :: "string list"

record stage_rollback_plan =
  srp_stage :: string
  srp_policy :: string

record stage_signal_profile =
  ssg_failure_severity :: string

record stage_stats_profile =
  ssp_model :: string
  ssp_tool_calls :: int
  ssp_tooling_usd :: rat
  ssp_expected_artifacts :: int

record stage_output_artifact =
  soa_name :: string
  soa_source :: string

record stage_success_criteria =
  ssc_result_status :: string
  ssc_require_summary :: bool
  ssc_required_outputs :: "string list"
  ssc_required_report_meta :: "string list"

record operation_step =
  os_name :: string
  os_command :: "string list"
  os_cwd :: string

record stage_runtime =
  sr_queue_mode :: string
  sr_environment :: string
  sr_summary :: string
  sr_success_criteria :: stage_success_criteria
  sr_report_stages :: "string list"
  sr_trigger_on_success :: "string list"
  sr_trigger_on_failure :: "string list"
  sr_transitions :: stage_transition
  sr_checkpoint_status :: string
  sr_rollback :: stage_rollback_plan
  sr_signal :: stage_signal_profile
  sr_stats :: stage_stats_profile
  sr_output_artifacts :: "stage_output_artifact list"

record stage_spec =
  ss_name :: string
  ss_operation :: string
  ss_operation_config :: "jmap option"
  ss_runtime :: stage_runtime
  ss_version :: string
  ss_tooling_repo :: tooling_repo
  ss_prompt_file :: string
  ss_execution_identity :: execution_identity
  ss_run_as :: execution_identity
  ss_write_as :: execution_identity
  ss_permissions :: stage_permissions
  ss_container :: stage_container
  ss_allowed_secrets :: "string list"
  ss_gitlab_scopes :: "string list"
  ss_input_schema :: string
  ss_output_schema :: string
  ss_artifact_policy :: artifact_policy
  ss_timeout_seconds :: int
  ss_retry_policy :: retry_policy
  ss_max_parallelism :: int
  ss_dependencies :: "string list"
  ss_approval_required :: bool
  ss_entrypoint :: "string list"

text \<open>The accessors of \<open>StageSpec\<close>; only the ones below look past the stored fields.\<close>

definition container_config :: "stage_spec \<Rightarrow> stage_container" where
  "container_config s = ss_container s"

definition run_as_identity :: "stage_spec \<Rightarrow> execution_identity" where
  "run_as_identity s = sc_run_as (container_config s)"

definition write_as_identity :: "stage_spec \<Rightarrow> execution_identity" where
  "write_as_identity s = sc_write_as (container_config s)"

definition queue_mode :: "stage_spec \<Rightarrow> string" where
  "queue_mode s = sr_queue_mode (ss_runtime s)"

definition spec_environment :: "stage_spec \<Rightarrow> string" where
  "spec_environment s = trim_space (sr_environment (ss_runtime s))"

definition summary_text :: "stage_spec \<Rightarrow> string" where
  "summary_text s = trim_space (sr_summary (ss_runtime s))"

definition success_criteria_contract :: "stage_spec \<Rightarrow> stage_success_criteria" where
  "success_criteria_contract s = sr_success_criteria (ss_runtime s)"

definition next_stages :: "stage_spec \<Rightarrow> string list" where
  "next_stages s = st_on_success (sr_transitions (ss_runtime s))"

definition failure_stages :: "stage_spec \<Rightarrow> string list" where
  "failure_stages s = st_on_failure (sr_transitions (ss_runtime s))"

definition report_inputs :: "stage_spec \<Rightarrow> string list" where
  "report_inputs s = sr_report_stages (ss_runtime s)"

definition signal_failure_severity :: "stage_spec \<Rightarrow> string" where
  "signal_failure_severity s = trim_space (ssg_failure_severity (sr_signal (ss_runtime s)))"

definition auto_queue :: "stage_spec \<Rightarrow> bool" where
  "auto_queue s \<longleftrightarrow> queue_mode s \<noteq> ''triggered''"

definition approval_checkpoint :: "stage_spec \<Rightarrow> bool" where
  "approval_checkpoint s \<longleftrightarrow>
     trim_space (sr_checkpoint_status (ss_runtime s)) = RunStatusAwaitingApproval"

definition completion_checkpoint :: "stage_spec \<Rightarrow> bool" where
  "completion_checkpoint s \<longleftrightarrow>
     trim_space (sr_checkpoint_status (ss_runtime s)) = RunStatusCompleted"

definition failure_checkpoint :: "stage_spec \<Rightarrow> bool" where
  "failure_checkpoint s \<longleftrightarrow>
     trim_space (sr_checkpoint_status (ss_runtime s)) = RunStatusFailed"

definition allows_surface :: "string list \<Rightarrow> stage_surface \<Rightarrow> bool" where
  "allows_surface values surface \<longleftrightarrow> list_ex (\<lambda>v. equal_fold (trim_space v) surface) values"

definition allows_writable :: "stage_permissions \<Rightarrow> stage_surface \<Rightarrow> bool" where
  "allows_writable p surface = allows_surface (sp_writable p) surface"

definition allows_repo_control :: "stage_permissions \<Rightarrow> stage_surface \<Rightarrow> bool" where
  "allows_repo_control p surface = allows_surface (sp_repo_control p) surface"

definition materializes :: "stage_container \<Rightarrow> stage_surface \<Rightarrow> bool" where
  "materializes c surface = allows_surface (sc_materialize c) surface"

definition materialized_surface :: "stage_spec \<Rightarrow> stage_surface \<Rightarrow> bool" where
  "materialized_surface s surface = materializes (container_config s) surface"

lemma at_most_one_checkpoint:
  "completion_checkpoint s \<Longrightarrow> \<not> failure_checkpoint s \<and> \<not> approval_checkpoint s"
  "failure_checkpoint s \<Longrightarrow> \<not> completion_checkpoint s \<and> \<not> approval_checkpoint s"
  by (simp_all add: completion_checkpoint_def failure_checkpoint_def approval_checkpoint_def)

subsection \<open>Execution plans\<close>

record pipeline_execution_stage =
  pes_name :: string
  pes_spec :: stage_spec
  pes_dependencies :: "string list"
  pes_environment :: string
  pes_queue_mode :: string
  pes_transitions :: stage_transition
  pes_checkpoint :: string
  pes_run_as :: execution_identity
  pes_write_as :: execution_identity
  pes_container :: stage_container
  pes_success_criteria :: stage_success_criteria
  pes_output_artifacts :: "stage_output_artifact list"
  pes_report_stages :: "string list"
  pes_image :: string
  pes_image_digest :: string
  pes_entrypoint :: "string list"

record pipeline_execution_plan =
  pep_schema_version :: string
  pep_run_id :: string
  pep_issue_id :: string
  pep_work_order_id :: string
  pep_issue_type :: string
  pep_pipeline_family :: string
  pep_pipeline_selection :: string
  pep_optimization_goals :: "string list"
  pep_testing :: testing_policy
  pep_delivery_name :: string
  pep_checkpoint :: string
  pep_stages :: "pipeline_execution_stage list"

text \<open>\<open>stagecontainer.RuntimeImage\<close>, which a plan records per stage.\<close>

record runtime_image =
  ri_stage :: string
  ri_ref :: string
  ri_digest :: string

subsection \<open>Runs, attempts and statistics\<close>

record substage_timing =
  sst_name :: string
  sst_duration_ms :: int

record cost_breakdown =
  cb_currency :: string
  cb_compute_usd :: rat
  cb_model_usd :: rat
  cb_tooling_usd :: rat
  cb_storage_usd :: rat
  cb_total_usd :: rat

record usage_metrics =
  um_model :: string
  um_input_tokens :: int
  um_output_tokens :: int
  um_cached_input_tokens :: int
  um_tool_calls :: int
  um_prompt_bytes :: int
  um_output_bytes :: int

record attempt_stats =
  as_stage :: string
  as_worker_id :: string
  as_duration_ms :: int
  as_substages :: "substage_timing list"
  as_cost :: cost_breakdown
  as_usage :: usage_metrics
  as_evidence_count :: int
  as_artifact_count :: int

record substage_total =
  sto_name :: string
  sto_duration_ms :: int

record stage_totals =
  stt_stage :: string
  stt_attempts :: int
  stt_completed_attempts :: int
  stt_failed_attempts :: int
  stt_blocked_attempts :: int
  stt_duration_ms :: int
  stt_artifact_count :: int
  stt_total_cost_usd :: rat
  stt_substages :: "substage_total list"

record run_stats =
  rs_currency :: string
  rs_total_cost_usd :: rat
  rs_total_duration_ms :: int
  rs_completed_attempts :: int
  rs_failed_attempts :: int
  rs_blocked_attempts :: int
  rs_artifact_count :: int
  rs_stage_count :: int
  rs_stages :: "stage_totals list"

text \<open>\<open>StageResult.Outputs\<close> is raw JSON; the decoder that reads it is a parameter where it is used.\<close>

record stage_result =
  sres_status :: string
  sres_summary :: string
  sres_outputs :: string
  sres_next_signals :: "string list"
  sres_stats :: attempt_stats

record run_request =
  run_id :: string
  run_issue_id :: string
  run_work_order :: work_order
  run_pipeline_template :: string
  run_target :: delivery_target
  run_status :: string
  run_stats_of :: run_stats
  run_created_at :: time
  run_updated_at :: time
  run_metadata :: "jmap option"

record stage_attempt =
  att_id :: string
  att_run_id :: string
  att_stage :: string
  att_attempt :: int
  att_status :: string
  att_worker_id :: string
  att_lease_expires_at :: "time option"
  att_started_at :: "time option"
  att_last_heartbeat :: "time option"
  att_finished_at :: "time option"
  att_result :: "stage_result option"
  att_stats :: attempt_stats
  att_artifacts :: "artifact_ref list"
  att_metadata :: "jmap option"

record stage_report =
  srep_schema_version :: string
  srep_run_id :: string
  srep_issue_id :: string
  srep_stage :: string
  srep_attempt :: int
  srep_status :: string
  srep_summary :: string
  srep_stats :: attempt_stats
  srep_artifacts :: "artifact_ref list"
  srep_outputs :: json
  srep_metadata :: "jmap option"
  srep_started_at :: "time option"
  srep_finished_at :: "time option"
  srep_created_at :: time

record issue_comment =
  ico_id :: string
  ico_issue_id :: string
  ico_body :: string
  ico_created_at :: time

text \<open>\<open>TrackedIssue\<close> embeds the \<open>DeliveryIssue\<close>.\<close>

record tracked_issue =
  ti_issue :: delivery_issue
  ti_comments :: "issue_comment list"

record persisted_state =
  ps_issues :: "tracked_issue gomap"
  ps_runs :: "run_request gomap"
  ps_attempts :: "stage_attempt gomap"
  ps_counters :: "int gomap"

subsection \<open>Zero values\<close>

definition zero_repo_target :: repo_target where
  "zero_repo_target = \<lparr>rt_project_path = [], rt_default_branch = [],
     rt_working_branch_prefix = [], rt_ref = [], rt_materialization_path = []\<rparr>"

definition zero_release_definition :: release_definition where
  "zero_release_definition = \<lparr>rd_application = \<lparr>ar_artifact_name = [], ar_image_repo = []\<rparr>,
     rd_infrastructure = \<lparr>ic_ref = [], ic_gitops_only = False, ic_terraform_root = []\<rparr>,
     rd_database = \<lparr>dbc_bundle_ref = [], dbc_compatibility = [], dbc_gitops_managed_job = False\<rparr>\<rparr>"

definition zero_delivery_component :: delivery_component where
  "zero_delivery_component = \<lparr>dc_name = [], dc_kind = [], dc_deployable = False,
     dc_depends_on = [], dc_repo = zero_repo_target, dc_repositories = [], dc_ownership = [],
     dc_release = zero_release_definition\<rparr>"

definition zero_gitops_target :: gitops_target where
  "zero_gitops_target = \<lparr>gt_project_path = [], gt_environment = [], gt_path = [],
     gt_promotion_branch = [], gt_cluster = [], gt_ref = [], gt_materialization_path = []\<rparr>"

definition zero_rollback_policy :: rollback_policy where
  "zero_rollback_policy = \<lparr>rp_app_auto_rollback = False, rp_infra_rollbackable = False,
     rp_db_rollbackable = False\<rparr>"

definition zero_environment_target :: environment_target where
  "zero_environment_target = \<lparr>et_name = [], et_gitops_repo = zero_gitops_target,
     et_approval_required = False, et_rollout_strategy = [], et_runtime_secret_refs = [],
     et_rollback_policy = zero_rollback_policy\<rparr>"

definition zero_journal_target :: journal_target where
  "zero_journal_target = \<lparr>jt_name = [], jt_repo = zero_repo_target, jt_path = [],
     jt_strategy = [], jt_description = []\<rparr>"

definition zero_delivery_target :: delivery_target where
  "zero_delivery_target = \<lparr>dt_name = [], dt_primary_component = [], dt_selected_components = [],
     dt_deploy_as_unit = False,
     dt_documentation = \<lparr>dp_required = False, dp_docs_component = [], dp_required_kinds = []\<rparr>,
     dt_journal = zero_journal_target, dt_application_repo = zero_repo_target, dt_components = [],
     dt_environments = \<lparr>pt_local = zero_environment_target, pt_dev = zero_environment_target,
       pt_prod = zero_environment_target\<rparr>,
     dt_release = zero_release_definition\<rparr>"

definition zero_testing_policy :: testing_policy where
  "zero_testing_policy = \<lparr>tp_strategy = [], tp_immutable = False, tp_readable_by_agent = False,
     tp_executable_by_agent = False, tp_inspection_points = []\<rparr>"

definition zero_work_order :: work_order where
  "zero_work_order = \<lparr>wo_id = [], wo_source_issue_id = [], wo_issue_type = [],
     wo_requested_outcome = [], wo_policy_profile = [], wo_pipeline_template = [],
     wo_issuer_authority = \<lparr>ia_can_create_pipeline = False, ia_roles = []\<rparr>,
     wo_testing = zero_testing_policy, wo_delivery = zero_delivery_target,
     wo_translation = \<lparr>wt_translator = [], wt_version = [], wt_status = [], wt_warnings = []\<rparr>\<rparr>"

definition zero_delivery_issue :: delivery_issue where
  "zero_delivery_issue = \<lparr>di_id = [], di_project_id = [], di_iid = 0, di_title = [],
     di_description = [], di_labels = [], di_work_order = zero_work_order,
     di_target = zero_delivery_target, di_requested_outcome = [], di_policy_profile = [],
     di_pipeline_template = [],
     di_approval = \<lparr>ag_label = [], ag_approved = False, ag_approved_by = [], ag_approved_at = None\<rparr>,
     di_merge_requests = [], di_artifacts = [], di_metadata = None, di_updated_at = 0\<rparr>"

definition zero_tracked_issue :: tracked_issue where
  "zero_tracked_issue = \<lparr>ti_issue = zero_delivery_issue, ti_comments = []\<rparr>"

definition zero_stage_permissions :: stage_permissions where
  "zero_stage_permissions = \<lparr>sp_writable = [], sp_repo_control = [], sp_network = [],
     sp_runtime_user = \<lparr>ru_mode = [], ru_os_user = [], ru_container_user = [], ru_enforcement = []\<rparr>\<rparr>"

definition zero_stage_container :: stage_container where
  "zero_stage_container = \<lparr>sc_run_as = [], sc_write_as = [],
     sc_permissions = zero_stage_permissions, sc_materialize = []\<rparr>"

definition zero_stage_runtime :: stage_runtime where
  "zero_stage_runtime = \<lparr>sr_queue_mode = [], sr_environment = [], sr_summary = [],
     sr_success_criteria = \<lparr>ssc_result_status = [], ssc_require_summary = False,
       ssc_required_outputs = [], ssc_required_report_meta = []\<rparr>,
     sr_report_stages = [], sr_trigger_on_success = [], sr_trigger_on_failure = [],
     sr_transitions = \<lparr>st_on_success = [], st_on_failure = []\<rparr>, sr_checkpoint_status = [],
     sr_rollback = \<lparr>srp_stage = [], srp_policy = []\<rparr>, sr_signal = \<lparr>ssg_failure_severity = []\<rparr>,
     sr_stats = \<lparr>ssp_model = [], ssp_tool_calls = 0, ssp_tooling_usd = 0, ssp_expected_artifacts = 0\<rparr>,
     sr_output_artifacts = []\<rparr>"

definition zero_stage_spec :: stage_spec where
  "zero_stage_spec = \<lparr>ss_name = [], ss_operation = [], ss_operation_config = None,
     ss_runtime = zero_stage_runtime, ss_version = [],
     ss_tooling_repo = \<lparr>tr_url = [], tr_ref = []\<rparr>, ss_prompt_file = [],
     ss_execution_identity = [], ss_run_as = [], ss_write_as = [],
     ss_permissions = zero_stage_permissions, ss_container = zero_stage_container,
     ss_allowed_secrets = [], ss_gitlab_scopes = [], ss_input_schema = [], ss_output_schema = [],
     ss_artifact_policy = \<lparr>ap_required = [], ap_retention = [], ap_publish_to_gitlab = False,
       ap_signed_summaries = False, ap_attach_manifests = False\<rparr>,
     ss_timeout_seconds = 0, ss_retry_policy = \<lparr>rtp_max_attempts = 0, rtp_backoff_secs = 0\<rparr>,
     ss_max_parallelism = 0, ss_dependencies = [], ss_approval_required = False,
     ss_entrypoint = []\<rparr>"

definition zero_attempt_stats :: attempt_stats where
  "zero_attempt_stats = \<lparr>as_stage = [], as_worker_id = [], as_duration_ms = 0, as_substages = [],
     as_cost = \<lparr>cb_currency = [], cb_compute_usd = 0, cb_model_usd = 0, cb_tooling_usd = 0,
       cb_storage_usd = 0, cb_total_usd = 0\<rparr>,
     as_usage = \<lparr>um_model = [], um_input_tokens = 0, um_output_tokens = 0,
       um_cached_input_tokens = 0, um_tool_calls = 0, um_prompt_bytes = 0, um_output_bytes = 0\<rparr>,
     as_evidence_count = 0, as_artifact_count = 0\<rparr>"

definition zero_run_stats :: run_stats where
  "zero_run_stats = \<lparr>rs_currency = [], rs_total_cost_usd = 0, rs_total_duration_ms = 0,
     rs_completed_attempts = 0, rs_failed_attempts = 0, rs_blocked_attempts = 0,
     rs_artifact_count = 0, rs_stage_count = 0, rs_stages = []\<rparr>"

definition zero_run_request :: run_request where
  "zero_run_request = \<lparr>run_id = [], run_issue_id = [], run_work_order = zero_work_order,
     run_pipeline_template = [], run_target = zero_delivery_target, run_status = [],
     run_stats_of = zero_run_stats, run_created_at = 0, run_updated_at = 0, run_metadata = None\<rparr>"

definition zero_stage_attempt :: stage_attempt where
  "zero_stage_attempt = \<lparr>att_id = [], att_run_id = [], att_stage = [], att_attempt = 0,
     att_status = [], att_worker_id = [], att_lease_expires_at = None, att_started_at = None,
     att_last_heartbeat = None, att_finished_at = None, att_result = None,
     att_stats = zero_attempt_stats, att_artifacts = [], att_metadata = None\<rparr>"

definition empty_state :: persisted_state where
  "empty_state = \<lparr>ps_issues = [], ps_runs = [], ps_attempts = [], ps_counters = []\<rparr>"

subsection \<open>Methods of issues, runs and delivery targets\<close>

definition run_delivery_target :: "run_request \<Rightarrow> delivery_target" where
  "run_delivery_target r = wo_delivery (run_work_order r)"

definition repo_scope :: "run_request \<Rightarrow> string" where
  "repo_scope r = rt_project_path (dt_application_repo (run_delivery_target r))"

definition service_scope :: "run_request \<Rightarrow> string" where
  "service_scope r =
     (let project_path = trim_space (repo_scope r)
      in if project_path = [] then [] else last (split_on CHR ''/'' project_path))"

definition environment_target_by_name :: "promotion_targets \<Rightarrow> string \<Rightarrow> environment_target" where
  "environment_target_by_name targets name =
     (if name = ''local'' then pt_local targets
      else if name = ''dev'' then pt_dev targets
      else if name = ''prod'' then pt_prod targets
      else zero_environment_target)"

definition run_environment_target :: "run_request \<Rightarrow> string \<Rightarrow> environment_target" where
  "run_environment_target r name =
     (let target = run_delivery_target r
      in if name = ''local'' then pt_local (dt_environments target)
         else if name = ''dev'' then pt_dev (dt_environments target)
         else if name = ''prod'' then pt_prod (dt_environments target)
         else zero_environment_target)"

definition target_environment :: "delivery_target \<Rightarrow> string \<Rightarrow> environment_target" where
  "target_environment t name = environment_target_by_name (dt_environments t) name"

definition delivery_component_of :: "delivery_target \<Rightarrow> string \<Rightarrow> delivery_component option" where
  "delivery_component_of t name = gm_get (dt_components t) name"

definition all_repositories :: "delivery_component \<Rightarrow> component_repository list" where
  "all_repositories c =
     (if dc_repositories c = [] then [\<lparr>cr_repo = dc_repo c, cr_ownership = []\<rparr>]
      else dc_repositories c)"

definition repository_rules_for ::
  "component_repository \<Rightarrow> execution_identity \<Rightarrow> path_ownership_rule list" where
  "repository_rules_for r i = filter (\<lambda>rule. por_identity rule = i) (cr_ownership r)"

definition component_rules_for ::
  "delivery_component \<Rightarrow> execution_identity \<Rightarrow> path_ownership_rule list" where
  "component_rules_for c i =
     filter (\<lambda>rule. por_identity rule = i) (dc_ownership c) @
     concat (map (\<lambda>r. repository_rules_for r i) (all_repositories c))"

definition selected_component_names :: "delivery_target \<Rightarrow> string list" where
  "selected_component_names t =
     (let names = dt_selected_components t;
          names = (if names = [] \<and> dt_primary_component t \<noteq> [] then [dt_primary_component t] else names)
      in if names = [] then sort (gm_keys (dt_components t)) else names)"

definition selected_delivery_components :: "delivery_target \<Rightarrow> delivery_component list" where
  "selected_delivery_components t =
     List.map_filter (delivery_component_of t) (selected_component_names t)"

definition has_selected_component :: "delivery_target \<Rightarrow> string \<Rightarrow> bool" where
  "has_selected_component t name \<longleftrightarrow> list_ex (\<lambda>s. s = name) (selected_component_names t)"

definition has_ownership_rules :: "delivery_target \<Rightarrow> execution_identity \<Rightarrow> bool" where
  "has_ownership_rules t i \<longleftrightarrow>
     list_ex (\<lambda>c. component_rules_for c i \<noteq> []) (selected_delivery_components t)"

definition target_rules_for ::
  "delivery_target \<Rightarrow> execution_identity \<Rightarrow> path_ownership_rule list" where
  "target_rules_for t i =
     concat (map (\<lambda>c. if dc_name c = [] then [] else component_rules_for c i)
       (selected_delivery_components t))"

definition supports_stage_surface ::
  "delivery_target \<Rightarrow> execution_identity \<Rightarrow> stage_surface \<Rightarrow> string \<Rightarrow> bool" where
  "supports_stage_surface t i surface environment \<longleftrightarrow>
     (if surface = StageSurfaceWorkspace then True
      else if surface = StageSurfaceComponents then has_ownership_rules t i
      else if surface = StageSurfaceJournal then
        jt_strategy (dt_journal t) = ''git'' \<and> rt_project_path (jt_repo (dt_journal t)) \<noteq> []
      else if surface = StageSurfaceGitOps then
        (let target = environment_target_by_name (dt_environments t) environment
         in gt_project_path (et_gitops_repo target) \<noteq> [] \<and> gt_path (et_gitops_repo target) \<noteq> [])
      else False)"

definition supports_execution_identity ::
  "delivery_target \<Rightarrow> execution_identity \<Rightarrow> string \<Rightarrow> bool" where
  "supports_execution_identity t i environment \<longleftrightarrow>
     supports_stage_surface t i StageSurfaceComponents environment \<or>
     supports_stage_surface t i StageSurfaceJournal environment \<or>
     supports_stage_surface t i StageSurfaceGitOps environment"

text \<open>\<open>DocumentationStatus\<close>: required, component, satisfied, reason.\<close>

definition documentation_status :: "delivery_target \<Rightarrow> bool \<times> string \<times> bool \<times> string" where
  "documentation_status t =
     (let policy = dt_documentation t; component = dp_docs_component policy
      in if \<not> dp_required policy then (False, [], True, [])
         else if component = [] then
           (True, [], False,
            ''documentation policy requires an explicit docs_component in the delivery contract'')
         else if delivery_component_of t component = None then
           (True, component, False,
            ''documentation policy requires a docs surface, but no docs component is defined in the delivery object'')
         else if \<not> has_selected_component t component then
           (True, component, False,
            ''documentation policy requires the docs surface to be part of the selected delivery components'')
         else (True, component, True, []))"

definition detect_primary_component :: "delivery_target \<Rightarrow> string" where
  "detect_primary_component t =
     (if dt_primary_component t \<noteq> [] then dt_primary_component t
      else if dt_selected_components t \<noteq> [] then hd (dt_selected_components t)
      else if dt_components t \<noteq> [] then
        (case filter (\<lambda>name. gm_get (dt_components t) name \<noteq> None)
                [''api'', ''console'', ''mobile'', ''config'', ''prompts''] of
           name # _ \<Rightarrow> name
         | [] \<Rightarrow> hd (sort (gm_keys (dt_components t))))
      else [])"

definition environment_target_empty :: "environment_target \<Rightarrow> bool" where
  "environment_target_empty t \<longleftrightarrow>
     et_name t = [] \<and> gt_project_path (et_gitops_repo t) = [] \<and>
     gt_environment (et_gitops_repo t) = [] \<and> gt_path (et_gitops_repo t) = [] \<and>
     gt_promotion_branch (et_gitops_repo t) = [] \<and> gt_cluster (et_gitops_repo t) = [] \<and>
     gt_ref (et_gitops_repo t) = [] \<and> \<not> et_approval_required t \<and> et_rollout_strategy t = [] \<and>
     et_runtime_secret_refs t = [] \<and> et_rollback_policy t = zero_rollback_policy"

definition promotion_targets_empty :: "promotion_targets \<Rightarrow> bool" where
  "promotion_targets_empty t \<longleftrightarrow>
     environment_target_empty (pt_local t) \<and> environment_target_empty (pt_dev t) \<and>
     environment_target_empty (pt_prod t)"

definition documentation_policy_empty :: "documentation_policy \<Rightarrow> bool" where
  "documentation_policy_empty p \<longleftrightarrow>
     \<not> dp_required p \<and> dp_docs_component p = [] \<and> dp_required_kinds p = []"

definition journal_target_empty :: "journal_target \<Rightarrow> bool" where
  "journal_target_empty t \<longleftrightarrow>
     jt_name t = [] \<and> rt_project_path (jt_repo t) = [] \<and> rt_default_branch (jt_repo t) = [] \<and>
     rt_working_branch_prefix (jt_repo t) = [] \<and> rt_ref (jt_repo t) = [] \<and> jt_path t = [] \<and>
     jt_strategy t = [] \<and> jt_description t = []"

definition stats_model :: "stage_spec \<Rightarrow> string" where
  "stats_model s = trim_space (ssp_model (sr_stats (ss_runtime s)))"

definition stats_tool_calls :: "stage_spec \<Rightarrow> int" where
  "stats_tool_calls s = ssp_tool_calls (sr_stats (ss_runtime s))"

definition stats_tooling_usd :: "stage_spec \<Rightarrow> rat" where
  "stats_tooling_usd s = ssp_tooling_usd (sr_stats (ss_runtime s))"

lemma run_environment_target_eq:
  "run_environment_target r name = target_environment (run_delivery_target r) name"
  by (simp add: run_environment_target_def target_environment_def environment_target_by_name_def
      Let_def)

end
