(* ===== verification/Topology.thy ===== *)
theory Topology
  imports Prelude
begin

section \<open>Dependency order: the worklist shared by stages and components\<close>

text \<open>
  \<open>SpecsInOrder\<close> (internal/pipeline/graph.go) and \<open>OrderedSelectedComponentNames\<close>
  (internal/model/types.go) run the same loop: take the first ready name, append it to the
  result, count down the in-degree of each of its dependents, and insert a dependent
  whose in-degree reaches zero into the ready list, which stays sorted.  The loop is
  \<open>kahn\<close>, with the two callers' own in-degree and dependents tables as arguments.  The locale
  \<open>kahn_order\<close> states what a caller's tables must satisfy and proves the order once.
\<close>

subsection \<open>The loop\<close>

fun release :: "string list \<Rightarrow> int gomap \<Rightarrow> string list \<Rightarrow> int gomap \<times> string list" where
  "release [] d ready = (d, ready)"
| "release (child # rest) d ready =
     (let n = gm_get_or 0 d child - 1; d' = gm_put child n d
      in release rest d' (if n = 0 then sort (ready @ [child]) else ready))"

definition open_count :: "int gomap \<Rightarrow> nat" where
  "open_count d = length (filter (\<lambda>e. 0 < snd e) d)"

lemma open_count_put:
  "gm_get_or 0 d k = n + 1 \<Longrightarrow>
   open_count (gm_put k n d) + (if n = 0 then 1 else 0) \<le> open_count d"
  by (induction d)
    (auto simp: open_count_def gm_put_def gm_get_or_def gm_get_def split: if_splits)

lemma release_measure:
  "release cs d ready = (d', ready') \<Longrightarrow>
   length ready' + open_count d' \<le> length ready + open_count d"
proof (induction cs d ready rule: release.induct)
  case (1 d ready)
  then show ?case by simp
next
  case (2 child rest d ready)
  let ?n = "gm_get_or 0 d child - 1"
  have "length ready' + open_count d' \<le>
      length (if ?n = 0 then sort (ready @ [child]) else ready) + open_count (gm_put child ?n d)"
    using "2.IH" [OF refl refl] "2.prems" by (simp add: Let_def)
  also have "\<dots> \<le> length ready + open_count d"
    using open_count_put [of d child ?n] by (simp split: if_splits)
  finally show ?case .
qed

function kahn ::
  "(string \<Rightarrow> string list) \<Rightarrow> int gomap \<Rightarrow> string list \<Rightarrow> string list \<Rightarrow> string list" where
  "kahn kids d [] ordered = ordered"
| "kahn kids d (name # rest) ordered =
     (let (d', ready') = release (kids name) d rest in kahn kids d' ready' (ordered @ [name]))"
  by pat_completeness auto
termination
proof (relation "measure (\<lambda>(kids, d, ready, ordered). length ready + open_count d)", goal_cases)
  case 1
  then show ?case by simp
next
  case (2 kids d name rest ordered r d' ready')
  then have "release (kids name) d rest = (d', ready')" by (cases r) simp
  then show ?case using release_measure by fastforce
qed

subsection \<open>What one release does\<close>

lemma release_counts:
  "fst (release cs d ready) = d' \<Longrightarrow>
   gm_get_or 0 d' n = gm_get_or 0 d n - int (count_list cs n)"
  by (induction cs d ready rule: release.induct)
    (auto simp: Let_def gm_get_or_def split: option.splits)

definition released :: "int gomap \<Rightarrow> string list \<Rightarrow> string \<Rightarrow> bool" where
  "released d cs n \<longleftrightarrow> n \<in> set cs \<and> 0 < gm_get_or 0 d n \<and> gm_get_or 0 d n \<le> int (count_list cs n)"

lemma get_or_put: "gm_get_or z (gm_put k v d) n = (if n = k then v else gm_get_or z d n)"
  by (simp add: gm_get_or_def)

lemma release_ready:
  "mset (snd (release cs d ready)) = mset ready + mset_set {n. released d cs n}"
proof (induction cs d ready rule: release.induct)
  case (1 d ready)
  then show ?case by (simp add: released_def)
next
  case (2 child rest d ready)
  let ?v = "gm_get_or 0 d child - 1"
  let ?d = "gm_put child ?v d"
  have fin: "finite {n. released ?d rest n}"
    by (rule finite_subset [of _ "set rest"]) (auto simp: released_def)
  have once: "gm_get_or 0 d child = 1" if "0 < gm_get_or 0 d child"
    "gm_get_or 0 d child \<le> 1 + int (count_list rest child)" "child \<notin> set rest"
    using that by (simp add: count_list_0_iff)
  have step: "{n. released d (child # rest) n} =
      (if ?v = 0 then insert child {n. released ?d rest n} else {n. released ?d rest n})"
    using once by (auto simp: released_def get_or_put split: if_splits)
  have new: "?v = 0 \<Longrightarrow> child \<notin> {n. released ?d rest n}"
    by (auto simp: released_def get_or_put)
  have "mset (snd (release (child # rest) d ready)) =
      mset (if ?v = 0 then sort (ready @ [child]) else ready) + mset_set {n. released ?d rest n}"
    using "2.IH" [OF refl refl] by (simp add: Let_def)
  then show ?case
    using fin new by (cases "?v = 0") (simp_all add: step)
qed

lemma release_cong:
  assumes "\<And>n. gm_get_or 0 d n = gm_get_or 0 e n"
  shows "snd (release cs d ready) = snd (release cs e ready) \<and>
    (\<forall>n. gm_get_or 0 (fst (release cs d ready)) n = gm_get_or 0 (fst (release cs e ready)) n)"
  using assms
proof (induction cs d ready arbitrary: e rule: release.induct)
  case (1 d ready)
  then show ?case by simp
next
  case (2 child rest d ready)
  have "gm_get_or 0 (gm_put child (gm_get_or 0 d child - 1) d) n =
      gm_get_or 0 (gm_put child (gm_get_or 0 d child - 1) e) n" for n
    by (simp add: get_or_put "2.prems")
  from "2.IH" [OF refl refl this] show ?case
    by (simp add: Let_def "2.prems" [of child])
qed

lemma kahn_cong:
  assumes "\<And>n. gm_get_or 0 d n = gm_get_or 0 e n"
  shows "kahn kids d ready ordered = kahn kids e ready ordered"
  using assms
proof (induction kids d ready ordered arbitrary: e rule: kahn.induct)
  case (1 kids d ordered)
  then show ?case by simp
next
  case (2 kids d name rest ordered)
  show ?case
    using release_cong [OF "2.prems", of "kids name" rest] "2.IH"
    by (simp add: split_beta Let_def) (metis prod.collapse)
qed

subsection \<open>Orders of dependencies\<close>

text \<open>\<open>topo deps seen xs\<close>: every element of \<open>xs\<close> comes after its dependencies.\<close>

fun topo :: "(string \<Rightarrow> string list) \<Rightarrow> string set \<Rightarrow> string list \<Rightarrow> bool" where
  "topo deps seen [] = True"
| "topo deps seen (n # ns) = (set (deps n) \<subseteq> seen \<and> topo deps (insert n seen) ns)"

definition open_deps :: "(string \<Rightarrow> string list) \<Rightarrow> string list \<Rightarrow> string \<Rightarrow> string list" where
  "open_deps deps ordered n = filter (\<lambda>p. p \<notin> set ordered) (deps n)"

definition dep_rel :: "string list \<Rightarrow> (string \<Rightarrow> string list) \<Rightarrow> (string \<times> string) set" where
  "dep_rel nodes deps = {(p, n). n \<in> set nodes \<and> p \<in> set (deps n)}"

definition kahn_inv ::
  "string list \<Rightarrow> (string \<Rightarrow> string list) \<Rightarrow> int gomap \<Rightarrow> string list \<Rightarrow> string list \<Rightarrow> bool" where
  "kahn_inv nodes deps d ready ordered \<longleftrightarrow>
     distinct (ordered @ ready) \<and> topo deps {} ordered \<and>
     (\<forall>n \<in> set nodes. gm_get_or 0 d n = int (length (open_deps deps ordered n))) \<and>
     set ordered \<union> set ready = {n \<in> set nodes. open_deps deps ordered n = []}"

lemma topo_append:
  "topo deps seen (xs @ ys) \<longleftrightarrow> topo deps seen xs \<and> topo deps (seen \<union> set xs) ys"
  by (induction xs arbitrary: seen) (simp_all add: Un_commute)

lemma topo_before:
  "topo deps {} (xs @ n # ys) \<Longrightarrow> p \<in> set (deps n) \<Longrightarrow> p \<in> set xs"
  by (auto simp: topo_append)

lemma distinct_mset_union:
  assumes "mset xs = mset ys + mset_set A" and "finite A" and "distinct ys"
    and "set ys \<inter> A = {}"
  shows "distinct xs"
proof -
  have s: "set xs = set ys \<union> A"
    using arg_cong [OF assms(1), of set_mset] assms(2) by simp
  have "count (mset xs) a = (if a \<in> set xs then 1 else 0)" for a
    using assms(2,3,4) unfolding assms(1) s
    by (auto simp: distinct_count_atmost_1 count_mset_set' disjoint_iff)
  then show ?thesis by (simp add: distinct_count_atmost_1)
qed

lemma count_list_sort: "count_list (sort xs) x = count_list xs x"
  by (metis count_mset mset_sort)

lemma count_list_filter_in: "count_list (filter P xs) x = (if P x then count_list xs x else 0)"
  by (induction xs) auto

lemma open_deps_step:
  "name \<notin> set ordered \<Longrightarrow>
   length (open_deps deps ordered n) =
   length (open_deps deps (ordered @ [name]) n) + count_list (deps n) name"
proof -
  assume "name \<notin> set ordered"
  then have "length (filter (\<lambda>p. p \<notin> set ordered) xs) =
      length (filter (\<lambda>p. p \<notin> set ordered \<and> p \<noteq> name) xs) + count_list xs name" for xs
    by (induction xs) auto
  from this [of "deps n"] show ?thesis
    by (simp add: open_deps_def conj_commute)
qed

lemma topo_rank:
  assumes "topo deps seen xs" and "distinct xs" and "seen \<inter> set xs = {}"
  shows "\<exists>rank. (\<forall>n \<in> set xs. 0 < rank n \<and> (\<forall>p \<in> set (deps n). rank p < rank n)) \<and>
    (\<forall>n. n \<notin> set xs \<longrightarrow> rank n = (0::nat))"
  using assms
proof (induction xs arbitrary: seen rule: rev_induct)
  case Nil
  then show ?case by auto
next
  case (snoc n xs)
  then obtain rank where r: "\<forall>n \<in> set xs. 0 < rank n \<and> (\<forall>p \<in> set (deps n). rank p < rank n)"
    "\<forall>n. n \<notin> set xs \<longrightarrow> rank n = (0::nat)"
    using snoc.IH [of seen] snoc.prems by (auto simp: topo_append)
  have notin: "n \<notin> set (deps m)" if m: "m \<in> set xs" for m
  proof
    assume "n \<in> set (deps m)"
    obtain ys zs where "xs = ys @ m # zs" using m by (meson split_list)
    then show False
      using snoc.prems \<open>n \<in> set (deps m)\<close> by (auto simp: topo_append)
  qed
  have "n \<notin> set (deps n)" using snoc.prems by (auto simp: topo_append)
  have le: "rank p \<le> Max (insert 0 (rank ` set xs))" for p
    using r(2) by (cases "p \<in> set xs") auto
  let ?r = "\<lambda>m. if m = n then Suc (Max (insert 0 (rank ` set xs))) else rank m"
  show ?case
    using r notin \<open>n \<notin> set (deps n)\<close> snoc.prems le
    by (intro exI [of _ ?r]) (auto simp: less_Suc_eq_le)
qed

lemma topo_acyclic:
  assumes "topo deps {} xs" and "distinct xs" and "set xs = set nodes"
  shows "acyclic (dep_rel nodes deps)"
proof -
  obtain rank where "\<forall>n \<in> set xs. \<forall>p \<in> set (deps n). rank p < (rank n :: nat)"
    using topo_rank [OF assms(1,2)] by auto
  then have "dep_rel nodes deps \<subseteq> measure rank"
    using assms(3) by (auto simp: dep_rel_def)
  then show ?thesis
    by (meson wf_acyclic wf_measure wf_subset)
qed

lemma topo_permuted:
  "topo deps {} xs \<Longrightarrow> distinct nodes \<Longrightarrow> mset xs = mset nodes \<Longrightarrow> acyclic (dep_rel nodes deps)"
  using topo_acyclic [of deps xs nodes] by (metis mset_eq_imp_distinct_iff set_mset_mset)

lemma mset_of_nodes:
  "distinct xs \<Longrightarrow> distinct nodes \<Longrightarrow> set xs \<subseteq> set nodes \<Longrightarrow> length xs = length nodes \<Longrightarrow>
   mset xs = mset nodes"
  by (metis List.finite_set card_subset_eq distinct_card set_eq_iff_mset_eq_distinct)

lemma no_self_dep: "acyclic (dep_rel nodes deps) \<Longrightarrow> n \<in> set nodes \<Longrightarrow> n \<notin> set (deps n)"
  unfolding acyclic_def dep_rel_def by (blast intro: r_into_trancl)

lemma acyclic_closed_all:
  assumes "acyclic (dep_rel nodes deps)" and "\<forall>n \<in> set nodes. set (deps n) \<subseteq> set nodes"
    and "\<And>n. n \<in> set nodes \<Longrightarrow> set (deps n) \<subseteq> S \<Longrightarrow> n \<in> S"
  shows "set nodes \<subseteq> S"
proof
  have "dep_rel nodes deps \<subseteq> set nodes \<times> set nodes"
    using assms(2) by (auto simp: dep_rel_def)
  then have "finite (dep_rel nodes deps)"
    by (rule finite_subset) simp
  then have wf: "wf (dep_rel nodes deps)"
    using assms(1) by (rule finite_acyclic_wf)
  fix n show "n \<in> set nodes \<Longrightarrow> n \<in> S"
    using wf
  proof (induction n rule: wf_induct_rule)
    case (less n)
    have "set (deps n) \<subseteq> S"
      using less assms(2) by (auto simp: dep_rel_def)
    with less.prems show ?case by (rule assms(3))
  qed
qed

subsection \<open>The interface of a dependency graph\<close>

text \<open>
  What a caller's tables must satisfy, under its well-formedness condition \<open>wf_graph\<close>: the
  dependents table is the converse of the dependencies, the in-degrees count the
  dependencies, and the first ready list holds the nodes without any.
\<close>

locale kahn_order =
  fixes wf_graph :: "'g \<Rightarrow> bool"
    and nodes :: "'g \<Rightarrow> string list"
    and deps :: "'g \<Rightarrow> string \<Rightarrow> string list"
    and kids :: "'g \<Rightarrow> string \<Rightarrow> string list"
    and indeg :: "'g \<Rightarrow> int gomap"
    and ready :: "'g \<Rightarrow> string list"
  assumes nodes_distinct: "wf_graph g \<Longrightarrow> distinct (nodes g)"
    and deps_nodes: "wf_graph g \<Longrightarrow> n \<in> set (nodes g) \<Longrightarrow> set (deps g n) \<subseteq> set (nodes g)"
    and kids_nodes: "wf_graph g \<Longrightarrow> set (kids g p) \<subseteq> set (nodes g)"
    and kids_deps: "wf_graph g \<Longrightarrow> n \<in> set (nodes g) \<Longrightarrow>
      count_list (kids g p) n = count_list (deps g n) p"
    and indeg_deps: "wf_graph g \<Longrightarrow> n \<in> set (nodes g) \<Longrightarrow>
      gm_get_or 0 (indeg g) n = int (length (deps g n))"
    and ready_free: "wf_graph g \<Longrightarrow>
      mset (ready g) = mset (filter (\<lambda>n. deps g n = []) (nodes g))"
begin

lemma inv_start: "wf_graph g \<Longrightarrow> kahn_inv (nodes g) (deps g) (indeg g) (ready g) []"
proof -
  assume wf: "wf_graph g"
  have "distinct (ready g)"
    using ready_free [OF wf] nodes_distinct [OF wf]
    by (metis distinct_filter mset_eq_imp_distinct_iff)
  moreover have "set (ready g) = {n \<in> set (nodes g). deps g n = []}"
    using ready_free [OF wf] by (metis set_filter set_mset_mset)
  ultimately show ?thesis
    by (auto simp: kahn_inv_def open_deps_def indeg_deps [OF wf])
qed

lemma inv_step:
  assumes wf: "wf_graph g" and inv: "kahn_inv (nodes g) (deps g) d (name # rest) ordered"
  shows "kahn_inv (nodes g) (deps g) (fst (release (kids g name) d rest))
    (snd (release (kids g name) d rest)) (ordered @ [name])"
proof -
  let ?N = "set (nodes g)"
  let ?after = "open_deps (deps g) (ordered @ [name])"
  let ?before = "open_deps (deps g) ordered"
  let ?new = "{n. released d (kids g name) n}"
  from inv have name: "name \<in> ?N" "?before name = []" "name \<notin> set ordered" "name \<notin> set rest"
    and dist: "distinct (ordered @ rest)"
    and val: "\<And>n. n \<in> ?N \<Longrightarrow> gm_get_or 0 d n = int (length (?before n))"
    and topo: "topo (deps g) {} ordered"
    and front: "insert name (set ordered \<union> set rest) = {n \<in> ?N. ?before n = []}"
    by (auto simp: kahn_inv_def)
  have len: "length (?before n) = length (?after n) + count_list (kids g name) n" if "n \<in> ?N" for n
    using open_deps_step [OF name(3), of "deps g" n] kids_deps [OF wf that, of name] by simp
  have new: "?new = {n \<in> ?N. ?before n \<noteq> [] \<and> ?after n = []}"
  proof (rule set_eqI)
    fix n
    have "n \<in> ?N" if "n \<in> set (kids g name)"
      using that kids_nodes [OF wf] by blast
    moreover have "n \<in> set (kids g name) \<longleftrightarrow> 0 < count_list (kids g name) n"
      using count_list_0_iff [of "kids g name" n] by linarith
    ultimately have "n \<in> ?new \<longleftrightarrow>
        n \<in> ?N \<and> 0 < length (?before n) \<and> length (?after n) = 0"
      using val [of n] len [of n] unfolding released_def mem_Collect_eq
      by (cases "n \<in> ?N", simp, linarith, blast)
    then show "n \<in> ?new \<longleftrightarrow> n \<in> {n \<in> ?N. ?before n \<noteq> [] \<and> ?after n = []}"
      by simp
  qed
  have fin: "finite ?new"
    by (rule finite_subset [of _ ?N]) (auto simp: new)
  have ms: "mset (snd (release (kids g name) d rest)) = mset rest + mset_set ?new"
    by (rule release_ready)
  have rset: "set (snd (release (kids g name) d rest)) = set rest \<union> ?new"
    using arg_cong [OF ms, of set_mset] fin by simp
  have off: "set rest \<inter> ?new = {}" "set ordered \<inter> ?new = {}" "name \<notin> ?new"
    using front by (auto simp: new)
  have rdist: "distinct (snd (release (kids g name) d rest))"
    using distinct_mset_union [OF ms fin _ off(1)] dist by simp
  have zero: "?after n = []" if "?before n = []" for n
    using that by (auto simp: open_deps_def filter_empty_conv)
  have "set (deps g name) \<subseteq> set ordered"
    using name(2) by (auto simp: open_deps_def filter_empty_conv)
  then have "topo (deps g) {} (ordered @ [name])"
    using topo by (simp add: topo_append)
  moreover have "gm_get_or 0 (fst (release (kids g name) d rest)) n = int (length (?after n))"
    if "n \<in> ?N" for n
    using release_counts [OF refl, of "kids g name" d rest n] val [OF that] len [OF that] by simp
  moreover have "set (ordered @ [name]) \<union> set (snd (release (kids g name) d rest)) =
      {n \<in> ?N. ?after n = []}"
    using front zero name(1) unfolding rset new by auto
  moreover have "distinct ((ordered @ [name]) @ snd (release (kids g name) d rest))"
    using dist rdist name(3,4) off by (auto simp: rset)
  ultimately show ?thesis
    unfolding kahn_inv_def by blast
qed

lemma kahn_inv_result:
  assumes "wf_graph g" and "kahn_inv (nodes g) (deps g) d rs ordered"
  shows "\<exists>e. kahn_inv (nodes g) (deps g) e [] (kahn (kids g) d rs ordered)"
  using assms(2)
proof (induction "kids g" d rs ordered rule: kahn.induct)
  case (1 d ordered)
  then show ?case by auto
next
  case (2 d name rest ordered)
  from "2.hyps" [OF refl prod.collapse inv_step [OF assms(1) "2.prems"]]
  show ?case by (simp add: split_beta)
qed

lemma order_inv: "wf_graph g \<Longrightarrow> \<exists>e. kahn_inv (nodes g) (deps g) e [] (kahn (kids g) (indeg g) (ready g) [])"
  by (rule kahn_inv_result [OF _ inv_start])

lemma order_distinct: "wf_graph g \<Longrightarrow> distinct (kahn (kids g) (indeg g) (ready g) [])"
  using order_inv [of g] by (auto simp: kahn_inv_def)

lemma order_nodes: "wf_graph g \<Longrightarrow> set (kahn (kids g) (indeg g) (ready g) []) \<subseteq> set (nodes g)"
  using order_inv [of g] by (auto simp: kahn_inv_def)

lemma order_topo: "wf_graph g \<Longrightarrow> topo (deps g) {} (kahn (kids g) (indeg g) (ready g) [])"
  using order_inv [of g] by (auto simp: kahn_inv_def)

lemma order_closed:
  "wf_graph g \<Longrightarrow> n \<in> set (nodes g) \<Longrightarrow> set (deps g n) \<subseteq> set (kahn (kids g) (indeg g) (ready g) []) \<Longrightarrow> n \<in> set (kahn (kids g) (indeg g) (ready g) [])"
  using order_inv [of g] by (fastforce simp: kahn_inv_def open_deps_def filter_empty_conv)

lemma order_complete:
  assumes wf: "wf_graph g"
  shows "length (kahn (kids g) (indeg g) (ready g) []) = length (nodes g) \<longleftrightarrow> acyclic (dep_rel (nodes g) (deps g))"
proof
  assume "length (kahn (kids g) (indeg g) (ready g) []) = length (nodes g)"
  then have "set (kahn (kids g) (indeg g) (ready g) []) = set (nodes g)"
    using order_nodes [OF wf] order_distinct [OF wf] nodes_distinct [OF wf]
    by (metis List.finite_set card_subset_eq distinct_card)
  then show "acyclic (dep_rel (nodes g) (deps g))"
    by (rule topo_acyclic [OF order_topo [OF wf] order_distinct [OF wf]])
next
  assume "acyclic (dep_rel (nodes g) (deps g))"
  then have "set (nodes g) \<subseteq> set (kahn (kids g) (indeg g) (ready g) [])"
    by (rule acyclic_closed_all) (use deps_nodes [OF wf] order_closed [OF wf] in auto)
  then have "set (kahn (kids g) (indeg g) (ready g) []) = set (nodes g)"
    using order_nodes [OF wf] by blast
  then show "length (kahn (kids g) (indeg g) (ready g) []) = length (nodes g)"
    by (metis distinct_card nodes_distinct order_distinct wf)
qed

end

subsection \<open>Filling the tables\<close>

text \<open>
  Both callers count the edges in a nested loop over the nodes and their dependencies and skip
  a dependency that is not a node.  A graph is the list of nodes with their dependencies.
\<close>

type_synonym dep_graph = "(string \<times> string list) list"

fun add_edges ::
  "(string \<Rightarrow> bool) \<Rightarrow> string \<Rightarrow> string list \<Rightarrow> int gomap \<times> string list gomap \<Rightarrow>
   int gomap \<times> string list gomap" where
  "add_edges known name [] t = t"
| "add_edges known name (dep # rest) (d, k) =
     add_edges known name rest
       (if known dep then
          (gm_put name (gm_get_or 0 d name + 1) d, gm_put dep (gm_get_or [] k dep @ [name]) k)
        else (d, k))"

fun edge_tables ::
  "(string \<Rightarrow> bool) \<Rightarrow> dep_graph \<Rightarrow> int gomap \<times> string list gomap \<Rightarrow>
   int gomap \<times> string list gomap" where
  "edge_tables known [] t = t"
| "edge_tables known ((name, deps) # rest) t = edge_tables known rest (add_edges known name deps t)"

definition graph_nodes :: "dep_graph \<Rightarrow> string list" where
  "graph_nodes g = map fst g"

definition graph_deps :: "dep_graph \<Rightarrow> string \<Rightarrow> string list" where
  "graph_deps g n = filter (\<lambda>d. d \<in> set (map fst g)) (gm_get_or [] g n)"

lemma add_edges_counts:
  "gm_get_or 0 (fst (add_edges known name deps t)) n =
     gm_get_or 0 (fst t) n + (if n = name then int (length (filter known deps)) else 0)"
  by (induction known name deps t rule: add_edges.induct) (auto simp: get_or_put)

lemma add_edges_kids:
  "gm_get_or [] (snd (add_edges known name deps t)) p =
     gm_get_or [] (snd t) p @ (if known p then replicate (count_list deps p) name else [])"
  by (induction known name deps t rule: add_edges.induct)
    (auto simp: get_or_put simp flip: replicate_Suc replicate_append_same)

lemma edge_tables_kids_set:
  "set (gm_get_or [] (snd (edge_tables known g t)) p) \<subseteq>
     set (gm_get_or [] (snd t) p) \<union> fst ` set g"
  by (induction known g t rule: edge_tables.induct) (fastforce simp: add_edges_kids)+

lemma get_or_Cons: "gm_get_or z ((k, v) # m) n = (if n = k then v else gm_get_or z m n)"
  by (simp add: gm_get_or_def gm_get_Cons)

lemma get_or_absent: "k \<notin> fst ` set m \<Longrightarrow> gm_get_or z m k = z"
  using gm_get_None [of m k] by (auto simp: gm_get_or_def gm_keys_def)

lemma count_replicate: "count_list (replicate k x) y = (if x = y then k else 0)"
  by (induction k) auto

lemma edge_tables_indegree:
  "distinct (map fst g) \<Longrightarrow> gm_get_or 0 (fst (edge_tables known g t)) n =
     gm_get_or 0 (fst t) n + int (length (filter known (gm_get_or [] g n)))"
proof (induction known g t rule: edge_tables.induct)
  case (1 known t)
  then show ?case by (simp add: gm_get_or_def)
next
  case (2 known name deps rest t)
  then show ?case
    by (cases "n = name") (simp_all add: add_edges_counts get_or_Cons get_or_absent)
qed

lemma edge_tables_kids:
  "distinct (map fst g) \<Longrightarrow> count_list (gm_get_or [] (snd (edge_tables known g t)) p) n =
     count_list (gm_get_or [] (snd t) p) n +
     (if known p then count_list (gm_get_or [] g n) p else 0)"
proof (induction known g t rule: edge_tables.induct)
  case (1 known t)
  then show ?case by (simp add: gm_get_or_def)
next
  case (2 known name deps rest t)
  then show ?case
    by (cases "n = name")
      (simp_all add: add_edges_kids get_or_Cons get_or_absent count_replicate)
qed

end
