(* ===== verification/Components.thy ===== *)
theory Components
  imports Model Topology
begin

section \<open>The order of the selected components (internal/model/types.go)\<close>

text \<open>
  \<open>OrderedSelectedComponentNames\<close> sorts the selected components of a delivery target by their
  dependencies; the runner deploys them in that order.  The selection may name components that
  the target does not define: they count as having no dependencies.  When the order cannot be
  completed the source returns the selection as it is.
\<close>

definition component_graph :: "delivery_target \<Rightarrow> dep_graph" where
  "component_graph t =
     map (\<lambda>name. (name, case delivery_component_of t name of None \<Rightarrow> [] | Some c \<Rightarrow> dc_depends_on c))
       (selected_component_names t)"

definition component_tables :: "delivery_target \<Rightarrow> int gomap \<times> string list gomap" where
  "component_tables t =
     edge_tables (\<lambda>dep. dep \<in> set (selected_component_names t)) (component_graph t) ([], [])"

definition component_kids :: "delivery_target \<Rightarrow> string \<Rightarrow> string list" where
  "component_kids t name = gm_get_or [] (snd (component_tables t)) name"

definition component_queue :: "delivery_target \<Rightarrow> string list" where
  "component_queue t =
     sort (filter (\<lambda>name. gm_get_or 0 (fst (component_tables t)) name = 0)
       (selected_component_names t))"

definition ordered_selected_component_names :: "delivery_target \<Rightarrow> string list" where
  "ordered_selected_component_names t =
     (let selected = selected_component_names t
      in if length selected \<le> 1 then selected
         else (let ordered = kahn (component_kids t) (fst (component_tables t)) (component_queue t) []
               in if length ordered \<noteq> length selected then selected else ordered))"

text \<open>The dependencies among the selected components.\<close>

definition component_deps :: "delivery_target \<Rightarrow> string \<Rightarrow> string list" where
  "component_deps t = graph_deps (component_graph t)"

lemma component_graph_nodes: "map fst (component_graph t) = selected_component_names t"
  by (simp add: component_graph_def comp_def)

lemma component_deps_eq:
  "component_deps t n =
     filter (\<lambda>dep. dep \<in> set (selected_component_names t)) (gm_get_or [] (component_graph t) n)"
  unfolding component_deps_def graph_deps_def component_graph_nodes ..

interpretation co: kahn_order "\<lambda>t. distinct (selected_component_names t)"
  selected_component_names component_deps component_kids "\<lambda>t. fst (component_tables t)"
  component_queue
proof unfold_locales
  fix t p n assume dist: "distinct (selected_component_names t)"
  have g: "distinct (map fst (component_graph t))"
    using dist by (simp add: component_graph_nodes)
  show "set (component_deps t n) \<subseteq> set (selected_component_names t)"
    by (auto simp: component_deps_eq)
  show "set (component_kids t p) \<subseteq> set (selected_component_names t)"
    using edge_tables_kids_set [of "\<lambda>dep. dep \<in> set (selected_component_names t)"
        "component_graph t" "([], [])" p]
    unfolding component_kids_def component_tables_def component_graph_nodes [symmetric]
    by (simp add: gm_get_or_def)
  show indeg: "gm_get_or 0 (fst (component_tables t)) n = int (length (component_deps t n))"
    for n
    unfolding component_tables_def edge_tables_indegree [OF g] component_deps_eq
    by (simp add: gm_get_or_def)
  show "count_list (component_kids t p) n = count_list (component_deps t n) p"
    unfolding component_kids_def component_tables_def edge_tables_kids [OF g] component_deps_eq
    by (auto simp: gm_get_or_def count_list_0_iff count_list_filter_in)
  show "mset (component_queue t) =
      mset (filter (\<lambda>n. component_deps t n = []) (selected_component_names t))"
    by (simp add: component_queue_def indeg)
qed

lemma ordered_components_permutation:
  assumes "distinct (selected_component_names t)"
  shows "mset (ordered_selected_component_names t) = mset (selected_component_names t)"
  using mset_of_nodes [OF co.order_distinct [of t] assms co.order_nodes [of t]] assms
  by (auto simp: ordered_selected_component_names_def Let_def)

lemma ordered_components_acyclic:
  assumes "distinct (selected_component_names t)"
    and "acyclic (dep_rel (selected_component_names t) (component_deps t))"
  shows "topo (component_deps t) {} (ordered_selected_component_names t)"
proof (cases "length (selected_component_names t) \<le> 1")
  case True
  then consider "selected_component_names t = []" | n where "selected_component_names t = [n]"
    by (cases "selected_component_names t") auto
  then show ?thesis
  proof cases
    case 1
    then show ?thesis by (simp add: ordered_selected_component_names_def)
  next
    case (2 n)
    have "set (component_deps t n) \<subseteq> {n}"
      using co.deps_nodes [of t n] assms(1) 2 by simp
    moreover have "n \<notin> set (component_deps t n)"
      using no_self_dep [OF assms(2), of n] 2 by simp
    ultimately have "component_deps t n = []"
      by (cases "component_deps t n") auto
    then show ?thesis
      using 2 by (simp add: ordered_selected_component_names_def)
  qed
next
  case False
  then show ?thesis
    using assms co.order_complete [of t] co.order_topo [of t]
    by (simp add: ordered_selected_component_names_def Let_def)
qed

text \<open>
  \<open>OrderedSelectedComponentNames\<close> loses no selected component and adds none, whatever the
  dependencies are, and its result is a deployment order, every selected component after the
  selected components it depends on, exactly when these have no cyclic dependency.
\<close>

theorem ordered_components_correct:
  assumes "distinct (selected_component_names t)"
  shows "mset (ordered_selected_component_names t) = mset (selected_component_names t) \<and>
    (topo (component_deps t) {} (ordered_selected_component_names t) \<longleftrightarrow>
       acyclic (dep_rel (selected_component_names t) (component_deps t)))"
  using ordered_components_acyclic [OF assms] topo_permuted [OF _ assms]
    ordered_components_permutation [OF assms] by blast

subsection \<open>A target with three components\<close>

definition sample_component :: "string \<Rightarrow> string list \<Rightarrow> delivery_component" where
  "sample_component name deps = zero_delivery_component\<lparr>dc_name := name, dc_depends_on := deps\<rparr>"

definition sample_components_target :: delivery_target where
  "sample_components_target = zero_delivery_target\<lparr>
     dt_selected_components := [''console'', ''api'', ''config''],
     dt_components := [(''console'', sample_component ''console'' [''api'', ''config'']),
       (''api'', sample_component ''api'' [''config'', ''vault'']),
       (''config'', sample_component ''config'' [])]\<rparr>"

lemma sample_components_selected:
  "selected_component_names sample_components_target = [''console'', ''api'', ''config'']"
  by code_simp

lemma sample_components_order:
  "ordered_selected_component_names sample_components_target = [''config'', ''api'', ''console'']"
  by code_simp

lemma sample_components_topo:
  "topo (component_deps sample_components_target) {} [''config'', ''api'', ''console'']"
  by code_simp

lemma ordered_components_correct_witness:
  "mset [''config'', ''api'', ''console''] =
     mset (selected_component_names sample_components_target) \<and>
   acyclic (dep_rel (selected_component_names sample_components_target)
     (component_deps sample_components_target))"
  using ordered_components_correct [of sample_components_target] sample_components_topo
  unfolding sample_components_order by (simp add: sample_components_selected)

end
