(* ===== verification/Pipeline.thy ===== *)
theory Pipeline
  imports Model Topology
begin

section \<open>Pipeline plans and their evaluation (internal/pipeline)\<close>

text \<open>
  \<open>graph.go\<close>: \<open>SpecsInOrder\<close> and the rollback rules.  \<open>plan.go\<close>: \<open>BuildExecutionPlan\<close> and
  the way back, \<open>PlanSpecs\<close>.  \<open>execution.go\<close>: \<open>Evaluate\<close>, which decides from the attempts of a
  run which stages are triggered, which are runnable, and what the status of the run is.
\<close>

subsection \<open>Stages in dependency order\<close>

definition specs_graph :: "stage_spec list \<Rightarrow> dep_graph" where
  "specs_graph specs = map (\<lambda>s. (ss_name s, ss_dependencies s)) specs"

definition specs_index :: "stage_spec list \<Rightarrow> stage_spec gomap" where
  "specs_index specs = fold (\<lambda>s m. gm_put (ss_name s) s m) specs []"

definition specs_indegree0 :: "stage_spec list \<Rightarrow> int gomap" where
  "specs_indegree0 specs =
     fold (\<lambda>s d. if gm_get d (ss_name s) = None then gm_put (ss_name s) 0 d else d) specs []"

definition specs_tables :: "stage_spec list \<Rightarrow> int gomap \<times> string list gomap" where
  "specs_tables specs =
     edge_tables (\<lambda>dep. gm_get (specs_index specs) dep \<noteq> None) (specs_graph specs)
       (specs_indegree0 specs, [])"

definition specs_kids :: "stage_spec list \<Rightarrow> string \<Rightarrow> string list" where
  "specs_kids specs name = sort (gm_get_or [] (snd (specs_tables specs)) name)"

definition specs_ready :: "stage_spec list \<Rightarrow> string list" where
  "specs_ready specs =
     filter (\<lambda>name. gm_get_or 0 (fst (specs_tables specs)) name = 0) (sort (map ss_name specs))"

definition specs_in_order :: "stage_spec list \<Rightarrow> stage_spec list" where
  "specs_in_order specs =
     (let index = specs_index specs;
          names = sort (map ss_name specs);
          ordered = kahn (specs_kids specs) (fst (specs_tables specs)) (specs_ready specs) [];
          rest = (if length ordered = length specs then []
                  else filter (\<lambda>name. name \<notin> set ordered) names)
      in map (gm_get_or zero_stage_spec index) (ordered @ rest))"

text \<open>The dependencies of a stage on stages of the same list.\<close>

definition specs_deps :: "stage_spec list \<Rightarrow> string \<Rightarrow> string list" where
  "specs_deps specs = graph_deps (specs_graph specs)"

abbreviation specs_distinct :: "stage_spec list \<Rightarrow> bool" where
  "specs_distinct specs \<equiv> distinct (map ss_name specs)"

lemma specs_graph_nodes: "map fst (specs_graph specs) = map ss_name specs"
  by (simp add: specs_graph_def comp_def)

lemma index_fold_keys:
  "gm_get (fold (\<lambda>s m. gm_put (ss_name s) s m) specs m) n \<noteq> None \<longleftrightarrow>
   n \<in> ss_name ` set specs \<or> gm_get m n \<noteq> None"
  by (induction specs arbitrary: m) auto

lemma specs_index_known: "gm_get (specs_index specs) n \<noteq> None \<longleftrightarrow> n \<in> set (map ss_name specs)"
  using index_fold_keys [of specs "[]" n] by (simp add: specs_index_def)

lemma index_fold_get:
  "specs_distinct specs \<Longrightarrow>
   gm_get (fold (\<lambda>s m. gm_put (ss_name s) s m) specs m) n =
   (case find (\<lambda>s. ss_name s = n) specs of None \<Rightarrow> gm_get m n | Some s \<Rightarrow> Some s)"
proof (induction specs arbitrary: m)
  case Nil
  then show ?case by simp
next
  case (Cons s specs)
  have "find (\<lambda>x. ss_name x = ss_name s) specs = None"
    using Cons.prems by (auto simp: find_None_iff) (metis image_eqI)
  then show ?case using Cons by (auto split: option.splits)
qed

lemma specs_index_get:
  "specs_distinct specs \<Longrightarrow> s \<in> set specs \<Longrightarrow> gm_get (specs_index specs) (ss_name s) = Some s"
proof -
  assume d: "specs_distinct specs" and s: "s \<in> set specs"
  have "find (\<lambda>x. ss_name x = ss_name s) specs = Some s"
    using d s by (induction specs) (auto simp: image_iff)
  then show ?thesis
    unfolding specs_index_def by (simp add: index_fold_get [OF d])
qed

lemma indegree0_zero:
  "\<forall>n. gm_get_or 0 d n = 0 \<Longrightarrow>
   gm_get_or 0 (fold (\<lambda>s d. if gm_get d (ss_name s) = None then gm_put (ss_name s) 0 d else d)
     specs d) n = (0::int)"
  by (induction specs arbitrary: d) (auto simp: get_or_put)

lemma specs_indegree0_zero: "gm_get_or 0 (specs_indegree0 specs) n = 0"
  unfolding specs_indegree0_def by (rule indegree0_zero) (simp add: gm_get_or_def)

lemma specs_deps_eq:
  "specs_deps specs n =
     filter (\<lambda>d. d \<in> set (map ss_name specs)) (gm_get_or [] (specs_graph specs) n)"
  unfolding specs_deps_def graph_deps_def specs_graph_nodes ..

lemma specs_indegree:
  "specs_distinct specs \<Longrightarrow>
   gm_get_or 0 (fst (specs_tables specs)) n = int (length (specs_deps specs n))"
  unfolding specs_tables_def specs_deps_eq specs_index_known
  by (subst edge_tables_indegree) (simp_all add: specs_graph_nodes specs_indegree0_zero)

lemma specs_kids_count:
  "specs_distinct specs \<Longrightarrow>
   count_list (specs_kids specs p) n = count_list (specs_deps specs n) p"
  unfolding specs_kids_def specs_tables_def specs_deps_eq specs_index_known count_list_sort
  by (subst edge_tables_kids) (simp_all add: specs_graph_nodes gm_get_or_def count_list_filter_in)

interpretation so: kahn_order specs_distinct "\<lambda>specs. map ss_name specs" specs_deps specs_kids
  "\<lambda>specs. fst (specs_tables specs)" specs_ready
proof unfold_locales
  fix specs p n assume dist: "specs_distinct specs"
  show "distinct (map ss_name specs)" by (rule dist)
  show "set (specs_deps specs n) \<subseteq> set (map ss_name specs)"
    by (auto simp: specs_deps_eq)
  show "set (specs_kids specs p) \<subseteq> set (map ss_name specs)"
    using edge_tables_kids_set [of "\<lambda>dep. gm_get (specs_index specs) dep \<noteq> None"
        "specs_graph specs" "(specs_indegree0 specs, [])" p]
    unfolding specs_kids_def specs_tables_def specs_graph_nodes [symmetric]
    by (simp add: gm_get_or_def)
  show "gm_get_or 0 (fst (specs_tables specs)) n = int (length (specs_deps specs n))"
    by (rule specs_indegree [OF dist])
  show "count_list (specs_kids specs p) n = count_list (specs_deps specs n) p"
    by (rule specs_kids_count [OF dist])
  show "mset (specs_ready specs) =
      mset (filter (\<lambda>n. specs_deps specs n = []) (map ss_name specs))"
    by (simp add: specs_ready_def specs_indegree [OF dist])
qed

definition specs_order :: "stage_spec list \<Rightarrow> string list" where
  "specs_order specs = kahn (specs_kids specs) (fst (specs_tables specs)) (specs_ready specs) []"

definition specs_order_names :: "stage_spec list \<Rightarrow> string list" where
  "specs_order_names specs =
     specs_order specs @
     (if length (specs_order specs) = length specs then []
      else filter (\<lambda>name. name \<notin> set (specs_order specs)) (sort (map ss_name specs)))"

lemma specs_in_order_eq:
  "specs_in_order specs =
   map (gm_get_or zero_stage_spec (specs_index specs)) (specs_order_names specs)"
  by (simp add: specs_in_order_def specs_order_names_def specs_order_def Let_def)

lemma specs_order_names_mset:
  assumes d: "specs_distinct specs"
  shows "mset (specs_order_names specs) = mset (map ss_name specs)"
proof (cases "length (specs_order specs) = length specs")
  case True
  then show ?thesis
    using mset_of_nodes [OF so.order_distinct [OF d] d so.order_nodes [OF d]]
    by (simp add: specs_order_names_def specs_order_def)
next
  case False
  have "distinct (specs_order_names specs)"
    using so.order_distinct [OF d] d False by (auto simp: specs_order_names_def specs_order_def)
  moreover have "set (specs_order_names specs) = set (map ss_name specs)"
    using so.order_nodes [OF d] False by (auto simp: specs_order_names_def specs_order_def)
  ultimately show ?thesis
    using d by (metis set_eq_iff_mset_eq_distinct)
qed

lemma specs_lookup:
  "specs_distinct specs \<Longrightarrow> s \<in> set specs \<Longrightarrow>
   gm_get_or zero_stage_spec (specs_index specs) (ss_name s) = s"
  by (simp add: gm_get_or_def specs_index_get)

lemma specs_in_order_mset:
  assumes d: "specs_distinct specs"
  shows "mset (specs_in_order specs) = mset specs"
proof -
  have "mset (specs_in_order specs) =
      image_mset (gm_get_or zero_stage_spec (specs_index specs)) (mset (map ss_name specs))"
    by (simp add: specs_in_order_eq specs_order_names_mset [OF d])
  also have "\<dots> = image_mset (\<lambda>s. gm_get_or zero_stage_spec (specs_index specs) (ss_name s)) (mset specs)"
    by (simp add: image_mset.compositionality comp_def)
  also have "\<dots> = image_mset (\<lambda>s. s) (mset specs)"
    by (rule image_mset_cong) (simp add: specs_lookup [OF d])
  also have "\<dots> = mset specs"
    by simp
  finally show ?thesis .
qed

lemma specs_in_order_names:
  assumes d: "specs_distinct specs"
  shows "map ss_name (specs_in_order specs) = specs_order_names specs"
proof -
  have "ss_name (gm_get_or zero_stage_spec (specs_index specs) n) = n"
    if "n \<in> set (specs_order_names specs)" for n
  proof -
    from that have "n \<in> ss_name ` set specs"
      using specs_order_names_mset [OF d] by (metis image_set set_mset_mset)
    then show ?thesis using specs_lookup [OF d] by auto
  qed
  then show ?thesis by (simp add: specs_in_order_eq map_idI)
qed

lemma specs_order_topo:
  assumes d: "specs_distinct specs" and "acyclic (dep_rel (map ss_name specs) (specs_deps specs))"
  shows "topo (specs_deps specs) {} (specs_order_names specs)"
  using so.order_complete [OF d] so.order_topo [OF d] assms(2)
  by (simp add: specs_order_names_def specs_order_def)

lemma specs_cong:
  assumes d: "specs_distinct specs" and m: "mset specs' = mset specs"
  shows "specs_distinct specs'" and "set specs' = set specs" and "specs_deps specs' = specs_deps specs"
proof -
  have ms: "mset (map ss_name specs') = mset (map ss_name specs)"
    using m by simp
  show "specs_distinct specs'"
    using ms d by (metis mset_eq_imp_distinct_iff)
  show s: "set specs' = set specs"
    using m by (metis set_mset_mset)
  have "mset (specs_graph specs') = mset (specs_graph specs)"
    using m by (simp add: specs_graph_def)
  then have "gm_get (specs_graph specs') = gm_get (specs_graph specs)"
    using gm_get_perm [of "specs_graph specs" "specs_graph specs'"] d
    by (simp add: gm_wf_def specs_graph_nodes)
  then show "specs_deps specs' = specs_deps specs"
    by (intro ext) (simp add: specs_deps_eq gm_get_or_def s)
qed

lemma sort_mset_eq: "mset xs = mset ys \<Longrightarrow> sort xs = sort (ys :: string list)"
  by (metis sorted_list_of_multiset_mset)

lemma specs_order_names_cong:
  assumes d: "specs_distinct specs" and m: "mset specs' = mset specs"
  shows "specs_order_names specs' = specs_order_names specs"
proof -
  note d' = specs_cong(1) [OF d m] and deps = specs_cong(3) [OF d m]
  have names: "sort (map ss_name specs') = sort (map ss_name specs)"
    by (rule sort_mset_eq) (simp add: m)
  have kids: "specs_kids specs' = specs_kids specs"
  proof
    fix p
    have "count_list (specs_kids specs' p) n = count_list (specs_kids specs p) n" for n
      by (simp add: specs_kids_count [OF d] specs_kids_count [OF d'] deps)
    then have "mset (specs_kids specs' p) = mset (specs_kids specs p)"
      by (intro multiset_eqI) (simp add: count_mset)
    then have "sort (specs_kids specs' p) = sort (specs_kids specs p)"
      by (rule sort_mset_eq)
    then show "specs_kids specs' p = specs_kids specs p"
      by (simp add: specs_kids_def sorted_sort_id)
  qed
  have indeg: "gm_get_or 0 (fst (specs_tables specs')) n = gm_get_or 0 (fst (specs_tables specs)) n"
    for n
    by (simp add: specs_indegree [OF d] specs_indegree [OF d'] deps)
  have ready: "specs_ready specs' = specs_ready specs"
    by (simp add: specs_ready_def indeg names)
  have "specs_order specs' = specs_order specs"
    unfolding specs_order_def kids ready by (rule kahn_cong [OF indeg])
  moreover have "length specs' = length specs"
    using m by (metis size_mset)
  ultimately show ?thesis
    by (simp add: specs_order_names_def names)
qed

lemma specs_in_order_cong:
  assumes d: "specs_distinct specs" and m: "mset specs' = mset specs"
  shows "specs_in_order specs' = specs_in_order specs"
proof -
  note d' = specs_cong(1) [OF d m]
  have "gm_get_or zero_stage_spec (specs_index specs') n = gm_get_or zero_stage_spec (specs_index specs) n"
    if "n \<in> set (specs_order_names specs)" for n
  proof -
    from that have "n \<in> ss_name ` set specs"
      using specs_order_names_mset [OF d] by (metis image_set set_mset_mset)
    then obtain s where "s \<in> set specs" "n = ss_name s" by blast
    then show ?thesis
      using specs_lookup [OF d] specs_lookup [OF d'] specs_cong(2) [OF d m] by simp
  qed
  then show ?thesis
    by (simp add: specs_in_order_eq specs_order_names_cong [OF d m])
qed


text \<open>
  the order does not depend on the order in which the catalog lists the stages (nor, with
  it, on any map iteration order), and ordering an ordered list again changes nothing.
\<close>

theorem specs_in_order_deterministic:
  assumes "specs_distinct specs" and "mset specs' = mset specs"
  shows "specs_in_order specs' = specs_in_order specs \<and>
    specs_in_order (specs_in_order specs) = specs_in_order specs"
  using specs_in_order_cong [OF assms]
    specs_in_order_cong [OF assms(1) specs_in_order_mset [OF assms(1)]] by blast

subsection \<open>Plans\<close>

definition stage_to_spec :: "pipeline_execution_stage \<Rightarrow> stage_spec" where
  "stage_to_spec stage =
     (if ss_name (pes_spec stage) \<noteq> [] then pes_spec stage
      else zero_stage_spec\<lparr>
        ss_name := pes_name stage,
        ss_dependencies := pes_dependencies stage,
        ss_runtime := zero_stage_runtime\<lparr>
          sr_queue_mode := pes_queue_mode stage,
          sr_environment := pes_environment stage,
          sr_checkpoint_status := pes_checkpoint stage,
          sr_success_criteria := pes_success_criteria stage,
          sr_report_stages := pes_report_stages stage,
          sr_transitions := pes_transitions stage,
          sr_output_artifacts := pes_output_artifacts stage\<rparr>,
        ss_container := pes_container stage\<rparr>)"

definition plan_specs :: "pipeline_execution_plan option \<Rightarrow> stage_spec list" where
  "plan_specs plan = (case plan of None \<Rightarrow> [] | Some p \<Rightarrow> map stage_to_spec (pep_stages p))"

definition plan_specs_map :: "pipeline_execution_plan option \<Rightarrow> stage_spec gomap" where
  "plan_specs_map plan = fold (\<lambda>s m. gm_put (ss_name s) s m) (plan_specs plan) []"

definition plan_stage :: "stage_spec \<Rightarrow> runtime_image \<Rightarrow> pipeline_execution_stage" where
  "plan_stage spec img =
     \<lparr>pes_name = ss_name spec,
      pes_spec = spec,
      pes_dependencies = ss_dependencies spec,
      pes_environment = spec_environment spec,
      pes_queue_mode = queue_mode spec,
      pes_transitions = sr_transitions (ss_runtime spec),
      pes_checkpoint = sr_checkpoint_status (ss_runtime spec),
      pes_run_as = run_as_identity spec,
      pes_write_as = write_as_identity spec,
      pes_container = container_config spec,
      pes_success_criteria = success_criteria_contract spec,
      pes_output_artifacts = sr_output_artifacts (ss_runtime spec),
      pes_report_stages = sr_report_stages (ss_runtime spec),
      pes_image = ri_ref img,
      pes_image_digest = ri_digest img,
      pes_entrypoint = ss_entrypoint spec\<rparr>"

text \<open>The loop of \<open>BuildExecutionPlan\<close>: the checkpoint of the plan is the first one declared.\<close>

fun plan_stages ::
  "runtime_image gomap \<Rightarrow> stage_spec list \<Rightarrow> string \<Rightarrow>
   string + (string \<times> pipeline_execution_stage list)" where
  "plan_stages images [] checkpoint = Inr (checkpoint, [])"
| "plan_stages images (spec # rest) checkpoint =
     (case gm_get images (ss_name spec) of
        None \<Rightarrow> Inl (''pipeline execution plan missing runtime image for stage '' @ ss_name spec)
      | Some img \<Rightarrow>
          (let declared = trim_space (sr_checkpoint_status (ss_runtime spec));
               checkpoint' = (if checkpoint = [] \<and> declared \<noteq> [] then declared else checkpoint)
           in case plan_stages images rest checkpoint' of
                Inl e \<Rightarrow> Inl e
              | Inr (c, stages) \<Rightarrow> Inr (c, plan_stage spec img # stages)))"

definition build_execution_plan ::
  "run_request \<Rightarrow> stage_spec list \<Rightarrow> runtime_image gomap \<Rightarrow> string + pipeline_execution_plan" where
  "build_execution_plan run specs images =
     (if specs = [] then Inl ''pipeline execution plan requires at least one stage spec''
      else case plan_stages images (specs_in_order specs) [] of
        Inl e \<Rightarrow> Inl e
      | Inr (checkpoint, stages) \<Rightarrow>
          (let order = run_work_order run
           in Inr \<lparr>pep_schema_version = ''autodev-pipeline-execution-plan-v1'',
                pep_run_id = run_id run,
                pep_issue_id = run_issue_id run,
                pep_work_order_id = wo_id order,
                pep_issue_type = wo_issue_type order,
                pep_pipeline_family = wo_pipeline_template order,
                pep_pipeline_selection = ''selected'',
                pep_optimization_goals = [],
                pep_testing = wo_testing order,
                pep_delivery_name = dt_name (wo_delivery order),
                pep_checkpoint = checkpoint,
                pep_stages = stages\<rparr>))"

lemma plan_stages_ok:
  "plan_stages images specs c = Inr (c', stages) \<Longrightarrow>
   map pes_spec stages = specs \<and> map pes_name stages = map ss_name specs \<and>
   (\<forall>s \<in> set specs. gm_get images (ss_name s) \<noteq> None)"
  by (induction images specs c arbitrary: c' stages rule: plan_stages.induct)
    (auto simp: Let_def plan_stage_def split: option.splits sum.splits)

lemma plan_stages_error:
  "plan_stages images specs c = Inl e \<longleftrightarrow>
   (\<exists>s. find (\<lambda>s. gm_get images (ss_name s) = None) specs = Some s \<and>
     e = ''pipeline execution plan missing runtime image for stage '' @ ss_name s)"
proof (induction specs arbitrary: c)
  case Nil
  then show ?case by simp
next
  case (Cons spec rest)
  show ?case
  proof (cases "gm_get images (ss_name spec)")
    case None
    then show ?thesis by auto
  next
    case (Some img)
    let ?k = "trim_space (sr_checkpoint_status (ss_runtime spec))"
    have "plan_stages images (spec # rest) c = Inl e \<longleftrightarrow>
        plan_stages images rest (if c = [] \<and> ?k \<noteq> [] then ?k else c) = Inl e"
      by (simp add: Some Let_def split: sum.split)
    then show ?thesis by (simp only: Cons.IH) (simp add: Some)
  qed
qed

definition first_checkpoint :: "stage_spec list \<Rightarrow> string" where
  "first_checkpoint specs =
     (case find (\<lambda>k. k \<noteq> []) (map (\<lambda>s. trim_space (sr_checkpoint_status (ss_runtime s))) specs) of
        None \<Rightarrow> [] | Some k \<Rightarrow> k)"

lemma plan_stages_checkpoint:
  "plan_stages images specs c = Inr (c', stages) \<Longrightarrow>
   c' = (if c \<noteq> [] then c else first_checkpoint specs)"
proof (induction specs arbitrary: c stages)
  case Nil
  then show ?case by (simp add: first_checkpoint_def)
next
  case (Cons spec rest)
  let ?k = "trim_space (sr_checkpoint_status (ss_runtime spec))"
  from Cons.prems obtain ss where
    "plan_stages images rest (if c = [] \<and> ?k \<noteq> [] then ?k else c) = Inr (c', ss)"
    by (auto simp: Let_def simp del: plan_stages.simps(1) split: option.splits sum.splits)
  from Cons.IH [OF this] show ?case
    by (cases "c = []"; cases "?k = []") (simp_all add: first_checkpoint_def)
qed

lemma stages_to_specs:
  "\<forall>s \<in> set (map pes_spec stages). ss_name s \<noteq> [] \<Longrightarrow> map stage_to_spec stages = map pes_spec stages"
  by (simp add: stage_to_spec_def)

lemma build_plan_specs:
  assumes "build_execution_plan run specs images = Inr plan" and "\<forall>s \<in> set specs. ss_name s \<noteq> []"
    and d: "specs_distinct specs"
  shows "plan_specs (Some plan) = specs_in_order specs"
proof -
  obtain c stages where st: "plan_stages images (specs_in_order specs) [] = Inr (c, stages)"
    and p: "pep_stages plan = stages"
    using assms(1) by (auto simp: build_execution_plan_def Let_def split: if_splits sum.splits)
  have specs: "map pes_spec stages = specs_in_order specs"
    using plan_stages_ok [OF st] by simp
  have "set (specs_in_order specs) = set specs"
    using specs_in_order_mset [OF d] by (metis set_mset_mset)
  then have "map stage_to_spec stages = map pes_spec stages"
    using assms(2) specs by (intro stages_to_specs) simp
  then show ?thesis by (simp add: plan_specs_def p specs)
qed


subsection \<open>Evaluation of a run\<close>

definition rollback_policy_enabled :: "delivery_target \<Rightarrow> string \<Rightarrow> string \<Rightarrow> bool" where
  "rollback_policy_enabled target environment policy \<longleftrightarrow>
     policy = ''app_auto_rollback'' \<and>
     rp_app_auto_rollback (et_rollback_policy (target_environment target environment))"

definition rollback_eligible :: "stage_spec \<Rightarrow> delivery_target \<Rightarrow> stage_attempt gomap \<Rightarrow> bool" where
  "rollback_eligible spec target by_stage \<longleftrightarrow>
     (let rollback = sr_rollback (ss_runtime spec)
      in if srp_stage rollback = [] then False
         else if srp_policy rollback \<noteq> ''app_auto_rollback'' then False
         else if \<not> rollback_policy_enabled target (spec_environment spec) (srp_policy rollback) then False
         else (case gm_get by_stage (srp_stage rollback) of
             Some observe \<Rightarrow> att_status observe \<noteq> AttemptStatusSucceeded
           | None \<Rightarrow> True))"

definition stage_has_status :: "stage_attempt gomap \<Rightarrow> string \<Rightarrow> string \<Rightarrow> bool" where
  "stage_has_status by_stage status name \<longleftrightarrow>
     (case gm_get by_stage name of None \<Rightarrow> False | Some attempt \<Rightarrow> att_status attempt = status)"

definition is_ready :: "stage_spec \<Rightarrow> stage_attempt gomap \<Rightarrow> bool \<Rightarrow> bool" where
  "is_ready spec by_stage approved \<longleftrightarrow>
     (if \<not> auto_queue spec then False
      else if ss_approval_required spec \<and> \<not> approved then False
      else if \<not> list_all (stage_has_status by_stage AttemptStatusSucceeded) (ss_dependencies spec)
        then False
      else gm_get by_stage (ss_name spec) = None)"

definition triggered_by_failure ::
  "stage_spec \<Rightarrow> run_request \<Rightarrow> stage_attempt gomap \<Rightarrow> bool" where
  "triggered_by_failure spec run by_stage \<longleftrightarrow>
     list_ex (\<lambda>stage_name. stage_has_status by_stage AttemptStatusFailed stage_name \<and>
         (srp_policy (sr_rollback (ss_runtime spec)) = [] \<or>
          rollback_policy_enabled (run_delivery_target run) (spec_environment spec)
            (srp_policy (sr_rollback (ss_runtime spec)))))
       (sr_trigger_on_failure (ss_runtime spec))"

definition triggered_by_success :: "stage_spec \<Rightarrow> stage_attempt gomap \<Rightarrow> bool" where
  "triggered_by_success spec by_stage \<longleftrightarrow>
     list_ex (stage_has_status by_stage AttemptStatusSucceeded)
       (sr_trigger_on_success (ss_runtime spec))"

record evaluation =
  ev_triggered :: "stage_spec list"
  ev_runnable :: "stage_spec list"
  ev_status :: string

text \<open>The local variables of the loop in \<open>Evaluate\<close>.\<close>

record eval_vars =
  ev_trig :: "stage_spec list"
  ev_run :: "stage_spec list"
  ev_has_active :: bool
  ev_has_failed :: bool
  ev_has_rollback :: bool

text \<open>One pass of the loop body for a stage; \<open>Inl\<close> is a return out of the loop.\<close>

definition eval_stage ::
  "run_request \<Rightarrow> stage_attempt gomap \<Rightarrow> bool \<Rightarrow> stage_spec \<Rightarrow> eval_vars \<Rightarrow> evaluation + eval_vars" where
  "eval_stage run by_stage approved spec v =
     (case gm_get by_stage (ss_name spec) of
        None \<Rightarrow>
          (let v1 = (if \<not> auto_queue spec \<and> triggered_by_failure spec run by_stage \<or>
                        \<not> auto_queue spec \<and> triggered_by_success spec by_stage
                     then v\<lparr>ev_trig := ev_trig v @ [spec]\<rparr> else v)
           in Inr (if is_ready spec by_stage approved then v1\<lparr>ev_run := ev_run v1 @ [spec]\<rparr> else v1))
      | Some attempt \<Rightarrow>
          (let leave = (\<lambda>st. Inl \<lparr>ev_triggered = ev_trig v, ev_runnable = ev_run v, ev_status = st\<rparr>)
           in if att_status attempt = AttemptStatusSucceeded then
                (if completion_checkpoint spec then leave RunStatusCompleted
                 else if failure_checkpoint spec then leave RunStatusFailed
                 else if approval_checkpoint spec \<and> \<not> approved then leave RunStatusAwaitingApproval
                 else Inr (v\<lparr>ev_has_active := True\<rparr>))
              else if att_status attempt = AttemptStatusRunning then Inr (v\<lparr>ev_has_active := True\<rparr>)
              else if att_status attempt = AttemptStatusFailed then
                Inr (v\<lparr>ev_has_failed := True,
                       ev_has_rollback := ev_has_rollback v \<or>
                         rollback_eligible spec (run_delivery_target run) by_stage\<rparr>)
              else Inr v))"

fun eval_loop ::
  "run_request \<Rightarrow> stage_attempt gomap \<Rightarrow> bool \<Rightarrow> stage_spec list \<Rightarrow> eval_vars \<Rightarrow>
   evaluation + eval_vars" where
  "eval_loop run by_stage approved [] v = Inr v"
| "eval_loop run by_stage approved (spec # rest) v =
     (case eval_stage run by_stage approved spec v of
        Inl e \<Rightarrow> Inl e
      | Inr v' \<Rightarrow> eval_loop run by_stage approved rest v')"

definition evaluate ::
  "pipeline_execution_plan option \<Rightarrow> run_request \<Rightarrow> stage_attempt gomap \<Rightarrow> bool \<Rightarrow> evaluation" where
  "evaluate plan run by_stage approved =
     (let specs = plan_specs plan; spec_map = plan_specs_map plan; ordered = specs_in_order specs
      in case eval_loop run by_stage approved ordered
             \<lparr>ev_trig = [], ev_run = [], ev_has_active = False, ev_has_failed = False,
              ev_has_rollback = False\<rparr> of
           Inl e \<Rightarrow> e
         | Inr v \<Rightarrow>
             (let finish = (\<lambda>st. \<lparr>ev_triggered = ev_trig v, ev_runnable = ev_run v, ev_status = st\<rparr>)
              in if ev_has_failed v \<and> \<not> ev_has_rollback v then finish RunStatusFailed
                 else if ev_has_active v \<or> ev_has_rollback v \<or> ev_run v \<noteq> [] \<or> ev_trig v \<noteq> []
                   then finish RunStatusActive
                 else if list_ex (\<lambda>(_, spec). gm_get by_stage (ss_name spec) \<noteq> None) spec_map
                   then finish RunStatusActive
                 else finish RunStatusPending))"

definition plan_runnable_stages ::
  "pipeline_execution_plan option \<Rightarrow> stage_attempt gomap \<Rightarrow> bool \<Rightarrow> stage_spec list" where
  "plan_runnable_stages plan by_stage approved =
     ev_runnable (evaluate plan zero_run_request by_stage approved)"

definition run_status_from_plan ::
  "pipeline_execution_plan option \<Rightarrow> stage_attempt gomap \<Rightarrow> delivery_target \<Rightarrow> bool \<Rightarrow> string" where
  "run_status_from_plan plan by_stage target approved =
     (let run = zero_run_request\<lparr>run_work_order := zero_work_order\<lparr>wo_delivery := target\<rparr>\<rparr>
      in ev_status (evaluate plan run by_stage approved))"

subsection \<open>What the evaluation decides\<close>

text \<open>
  The declarative reading of \<open>Evaluate\<close>: the first stage in dependency order that is a
  succeeded checkpoint ends the pass and fixes the status; the stages before it that have no
  attempt are the candidates to trigger or to queue.
\<close>

definition exit_status :: "stage_attempt gomap \<Rightarrow> bool \<Rightarrow> stage_spec \<Rightarrow> string option" where
  "exit_status by_stage approved spec =
     (if \<not> stage_has_status by_stage AttemptStatusSucceeded (ss_name spec) then None
      else if completion_checkpoint spec then Some RunStatusCompleted
      else if failure_checkpoint spec then Some RunStatusFailed
      else if approval_checkpoint spec \<and> \<not> approved then Some RunStatusAwaitingApproval
      else None)"

definition is_triggered :: "run_request \<Rightarrow> stage_attempt gomap \<Rightarrow> stage_spec \<Rightarrow> bool" where
  "is_triggered run by_stage spec \<longleftrightarrow>
     gm_get by_stage (ss_name spec) = None \<and> \<not> auto_queue spec \<and>
     (triggered_by_failure spec run by_stage \<or> triggered_by_success spec by_stage)"

definition passed :: "stage_attempt gomap \<Rightarrow> bool \<Rightarrow> stage_spec list \<Rightarrow> stage_spec list" where
  "passed by_stage approved specs = takeWhile (\<lambda>s. exit_status by_stage approved s = None) specs"

definition failed_stages :: "stage_attempt gomap \<Rightarrow> stage_spec list \<Rightarrow> stage_spec list" where
  "failed_stages by_stage specs =
     filter (\<lambda>s. stage_has_status by_stage AttemptStatusFailed (ss_name s)) specs"

definition open_status ::
  "run_request \<Rightarrow> stage_attempt gomap \<Rightarrow> stage_spec list \<Rightarrow> bool \<Rightarrow> string" where
  "open_status run by_stage specs work =
     (if failed_stages by_stage specs \<noteq> [] \<and>
         \<not> list_ex (\<lambda>s. rollback_eligible s (run_delivery_target run) by_stage) (failed_stages by_stage specs)
      then RunStatusFailed
      else if work \<or> list_ex (\<lambda>s. gm_get by_stage (ss_name s) \<noteq> None) specs
      then RunStatusActive else RunStatusPending)"

definition evaluate_spec ::
  "pipeline_execution_plan option \<Rightarrow> run_request \<Rightarrow> stage_attempt gomap \<Rightarrow> bool \<Rightarrow> evaluation" where
  "evaluate_spec plan run by_stage approved =
     (let ordered = specs_in_order (plan_specs plan);
          before = passed by_stage approved ordered;
          trig = filter (is_triggered run by_stage) before;
          runn = filter (\<lambda>s. is_ready s by_stage approved) before
      in \<lparr>ev_triggered = trig, ev_runnable = runn,
          ev_status = (case List.map_filter (exit_status by_stage approved) ordered of
              st # _ \<Rightarrow> st
            | [] \<Rightarrow> open_status run by_stage ordered (trig \<noteq> [] \<or> runn \<noteq> []))\<rparr>)"

definition eval_next ::
  "run_request \<Rightarrow> stage_attempt gomap \<Rightarrow> bool \<Rightarrow> stage_spec \<Rightarrow> eval_vars \<Rightarrow> eval_vars" where
  "eval_next run by_stage approved spec v =
     \<lparr>ev_trig = ev_trig v @ (if is_triggered run by_stage spec then [spec] else []),
      ev_run = ev_run v @ (if is_ready spec by_stage approved then [spec] else []),
      ev_has_active = (ev_has_active v \<or>
        stage_has_status by_stage AttemptStatusSucceeded (ss_name spec) \<or>
        stage_has_status by_stage AttemptStatusRunning (ss_name spec)),
      ev_has_failed = (ev_has_failed v \<or> failed_stages by_stage [spec] \<noteq> []),
      ev_has_rollback = (ev_has_rollback v \<or>
        list_ex (\<lambda>s. rollback_eligible s (run_delivery_target run) by_stage)
          (failed_stages by_stage [spec]))\<rparr>"

lemma eval_stage_exit:
  "eval_stage run by_stage approved spec v =
     (case exit_status by_stage approved spec of
        Some st \<Rightarrow> Inl \<lparr>ev_triggered = ev_trig v, ev_runnable = ev_run v, ev_status = st\<rparr>
      | None \<Rightarrow> Inr (eval_next run by_stage approved spec v))"
proof (cases "gm_get by_stage (ss_name spec)")
  case None
  then show ?thesis
    by (auto simp: eval_stage_def exit_status_def stage_has_status_def eval_next_def
        is_triggered_def failed_stages_def Let_def)
next
  case (Some attempt)
  then have "\<not> is_ready spec by_stage approved" "\<not> is_triggered run by_stage spec"
    by (simp_all add: is_ready_def is_triggered_def)
  with Some show ?thesis
    by (simp add: eval_stage_def exit_status_def stage_has_status_def eval_next_def
        failed_stages_def Let_def)
qed

lemma eval_loop_exit:
  "eval_loop run by_stage approved specs v =
     (let before = passed by_stage approved specs;
          trig = ev_trig v @ filter (is_triggered run by_stage) before;
          runn = ev_run v @ filter (\<lambda>s. is_ready s by_stage approved) before
      in case List.map_filter (exit_status by_stage approved) specs of
           st # _ \<Rightarrow> Inl \<lparr>ev_triggered = trig, ev_runnable = runn, ev_status = st\<rparr>
         | [] \<Rightarrow> Inr \<lparr>ev_trig = trig, ev_run = runn,
             ev_has_active = (ev_has_active v \<or>
               list_ex (\<lambda>s. stage_has_status by_stage AttemptStatusSucceeded (ss_name s) \<or>
                  stage_has_status by_stage AttemptStatusRunning (ss_name s)) specs),
             ev_has_failed = (ev_has_failed v \<or> failed_stages by_stage specs \<noteq> []),
             ev_has_rollback = (ev_has_rollback v \<or>
               list_ex (\<lambda>s. rollback_eligible s (run_delivery_target run) by_stage)
                 (failed_stages by_stage specs))\<rparr>)"
proof (induction specs arbitrary: v)
  case Nil
  then show ?case by (simp add: passed_def failed_stages_def map_filter_simps)
next
  case (Cons spec rest)
  have failed: "failed_stages by_stage (spec # rest) =
      failed_stages by_stage [spec] @ failed_stages by_stage rest"
    by (simp add: failed_stages_def)
  show ?case
  proof (cases "exit_status by_stage approved spec")
    case None
    then have "passed by_stage approved (spec # rest) = spec # passed by_stage approved rest"
      by (simp add: passed_def)
    then show ?thesis
      by (simp add: eval_stage_exit None Cons.IH failed map_filter_simps eval_next_def Let_def
          disj_assoc del: list.case_cong split: list.split)
  next
    case (Some st)
    then have "passed by_stage approved (spec # rest) = []"
      by (simp add: passed_def)
    then show ?thesis
      by (simp add: eval_stage_exit Some map_filter_simps Let_def)
  qed
qed

lemma spec_map_attempts:
  "list_ex (\<lambda>(_, s). gm_get by_stage (ss_name s) \<noteq> None) (plan_specs_map plan) \<longleftrightarrow>
   list_ex (\<lambda>s. gm_get by_stage (ss_name s) \<noteq> None) (plan_specs plan)"
proof -
  have "list_ex (\<lambda>(_, s). P (ss_name s)) (fold (\<lambda>s m. gm_put (ss_name s) s m) specs m) \<longleftrightarrow>
      list_ex (\<lambda>s. P (ss_name s)) specs \<or> list_ex (\<lambda>(_, s). P (ss_name s)) m"
    if "\<forall>(k, s) \<in> set m. k = ss_name s" for P and specs :: "stage_spec list" and m
    using that
  proof (induction specs arbitrary: m)
    case Nil
    then show ?case by simp
  next
    case (Cons s specs)
    have "(\<forall>(k, x) \<in> set (gm_put (ss_name s) s m). k = ss_name x) \<and>
        (list_ex (\<lambda>(_, x). P (ss_name x)) (gm_put (ss_name s) s m) \<longleftrightarrow>
         P (ss_name s) \<or> list_ex (\<lambda>(_, x). P (ss_name x)) m)"
      using Cons.prems by (induction m) (auto simp: gm_put_def)
    then show ?case using Cons.IH [of "gm_put (ss_name s) s m"] by auto
  qed
  from this [of "[]" "\<lambda>n. gm_get by_stage n \<noteq> None" "plan_specs plan"] show ?thesis
    unfolding plan_specs_map_def by simp
qed

lemma status_attempt: "stage_has_status by_stage st n \<Longrightarrow> gm_get by_stage n \<noteq> None"
  by (auto simp: stage_has_status_def split: option.splits)

lemma map_filter_eq_Nil: "List.map_filter f xs = [] \<longleftrightarrow> (\<forall>x \<in> set xs. f x = None)"
  by (induction xs) (auto simp: map_filter_simps split: option.splits)

lemma evaluate_eq:
  assumes d: "specs_distinct (plan_specs plan)"
  shows "evaluate plan run by_stage approved = evaluate_spec plan run by_stage approved"
proof -
  let ?o = "specs_in_order (plan_specs plan)"
  have "set ?o = set (plan_specs plan)"
    using specs_in_order_mset [OF d] by (metis set_mset_mset)
  then have any: "list_ex (\<lambda>s. gm_get by_stage (ss_name s) \<noteq> None) (plan_specs plan) \<longleftrightarrow>
      list_ex (\<lambda>s. gm_get by_stage (ss_name s) \<noteq> None) ?o"
    by (simp add: list_ex_iff)
  have idle: "\<not> list_ex (\<lambda>s. stage_has_status by_stage AttemptStatusSucceeded (ss_name s) \<or>
        stage_has_status by_stage AttemptStatusRunning (ss_name s)) ?o"
      "\<not> list_ex (\<lambda>s. rollback_eligible s (run_delivery_target run) by_stage)
        (failed_stages by_stage ?o)"
    if "\<not> list_ex (\<lambda>s. gm_get by_stage (ss_name s) \<noteq> None) ?o"
    using that status_attempt unfolding list_ex_iff failed_stages_def by fastforce+
  show ?thesis
  proof (cases "List.map_filter (exit_status by_stage approved) ?o")
    case (Cons st rest)
    then show ?thesis
      by (simp add: evaluate_def evaluate_spec_def eval_loop_exit Let_def)
  next
    case Nil
    then show ?thesis
      using idle
      by (cases "list_ex (\<lambda>s. gm_get by_stage (ss_name s) \<noteq> None) ?o")
        (simp_all add: evaluate_def evaluate_spec_def eval_loop_exit Let_def spec_map_attempts any
          open_status_def del: not_None_eq)
  qed
qed

text \<open>
  C9: \<open>Evaluate\<close> computes its declarative reading: the status is that of the first succeeded
  checkpoint in dependency order, and otherwise failed (a failure that no rollback can take
  back), active (an attempt or a stage to start) or pending; the triggered and the runnable
  stages are those before that checkpoint that satisfy their start condition.
\<close>

theorem evaluate_refines_spec:
  assumes "specs_distinct (plan_specs plan)"
  shows "evaluate plan run by_stage approved = evaluate_spec plan run by_stage approved"
  by (rule evaluate_eq [OF assms])

lemma evaluate_members:
  assumes d: "specs_distinct (plan_specs plan)"
  shows "s \<in> set (ev_runnable (evaluate plan run by_stage approved)) \<Longrightarrow>
      s \<in> set (plan_specs plan) \<and> is_ready s by_stage approved"
    and "s \<in> set (ev_triggered (evaluate plan run by_stage approved)) \<Longrightarrow>
      s \<in> set (plan_specs plan) \<and> is_triggered run by_stage s"
  using specs_in_order_mset [OF d]
  by (auto simp: evaluate_eq [OF d] evaluate_spec_def Let_def passed_def dest!: set_takeWhileD
      dest: mset_eq_setD)


lemma specs_deps_of:
  assumes "specs_distinct specs" and "s \<in> set specs"
  shows "specs_deps specs (ss_name s) =
    filter (\<lambda>d. d \<in> set (map ss_name specs)) (ss_dependencies s)"
proof -
  have "gm_wf (specs_graph specs)"
    using assms(1) by (simp add: gm_wf_def specs_graph_nodes)
  moreover have "(ss_name s, ss_dependencies s) \<in> set (specs_graph specs)"
    using assms(2) by (auto simp: specs_graph_def)
  ultimately show ?thesis
    by (simp add: specs_deps_eq gm_get_or_def gm_get_wf [THEN iffD2])
qed

lemma evaluate_open:
  assumes "specs_distinct (plan_specs plan)"
    and "List.map_filter (exit_status by_stage approved) (specs_in_order (plan_specs plan)) = []"
  shows "ev_runnable (evaluate plan run by_stage approved) =
    filter (\<lambda>s. is_ready s by_stage approved) (specs_in_order (plan_specs plan))"
proof -
  have "passed by_stage approved (specs_in_order (plan_specs plan)) = specs_in_order (plan_specs plan)"
    using assms(2) by (simp add: passed_def takeWhile_eq_all_conv map_filter_eq_Nil)
  then show ?thesis
    by (simp add: evaluate_eq [OF assms(1)] evaluate_spec_def Let_def)
qed

lemma evaluate_exit_status:
  assumes "specs_distinct (plan_specs plan)"
    and "List.map_filter (exit_status by_stage True) (specs_in_order (plan_specs plan)) \<noteq> []"
  shows "ev_status (evaluate plan run by_stage True) \<in> {RunStatusCompleted, RunStatusFailed}"
proof -
  obtain st rest where
    e: "List.map_filter (exit_status by_stage True) (specs_in_order (plan_specs plan)) = st # rest"
    using assms(2) by (cases "List.map_filter (exit_status by_stage True)
      (specs_in_order (plan_specs plan))") auto
  then have "st \<in> set (List.map_filter (exit_status by_stage True) (specs_in_order (plan_specs plan)))"
    by simp
  then obtain s where "exit_status by_stage True s = Some st"
    by (auto simp: List.map_filter_def)
  then have "st \<in> {RunStatusCompleted, RunStatusFailed}"
    by (auto simp: exit_status_def split: if_splits)
  then show ?thesis
    by (simp add: evaluate_eq [OF assms(1)] evaluate_spec_def Let_def e)
qed


subsection \<open>A plan of four stages\<close>

definition sample_spec :: "string \<Rightarrow> string list \<Rightarrow> stage_spec" where
  "sample_spec name deps = zero_stage_spec\<lparr>ss_name := name, ss_dependencies := deps\<rparr>"

definition sample_rollback :: stage_spec where
  "sample_rollback = (sample_spec ''rollback'' [])\<lparr>ss_runtime := zero_stage_runtime\<lparr>
     sr_queue_mode := ''triggered'', sr_trigger_on_failure := [''deploy'']\<rparr>\<rparr>"

definition sample_specs :: "stage_spec list" where
  "sample_specs = [sample_spec ''test'' [''build''], sample_spec ''deploy'' [''test''],
     sample_spec ''build'' [], sample_rollback]"

definition sample_images :: "runtime_image gomap" where
  "sample_images = map (\<lambda>n. (n, \<lparr>ri_stage = n, ri_ref = n @ '':current'', ri_digest = ''sha256:0''\<rparr>))
     [''build'', ''deploy'', ''test'', ''rollback'']"

definition sample_attempt :: "string \<Rightarrow> string \<Rightarrow> stage_attempt" where
  "sample_attempt stage status = zero_stage_attempt\<lparr>att_stage := stage, att_status := status\<rparr>"

definition sample_plan_of :: "stage_spec list \<Rightarrow> pipeline_execution_plan option" where
  "sample_plan_of specs = (case build_execution_plan zero_run_request specs sample_images of
     Inr p \<Rightarrow> Some p | Inl _ \<Rightarrow> None)"

lemma sample_specs_distinct: "specs_distinct sample_specs"
  by code_simp

lemma sample_specs_order:
  "specs_in_order sample_specs =
     [sample_spec ''build'' [], sample_rollback, sample_spec ''test'' [''build''],
      sample_spec ''deploy'' [''test'']]"
  by code_simp

lemma sample_specs_topo:
  "topo (specs_deps sample_specs) {} (map ss_name (specs_in_order sample_specs))"
  by code_simp


lemma specs_in_order_deterministic_witness:
  "specs_in_order (rev sample_specs) = specs_in_order sample_specs \<and>
   map ss_name (specs_in_order (specs_in_order sample_specs)) =
     [''build'', ''rollback'', ''test'', ''deploy'']"
  using specs_in_order_deterministic [OF sample_specs_distinct, of "rev sample_specs"]
  by (simp add: sample_specs_order sample_spec_def sample_rollback_def)


definition sample_plan :: "pipeline_execution_plan option" where
  "sample_plan = Some \<lparr>pep_schema_version = [], pep_run_id = [], pep_issue_id = [],
     pep_work_order_id = [], pep_issue_type = [], pep_pipeline_family = [],
     pep_pipeline_selection = [], pep_optimization_goals = [], pep_testing = zero_testing_policy,
     pep_delivery_name = [], pep_checkpoint = [],
     pep_stages = map (\<lambda>s. plan_stage s \<lparr>ri_stage = [], ri_ref = [], ri_digest = []\<rparr>) sample_specs\<rparr>"

lemma sample_plan_specs: "plan_specs sample_plan = sample_specs"
  by code_simp

definition sample_attempts :: "stage_attempt gomap" where
  "sample_attempts = [(''build'', sample_attempt ''build'' AttemptStatusSucceeded)]"

lemma sample_evaluate:
  "map ss_name (ev_runnable (evaluate sample_plan zero_run_request sample_attempts True)) = [''test'']"
  "ev_status (evaluate sample_plan zero_run_request sample_attempts True) = RunStatusActive"
  by code_simp+

lemma evaluate_refines_spec_witness:
  "ev_status (evaluate_spec sample_plan zero_run_request sample_attempts True) = RunStatusActive"
  using evaluate_refines_spec [of sample_plan zero_run_request sample_attempts True] sample_evaluate(2)
  by (simp add: sample_plan_specs sample_specs_distinct)


definition sample_linear :: "pipeline_execution_plan option" where
  "sample_linear = map_option (pep_stages_update (take 3)) sample_plan"

lemma sample_linear_specs: "plan_specs sample_linear = take 3 sample_specs"
  by code_simp

lemma sample_linear_acyclic:
  "acyclic (dep_rel (map ss_name (plan_specs sample_linear)) (specs_deps (plan_specs sample_linear)))"
proof -
  have "specs_distinct (plan_specs sample_linear)" by code_simp
  moreover have "topo (specs_deps (plan_specs sample_linear)) {}
      (map ss_name (specs_in_order (plan_specs sample_linear)))" by code_simp
  ultimately show ?thesis
    by (metis specs_in_order_names specs_order_names_mset topo_permuted)
qed

lemma sample_linear_status:
  "ev_status (evaluate sample_linear zero_run_request sample_attempts True) = RunStatusActive"
  by code_simp


end
