(* ===== verification/Paths.thy ===== *)
theory Paths
  imports GoStrings "HOL-Library.Sublist"
begin

section \<open>Lexical file paths (path/filepath on Unix)\<close>

text \<open>
  \<open>Clean\<close>, \<open>Join\<close>, \<open>Rel\<close>, \<open>Base\<close>, \<open>Dir\<close> and \<open>Abs\<close> of package \<open>path/filepath\<close>, as the source uses
  them: they are lexical, so symbolic links play no part.  A path is read as a flag (does it
  start at the root) and its normalised components.  \<open>ToSlash\<close> and \<open>FromSlash\<close> are the identity.
\<close>

subsection \<open>Definitions\<close>

definition path_rooted :: "string \<Rightarrow> bool" where
  "path_rooted s \<longleftrightarrow> has_prefix s ''/''"

definition path_elems :: "string \<Rightarrow> string list" where
  "path_elems s = filter (\<lambda>p. p \<noteq> [] \<and> p \<noteq> ''.'') (split_on CHR ''/'' s)"

fun path_reduce :: "bool \<Rightarrow> string list \<Rightarrow> string list \<Rightarrow> string list" where
  "path_reduce rooted st [] = rev st"
| "path_reduce rooted st (p # ps) =
     (if p = ''..'' then
        (case st of
           [] \<Rightarrow> if rooted then path_reduce rooted [] ps else path_reduce rooted [''..''] ps
         | t # ts \<Rightarrow> if t = ''..'' then path_reduce rooted (''..'' # st) ps else path_reduce rooted ts ps)
      else path_reduce rooted (p # st) ps)"

definition path_comps :: "string \<Rightarrow> string list" where
  "path_comps s = path_reduce (path_rooted s) [] (path_elems s)"

definition path_render :: "bool \<Rightarrow> string list \<Rightarrow> string" where
  "path_render rooted cs =
     (if rooted then CHR ''/'' # join_with ''/'' cs
      else if cs = [] then ''.'' else join_with ''/'' cs)"

definition path_clean :: "string \<Rightarrow> string" where
  "path_clean s = path_render (path_rooted s) (path_comps s)"

definition path_join :: "string list \<Rightarrow> string" where
  "path_join es =
     (let ne = filter (\<lambda>e. e \<noteq> []) es in if ne = [] then [] else path_clean (join_with ''/'' ne))"

fun strip_common :: "string list \<Rightarrow> string list \<Rightarrow> string list \<times> string list" where
  "strip_common (b # bs) (t # ts) = (if b = t then strip_common bs ts else (b # bs, t # ts))"
| "strip_common bs ts = (bs, ts)"

definition path_rel :: "string \<Rightarrow> string \<Rightarrow> string option" where
  "path_rel base targ =
     (if path_clean base = path_clean targ then Some ''.''
      else if path_rooted base \<noteq> path_rooted targ then None
      else let (b, t) = strip_common (path_comps base) (path_comps targ)
           in if b \<noteq> [] \<and> hd b = ''..'' then None
              else Some (join_with ''/'' (replicate (length b) ''..'' @ t)))"

definition path_base :: "string \<Rightarrow> string" where
  "path_base s =
     (if s = [] then ''.''
      else let t = rev (dropWhile (\<lambda>c. c = CHR ''/'') (rev s))
           in if t = [] then ''/'' else last (split_on CHR ''/'' t))"

definition path_dir :: "string \<Rightarrow> string" where
  "path_dir s = path_clean (rev (dropWhile (\<lambda>c. c \<noteq> CHR ''/'') (rev s)))"

definition path_abs :: "string \<Rightarrow> string \<Rightarrow> string" where
  "path_abs cwd s = (if path_rooted s then path_clean s else path_join [cwd, s])"

text \<open>What \<open>os.Stat\<close> says of a path.\<close>

datatype stat_result = Stat_found | Stat_missing | Stat_error string

subsection \<open>Components\<close>

text \<open>A component of a clean path.\<close>

definition path_segment :: "string \<Rightarrow> bool" where
  "path_segment p \<longleftrightarrow> p \<noteq> [] \<and> p \<noteq> ''.'' \<and> p \<noteq> ''..'' \<and> CHR ''/'' \<notin> set p"

lemma path_elems_props: "p \<in> set (path_elems s) \<Longrightarrow> p \<noteq> [] \<and> p \<noteq> ''.'' \<and> CHR ''/'' \<notin> set p"
  by (auto simp: path_elems_def dest: split_on_parts)

lemma path_reduce_set: "set (path_reduce rooted st ps) \<subseteq> set st \<union> set ps"
proof (induction rooted st ps rule: path_reduce.induct)
  case (2 rooted st p ps)
  then show ?case by (cases st) (auto split: if_splits)
qed simp

lemma path_reduce_rooted: "''..'' \<notin> set st \<Longrightarrow> ''..'' \<notin> set (path_reduce True st ps)"
proof (induction "True" st ps rule: path_reduce.induct)
  case (2 st p ps)
  then show ?case by (cases st) auto
qed simp

lemma path_reduce_append:
  "path_reduce rooted st (ps @ qs) = path_reduce rooted (rev (path_reduce rooted st ps)) qs"
proof (induction rooted st ps rule: path_reduce.induct)
  case (2 rooted st p ps)
  then show ?case by (cases st) auto
qed simp

lemma path_reduce_plain: "''..'' \<notin> set ps \<Longrightarrow> path_reduce rooted st ps = rev st @ ps"
  by (induction ps arbitrary: st) auto

lemma path_comps_props: "p \<in> set (path_comps s) \<Longrightarrow> p \<noteq> [] \<and> p \<noteq> ''.'' \<and> CHR ''/'' \<notin> set p"
  using path_reduce_set [of "path_rooted s" "[]" "path_elems s"] path_elems_props
  unfolding path_comps_def by fastforce

lemma path_comps_segment: "path_rooted s \<Longrightarrow> p \<in> set (path_comps s) \<Longrightarrow> path_segment p"
  using path_comps_props [of p s] path_reduce_rooted [of "[]" "path_elems s"]
  unfolding path_segment_def path_comps_def by auto

lemma path_elems_join:
  "ps \<noteq> [] \<Longrightarrow> list_all (\<lambda>p. p \<noteq> [] \<and> p \<noteq> ''.'' \<and> CHR ''/'' \<notin> set p) ps \<Longrightarrow>
   path_elems (join_with ''/'' ps) = ps"
  using split_join [of ps "CHR ''/''"] by (simp add: path_elems_def list_all_iff)

lemma path_elems_root: "path_elems (CHR ''/'' # s) = path_elems s"
  by (simp add: path_elems_def)

lemma path_elems_Nil: "path_elems [] = []"
  by (simp add: path_elems_def)

lemma path_elems_append: "path_elems (s @ CHR ''/'' # t) = path_elems s @ path_elems t"
proof (induction s)
  case Nil
  then show ?case by (simp add: path_elems_def)
next
  case (Cons c s)
  have "split_on c' (s @ c' # t) = split_on c' s @ split_on c' t" for c' and s t :: string
  proof (induction s)
    case (Cons x xs)
    then show ?case using split_on_not_Nil [of c' xs] by (auto split: list.splits)
  qed simp
  then show ?case by (simp add: path_elems_def flip: append_Cons)
qed

lemma path_rooted_Cons [simp]: "path_rooted (CHR ''/'' # s)"
  by (simp add: path_rooted_def)

subsection \<open>Clean is idempotent\<close>

definition dotdots_first :: "string list \<Rightarrow> bool" where
  "dotdots_first cs \<longleftrightarrow> (\<exists>n ps. cs = replicate n ''..'' @ ps \<and> ''..'' \<notin> set ps)"

lemma dotdots_first_plain: "''..'' \<notin> set ps \<Longrightarrow> dotdots_first ps"
  unfolding dotdots_first_def by (rule exI [of _ 0]) simp

lemma dotdots_first_snoc: "dotdots_first cs \<Longrightarrow> p \<noteq> ''..'' \<Longrightarrow> dotdots_first (cs @ [p])"
  unfolding dotdots_first_def by (metis append.assoc insert_iff list.set(2) rotate1.simps(2) set_rotate1)

lemma dotdots_first_butlast: "dotdots_first (cs @ [p]) \<Longrightarrow> dotdots_first cs"
proof -
  assume "dotdots_first (cs @ [p])"
  then obtain n ps where c: "cs @ [p] = replicate n ''..'' @ ps" "''..'' \<notin> set ps"
    by (auto simp: dotdots_first_def)
  show "dotdots_first cs"
  proof (cases ps rule: rev_cases)
    case Nil
    with c have "set (cs @ [p]) \<subseteq> {''..''}"
      by (metis append_Nil2 set_replicate_conv_if subset_refl empty_subsetI)
    then have "cs = replicate (length cs) ''..''"
      by (metis Un_subset_iff set_append singletonD subsetD replicate_length_same)
    then show ?thesis
      unfolding dotdots_first_def by (metis append_Nil2 empty_iff list.set(1))
  next
    case (snoc qs q)
    with c show ?thesis by (auto simp: dotdots_first_def)
  qed
qed

lemma dotdots_first_dotdot: "dotdots_first (cs @ [''..'']) \<Longrightarrow> dotdots_first (cs @ [''..'', ''..''])"
proof -
  assume "dotdots_first (cs @ [''..''])"
  then obtain n ps where c: "cs @ [''..''] = replicate n ''..'' @ ps" "''..'' \<notin> set ps"
    by (auto simp: dotdots_first_def)
  have "ps = []"
    using c by (cases ps rule: rev_cases) auto
  then have "cs @ [''..'', ''..''] = replicate (Suc n) ''..''"
    using c(1) by (metis append.assoc append_Cons append_Nil append_Nil2 replicate_Suc replicate_append_same)
  then show ?thesis unfolding dotdots_first_def by (metis append_Nil2 empty_iff list.set(1))
qed

lemma path_reduce_normal:
  "(rooted \<Longrightarrow> ''..'' \<notin> set st) \<Longrightarrow> dotdots_first (rev st) \<Longrightarrow> dotdots_first (path_reduce rooted st ps)"
proof (induction rooted st ps rule: path_reduce.induct)
  case (1 rooted st)
  then show ?case by simp
next
  case (2 rooted st p ps)
  show ?case
  proof (cases "p = ''..''")
    case False
    then show ?thesis using 2 dotdots_first_snoc [of "rev st" p] by simp
  next
    case True
    show ?thesis
    proof (cases st)
      case Nil
      have "dotdots_first [''..'']"
        unfolding dotdots_first_def by (rule exI [of _ 1]) auto
      then show ?thesis using 2 True Nil by auto
    next
      case (Cons t ts)
      then show ?thesis
        using 2 True dotdots_first_butlast [of "rev ts" t] dotdots_first_dotdot [of "rev ts"] by auto
    qed
  qed
qed

lemma path_reduce_dotdots:
  "path_reduce False (replicate m ''..'') (replicate n ''..'' @ ps) =
   path_reduce False (replicate (m + n) ''..'') ps"
proof (induction n arbitrary: m)
  case (Suc n)
  have "path_reduce False (replicate m ''..'') (''..'' # (replicate n ''..'' @ ps)) =
      path_reduce False (replicate (Suc m) ''..'') (replicate n ''..'' @ ps)"
    by (cases m) auto
  then show ?case using Suc.IH [of "Suc m"] by simp
qed simp

lemma path_reduce_id:
  assumes "dotdots_first cs" and "rooted \<Longrightarrow> ''..'' \<notin> set cs"
  shows "path_reduce rooted [] cs = cs"
proof (cases rooted)
  case True
  then show ?thesis using assms by (simp add: path_reduce_plain)
next
  case False
  obtain n ps where "cs = replicate n ''..'' @ ps" "''..'' \<notin> set ps"
    using assms(1) by (auto simp: dotdots_first_def)
  then show ?thesis
    using False path_reduce_dotdots [of 0 n ps] by (simp add: path_reduce_plain)
qed

lemma path_comps_normal: "dotdots_first (path_comps s)"
  unfolding path_comps_def by (rule path_reduce_normal) (auto simp: dotdots_first_def)

lemma path_render_comps:
  assumes "\<And>p. p \<in> set cs \<Longrightarrow> p \<noteq> [] \<and> p \<noteq> ''.'' \<and> CHR ''/'' \<notin> set p"
    and "dotdots_first cs" and "rooted \<Longrightarrow> ''..'' \<notin> set cs"
  shows "path_rooted (path_render rooted cs) = rooted \<and> path_comps (path_render rooted cs) = cs"
proof -
  have elems: "path_elems (path_render rooted cs) = cs"
  proof (cases "cs = []")
    case True
    then show ?thesis by (cases rooted) (simp_all add: path_render_def path_elems_def)
  next
    case False
    then have "path_elems (join_with ''/'' cs) = cs"
      using assms(1) by (intro path_elems_join) (auto simp: list_all_iff)
    then show ?thesis using False by (simp add: path_render_def path_elems_root)
  qed
  have "\<not> path_rooted (join_with ''/'' cs)" if ne: "cs \<noteq> []"
  proof -
    obtain p ps where c: "cs = p # ps" using ne by (cases cs) auto
    then obtain x xs where "p = x # xs" "x \<noteq> CHR ''/''"
      using assms(1) [of p] by (cases p) auto
    then show ?thesis using c by (cases ps) (simp_all add: path_rooted_def)
  qed
  then have "path_rooted (path_render rooted cs) = rooted"
    by (cases rooted) (simp_all add: path_render_def, simp add: path_rooted_def)
  then show ?thesis
    using path_reduce_id [OF assms(2,3)] by (simp add: path_comps_def elems)
qed

lemma path_clean_comps:
  "path_rooted (path_clean s) = path_rooted s" "path_comps (path_clean s) = path_comps s"
  using path_render_comps [of "path_comps s" "path_rooted s"] path_comps_props [of _ s]
    path_comps_normal [of s] path_comps_segment [of s "''..''"]
  by (auto simp: path_clean_def path_segment_def)

lemma path_clean_idem [simp]: "path_clean (path_clean s) = path_clean s"
  unfolding path_clean_def [of "path_clean s"] path_clean_comps by (simp add: path_clean_def)

lemma path_clean_eq:
  "path_clean s = path_clean t \<longleftrightarrow> path_rooted s = path_rooted t \<and> path_comps s = path_comps t"
proof
  assume "path_clean s = path_clean t"
  then show "path_rooted s = path_rooted t \<and> path_comps s = path_comps t"
    using path_clean_comps [of s] path_clean_comps [of t] by simp
qed (simp add: path_clean_def)

subsection \<open>Joining clean segments\<close>

lemma path_elems_segments:
  "list_all path_segment ps \<Longrightarrow> ps \<noteq> [] \<Longrightarrow> path_elems (join_with ''/'' ps) = ps"
  by (rule path_elems_join) (auto simp: list_all_iff path_segment_def)

lemma join_with_append:
  "ps \<noteq> [] \<Longrightarrow> qs \<noteq> [] \<Longrightarrow>
   join_with sep (ps @ qs) = join_with sep ps @ sep @ join_with sep qs"
proof (induction sep ps rule: join_with.induct)
  case (2 sep s)
  then show ?case by (cases qs) auto
qed auto

lemma path_join_base:
  assumes "r \<noteq> []" and "list_all path_segment ps" and "ps \<noteq> []"
  shows "path_rooted (path_join (r # ps)) = path_rooted r"
    and "path_comps (path_join (r # ps)) = path_comps r @ ps"
proof -
  have ne: "filter (\<lambda>e. e \<noteq> []) (r # ps) = r # ps"
    using assms(1,2) by (auto simp: list_all_iff path_segment_def filter_id_conv)
  have j: "join_with ''/'' (r # ps) = r @ CHR ''/'' # join_with ''/'' ps"
    using join_with_append [of "[r]" ps "''/''"] assms(3) by simp
  have root: "path_rooted (r @ x) = path_rooted r" for x
    using assms(1) by (cases r) (auto simp: path_rooted_def)
  have "''..'' \<notin> set ps"
    using assms(2) by (auto simp: list_all_iff path_segment_def)
  then have "path_comps (r @ CHR ''/'' # join_with ''/'' ps) = path_comps r @ ps"
    by (simp add: path_comps_def path_elems_append path_elems_segments [OF assms(2,3)] root
        path_reduce_append path_reduce_plain)
  then show "path_rooted (path_join (r # ps)) = path_rooted r"
    and "path_comps (path_join (r # ps)) = path_comps r @ ps"
    using ne j by (simp_all add: path_join_def path_clean_comps root del: filter.simps)
qed

text \<open>A segment without separators that is no parent reference; a dot disappears.\<close>

definition path_safe :: "string \<Rightarrow> bool" where
  "path_safe p \<longleftrightarrow> p \<noteq> [] \<and> p \<noteq> ''..'' \<and> CHR ''/'' \<notin> set p"

lemma path_segment_safe: "path_segment p \<longleftrightarrow> path_safe p \<and> p \<noteq> ''.''"
  by (auto simp: path_segment_def path_safe_def)

lemma path_join_safe:
  assumes "r \<noteq> []" and "list_all path_safe ps" and "ps \<noteq> []"
  shows "path_rooted (path_join (r # ps)) = path_rooted r"
    and "path_comps (path_join (r # ps)) = path_comps r @ filter (\<lambda>p. p \<noteq> ''.'') ps"
proof -
  have ne: "filter (\<lambda>e. e \<noteq> []) (r # ps) = r # ps"
    using assms(1,2) by (auto simp: list_all_iff path_safe_def filter_id_conv)
  have j: "join_with ''/'' (r # ps) = r @ CHR ''/'' # join_with ''/'' ps"
    using join_with_append [of "[r]" ps "''/''"] assms(3) by simp
  have root: "path_rooted (r @ x) = path_rooted r" for x
    using assms(1) by (cases r) (auto simp: path_rooted_def)
  have "path_elems (join_with ''/'' ps) = filter (\<lambda>p. p \<noteq> ''.'') ps"
    using split_join [OF assms(3), of "CHR ''/''"] assms(2)
    by (auto simp: path_elems_def list_all_iff path_safe_def intro!: filter_cong)
  moreover have "''..'' \<notin> set (filter (\<lambda>p. p \<noteq> ''.'') ps)"
    using assms(2) by (auto simp: list_all_iff path_safe_def)
  ultimately have "path_comps (r @ CHR ''/'' # join_with ''/'' ps) =
      path_comps r @ filter (\<lambda>p. p \<noteq> ''.'') ps"
    by (simp add: path_comps_def path_elems_append root path_reduce_append path_reduce_plain)
  then show "path_rooted (path_join (r # ps)) = path_rooted r"
    and "path_comps (path_join (r # ps)) = path_comps r @ filter (\<lambda>p. p \<noteq> ''.'') ps"
    using ne j by (simp_all add: path_join_def path_clean_comps root del: filter.simps)
qed

lemma path_join_segments:
  assumes "list_all path_segment ps" and "ps \<noteq> []"
  shows "path_join ps = join_with ''/'' ps"
proof -
  have ne: "filter (\<lambda>e. e \<noteq> []) ps = ps"
    using assms(1) by (auto simp: list_all_iff path_segment_def filter_id_conv)
  have "path_comps (join_with ''/'' ps) = ps" "\<not> path_rooted (join_with ''/'' ps)"
    using path_render_comps [of ps False] assms dotdots_first_plain [of ps]
    by (auto simp: path_render_def list_all_iff path_segment_def)
  then show ?thesis
    using ne assms(2) by (simp add: path_join_def path_clean_def path_render_def)
qed

lemma join_with_not_Nil: "x \<in> set xs \<Longrightarrow> x \<noteq> [] \<Longrightarrow> join_with sep xs \<noteq> []"
  by (induction sep xs rule: join_with.induct) auto

lemma path_clean_not_Nil: "path_clean s \<noteq> []"
proof (cases "path_comps s")
  case (Cons p ps)
  then have "join_with ''/'' (path_comps s) \<noteq> []"
    using path_comps_props [of p s] by (intro join_with_not_Nil [of p]) auto
  then show ?thesis by (simp add: path_clean_def path_render_def)
qed (simp add: path_clean_def path_render_def)

lemma path_join_pair: "a \<noteq> [] \<Longrightarrow> b \<noteq> [] \<Longrightarrow> path_join [a, b] = path_clean (a @ ''/'' @ b)"
  by (simp add: path_join_def)

lemma path_join_last:
  assumes "path_segment b" and "x \<in> set xs" and "x \<noteq> []"
  shows "path_join [path_join xs, b] = path_join (xs @ [b])"
proof -
  define r where "r = join_with ''/'' (filter (\<lambda>e. e \<noteq> []) xs)"
  have ne: "filter (\<lambda>e. e \<noteq> []) xs \<noteq> []" using assms(2,3) by (auto simp: filter_empty_conv)
  have b: "list_all path_segment [b]" "[b] \<noteq> []" "b \<noteq> []" using assms(1) by (simp_all add: path_segment_def)
  have r: "r \<noteq> []" unfolding r_def by (rule join_with_not_Nil [of x]) (use assms in auto)
  have j: "path_join xs = path_clean r" using ne by (simp add: path_join_def Let_def r_def)
  have "path_join (xs @ [b]) = path_join [r, b]"
    using ne b r join_with_append [OF ne b(2), of "''/''"] by (simp add: path_join_def Let_def r_def)
  moreover have "path_join [path_clean r, b] = path_join [r, b]"
    using path_join_base [OF path_clean_not_Nil [of r] b(1,2)] path_join_base [OF r b(1,2)] b(3) r
    by (simp add: path_join_pair path_clean_not_Nil path_clean_comps path_clean_eq)
  ultimately show ?thesis by (simp add: j)
qed

subsection \<open>Relative paths\<close>

lemma strip_common_prefix: "strip_common bs (bs @ ts) = ([], ts)"
  by (induction bs) (cases ts; simp)+

lemma strip_common_spec:
  "strip_common bs ts = (b, t) \<Longrightarrow> \<exists>c. bs = c @ b \<and> ts = c @ t \<and> (b = [] \<or> t = [] \<or> hd b \<noteq> hd t)"
proof (induction bs ts rule: strip_common.induct)
  case (1 x bs y ts)
  show ?case
  proof (cases "x = y")
    case True
    then obtain c where "bs = c @ b \<and> ts = c @ t \<and> (b = [] \<or> t = [] \<or> hd b \<noteq> hd t)"
      using 1 by auto
    then show ?thesis using True by (intro exI [of _ "y # c"]) simp
  next
    case False
    then show ?thesis using "1.prems" by (intro exI [of _ "[]"]) auto
  qed
qed (auto intro: exI [of _ "[]"])

text \<open>\<open>Rel\<close> undoes \<open>Join\<close> on clean segments.\<close>

lemma path_rel_join:
  assumes "r \<noteq> []" and "list_all path_segment ps" and "ps \<noteq> []"
  shows "path_rel r (path_join (r # ps)) = Some (join_with ''/'' ps)"
  using path_join_base [OF assms] assms(3)
  by (simp add: path_rel_def path_clean_eq strip_common_prefix)

end
