(* ===== verification/Isolation.thy ===== *)
theory Isolation
  imports Model Paths
begin

section \<open>The runtime sandbox of a stage (internal/isolation, internal/repos)\<close>

text \<open>
  \<open>New\<close> computes from the identity and the permissions of a stage where it may write and which
  repositories it controls; \<open>RequireWrite\<close> and \<open>RequireRepoControl\<close> decide a path.  The checks
  are lexical; the working directory, which \<open>filepath.Abs\<close> reads, is a parameter.
\<close>

subsection \<open>Where a repository may be (internal/repos/state.go)\<close>

fun dedupe_clean :: "string list \<Rightarrow> string list \<Rightarrow> string list" where
  "dedupe_clean seen [] = []"
| "dedupe_clean seen (v # vs) =
     (let c = path_clean v
      in if c \<in> set seen then dedupe_clean seen vs else c # dedupe_clean (c # seen) vs)"

definition dedupe_strings :: "string list \<Rightarrow> string list" where
  "dedupe_strings vs = dedupe_clean [] vs"

definition repo_roots :: "string \<Rightarrow> string list \<Rightarrow> string list" where
  "repo_roots root_dir extra =
     dedupe_strings (fold (\<lambda>e roots. let e = trim_space e in if e = [] then roots else e # roots)
       extra [root_dir, path_dir root_dir])"

definition repo_candidates :: "string \<Rightarrow> string \<Rightarrow> string list \<Rightarrow> string list" where
  "repo_candidates root_dir project_path extra =
     (if trim_space project_path = [] then []
      else if path_rooted project_path then [project_path]
      else dedupe_strings (concat (map
        (\<lambda>rt. if rt = [] then []
                else [path_join [rt, project_path], path_join [rt, path_base project_path]])
        (repo_roots root_dir extra))))"

subsection \<open>filepath.Match\<close>

text \<open>
  A pattern is read in chunks, each with an optional star before it; a chunk has literals, \<open>?\<close>,
  classes and escapes.  The first place at which a chunk matches after a star is kept.
\<close>

definition glob_esc :: "string \<Rightarrow> (char \<times> string) option" where
  "glob_esc s =
     (case s of
        [] \<Rightarrow> None
      | c # cs \<Rightarrow>
          if c = CHR ''-'' \<or> c = CHR '']'' then None
          else let t = (if c = CHR 0x5C then cs else s)
               in case t of x # y # ys \<Rightarrow> Some (x, y # ys) | _ \<Rightarrow> None)"

lemma glob_esc_shorter: "glob_esc s = Some (c, t) \<Longrightarrow> length t < length s"
  by (auto simp: glob_esc_def Let_def split: list.splits if_splits)

function glob_class :: "char \<Rightarrow> bool \<Rightarrow> bool \<Rightarrow> string \<Rightarrow> (bool \<times> string) option" where
  "glob_class r seen hit s =
     (if seen \<and> has_prefix s '']'' then Some (hit, tl s)
      else case glob_esc s of
        None \<Rightarrow> None
      | Some (lo, t) \<Rightarrow>
          (if has_prefix t ''-'' then
             (case glob_esc (tl t) of
                None \<Rightarrow> None
              | Some (hi, u) \<Rightarrow> glob_class r True (hit \<or> lo \<le> r \<and> r \<le> hi) u)
           else glob_class r True (hit \<or> lo = r) t))"
  by pat_completeness auto
termination
proof (relation "measure (\<lambda>(_, _, _, s). length s)", goal_cases)
  case 1
  then show ?case by simp
next
  case (2 r seen hit s x lo t y hi u)
  then have "length t < length s" "length u < length (tl t)"
    by (auto dest: glob_esc_shorter)
  then show ?case by simp
next
  case (3 r seen hit s x lo t)
  then show ?case by (auto dest: glob_esc_shorter)
qed

declare glob_class.simps [simp del]

lemma glob_class_shorter: "glob_class r seen hit s = Some (h, t) \<Longrightarrow> length t < length s"
proof (induction r seen hit s rule: glob_class.induct)
  case (1 r seen hit s)
  show ?case
  proof (cases "seen \<and> has_prefix s '']''")
    case True
    then have "t = tl s"
      using "1.prems" by (subst (asm) glob_class.simps) simp
    moreover have "s \<noteq> []" using True by (cases s) auto
    ultimately show ?thesis by simp
  next
    case False
    then obtain lo t' where e: "glob_esc s = Some (lo, t')"
      using "1.prems" by (auto simp: glob_class.simps [of r seen hit s] simp del: has_prefix.simps split: option.splits)
    then have "length t' < length s" by (rule glob_esc_shorter)
    show ?thesis
    proof (cases "has_prefix t' ''-''")
      case True
      then obtain hi u where u: "glob_esc (tl t') = Some (hi, u)"
        using "1.prems" False e
        by (auto simp: glob_class.simps [of r seen hit s] simp del: has_prefix.simps split: option.splits)
      then have "length u < length (tl t')" by (rule glob_esc_shorter)
      moreover have "length t < length u"
        using "1.IH"(1) [OF False e refl True u refl] "1.prems" False e True u
        by (simp add: glob_class.simps [of r seen hit s] del: has_prefix.simps)
      ultimately show ?thesis using \<open>length t' < length s\<close> by simp
    next
      case no: False
      then have "length t < length t'"
        using "1.IH"(2) [OF False e refl no] "1.prems" False e
        by (simp add: glob_class.simps [of r seen hit s] del: has_prefix.simps)
      then show ?thesis using \<open>length t' < length s\<close> by simp
    qed
  qed
qed

function glob_chunk :: "string \<Rightarrow> string \<Rightarrow> string option" where
  "glob_chunk [] s = Some s"
| "glob_chunk (p # ps) s =
     (case s of
        [] \<Rightarrow> None
      | c # cs \<Rightarrow>
          if p = CHR ''['' then
            (let negated = has_prefix ps ''^''; body = (if negated then tl ps else ps)
             in case glob_class c False False body of
                  None \<Rightarrow> None
                | Some (hit, rest) \<Rightarrow> if hit = negated then None else glob_chunk rest cs)
          else if p = CHR ''?'' then (if c = CHR ''/'' then None else glob_chunk ps cs)
          else if p = CHR 0x5C then
            (case ps of [] \<Rightarrow> None | q # qs \<Rightarrow> if c = q then glob_chunk qs cs else None)
          else if c = p then glob_chunk ps cs else None)"
  by pat_completeness auto
termination
  by (relation "measure (\<lambda>(p, _). length p)")
    (auto dest!: glob_class_shorter split: if_splits)

declare glob_chunk.simps(2) [simp del]

text \<open>\<open>scanChunk\<close>: the chunk up to the next star outside a class, and what follows.\<close>

fun glob_scan :: "bool \<Rightarrow> string \<Rightarrow> string \<times> string" where
  "glob_scan inrange [] = ([], [])"
| "glob_scan inrange (c # cs) =
     (if c = CHR ''*'' \<and> \<not> inrange then ([], c # cs)
      else if c = CHR 0x5C then
        (case cs of
           [] \<Rightarrow> ([c], [])
         | d # ds \<Rightarrow> (let (chunk, rest) = glob_scan inrange ds in (c # d # chunk, rest)))
      else (let r = (if c = CHR ''['' then True else if c = CHR '']'' then False else inrange);
                (chunk, rest) = glob_scan r cs
            in (c # chunk, rest)))"

fun glob_star :: "string \<Rightarrow> bool \<Rightarrow> string \<Rightarrow> string option" where
  "glob_star chunk last_chunk [] = None"
| "glob_star chunk last_chunk (c # cs) =
     (if c = CHR ''/'' then None
      else case glob_chunk chunk cs of
             Some t \<Rightarrow> if last_chunk \<and> t \<noteq> [] then glob_star chunk last_chunk cs else Some t
           | None \<Rightarrow> glob_star chunk last_chunk cs)"

lemma glob_scan_plain:
  "c \<noteq> CHR 0x5C \<Longrightarrow> \<not> (c = CHR ''*'' \<and> \<not> b) \<Longrightarrow> \<exists>r. snd (glob_scan b (c # cs)) = snd (glob_scan r cs)"
  by (simp only: glob_scan.simps if_False split_beta snd_conv Let_def) blast

lemma glob_scan_escape:
  "snd (glob_scan b (CHR 0x5C # d # ds)) = snd (glob_scan b ds)"
  by (simp add: split_beta Let_def)

lemma glob_scan_length: "length (snd (glob_scan b s)) \<le> length s"
proof (induction s arbitrary: b rule: length_induct)
  case (1 s)
  show ?case
  proof (cases s)
    case Nil
    then show ?thesis by simp
  next
    case (Cons c cs)
    show ?thesis
    proof (cases "c = CHR 0x5C")
      case True
      show ?thesis
      proof (cases cs)
        case Nil
        then show ?thesis using True \<open>s = c # cs\<close> by simp
      next
        case (Cons d ds)
        then have "length (snd (glob_scan b ds)) \<le> length ds"
          using 1 \<open>s = c # cs\<close> by simp
        then show ?thesis using True Cons \<open>s = c # cs\<close> by (simp only: glob_scan_escape) simp
      qed
    next
      case False
      show ?thesis
      proof (cases "c = CHR ''*'' \<and> \<not> b")
        case True
        then show ?thesis using Cons by simp
      next
        case no: False
        obtain r where "snd (glob_scan b (c # cs)) = snd (glob_scan r cs)"
          using glob_scan_plain [OF False no] by blast
        moreover have "length (snd (glob_scan r cs)) \<le> length cs"
          using 1 Cons by simp
        ultimately show ?thesis using Cons by simp
      qed
    qed
  qed
qed

lemma glob_scan_shorter:
  assumes "\<not> has_prefix s ''*''" and "s \<noteq> []"
  shows "length (snd (glob_scan False s)) < length s"
proof -
  obtain c cs where s: "s = c # cs" "c \<noteq> CHR ''*''"
    using assms by (cases s) auto
  show ?thesis
  proof (cases "c = CHR 0x5C")
    case True
    then show ?thesis
      using s glob_scan_length [of False "tl cs"]
      by (cases cs) (simp_all add: glob_scan_escape del: glob_scan.simps(2), simp)
  next
    case False
    then obtain r where "snd (glob_scan False (c # cs)) = snd (glob_scan r cs)"
      using glob_scan_plain [of c False cs] s(2) by blast
    then show ?thesis using s(1) glob_scan_length [of r cs] by simp
  qed
qed

lemma glob_rest_shorter:
  "p \<noteq> [] \<Longrightarrow> length (snd (glob_scan False (dropWhile (\<lambda>c. c = CHR ''*'') p))) < length p"
proof (cases "has_prefix p ''*''")
  case True
  assume "p \<noteq> []"
  with True obtain q where p: "p = CHR ''*'' # q"
    by (cases p) auto
  have "length (snd (glob_scan False (dropWhile (\<lambda>c. c = CHR ''*'') p))) \<le>
      length (dropWhile (\<lambda>c. c = CHR ''*'') q)"
    using glob_scan_length [of False "dropWhile (\<lambda>c. c = CHR ''*'') p"] p by simp
  also have "\<dots> < length p"
    using length_dropWhile_le [of "\<lambda>c. c = CHR ''*''" q] p by simp
  finally show ?thesis .
next
  case False
  assume "p \<noteq> []"
  moreover from this False have "dropWhile (\<lambda>c. c = CHR ''*'') p = p"
    by (cases p) auto
  ultimately show ?thesis using glob_scan_shorter [OF False] by simp
qed

function glob_match :: "string \<Rightarrow> string \<Rightarrow> bool" where
  "glob_match pattern name =
     (if pattern = [] then name = []
      else let star = has_prefix pattern ''*'';
               body = dropWhile (\<lambda>c. c = CHR ''*'') pattern;
               chunk = fst (glob_scan False body);
               rest = snd (glob_scan False body)
           in if star \<and> chunk = [] then CHR ''/'' \<notin> set name
              else (case glob_chunk chunk name of
                  Some t \<Rightarrow>
                    if t = [] \<or> rest \<noteq> [] then glob_match rest t
                    else if star then (case glob_star chunk (rest = []) name of
                        None \<Rightarrow> False | Some u \<Rightarrow> glob_match rest u) else False
                | None \<Rightarrow>
                    if star then (case glob_star chunk (rest = []) name of
                        None \<Rightarrow> False | Some u \<Rightarrow> glob_match rest u) else False))"
  by pat_completeness auto
termination
proof (relation "measure (\<lambda>(p, _). length p)", goal_cases)
  case 1
  then show ?case by simp
qed (use glob_rest_shorter in auto)

declare glob_match.simps [simp del]

subsection \<open>Scopes\<close>

record scope =
  scp_root :: string
  scp_patterns :: "string list"
  scp_allow_all :: bool
  scp_reason :: string

definition same_or_under :: "string \<Rightarrow> string \<Rightarrow> bool" where
  "same_or_under rt path \<longleftrightarrow>
     (case path_rel (path_clean rt) (path_clean path) of
        None \<Rightarrow> False
      | Some rel \<Rightarrow> rel = ''.'' \<or> rel \<noteq> ''..'' \<and> \<not> has_prefix rel ''../'')"

definition match_pattern :: "string \<Rightarrow> string \<Rightarrow> bool" where
  "match_pattern pattern rel =
     (let pattern = trim_prefix pattern ''./''; rel = trim_prefix rel ''./''
      in if pattern = [] \<or> pattern = ''.'' then rel = ''.'' \<or> rel = []
         else if pattern = rel then True
         else if has_suffix pattern ''/**'' then
           (let pre = trim_suffix pattern ''/**''
            in rel = pre \<or> has_prefix rel (pre @ ''/''))
         else glob_match pattern rel)"

definition scope_allows :: "scope \<Rightarrow> string \<Rightarrow> bool" where
  "scope_allows s path =
     (if \<not> same_or_under (scp_root s) path then False
      else if scp_allow_all s then True
      else case path_rel (scp_root s) path of
        None \<Rightarrow> False
      | Some rel \<Rightarrow> list_ex (\<lambda>pattern. match_pattern pattern rel) (scp_patterns s))"

subsection \<open>The sandbox\<close>

record sandbox =
  sb_stage :: string
  sb_environment :: string
  sb_run_as :: execution_identity
  sb_write_as :: execution_identity
  sb_permissions :: stage_permissions
  sb_repo_roots :: "string list"
  sb_workspace_root :: string
  sb_writable_scopes :: "scope list"
  sb_repo_control_roots :: "string gomap"

definition sb_allow_all :: "string \<Rightarrow> string \<Rightarrow> sandbox \<Rightarrow> sandbox" where
  "sb_allow_all rt reason s =
     s\<lparr>sb_writable_scopes := sb_writable_scopes s @
        [\<lparr>scp_root = path_clean rt, scp_patterns = [], scp_allow_all = True, scp_reason = reason\<rparr>]\<rparr>"

definition sb_allow_patterns :: "string \<Rightarrow> string list \<Rightarrow> string \<Rightarrow> sandbox \<Rightarrow> sandbox" where
  "sb_allow_patterns rt patterns reason s =
     (let cleaned = filter (\<lambda>p. p \<noteq> []) (map trim_space patterns)
      in if cleaned = [] then s
         else s\<lparr>sb_writable_scopes := sb_writable_scopes s @
           [\<lparr>scp_root = path_clean rt, scp_patterns = cleaned, scp_allow_all = False,
             scp_reason = reason\<rparr>]\<rparr>)"

definition sb_allow_repo_control :: "string \<Rightarrow> string \<Rightarrow> sandbox \<Rightarrow> sandbox" where
  "sb_allow_repo_control rt reason s =
     (let rt = path_clean rt
      in if rt = [] then s
         else if gm_get (sb_repo_control_roots s) rt \<noteq> None then s
         else s\<lparr>sb_repo_control_roots := gm_put rt reason (sb_repo_control_roots s)\<rparr>)"

definition mutable_patterns :: "path_ownership_rule list \<Rightarrow> string list" where
  "mutable_patterns rules = concat (map por_paths (filter por_mutable rules))"

definition unique_candidates :: "string list \<Rightarrow> string list" where
  "unique_candidates vs = dedupe_clean [] vs"

definition gitops_candidates :: "string \<Rightarrow> string \<Rightarrow> string \<Rightarrow> string list \<Rightarrow> string list" where
  "gitops_candidates root_dir project_path materialization_path extra =
     (let candidates = repo_candidates root_dir project_path extra;
          candidates = (if trim_space materialization_path \<noteq> []
                        then candidates @ [path_clean materialization_path] else candidates)
      in dedupe_clean [] candidates)"

text \<open>The candidates of one repository of a component.\<close>

definition add_component_candidates ::
  "string \<Rightarrow> delivery_component \<Rightarrow> component_repository \<Rightarrow> sandbox \<Rightarrow> sandbox" where
  "add_component_candidates root_dir component repo s =
     (let rules = (if cr_ownership repo = [] then component_rules_for component (sb_write_as s)
                   else repository_rules_for repo (sb_write_as s));
          patterns = mutable_patterns rules;
          reason = sb_write_as s @ '' component '' @ dc_name component
      in fold (\<lambda>candidate s.
           let s1 = (if patterns \<noteq> [] \<and> allows_writable (sb_permissions s) StageSurfaceComponents
                     then sb_allow_patterns candidate patterns reason s else s)
           in if allows_repo_control (sb_permissions s) StageSurfaceComponents
              then sb_allow_repo_control candidate reason s1 else s1)
         (repo_candidates root_dir (rt_project_path (cr_repo repo)) (sb_repo_roots s)) s)"

definition add_components :: "string \<Rightarrow> delivery_target \<Rightarrow> sandbox \<Rightarrow> sandbox" where
  "add_components root_dir target s =
     fold (\<lambda>component. fold (add_component_candidates root_dir component) (all_repositories component))
       (selected_delivery_components target) s"

text \<open>The writable and the controlled candidates of a journal or GitOps repository.\<close>

definition add_repository ::
  "stage_surface \<Rightarrow> string \<Rightarrow> string \<Rightarrow> string \<Rightarrow> string list \<Rightarrow> sandbox \<Rightarrow> sandbox" where
  "add_repository surface repo_reason reason pattern candidates s =
     fold (\<lambda>candidate s.
       let s1 = (if allows_writable (sb_permissions s) surface
                 then sb_allow_patterns candidate [pattern] reason (sb_allow_all candidate repo_reason s)
                 else s)
       in if allows_repo_control (sb_permissions s) surface
          then sb_allow_repo_control candidate reason s1 else s1)
     candidates s"

definition uses_surface :: "sandbox \<Rightarrow> stage_surface \<Rightarrow> bool" where
  "uses_surface s surface \<longleftrightarrow>
     allows_writable (sb_permissions s) surface \<or> allows_repo_control (sb_permissions s) surface"

definition add_governed_journal :: "string \<Rightarrow> run_request \<Rightarrow> sandbox \<Rightarrow> sandbox" where
  "add_governed_journal root_dir run s =
     (let journal = dt_journal (run_delivery_target run)
      in add_repository StageSurfaceJournal ''governed journal repo'' ''governed journal''
           (trim_char CHR ''/'' (jt_path journal) @ ''/**'')
           (gitops_candidates root_dir (rt_project_path (jt_repo journal))
             (rt_materialization_path (jt_repo journal)) (sb_repo_roots s)) s)"

definition add_governed_gitops :: "string \<Rightarrow> run_request \<Rightarrow> sandbox \<Rightarrow> sandbox" where
  "add_governed_gitops root_dir run s =
     (let env = trim_space (sb_environment s);
          repo = et_gitops_repo (run_environment_target run env)
      in if gt_project_path repo \<noteq> [] \<and> gt_path repo \<noteq> [] then
           add_repository StageSurfaceGitOps (''governed gitops repo '' @ env) (''governed gitops '' @ env)
             (trim_char CHR ''/'' (gt_path repo) @ ''/**'')
             (gitops_candidates root_dir (gt_project_path repo) (gt_materialization_path repo)
               (sb_repo_roots s)) s
         else s)"

definition add_generator_journal :: "string \<Rightarrow> string \<Rightarrow> run_request \<Rightarrow> sandbox \<Rightarrow> sandbox" where
  "add_generator_journal root_dir data_dir run s =
     (let journal = dt_journal (run_delivery_target run);
          candidates = gitops_candidates root_dir (rt_project_path (jt_repo journal))
            (rt_materialization_path (jt_repo journal)) (sb_repo_roots s);
          fallback = path_join [data_dir, ''generator'', rt_project_path (jt_repo journal)]
      in add_repository StageSurfaceJournal ''generator journal repo'' ''generator durable outputs''
           (path_join [trim_char CHR ''/'' (jt_path journal), ''generated''] @ ''/**'')
           (unique_candidates (candidates @ [fallback])) s)"

definition add_identity_scopes :: "string \<Rightarrow> string \<Rightarrow> run_request \<Rightarrow> sandbox \<Rightarrow> sandbox" where
  "add_identity_scopes root_dir data_dir run s =
     (if sb_write_as s = [] \<or> \<not> identity_valid (sb_write_as s) then s
      else let s1 = (if uses_surface s StageSurfaceComponents
                     then add_components root_dir (run_delivery_target run) s else s);
               s2 = (if sb_write_as s = ExecutionIdentityGoverned \<and> uses_surface s StageSurfaceJournal
                     then add_governed_journal root_dir run s1 else s1);
               s3 = (if sb_write_as s = ExecutionIdentityGoverned \<and> uses_surface s StageSurfaceGitOps
                     then add_governed_gitops root_dir run s2 else s2)
           in if sb_write_as s = ExecutionIdentityGenerator \<and> uses_surface s StageSurfaceJournal
              then add_generator_journal root_dir data_dir run s3 else s3)"

definition new_sandbox ::
  "string \<Rightarrow> string \<Rightarrow> string list \<Rightarrow> stage_spec \<Rightarrow> run_request \<Rightarrow> sandbox" where
  "new_sandbox root_dir data_dir roots spec run =
     (let container = container_config spec;
          workspace = path_join [data_dir, ''workspaces'', run_id run, ss_name spec];
          s = \<lparr>sb_stage = ss_name spec, sb_environment = spec_environment spec,
               sb_run_as = sc_run_as container, sb_write_as = sc_write_as container,
               sb_permissions = sc_permissions container, sb_repo_roots = roots,
               sb_workspace_root = workspace, sb_writable_scopes = [], sb_repo_control_roots = []\<rparr>
      in add_identity_scopes root_dir data_dir run (sb_allow_all workspace ''workspace'' s))"

definition require_write :: "string \<Rightarrow> sandbox \<Rightarrow> string \<Rightarrow> string + unit" where
  "require_write cwd s path =
     (if sb_write_as s = [] then Inr ()
      else let p = path_abs cwd path
           in if list_ex (\<lambda>sc. scope_allows sc p) (sb_writable_scopes s) then Inr ()
              else Inl (''runtime sandbox denies '' @ sb_stage s @ '' write to '' @ p @
                '' for write_as '' @ fmt_q (sb_write_as s)))"

definition require_repo_control :: "string \<Rightarrow> sandbox \<Rightarrow> string \<Rightarrow> string \<Rightarrow> string + unit" where
  "require_repo_control cwd s path operation =
     (if sb_write_as s = [] then Inr ()
      else let p = path_abs cwd path
           in if list_ex (\<lambda>rt. same_or_under rt p) (gm_keys (sb_repo_control_roots s)) then Inr ()
              else Inl (''runtime sandbox denies '' @ sb_stage s @ '' repo control ('' @ operation @
                '') at '' @ p @ '' for write_as '' @ fmt_q (sb_write_as s)))"

subsection \<open>Confinement\<close>

lemma join_hd:
  assumes "path_segment p"
  shows "join_with ''/'' (p # ps) \<noteq> ''..'' \<and> \<not> has_prefix (join_with ''/'' (p # ps)) ''../'' \<and>
    (join_with ''/'' (p # ps) = ''.'' \<longrightarrow> False)"
proof -
  have p: "p \<noteq> []" "p \<noteq> ''.''" "p \<noteq> ''..''" "CHR ''/'' \<notin> set p"
    using assms by (auto simp: path_segment_def)
  have slash: "CHR ''/'' \<in> set x" if "p @ x = ''..'' \<or> p @ x = ''.''" for x
    using that p by (auto simp: append_eq_Cons_conv)
  have two: "p @ x \<noteq> ''../'' @ y" for x y
    using p by (auto simp: append_eq_Cons_conv)
  have "\<exists>x. join_with ''/'' (p # ps) = p @ x \<and> (x = [] \<or> CHR ''/'' \<in> set x)"
    by (cases ps) auto
  then obtain x where x: "join_with ''/'' (p # ps) = p @ x" "x = [] \<or> CHR ''/'' \<in> set x"
    by blast
  have "p @ x \<noteq> ''..'' \<and> p @ x \<noteq> ''.''"
    using p x(2) by (auto simp: append_eq_Cons_conv)
  then show ?thesis
    using two [of x] unfolding x(1) has_prefix_iff by blast
qed

lemma join_dotdot:
  "n \<noteq> 0 \<Longrightarrow> join_with ''/'' (replicate n ''..'' @ ts) = ''..'' \<or>
    has_prefix (join_with ''/'' (replicate n ''..'' @ ts)) ''../''"
proof -
  assume "n \<noteq> 0"
  then obtain m where n: "n = Suc m" by (cases n) auto
  show ?thesis
  proof (cases "replicate m ''..'' @ ts")
    case Nil
    then show ?thesis by (simp add: n)
  next
    case (Cons q qs)
    then show ?thesis by (simp add: n)
  qed
qed

lemma same_or_under_rooted:
  assumes "path_rooted r" and "path_rooted p"
  shows "same_or_under r p \<longleftrightarrow> prefix (path_comps r) (path_comps p)"
proof (cases "path_comps r = path_comps p")
  case True
  then show ?thesis
    using assms by (simp add: same_or_under_def path_rel_def path_clean_eq path_clean_comps)
next
  case False
  obtain b t where bt: "strip_common (path_comps r) (path_comps p) = (b, t)" by fastforce
  then obtain c where c: "path_comps r = c @ b" "path_comps p = c @ t" "b = [] \<or> t = [] \<or> hd b \<noteq> hd t"
    using strip_common_spec by blast
  have seg: "path_segment x" if "x \<in> set (b @ t)" for x
    using that c path_comps_segment [OF assms(1), of x] path_comps_segment [OF assms(2), of x] by auto
  have rel: "path_rel (path_clean r) (path_clean p) =
      (if b \<noteq> [] \<and> hd b = ''..'' then None
       else Some (join_with ''/'' (replicate (length b) ''..'' @ t)))"
    using False assms bt by (simp add: path_rel_def path_clean_eq path_clean_comps)
  show ?thesis
  proof (cases b)
    case Nil
    then obtain x xs where t: "t = x # xs"
      using False c by (cases t) auto
    then show ?thesis
      using Nil rel c join_hd [OF seg, of x xs] by (simp add: same_or_under_def)
  next
    case (Cons x xs)
    then have "x \<noteq> ''..''" using seg [of x] by (simp add: path_segment_def)
    moreover have "\<not> prefix (path_comps r) (path_comps p)"
      using c Cons by (cases t) auto
    moreover have "join_with ''/'' (replicate (length b) ''..'' @ t) \<noteq> ''.''"
      using join_dotdot [of "length b" t] Cons by (auto simp: has_prefix_iff)
    ultimately show ?thesis
      using rel Cons join_dotdot [of "length b" t]
      by (auto simp: same_or_under_def simp del: replicate.simps has_prefix.simps)
  qed
qed

lemma path_abs_rooted: "path_rooted cwd \<Longrightarrow> path_rooted (path_abs cwd p)"
proof -
  assume c: "path_rooted cwd"
  then obtain d where d: "cwd = CHR ''/'' # d"
    by (cases cwd) (auto simp: path_rooted_def)
  show ?thesis
  proof (cases "path_rooted p")
    case True
    then show ?thesis by (simp add: path_abs_def path_clean_comps)
  next
    case False
    then show ?thesis
      using d by (cases "p = []") (simp_all add: path_abs_def path_join_def path_clean_comps)
  qed
qed

lemma path_abs_no_dotdot:
  "path_rooted cwd \<Longrightarrow> list_all path_segment (path_comps (path_abs cwd p))"
  using path_comps_segment [OF path_abs_rooted] by (auto simp: list_all_iff)

lemma scope_allows_under: "scope_allows sc p \<Longrightarrow> same_or_under (scp_root sc) p"
  by (simp add: scope_allows_def split: if_splits)

text \<open>
  C17: a write that the sandbox lets through stays inside.  With an identity set and absolute
  scope roots, \<open>RequireWrite\<close> accepts a path only if, after resolving it, every parent reference
  is gone and its components extend those of the root of a scope that is either unrestricted or
  has a pattern for the rest.
\<close>

theorem require_write_confined:
  assumes "require_write cwd s path = Inr ()" and "sb_write_as s \<noteq> []" and "path_rooted cwd"
    and "\<forall>sc \<in> set (sb_writable_scopes s). path_rooted (scp_root sc)"
  shows "list_all path_segment (path_comps (path_abs cwd path)) \<and>
    (\<exists>sc \<in> set (sb_writable_scopes s).
       prefix (path_comps (scp_root sc)) (path_comps (path_abs cwd path)) \<and>
       (scp_allow_all sc \<or>
        (\<exists>rel. path_rel (scp_root sc) (path_abs cwd path) = Some rel \<and>
           list_ex (\<lambda>pattern. match_pattern pattern rel) (scp_patterns sc))))"
proof -
  obtain sc where sc: "sc \<in> set (sb_writable_scopes s)" "scope_allows sc (path_abs cwd path)"
    using assms(1,2) by (auto simp: require_write_def Let_def list_ex_iff split: if_splits)
  have "prefix (path_comps (scp_root sc)) (path_comps (path_abs cwd path))"
    using scope_allows_under [OF sc(2)] same_or_under_rooted [OF _ path_abs_rooted [OF assms(3)]]
      assms(4) sc(1) by blast
  moreover have "scp_allow_all sc \<or> (\<exists>rel. path_rel (scp_root sc) (path_abs cwd path) = Some rel \<and>
      list_ex (\<lambda>pattern. match_pattern pattern rel) (scp_patterns sc))"
    using sc(2) by (auto simp: scope_allows_def split: if_splits option.splits)
  ultimately show ?thesis
    using sc(1) path_abs_no_dotdot [OF assms(3)] by blast
qed

subsection \<open>What an identity is given\<close>

definition workspace_scope :: "string \<Rightarrow> run_request \<Rightarrow> stage_spec \<Rightarrow> scope \<Rightarrow> bool" where
  "workspace_scope data_dir run spec sc \<longleftrightarrow>
     scp_root sc = path_clean (path_join [data_dir, ''workspaces'', run_id run, ss_name spec])"

text \<open>A scope with the patterns that a component's mutable rules give to an identity.\<close>

definition component_scope :: "delivery_target \<Rightarrow> execution_identity \<Rightarrow> scope \<Rightarrow> bool" where
  "component_scope target i sc \<longleftrightarrow>
     \<not> scp_allow_all sc \<and>
     (\<forall>pattern \<in> set (scp_patterns sc).
        \<exists>c \<in> set (selected_delivery_components target). \<exists>rule \<in> set (component_rules_for c i).
          por_mutable rule \<and> por_identity rule = i \<and> pattern \<in> trim_space ` set (por_paths rule))"

lemma component_rules_identity: "rule \<in> set (component_rules_for c i) \<Longrightarrow> por_identity rule = i"
  by (auto simp: component_rules_for_def repository_rules_for_def)

lemma repository_rules_component:
  "repo \<in> set (all_repositories c) \<Longrightarrow> set (repository_rules_for repo i) \<subseteq> set (component_rules_for c i)"
  by (auto simp: component_rules_for_def)

lemma mutable_patterns_iff:
  "p \<in> set (mutable_patterns rules) \<longleftrightarrow> (\<exists>rule \<in> set rules. por_mutable rule \<and> p \<in> set (por_paths rule))"
  by (auto simp: mutable_patterns_def)

text \<open>The scopes and the fields that the grants leave alone.\<close>

definition granted :: "(scope \<Rightarrow> bool) \<Rightarrow> execution_identity \<Rightarrow> sandbox \<Rightarrow> bool" where
  "granted P i s \<longleftrightarrow> sb_write_as s = i \<and> (\<forall>sc \<in> set (sb_writable_scopes s). P sc)"

lemma granted_repo_control: "granted P i s \<Longrightarrow> granted P i (sb_allow_repo_control root' reason s)"
  by (simp add: granted_def sb_allow_repo_control_def Let_def)

lemma granted_patterns:
  assumes "granted P i s"
    and "P \<lparr>scp_root = path_clean r, scp_patterns = filter (\<lambda>p. p \<noteq> []) (map trim_space ps),
      scp_allow_all = False, scp_reason = reason\<rparr>"
  shows "granted P i (sb_allow_patterns r ps reason s)"
  using assms by (auto simp: granted_def sb_allow_patterns_def Let_def)

lemma granted_component:
  assumes P: "\<And>sc. component_scope target i sc \<Longrightarrow> P sc"
    and c: "c \<in> set (selected_delivery_components target)" and r: "repo \<in> set (all_repositories c)"
    and s: "granted P i s"
  shows "granted P i (add_component_candidates root_dir c repo s)"
proof -
  have i: "sb_write_as s = i" using s by (simp add: granted_def)
  define rules where "rules = (if cr_ownership repo = [] then component_rules_for c i
    else repository_rules_for repo i)"
  have rules: "set rules \<subseteq> set (component_rules_for c i)"
    using repository_rules_component [OF r] by (auto simp: rules_def)
  have "component_scope target i \<lparr>scp_root = x, scp_patterns = filter (\<lambda>p. p \<noteq> [])
      (map trim_space (mutable_patterns rules)), scp_allow_all = False, scp_reason = reason\<rparr>"
    for x reason
    using c rules by (fastforce simp: component_scope_def mutable_patterns_iff
        dest: component_rules_identity)
  then have "granted P i (sb_allow_patterns x (mutable_patterns rules) reason s')"
    if "granted P i s'" for x reason s'
    using that by (intro granted_patterns P) auto
  then show ?thesis
    unfolding add_component_candidates_def Let_def i rules_def [symmetric]
    by (intro fold_keeps [where I = "granted P i"] s) (auto intro: granted_repo_control)
qed

lemma granted_components:
  assumes "\<And>sc. component_scope target i sc \<Longrightarrow> P sc" and "granted P i s"
  shows "granted P i (add_components root_dir target s)"
  unfolding add_components_def
  by (intro fold_keeps [where I = "granted P i"] granted_component [OF assms(1)] assms(2)) auto

text \<open>
  Least privilege.  A stage that writes as neither the governed nor the generator identity
  may write only in its own workspace and, in repositories of selected components, under
  patterns that a mutable ownership rule gives to that identity; a stage whose identity is
  unknown or that has no permission on components gets the workspace only.
\<close>

theorem agent_scopes:
  assumes "sc_write_as (container_config spec) \<notin> {ExecutionIdentityGoverned, ExecutionIdentityGenerator}"
    and "scp \<in> set (sb_writable_scopes (new_sandbox root_dir data_dir roots spec run))"
  shows "workspace_scope data_dir run spec scp \<or>
    component_scope (run_delivery_target run) (sc_write_as (container_config spec)) scp \<and>
    identity_valid (sc_write_as (container_config spec)) \<and>
    (allows_writable (sc_permissions (container_config spec)) StageSurfaceComponents \<or>
     allows_repo_control (sc_permissions (container_config spec)) StageSurfaceComponents)"
proof -
  let ?i = "sc_write_as (container_config spec)"
  let ?W = "workspace_scope data_dir run spec"
  define s where "s = sb_allow_all (path_join [data_dir, ''workspaces'', run_id run, ss_name spec])
    ''workspace'' \<lparr>sb_stage = ss_name spec, sb_environment = spec_environment spec,
       sb_run_as = sc_run_as (container_config spec), sb_write_as = ?i,
       sb_permissions = sc_permissions (container_config spec), sb_repo_roots = roots,
       sb_workspace_root = path_join [data_dir, ''workspaces'', run_id run, ss_name spec],
       sb_writable_scopes = [], sb_repo_control_roots = []\<rparr>"
  have new: "new_sandbox root_dir data_dir roots spec run = add_identity_scopes root_dir data_dir run s"
    by (simp add: new_sandbox_def s_def Let_def)
  have w: "sb_write_as s = ?i" "sb_permissions s = sc_permissions (container_config spec)"
    by (simp_all add: s_def sb_allow_all_def)
  have base: "granted ?W ?i s"
    by (simp add: granted_def s_def sb_allow_all_def workspace_scope_def)
  define P where "P sc \<longleftrightarrow> ?W sc \<or> component_scope (run_delivery_target run) ?i sc" for sc
  have P: "granted P ?i s"
    using base by (simp add: granted_def P_def)
  have "granted P ?i (add_components root_dir (run_delivery_target run) s)"
    by (rule granted_components [OF _ P]) (simp add: P_def)
  then show ?thesis
    using assms base w
    by (auto simp: new add_identity_scopes_def Let_def granted_def P_def uses_surface_def
        split: if_splits)
qed

text \<open>Grants only add.  \<open>holds_scope sc P s\<close>: the scope is there, and the permissions are \<open>P\<close>.\<close>

definition holds_scope :: "scope \<Rightarrow> stage_permissions \<Rightarrow> execution_identity \<Rightarrow> sandbox \<Rightarrow> bool" where
  "holds_scope sc P i s \<longleftrightarrow>
     sc \<in> set (sb_writable_scopes s) \<and> sb_permissions s = P \<and> sb_write_as s = i"

lemma holds_scope_grants:
  assumes "holds_scope sc P i s"
  shows "holds_scope sc P i (sb_allow_all r reason s)"
    and "holds_scope sc P i (sb_allow_patterns r ps reason s)"
    and "holds_scope sc P i (sb_allow_repo_control r reason s)"
  using assms
  by (simp_all add: holds_scope_def sb_allow_all_def sb_allow_patterns_def sb_allow_repo_control_def
      Let_def)

lemma holds_scope_repository:
  "holds_scope sc P i s \<Longrightarrow> holds_scope sc P i (add_repository surface rr reason pat cands s)"
  unfolding add_repository_def Let_def
  by (rule fold_keeps [where I = "holds_scope sc P i"]) (auto intro: holds_scope_grants)

text \<open>What a pass over the candidates leaves: an unrestricted scope for each of them.\<close>

lemma add_repository_all:
  assumes "cand \<in> set cands" and "allows_writable (sb_permissions s) surface"
  shows "holds_scope \<lparr>scp_root = path_clean cand, scp_patterns = [], scp_allow_all = True,
      scp_reason = rr\<rparr> (sb_permissions s) (sb_write_as s)
    (add_repository surface rr reason pat cands s)"
  using assms
proof (induction cands arbitrary: s)
  case Nil
  then show ?case by simp
next
  case (Cons c cands)
  let ?sc = "\<lparr>scp_root = path_clean cand, scp_patterns = [], scp_allow_all = True, scp_reason = rr\<rparr>"
  define s1 where "s1 = add_repository surface rr reason pat [c] s"
  have s1: "sb_permissions s1 = sb_permissions s" "sb_write_as s1 = sb_write_as s"
    by (simp_all add: s1_def add_repository_def Let_def sb_allow_all_def sb_allow_patterns_def
        sb_allow_repo_control_def)
  have step: "add_repository surface rr reason pat (c # cands) s =
      add_repository surface rr reason pat cands s1"
    by (simp add: s1_def add_repository_def)
  show ?case
  proof (cases "cand = c")
    case True
    have "holds_scope ?sc (sb_permissions s) (sb_write_as s) (sb_allow_all c rr s)"
      using True by (simp add: holds_scope_def sb_allow_all_def)
    then have "holds_scope ?sc (sb_permissions s) (sb_write_as s) s1"
      using Cons.prems(2)
      by (auto simp: s1_def add_repository_def Let_def intro: holds_scope_grants)
    then show ?thesis unfolding step by (rule holds_scope_repository)
  next
    case False
    then show ?thesis
      using Cons.IH [of s1] Cons.prems s1 by (simp add: step)
  qed
qed

lemma add_components_fields:
  "sb_permissions (add_components root_dir target s) = sb_permissions s \<and>
   sb_write_as (add_components root_dir target s) = sb_write_as s \<and>
   sb_repo_roots (add_components root_dir target s) = sb_repo_roots s"
  unfolding add_components_def add_component_candidates_def Let_def
  by (intro fold_keeps [where I = "\<lambda>x. sb_permissions x = sb_permissions s \<and>
      sb_write_as x = sb_write_as s \<and> sb_repo_roots x = sb_repo_roots s"])
    (auto simp: sb_allow_patterns_def sb_allow_repo_control_def Let_def)

text \<open>
  the path of the journal does not restrict a governed stage.  With write permission on the
  journal surface it may write anywhere below every candidate location of the journal
  repository: the unrestricted scope that \<open>addIdentityScopes\<close> grants first makes the pattern for
  the journal's own path, which it grants next, superfluous.
\<close>

theorem governed_journal_unrestricted:
  assumes "sc_write_as (container_config spec) = ExecutionIdentityGoverned"
    and "allows_writable (sc_permissions (container_config spec)) StageSurfaceJournal"
    and "cand \<in> set (gitops_candidates root_dir
      (rt_project_path (jt_repo (dt_journal (run_delivery_target run))))
      (rt_materialization_path (jt_repo (dt_journal (run_delivery_target run)))) roots)"
    and "path_rooted cand" and "path_rooted cwd"
    and "prefix (path_comps cand) (path_comps (path_abs cwd path))"
  shows "require_write cwd (new_sandbox root_dir data_dir roots spec run) path = Inr ()"
proof -
  let ?P = "sc_permissions (container_config spec)" and ?i = ExecutionIdentityGoverned
  let ?sc = "\<lparr>scp_root = path_clean cand, scp_patterns = [], scp_allow_all = True,
    scp_reason = ''governed journal repo''\<rparr>"
  define s where "s = sb_allow_all (path_join [data_dir, ''workspaces'', run_id run, ss_name spec])
    ''workspace'' \<lparr>sb_stage = ss_name spec, sb_environment = spec_environment spec,
       sb_run_as = sc_run_as (container_config spec), sb_write_as = ?i,
       sb_permissions = ?P, sb_repo_roots = roots,
       sb_workspace_root = path_join [data_dir, ''workspaces'', run_id run, ss_name spec],
       sb_writable_scopes = [], sb_repo_control_roots = []\<rparr>"
  have new: "new_sandbox root_dir data_dir roots spec run = add_identity_scopes root_dir data_dir run s"
    by (simp add: new_sandbox_def s_def Let_def assms(1))
  define s1 where "s1 = (if uses_surface s StageSurfaceComponents
    then add_components root_dir (run_delivery_target run) s else s)"
  have s1: "sb_permissions s1 = ?P" "sb_write_as s1 = ?i" "sb_repo_roots s1 = roots"
    using add_components_fields by (simp_all add: s1_def s_def sb_allow_all_def)
  have s: "sb_write_as s = ?i" "uses_surface s StageSurfaceJournal" "identity_valid ?i"
    using assms(2) by (simp_all add: s_def sb_allow_all_def uses_surface_def identity_valid_def)
  have j: "holds_scope ?sc ?P ?i (add_governed_journal root_dir run s1)"
    using add_repository_all [OF assms(3), of s1] assms(2) s1
    by (simp add: add_governed_journal_def Let_def)
  then have "holds_scope ?sc ?P ?i (new_sandbox root_dir data_dir roots spec run)"
    using s by (auto simp: new add_identity_scopes_def Let_def s1_def [symmetric]
        add_governed_gitops_def intro: holds_scope_repository)
  moreover have "scope_allows ?sc (path_abs cwd path)"
    using same_or_under_rooted [of "path_clean cand" "path_abs cwd path"] assms(4,6)
      path_abs_rooted [OF assms(5)] by (simp add: scope_allows_def path_clean_comps)
  ultimately show ?thesis
    unfolding require_write_def Let_def holds_scope_def list_ex_iff by auto
qed

subsection \<open>Sandboxes of an agent and of a governed stage\<close>

definition sample_sandbox_run :: run_request where
  "sample_sandbox_run = zero_run_request\<lparr>run_id := ''run-00001'',
     run_work_order := zero_work_order\<lparr>wo_delivery := zero_delivery_target\<lparr>
       dt_selected_components := [''api''],
       dt_components := [(''api'', zero_delivery_component\<lparr>dc_name := ''api'',
         dc_repo := zero_repo_target\<lparr>rt_project_path := ''group/api''\<rparr>,
         dc_ownership := [\<lparr>por_identity = ''agent'', por_paths = [''src/**''], por_mutable = True,
           por_description = []\<rparr>]\<rparr>)],
       dt_journal := zero_journal_target\<lparr>jt_path := ''records'',
         jt_repo := zero_repo_target\<lparr>rt_project_path := ''group/journal''\<rparr>\<rparr>\<rparr>\<rparr>\<rparr>"

definition sample_sandbox_spec :: "execution_identity \<Rightarrow> stage_surface \<Rightarrow> stage_spec" where
  "sample_sandbox_spec i surface = zero_stage_spec\<lparr>ss_name := ''implement'',
     ss_container := zero_stage_container\<lparr>sc_write_as := i,
       sc_permissions := zero_stage_permissions\<lparr>sp_writable := [surface]\<rparr>\<rparr>\<rparr>"

definition sample_sandbox :: sandbox where
  "sample_sandbox = new_sandbox ''/srv/root'' ''/srv/data'' []
     (sample_sandbox_spec ''agent'' ''components'') sample_sandbox_run"

lemma sample_sandbox_decisions:
  "require_write ''/tmp'' sample_sandbox ''/srv/root/group/api/src/main.go'' = Inr ()"
  "require_write ''/tmp'' sample_sandbox ''/srv/root/group/api/src/../../../../etc/passwd'' \<noteq> Inr ()"
  "require_write ''/tmp'' sample_sandbox ''/srv/root/group/api/go.mod'' \<noteq> Inr ()"
  by code_simp+

lemma require_write_confined_witness:
  "list_all path_segment (path_comps (path_abs ''/tmp'' ''/srv/root/group/api/src/main.go''))"
proof -
  have "sb_write_as sample_sandbox \<noteq> []" by code_simp
  moreover have "path_rooted ''/tmp''" by code_simp
  moreover have "\<forall>sc \<in> set (sb_writable_scopes sample_sandbox). path_rooted (scp_root sc)"
    by code_simp
  ultimately show ?thesis
    using require_write_confined [OF sample_sandbox_decisions(1)] by blast
qed

lemma agent_scopes_witness:
  "map scp_root (sb_writable_scopes sample_sandbox) =
     [''/srv/data/workspaces/run-00001/implement'', ''/srv/root/group/api'', ''/srv/root/api'',
      ''/srv/group/api'', ''/srv/api''] \<and>
   (workspace_scope ''/srv/data'' sample_sandbox_run (sample_sandbox_spec ''agent'' ''components'')
      (hd (sb_writable_scopes sample_sandbox)) \<or>
    component_scope (run_delivery_target sample_sandbox_run) ''agent''
      (hd (sb_writable_scopes sample_sandbox)))"
proof -
  have "map scp_root (sb_writable_scopes sample_sandbox) =
     [''/srv/data/workspaces/run-00001/implement'', ''/srv/root/group/api'', ''/srv/root/api'',
      ''/srv/group/api'', ''/srv/api'']" by code_simp
  moreover from this have "hd (sb_writable_scopes sample_sandbox) \<in> set (sb_writable_scopes sample_sandbox)"
    by (cases "sb_writable_scopes sample_sandbox") auto
  ultimately show ?thesis
    using agent_scopes [of "sample_sandbox_spec ''agent'' ''components''"
        "hd (sb_writable_scopes sample_sandbox)" "''/srv/root''" "''/srv/data''" "[]" sample_sandbox_run]
    by (auto simp: sample_sandbox_def sample_sandbox_spec_def container_config_def)
qed

lemma governed_journal_unrestricted_witness:
  "require_write ''/tmp'' (new_sandbox ''/srv/root'' ''/srv/data'' []
     (sample_sandbox_spec ''governed'' ''journal'') sample_sandbox_run)
     ''/srv/root/group/journal/other/file'' = Inr ()"
  by (rule governed_journal_unrestricted [where cand = "''/srv/root/group/journal''"]; code_simp)

end
