(* ===== verification/Locks.thy ===== *)
theory Locks
  imports Model
begin

section \<open>Resource locks (internal/locks)\<close>

text \<open>
  A stage locks the repositories it controls for the time it runs.  \<open>keys_for_stage\<close> names
  them (manager.go).  The interface \<open>Manager\<close> is a record of its three operations over a state
  \<open>'x\<close>; \<open>noop_manager\<close> and \<open>postgres_manager\<close> are its implementations, the latter on the table
  \<open>stage_resource_locks\<close> (postgres.go).  The locale \<open>lock_manager\<close> states what the control
  plane relies on, and its loop over the keys of a stage (\<open>acquireLocks\<close> of
  internal/controlplane/service.go) is proved against that interface.
\<close>

subsection \<open>The keys of a stage\<close>

definition surface_keys :: "run_request \<Rightarrow> stage_spec \<Rightarrow> string \<Rightarrow> string list" where
  "surface_keys run spec surface =
     (if surface = StageSurfaceComponents then
        (let scope = repo_scope run in if scope \<noteq> [] then [''apprepo:'' @ scope] else [])
      else if surface = StageSurfaceGitOps then
        (let repo = et_gitops_repo (run_environment_target run (spec_environment spec))
         in if gt_project_path repo \<noteq> [] \<and> gt_path repo \<noteq> []
            then [''gitops:'' @ gt_project_path repo @ '':'' @ gt_environment repo @ '':'' @ gt_path repo]
            else [])
      else if surface = StageSurfaceJournal then
        (let journal = dt_journal (run_delivery_target run)
         in if rt_project_path (jt_repo journal) \<noteq> []
            then [''journal:'' @ rt_project_path (jt_repo journal) @ '':'' @ jt_path journal]
            else [])
      else [])"

definition keys_for_stage :: "run_request \<Rightarrow> stage_spec \<Rightarrow> string list" where
  "keys_for_stage run spec =
     concat (map (surface_keys run spec) (sp_repo_control (sc_permissions (container_config spec))))"

subsection \<open>The interface and its implementations\<close>

record lock_metadata =
  lm_run_id :: string
  lm_attempt_id :: string
  lm_issue_id :: string
  lm_stage :: string
  lm_worker_id :: string

record 'x manager =
  lk_try_acquire :: "string \<Rightarrow> string \<Rightarrow> int \<Rightarrow> lock_metadata \<Rightarrow> ('x, bool) go"
  lk_refresh :: "string \<Rightarrow> string \<Rightarrow> int \<Rightarrow> ('x, unit) go"
  lk_release :: "string \<Rightarrow> string \<Rightarrow> ('x, unit) go"

definition noop_manager :: "'x manager" where
  "noop_manager = \<lparr>lk_try_acquire = (\<lambda>key owner lease meta. m_ret True),
     lk_refresh = (\<lambda>key owner lease. m_ret ()), lk_release = (\<lambda>key owner. m_ret ())\<rparr>"

text \<open>
  The database: the rows by key, its clock, the clock of the control plane (which computes the
  expiry), and the statement at which it next fails, if any.
\<close>

record lock_row =
  lr_owner :: string
  lr_metadata :: lock_metadata
  lr_acquired_at :: time
  lr_expires_at :: time

record lock_db =
  ld_rows :: "lock_row gomap"
  ld_db_now :: time
  ld_app_now :: time
  ld_calls :: nat
  ld_fault :: "nat \<Rightarrow> string option"

definition ld_exec :: "string \<Rightarrow> (lock_db \<Rightarrow> 'a \<times> lock_db) \<Rightarrow> (lock_db, 'a) go" where
  "ld_exec what stmt d =
     (let d' = d\<lparr>ld_calls := Suc (ld_calls d)\<rparr>
      in case ld_fault d (ld_calls d) of
           Some e \<Rightarrow> (Inl (what @ '': '' @ e), d')
         | None \<Rightarrow> (let (x, d'') = stmt d' in (Inr x, d'')))"

definition pg_try_acquire ::
  "string \<Rightarrow> string \<Rightarrow> int \<Rightarrow> lock_metadata \<Rightarrow> (lock_db, bool) go" where
  "pg_try_acquire key owner lease meta =
     ld_exec (''acquire lock '' @ key)
       (\<lambda>d. let row = \<lparr>lr_owner = owner, lr_metadata = meta, lr_acquired_at = ld_db_now d,
                       lr_expires_at = ld_app_now d + lease\<rparr>;
                d' = d\<lparr>ld_rows := gm_put key row (ld_rows d)\<rparr>
            in case gm_get (ld_rows d) key of
                 None \<Rightarrow> (True, d')
               | Some r \<Rightarrow>
                   if lr_expires_at r < ld_db_now d \<or> lr_owner r = owner then (True, d') else (False, d))"

definition pg_refresh :: "string \<Rightarrow> string \<Rightarrow> int \<Rightarrow> (lock_db, unit) go" where
  "pg_refresh key owner lease =
     ld_exec (''refresh lock '' @ key)
       (\<lambda>d. case gm_get (ld_rows d) key of
              None \<Rightarrow> ((), d)
            | Some r \<Rightarrow>
                if lr_owner r = owner
                then ((), d\<lparr>ld_rows := gm_put key (r\<lparr>lr_expires_at := ld_app_now d + lease\<rparr>) (ld_rows d)\<rparr>)
                else ((), d))"

definition pg_release :: "string \<Rightarrow> string \<Rightarrow> (lock_db, unit) go" where
  "pg_release key owner =
     ld_exec (''release lock '' @ key)
       (\<lambda>d. case gm_get (ld_rows d) key of
              None \<Rightarrow> ((), d)
            | Some r \<Rightarrow>
                if lr_owner r = owner then ((), d\<lparr>ld_rows := gm_delete key (ld_rows d)\<rparr>) else ((), d))"

definition postgres_manager :: "lock_db manager" where
  "postgres_manager = \<lparr>lk_try_acquire = pg_try_acquire, lk_refresh = pg_refresh,
     lk_release = pg_release\<rparr>"

subsection \<open>All the locks of an attempt\<close>

definition release_acquired :: "'x manager \<Rightarrow> string list \<Rightarrow> string \<Rightarrow> ('x, unit) go" where
  "release_acquired mgr keys owner = m_iter (\<lambda>key. m_ignore (lk_release mgr key owner)) keys"

fun acquire_keys ::
  "'x manager \<Rightarrow> string \<Rightarrow> int \<Rightarrow> lock_metadata \<Rightarrow> string list \<Rightarrow> string list \<Rightarrow> ('x, string list) go" where
  "acquire_keys mgr owner lease meta [] acquired = m_ret acquired"
| "acquire_keys mgr owner lease meta (key # rest) acquired =
     m_bind (m_try (lk_try_acquire mgr key owner lease meta)) (\<lambda>r.
       case r of
         Inl e \<Rightarrow> m_bind (release_acquired mgr acquired owner) (\<lambda>_. m_err e)
       | Inr ok \<Rightarrow>
           if \<not> ok then m_bind (release_acquired mgr acquired owner) (\<lambda>_. m_ret [])
           else acquire_keys mgr owner lease meta rest (acquired @ [key]))"

definition acquire_locks ::
  "'x manager \<Rightarrow> run_request \<Rightarrow> stage_attempt \<Rightarrow> stage_spec \<Rightarrow> string \<Rightarrow> int \<Rightarrow> ('x, string list) go" where
  "acquire_locks mgr run attempt spec worker lease =
     (let keys = keys_for_stage run spec
      in if keys = [] then m_ret []
         else acquire_keys mgr (att_id attempt) lease
           \<lparr>lm_run_id = run_id run, lm_attempt_id = att_id attempt, lm_issue_id = run_issue_id run,
            lm_stage = att_stage attempt, lm_worker_id = worker\<rparr> keys [])"

text \<open>
  \<open>lockKeys\<close>: the keys stored in the metadata of a claimed attempt, encoded as JSON and decoded
  into a list of strings (where a null element gives the empty string).
\<close>

fun json_string :: "json \<Rightarrow> string option" where
  "json_string (JStr s) = Some s"
| "json_string JNull = Some []"
| "json_string _ = None"

definition lock_keys :: "stage_attempt \<Rightarrow> string list" where
  "lock_keys attempt =
     (case meta_get (att_metadata attempt) ''lock_keys'' of
        Some (JArr xs) \<Rightarrow>
          if list_all (\<lambda>v. json_string v \<noteq> None) xs then List.map_filter json_string xs else []
      | _ \<Rightarrow> [])"

definition refresh_locks :: "'x manager \<Rightarrow> stage_attempt \<Rightarrow> int \<Rightarrow> ('x, unit) go" where
  "refresh_locks mgr attempt lease =
     m_iter (\<lambda>key. lk_refresh mgr key (att_id attempt) lease) (lock_keys attempt)"

definition release_locks :: "'x manager \<Rightarrow> stage_attempt \<Rightarrow> ('x, unit) go" where
  "release_locks mgr attempt = m_iter (\<lambda>key. lk_release mgr key (att_id attempt)) (lock_keys attempt)"

lemma lock_keys_stored:
  "meta_get (att_metadata a) ''lock_keys'' = Some (jstrs keys) \<Longrightarrow> lock_keys a = keys"
  by (simp add: lock_keys_def jstrs_def list_all_iff List.map_filter_def comp_def)

lemma release_result: "fst (release_acquired mgr ks ow s) = Inr ()"
  unfolding release_acquired_def
  by (induction ks arbitrary: s) (simp_all add: m_defs)

subsection \<open>What the control plane relies on\<close>

text \<open>
  \<open>own s key owner\<close>: the lock is recorded for the owner.  \<open>live s key\<close>: the recorded owner
  still holds it.  An acquisition that succeeds records the owner, one that does not changes
  nothing, a live lock of someone else is never taken over, and a release removes at most the
  record of its own owner.  \<open>up s\<close>: the backend answers, and then releases succeed.
\<close>

locale lock_manager =
  fixes mgr :: "'x manager"
    and own :: "'x \<Rightarrow> string \<Rightarrow> string \<Rightarrow> bool"
    and live :: "'x \<Rightarrow> string \<Rightarrow> bool"
    and up :: "'x \<Rightarrow> bool"
  assumes acquired: "lk_try_acquire mgr k ow l md s = (Inr True, s') \<Longrightarrow> own s' k ow"
    and others: "lk_try_acquire mgr k ow l md s = (r, s') \<Longrightarrow> k' \<noteq> k \<Longrightarrow>
      own s' k' = own s k' \<and> live s' k' = live s k'"
    and refused: "lk_try_acquire mgr k ow l md s = (r, s') \<Longrightarrow> r \<noteq> Inr True \<Longrightarrow>
      own s' = own s \<and> live s' = live s"
    and exclusive: "lk_try_acquire mgr k ow l md s = (r, s') \<Longrightarrow> own s k ow' \<Longrightarrow> live s k \<Longrightarrow>
      ow' \<noteq> ow \<Longrightarrow> r \<noteq> Inr True"
    and released: "lk_release mgr k ow s = (rr, s') \<Longrightarrow>
      own s' k' ow' \<longleftrightarrow> own s k' ow' \<and> \<not> (k' = k \<and> ow' = ow \<and> rr = Inr ())"
    and released_live: "lk_release mgr k ow s = (rr, s') \<Longrightarrow> own s k' ow' \<Longrightarrow> ow' \<noteq> ow \<Longrightarrow>
      live s' k' = live s k'"
    and single: "own s k ow \<Longrightarrow> own s k ow' \<Longrightarrow> ow = ow'"
    and up_acquire: "up s \<Longrightarrow> lk_try_acquire mgr k ow l md s = (r, s') \<Longrightarrow> up s'"
    and up_release: "up s \<Longrightarrow> lk_release mgr k ow s = (rr, s') \<Longrightarrow> rr = Inr () \<and> up s'"
begin

lemma release_frame:
  assumes "own s k' ow'" and "ow' \<noteq> ow"
  shows "own (snd (release_acquired mgr ks ow s)) k' ow' \<and>
    live (snd (release_acquired mgr ks ow s)) k' = live s k'"
  using assms
proof (induction ks arbitrary: s)
  case Nil
  then show ?case by (simp add: release_acquired_def m_ret_def)
next
  case (Cons k ks)
  obtain r s1 where r: "lk_release mgr k ow s = (r, s1)" by fastforce
  have "own s1 k' ow'" "live s1 k' = live s k'"
    using released [OF r] released_live [OF r] Cons.prems by auto
  with Cons.IH [OF this(1) Cons.prems(2)] show ?case
    by (simp add: release_acquired_def m_bind_def m_ignore_def r)
qed

lemma release_shrinks: "own (snd (release_acquired mgr ks ow s)) k' ow' \<Longrightarrow> own s k' ow'"
proof (induction ks arbitrary: s)
  case Nil
  then show ?case by (simp add: release_acquired_def m_ret_def)
next
  case (Cons k ks)
  obtain r s1 where r: "lk_release mgr k ow s = (r, s1)" by fastforce
  with Cons show ?case
    using released [OF r, of k' ow'] by (simp add: release_acquired_def m_bind_def m_ignore_def)
qed

lemma acquire_keys_all:
  assumes "acquire_keys mgr ow l md ks acq s = (Inr got, s')" and "\<forall>k \<in> set acq. own s k ow"
  shows "got = [] \<or> got = acq @ ks \<and> (\<forall>k \<in> set (acq @ ks). own s' k ow)"
  using assms
proof (induction ks arbitrary: acq s)
  case Nil
  then show ?case by (auto simp: m_ret_def)
next
  case (Cons k ks)
  obtain r s1 where r: "lk_try_acquire mgr k ow l md s = (r, s1)" by fastforce
  show ?case
  proof (cases "r = Inr True")
    case True
    have "own s1 x ow" if "x \<in> set (acq @ [k])" for x
      using that Cons.prems(2) acquired [of k ow l md s s1] others [OF r, of x] r True
      by (cases "x = k") auto
    then show ?thesis
      using Cons.IH [of "acq @ [k]" s1] Cons.prems(1) r True
      by (simp add: m_bind_def m_try_def)
  next
    case False
    then show ?thesis
      using Cons.prems(1) r by (auto simp: m_bind_def m_try_def m_defs split: sum.splits prod.splits)
  qed
qed

lemma acquire_keys_blocked:
  assumes "k0 \<in> set ks" and "own s k0 ow'" and "live s k0" and "ow' \<noteq> ow"
  shows "(case fst (acquire_keys mgr ow l md ks acq s) of Inl _ \<Rightarrow> True | Inr got \<Rightarrow> got = []) \<and>
    own (snd (acquire_keys mgr ow l md ks acq s)) k0 ow' \<and>
    live (snd (acquire_keys mgr ow l md ks acq s)) k0"
  using assms(1,2,3)
proof (induction ks arbitrary: acq s)
  case Nil
  then show ?case by simp
next
  case (Cons k ks)
  obtain r s1 where r: "lk_try_acquire mgr k ow l md s = (r, s1)" by fastforce
  show ?case
  proof (cases "r = Inr True")
    case True
    then have "k0 \<noteq> k"
      using exclusive [OF r] Cons.prems(2,3) assms(4) by auto
    then have "k0 \<in> set ks" "own s1 k0 ow'" "live s1 k0"
      using Cons.prems others [OF r, of k0] by auto
    from Cons.IH [OF this] show ?thesis
      using r True by (simp add: m_bind_def m_try_def)
  next
    case False
    then have "own s1 k0 ow'" "live s1 k0"
      using refused [OF r] Cons.prems(2,3) by auto
    then show ?thesis
      using release_frame [OF _ assms(4), of s1 k0 acq] False r
      by (cases r) (auto simp: m_bind_def m_try_def m_defs split: prod.splits sum.splits)
  qed
qed

lemma release_all:
  assumes "up s"
  shows "own (snd (release_acquired mgr ks ow s)) k ow \<Longrightarrow> own s k ow \<and> k \<notin> set ks"
  using assms
proof (induction ks arbitrary: s)
  case Nil
  then show ?case by (simp add: release_acquired_def m_ret_def)
next
  case (Cons x ks)
  obtain r s1 where r: "lk_release mgr x ow s = (r, s1)" by fastforce
  have "r = Inr ()" "up s1" using up_release [OF Cons.prems(2) r] by auto
  with Cons r show ?case
    using released [OF r, of k ow] by (simp add: release_acquired_def m_bind_def m_ignore_def)
qed

lemma acquire_keys_nothing:
  assumes "acquire_keys mgr ow l md ks acq s = (r', s')" and "r' \<noteq> Inr (acq @ ks)" and "up s"
    and "own s' k ow"
  shows "own s k ow \<and> k \<notin> set acq"
  using assms
proof (induction ks arbitrary: acq s)
  case Nil
  then show ?case by (simp add: m_ret_def)
next
  case (Cons x ks)
  obtain r s1 where r: "lk_try_acquire mgr x ow l md s = (r, s1)" by fastforce
  have up: "up s1" by (rule up_acquire [OF Cons.prems(3) r])
  show ?case
  proof (cases "r = Inr True")
    case True
    then show ?thesis
      using Cons.IH [of "acq @ [x]" s1] Cons.prems up others [OF r, of k] r
      by (auto simp: m_bind_def m_try_def)
  next
    case False
    then have "s' = snd (release_acquired mgr acq ow s1)"
      using Cons.prems(1) r
      by (cases r) (auto simp: m_bind_def m_try_def m_defs release_result split: prod.splits sum.splits)
    then show ?thesis
      using release_all [OF up, of acq ow k] Cons.prems(4) refused [OF r False] by simp
  qed
qed

end

subsection \<open>The lock table keeps the contract\<close>

definition pg_own :: "lock_db \<Rightarrow> string \<Rightarrow> string \<Rightarrow> bool" where
  "pg_own d key owner \<longleftrightarrow>
     (case gm_get (ld_rows d) key of None \<Rightarrow> False | Some r \<Rightarrow> lr_owner r = owner)"

definition pg_live :: "lock_db \<Rightarrow> string \<Rightarrow> bool" where
  "pg_live d key \<longleftrightarrow>
     (case gm_get (ld_rows d) key of None \<Rightarrow> False | Some r \<Rightarrow> ld_db_now d \<le> lr_expires_at r)"

definition pg_up :: "lock_db \<Rightarrow> bool" where
  "pg_up d \<longleftrightarrow> (\<forall>n. ld_fault d n = None)"

lemmas pg_defs = postgres_manager_def pg_try_acquire_def pg_release_def pg_refresh_def ld_exec_def
  pg_own_def pg_live_def pg_up_def Let_def

interpretation pg: lock_manager postgres_manager pg_own pg_live pg_up
proof unfold_locales
  fix k ow l md s s' and r :: "string + bool" and k' ow'
  assume r: "lk_try_acquire postgres_manager k ow l md s = (r, s')"
  show "k' \<noteq> k \<Longrightarrow> pg_own s' k' = pg_own s k' \<and> pg_live s' k' = pg_live s k'"
    using r by (auto simp: pg_defs fun_eq_iff split: option.splits if_splits)
  show "r \<noteq> Inr True \<Longrightarrow> pg_own s' = pg_own s \<and> pg_live s' = pg_live s"
    using r by (auto simp: pg_defs fun_eq_iff split: option.splits if_splits)
  show "pg_own s k ow' \<Longrightarrow> pg_live s k \<Longrightarrow> ow' \<noteq> ow \<Longrightarrow> r \<noteq> Inr True"
    using r by (auto simp: pg_defs split: option.splits if_splits)
  show "pg_up s \<Longrightarrow> pg_up s'"
    using r by (auto simp: pg_defs split: option.splits if_splits)
next
  fix k ow l md s s' assume "lk_try_acquire postgres_manager k ow l md s = (Inr True, s')"
  then show "pg_own s' k ow"
    by (auto simp: pg_defs split: option.splits if_splits)
next
  fix k ow s s' and rr :: "string + unit" and k' ow'
  assume rr: "lk_release postgres_manager k ow s = (rr, s')"
  show "pg_own s' k' ow' \<longleftrightarrow> pg_own s k' ow' \<and> \<not> (k' = k \<and> ow' = ow \<and> rr = Inr ())"
    using rr by (auto simp: pg_defs split: option.splits if_splits)
  show "pg_own s k' ow' \<Longrightarrow> ow' \<noteq> ow \<Longrightarrow> pg_live s' k' = pg_live s k'"
    using rr by (auto simp: pg_defs split: option.splits if_splits)
  show "pg_up s \<Longrightarrow> rr = Inr () \<and> pg_up s'"
    using rr by (auto simp: pg_defs split: option.splits if_splits)
next
  fix s k ow ow' show "pg_own s k ow \<Longrightarrow> pg_own s k ow' \<Longrightarrow> ow = ow'"
    by (auto simp: pg_defs split: option.splits)
qed

text \<open>
  C15: mutual exclusion.  While another attempt holds, unexpired, one of the locks of a stage,
  \<open>acquireLocks\<close> on the Postgres manager acquires nothing for the stage, whatever statements
  fail on the way, and that attempt still holds its lock afterwards.
\<close>

theorem acquire_locks_exclusive:
  assumes "key \<in> set (keys_for_stage run spec)" and "pg_own d key other" and "pg_live d key"
    and "other \<noteq> att_id attempt"
  shows "(case fst (acquire_locks postgres_manager run attempt spec worker lease d) of
      Inl _ \<Rightarrow> True | Inr got \<Rightarrow> got = []) \<and>
    pg_own (snd (acquire_locks postgres_manager run attempt spec worker lease d)) key other \<and>
    pg_live (snd (acquire_locks postgres_manager run attempt spec worker lease d)) key"
  using assms(1) pg.acquire_keys_blocked [OF assms(1-4), of lease _ "[]"]
  by (auto simp: acquire_locks_def Let_def)


text \<open>
  Refreshing or releasing never touches a lock of someone else.
\<close>

lemma pg_refresh_keeps_owner:
  "pg_own (snd (pg_refresh key owner lease d)) k ow = pg_own d k ow"
  by (auto simp: pg_defs split: option.splits if_splits)

subsection \<open>Two attempts on the same repository\<close>

definition sample_lock_run :: run_request where
  "sample_lock_run = zero_run_request\<lparr>run_id := ''run-00001'',
     run_work_order := zero_work_order\<lparr>wo_delivery := zero_delivery_target\<lparr>
       dt_application_repo := zero_repo_target\<lparr>rt_project_path := ''group/app''\<rparr>\<rparr>\<rparr>\<rparr>"

definition sample_lock_spec :: stage_spec where
  "sample_lock_spec = zero_stage_spec\<lparr>ss_name := ''implement'',
     ss_container := zero_stage_container\<lparr>sc_permissions := zero_stage_permissions\<lparr>
       sp_repo_control := [''components'']\<rparr>\<rparr>\<rparr>"

definition sample_lock_attempt :: "string \<Rightarrow> stage_attempt" where
  "sample_lock_attempt aid = zero_stage_attempt\<lparr>att_id := aid, att_stage := ''implement''\<rparr>"

definition sample_lock_db :: lock_db where
  "sample_lock_db = \<lparr>ld_rows = [], ld_db_now = 100, ld_app_now = 100, ld_calls = 0,
     ld_fault = (\<lambda>_. None)\<rparr>"

definition sample_locked_db :: lock_db where
  "sample_locked_db = snd (acquire_locks postgres_manager sample_lock_run
     (sample_lock_attempt ''attempt-00001'') sample_lock_spec ''w1'' 60 sample_lock_db)"

lemma sample_lock_keys: "keys_for_stage sample_lock_run sample_lock_spec = [''apprepo:group/app'']"
  by code_simp

lemma acquire_locks_exclusive_witness:
  "pg_own (snd (acquire_locks postgres_manager sample_lock_run (sample_lock_attempt ''attempt-00002'')
     sample_lock_spec ''w2'' 60 sample_locked_db)) ''apprepo:group/app'' ''attempt-00001''"
proof -
  have "pg_own sample_locked_db ''apprepo:group/app'' ''attempt-00001''" by code_simp
  moreover have "pg_live sample_locked_db ''apprepo:group/app''" by code_simp
  ultimately show ?thesis
    using acquire_locks_exclusive [of "''apprepo:group/app''" sample_lock_run sample_lock_spec
        sample_locked_db "''attempt-00001''" "sample_lock_attempt ''attempt-00002''" "''w2''" 60]
    by (simp add: sample_lock_keys sample_lock_attempt_def)
qed

lemma sample_lock_result:
  "acquire_locks postgres_manager sample_lock_run (sample_lock_attempt ''attempt-00001'')
     sample_lock_spec ''w1'' 60 sample_lock_db = (Inr [''apprepo:group/app''], sample_locked_db)"
proof -
  have "fst (acquire_locks postgres_manager sample_lock_run (sample_lock_attempt ''attempt-00001'')
     sample_lock_spec ''w1'' 60 sample_lock_db) = Inr [''apprepo:group/app'']" by code_simp
  then show ?thesis by (simp add: sample_locked_db_def prod_eq_iff)
qed


end
