(* ===== verification/Policy.thy ===== *)
theory Policy
  imports Model
begin

section \<open>Stage policy (internal/policy/stage.go)\<close>

text \<open>
  \<open>EvaluateStage\<close> decides whether a stage may run: its identities must be known, the delivery
  target must offer every surface the stage writes or controls, the documentation surface must
  be selected where the stage reports need it, and a required approval must be present.  The
  checks map records what was looked at; the map of the identity check is shared with it, so its
  flags show the outcome.
\<close>

record stage_decision =
  sdn_blocked :: bool
  sdn_reason :: string
  sdn_checks :: jmap

definition requires_documentation_surface :: "stage_spec \<Rightarrow> bool" where
  "requires_documentation_surface spec \<longleftrightarrow> list_ex (\<lambda>stage. stage \<noteq> []) (report_inputs spec)"

definition identity_check :: "stage_container \<Rightarrow> bool \<Rightarrow> bool \<Rightarrow> string \<times> json" where
  "identity_check c surfaces_valid control_valid =
     (''execution_identity'', JObj
       [(''run_as'', JStr (sc_run_as c)), (''write_as'', JStr (sc_write_as c)),
        (''run_as_valid'', JBool (sc_run_as c = [] \<or> identity_valid (sc_run_as c))),
        (''write_as_valid'', JBool (sc_write_as c = [] \<or> identity_valid (sc_write_as c))),
        (''write_surfaces_valid'', JBool surfaces_valid), (''repo_control_valid'', JBool control_valid)])"

definition permissions_check :: "stage_permissions \<Rightarrow> string \<times> json" where
  "permissions_check p =
     (''permissions'', JObj
       [(''writable'', jstrs (sp_writable p)), (''repo_control'', jstrs (sp_repo_control p)),
        (''network'', JStr (sp_network p)),
        (''runtime_user'', JObj
          [(''mode'', JStr (ru_mode (sp_runtime_user p))),
           (''os_user'', JStr (ru_os_user (sp_runtime_user p))),
           (''container_user'', JStr (ru_container_user (sp_runtime_user p))),
           (''enforcement'', JStr (ru_enforcement (sp_runtime_user p)))])])"

text \<open>
  The identity part: \<open>Inl\<close> is an early return.  Nothing is checked when neither identity is set.
\<close>

definition identity_decision ::
  "stage_spec \<Rightarrow> delivery_target \<Rightarrow> stage_decision + jmap" where
  "identity_decision spec target =
     (let c = container_config spec; run_as = sc_run_as c; write_as = sc_write_as c;
          environment = spec_environment spec; p = sc_permissions c;
          block = (\<lambda>sv cv reason. Inl \<lparr>sdn_blocked = True, sdn_reason = reason,
            sdn_checks = [identity_check c sv cv]\<rparr>);
          unsupported = (\<lambda>surface. \<not> supports_stage_surface target write_as surface environment)
      in if run_as = [] \<and> write_as = [] then Inr []
         else if run_as \<noteq> [] \<and> \<not> identity_valid run_as then
           block True True (''Stage '' @ ss_name spec @ '' declares unknown run_as identity '' @ fmt_q run_as)
         else if write_as \<noteq> [] \<and> \<not> identity_valid write_as then
           block True True (''Stage '' @ ss_name spec @ '' declares unknown write_as identity '' @ fmt_q write_as)
         else (case find unsupported (sp_writable p) of
             Some surface \<Rightarrow> block False True
               (''Stage '' @ ss_name spec @ '' requires write access to '' @ surface @ '' as '' @ write_as @
                '', but the delivery target provides none'')
           | None \<Rightarrow> (case find unsupported (sp_repo_control p) of
               Some surface \<Rightarrow> block True False
                 (''Stage '' @ ss_name spec @ '' requires repo control for '' @ surface @ '' as '' @
                  write_as @ '', but the delivery target provides none'')
             | None \<Rightarrow> Inr [identity_check c True True])))"

definition evaluate_stage :: "stage_spec \<Rightarrow> run_request \<Rightarrow> delivery_issue \<Rightarrow> stage_decision" where
  "evaluate_stage spec run issue =
     (case identity_decision spec (run_delivery_target run) of
        Inl d \<Rightarrow> d
      | Inr checks \<Rightarrow>
          (let (required, component, satisfied, reason) = documentation_status (run_delivery_target run);
               checks = checks @ [permissions_check (sc_permissions (container_config spec)),
                 (''documentation'', JObj [(''required'', JBool required),
                    (''docs_component'', JStr component), (''satisfied'', JBool satisfied),
                    (''reason'', JStr reason)])]
           in if requires_documentation_surface spec \<and> required \<and> \<not> satisfied then
                \<lparr>sdn_blocked = True, sdn_reason = reason, sdn_checks = checks\<rparr>
              else
                (let approved = ag_approved (di_approval issue);
                     checks = checks @ [(''approval'', JObj [(''required'', JBool (ss_approval_required spec)),
                       (''approved'', JBool approved), (''label'', JStr (ag_label (di_approval issue)))])]
                 in if ss_approval_required spec \<and> \<not> approved then
                      \<lparr>sdn_blocked = True,
                       sdn_reason = ''Stage '' @ ss_name spec @ '' is blocked until GitLab approval is present.'',
                       sdn_checks = checks\<rparr>
                    else \<lparr>sdn_blocked = False, sdn_reason = [], sdn_checks = checks\<rparr>)))"

text \<open>What a stage needs in order to run.\<close>

definition stage_admissible :: "stage_spec \<Rightarrow> run_request \<Rightarrow> delivery_issue \<Rightarrow> bool" where
  "stage_admissible spec run issue \<longleftrightarrow>
     (let c = container_config spec; target = run_delivery_target run;
          surfaces = sp_writable (sc_permissions c) @ sp_repo_control (sc_permissions c)
      in (sc_run_as c = [] \<or> identity_valid (sc_run_as c)) \<and>
         (sc_write_as c = [] \<or> identity_valid (sc_write_as c)) \<and>
         (sc_run_as c = [] \<and> sc_write_as c = [] \<or>
          list_all (\<lambda>surface. supports_stage_surface target (sc_write_as c) surface (spec_environment spec))
            surfaces) \<and>
         (requires_documentation_surface spec \<longrightarrow>
            (case documentation_status target of (required, _, satisfied, _) \<Rightarrow> required \<longrightarrow> satisfied)) \<and>
         (ss_approval_required spec \<longrightarrow> ag_approved (di_approval issue)))"

lemma identity_decision_iff:
  "(\<exists>checks. identity_decision spec target = Inr checks) \<longleftrightarrow>
   (let c = container_config spec
    in (sc_run_as c = [] \<or> identity_valid (sc_run_as c)) \<and>
       (sc_write_as c = [] \<or> identity_valid (sc_write_as c)) \<and>
       (sc_run_as c = [] \<and> sc_write_as c = [] \<or>
        list_all (\<lambda>surface. supports_stage_surface target (sc_write_as c) surface (spec_environment spec))
          (sp_writable (sc_permissions c) @ sp_repo_control (sc_permissions c))))"
proof -
  let ?c = "container_config spec"
  let ?u = "\<lambda>surface. \<not> supports_stage_surface target (sc_write_as ?c) surface (spec_environment spec)"
  have W: "find ?u (sp_writable (sc_permissions ?c)) = None \<longleftrightarrow>
      list_all (\<lambda>x. \<not> ?u x) (sp_writable (sc_permissions ?c))"
    and R: "find ?u (sp_repo_control (sc_permissions ?c)) = None \<longleftrightarrow>
      list_all (\<lambda>x. \<not> ?u x) (sp_repo_control (sc_permissions ?c))"
    by (auto simp: find_None_iff list_all_iff)
  show ?thesis
    unfolding identity_decision_def Let_def list_all_append
    using W R
    by (cases "find ?u (sp_writable (sc_permissions ?c))";
        cases "find ?u (sp_repo_control (sc_permissions ?c))") auto
qed

lemma identity_decision_blocked:
  "identity_decision spec target = Inl d \<Longrightarrow> sdn_blocked d \<and> sdn_reason d \<noteq> []"
  by (auto simp: identity_decision_def Let_def split: if_splits option.splits)

lemma documentation_reason:
  "documentation_status t = (r, c, False, reason) \<Longrightarrow> reason \<noteq> []"
  by (auto simp: documentation_status_def Let_def split: if_splits)

text \<open>
  \<open>EvaluateStage\<close> blocks a stage exactly when it is not admissible, and a blocked stage
  always carries a reason.
\<close>

theorem evaluate_stage_correct:
  "sdn_blocked (evaluate_stage spec run issue) = (\<not> stage_admissible spec run issue) \<and>
   (sdn_reason (evaluate_stage spec run issue) = []) = stage_admissible spec run issue"
proof (cases "identity_decision spec (run_delivery_target run)")
  case (Inl d)
  then have "\<not> stage_admissible spec run issue"
    using identity_decision_iff [of spec "run_delivery_target run"]
    by (auto simp: stage_admissible_def Let_def)
  then show ?thesis
    using Inl identity_decision_blocked [OF Inl] by (simp add: evaluate_stage_def)
next
  case (Inr checks)
  obtain r c s reason where doc: "documentation_status (run_delivery_target run) = (r, c, s, reason)"
    by (cases "documentation_status (run_delivery_target run)") auto
  have "stage_admissible spec run issue \<longleftrightarrow>
      (requires_documentation_surface spec \<longrightarrow> r \<longrightarrow> s) \<and>
      (ss_approval_required spec \<longrightarrow> ag_approved (di_approval issue))"
    using Inr identity_decision_iff [of spec "run_delivery_target run"]
    by (auto simp: stage_admissible_def Let_def doc)
  then show ?thesis
    using documentation_reason [of "run_delivery_target run" r c reason] doc
    by (auto simp: evaluate_stage_def Inr Let_def)
qed

end
