(* ===== verification/Store.thy ===== *)
theory Store
  imports Model "HOL-Library.Product_Lexorder"
begin

section \<open>The state store (internal/store/store.go)\<close>

text \<open>
  The control plane keeps all its state in one JSON file.  \<open>Load\<close> reads it, \<open>Save\<close> runs an
  update on what it read and writes the result only if the update succeeded.  The file system
  and the codec of \<open>internal/contracts\<close> are parameters.  The queries over the attempts are
  pure; they iterate over a Go map, so each of them is shown not to depend on the order of the
  entries where the source relies on that.
\<close>

subsection \<open>Load and save\<close>

datatype file_read =
    File_missing
  | File_error string
  | File_data string

record codec =
  cd_decode :: "string \<Rightarrow> string + persisted_state"
  cd_encode :: "persisted_state \<Rightarrow> string + string"

definition load_unlocked :: "codec \<Rightarrow> file_read \<Rightarrow> string + persisted_state" where
  "load_unlocked c f =
     (case f of
        File_missing \<Rightarrow> Inr empty_state
      | File_error e \<Rightarrow> Inl (''read state: '' @ e)
      | File_data d \<Rightarrow> (case cd_decode c d of Inl e \<Rightarrow> Inl (''decode state: '' @ e) | Inr s \<Rightarrow> Inr s))"

text \<open>\<open>io\<close> is the error of the directory creation or of the write, if there is one.\<close>

definition save_unlocked :: "codec \<Rightarrow> string option \<Rightarrow> persisted_state \<Rightarrow> file_read \<Rightarrow>
    (string + unit) \<times> file_read" where
  "save_unlocked c io s f =
     (case io of
        Some e \<Rightarrow> (Inl (''write state: '' @ e), f)
      | None \<Rightarrow> (case cd_encode c s of
            Inl e \<Rightarrow> (Inl (''write state: '' @ e), f)
          | Inr d \<Rightarrow> (Inr (), File_data d)))"

definition store_load :: "codec \<Rightarrow> (file_read, persisted_state) go" where
  "store_load c f = (load_unlocked c f, f)"

definition store_save ::
  "codec \<Rightarrow> string option \<Rightarrow> (persisted_state, unit) go \<Rightarrow> (file_read, unit) go" where
  "store_save c io update f =
     (case load_unlocked c f of
        Inl e \<Rightarrow> (Inl e, f)
      | Inr s \<Rightarrow> (case update s of
            (Inl e, _) \<Rightarrow> (Inl e, f)
          | (Inr _, s') \<Rightarrow> save_unlocked c io s' f))"

text \<open>
  The abstract store the handlers run on: the state itself, committed on success and left as it
  was on an error.
\<close>

definition atomic_update :: "('s, 'a) go \<Rightarrow> ('s, 'a) go" where
  "atomic_update m s = (case m s of (Inl e, _) \<Rightarrow> (Inl e, s) | (Inr x, s') \<Rightarrow> (Inr x, s'))"

text \<open>The codec gives back a state it has encoded.\<close>

definition codec_ok :: "codec \<Rightarrow> persisted_state \<Rightarrow> bool" where
  "codec_ok c s \<longleftrightarrow> (case cd_encode c s of Inl _ \<Rightarrow> False | Inr d \<Rightarrow> cd_decode c d = Inr s)"


text \<open>A failed write leaves the model's file alone; \<open>store_save\<close> then reports an error.\<close>

lemma store_save_error_keeps:
  "fst (store_save c io update f) = Inl e \<Longrightarrow> snd (store_save c io update f) = f"
  by (auto simp: store_save_def save_unlocked_def split: sum.splits prod.splits option.splits)

lemma keeps_atomic_update: "keeps I m \<Longrightarrow> keeps I (atomic_update m)"
proof (rule keepsI)
  fix s assume "keeps I m" and "I s"
  then have "I (snd (m s))" by (rule keepsD)
  with \<open>I s\<close> show "I (snd (atomic_update m s))"
    by (cases "m s"; cases "fst (m s)") (simp_all add: atomic_update_def)
qed

subsection \<open>Identifiers\<close>

text \<open>The counters are Go ints; the model does not wrap them at \<open>2 ^ 63\<close>.\<close>

definition next_id :: "string \<Rightarrow> (persisted_state, string) go" where
  "next_id prefix s =
     (let n = gm_get_or 0 (ps_counters s) prefix + 1
      in (Inr (prefix @ ''-'' @ fmt_0d 5 n), s\<lparr>ps_counters := gm_put prefix n (ps_counters s)\<rparr>))"

definition id_of :: "string \<Rightarrow> int \<Rightarrow> string" where
  "id_of prefix n = prefix @ ''-'' @ fmt_0d 5 n"

lemma next_id_eq:
  "next_id prefix s =
     (Inr (id_of prefix (gm_get_or 0 (ps_counters s) prefix + 1)),
      s\<lparr>ps_counters := gm_put prefix (gm_get_or 0 (ps_counters s) prefix + 1) (ps_counters s)\<rparr>)"
  by (simp add: next_id_def id_of_def Let_def)

lemma id_of_inj: "0 \<le> m \<Longrightarrow> 0 \<le> n \<Longrightarrow> id_of p m = id_of p n \<longleftrightarrow> m = n"
proof -
  assume "0 \<le> m" and "0 \<le> n"
  then have "fmt_0d 5 m = fmt_0d 5 n \<longleftrightarrow> m = n"
    using fmt_0d_inj [of m n 5] by (cases "m = n") auto
  then show ?thesis
    unfolding id_of_def append.simps same_append_eq list.inject by simp
qed

subsection \<open>Queries over the attempts\<close>

definition attempts_of_run :: "persisted_state \<Rightarrow> string \<Rightarrow> stage_attempt list" where
  "attempts_of_run s rid = filter (\<lambda>a. att_run_id a = rid) (map snd (ps_attempts s))"

text \<open>
  \<open>sort.Slice\<close> is not stable; attempts with the same stage and number come in the order of the
  map, which is arbitrary anyway.
\<close>

definition attempts_by_run :: "persisted_state \<Rightarrow> string \<Rightarrow> stage_attempt list" where
  "attempts_by_run s rid =
     sort_key (\<lambda>a. (att_stage a, att_attempt a)) (attempts_of_run s rid)"

definition newer_attempt :: "stage_attempt \<Rightarrow> stage_attempt gomap \<Rightarrow> stage_attempt gomap" where
  "newer_attempt a out =
     (case gm_get out (att_stage a) of
        None \<Rightarrow> gm_put (att_stage a) a out
      | Some current \<Rightarrow>
          if att_attempt a > att_attempt current then gm_put (att_stage a) a out else out)"

definition attempts_by_stage :: "persisted_state \<Rightarrow> string \<Rightarrow> stage_attempt gomap" where
  "attempts_by_stage s rid = fold newer_attempt (attempts_of_run s rid) []"

definition lease_running :: "time \<Rightarrow> stage_attempt \<Rightarrow> bool" where
  "lease_running now a \<longleftrightarrow>
     att_status a = AttemptStatusRunning \<and>
     (case att_lease_expires_at a of None \<Rightarrow> True | Some t \<Rightarrow> \<not> t < now)"

definition running_count :: "time \<Rightarrow> persisted_state \<Rightarrow> string \<Rightarrow> int" where
  "running_count now s stage =
     int (length (filter (\<lambda>a. att_stage a = stage \<and> lease_running now a) (map snd (ps_attempts s))))"

lemma newer_get:
  "gm_get (newer_attempt x out) stage =
     (if stage = att_stage x \<and>
         (case gm_get out stage of None \<Rightarrow> True | Some c \<Rightarrow> att_attempt c < att_attempt x)
      then Some x else gm_get out stage)"
  by (cases "stage = att_stage x") (auto simp: newer_attempt_def split: option.splits)

lemma newer_fold_get:
  "gm_get (fold newer_attempt xs out) stage = Some a \<Longrightarrow>
   (a \<in> set xs \<and> att_stage a = stage \<or> gm_get out stage = Some a) \<and>
   (\<forall>b \<in> set xs. att_stage b = stage \<longrightarrow> att_attempt b \<le> att_attempt a) \<and>
   (\<forall>b. gm_get out stage = Some b \<longrightarrow> att_attempt b \<le> att_attempt a)"
proof (induction xs arbitrary: out)
  case Nil
  then show ?case by simp
next
  case (Cons x xs)
  have IH: "(a \<in> set xs \<and> att_stage a = stage \<or> gm_get (newer_attempt x out) stage = Some a) \<and>
      (\<forall>b \<in> set xs. att_stage b = stage \<longrightarrow> att_attempt b \<le> att_attempt a) \<and>
      (\<forall>b. gm_get (newer_attempt x out) stage = Some b \<longrightarrow> att_attempt b \<le> att_attempt a)"
    by (rule Cons.IH) (use Cons.prems in simp)
  show ?case
  proof (cases "att_stage x = stage")
    case False
    then show ?thesis using IH by (auto simp: newer_get)
  next
    case True
    then show ?thesis using IH
      by (cases "gm_get out stage") (auto simp: newer_get split: if_splits)
  qed
qed

lemma newer_fold_None:
  "gm_get (fold newer_attempt xs out) stage = None \<longleftrightarrow>
   gm_get out stage = None \<and> (\<forall>b \<in> set xs. att_stage b \<noteq> stage)"
proof (induction xs arbitrary: out)
  case Nil
  then show ?case by simp
next
  case (Cons x xs)
  show ?case
    by (simp add: Cons.IH newer_get) (auto split: option.splits)
qed

lemma attempts_of_run_iff:
  "a \<in> set (attempts_of_run s r) \<longleftrightarrow> (\<exists>id. (id, a) \<in> set (ps_attempts s)) \<and> att_run_id a = r"
  by (force simp: attempts_of_run_def)

lemma attempts_by_stage_Some:
  "gm_get (attempts_by_stage s r) stage = Some a \<Longrightarrow>
   a \<in> set (attempts_of_run s r) \<and> att_stage a = stage \<and>
   (\<forall>b \<in> set (attempts_of_run s r). att_stage b = stage \<longrightarrow> att_attempt b \<le> att_attempt a)"
  using newer_fold_get [of "attempts_of_run s r" "[]" stage a] by (simp add: attempts_by_stage_def)

lemma attempts_by_stage_None:
  "gm_get (attempts_by_stage s r) stage = None \<longleftrightarrow>
   (\<forall>b \<in> set (attempts_of_run s r). att_stage b \<noteq> stage)"
  by (simp add: attempts_by_stage_def newer_fold_None)

text \<open>
  The number of an attempt identifies it within its run and stage: then the latest attempt per
  stage does not depend on the order in which the map is visited.
\<close>

definition numbered_attempts :: "persisted_state \<Rightarrow> bool" where
  "numbered_attempts s \<longleftrightarrow>
     (\<forall>a \<in> snd ` set (ps_attempts s). \<forall>b \<in> snd ` set (ps_attempts s).
        att_run_id a = att_run_id b \<and> att_stage a = att_stage b \<and> att_attempt a = att_attempt b \<longrightarrow> a = b)"

lemma attempts_by_stage_perm_aux:
  assumes num: "numbered_attempts s" and m: "mset (ps_attempts s') = mset (ps_attempts s)"
  shows "gm_get (attempts_by_stage s' r) stage = gm_get (attempts_by_stage s r) stage"
proof -
  have set: "set (attempts_of_run s' r) = set (attempts_of_run s r)"
    using mset_eq_setD [OF m] by (auto simp: attempts_of_run_def)
  have in_s: "a \<in> snd ` set (ps_attempts s) \<and> att_run_id a = r" if "a \<in> set (attempts_of_run s r)" for a
    using that by (auto simp: attempts_of_run_def)
  show ?thesis
  proof (cases "gm_get (attempts_by_stage s r) stage")
    case None
    then show ?thesis by (metis attempts_by_stage_None set)
  next
    case (Some a)
    then obtain b where b: "gm_get (attempts_by_stage s' r) stage = Some b"
      by (metis attempts_by_stage_None set not_None_eq)
    note A = attempts_by_stage_Some [OF Some] and B = attempts_by_stage_Some [OF b, unfolded set]
    have "att_attempt a = att_attempt b"
      using A B by (metis antisym)
    then have "a = b"
      using A B in_s num unfolding numbered_attempts_def by metis
    then show ?thesis using Some b by simp
  qed
qed

text \<open>
  \<open>AttemptsByStage\<close> returns for each stage of the run its attempt with the highest number,
  and nothing for a stage without attempts, whatever order the map of attempts is visited in.
\<close>

theorem attempts_by_stage_latest:
  assumes "numbered_attempts s" and "mset (ps_attempts s') = mset (ps_attempts s)"
  shows "(case gm_get (attempts_by_stage s' r) stage of
      None \<Rightarrow> \<forall>b \<in> set (attempts_of_run s r). att_stage b \<noteq> stage
    | Some a \<Rightarrow> a \<in> set (attempts_of_run s r) \<and> att_stage a = stage \<and>
        (\<forall>b \<in> set (attempts_of_run s r). att_stage b = stage \<longrightarrow> att_attempt b \<le> att_attempt a)) \<and>
    gm_get (attempts_by_stage s' r) stage = gm_get (attempts_by_stage s r) stage"
  using attempts_by_stage_perm_aux [OF assms] attempts_by_stage_Some [of s r stage]
    attempts_by_stage_None [of s r stage]
  by (auto split: option.splits)

lemma attempts_by_run_set: "set (attempts_by_run s r) = set (attempts_of_run s r)"
  by (simp add: attempts_by_run_def)

subsection \<open>A state file with one codec, and two attempts of a stage\<close>

definition sample_saved_state :: persisted_state where
  "sample_saved_state = empty_state\<lparr>ps_counters := [(''run'', 1)]\<rparr>"

definition sample_codec :: codec where
  "sample_codec = \<lparr>cd_decode = (\<lambda>d. if d = ''saved'' then Inr sample_saved_state else Inl ''syntax error''),
     cd_encode = (\<lambda>s. if s = sample_saved_state then Inr ''saved'' else Inl ''unsupported value'')\<rparr>"


definition sample_numbered :: "int \<Rightarrow> stage_attempt" where
  "sample_numbered n = zero_stage_attempt\<lparr>att_run_id := ''r'', att_stage := ''build'', att_attempt := n\<rparr>"

definition sample_numbered_state :: "int \<Rightarrow> int \<Rightarrow> persisted_state" where
  "sample_numbered_state m n = empty_state\<lparr>ps_attempts :=
     [(id_of ''attempt'' m, sample_numbered m), (id_of ''attempt'' n, sample_numbered n)]\<rparr>"

lemma attempts_by_stage_latest_witness:
  "gm_get (attempts_by_stage (sample_numbered_state 2 1) ''r'') ''build'' = Some (sample_numbered 2)"
proof -
  have "numbered_attempts (sample_numbered_state 1 2)"
    by (auto simp: numbered_attempts_def sample_numbered_state_def sample_numbered_def)
  moreover have "mset (ps_attempts (sample_numbered_state 2 1)) = mset (ps_attempts (sample_numbered_state 1 2))"
    by (simp add: sample_numbered_state_def)
  moreover have "gm_get (attempts_by_stage (sample_numbered_state 1 2) ''r'') ''build'' = Some (sample_numbered 2)"
    by (simp add: attempts_by_stage_def attempts_of_run_def sample_numbered_state_def sample_numbered_def
        newer_attempt_def gm_put_def gm_get_def)
  ultimately show ?thesis
    using attempts_by_stage_latest [of "sample_numbered_state 1 2" "sample_numbered_state 2 1" "''r''" "''build''"]
    by simp
qed

end
