(* ===== verification/Workorder.thy ===== *)
theory Workorder
  imports Model Paths Store
begin

section \<open>The work-order journal (internal/workorder)\<close>

text \<open>
  The journal keeps the artifacts of a run in files below a directory that its identifiers
  name.  Identifiers come from outside, so they are sanitised first; the same two functions are
  repeated in internal/controlplane/service.go.  Writing a file is a parameter.
\<close>

subsection \<open>Paths\<close>

definition sanitize_path_segment :: "string \<Rightarrow> string" where
  "sanitize_path_segment value =
     (let value = trim_space value in if value = [] then ''unknown'' else replace_separators value)"

definition canonical_work_order_id :: "run_request \<Rightarrow> string" where
  "canonical_work_order_id run =
     (let wid = trim_space (wo_id (run_work_order run))
      in if wid \<noteq> [] then sanitize_path_segment wid else sanitize_path_segment (run_id run))"

definition work_order_relative_path :: "run_request \<Rightarrow> string" where
  "work_order_relative_path run =
     path_join [''work-orders'', canonical_work_order_id run, ''work-order.json'']"

definition run_relative_dir :: "run_request \<Rightarrow> string" where
  "run_relative_dir run =
     path_join [''work-orders'', canonical_work_order_id run, ''runs'', sanitize_path_segment (run_id run)]"

definition attempt_dir_name :: "int \<Rightarrow> string" where
  "attempt_dir_name n = ''attempt-'' @ fmt_0d 2 n"

definition stage_dir :: "string \<Rightarrow> run_request \<Rightarrow> stage_attempt \<Rightarrow> string" where
  "stage_dir repo run attempt =
     path_join [repo, run_relative_dir run, ''stages'', att_stage attempt,
       attempt_dir_name (att_attempt attempt)]"

definition summary_path :: "string \<Rightarrow> run_request \<Rightarrow> stage_attempt \<Rightarrow> string" where
  "summary_path repo run attempt = path_join [stage_dir repo run attempt, ''summary.json'']"

definition report_path :: "string \<Rightarrow> run_request \<Rightarrow> stage_attempt \<Rightarrow> string" where
  "report_path repo run attempt = path_join [stage_dir repo run attempt, ''report.json'']"

definition pipeline_artifact_path :: "string \<Rightarrow> run_request \<Rightarrow> string \<Rightarrow> string" where
  "pipeline_artifact_path repo run name =
     path_join [repo, run_relative_dir run, ''pipeline'', name @ ''.json'']"

subsection \<open>Pipeline artifacts\<close>

definition pipeline_plan_keys :: "string list" where
  "pipeline_plan_keys =
     [''pipeline_intent'', ''policy_evaluation'', ''pipeline_build_plan'', ''pipeline_execution_plan'']"

text \<open>\<open>None\<close> stands for the panic on an unknown name; its caller below passes the message on as an error.\<close>

definition schema_for_pipeline_artifact :: "string \<Rightarrow> string option" where
  "schema_for_pipeline_artifact name =
     (if name = ''pipeline_intent'' then Some ''pipeline-intent.schema.json''
      else if name = ''policy_evaluation'' then Some ''policy-evaluation.schema.json''
      else if name = ''pipeline_build_plan'' then Some ''pipeline-build-plan.schema.json''
      else if name = ''pipeline_execution_plan'' then Some ''pipeline-execution-plan.schema.json''
      else None)"

definition pipeline_artifact_paths :: "run_request \<Rightarrow> string gomap" where
  "pipeline_artifact_paths run =
     (let base = path_join [''work-orders'', canonical_work_order_id run, ''runs'',
        sanitize_path_segment (run_id run), ''pipeline'']
      in map (\<lambda>key. (key, base @ ''/'' @ key @ ''.json'')) pipeline_plan_keys)"

text \<open>\<open>write path schema value\<close> is \<open>contracts.WriteFile\<close>.\<close>

fun write_artifacts ::
  "(string \<Rightarrow> string \<Rightarrow> json \<Rightarrow> ('x, unit) go) \<Rightarrow> string \<Rightarrow> run_request \<Rightarrow> jmap \<Rightarrow> string list \<Rightarrow>
   ('x, string list) go" where
  "write_artifacts write repo run outputs [] = m_ret []"
| "write_artifacts write repo run outputs (key # keys) =
     (case gm_get outputs key of
        None \<Rightarrow> write_artifacts write repo run outputs keys
      | Some v \<Rightarrow>
          m_bind (write (path_join [repo, ''work-orders'', canonical_work_order_id run, ''runs'',
              sanitize_path_segment (run_id run), ''pipeline'', key @ ''.json''])
            (case schema_for_pipeline_artifact key of Some s \<Rightarrow> s | None \<Rightarrow> []) v)
          (\<lambda>_. m_bind (write_artifacts write repo run outputs keys) (\<lambda>rest.
            m_ret (path_join [''work-orders'', canonical_work_order_id run, ''runs'',
              sanitize_path_segment (run_id run), ''pipeline'', key @ ''.json''] # rest))))"

definition write_pipeline_artifacts ::
  "(string \<Rightarrow> string \<Rightarrow> json \<Rightarrow> ('x, unit) go) \<Rightarrow> string \<Rightarrow> run_request \<Rightarrow> jmap \<Rightarrow> ('x, string list) go" where
  "write_pipeline_artifacts write repo run outputs =
     (if repo = [] \<or> outputs = [] then m_ret []
      else write_artifacts write repo run outputs pipeline_plan_keys)"

text \<open>\<open>Writer.WritePipelineArtifact\<close>; the value is absent when it is nil.\<close>

definition write_pipeline_artifact ::
  "(string \<Rightarrow> string \<Rightarrow> json \<Rightarrow> ('x, unit) go) \<Rightarrow> string \<Rightarrow> run_request \<Rightarrow> string \<Rightarrow> json option \<Rightarrow>
   ('x, unit) go" where
  "write_pipeline_artifact write repo run key v =
     (case v of
        None \<Rightarrow> m_ret ()
      | Some j \<Rightarrow>
          if repo = [] then m_ret ()
          else (case schema_for_pipeline_artifact key of
              None \<Rightarrow> m_err (''unknown pipeline artifact schema for '' @ key)
            | Some schema \<Rightarrow>
                write (path_join [repo, ''work-orders'', canonical_work_order_id run, ''runs'',
                  sanitize_path_segment (run_id run), ''pipeline'', key @ ''.json'']) schema j))"

subsection \<open>The latest attempt of a stage\<close>

definition attempt_numbers :: "(string \<times> bool) list \<Rightarrow> int list" where
  "attempt_numbers entries =
     List.map_filter (\<lambda>(name, is_dir).
       if \<not> is_dir \<or> \<not> has_prefix name ''attempt-'' then None
       else atoi (trim_prefix name ''attempt-'')) entries"

text \<open>\<open>entries\<close>: what \<open>os.ReadDir\<close> returns for the stage directory, with its error.\<close>

definition latest_attempt ::
  "string \<Rightarrow> run_request \<Rightarrow> string \<Rightarrow> (string \<Rightarrow> string + (string \<times> bool) list) \<Rightarrow> string + stage_attempt" where
  "latest_attempt repo run stage read_dir =
     (let dir = path_join [repo, run_relative_dir run, ''stages'', stage]
      in case read_dir dir of
           Inl e \<Rightarrow> Inl (''read stage dir '' @ dir @ '': '' @ e)
         | Inr entries \<Rightarrow>
             (let attempts = attempt_numbers entries
              in if attempts = [] then Inl (''no attempts found for stage '' @ stage)
                 else Inr (zero_stage_attempt\<lparr>att_stage := stage, att_attempt := last (sort attempts)\<rparr>)))"

subsection \<open>Containment\<close>

lemma separator_free_segment: "separator_free s \<Longrightarrow> s \<noteq> [] \<Longrightarrow> path_safe s"
proof -
  assume f: "separator_free s" and ne: "s \<noteq> []"
  have "s \<noteq> [] @ ''..'' @ []"
    using f unfolding separator_free_def by blast
  moreover have "is_separator CHR ''/''" by (simp add: is_separator_def)
  then have "CHR ''/'' \<notin> set s"
    using f unfolding separator_free_def list_all_iff by blast
  ultimately show ?thesis
    using ne by (simp add: path_safe_def)
qed

lemma sanitize_free: "separator_free (sanitize_path_segment v) \<and> sanitize_path_segment v \<noteq> []"
proof (cases "trim_space v = []")
  case True
  have "replace_separators ''unknown'' = ''unknown''" by code_simp
  then have "separator_free ''unknown''"
    using replace_separators_free [of "''unknown''"] by simp
  then show ?thesis using True by (simp add: sanitize_path_segment_def)
next
  case False
  then show ?thesis
    by (simp add: sanitize_path_segment_def replace_separators_free replace_separators_Nil Let_def)
qed

lemma sanitize_safe: "path_safe (sanitize_path_segment v)"
  using sanitize_free separator_free_segment by blast

lemma canonical_safe: "path_safe (canonical_work_order_id run)"
  by (simp add: canonical_work_order_id_def sanitize_safe Let_def)

lemma artifact_name_segment: "key \<in> set pipeline_plan_keys \<Longrightarrow> path_segment (key @ ''.json'')"
  by (auto simp: pipeline_plan_keys_def path_segment_def)

lemma artifact_comps:
  assumes "repo \<noteq> []" and "key \<in> set pipeline_plan_keys"
  shows "path_comps (path_join [repo, ''work-orders'', canonical_work_order_id run, ''runs'',
      sanitize_path_segment (run_id run), ''pipeline'', key @ ''.json'']) =
    path_comps repo @ filter (\<lambda>p. p \<noteq> ''.'') [''work-orders'', canonical_work_order_id run, ''runs'',
      sanitize_path_segment (run_id run), ''pipeline'', key @ ''.json'']"
proof (rule path_join_safe)
  show "list_all path_safe [''work-orders'', canonical_work_order_id run, ''runs'',
      sanitize_path_segment (run_id run), ''pipeline'', key @ ''.json'']"
    using artifact_name_segment [OF assms(2)] canonical_safe sanitize_safe
    by (simp add: path_segment_safe) (simp add: path_safe_def)
qed (use assms in simp_all)

lemma artifact_rooted:
  assumes "repo \<noteq> []" and "key \<in> set pipeline_plan_keys"
  shows "path_rooted (path_join [repo, ''work-orders'', canonical_work_order_id run, ''runs'',
      sanitize_path_segment (run_id run), ''pipeline'', key @ ''.json'']) = path_rooted repo"
  by (rule path_join_safe) (use assms artifact_name_segment [OF assms(2)] canonical_safe sanitize_safe
      in \<open>simp_all add: path_segment_safe, simp_all add: path_safe_def\<close>)

text \<open>The files written: by induction over the keys, with the writer's own paths.\<close>

lemma write_artifacts_calls:
  assumes "\<And>path schema v s. path \<in> P \<Longrightarrow> I s \<Longrightarrow> I (snd (write path schema v s))"
    and "\<And>key. key \<in> set keys \<Longrightarrow> path_join [repo, ''work-orders'', canonical_work_order_id run, ''runs'',
      sanitize_path_segment (run_id run), ''pipeline'', key @ ''.json''] \<in> P"
  shows "keeps I (write_artifacts write repo run outputs keys)"
  using assms(2)
proof (induction keys)
  case Nil
  then show ?case by (simp add: keeps_ret)
next
  case (Cons key keys)
  then have IH: "keeps I (write_artifacts write repo run outputs keys)" by simp
  have "keeps I (write (path_join [repo, ''work-orders'', canonical_work_order_id run, ''runs'',
      sanitize_path_segment (run_id run), ''pipeline'', key @ ''.json'']) schema v)" for schema v
    by (rule keepsI, rule assms(1)) (use Cons.prems in simp_all)
  then show ?case
    using IH unfolding write_artifacts.simps by (intro keeps_rules) auto
qed

text \<open>
  C19: whatever the identifiers of the work order and of the run contain (separators, parent
  references, spaces), every file that \<open>WritePipelineArtifacts\<close> writes lies below the
  work-orders directory of the journal repository: an invariant that every write below it
  keeps is kept by the whole operation.
\<close>

theorem artifacts_confined:
  assumes "\<And>path schema v s. prefix (path_comps repo @ [''work-orders'']) (path_comps path) \<Longrightarrow>
      I s \<Longrightarrow> I (snd (write path schema v s))"
  shows "keeps I (write_pipeline_artifacts write repo run outputs)"
proof (cases "repo = [] \<or> outputs = []")
  case True
  then show ?thesis by (simp add: write_pipeline_artifacts_def keeps_ret)
next
  case False
  then have repo: "repo \<noteq> []" by simp
  have "keeps I (write_artifacts write repo run outputs pipeline_plan_keys)"
    by (rule write_artifacts_calls
          [where P = "{p. prefix (path_comps repo @ [''work-orders'']) (path_comps p)}"])
      (use assms artifact_comps [OF repo] in auto)
  then show ?thesis using False by (simp add: write_pipeline_artifacts_def)
qed

subsection \<open>Runs do not share files\<close>

lemma replace_separators_id:
  "list_all (\<lambda>c. \<not> is_separator c \<and> c \<noteq> CHR ''.'') s \<Longrightarrow> replace_separators s = s"
  by (induction s rule: replace_separators.induct) auto

lemma trim_space_id: "s \<noteq> [] \<Longrightarrow> list_all (\<lambda>c. \<not> is_space c) s \<Longrightarrow> trim_space s = s"
proof -
  assume "s \<noteq> []" and a: "list_all (\<lambda>c. \<not> is_space c) s"
  then obtain c cs where s: "s = c # cs" "\<not> is_space c" by (cases s) auto
  then have 1: "dropWhile is_space s = s" by simp
  obtain d ds where r: "rev s = d # ds"
    using \<open>s \<noteq> []\<close> by (cases "rev s") auto
  have "d \<in> set s"
    using arg_cong [OF r, of set] by simp
  then have "\<not> is_space d"
    using a by (simp add: list_all_iff)
  then have "dropWhile is_space (rev s) = rev s" by (simp add: r)
  then show ?thesis by (simp add: trim_space_def 1)
qed

definition plain_char :: "char \<Rightarrow> bool" where
  "plain_char c \<longleftrightarrow> \<not> is_space c \<and> \<not> is_separator c \<and> c \<noteq> CHR ''.''"

lemma digit_plain: "is_digit c \<Longrightarrow> plain_char c"
proof -
  assume "is_digit c"
  then have n: "48 \<le> (of_char c :: nat)" "(of_char c :: nat) \<le> 57"
    by (simp_all add: is_digit_def Let_def)
  have "c \<noteq> d" if "(of_char d :: nat) < 48 \<or> 57 < (of_char d :: nat)" for d
    using n that by auto
  then show ?thesis
    using n by (simp add: plain_char_def is_space_def is_separator_def Let_def)
qed

lemma sanitize_plain: "s \<noteq> [] \<Longrightarrow> list_all plain_char s \<Longrightarrow> sanitize_path_segment s = s"
  using trim_space_id [of s] replace_separators_id [of s]
  by (simp add: sanitize_path_segment_def plain_char_def list_all_iff)

lemma run_id_plain:
  assumes "0 \<le> n"
  shows "sanitize_path_segment (id_of ''run'' n) = id_of ''run'' n"
proof (rule sanitize_plain)
  have "list_all is_digit (fmt_0d 5 n)"
    using assms by (simp add: fmt_0d_def zero_pad_digits nat_dec_digits)
  then have "list_all plain_char (fmt_0d 5 n)"
    using digit_plain by (simp add: list_all_iff)
  moreover have "list_all plain_char (''run'' @ ''-'')"
    by code_simp
  ultimately show "list_all plain_char (id_of ''run'' n)"
    unfolding id_of_def append_assoc [symmetric] list_all_append by blast
qed (simp add: id_of_def)

text \<open>
  two runs of the control plane, which numbers them, never write to the same artifact file,
  even when their work orders have colliding or unusable identifiers.
\<close>

theorem runs_have_own_artifacts:
  assumes "repo \<noteq> []" and "key \<in> set pipeline_plan_keys" and "key' \<in> set pipeline_plan_keys"
    and "run_id r = id_of ''run'' m" and "run_id r' = id_of ''run'' n" and "0 \<le> m" and "0 \<le> n"
    and "m \<noteq> n"
  shows "path_join [repo, ''work-orders'', canonical_work_order_id r, ''runs'',
      sanitize_path_segment (run_id r), ''pipeline'', key @ ''.json''] \<noteq>
    path_join [repo, ''work-orders'', canonical_work_order_id r', ''runs'',
      sanitize_path_segment (run_id r'), ''pipeline'', key' @ ''.json'']"
proof -
  have ne: "id_of ''run'' k \<noteq> ''.''" for k
    by (simp add: id_of_def)
  have key: "key @ ''.json'' \<noteq> ''.''" "key' @ ''.json'' \<noteq> ''.''"
    using artifact_name_segment assms(2,3) by (auto simp: path_segment_def)
  have dist: "id_of ''run'' m \<noteq> id_of ''run'' n"
    using id_of_inj assms(6-8) by blast
  have "filter (\<lambda>p. p \<noteq> ''.'') [''work-orders'', w, ''runs'', id_of ''run'' k, ''pipeline'', f] =
      filter (\<lambda>p. p \<noteq> ''.'') [''work-orders'', w, ''runs''] @ [id_of ''run'' k, ''pipeline'', f]"
    if "f \<noteq> ''.''" for w k f
    using ne [of k] that by simp
  note split = this
  have "path_comps repo @ filter (\<lambda>p. p \<noteq> ''.'') [''work-orders'', w, ''runs'', id_of ''run'' m, ''pipeline'', key @ ''.json''] \<noteq>
      path_comps repo @ filter (\<lambda>p. p \<noteq> ''.'') [''work-orders'', w', ''runs'', id_of ''run'' n, ''pipeline'', key' @ ''.json'']"
    for w w'
    unfolding split [OF key(1)] split [OF key(2)] append_assoc [symmetric]
    using dist by (metis append_eq_append_conv length_Cons list.inject list.size(3))
  then show ?thesis
    using artifact_comps [OF assms(1,2), of r] artifact_comps [OF assms(1,3), of r']
    unfolding assms(4,5) run_id_plain [OF assms(6)] run_id_plain [OF assms(7)] by metis
qed

subsection \<open>Writer and readers agree\<close>

lemma path_comps_two:
  assumes "r \<noteq> []" and "s \<noteq> []" and "''..'' \<notin> set (path_elems s)"
  shows "path_comps (path_join [r, s]) = path_comps r @ path_elems s"
    and "path_rooted (path_join [r, s]) = path_rooted r"
proof -
  have root: "path_rooted (r @ x) = path_rooted r" for x
    using assms(1) by (cases r) (auto simp: path_rooted_def)
  have j: "path_join [r, s] = path_clean (r @ CHR ''/'' # s)"
    using assms(1,2) by (simp add: path_join_def)
  show "path_comps (path_join [r, s]) = path_comps r @ path_elems s"
    unfolding j path_clean_comps
    by (simp add: path_comps_def path_elems_append root path_reduce_append
        path_reduce_plain [OF assms(3)])
  show "path_rooted (path_join [r, s]) = path_rooted r"
    unfolding j path_clean_comps by (simp add: root)
qed

lemma relative_comps:
  assumes "list_all path_safe ps" and "path_segment p"
  shows "path_comps (path_join (p # ps)) = p # filter (\<lambda>q. q \<noteq> ''.'') ps"
    and "\<not> path_rooted (path_join (p # ps))" and "path_join (p # ps) \<noteq> []"
proof -
  have p: "path_comps p = [p]" "\<not> path_rooted p" "p \<noteq> []"
    using path_render_comps [of "[p]" False] assms(2) dotdots_first_plain [of "[p]"]
    by (auto simp: path_segment_def path_render_def)
  have clean: "path_join (p # ps) = path_clean (join_with ''/'' (filter (\<lambda>e. e \<noteq> []) (p # ps)))"
    using p(3) by (simp add: path_join_def)
  show c: "path_comps (path_join (p # ps)) = p # filter (\<lambda>q. q \<noteq> ''.'') ps"
    and "\<not> path_rooted (path_join (p # ps))"
    using path_join_safe [OF p(3) assms(1)] p by (cases "ps = []"; simp add: path_join_def path_clean_comps)+
  show "path_join (p # ps) \<noteq> []"
    using c by (cases "path_join (p # ps)") (auto simp: path_comps_def path_elems_def path_rooted_def)
qed

lemma path_join_clean: "r \<noteq> [] \<Longrightarrow> path_clean (path_join (r # ps)) = path_join (r # ps)"
  by (simp add: path_join_def)

lemma relative_elems:
  assumes "list_all path_safe ps" and "path_segment p"
  shows "path_elems (path_join (p # ps)) = p # filter (\<lambda>q. q \<noteq> ''.'') ps"
proof -
  let ?cs = "p # filter (\<lambda>q. q \<noteq> ''.'') ps"
  have "path_join (p # ps) = path_render False ?cs"
    using relative_comps [OF assms] path_clean_def [of "path_join (p # ps)"] path_join_clean [of p ps]
      assms(2) by (auto simp: path_segment_def)
  then show ?thesis
    using path_elems_segments [of ?cs] assms
    by (simp add: path_render_def list_all_iff path_segment_safe)
qed

text \<open>
  the control plane reads the execution plan of a run (\<open>pipelinePlanFromJournal\<close>, through
  \<open>PipelineArtifactPaths\<close>) from the very file into which \<open>WritePipelineArtifacts\<close> writes it.
\<close>

theorem plan_path_agrees:
  assumes "repo \<noteq> []" and "key \<in> set pipeline_plan_keys"
  shows "\<exists>rel. gm_get (pipeline_artifact_paths run) key = Some rel \<and> rel \<noteq> [] \<and>
    path_join [repo, rel] = path_join [repo, ''work-orders'', canonical_work_order_id run, ''runs'',
      sanitize_path_segment (run_id run), ''pipeline'', key @ ''.json'']"
proof -
  define base where "base = path_join [''work-orders'', canonical_work_order_id run, ''runs'',
    sanitize_path_segment (run_id run), ''pipeline'']"
  let ?mid = "[canonical_work_order_id run, ''runs'', sanitize_path_segment (run_id run), ''pipeline'']"
  have mid: "list_all path_safe ?mid"
    using canonical_safe sanitize_safe by (simp, simp add: path_safe_def)
  have w: "path_segment ''work-orders''" by (simp add: path_segment_def)
  have elems: "path_elems base = ''work-orders'' # filter (\<lambda>q. q \<noteq> ''.'') ?mid"
    unfolding base_def by (rule relative_elems [OF mid w])
  have key: "path_segment (key @ ''.json'')"
    by (rule artifact_name_segment [OF assms(2)])
  let ?rel = "base @ ''/'' @ key @ ''.json''"
  have rel: "path_elems ?rel = path_elems base @ [key @ ''.json'']"
    using path_elems_segments [of "[key @ ''.json'']"] key by (simp add: path_elems_append)
  have dots: "''..'' \<notin> set (path_elems ?rel)"
    unfolding rel elems using mid key by (auto simp: path_safe_def path_segment_def)
  have "gm_get (pipeline_artifact_paths run) key = Some ?rel"
    using assms(2) by (auto simp: pipeline_artifact_paths_def pipeline_plan_keys_def base_def
        gm_get_Cons Let_def)
  moreover have "path_clean (path_join [repo, ?rel]) = path_clean (path_join [repo, ''work-orders'',
      canonical_work_order_id run, ''runs'', sanitize_path_segment (run_id run), ''pipeline'', key @ ''.json''])"
    unfolding path_clean_eq path_comps_two [OF assms(1) _ dots] artifact_comps [OF assms] rel elems
    using path_comps_two [OF assms(1) _ dots] artifact_rooted [OF assms] artifact_comps [OF assms]
      key rel elems by (auto simp: path_segment_def)
  ultimately show ?thesis
    unfolding path_join_clean [OF assms(1)] by auto
qed

lemma attempt_dir_number:
  "0 \<le> n \<Longrightarrow> n < 2 ^ 63 \<Longrightarrow>
   has_prefix (attempt_dir_name n) ''attempt-'' \<and>
   atoi (trim_prefix (attempt_dir_name n) ''attempt-'') = Some n"
  unfolding attempt_dir_name_def by (simp only: has_prefix_append trim_prefix_append atoi_fmt_0d)

lemma attempt_numbers_dirs:
  assumes "\<forall>n \<in> set ns. 0 \<le> n \<and> n < 2 ^ 63"
  shows "attempt_numbers (map (\<lambda>n. (attempt_dir_name n, True)) ns) = ns"
  using assms
  by (induction ns) (simp_all add: attempt_numbers_def map_filter_simps attempt_dir_number
      del: has_prefix.simps)

lemma attempt_numbers_junk:
  "list_all (\<lambda>(name, is_dir). \<not> is_dir \<or> \<not> has_prefix name ''attempt-'') junk \<Longrightarrow>
   attempt_numbers junk = []"
  by (induction junk) (auto simp: attempt_numbers_def map_filter_simps simp del: has_prefix.simps)

lemma attempt_numbers_append: "attempt_numbers (xs @ ys) = attempt_numbers xs @ attempt_numbers ys"
  by (simp add: attempt_numbers_def List.map_filter_def)

lemma last_sort: "xs \<noteq> [] \<Longrightarrow> last (sort xs) = Max (set (xs :: int list))"
proof -
  assume ne: "xs \<noteq> []"
  then have s: "sort xs \<noteq> []" by (metis length_sort length_0_conv)
  have "\<forall>x \<in> set (sort xs). x \<le> last (sort xs)"
    using sorted_sort [of xs] s
    by (metis append_butlast_last_id dual_order.refl insert_iff list.set(2) rotate1.simps(2) set_rotate1 sorted_append list.set_intros(1))
  then show ?thesis
    using last_in_set [OF s] by (intro Max_eqI [symmetric]) auto
qed

text \<open>
  The attempt directories that the control plane names \<open>attempt-%02d\<close> are found again:
  \<open>LatestAttempt\<close> returns the largest of their numbers, whatever other entries the directory
  has, and reports an error when there is none.
\<close>

theorem latest_attempt_max:
  assumes "read_dir (path_join [repo, run_relative_dir run, ''stages'', stage]) =
      Inr (map (\<lambda>n. (attempt_dir_name n, True)) ns @ junk)"
    and "\<forall>n \<in> set ns. 0 \<le> n \<and> n < 2 ^ 63"
    and "list_all (\<lambda>(name, is_dir). \<not> is_dir \<or> \<not> has_prefix name ''attempt-'') junk"
  shows "latest_attempt repo run stage read_dir =
    (if ns = [] then Inl (''no attempts found for stage '' @ stage)
     else Inr (zero_stage_attempt\<lparr>att_stage := stage, att_attempt := Max (set ns)\<rparr>))"
  using assms(1) attempt_numbers_dirs [OF assms(2)] attempt_numbers_junk [OF assms(3)]
  by (simp add: latest_attempt_def attempt_numbers_append last_sort Let_def)

subsection \<open>A run with unusable identifiers\<close>

definition sample_journal_run :: "string \<Rightarrow> string \<Rightarrow> run_request" where
  "sample_journal_run wid rid = zero_run_request\<lparr>run_id := rid,
     run_work_order := zero_work_order\<lparr>wo_id := wid\<rparr>\<rparr>"

lemma sample_journal_path:
  "pipeline_artifact_path ''/journal'' (sample_journal_run ''../../etc'' ''run-00001'')
     ''pipeline_execution_plan'' =
   ''/journal/work-orders/----etc/runs/run-00001/pipeline/pipeline_execution_plan.json''"
  by code_simp

definition sample_writer :: "string \<Rightarrow> string \<Rightarrow> json \<Rightarrow> (string list, unit) go" where
  "sample_writer path schema v = m_modify (\<lambda>written. written @ [path])"

definition below_journal :: "string list \<Rightarrow> bool" where
  "below_journal written \<longleftrightarrow>
     list_all (\<lambda>p. prefix (path_comps ''/journal'' @ [''work-orders'']) (path_comps p)) written"

lemma artifacts_confined_witness:
  "below_journal (snd (write_pipeline_artifacts sample_writer ''/journal''
     (sample_journal_run ''../../etc'' ''..'') [(''pipeline_intent'', JNull)] []))"
  by (rule keepsD [OF artifacts_confined])
    (auto simp: below_journal_def sample_writer_def m_modify_def)

lemma id_run_1: "id_of ''run'' 1 = ''run-00001''" and id_run_2: "id_of ''run'' 2 = ''run-00002''"
  by code_simp+

lemma runs_have_own_artifacts_witness:
  "path_join [''/journal'', ''work-orders'', canonical_work_order_id (sample_journal_run ''wo'' ''run-00001''),
      ''runs'', sanitize_path_segment ''run-00001'', ''pipeline'', ''pipeline_intent'' @ ''.json''] \<noteq>
   path_join [''/journal'', ''work-orders'', canonical_work_order_id (sample_journal_run ''wo'' ''run-00002''),
      ''runs'', sanitize_path_segment ''run-00002'', ''pipeline'', ''pipeline_intent'' @ ''.json'']"
  using runs_have_own_artifacts [of "''/journal''" "''pipeline_intent''" "''pipeline_intent''"
      "sample_journal_run ''wo'' ''run-00001''" 1 "sample_journal_run ''wo'' ''run-00002''" 2]
  unfolding id_run_1 id_run_2
  by (simp add: sample_journal_run_def pipeline_plan_keys_def del: append.simps)

lemma plan_path_agrees_witness:
  "\<exists>rel. gm_get (pipeline_artifact_paths (sample_journal_run ''wo'' ''run-00001'')) ''pipeline_execution_plan'' =
      Some rel \<and> rel \<noteq> []"
  using plan_path_agrees [of "''/journal''" "''pipeline_execution_plan''" "sample_journal_run ''wo'' ''run-00001''"]
  by (auto simp: pipeline_plan_keys_def)

lemma latest_attempt_max_witness:
  "latest_attempt ''/journal'' (sample_journal_run ''wo'' ''run-00001'') ''test''
     (\<lambda>_. Inr [(''attempt-01'', True), (''attempt-10'', True), (''attempt-02'', True), (''notes'', True)]) =
   Inr (zero_stage_attempt\<lparr>att_stage := ''test'', att_attempt := 10\<rparr>)"
proof -
  have "attempt_dir_name 1 = ''attempt-01''" "attempt_dir_name 10 = ''attempt-10''"
    "attempt_dir_name 2 = ''attempt-02''" by code_simp+
  then show ?thesis
    using latest_attempt_max [of "\<lambda>_. Inr [(''attempt-01'', True), (''attempt-10'', True),
        (''attempt-02'', True), (''notes'', True)]" "''/journal''"
        "sample_journal_run ''wo'' ''run-00001''" "''test''" "[1, 10, 2]" "[(''notes'', True)]"]
    by simp
qed

end
