(* ===== verification/RunRecords.thy ===== *)
theory RunRecords
  imports Locks Store Workorder
begin

section \<open>Labels, runs and their records (pure parts of internal/controlplane/service.go)\<close>

text \<open>
  The functions of service.go that have no effects: labels, the latest run of an issue, the
  statistics of a run, and what a completed stage leaves in the metadata of its attempt and run.
\<close>

subsection \<open>Labels and statuses\<close>

definition normalize_labels :: "string list \<Rightarrow> string list \<Rightarrow> string list" where
  "normalize_labels existing target =
     remdups_adj (sort (filter (\<lambda>l. \<not> has_prefix l ''delivery/'') existing @ target))"

definition has_label :: "string list \<Rightarrow> string \<Rightarrow> bool" where
  "has_label labels want \<longleftrightarrow> want \<in> set labels"

definition newer_run :: "run_request \<Rightarrow> run_request option \<Rightarrow> run_request option" where
  "newer_run r best =
     (case best of None \<Rightarrow> Some r
      | Some b \<Rightarrow> if run_created_at b < run_created_at r then Some r else Some b)"

definition latest_run_for_issue :: "persisted_state \<Rightarrow> string \<Rightarrow> run_request option" where
  "latest_run_for_issue s issue_id =
     fold newer_run (filter (\<lambda>r. run_issue_id r = issue_id) (map snd (ps_runs s))) None"

definition run_status_terminal :: "string \<Rightarrow> bool" where
  "run_status_terminal status \<longleftrightarrow>
     status = RunStatusAwaitingApproval \<or> status = RunStatusCompleted \<or> status = RunStatusFailed"

definition next_attempt_number :: "stage_attempt gomap \<Rightarrow> string \<Rightarrow> int" where
  "next_attempt_number by_stage stage =
     (case gm_get by_stage stage of Some a \<Rightarrow> att_attempt a + 1 | None \<Rightarrow> 1)"

definition severity_for_attempt :: "string \<Rightarrow> stage_spec \<Rightarrow> string" where
  "severity_for_attempt status spec =
     (if status = AttemptStatusFailed then
        (if signal_failure_severity spec \<noteq> [] then signal_failure_severity spec else ''medium'')
      else if status = AttemptStatusBlocked then ''medium'' else ''low'')"

definition project_scope :: "string \<Rightarrow> string" where
  "project_scope project_path =
     (let p = trim_suffix project_path ''/''; parts = split_on CHR ''/'' p
      in if 2 \<le> length parts \<and> last parts \<noteq> [] then last parts else p)"

subsection \<open>Statistics of a run\<close>

text \<open>\<open>index[name]\<close> in \<open>mergeSubstageTotals\<close> is the last position that has the name.\<close>

fun add_timing :: "string \<Rightarrow> int \<Rightarrow> substage_total list \<Rightarrow> substage_total list" where
  "add_timing name ms [] = [\<lparr>sto_name = name, sto_duration_ms = ms\<rparr>]"
| "add_timing name ms (x # xs) =
     (if sto_name x = name \<and> name \<notin> sto_name ` set xs
      then x\<lparr>sto_duration_ms := wrap64 (sto_duration_ms x + ms)\<rparr> # xs
      else x # add_timing name ms xs)"

definition merge_substage_totals :: "substage_total list \<Rightarrow> substage_timing list \<Rightarrow> substage_total list" where
  "merge_substage_totals existing timings =
     sort_key sto_name (fold (\<lambda>t. add_timing (sst_name t) (sst_duration_ms t)) timings existing)"

definition rat_trunc :: "rat \<Rightarrow> int" where
  "rat_trunc x = (if 0 \<le> x then \<lfloor>x\<rfloor> else \<lceil>x\<rceil>)"

definition round_run_currency :: "rat \<Rightarrow> rat" where
  "round_run_currency v = of_int (rat_trunc (v * 1000000 + 1 / 2)) / 1000000"

definition zero_stage_totals :: "string \<Rightarrow> stage_totals" where
  "zero_stage_totals stage = \<lparr>stt_stage = stage, stt_attempts = 0, stt_completed_attempts = 0,
     stt_failed_attempts = 0, stt_blocked_attempts = 0, stt_duration_ms = 0, stt_artifact_count = 0,
     stt_total_cost_usd = 0, stt_substages = []\<rparr>"

definition add_attempt :: "stage_attempt \<Rightarrow> stage_totals \<Rightarrow> stage_totals" where
  "add_attempt a t =
     t\<lparr>stt_attempts := stt_attempts t + 1,
       stt_duration_ms := wrap64 (stt_duration_ms t + as_duration_ms (att_stats a)),
       stt_artifact_count := stt_artifact_count t + int (length (att_artifacts a)),
       stt_total_cost_usd := stt_total_cost_usd t + cb_total_usd (as_cost (att_stats a)),
       stt_substages := merge_substage_totals (stt_substages t) (as_substages (att_stats a)),
       stt_completed_attempts := stt_completed_attempts t +
         (if att_status a = AttemptStatusSucceeded then 1 else 0),
       stt_blocked_attempts := stt_blocked_attempts t +
         (if att_status a = AttemptStatusBlocked then 1 else 0),
       stt_failed_attempts := stt_failed_attempts t +
         (if att_status a = AttemptStatusFailed then 1 else 0)\<rparr>"

definition add_to_index :: "stage_attempt \<Rightarrow> stage_totals gomap \<Rightarrow> stage_totals gomap" where
  "add_to_index a idx =
     gm_put (att_stage a) (add_attempt a (gm_get_or (zero_stage_totals (att_stage a)) idx (att_stage a))) idx"

definition round_stage :: "stage_totals \<Rightarrow> stage_totals" where
  "round_stage t = t\<lparr>stt_total_cost_usd := round_run_currency (stt_total_cost_usd t)\<rparr>"

definition add_stage :: "string \<times> stage_totals \<Rightarrow> run_stats \<Rightarrow> run_stats" where
  "add_stage = (\<lambda>(name, t) s.
     s\<lparr>rs_total_cost_usd := rs_total_cost_usd s + stt_total_cost_usd (round_stage t),
       rs_total_duration_ms := wrap64 (rs_total_duration_ms s + stt_duration_ms t),
       rs_completed_attempts := rs_completed_attempts s + stt_completed_attempts t,
       rs_failed_attempts := rs_failed_attempts s + stt_failed_attempts t,
       rs_blocked_attempts := rs_blocked_attempts s + stt_blocked_attempts t,
       rs_artifact_count := rs_artifact_count s + stt_artifact_count t\<rparr>)"

definition collect_run_stats :: "persisted_state \<Rightarrow> string \<Rightarrow> run_stats" where
  "collect_run_stats st rid =
     (let idx = fold add_to_index (attempts_of_run st rid) [];
          s = fold add_stage idx (zero_run_stats\<lparr>rs_currency := ''USD''\<rparr>);
          names = sort (gm_keys idx)
      in s\<lparr>rs_stage_count := int (length names),
           rs_stages := map (\<lambda>n. round_stage (gm_get_or (zero_stage_totals n) idx n)) names,
           rs_total_cost_usd := round_run_currency (rs_total_cost_usd s)\<rparr>)"

subsection \<open>Metadata\<close>

definition ensure_metadata :: "jmap option \<Rightarrow> jmap" where
  "ensure_metadata m = (case m of None \<Rightarrow> [] | Some x \<Rightarrow> x)"

definition meta_put :: "string \<Rightarrow> json \<Rightarrow> jmap option \<Rightarrow> jmap option" where
  "meta_put k v m = Some (gm_put k v (ensure_metadata m))"

definition meta_delete :: "string \<Rightarrow> jmap option \<Rightarrow> jmap option" where
  "meta_delete k m = Some (gm_delete k (ensure_metadata m))"

text \<open>\<open>appendJournalHistory\<close> and \<open>appendMetadataList\<close>: anything but a list is replaced.\<close>

definition append_metadata_list :: "jmap \<Rightarrow> string \<Rightarrow> json \<Rightarrow> jmap" where
  "append_metadata_list m key v =
     gm_put key (JArr ((case jget_arr m key of None \<Rightarrow> [] | Some xs \<Rightarrow> xs) @ [v])) m"

definition append_journal_history :: "jmap \<Rightarrow> jmap \<Rightarrow> jmap" where
  "append_journal_history m entry = append_metadata_list m ''journal_history'' (JObj entry)"

definition string_from_map :: "jmap \<Rightarrow> string \<Rightarrow> string" where
  "string_from_map outputs key = trim_space (jget_str outputs key)"

definition stage_commit_from_outputs :: "jmap \<Rightarrow> string \<Rightarrow> string \<Rightarrow> string \<Rightarrow> string" where
  "stage_commit_from_outputs outputs scalar nested field =
     (if string_from_map outputs scalar \<noteq> [] then string_from_map outputs scalar
      else case jget_obj outputs nested of None \<Rightarrow> [] | Some n \<Rightarrow> trim_space (jget_str n field))"

definition put_str :: "string \<Rightarrow> string \<Rightarrow> jmap \<Rightarrow> jmap" where
  "put_str k v m = (if v = [] then m else gm_put k (JStr v) m)"

definition put_bool :: "string \<Rightarrow> bool option \<Rightarrow> jmap \<Rightarrow> jmap" where
  "put_bool k v m = (case v of None \<Rightarrow> m | Some b \<Rightarrow> gm_put k (JBool b) m)"

definition put_arr :: "string \<Rightarrow> json list option \<Rightarrow> jmap \<Rightarrow> jmap" where
  "put_arr k v m = (case v of Some (x # xs) \<Rightarrow> gm_put k (JArr (x # xs)) m | _ \<Rightarrow> m)"

definition put_obj :: "string \<Rightarrow> jmap option \<Rightarrow> jmap \<Rightarrow> jmap" where
  "put_obj k v m = (case v of Some (x # xs) \<Rightarrow> gm_put k (JObj (x # xs)) m | _ \<Rightarrow> m)"

definition implementation_commit :: "json \<Rightarrow> jmap option" where
  "implementation_commit raw =
     (case as_obj raw of
        None \<Rightarrow> None
      | Some component \<Rightarrow>
          (let name = jget_str component ''name'' in
           if name = [] then None
           else let info = [(''component'', JStr name)];
                    info = put_str ''branch'' (jget_str component ''branch_name'') info;
                    info = put_str ''repo'' (jget_str component ''project_path'') info;
                    info = put_str ''repo_status'' (jget_str component ''repo_status'') info;
                    info = (case jget_obj component ''mutation_outcome'' of
                        None \<Rightarrow> info
                      | Some outcome \<Rightarrow>
                          put_bool ''mutated'' (jget_bool outcome ''mutated'')
                            (put_str ''commit_sha'' (jget_str outcome ''commit_sha'') info))
                in if length info > 1 then Some info else None))"

definition collect_implementation_commits :: "jmap \<Rightarrow> jmap list" where
  "collect_implementation_commits outputs =
     (case Option.bind (jget_obj outputs ''implementation_bundle'') (\<lambda>b. jget_arr b ''components'') of
        None \<Rightarrow> [] | Some comps \<Rightarrow> List.map_filter implementation_commit comps)"

definition collect_promotion_plan :: "jmap \<Rightarrow> jmap" where
  "collect_promotion_plan outputs =
     (case jget_obj outputs ''promotion_plan'' of
        None \<Rightarrow> []
      | Some raw \<Rightarrow>
          put_arr ''issues'' (jget_arr raw ''issues'')
            (put_arr ''steps'' (jget_arr raw ''steps'')
              (put_obj ''gitops_repo'' (jget_obj raw ''gitops_repo'')
                (put_str ''summary'' (jget_str raw ''summary'')
                  (put_bool ''ready'' (jget_bool raw ''ready'')
                    (put_str ''branch'' (jget_str raw ''branch'')
                      (put_str ''environment'' (jget_str raw ''environment'') [])))))))"

definition collect_release_manifest_summary :: "jmap \<Rightarrow> jmap" where
  "collect_release_manifest_summary outputs =
     (case jget_obj outputs ''release_bundle'' of
        None \<Rightarrow> []
      | Some bundle \<Rightarrow>
          put_arr ''evidence'' (jget_arr bundle ''evidence'')
            (case jget_obj bundle ''manifest'' of
               None \<Rightarrow> []
             | Some manifest \<Rightarrow>
                 put_arr ''promotions'' (jget_arr manifest ''promotions'')
                   (put_str ''issue_id'' (jget_str manifest ''issue_id'')
                     (put_str ''run_id'' (jget_str manifest ''run_id'') []))))"

definition extract_journal_entry :: "string \<Rightarrow> jmap \<Rightarrow> jmap option" where
  "extract_journal_entry stage outputs =
     (let entry = [(''stage'', JStr stage)];
          commits = collect_implementation_commits outputs;
          entry = (if commits = [] then entry
                   else gm_put ''component_commits'' (JArr (map JObj commits)) entry);
          entry = put_obj ''promotion_plan'' (Some (collect_promotion_plan outputs)) entry;
          entry = put_obj ''release_manifest'' (Some (collect_release_manifest_summary outputs)) entry;
          entry = put_obj ''journal'' (jget_obj outputs ''journal'') entry
      in if length entry = 1 then None else Some entry)"

definition extract_report_metadata :: "jmap \<Rightarrow> jmap" where
  "extract_report_metadata outputs =
     (let m = (case jget_obj outputs ''stage_metadata'' of None \<Rightarrow> [] | Some m \<Rightarrow> m)
      in case gm_get outputs ''contract_validation'' of
           None \<Rightarrow> m | Some report \<Rightarrow> gm_put ''contract_validation'' report m)"

definition persist_pipeline_plan_evidence :: "jmap \<Rightarrow> run_request \<Rightarrow> run_request" where
  "persist_pipeline_plan_evidence outputs run =
     fold (\<lambda>key r. case gm_get outputs key of
         None \<Rightarrow> r | Some v \<Rightarrow> r\<lparr>run_metadata := meta_put key v (run_metadata r)\<rparr>)
       pipeline_plan_keys run"

definition persist_stage_commits ::
  "jmap \<Rightarrow> stage_attempt \<times> run_request \<Rightarrow> stage_attempt \<times> run_request" where
  "persist_stage_commits outputs ar =
     (let store = (\<lambda>(commit, akey, rkey) (a, r).
            if commit = [] then (a, r)
            else (a\<lparr>att_metadata := meta_put akey (JStr commit) (att_metadata a)\<rparr>,
                  r\<lparr>run_metadata := Some (append_metadata_list (ensure_metadata (run_metadata r)) rkey
                     (JStr commit))\<rparr>))
      in fold store
           [(stage_commit_from_outputs outputs ''generator_commit'' ''generator_journal'' ''commit_sha'',
             ''generator_commit'', ''generator_commits''),
            (stage_commit_from_outputs outputs ''promotion_gitops_commit'' ''promotion_commit'' ''gitops_commit'',
             ''promotion_gitops_commit'', ''promotion_commits'')] ar)"

subsection \<open>What the labels of an issue become\<close>

lemma sorted_remdups_adj:
  "sorted xs \<Longrightarrow> sorted (remdups_adj xs) \<and> distinct (remdups_adj (xs :: 'a :: linorder list))"
  by (induction xs rule: remdups_adj.induct) auto

lemma normalize_labels_set:
  "set (normalize_labels existing target) =
     {l \<in> set existing. \<not> has_prefix l ''delivery/''} \<union> set target"
  by (auto simp: normalize_labels_def simp del: has_prefix.simps)

text \<open>
  A transition of an issue leaves a sorted list of labels without repetitions: the labels
  outside the \<open>delivery/\<close> namespace and the target labels, nothing else.  In particular every
  transition of the control plane drops an approval given as the label \<open>delivery/approved\<close>.
\<close>

theorem normalize_labels_correct:
  "sorted (normalize_labels existing target) \<and> distinct (normalize_labels existing target) \<and>
   set (normalize_labels existing target) =
     {l \<in> set existing. \<not> has_prefix l ''delivery/''} \<union> set target \<and>
   normalize_labels (normalize_labels existing target) target = normalize_labels existing target \<and>
   has_label (normalize_labels existing target) ''delivery/approved'' = has_label target ''delivery/approved''"
proof -
  have s: "sorted (normalize_labels xs ys)" and d: "distinct (normalize_labels xs ys)" for xs ys
    unfolding normalize_labels_def by (simp_all add: sorted_remdups_adj)
  have i: "normalize_labels (normalize_labels existing target) target = normalize_labels existing target"
    by (rule sorted_distinct_set_unique [OF s d s d])
      (auto simp: normalize_labels_set simp del: has_prefix.simps)
  have "has_prefix ''delivery/approved'' ''delivery/''" by code_simp
  then have "has_label (normalize_labels existing target) ''delivery/approved'' = has_label target ''delivery/approved''"
    by (auto simp: has_label_def normalize_labels_set simp del: has_prefix.simps)
  with s d i show ?thesis by (simp add: normalize_labels_set del: has_prefix.simps)
qed

subsection \<open>The latest run of an issue\<close>

lemma newer_run_fold:
  "fold newer_run rs best = Some r \<Longrightarrow>
     (r \<in> set rs \<or> best = Some r) \<and> (\<forall>q \<in> set rs. run_created_at q \<le> run_created_at r) \<and>
     (\<forall>b. best = Some b \<longrightarrow> run_created_at b \<le> run_created_at r)"
proof (induction rs arbitrary: best)
  case Nil
  then show ?case by simp
next
  case (Cons q rs)
  have "fold newer_run rs (newer_run q best) = Some r" using Cons.prems by simp
  note IH = Cons.IH [OF this]
  show ?case
  proof (cases best)
    case None
    then show ?thesis using IH by (auto simp: newer_run_def)
  next
    case (Some b)
    then show ?thesis using IH by (cases "run_created_at b < run_created_at q") (auto simp: newer_run_def)
  qed
qed

lemma newer_run_fold_None: "fold newer_run rs best = None \<longleftrightarrow> rs = [] \<and> best = None"
proof (induction rs arbitrary: best)
  case (Cons q rs)
  have "newer_run q best \<noteq> None" by (simp add: newer_run_def split: option.splits)
  with Cons.IH [of "newer_run q best"] show ?case by simp
qed simp

lemma latest_run_Some:
  "latest_run_for_issue s i = Some r \<Longrightarrow>
   r \<in> snd ` set (ps_runs s) \<and> run_issue_id r = i \<and>
   (\<forall>q \<in> snd ` set (ps_runs s). run_issue_id q = i \<longrightarrow> run_created_at q \<le> run_created_at r)"
  using newer_run_fold [of "filter (\<lambda>r. run_issue_id r = i) (map snd (ps_runs s))" None r]
  by (auto simp: latest_run_for_issue_def)

lemma latest_run_None:
  "latest_run_for_issue s i = None \<longleftrightarrow> (\<forall>q \<in> snd ` set (ps_runs s). run_issue_id q \<noteq> i)"
  by (auto simp: latest_run_for_issue_def newer_run_fold_None filter_empty_conv)

subsection \<open>The statistics of a run add up\<close>

definition sum_over :: "('a \<Rightarrow> int) \<Rightarrow> 'a gomap \<Rightarrow> int" where
  "sum_over g m = sum_list (map (g \<circ> snd) m)"

lemma sum_over_put:
  assumes "gm_wf m" and "g z = 0"
  shows "sum_over g (gm_put k v m) = sum_over g m - g (gm_get_or z m k) + g v"
proof -
  have "sum_over g (gm_put k v m) = sum_over g m - (case map_of m k of None \<Rightarrow> 0 | Some w \<Rightarrow> g w) + g v"
    using assms(1)
  proof (induction m)
    case Nil
    then show ?case by (simp add: sum_over_def gm_put_def)
  next
    case (Cons p m)
    obtain k' w where p: "p = (k', w)" by fastforce
    have "gm_wf m" using Cons.prems by (simp add: gm_wf_def)
    note IH = Cons.IH [OF this]
    show ?case
      using IH by (cases "k' = k") (auto simp: p sum_over_def gm_put_def)
  qed
  then show ?thesis
    using assms(2) by (simp add: gm_get_or_def gm_get_def split: option.splits)
qed

lemma add_to_index_wf: "gm_wf idx \<Longrightarrow> gm_wf (add_to_index a idx)"
  by (simp add: add_to_index_def)

lemma index_wf: "gm_wf idx \<Longrightarrow> gm_wf (fold add_to_index as idx)"
  by (induction as arbitrary: idx) (simp_all add: add_to_index_wf)

text \<open>
  A field of the stage totals that each attempt increases adds up over the index; \<open>F\<close> is the
  identity for unbounded fields and the wrap-around for the durations.
\<close>

lemma index_sum:
  assumes wf: "gm_wf idx" and z: "\<And>n. g (zero_stage_totals n) = 0"
    and step: "\<And>x t a. F (x + g (add_attempt a t)) = F (x + g t + h a)"
  shows "F (sum_over g (fold add_to_index as idx)) = F (sum_over g idx + sum_list (map h as))"
  using wf
proof (induction as arbitrary: idx)
  case Nil
  then show ?case by simp
next
  case (Cons a as)
  let ?old = "gm_get_or (zero_stage_totals (att_stage a)) idx (att_stage a)"
  have s1: "sum_over g (add_to_index a idx) = (sum_over g idx - g ?old) + g (add_attempt a ?old)"
    unfolding add_to_index_def
    by (rule sum_over_put [where g = g and z = "zero_stage_totals (att_stage a)", OF Cons.prems z])
  have "F (sum_over g (fold add_to_index (a # as) idx)) =
      F (sum_over g (add_to_index a idx) + sum_list (map h as))"
    using Cons.IH [OF add_to_index_wf [OF Cons.prems]] by simp
  also have "\<dots> = F ((sum_over g idx - g ?old + sum_list (map h as)) + g (add_attempt a ?old))"
    by (simp add: s1 algebra_simps)
  also have "\<dots> = F ((sum_over g idx - g ?old + sum_list (map h as)) + g ?old + h a)"
    by (rule step)
  also have "\<dots> = F (sum_over g idx + sum_list (map h (a # as)))"
    by (simp add: algebra_simps)
  finally show ?case .
qed

lemma index_keys:
  "set (gm_keys (fold add_to_index as idx)) = att_stage ` set as \<union> set (gm_keys idx)"
  by (induction as arbitrary: idx) (auto simp: add_to_index_def)

lemma index_get:
  "gm_get (fold add_to_index as idx) n = (case filter (\<lambda>a. att_stage a = n) as of
      [] \<Rightarrow> gm_get idx n
    | bs \<Rightarrow> Some (fold add_attempt bs (gm_get_or (zero_stage_totals n) idx n)))"
proof (induction as arbitrary: idx)
  case Nil
  then show ?case by simp
next
  case (Cons a as)
  show ?case
  proof (cases "att_stage a = n")
    case False
    then show ?thesis
      using Cons.IH [of "add_to_index a idx"]
      by (auto simp: add_to_index_def gm_get_or_def split: list.splits)
  next
    case True
    have "gm_get_or (zero_stage_totals n) (add_to_index a idx) n =
        add_attempt a (gm_get_or (zero_stage_totals n) idx n)"
      using True by (simp add: add_to_index_def gm_get_or_def)
    moreover have "gm_get (add_to_index a idx) n = Some (add_attempt a (gm_get_or (zero_stage_totals n) idx n))"
      using True by (simp add: add_to_index_def)
    ultimately show ?thesis
      using True Cons.IH [of "add_to_index a idx"]
      by (cases "filter (\<lambda>a. att_stage a = n) as") simp_all
  qed
qed

lemma add_stage_fields:
  "rs_completed_attempts (fold add_stage idx s) = rs_completed_attempts s + sum_over stt_completed_attempts idx"
  "rs_failed_attempts (fold add_stage idx s) = rs_failed_attempts s + sum_over stt_failed_attempts idx"
  "rs_blocked_attempts (fold add_stage idx s) = rs_blocked_attempts s + sum_over stt_blocked_attempts idx"
  "rs_artifact_count (fold add_stage idx s) = rs_artifact_count s + sum_over stt_artifact_count idx"
  "rs_total_cost_usd (fold add_stage idx s) = rs_total_cost_usd s +
     sum_list (map (round_run_currency \<circ> stt_total_cost_usd \<circ> snd) idx)"
  by (induction idx arbitrary: s)
    (simp_all add: sum_over_def add_stage_def round_stage_def split_beta)

lemma add_stage_duration:
  "wrap64 (rs_total_duration_ms s) = rs_total_duration_ms s \<Longrightarrow>
   rs_total_duration_ms (fold add_stage idx s) = wrap64 (rs_total_duration_ms s + sum_over stt_duration_ms idx)"
proof (induction idx arbitrary: s)
  case Nil
  then show ?case by (simp add: sum_over_def)
next
  case (Cons p idx)
  have "rs_total_duration_ms (add_stage p s) = wrap64 (rs_total_duration_ms s + stt_duration_ms (snd p))"
    by (simp add: add_stage_def split_beta)
  moreover have "wrap64 (wrap64 x) = wrap64 x" for x
    using wrap64_add_wrap [of x 0] by simp
  ultimately show ?case
    using Cons.IH [of "add_stage p s"] wrap64_add_wrap
    by (simp add: sum_over_def add.assoc)
qed

lemma fold_add_attempt_stage:
  "stt_stage (fold add_attempt bs t) = stt_stage t \<and>
   stt_attempts (fold add_attempt bs t) = stt_attempts t + int (length bs)"
  by (induction bs arbitrary: t) (simp_all add: add_attempt_def)

definition count_status :: "string \<Rightarrow> stage_attempt list \<Rightarrow> int" where
  "count_status st as = int (length (filter (\<lambda>a. att_status a = st) as))"

lemma count_status_sum:
  "count_status st as = sum_list (map (\<lambda>a. if att_status a = st then 1 else 0) as)"
  by (induction as) (simp_all add: count_status_def)


lemma wrap64_step: "wrap64 (x + wrap64 (y + z)) = wrap64 (x + y + z)"
  using wrap64_add_wrap [of "y + z" x] by (simp add: algebra_simps)

definition run_index :: "stage_attempt list \<Rightarrow> stage_totals gomap" where
  "run_index as = fold add_to_index as []"

lemma run_index_wf: "gm_wf (run_index as)"
  by (simp add: run_index_def index_wf)

lemma run_index_sums:
  "wrap64 (sum_over stt_duration_ms (run_index as)) =
     wrap64 (sum_list (map (\<lambda>a. as_duration_ms (att_stats a)) as))"
  "sum_over stt_artifact_count (run_index as) = sum_list (map (\<lambda>a. int (length (att_artifacts a))) as)"
  "sum_over stt_completed_attempts (run_index as) = count_status AttemptStatusSucceeded as"
  "sum_over stt_failed_attempts (run_index as) = count_status AttemptStatusFailed as"
  "sum_over stt_blocked_attempts (run_index as) = count_status AttemptStatusBlocked as"
proof -
  note count = index_sum [where F = "\<lambda>x. x" and idx = "[]" and as = as]
  note defs = run_index_def zero_stage_totals_def add_attempt_def sum_over_def count_status_sum
  show "wrap64 (sum_over stt_duration_ms (run_index as)) =
     wrap64 (sum_list (map (\<lambda>a. as_duration_ms (att_stats a)) as))"
    using index_sum [where F = wrap64 and g = stt_duration_ms and idx = "[]" and as = as
        and h = "\<lambda>a. as_duration_ms (att_stats a)"]
    by (simp add: defs wrap64_step)
  show "sum_over stt_artifact_count (run_index as) = sum_list (map (\<lambda>a. int (length (att_artifacts a))) as)"
    using count [where g = stt_artifact_count and h = "\<lambda>a. int (length (att_artifacts a))"]
    by (simp add: defs)
  show "sum_over stt_completed_attempts (run_index as) = count_status AttemptStatusSucceeded as"
    using count [where g = stt_completed_attempts and
        h = "\<lambda>a. if att_status a = AttemptStatusSucceeded then 1 else 0"]
    by (simp add: defs)
  show "sum_over stt_failed_attempts (run_index as) = count_status AttemptStatusFailed as"
    using count [where g = stt_failed_attempts and
        h = "\<lambda>a. if att_status a = AttemptStatusFailed then 1 else 0"]
    by (simp add: defs)
  show "sum_over stt_blocked_attempts (run_index as) = count_status AttemptStatusBlocked as"
    using count [where g = stt_blocked_attempts and
        h = "\<lambda>a. if att_status a = AttemptStatusBlocked then 1 else 0"]
    by (simp add: defs)
qed

lemma run_index_names: "sort (gm_keys (run_index as)) = sorted_list_of_set (att_stage ` set as)"
proof (rule sorted_distinct_set_unique)
  show "sorted (sort (gm_keys (run_index as)))" "distinct (sort (gm_keys (run_index as)))"
    using run_index_wf [of as] by (simp_all add: gm_wf_def gm_keys_def)
  show "set (sort (gm_keys (run_index as))) = set (sorted_list_of_set (att_stage ` set as))"
    using index_keys [of as "[]"] by (simp add: run_index_def) (simp add: gm_keys_def)
qed simp_all

lemma run_index_stage:
  "stt_stage (round_stage (gm_get_or (zero_stage_totals n) (run_index as) n)) = n"
  "stt_attempts (round_stage (gm_get_or (zero_stage_totals n) (run_index as) n)) =
     int (length (filter (\<lambda>a. att_stage a = n) as))"
  using fold_add_attempt_stage [of "filter (\<lambda>a. att_stage a = n) as" "zero_stage_totals n"]
  by (cases "filter (\<lambda>a. att_stage a = n) as";
      simp add: run_index_def index_get gm_get_or_def round_stage_def zero_stage_totals_def)+

lemma collect_run_stats_alt:
  "collect_run_stats st rid =
     (let idx = run_index (attempts_of_run st rid); s = fold add_stage idx (zero_run_stats\<lparr>rs_currency := ''USD''\<rparr>)
      in s\<lparr>rs_stage_count := int (length (sort (gm_keys idx))),
           rs_stages := map (\<lambda>n. round_stage (gm_get_or (zero_stage_totals n) idx n)) (sort (gm_keys idx)),
           rs_total_cost_usd := round_run_currency (rs_total_cost_usd s)\<rparr>)"
  by (simp add: collect_run_stats_def run_index_def Let_def)

text \<open>
  The statistics of a run are the sums over its attempts: the durations (up to the
  wrap-around of int64), the artifacts, the attempts by outcome, and one entry per stage that has
  attempts, in the order of the names.
\<close>

theorem collect_run_stats_sums:
  "let as = attempts_of_run st rid; s = collect_run_stats st rid
   in rs_total_duration_ms s = wrap64 (sum_list (map (\<lambda>a. as_duration_ms (att_stats a)) as)) \<and>
      rs_artifact_count s = sum_list (map (\<lambda>a. int (length (att_artifacts a))) as) \<and>
      rs_completed_attempts s = count_status AttemptStatusSucceeded as \<and>
      rs_failed_attempts s = count_status AttemptStatusFailed as \<and>
      rs_blocked_attempts s = count_status AttemptStatusBlocked as \<and>
      map stt_stage (rs_stages s) = sorted_list_of_set (att_stage ` set as) \<and>
      rs_stage_count s = int (card (att_stage ` set as)) \<and>
      map stt_attempts (rs_stages s) =
        map (\<lambda>n. int (length (filter (\<lambda>a. att_stage a = n) as))) (sorted_list_of_set (att_stage ` set as))"
proof -
  let ?as = "attempts_of_run st rid"
  have len: "length (gm_keys (run_index ?as)) = card (att_stage ` set ?as)"
    using arg_cong [OF run_index_names [of ?as], of length] by simp
  have z: "wrap64 0 = 0" by (simp add: wrap64_def)
  show ?thesis
    using add_stage_duration [of "zero_run_stats\<lparr>rs_currency := ''USD''\<rparr>" "run_index ?as"] len z
    by (simp add: collect_run_stats_alt Let_def add_stage_fields zero_run_stats_def run_index_sums
        run_index_stage run_index_names o_def)
qed

subsection \<open>The rounding of the cost\<close>

lemma round_run_currency_close:
  assumes "0 \<le> v"
  shows "\<bar>round_run_currency v - v\<bar> \<le> 1 / 2000000 \<and> 0 \<le> round_run_currency v"
proof -
  define n where "n = \<lfloor>v * 1000000 + 1 / 2\<rfloor>"
  have r: "round_run_currency v = of_int n / 1000000"
    using assms by (simp add: round_run_currency_def rat_trunc_def n_def)
  have lo: "of_int n \<le> v * 1000000 + 1 / 2" and hi: "v * 1000000 + 1 / 2 < of_int n + 1"
    unfolding n_def by linarith+
  have "0 \<le> n" using assms by (simp add: n_def)
  have "of_int n / 1000000 - v \<le> 1 / 2000000" and "v - of_int n / 1000000 \<le> 1 / 2000000"
    using lo hi by (simp_all add: field_simps)
  moreover have "0 \<le> of_int n / (1000000 :: rat)" using \<open>0 \<le> n\<close> by simp
  ultimately show ?thesis unfolding r abs_le_iff by linarith
qed

lemma round_sum_close:
  "(\<And>x. x \<in> set xs \<Longrightarrow> 0 \<le> f x) \<Longrightarrow>
   \<bar>sum_list (map (round_run_currency \<circ> f) xs) - sum_list (map f xs)\<bar> \<le> of_nat (length xs) / 2000000 \<and>
   0 \<le> sum_list (map (round_run_currency \<circ> f) xs)"
proof (induction xs)
  case Nil
  then show ?case by simp
next
  case (Cons x xs)
  have IH: "\<bar>sum_list (map (round_run_currency \<circ> f) xs) - sum_list (map f xs)\<bar> \<le> of_nat (length xs) / 2000000 \<and>
      0 \<le> sum_list (map (round_run_currency \<circ> f) xs)"
    by (rule Cons.IH) (simp add: Cons.prems)
  have "0 \<le> f x" by (simp add: Cons.prems)
  note x = round_run_currency_close [OF this]
  have "of_nat (length (x # xs)) / 2000000 = of_nat (length xs) / 2000000 + (1 :: rat) / 2000000"
    by (simp add: field_simps)
  with IH x show ?case
    unfolding list.map sum_list.Cons comp_apply abs_le_iff by linarith
qed

definition exact_cost :: "stage_attempt list \<Rightarrow> rat" where
  "exact_cost as = sum_list (map (\<lambda>a. cb_total_usd (as_cost (att_stats a))) as)"

lemma sum_cost_put:
  assumes "gm_wf m" and "g z = (0 :: rat)"
  shows "sum_list (map (g \<circ> snd) (gm_put k v m)) = sum_list (map (g \<circ> snd) m) - g (gm_get_or z m k) + g v"
  using assms
proof (induction m)
  case Nil
  then show ?case by (simp add: gm_put_def gm_get_or_def)
next
  case (Cons p m)
  then show ?case
    by (cases p) (auto simp: gm_put_def gm_wf_def gm_get_or_def gm_get_def split: option.splits)
qed

lemma index_cost:
  "gm_wf idx \<Longrightarrow> sum_list (map (stt_total_cost_usd \<circ> snd) (fold add_to_index as idx)) =
     sum_list (map (stt_total_cost_usd \<circ> snd) idx) + exact_cost as"
proof (induction as arbitrary: idx)
  case Nil
  then show ?case by (simp add: exact_cost_def)
next
  case (Cons a as)
  have "sum_list (map (stt_total_cost_usd \<circ> snd) (add_to_index a idx)) =
      sum_list (map (stt_total_cost_usd \<circ> snd) idx) + cb_total_usd (as_cost (att_stats a))"
    unfolding add_to_index_def
    by (subst sum_cost_put [where z = "zero_stage_totals (att_stage a)", OF Cons.prems])
      (simp_all add: zero_stage_totals_def add_attempt_def)
  with Cons.IH [OF add_to_index_wf [OF Cons.prems], of a] show ?case
    unfolding exact_cost_def fold_simps list.map sum_list.Cons by (simp only: add.assoc)
qed

lemma index_cost_nonneg:
  assumes "list_all (\<lambda>a. 0 \<le> cb_total_usd (as_cost (att_stats a))) as"
  shows "(n, t) \<in> set (run_index as) \<Longrightarrow> 0 \<le> stt_total_cost_usd t"
proof -
  have "0 \<le> stt_total_cost_usd (fold add_attempt bs t)"
    if "list_all (\<lambda>a. 0 \<le> cb_total_usd (as_cost (att_stats a))) bs" "0 \<le> stt_total_cost_usd t" for bs t
    using that by (induction bs arbitrary: t) (simp_all add: add_attempt_def)
  from this [of "filter (\<lambda>a. att_stage a = n) as" "zero_stage_totals n"] assms
  have nonneg: "0 \<le> stt_total_cost_usd (fold add_attempt (filter (\<lambda>a. att_stage a = n) as) (zero_stage_totals n))"
    by (simp add: list_all_iff zero_stage_totals_def)
  assume "(n, t) \<in> set (run_index as)"
  then have "gm_get (run_index as) n = Some t"
    by (simp add: gm_get_wf [OF run_index_wf])
  then show "0 \<le> stt_total_cost_usd t"
    using nonneg by (cases "filter (\<lambda>a. att_stage a = n) as") (auto simp: run_index_def index_get gm_get_or_def)
qed


subsection \<open>A run with two attempts\<close>

definition sample_stats_attempt :: "string \<Rightarrow> string \<Rightarrow> int \<Rightarrow> rat \<Rightarrow> stage_attempt" where
  "sample_stats_attempt stage status ms usd = zero_stage_attempt\<lparr>att_run_id := ''run-00001'',
     att_stage := stage, att_status := status, att_stats := zero_attempt_stats\<lparr>as_duration_ms := ms,
       as_cost := as_cost zero_attempt_stats\<lparr>cb_total_usd := usd\<rparr>\<rparr>\<rparr>"

definition sample_stats_state :: persisted_state where
  "sample_stats_state = empty_state\<lparr>ps_attempts :=
     [(''attempt-00001'', sample_stats_attempt ''plan'' ''succeeded'' 20 (1 / 3)),
      (''attempt-00002'', sample_stats_attempt ''build'' ''failed'' 7 (1 / 7))]\<rparr>"


end
