(* ===== verification/Signals.thy ===== *)
theory Signals
  imports Model
begin

section \<open>Operational signals (internal/signals)\<close>

text \<open>
  The service records the events of the pipeline and derives signals from them: a failure, a
  block, a regression against recent successes, contention, a recovery.  The store is an
  interface (a record of its operations); the two stores of the source are \<open>noop_store\<close> and the
  tables \<open>pipeline_events\<close> and \<open>operational_signals\<close> of postgres.go.  Durations are int64 values
  and wrap; costs are rationals.
\<close>

record pipeline_event =
  pe_id :: int
  pe_kind :: string
  pe_run_id :: string
  pe_issue_id :: string
  pe_attempt_id :: string
  pe_stage :: string
  pe_worker_id :: string
  pe_repo_scope :: string
  pe_environment :: string
  pe_service_scope :: string
  pe_status :: string
  pe_severity :: string
  pe_summary :: string
  pe_duration_ms :: int
  pe_cost_usd :: rat
  pe_metadata :: "jmap option"
  pe_created_at :: time

record operational_signal =
  sg_id :: int
  sg_category :: string
  sg_fingerprint :: string
  sg_run_id :: string
  sg_issue_id :: string
  sg_stage :: string
  sg_repo_scope :: string
  sg_environment :: string
  sg_service_scope :: string
  sg_severity :: string
  sg_status :: string
  sg_title :: string
  sg_summary :: string
  sg_event_count :: int
  sg_last_event_at :: time
  sg_created_at :: time
  sg_updated_at :: time

record list_request =
  lq_repo_scope :: string
  lq_stage :: string
  lq_status :: string
  lq_limit :: int

text \<open>\<open>RecentEvents\<close>: kind, stage, repository, status, since, limit, excluded attempt.\<close>

record 'x signal_store =
  gs_insert_event :: "pipeline_event \<Rightarrow> ('x, pipeline_event) go"
  gs_recent_events ::
    "string \<Rightarrow> string \<Rightarrow> string \<Rightarrow> string \<Rightarrow> time \<Rightarrow> int \<Rightarrow> string \<Rightarrow> ('x, pipeline_event list) go"
  gs_count_events :: "string \<Rightarrow> string \<Rightarrow> string \<Rightarrow> time \<Rightarrow> ('x, int) go"
  gs_upsert_signal :: "operational_signal \<Rightarrow> ('x, operational_signal) go"
  gs_list_signals :: "list_request \<Rightarrow> ('x, operational_signal list) go"

subsection \<open>Synthesis\<close>

definition make_signal ::
  "pipeline_event \<Rightarrow> string \<Rightarrow> string \<Rightarrow> string \<Rightarrow> string \<Rightarrow> operational_signal" where
  "make_signal event category severity title summary =
     (let scope = (if pe_repo_scope event = [] then ''global'' else pe_repo_scope event)
      in \<lparr>sg_id = 0, sg_category = category,
          sg_fingerprint = category @ ''|'' @ scope @ ''|'' @ pe_stage event @ ''|'' @ pe_environment event,
          sg_run_id = pe_run_id event, sg_issue_id = pe_issue_id event, sg_stage = pe_stage event,
          sg_repo_scope = pe_repo_scope event, sg_environment = pe_environment event,
          sg_service_scope = pe_service_scope event, sg_severity = severity, sg_status = ''open'',
          sg_title = title, sg_summary = summary, sg_event_count = 0,
          sg_last_event_at = pe_created_at event, sg_created_at = 0, sg_updated_at = 0\<rparr>)"

definition averages :: "pipeline_event list \<Rightarrow> int \<times> rat" where
  "averages events =
     (if events = [] then (0, 0)
      else let total_duration = fold (\<lambda>e s. wrap64 (s + pe_duration_ms e)) events 0;
               total_cost = fold (\<lambda>e s. s + pe_cost_usd e) events 0
           in (go_div total_duration (int (length events)), total_cost / of_nat (length events)))"

definition second_ns :: int where
  "second_ns = 1000000000"

definition regression_signals :: "pipeline_event \<Rightarrow> pipeline_event list \<Rightarrow> operational_signal list" where
  "regression_signals event recent =
     (if length recent < 3 then []
      else let (avg_duration, avg_cost) = averages recent
           in (if avg_duration > 0 \<and> pe_duration_ms event > wrap64 (avg_duration * 2) \<and>
                  wrap64 (pe_duration_ms event - avg_duration) > 500
               then [make_signal event ''pipeline_timing_regression'' ''medium''
                 (''Stage '' @ pe_stage event @ '' timing regression detected'')
                 (''Duration rose to '' @ fmt_d (pe_duration_ms event) @ ''ms from a recent baseline of '' @
                  fmt_d avg_duration @ ''ms.'')]
               else []) @
              (if avg_cost > 0 \<and> pe_cost_usd event > avg_cost * 2 \<and> pe_cost_usd event - avg_cost > 5 / 1000
               then [make_signal event ''pipeline_cost_anomaly'' ''medium''
                 (''Stage '' @ pe_stage event @ '' cost anomaly detected'')
                 (''Cost rose to $'' @ fmt_6f (pe_cost_usd event) @ '' from a recent baseline of $'' @
                  fmt_6f avg_cost @ ''.'')]
               else []))"

definition synthesize ::
  "'x signal_store \<Rightarrow> time \<Rightarrow> pipeline_event \<Rightarrow> ('x, operational_signal list) go" where
  "synthesize st now event =
     (if pe_kind event = ''stage_completed'' then
        (if pe_status event = ''failed'' then
           m_ret [make_signal event ''pipeline_failure''
             (if pe_severity event = [] then ''medium'' else pe_severity event)
             (''Stage '' @ pe_stage event @ '' failures need triage'') (pe_summary event)]
         else if pe_status event = ''blocked'' then
           m_ret [make_signal event ''pipeline_blocked'' ''medium''
             (''Stage '' @ pe_stage event @ '' is blocked'') (pe_summary event)]
         else if pe_status event = ''succeeded'' then
           m_bind (gs_recent_events st ''stage_completed'' (pe_stage event) (pe_repo_scope event)
               ''succeeded'' (now - 7 * 24 * 3600 * second_ns) 20 (pe_attempt_id event))
             (\<lambda>recent. m_ret (regression_signals event recent))
         else m_ret [])
      else if pe_kind event = ''lock_contention'' then
        m_bind (gs_count_events st ''lock_contention'' (pe_stage event) (pe_repo_scope event)
            (now - 3600 * second_ns))
          (\<lambda>count. m_ret (if count \<ge> 3 then
             [make_signal event ''pipeline_contention_hotspot'' ''medium''
               (''Stage '' @ pe_stage event @ '' lock contention hotspot'')
               (''Lock contention occurred '' @ fmt_d count @ '' times in the last hour for '' @
                pe_repo_scope event @ ''.'')]
             else []))
      else if pe_kind event = ''stale_attempt_recovered'' then
        m_ret [make_signal event ''pipeline_stale_recovery'' ''low''
          (''Recovered stale '' @ pe_stage event @ '' attempt'') (pe_summary event)]
      else m_ret [])"

fun upsert_all ::
  "'x signal_store \<Rightarrow> operational_signal list \<Rightarrow> ('x, operational_signal list) go" where
  "upsert_all st [] = m_ret []"
| "upsert_all st (c # cs) =
     m_bind (gs_upsert_signal st c) (\<lambda>s. m_bind (upsert_all st cs) (\<lambda>ss. m_ret (s # ss)))"

definition record_pipeline_event ::
  "'x signal_store \<Rightarrow> time \<Rightarrow> pipeline_event \<Rightarrow> ('x, operational_signal list) go" where
  "record_pipeline_event st now event =
     m_bind (gs_insert_event st event) (\<lambda>stored.
       m_bind (synthesize st now stored) (upsert_all st))"

subsection \<open>The stores\<close>

text \<open>The state of the no-op store is the clock it reads.\<close>

definition noop_store :: "time signal_store" where
  "noop_store =
     \<lparr>gs_insert_event = (\<lambda>e. \<lambda>now. (Inr (if pe_created_at e = 0 then e\<lparr>pe_created_at := now\<rparr> else e), now)),
      gs_recent_events = (\<lambda>_ _ _ _ _ _ _. m_ret []),
      gs_count_events = (\<lambda>_ _ _ _. m_ret 0),
      gs_upsert_signal = (\<lambda>s. \<lambda>now.
        (Inr ((if sg_created_at s = 0 then s\<lparr>sg_created_at := now, sg_updated_at := now\<rparr> else s)
              \<lparr>sg_event_count := 1\<rparr>), now)),
      gs_list_signals = (\<lambda>_. m_ret [])\<rparr>"

record signal_db =
  sd_events :: "pipeline_event list"
  sd_signals :: "operational_signal list"
  sd_next_event :: int
  sd_next_signal :: int
  sd_app_now :: time
  sd_db_now :: time
  sd_calls :: nat
  sd_fault :: "nat \<Rightarrow> string option"

definition sd_exec :: "string \<Rightarrow> (signal_db \<Rightarrow> 'a \<times> signal_db) \<Rightarrow> (signal_db, 'a) go" where
  "sd_exec what stmt d =
     (let d' = d\<lparr>sd_calls := Suc (sd_calls d)\<rparr>
      in case sd_fault d (sd_calls d) of
           Some e \<Rightarrow> (Inl (what @ '': '' @ e), d')
         | None \<Rightarrow> (let (x, d'') = stmt d' in (Inr x, d'')))"

definition pg_insert_event :: "pipeline_event \<Rightarrow> (signal_db, pipeline_event) go" where
  "pg_insert_event event =
     sd_exec ''insert pipeline event''
       (\<lambda>d. let e1 = (if pe_created_at event = 0 then event\<lparr>pe_created_at := sd_app_now d\<rparr> else event);
                e2 = e1\<lparr>pe_id := sd_next_event d\<rparr>;
                row = e2\<lparr>pe_metadata := Some (case pe_metadata event of None \<Rightarrow> [] | Some m \<Rightarrow> m)\<rparr>
            in (e2, d\<lparr>sd_events := sd_events d @ [row], sd_next_event := sd_next_event d + 1\<rparr>))"

definition sql_limit :: "int \<Rightarrow> 'a list \<Rightarrow> 'a list" where
  "sql_limit limit xs = take (nat (if limit \<le> 0 then 20 else limit)) xs"

definition pg_recent_events ::
  "string \<Rightarrow> string \<Rightarrow> string \<Rightarrow> string \<Rightarrow> time \<Rightarrow> int \<Rightarrow> string \<Rightarrow> (signal_db, pipeline_event list) go" where
  "pg_recent_events kind stage repo status since limit excluded =
     sd_exec ''query recent events''
       (\<lambda>d. (sql_limit limit (sort_key (\<lambda>e. - pe_created_at e)
          (filter (\<lambda>e. pe_kind e = kind \<and> pe_stage e = stage \<and> pe_repo_scope e = repo \<and>
             pe_status e = status \<and> since \<le> pe_created_at e \<and> pe_attempt_id e \<noteq> excluded)
           (sd_events d))), d))"

definition pg_count_events :: "string \<Rightarrow> string \<Rightarrow> string \<Rightarrow> time \<Rightarrow> (signal_db, int) go" where
  "pg_count_events kind stage repo since =
     sd_exec ''count events''
       (\<lambda>d. (int (length (filter (\<lambda>e. pe_kind e = kind \<and> pe_stage e = stage \<and> pe_repo_scope e = repo \<and>
             since \<le> pe_created_at e) (sd_events d))), d))"

text \<open>The update of \<open>ON CONFLICT (fingerprint)\<close>; identifier, category and creation time stay.\<close>

definition merge_signal :: "time \<Rightarrow> operational_signal \<Rightarrow> operational_signal \<Rightarrow> operational_signal" where
  "merge_signal now new old =
     old\<lparr>sg_run_id := sg_run_id new, sg_issue_id := sg_issue_id new, sg_stage := sg_stage new,
         sg_repo_scope := sg_repo_scope new, sg_environment := sg_environment new,
         sg_service_scope := sg_service_scope new, sg_severity := sg_severity new,
         sg_status := sg_status new, sg_title := sg_title new, sg_summary := sg_summary new,
         sg_event_count := sg_event_count old + 1, sg_last_event_at := sg_last_event_at new,
         sg_updated_at := now\<rparr>"

definition stamp_signal :: "time \<Rightarrow> operational_signal \<Rightarrow> operational_signal" where
  "stamp_signal now g = (if sg_last_event_at g = 0 then g\<lparr>sg_last_event_at := now\<rparr> else g)"

definition new_signal :: "signal_db \<Rightarrow> operational_signal \<Rightarrow> operational_signal" where
  "new_signal d g = g\<lparr>sg_id := sd_next_signal d, sg_event_count := 1, sg_created_at := sd_db_now d,
     sg_updated_at := sd_db_now d\<rparr>"

definition pg_upsert_signal :: "operational_signal \<Rightarrow> (signal_db, operational_signal) go" where
  "pg_upsert_signal signal =
     sd_exec ''upsert signal''
       (\<lambda>d. let new = stamp_signal (sd_app_now d) signal
            in case find (\<lambda>s. sg_fingerprint s = sg_fingerprint new) (sd_signals d) of
                 None \<Rightarrow>
                   (let row = new_signal d new
                    in (row, d\<lparr>sd_signals := sd_signals d @ [row], sd_next_signal := sd_next_signal d + 1\<rparr>))
               | Some old \<Rightarrow>
                   (let row = merge_signal (sd_db_now d) new old
                    in (row, d\<lparr>sd_signals := map (\<lambda>s. if sg_fingerprint s = sg_fingerprint new then row else s)
                         (sd_signals d)\<rparr>)))"

definition pg_list_signals :: "list_request \<Rightarrow> (signal_db, operational_signal list) go" where
  "pg_list_signals req =
     sd_exec ''list signals''
       (\<lambda>d. (sql_limit (lq_limit req) (sort_key (\<lambda>s. - sg_updated_at s)
          (filter (\<lambda>s. (lq_repo_scope req = [] \<or> sg_repo_scope s = lq_repo_scope req) \<and>
             (lq_stage req = [] \<or> sg_stage s = lq_stage req) \<and>
             (lq_status req = [] \<or> sg_status s = lq_status req)) (sd_signals d))), d))"

definition postgres_store :: "signal_db signal_store" where
  "postgres_store = \<lparr>gs_insert_event = pg_insert_event, gs_recent_events = pg_recent_events,
     gs_count_events = pg_count_events, gs_upsert_signal = pg_upsert_signal,
     gs_list_signals = pg_list_signals\<rparr>"

subsection \<open>What a store promises\<close>

text \<open>
  An inserted event comes back as it was, with an identifier and a time; an upserted signal keeps
  the texts and the owner of the signal it was given.
\<close>

definition same_event :: "pipeline_event \<Rightarrow> pipeline_event \<Rightarrow> bool" where
  "same_event e e' \<longleftrightarrow>
     pe_kind e' = pe_kind e \<and> pe_run_id e' = pe_run_id e \<and> pe_issue_id e' = pe_issue_id e \<and>
     pe_attempt_id e' = pe_attempt_id e \<and> pe_stage e' = pe_stage e \<and>
     pe_repo_scope e' = pe_repo_scope e \<and> pe_environment e' = pe_environment e \<and>
     pe_service_scope e' = pe_service_scope e \<and> pe_status e' = pe_status e \<and>
     pe_severity e' = pe_severity e \<and> pe_summary e' = pe_summary e \<and>
     pe_duration_ms e' = pe_duration_ms e \<and> pe_cost_usd e' = pe_cost_usd e"

definition same_signal :: "operational_signal \<Rightarrow> operational_signal \<Rightarrow> bool" where
  "same_signal g g' \<longleftrightarrow>
     sg_fingerprint g' = sg_fingerprint g \<and> sg_run_id g' = sg_run_id g \<and>
     sg_issue_id g' = sg_issue_id g \<and> sg_stage g' = sg_stage g \<and> sg_severity g' = sg_severity g \<and>
     sg_status g' = sg_status g \<and> sg_title g' = sg_title g \<and> sg_summary g' = sg_summary g"

locale signal_source =
  fixes st :: "'x signal_store"
  assumes insert_same: "gs_insert_event st e s = (Inr e', s') \<Longrightarrow> same_event e e'"
    and upsert_same: "gs_upsert_signal st g s = (Inr g', s') \<Longrightarrow> same_signal g g'"
begin

lemma upsert_all_same: "upsert_all st gs s = (Inr gs', s') \<Longrightarrow> list_all2 same_signal gs gs'"
  by (induction gs arbitrary: s s' gs')
    (auto simp: m_defs list_all2_Cons1 split: prod.splits sum.splits dest: upsert_same)

end

text \<open>Every synthesized signal is about the run and the issue of the event.\<close>

definition about_event :: "pipeline_event \<Rightarrow> operational_signal \<Rightarrow> bool" where
  "about_event e g \<longleftrightarrow> sg_run_id g = pe_run_id e \<and> sg_issue_id g = pe_issue_id e \<and>
     sg_stage g = pe_stage e \<and> sg_status g = ''open''"

lemma make_signal_about [simp]: "about_event e (make_signal e c sev ti su)"
  by (simp add: about_event_def make_signal_def Let_def)

lemma two_alarms:
  "P x \<Longrightarrow> P y \<Longrightarrow> list_all P ((if a then [x] else []) @ (if b then [y] else [])) \<and>
     length ((if a then [x] else []) @ (if b then [y] else [])) \<le> 2"
  by simp

lemma regression_about: "list_all (about_event e) (regression_signals e recent) \<and>
    length (regression_signals e recent) \<le> 2"
proof (cases "length recent < 3")
  case True
  then show ?thesis by (simp add: regression_signals_def)
next
  case False
  obtain d c where avg: "averages recent = (d, c)" by fastforce
  show ?thesis
    unfolding regression_signals_def avg if_not_P [OF False] Let_def prod.case
    by (rule two_alarms) (rule make_signal_about)+
qed

lemma synthesize_yields:
  "yields (synthesize st now e) (\<lambda>gs. list_all (about_event e) gs \<and> length gs \<le> 2)"
  unfolding synthesize_def by (intro yields_rules) (simp_all add: regression_about)

lemmas synthesize_about = yieldsD [OF synthesize_yields]

context signal_source
begin

lemma record_about:
  assumes "record_pipeline_event st now e s = (Inr gs, s')"
  shows "list_all (about_event e) gs \<and> length gs \<le> 2"
proof -
  from assms obtain e' s1 gs0 s2 where ins: "gs_insert_event st e s = (Inr e', s1)"
    and syn: "synthesize st now e' s1 = (Inr gs0, s2)"
    and up: "upsert_all st gs0 s2 = (Inr gs, s')"
    by (auto simp: record_pipeline_event_def m_defs split: prod.splits sum.splits)
  have "about_event e g" if "about_event e' g0" "same_signal g0 g" for g0 g
    using insert_same [OF ins] that by (simp add: about_event_def same_signal_def same_event_def)
  moreover have "list_all (about_event e) gs"
    if "list_all2 same_signal gs0 gs" "list_all (about_event e') gs0"
    using that calculation by (induction gs0 gs rule: list_all2_induct) auto
  then have "list_all (about_event e) gs"
    using synthesize_about [OF syn] upsert_all_same [OF up] by blast
  moreover have "length gs \<le> 2"
    using synthesize_about [OF syn] upsert_all_same [OF up] by (auto dest: list_all2_lengthD)
  ultimately show ?thesis by blast
qed

end

interpretation noop: signal_source noop_store
proof unfold_locales
  fix e s e' s' g g'
  show "gs_insert_event noop_store e s = (Inr e', s') \<Longrightarrow> same_event e e'"
    by (auto simp: noop_store_def same_event_def split: if_splits)
  show "gs_upsert_signal noop_store g s = (Inr g', s') \<Longrightarrow> same_signal g g'"
    by (auto simp: noop_store_def same_signal_def split: if_splits)
qed

interpretation pgs: signal_source postgres_store
proof unfold_locales
  fix e s e' s' g g'
  show "gs_insert_event postgres_store e s = (Inr e', s') \<Longrightarrow> same_event e e'"
    by (auto simp: postgres_store_def pg_insert_event_def sd_exec_def same_event_def Let_def
        split: if_splits option.splits)
  show "gs_upsert_signal postgres_store g s = (Inr g', s') \<Longrightarrow> same_signal g g'"
    by (auto simp: postgres_store_def pg_upsert_signal_def sd_exec_def same_signal_def merge_signal_def
        new_signal_def stamp_signal_def Let_def find_Some_iff split: if_splits option.splits)
qed

subsection \<open>The signal table\<close>

text \<open>One row per fingerprint, identifiers below the sequence, counts at least one.\<close>

definition signals_wf :: "signal_db \<Rightarrow> bool" where
  "signals_wf d \<longleftrightarrow>
     distinct (map sg_fingerprint (sd_signals d)) \<and> distinct (map sg_id (sd_signals d)) \<and>
     (\<forall>s \<in> set (sd_signals d). 1 \<le> sg_event_count s \<and> sg_id s < sd_next_signal d)"

lemma find_fingerprint_None:
  "find (\<lambda>s. sg_fingerprint s = fp) ss = None \<longleftrightarrow> fp \<notin> set (map sg_fingerprint ss)"
  by (auto simp: find_None_iff)

lemma merge_keeps [simp]:
  "sg_fingerprint (merge_signal now new old) = sg_fingerprint old"
  "sg_id (merge_signal now new old) = sg_id old"
  "sg_event_count (merge_signal now new old) = sg_event_count old + 1"
  by (simp_all add: merge_signal_def)

lemma replace_rows:
  assumes "distinct (map sg_fingerprint ss)" and "old \<in> set ss" and "sg_fingerprint old = fp"
  shows "map f (map (\<lambda>s. if sg_fingerprint s = fp then row else s) ss) =
    map (\<lambda>s. if s = old then f row else f s) ss"
  using assms by (auto simp: distinct_map inj_on_def)

lemma new_signal_fields [simp]:
  "sg_fingerprint (new_signal d g) = sg_fingerprint g"
  "sg_id (new_signal d g) = sd_next_signal d"
  "sg_event_count (new_signal d g) = 1"
  "sg_fingerprint (stamp_signal now g) = sg_fingerprint g"
  by (simp_all add: new_signal_def stamp_signal_def)

lemma upsert_insert:
  assumes "sd_fault d (sd_calls d) = None"
    and "find (\<lambda>s. sg_fingerprint s = sg_fingerprint g) (sd_signals d) = None"
  shows "\<exists>row d'. pg_upsert_signal g d = (Inr row, d') \<and> sd_signals d' = sd_signals d @ [row] \<and>
    sd_next_signal d' = sd_next_signal d + 1 \<and> sg_fingerprint row = sg_fingerprint g \<and>
    sg_id row = sd_next_signal d \<and> sg_event_count row = 1"
  using assms by (simp add: pg_upsert_signal_def sd_exec_def Let_def)

lemma upsert_merge:
  assumes "sd_fault d (sd_calls d) = None"
    and "find (\<lambda>s. sg_fingerprint s = sg_fingerprint g) (sd_signals d) = Some old"
  shows "\<exists>row d'. pg_upsert_signal g d = (Inr row, d') \<and>
    sd_signals d' = map (\<lambda>s. if sg_fingerprint s = sg_fingerprint g then row else s) (sd_signals d) \<and>
    sd_next_signal d' = sd_next_signal d \<and> sg_fingerprint row = sg_fingerprint g \<and>
    sg_id row = sg_id old \<and> sg_event_count row = sg_event_count old + 1 \<and> old \<in> set (sd_signals d) \<and>
    sg_fingerprint old = sg_fingerprint g"
proof -
  have "old \<in> set (sd_signals d)" "sg_fingerprint old = sg_fingerprint g"
    using assms(2) by (auto simp: find_Some_iff)
  then show ?thesis
    using assms by (simp add: pg_upsert_signal_def sd_exec_def Let_def)
qed

lemma upsert_fault:
  "sd_fault d (sd_calls d) = Some e \<Longrightarrow>
   pg_upsert_signal g d = (Inl (''upsert signal: '' @ e), d\<lparr>sd_calls := Suc (sd_calls d)\<rparr>)"
  by (simp add: pg_upsert_signal_def sd_exec_def)

lemma upsert_keeps_wf: "keeps signals_wf (pg_upsert_signal g)"
proof (rule keepsI)
  fix d assume wf: "signals_wf d"
  show "signals_wf (snd (pg_upsert_signal g d))"
  proof (cases "sd_fault d (sd_calls d)")
    case (Some e)
    then show ?thesis using wf by (simp add: upsert_fault signals_wf_def)
  next
    case None
    show ?thesis
    proof (cases "find (\<lambda>s. sg_fingerprint s = sg_fingerprint g) (sd_signals d)")
      case no: None
      then have "sg_fingerprint g \<notin> set (map sg_fingerprint (sd_signals d))"
        by (simp add: find_fingerprint_None)
      then show ?thesis
        using upsert_insert [OF None no] wf unfolding signals_wf_def by fastforce
    next
      case (Some old)
      from upsert_merge [OF None this] obtain row d' where up: "pg_upsert_signal g d = (Inr row, d')"
        and rows: "sd_signals d' = map (\<lambda>s. if sg_fingerprint s = sg_fingerprint g then row else s) (sd_signals d)"
        and seq: "sd_next_signal d' = sd_next_signal d"
        and row: "sg_fingerprint row = sg_fingerprint g" "sg_id row = sg_id old"
          "sg_event_count row = sg_event_count old + 1"
        and old: "old \<in> set (sd_signals d)" "sg_fingerprint old = sg_fingerprint g"
        by blast
      have fp: "distinct (map sg_fingerprint (sd_signals d))" using wf by (simp add: signals_wf_def)
      have "map sg_fingerprint (sd_signals d') = map sg_fingerprint (sd_signals d)"
        and "map sg_id (sd_signals d') = map sg_id (sd_signals d)"
        unfolding rows replace_rows [OF fp old] by (auto simp: row old)
      moreover have "1 \<le> sg_event_count s \<and> sg_id s < sd_next_signal d"
        if "s \<in> set (sd_signals d')" for s
        using that wf old(1) unfolding rows by (fastforce simp: signals_wf_def row)
      ultimately show ?thesis
        using wf unfolding signals_wf_def up snd_conv seq by simp
    qed
  qed
qed

lemma other_statements_keep_wf:
  "keeps signals_wf (pg_insert_event e)"
  "keeps signals_wf (pg_recent_events k st r ss t l a)"
  "keeps signals_wf (pg_count_events k st r t)"
  by (rule keepsI; simp add: pg_insert_event_def pg_recent_events_def pg_count_events_def sd_exec_def
      signals_wf_def Let_def split: option.split)+

lemma upsert_all_keeps_wf: "keeps signals_wf (upsert_all postgres_store gs)"
proof (induction gs)
  case Nil
  then show ?case by (simp add: keeps_ret)
next
  case (Cons g gs)
  then show ?case
    unfolding upsert_all.simps
    by (intro keeps_rules) (simp_all add: postgres_store_def upsert_keeps_wf)
qed

text \<open>
  C18: whatever event is recorded, and whichever statement fails on the way, the signal table
  keeps one row per fingerprint, with distinct identifiers and a count of at least one.
\<close>

theorem signal_table_invariant:
  "keeps signals_wf (record_pipeline_event postgres_store now e)"
proof -
  have syn: "keeps signals_wf (synthesize postgres_store now e')" for e'
    unfolding synthesize_def
    by (intro keeps_rules) (simp_all add: postgres_store_def other_statements_keep_wf)
  show ?thesis
    unfolding record_pipeline_event_def
    by (intro keeps_bind syn upsert_all_keeps_wf)
      (simp add: postgres_store_def other_statements_keep_wf)
qed

text \<open>
  A completed stage that failed raises exactly one signal, open, for the run and the issue
  of the event, with the severity of the event or medium, on either store; a repetition of the
  event is counted on the same row of the table.
\<close>

theorem failure_signal:
  assumes "pe_kind e = ''stage_completed''" and "pe_status e = ''failed''"
    and "record_pipeline_event postgres_store now e d = (Inr gs, d')"
  shows "\<exists>g. gs = [g] \<and> about_event e g \<and>
    sg_severity g = (if pe_severity e = [] then ''medium'' else pe_severity e) \<and>
    sg_fingerprint g = ''pipeline_failure|'' @
      (if pe_repo_scope e = [] then ''global'' else pe_repo_scope e) @ ''|'' @ pe_stage e @ ''|'' @
      pe_environment e \<and>
    sg_event_count g = (case find (\<lambda>s. sg_fingerprint s = sg_fingerprint g) (sd_signals d) of
      None \<Rightarrow> 1 | Some old \<Rightarrow> sg_event_count old + 1) \<and> g \<in> set (sd_signals d')"
proof -
  define fp where "fp = ''pipeline_failure|'' @
    (if pe_repo_scope e = [] then ''global'' else pe_repo_scope e) @ ''|'' @ pe_stage e @ ''|'' @
    pe_environment e"
  from assms(3) obtain e' d1 gs0 d2 where ins: "pg_insert_event e d = (Inr e', d1)"
    and syn: "synthesize postgres_store now e' d1 = (Inr gs0, d2)"
    and up: "upsert_all postgres_store gs0 d2 = (Inr gs, d')"
    by (auto simp: record_pipeline_event_def m_defs postgres_store_def split: prod.splits sum.splits)
  have same: "same_event e e'"
    using ins by (rule pgs.insert_same [unfolded postgres_store_def, simplified])
  have d1: "sd_signals d1 = sd_signals d"
    using ins by (auto simp: pg_insert_event_def sd_exec_def Let_def split: option.splits)
  define g0 where "g0 = make_signal e' ''pipeline_failure''
    (if pe_severity e' = [] then ''medium'' else pe_severity e')
    (''Stage '' @ pe_stage e' @ '' failures need triage'') (pe_summary e')"
  have gs0: "gs0 = [g0]" "d2 = d1"
    using syn assms(1,2) same
    by (simp_all add: synthesize_def same_event_def m_ret_def g0_def)
  then obtain g where g: "pg_upsert_signal g0 d1 = (Inr g, d')" "gs = [g]"
    using up by (auto simp: m_defs postgres_store_def split: prod.splits sum.splits)
  have g0: "about_event e g0" "sg_fingerprint g0 = fp"
    "sg_severity g0 = (if pe_severity e = [] then ''medium'' else pe_severity e)"
    using same
    by (simp_all add: g0_def make_signal_def about_event_def same_event_def fp_def Let_def)
  have "same_signal g0 g"
    using g(1) by (rule pgs.upsert_same [unfolded postgres_store_def, simplified])
  moreover have "sg_event_count g = (case find (\<lambda>s. sg_fingerprint s = fp) (sd_signals d) of
      None \<Rightarrow> 1 | Some old \<Rightarrow> sg_event_count old + 1) \<and> g \<in> set (sd_signals d')"
  proof (cases "find (\<lambda>s. sg_fingerprint s = fp) (sd_signals d)")
    case None
    have "sd_fault d1 (sd_calls d1) = None"
      using g(1) by (cases "sd_fault d1 (sd_calls d1)") (simp_all add: upsert_fault)
    then show ?thesis
      using upsert_insert [of d1 g0] g(1) None g0(2) d1 by auto
  next
    case (Some old)
    have "sd_fault d1 (sd_calls d1) = None"
      using g(1) by (cases "sd_fault d1 (sd_calls d1)") (simp_all add: upsert_fault)
    then show ?thesis
      using upsert_merge [of d1 g0 old] g(1) Some g0(2) d1 by auto
  qed
  ultimately show ?thesis
    unfolding fp_def [symmetric] using g(2) g0 by (simp add: same_signal_def about_event_def)
qed

subsection \<open>The baseline does not overflow\<close>

lemma fold_plus: "fold (\<lambda>e s. s + f e) xs (a::int) = a + sum_list (map f xs)"
  by (induction xs arbitrary: a) auto

lemma fold_wrap: "fold (\<lambda>e s. wrap64 (s + f e)) xs 0 = wrap64 (sum_list (map f xs))"
proof -
  have "fold (\<lambda>e s. wrap64 (s + f e)) xs s = fold (\<lambda>x s. wrap64 (s + x)) (map f xs) s" for s
    by (induction xs arbitrary: s) auto
  then show ?thesis
    using wrap64_fold [of "map f xs" 0] by (simp add: wrap64_def)
qed

lemma sum_list_bound: "\<forall>x \<in> set xs. 0 \<le> f x \<and> f x \<le> (b::int) \<Longrightarrow>
    0 \<le> sum_list (map f xs) \<and> sum_list (map f xs) \<le> b * int (length xs)"
  by (induction xs) (auto simp: algebra_simps intro: add_mono order_trans)

text \<open>
  With durations between 0 and two years in milliseconds and at most 20 recent events, as
  \<open>synthesize\<close> requests, the int64 arithmetic of the timing check is exact: the regression signal
  is raised exactly when there are three recent successes, and the duration is more than twice
  and over half a second above their average, rounded down.
\<close>

theorem timing_regression_exact:
  assumes "length recent \<le> 20" and "\<forall>r \<in> set (e # recent). 0 \<le> pe_duration_ms r \<and> pe_duration_ms r \<le> 2 ^ 36"
  shows "list_ex (\<lambda>g. sg_category g = ''pipeline_timing_regression'') (regression_signals e recent) \<longleftrightarrow>
    3 \<le> length recent \<and>
    (let avg = sum_list (map pe_duration_ms recent) div int (length recent)
     in 0 < avg \<and> 2 * avg < pe_duration_ms e \<and> 500 < pe_duration_ms e - avg)"
proof (cases "3 \<le> length recent")
  case False
  then show ?thesis by (simp add: regression_signals_def)
next
  case True
  let ?sum = "sum_list (map pe_duration_ms recent)"
  let ?n = "int (length recent)"
  have sum: "0 \<le> ?sum" "?sum \<le> 2 ^ 36 * ?n"
    using sum_list_bound [of recent pe_duration_ms "2 ^ 36"] assms(2) by auto
  have n: "3 \<le> ?n" "?n \<le> 20" using True assms(1) by auto
  then have "?sum \<le> 2 ^ 36 * 20" by (intro order_trans [OF sum(2)]) simp
  then have "wrap64 ?sum = ?sum"
    using sum(1) by (intro wrap64_id) (simp add: int64_def)
  then have avg: "fst (averages recent) = ?sum div ?n"
    using True sum(1) n
    by (auto simp: averages_def Let_def fold_wrap go_div_def sgn_if)
  let ?a = "?sum div ?n"
  have "0 < ?n" using n by linarith
  then have a0: "0 \<le> ?a" using sum(1) by (simp only: pos_imp_zdiv_nonneg_iff)
  have "?a \<le> ?sum div 1" by (rule zdiv_mono2) (use sum n in auto)
  then have a: "0 \<le> ?a" "?a \<le> 2 ^ 36 * 20"
    using a0 \<open>?sum \<le> 2 ^ 36 * 20\<close> by simp_all
  have e: "0 \<le> pe_duration_ms e" "pe_duration_ms e \<le> 2 ^ 36"
    using assms(2) by auto
  have w: "wrap64 (?a * 2) = ?a * 2" "wrap64 (pe_duration_ms e - ?a) = pe_duration_ms e - ?a"
    using a e by (auto intro!: wrap64_id simp: int64_def)
  show ?thesis
    using True avg w
    by (cases "averages recent") (auto simp: regression_signals_def Let_def make_signal_def)
qed

subsection \<open>A failing stage, recorded twice\<close>

definition sample_event :: "string \<Rightarrow> int \<Rightarrow> pipeline_event" where
  "sample_event status ms = \<lparr>pe_id = 0, pe_kind = ''stage_completed'', pe_run_id = ''run-00001'',
     pe_issue_id = ''issue-1'', pe_attempt_id = ''attempt-00001'', pe_stage = ''test'',
     pe_worker_id = ''w1'', pe_repo_scope = ''group/app'', pe_environment = [],
     pe_service_scope = ''app'', pe_status = status, pe_severity = [], pe_summary = ''done'',
     pe_duration_ms = ms, pe_cost_usd = 0, pe_metadata = None, pe_created_at = 5\<rparr>"

definition sample_signal_db :: signal_db where
  "sample_signal_db = \<lparr>sd_events = [], sd_signals = [], sd_next_event = 1, sd_next_signal = 1,
     sd_app_now = 10, sd_db_now = 10, sd_calls = 0, sd_fault = (\<lambda>_. None)\<rparr>"

definition sample_recorded :: "(string + operational_signal list) \<times> signal_db" where
  "sample_recorded = record_pipeline_event postgres_store 10 (sample_event ''failed'' 100)
     (snd (record_pipeline_event postgres_store 10 (sample_event ''failed'' 100) sample_signal_db))"

lemma sample_recorded_count:
  "(case fst sample_recorded of Inr [g] \<Rightarrow> sg_event_count g = 2 | _ \<Rightarrow> False)"
  by code_simp

lemma failure_signal_witness:
  "\<exists>g. fst sample_recorded = Inr [g] \<and> sg_severity g = ''medium'' \<and> g \<in> set (sd_signals (snd sample_recorded))"
proof -
  obtain gs where gs: "fst sample_recorded = Inr gs"
    using sample_recorded_count by (cases "fst sample_recorded") auto
  then have "record_pipeline_event postgres_store 10 (sample_event ''failed'' 100)
      (snd (record_pipeline_event postgres_store 10 (sample_event ''failed'' 100) sample_signal_db)) =
      (Inr gs, snd sample_recorded)"
    by (simp add: sample_recorded_def prod_eq_iff)
  from failure_signal [OF _ _ this] show ?thesis
    using gs by (auto simp: sample_event_def)
qed

lemma timing_regression_exact_witness:
  "list_ex (\<lambda>g. sg_category g = ''pipeline_timing_regression'')
     (regression_signals (sample_event ''succeeded'' 3000)
       [sample_event ''succeeded'' 1000, sample_event ''succeeded'' 1100, sample_event ''succeeded'' 900])"
  by (subst timing_regression_exact) (simp_all add: sample_event_def)

end
