(* ===== verification/ControlPlane.thy ===== *)
theory ControlPlane
  imports Pipeline Components Locks Signals RunRecords
begin

section \<open>The control plane (internal/controlplane/service.go)\<close>

text \<open>
  Every handler of the control plane is an update of the persisted state in one transaction of
  the store (\<open>Store.Save\<close>), with calls to the outside in between: GitLab, the lock manager, the
  signal service, the work-order journal on disk and git.  A handler here is a function on a
  \<open>world\<close>: the persisted state and the state \<open>'x\<close> of everything outside.  A failed transaction
  leaves the persisted state as it was and keeps what happened outside.  The outside is the record
  \<open>service\<close>, one field per external operation the source calls.
\<close>

record 'x world =
  w_state :: persisted_state
  w_ext :: 'x

datatype file_content =
    FC_json json
  | FC_work_order work_order
  | FC_report stage_report

datatype dir_listing =
    Dir_entries "(string \<times> bool) list"
  | Dir_missing
  | Dir_error string

text \<open>
  \<open>sv_write_file\<close> and \<open>sv_read_plan\<close> are \<open>contracts.WriteFile\<close> and \<open>contracts.ReadFile\<close> (path,
  schema); \<open>sv_git\<close> is a git command in a directory; \<open>sv_decode\<close> is \<open>json.Unmarshal\<close>;
  \<open>sv_read_state\<close> and \<open>sv_write_state\<close> are the file operations of the store, which may fail.
\<close>

record 'x service =
  sv_now :: "'x \<Rightarrow> time \<times> 'x"
  sv_list_issues :: "('x, delivery_issue list) go"
  sv_append_comment :: "string \<Rightarrow> string \<Rightarrow> ('x, unit) go"
  sv_set_labels :: "string \<Rightarrow> string list \<Rightarrow> ('x, unit) go"
  sv_locker :: "'x manager"
  sv_record_event :: "pipeline_event \<Rightarrow> ('x, operational_signal list) go"
  sv_specs :: "stage_spec gomap"
  sv_work_order_repo :: string
  sv_read_plan :: "string \<Rightarrow> string \<Rightarrow> ('x, pipeline_execution_plan) go"
  sv_write_file :: "string \<Rightarrow> string \<Rightarrow> file_content \<Rightarrow> ('x, unit) go"
  sv_write_text :: "string \<Rightarrow> string \<Rightarrow> ('x, unit) go"
  sv_mkdir_all :: "string \<Rightarrow> ('x, unit) go"
  sv_stat :: "string \<Rightarrow> 'x \<Rightarrow> stat_result \<times> 'x"
  sv_read_dir :: "string \<Rightarrow> 'x \<Rightarrow> dir_listing \<times> 'x"
  sv_git :: "string \<Rightarrow> string list \<Rightarrow> ('x, string) go"
  sv_decode :: "string \<Rightarrow> string + json"
  sv_read_state :: "('x, unit) go"
  sv_write_state :: "('x, unit) go"

subsection \<open>Transactions\<close>

definition on_state :: "(persisted_state, 'a) go \<Rightarrow> ('x world, 'a) go" where
  "on_state m w = (case m (w_state w) of (r, s) \<Rightarrow> (r, w\<lparr>w_state := s\<rparr>))"

definition on_ext :: "('x, 'a) go \<Rightarrow> ('x world, 'a) go" where
  "on_ext m w = (case m (w_ext w) of (r, x) \<Rightarrow> (r, w\<lparr>w_ext := x\<rparr>))"

text \<open>An external call that cannot fail.\<close>

definition ask_ext :: "('x \<Rightarrow> 'a \<times> 'x) \<Rightarrow> ('x world, 'a) go" where
  "ask_ext f = on_ext (\<lambda>x. case f x of (a, x') \<Rightarrow> (Inr a, x'))"

definition get_state :: "('x world, persisted_state) go" where
  "get_state = m_gets w_state"

definition save :: "'x service \<Rightarrow> ('x world, 'a) go \<Rightarrow> ('x world, 'a) go" where
  "save sv update w =
     (case on_ext (sv_read_state sv) w of
        (Inl e, w1) \<Rightarrow> (Inl e, w1)
      | (Inr _, w1) \<Rightarrow>
          (case update w1 of
             (Inl e, w2) \<Rightarrow> (Inl e, w2\<lparr>w_state := w_state w\<rparr>)
           | (Inr r, w2) \<Rightarrow>
               (case on_ext (sv_write_state sv) w2 of
                  (Inl e, w3) \<Rightarrow> (Inl e, w3\<lparr>w_state := w_state w\<rparr>)
                | (Inr _, w3) \<Rightarrow> (Inr r, w3))))"

definition put_issue :: "string \<Rightarrow> tracked_issue \<Rightarrow> ('x world, unit) go" where
  "put_issue k t = on_state (m_modify (\<lambda>s. s\<lparr>ps_issues := gm_put k t (ps_issues s)\<rparr>))"

definition put_run :: "run_request \<Rightarrow> ('x world, unit) go" where
  "put_run r = on_state (m_modify (\<lambda>s. s\<lparr>ps_runs := gm_put (run_id r) r (ps_runs s)\<rparr>))"

definition put_attempt :: "string \<Rightarrow> stage_attempt \<Rightarrow> ('x world, unit) go" where
  "put_attempt k a = on_state (m_modify (\<lambda>s. s\<lparr>ps_attempts := gm_put k a (ps_attempts s)\<rparr>))"

subsection \<open>Issues: enqueueing, comments and labels\<close>

definition track_issue :: "delivery_issue \<Rightarrow> persisted_state \<Rightarrow> persisted_state" where
  "track_issue i s =
     s\<lparr>ps_issues := gm_put (di_id i)
       (case gm_get (ps_issues s) (di_id i) of
          Some t \<Rightarrow> t\<lparr>ti_issue := i\<rparr>
        | None \<Rightarrow> \<lparr>ti_issue = i, ti_comments = []\<rparr>) (ps_issues s)\<rparr>"

definition enqueue_from_gitlab :: "'x service \<Rightarrow> ('x world, unit) go" where
  "enqueue_from_gitlab sv =
     m_bind (on_ext (sv_list_issues sv)) (\<lambda>issues.
       save sv (on_state (m_modify (fold track_issue issues))))"

text \<open>The comment number, the comment and its issue, in one update of the state.\<close>

definition add_comment :: "string \<Rightarrow> string \<Rightarrow> time \<Rightarrow> (persisted_state, unit) go" where
  "add_comment issue_id body now =
     m_bind (next_id ''comment'') (\<lambda>cid. m_modify (\<lambda>s.
       let issue = gm_get_or zero_tracked_issue (ps_issues s) issue_id;
           comment = \<lparr>ico_id = cid, ico_issue_id = issue_id, ico_body = body, ico_created_at = now\<rparr>
       in s\<lparr>ps_issues := gm_put issue_id (issue\<lparr>ti_comments := ti_comments issue @ [comment]\<rparr>)
              (ps_issues s)\<rparr>))"

definition record_comment :: "'x service \<Rightarrow> string \<Rightarrow> string \<Rightarrow> ('x world, unit) go" where
  "record_comment sv issue_id body =
     m_bind (ask_ext (sv_now sv)) (\<lambda>now.
       m_then (on_state (add_comment issue_id body now)) (on_ext (sv_append_comment sv issue_id body)))"

definition relabel :: "delivery_issue \<Rightarrow> string list \<Rightarrow> persisted_state \<Rightarrow> persisted_state" where
  "relabel issue labels s =
     s\<lparr>ps_issues := gm_put (di_id issue)
       \<lparr>ti_issue = issue\<lparr>di_labels := normalize_labels (di_labels issue) labels\<rparr>,
        ti_comments = ti_comments (gm_get_or zero_tracked_issue (ps_issues s) (di_id issue))\<rparr>
       (ps_issues s)\<rparr>"

definition transition_issue ::
  "'x service \<Rightarrow> delivery_issue \<Rightarrow> string list \<Rightarrow> string \<Rightarrow> ('x world, unit) go" where
  "transition_issue sv issue labels comment =
     m_then (on_state (m_modify (relabel issue labels)))
       (m_then (on_ext (sv_set_labels sv (di_id issue) (normalize_labels (di_labels issue) labels)))
          (record_comment sv (di_id issue) comment))"

definition comment_issue :: "'x service \<Rightarrow> string \<Rightarrow> string \<Rightarrow> ('x world, unit) go" where
  "comment_issue sv issue_id body = save sv (record_comment sv issue_id body)"

definition comment_signal :: "'x service \<Rightarrow> operational_signal \<Rightarrow> ('x world, unit) go" where
  "comment_signal sv g =
     (if sg_issue_id g = [] then m_ret ()
      else comment_issue sv (sg_issue_id g)
        (''Signal `'' @ sg_category g @ ''` ('' @ sg_severity g @ ''): '' @ sg_summary g))"

definition emit_signals :: "'x service \<Rightarrow> pipeline_event \<Rightarrow> ('x world, unit) go" where
  "emit_signals sv event =
     m_bind (on_ext (sv_record_event sv event)) (m_iter (comment_signal sv))"

definition snapshot :: "'x service \<Rightarrow> ('x world, persisted_state) go" where
  "snapshot sv = m_bind (on_ext (sv_read_state sv)) (\<lambda>_. get_state)"

subsection \<open>The work-order journal\<close>

definition must_rel :: "string \<Rightarrow> string \<Rightarrow> string" where
  "must_rel base path = (case path_rel base path of Some r \<Rightarrow> r | None \<Rightarrow> path_base path)"

definition git :: "'x service \<Rightarrow> string \<Rightarrow> string list \<Rightarrow> ('x world, string) go" where
  "git sv msg args = m_wrap msg (on_ext (sv_git sv (sv_work_order_repo sv) args))"

definition git_do :: "'x service \<Rightarrow> string \<Rightarrow> string list \<Rightarrow> ('x world, unit) go" where
  "git_do sv msg args = m_bind (git sv msg args) (\<lambda>_. m_ret ())"

text \<open>A commit of what was staged, if the status of the paths shows a change.\<close>

definition commit_if_changed ::
  "'x service \<Rightarrow> string \<Rightarrow> string list \<Rightarrow> string \<Rightarrow> string \<Rightarrow> ('x world, unit) go" where
  "commit_if_changed sv status_msg paths commit_msg text =
     m_bind (git sv status_msg ([''status'', ''--porcelain'', ''--''] @ paths)) (\<lambda>st.
       if trim_space st \<noteq> [] then git_do sv commit_msg [''commit'', ''-m'', text] else m_ret ())"

definition ensure_work_order_repo :: "'x service \<Rightarrow> ('x world, unit) go" where
  "ensure_work_order_repo sv =
     (let repo = sv_work_order_repo sv
      in if repo = [] then m_ret ()
         else m_then (m_wrap ''create work order dir'' (on_ext (sv_mkdir_all sv repo)))
           (m_bind (ask_ext (sv_stat sv (path_join [repo, ''.git'']))) (\<lambda>st.
              case st of
                Stat_found \<Rightarrow> m_ret ()
              | Stat_error e \<Rightarrow> m_err (''stat work order git dir: '' @ e)
              | Stat_missing \<Rightarrow>
                  m_then (git_do sv ''init work order repo'' [''init'', ''--initial-branch=main''])
                  (m_then (git_do sv ''configure work order user'' [''config'', ''user.name'', ''autodev-workorder''])
                  (m_then (git_do sv ''configure work order email''
                     [''config'', ''user.email'', ''autodev.workorder@example.com''])
                  (m_then (m_wrap ''write work order readme'' (on_ext (sv_write_text sv (path_join [repo, ''README.md''])
                     (''# Work-order journal'' @ [CHR 0x0A, CHR 0x0A] @
                      ''Work orders are recorded here for auditing.'' @ [CHR 0x0A]))))
                  (m_then (git_do sv ''stage work order readme'' [''add'', ''README.md''])
                     (git_do sv ''commit work order readme''
                        [''commit'', ''-m'', ''Initialize work-order journal'']))))))))"

text \<open>The head of the journal after a commit.\<close>

definition journal_head :: "'x service \<Rightarrow> string \<Rightarrow> ('x world, string) go" where
  "journal_head sv msg =
     m_bind (git sv msg [''rev-parse'', ''HEAD'']) (\<lambda>sha. m_ret (trim_space sha))"

definition persist_work_order :: "'x service \<Rightarrow> run_request \<Rightarrow> ('x world, string) go" where
  "persist_work_order sv run =
     (if sv_work_order_repo sv = [] then m_ret []
      else
        (let file = path_join [sv_work_order_repo sv, work_order_relative_path run];
             rel = must_rel (sv_work_order_repo sv) file
         in m_then (ensure_work_order_repo sv)
           (m_then (m_wrap ''write work order'' (on_ext (sv_write_file sv file [] (FC_work_order (run_work_order run)))))
           (m_then (git_do sv ''stage work order'' [''add'', rel])
           (m_then (commit_if_changed sv ''work order status'' [rel] ''commit work order'' (''work order '' @ run_id run))
              (journal_head sv ''work order HEAD''))))))"

text \<open>\<open>pipelinePlanForRun\<close>: a missing or unreadable plan, or one without stages, is no plan.\<close>

definition pipeline_plan_for_run ::
  "'x service \<Rightarrow> run_request \<Rightarrow> ('x world, pipeline_execution_plan option) go" where
  "pipeline_plan_for_run sv run =
     (if sv_work_order_repo sv = [] then m_ret None
      else (case gm_get (pipeline_artifact_paths run) ''pipeline_execution_plan'' of
          None \<Rightarrow> m_ret None
        | Some rel \<Rightarrow>
            if rel = [] then m_ret None
            else m_bind (m_try (on_ext (sv_read_plan sv (path_join [sv_work_order_repo sv, rel])
                 ''pipeline-execution-plan.schema.json'')))
               (\<lambda>r. m_ret (case r of
                  Inl _ \<Rightarrow> None
                | Inr plan \<Rightarrow> if pep_stages plan = [] then None else Some plan))))"


definition journal_schema :: "string \<Rightarrow> string" where
  "journal_schema path = (if path_base path = ''report.json'' then ''stage-report.schema.json'' else [])"

definition write_pretty :: "'x service \<Rightarrow> string \<Rightarrow> file_content \<Rightarrow> ('x world, unit) go" where
  "write_pretty sv path content =
     m_wrap (''write '' @ path) (on_ext (sv_write_file sv path (journal_schema path) content))"

definition jopt :: "json option \<Rightarrow> json" where
  "jopt v = (case v of None \<Rightarrow> JNull | Some j \<Rightarrow> j)"

definition jtime :: "time option \<Rightarrow> json" where
  "jtime v = (case v of None \<Rightarrow> JNull | Some t \<Rightarrow> JTime t)"

definition read_dir :: "'x service \<Rightarrow> string \<Rightarrow> ('x world, dir_listing) go" where
  "read_dir sv dir = ask_ext (sv_read_dir sv dir)"

definition attempt_paths :: "string \<Rightarrow> string \<Rightarrow> string \<Rightarrow> (string \<times> bool) list \<Rightarrow> json" where
  "attempt_paths repo stage_root stage entries =
     JArr (map (\<lambda>name.
         let base = path_join [stage_root, stage, name]
         in JObj [(''attempt_dir'', JStr name),
                  (''summary'', JStr (must_rel repo (path_join [base, ''summary.json'']))),
                  (''report'', JStr (must_rel repo (path_join [base, ''report.json''])))])
       (sort (map fst (filter snd entries))))"

definition stage_reports ::
  "'x service \<Rightarrow> string \<Rightarrow> (string \<times> bool) list \<Rightarrow> ('x world, jmap) go" where
  "stage_reports sv stage_root entries =
     m_fold (\<lambda>(stage, is_dir) reports.
         if \<not> is_dir then m_ret reports
         else m_bind (read_dir sv (path_join [stage_root, stage])) (\<lambda>d.
           case d of
             Dir_missing \<Rightarrow> m_err (''read stage attempts for '' @ stage @ '': file does not exist'')
           | Dir_error e \<Rightarrow> m_err (''read stage attempts for '' @ stage @ '': '' @ e)
           | Dir_entries attempts \<Rightarrow>
               m_ret (gm_put stage (attempt_paths (sv_work_order_repo sv) stage_root stage attempts) reports)))
       entries []"

definition run_index_of ::
  "'x service \<Rightarrow> run_request \<Rightarrow> string \<Rightarrow> time \<Rightarrow> jmap \<Rightarrow> json" where
  "run_index_of sv run work_order_path now reports =
     JObj [(''run_id'', JStr (run_id run)), (''issue_id'', JStr (run_issue_id run)),
       (''work_order_id'', JStr (canonical_work_order_id run)),
       (''work_order'', JStr (must_rel (sv_work_order_repo sv) work_order_path)),
       (''components'', jstrs (ordered_selected_component_names (run_delivery_target run))),
       (''run_status'', JStr (run_status run)), (''updated_at'', JTime now),
       (''stage_reports'', JObj reports),
       (''release'', jopt (meta_get (run_metadata run) ''last_journal'')),
       (''generator_commits'', jopt (meta_get (run_metadata run) ''generator_commits'')),
       (''promotion_commits'', jopt (meta_get (run_metadata run) ''promotion_commits'')),
       (''pipeline_artifacts'', JObj (map (\<lambda>(k, p). (k, JStr p)) (pipeline_artifact_paths run)))]"

definition build_run_index ::
  "'x service \<Rightarrow> run_request \<Rightarrow> string \<Rightarrow> string \<Rightarrow> ('x world, json) go" where
  "build_run_index sv run work_order_path run_dir =
     (let stage_root = path_join [run_dir, ''stages'']
      in m_bind (ask_ext (sv_now sv)) (\<lambda>now.
         m_bind (read_dir sv stage_root) (\<lambda>d.
           case d of
             Dir_error e \<Rightarrow> m_err (''read stage report dir: '' @ e)
           | Dir_missing \<Rightarrow> m_ret (run_index_of sv run work_order_path now [])
           | Dir_entries entries \<Rightarrow>
               m_bind (stage_reports sv stage_root entries) (\<lambda>reports.
                 m_ret (run_index_of sv run work_order_path now reports)))))"

definition journal_paths :: "'x service \<Rightarrow> run_request \<Rightarrow> string \<times> string" where
  "journal_paths sv run =
     (path_join [sv_work_order_repo sv, work_order_relative_path run],
      path_join [sv_work_order_repo sv, run_relative_dir run])"

definition persist_run_index :: "'x service \<Rightarrow> run_request \<Rightarrow> ('x world, string) go" where
  "persist_run_index sv run =
     (if sv_work_order_repo sv = [] then m_ret []
      else
        (let (work_order_path, run_dir) = journal_paths sv run;
             index_path = path_join [run_dir, ''index.json''];
             rel = must_rel (sv_work_order_repo sv) index_path
         in m_then (ensure_work_order_repo sv)
           (m_then (m_wrap ''create run index dir'' (on_ext (sv_mkdir_all sv run_dir)))
           (m_bind (build_run_index sv run work_order_path run_dir) (\<lambda>index.
              m_then (write_pretty sv index_path (FC_json index))
              (m_then (git_do sv ''stage run index add'' [''add'', rel])
              (m_then (commit_if_changed sv ''stage run index status'' [rel] ''commit run index''
                 (''run '' @ run_id run @ '' index update''))
                 (journal_head sv ''run index HEAD''))))))))"

definition decode_outputs :: "'x service \<Rightarrow> string \<Rightarrow> json" where
  "decode_outputs sv raw =
     (if raw = [] then JObj []
      else (case sv_decode sv raw of Inr j \<Rightarrow> j | Inl _ \<Rightarrow> JObj [(''raw'', JStr raw)]))"

definition report_summary :: "run_request \<Rightarrow> stage_attempt \<Rightarrow> stage_result \<Rightarrow> json" where
  "report_summary run attempt result =
     JObj [(''run_id'', JStr (run_id run)), (''issue_id'', JStr (run_issue_id run)),
       (''work_order_id'', JStr (canonical_work_order_id run)), (''stage'', JStr (att_stage attempt)),
       (''attempt'', JNum (of_int (att_attempt attempt))), (''status'', JStr (att_status attempt)),
       (''summary'', JStr (sres_summary result)), (''finished_at'', jtime (att_finished_at attempt))]"

definition report_of ::
  "run_request \<Rightarrow> stage_attempt \<Rightarrow> stage_result \<Rightarrow> artifact_ref list \<Rightarrow> json \<Rightarrow> time \<Rightarrow> stage_report" where
  "report_of run attempt result artifacts outputs now =
     \<lparr>srep_schema_version = ''autodev-stage-report-v1'', srep_run_id = run_id run,
      srep_issue_id = run_issue_id run, srep_stage = att_stage attempt,
      srep_attempt = att_attempt attempt, srep_status = att_status attempt,
      srep_summary = sres_summary result, srep_stats = sres_stats result,
      srep_artifacts = artifacts, srep_outputs = outputs,
      srep_metadata = Some [(''worker_id'', JStr (att_worker_id attempt)),
        (''work_order_id'', JStr (canonical_work_order_id run))],
      srep_started_at = att_started_at attempt, srep_finished_at = att_finished_at attempt,
      srep_created_at = now\<rparr>"

text \<open>The journal entry of a report: what \<open>persistStageReport\<close> returns.\<close>

definition journal_entry ::
  "'x service \<Rightarrow> run_request \<Rightarrow> stage_attempt \<Rightarrow> string \<Rightarrow> string \<Rightarrow> string \<Rightarrow> string \<Rightarrow> jmap" where
  "journal_entry sv run attempt index summary report sha =
     [(''repository'', JStr (path_base (sv_work_order_repo sv))),
      (''work_order'', JStr (must_rel (sv_work_order_repo sv) (fst (journal_paths sv run)))),
      (''index'', JStr index), (''summary'', JStr summary), (''report'', JStr report),
      (''commit_sha'', JStr sha), (''stage'', JStr (att_stage attempt)),
      (''attempt_number'', JNum (of_int (att_attempt attempt)))]"

definition persist_stage_report ::
  "'x service \<Rightarrow> run_request \<Rightarrow> stage_attempt \<Rightarrow> stage_result \<Rightarrow> artifact_ref list \<Rightarrow>
   ('x world, jmap option) go" where
  "persist_stage_report sv run attempt result artifacts =
     (if sv_work_order_repo sv = [] then m_ret None
      else
        (let repo = sv_work_order_repo sv;
             (work_order_path, run_dir) = journal_paths sv run;
             attempt_dir = path_join [run_dir, ''stages'', att_stage attempt, attempt_dir_name (att_attempt attempt)];
             outputs = decode_outputs sv (sres_outputs result);
             summary_file = path_join [attempt_dir, ''summary.json''];
             report_file = path_join [attempt_dir, ''report.json''];
             index_file = path_join [run_dir, ''index.json''];
             rel_summary = must_rel repo summary_file; rel_report = must_rel repo report_file;
             rel_index = must_rel repo index_file
         in m_then (ensure_work_order_repo sv)
           (m_then (m_wrap ''create stage report dir'' (on_ext (sv_mkdir_all sv attempt_dir)))
           (m_bind (ask_ext (sv_now sv)) (\<lambda>now.
            m_then (write_pretty sv summary_file (FC_json (report_summary run attempt result)))
           (m_then (write_pretty sv report_file (FC_report (report_of run attempt result artifacts outputs now)))
           (m_bind (case outputs of
                JObj m \<Rightarrow> on_ext (write_pipeline_artifacts (\<lambda>p s v. sv_write_file sv p s (FC_json v)) repo run m)
              | _ \<Rightarrow> m_ret []) (\<lambda>plan_files.
            m_bind (build_run_index sv run work_order_path run_dir) (\<lambda>index.
            m_then (write_pretty sv index_file (FC_json index))
           (m_then (git_do sv ''stage work-order git add'' ([''add'', rel_summary, rel_report, rel_index] @ plan_files))
           (m_then (commit_if_changed sv ''stage work-order status'' ([rel_summary, rel_report, rel_index] @ plan_files)
                ''commit stage report''
                (''run '' @ run_id run @ '' stage '' @ att_stage attempt @ '' attempt '' @ fmt_0d 2 (att_attempt attempt)))
           (m_bind (journal_head sv ''stage work-order HEAD'') (\<lambda>sha.
              m_ret (Some (journal_entry sv run attempt rel_index rel_summary rel_report sha)))))))))))))))"

subsection \<open>Reconciliation\<close>

definition new_attempt :: "string \<Rightarrow> run_request \<Rightarrow> stage_spec \<Rightarrow> int \<Rightarrow> json gomap \<Rightarrow> stage_attempt" where
  "new_attempt aid run spec number metadata = zero_stage_attempt\<lparr>att_id := aid,
     att_run_id := run_id run, att_stage := ss_name spec, att_attempt := number,
     att_status := AttemptStatusPending, att_metadata := Some metadata\<rparr>"

text \<open>The identifier, the attempt and its place in the state.\<close>

definition create_attempt ::
  "run_request \<Rightarrow> stage_spec \<Rightarrow> int \<Rightarrow> json gomap \<Rightarrow> (persisted_state, stage_attempt) go" where
  "create_attempt run spec number metadata =
     m_bind (next_id ''attempt'') (\<lambda>aid.
       let a = new_attempt aid run spec number metadata
       in m_bind (m_modify (\<lambda>s. s\<lparr>ps_attempts := gm_put aid a (ps_attempts s)\<rparr>)) (\<lambda>_. m_ret a))"

definition queue_triggered ::
  "'x service \<Rightarrow> string \<Rightarrow> run_request \<Rightarrow> stage_spec \<Rightarrow> stage_attempt gomap \<Rightarrow>
   ('x world, stage_attempt gomap) go" where
  "queue_triggered sv issue_id run spec by_stage =
     m_bind (on_state (create_attempt run spec 1 [(''queue_mode'', JStr (queue_mode spec))])) (\<lambda>a.
       m_bind (record_comment sv issue_id
           (''Triggered stage `'' @ ss_name spec @ ''` queued as `'' @ att_id a @ ''`.''))
         (\<lambda>_. m_ret (gm_put (ss_name spec) a by_stage)))"

definition queue_runnable ::
  "'x service \<Rightarrow> string \<Rightarrow> run_request \<Rightarrow> stage_spec \<Rightarrow> stage_attempt gomap \<Rightarrow>
   ('x world, stage_attempt gomap) go" where
  "queue_runnable sv issue_id run spec by_stage =
     m_bind (ask_ext (sv_now sv)) (\<lambda>now. m_bind get_state (\<lambda>s.
       if running_count now s (ss_name spec) \<ge> max (ss_max_parallelism spec) 1 then m_ret by_stage
       else m_bind (on_state (create_attempt run spec (next_attempt_number by_stage (ss_name spec))
                [(''timeout_seconds'', JNum (of_int (ss_timeout_seconds spec)))])) (\<lambda>a.
            m_bind (record_comment sv issue_id
                (''Stage `'' @ ss_name spec @ ''` queued as `'' @ att_id a @ ''`.''))
              (\<lambda>_. m_ret (gm_put (ss_name spec) a by_stage)))))"

definition announce_status ::
  "'x service \<Rightarrow> delivery_issue \<Rightarrow> string \<Rightarrow> ('x world, unit) go" where
  "announce_status sv issue status =
     (if status = RunStatusAwaitingApproval then
        transition_issue sv issue [IssueLabelAwaitingApproval]
          ''Run is awaiting production GitOps promotion approval.''
      else if status = RunStatusCompleted then
        transition_issue sv issue [IssueLabelCompleted] ''Run completed successfully.''
      else if status = RunStatusFailed then
        transition_issue sv issue [IssueLabelFailed] ''Run failed. Review stage artifacts and retry.''
      else transition_issue sv issue [IssueLabelActive] ''Run remains active.'')"

text \<open>An issue takes part in the reconciliation.\<close>

definition reconcilable :: "string \<Rightarrow> string \<Rightarrow> tracked_issue \<Rightarrow> bool" where
  "reconcilable issue_filter issue_id tracked \<longleftrightarrow>
     \<not> (issue_filter \<noteq> [] \<and> issue_id \<noteq> issue_filter) \<and>
     (has_label (di_labels (ti_issue tracked)) IssueLabelRequested \<or>
      has_label (di_labels (ti_issue tracked)) IssueLabelActive \<or>
      has_label (di_labels (ti_issue tracked)) IssueLabelAwaitingApproval)"

definition issue_approved :: "tracked_issue \<Rightarrow> bool" where
  "issue_approved tracked \<longleftrightarrow> ag_approved (di_approval (ti_issue tracked)) \<or>
     has_label (di_labels (ti_issue tracked)) ''delivery/approved''"

definition missing_plan :: "run_request \<Rightarrow> string" where
  "missing_plan run = ''run '' @ run_id run @ '' missing materialized pipeline execution plan''"

definition advance_run ::
  "'x service \<Rightarrow> string \<Rightarrow> tracked_issue \<Rightarrow> run_request \<Rightarrow> stage_attempt gomap \<Rightarrow>
   pipeline_execution_plan \<Rightarrow> ('x world, unit) go" where
  "advance_run sv issue_id tracked run by_stage plan =
     (let approved = issue_approved tracked; eval = evaluate (Some plan) run by_stage approved
      in m_bind (m_fold (queue_triggered sv issue_id run) (ev_triggered eval) by_stage) (\<lambda>bs.
         m_bind (m_fold (queue_runnable sv issue_id run) (ev_runnable eval) bs) (\<lambda>_.
         m_bind get_state (\<lambda>s. m_bind (ask_ext (sv_now sv)) (\<lambda>now.
           (let status = ev_status (evaluate (Some plan) run (attempts_by_stage s (run_id run)) approved);
                run' = run\<lparr>run_status := status, run_updated_at := now\<rparr>
            in m_then (put_run run')
              (m_then (announce_status sv (ti_issue tracked) status)
                 (m_bind (persist_run_index sv run') (\<lambda>_. m_ret ())))))))))"

definition reconcile_issue :: "'x service \<Rightarrow> string \<Rightarrow> string \<Rightarrow> ('x world, unit) go" where
  "reconcile_issue sv issue_filter issue_id =
     m_bind get_state (\<lambda>s.
       case gm_get (ps_issues s) issue_id of
         None \<Rightarrow> m_ret ()
       | Some tracked \<Rightarrow>
           if \<not> reconcilable issue_filter issue_id tracked then m_ret ()
           else (case latest_run_for_issue s issue_id of
               None \<Rightarrow> m_ret ()
             | Some run \<Rightarrow>
                 m_bind (pipeline_plan_for_run sv run) (\<lambda>p.
                   case p of
                     None \<Rightarrow> m_err (missing_plan run)
                   | Some plan \<Rightarrow>
                       advance_run sv issue_id tracked run (attempts_by_stage s (run_id run)) plan)))"

text \<open>The keys are those at the start of the loop; the value of an issue is read at its turn.\<close>

definition reconcile :: "'x service \<Rightarrow> string \<Rightarrow> ('x world, unit) go" where
  "reconcile sv issue_filter =
     save sv (m_bind get_state (\<lambda>s. m_iter (reconcile_issue sv issue_filter) (gm_keys (ps_issues s))))"

subsection \<open>Runs\<close>

definition new_run :: "string \<Rightarrow> string \<Rightarrow> work_order \<Rightarrow> time \<Rightarrow> run_request" where
  "new_run rid issue_id wo now = zero_run_request\<lparr>run_id := rid, run_issue_id := issue_id,
     run_work_order := wo, run_pipeline_template := wo_pipeline_template wo,
     run_target := wo_delivery wo, run_status := RunStatusPending, run_created_at := now,
     run_updated_at := now\<rparr>"

definition create_run :: "'x service \<Rightarrow> string \<Rightarrow> tracked_issue \<Rightarrow> ('x world, run_request) go" where
  "create_run sv issue_id tracked =
     m_bind (ask_ext (sv_now sv)) (\<lambda>now.
     m_bind (on_state (next_id ''run'')) (\<lambda>rid.
       (let run = new_run rid issue_id (di_work_order (ti_issue tracked)) now
        in m_bind (persist_work_order sv run) (\<lambda>commit.
             (let run' = (if commit \<noteq> [] then run\<lparr>run_metadata := meta_put ''work_order_commit'' (JStr commit)
                            (run_metadata run)\<rparr> else run)
              in m_bind (put_run run') (\<lambda>_. m_ret run'))))))"

definition ensure_run_for_issue :: "'x service \<Rightarrow> string \<Rightarrow> ('x world, run_request) go" where
  "ensure_run_for_issue sv issue_id =
     save sv (m_bind get_state (\<lambda>s.
       case gm_get (ps_issues s) issue_id of
         None \<Rightarrow> m_err (''issue '' @ issue_id @ '' is not tracked'')
       | Some tracked \<Rightarrow>
           (case latest_run_for_issue s issue_id of
              Some run \<Rightarrow> if \<not> run_status_terminal (run_status run) then m_ret run
                          else create_run sv issue_id tracked
            | None \<Rightarrow> create_run sv issue_id tracked)))"

definition persist_pipeline_artifacts ::
  "'x service \<Rightarrow> string \<Rightarrow> jmap \<Rightarrow> ('x world, run_request) go" where
  "persist_pipeline_artifacts sv rid outputs =
     (if outputs = [] then m_err ''persist pipeline artifacts requires outputs''
      else save sv (m_bind get_state (\<lambda>s.
        case gm_get (ps_runs s) rid of
          None \<Rightarrow> m_err (''run '' @ rid @ '' not found'')
        | Some run \<Rightarrow>
            if sv_work_order_repo sv = [] then
              m_err ''work order repo is required to persist pipeline artifacts''
            else m_then (ensure_work_order_repo sv)
              (m_bind (on_ext (write_pipeline_artifacts (\<lambda>p s v. sv_write_file sv p s (FC_json v))
                   (sv_work_order_repo sv) run outputs)) (\<lambda>written.
               m_then (if written = [] then m_ret ()
                       else m_then (git_do sv ''stage work-order git add'' (''add'' # written))
                         (commit_if_changed sv ''pipeline artifact status'' written
                            ''commit pipeline artifacts'' (''run '' @ run_id run @ '' materialize pipeline'')))
                 (m_bind (ask_ext (sv_now sv)) (\<lambda>now.
                    (let run' = (persist_pipeline_plan_evidence outputs run)\<lparr>run_updated_at := now\<rparr>
                     in m_then (put_run run')
                       (m_bind (persist_run_index sv run') (\<lambda>_. m_ret run'))))))))))"

subsection \<open>Claiming an attempt\<close>

definition event_of :: "string \<Rightarrow> run_request \<Rightarrow> stage_attempt \<Rightarrow> stage_spec \<Rightarrow> string \<Rightarrow> string \<Rightarrow> pipeline_event" where
  "event_of kind run a spec severity summary = \<lparr>pe_id = 0, pe_kind = kind, pe_run_id = run_id run,
     pe_issue_id = run_issue_id run, pe_attempt_id = att_id a, pe_stage = att_stage a,
     pe_worker_id = [], pe_repo_scope = repo_scope run, pe_environment = spec_environment spec,
     pe_service_scope = service_scope run, pe_status = [], pe_severity = severity,
     pe_summary = summary, pe_duration_ms = 0, pe_cost_usd = 0, pe_metadata = None, pe_created_at = 0\<rparr>"

definition contention_event ::
  "run_request \<Rightarrow> stage_attempt \<Rightarrow> stage_spec \<Rightarrow> string \<Rightarrow> pipeline_event" where
  "contention_event run a spec worker =
     (event_of ''lock_contention'' run a spec ''medium''
        (''Stage '' @ att_stage a @ '' could not acquire required locks.''))
     \<lparr>pe_worker_id := worker, pe_metadata := Some [(''lock_keys'', jstrs (keys_for_stage run spec))]\<rparr>"

definition start_attempt :: "stage_attempt \<Rightarrow> string \<Rightarrow> int \<Rightarrow> time \<Rightarrow> string list \<Rightarrow> stage_attempt" where
  "start_attempt a worker lease now keys =
     a\<lparr>att_status := AttemptStatusRunning, att_worker_id := worker, att_started_at := Some now,
       att_last_heartbeat := Some now, att_lease_expires_at := Some (now + lease),
       att_metadata := (if keys \<noteq> [] then meta_put ''lock_keys'' (jstrs keys) (att_metadata a)
                        else Some (ensure_metadata (att_metadata a)))\<rparr>"

definition claimable ::
  "string list \<Rightarrow> string \<Rightarrow> run_request \<Rightarrow> stage_attempt \<Rightarrow> bool" where
  "claimable allowed issue_id run a \<longleftrightarrow>
     \<not> (allowed \<noteq> [] \<and> att_stage a \<notin> set allowed) \<and>
     \<not> (issue_id \<noteq> [] \<and> run_issue_id run \<noteq> issue_id) \<and>
     \<not> (run_status run = RunStatusFailed \<or> run_status run = RunStatusCompleted)"

fun claim_loop ::
  "'x service \<Rightarrow> string \<Rightarrow> int \<Rightarrow> string list \<Rightarrow> string \<Rightarrow> time \<Rightarrow> string list \<Rightarrow> pipeline_event list \<Rightarrow>
   ('x world, (stage_attempt \<times> stage_spec) option \<times> pipeline_event list) go" where
  "claim_loop sv worker lease allowed issue_id now [] events = m_ret (None, events)"
| "claim_loop sv worker lease allowed issue_id now (aid # rest) events =
     m_bind get_state (\<lambda>s.
       let a = gm_get_or zero_stage_attempt (ps_attempts s) aid;
           run = gm_get_or zero_run_request (ps_runs s) (att_run_id a)
       in if \<not> claimable allowed issue_id run a
          then claim_loop sv worker lease allowed issue_id now rest events
          else m_bind (pipeline_plan_for_run sv run) (\<lambda>p.
            case p of
              None \<Rightarrow> m_err (missing_plan run)
            | Some plan \<Rightarrow>
                (case gm_get (plan_specs_map (Some plan)) (att_stage a) of
                   None \<Rightarrow> m_err (''run '' @ run_id run @ '' pipeline plan missing stage '' @ att_stage a)
                 | Some spec \<Rightarrow>
                     m_bind (on_ext (acquire_locks (sv_locker sv) run a spec worker lease)) (\<lambda>keys.
                       if keys = [] \<and> keys_for_stage run spec \<noteq> [] then
                         claim_loop sv worker lease allowed issue_id now rest
                           (events @ [contention_event run a spec worker])
                       else
                         (let a' = start_attempt a worker lease now keys
                          in m_then (put_attempt aid a')
                            (m_then (record_comment sv (run_issue_id run)
                               (''Stage `'' @ att_stage a @ ''` started on worker `'' @ worker @ ''`.''))
                               (m_ret (Some (a', spec), events))))))))"

definition pending_ids :: "persisted_state \<Rightarrow> string list" where
  "pending_ids s =
     sort (map fst (filter (\<lambda>(_, a). att_status a = AttemptStatusPending) (ps_attempts s)))"

definition claim_update ::
  "'x service \<Rightarrow> string \<Rightarrow> int \<Rightarrow> string list \<Rightarrow> string \<Rightarrow>
   ('x world, (stage_attempt \<times> stage_spec) option \<times> pipeline_event list) go" where
  "claim_update sv worker lease allowed issue_id =
     m_bind (ask_ext (sv_now sv)) (\<lambda>now. m_bind get_state (\<lambda>s.
       claim_loop sv worker lease allowed issue_id now (pending_ids s) []))"

definition claim_next ::
  "'x service \<Rightarrow> string \<Rightarrow> int \<Rightarrow> string list \<Rightarrow> string \<Rightarrow>
   ('x world, (stage_attempt \<times> stage_spec) option) go" where
  "claim_next sv worker lease allowed issue_id =
     m_bind (save sv (claim_update sv worker lease allowed issue_id)) (\<lambda>(claimed, events).
       m_then (m_iter (emit_signals sv) events) (m_ret claimed))"

subsection \<open>Heartbeats\<close>

text \<open>\<open>copyAnyMap\<close> copies decoded JSON through its encoding, which gives the same value.\<close>

definition put_stage_state :: "string \<Rightarrow> jmap \<Rightarrow> run_request \<Rightarrow> run_request" where
  "put_stage_state stage st run =
     (let states = (case meta_obj (run_metadata run) ''current_stage_states'' of None \<Rightarrow> [] | Some m \<Rightarrow> m)
      in run\<lparr>run_metadata := meta_put ''current_stage_states'' (JObj (gm_put stage (JObj st) states))
           (run_metadata run)\<rparr>)"

definition beat_attempt :: "stage_attempt \<Rightarrow> int \<Rightarrow> string \<Rightarrow> jmap \<Rightarrow> time \<Rightarrow> stage_attempt" where
  "beat_attempt a lease summary metadata now =
     a\<lparr>att_last_heartbeat := Some now, att_lease_expires_at := Some (now + lease),
       att_metadata :=
         (let m = meta_put ''runtime_summary'' (JStr (trim_space summary)) (att_metadata a)
          in if metadata \<noteq> [] then meta_put ''runtime_state'' (JObj metadata) m else m)\<rparr>"

definition beat_state :: "stage_attempt \<Rightarrow> int \<Rightarrow> string \<Rightarrow> jmap \<Rightarrow> time \<Rightarrow> jmap" where
  "beat_state a lease summary metadata now =
     [(''attempt_id'', JStr (att_id a)), (''attempt_number'', JNum (of_int (att_attempt a))),
      (''status'', JStr (att_status a)), (''summary'', JStr (trim_space summary)),
      (''last_heartbeat'', JTime now), (''lease_expires_at'', JTime (now + lease))] @
     (if metadata \<noteq> [] then [(''runtime_state'', JObj metadata)] else [])"

definition heartbeat ::
  "'x service \<Rightarrow> string \<Rightarrow> int \<Rightarrow> string \<Rightarrow> jmap \<Rightarrow> ('x world, unit) go" where
  "heartbeat sv attempt_id lease summary metadata =
     save sv (m_bind get_state (\<lambda>s.
       case gm_get (ps_attempts s) attempt_id of
         None \<Rightarrow> m_err (''attempt '' @ attempt_id @ '' not found'')
       | Some a \<Rightarrow>
           m_bind (ask_ext (sv_now sv)) (\<lambda>now.
             m_then (on_ext (refresh_locks (sv_locker sv) a lease))
             (m_then (put_attempt attempt_id (beat_attempt a lease summary metadata now))
                (put_run ((put_stage_state (att_stage a) (beat_state a lease summary metadata now)
                   (gm_get_or zero_run_request (ps_runs s) (att_run_id a)))\<lparr>run_updated_at := now\<rparr>))))))"

subsection \<open>Completing an attempt\<close>

definition final_status :: "string \<Rightarrow> string" where
  "final_status reported =
     (if reported = AttemptStatusSucceeded then AttemptStatusSucceeded
      else if reported = AttemptStatusBlocked then AttemptStatusBlocked
      else AttemptStatusFailed)"

definition finish_attempt ::
  "stage_attempt \<Rightarrow> stage_result \<Rightarrow> artifact_ref list \<Rightarrow> time \<Rightarrow> stage_attempt" where
  "finish_attempt a result artifacts now =
     a\<lparr>att_result := Some result, att_stats := sres_stats result, att_artifacts := artifacts,
       att_finished_at := Some now, att_lease_expires_at := None,
       att_status := final_status (sres_status result)\<rparr>"

text \<open>The outputs when they decode to an object.\<close>

definition result_outputs :: "'x service \<Rightarrow> stage_result \<Rightarrow> jmap option" where
  "result_outputs sv result =
     (if sres_outputs result = [] then None
      else (case sv_decode sv (sres_outputs result) of Inl _ \<Rightarrow> None | Inr j \<Rightarrow> as_obj j))"

definition journal_outputs ::
  "jmap option \<Rightarrow> stage_attempt \<times> run_request \<Rightarrow> stage_attempt \<times> run_request" where
  "journal_outputs outputs ar =
     (case outputs of
        None \<Rightarrow> ar
      | Some o' \<Rightarrow>
          (let (a, r) =
             (case extract_journal_entry (att_stage (fst ar)) o' of
                None \<Rightarrow> ar
              | Some e \<Rightarrow>
                  ((fst ar)\<lparr>att_metadata := meta_put ''journal_entry'' (JObj e) (att_metadata (fst ar))\<rparr>,
                   (snd ar)\<lparr>run_metadata := Some (append_journal_history
                      (gm_put ''last_journal'' (JObj e) (ensure_metadata (run_metadata (snd ar)))) e)\<rparr>))
           in persist_stage_commits o' (a, persist_pipeline_plan_evidence o' r)))"

definition finish_state :: "stage_attempt \<Rightarrow> stage_result \<Rightarrow> jmap option \<Rightarrow> time \<Rightarrow> jmap" where
  "finish_state a result outputs now =
     [(''attempt_id'', JStr (att_id a)), (''attempt_number'', JNum (of_int (att_attempt a))),
      (''status'', JStr (att_status a)), (''summary'', JStr (sres_summary result)),
      (''finished_at'', JTime now), (''last_heartbeat'', jtime (att_last_heartbeat a)),
      (''lease_expires_at'', jtime (att_lease_expires_at a))] @
     (case outputs of
        None \<Rightarrow> []
      | Some o' \<Rightarrow> (let m = extract_report_metadata o' in if m = [] then [] else [(''runtime_state'', JObj m)]))"

definition record_outcome ::
  "stage_result \<Rightarrow> jmap option \<Rightarrow> time \<Rightarrow> stage_attempt \<times> run_request \<Rightarrow> stage_attempt \<times> run_request" where
  "record_outcome result outputs now ar =
     (let (a, r) = journal_outputs outputs ar;
          a = a\<lparr>att_metadata := meta_delete ''runtime_summary''
                 (meta_delete ''runtime_state'' (att_metadata a))\<rparr>
      in (a, put_stage_state (att_stage a) (finish_state a result outputs now) r))"

definition attach_report ::
  "jmap option \<Rightarrow> stage_attempt \<times> run_request \<Rightarrow> stage_attempt \<times> run_request" where
  "attach_report entry ar =
     (case entry of
        None \<Rightarrow> ar
      | Some e \<Rightarrow>
          ((fst ar)\<lparr>att_metadata := meta_put ''stage_report'' (JObj e) (att_metadata (fst ar))\<rparr>,
           (snd ar)\<lparr>run_metadata := meta_put ''run_index'' (jopt (gm_get e ''index''))
              (run_metadata (snd ar))\<rparr>))"

definition completion_event ::
  "'x service \<Rightarrow> run_request \<Rightarrow> stage_attempt \<Rightarrow> stage_result \<Rightarrow> artifact_ref list \<Rightarrow> pipeline_event" where
  "completion_event sv run a result artifacts =
     (let spec = gm_get_or zero_stage_spec (sv_specs sv) (att_stage a)
      in (event_of ''stage_completed'' run a spec (severity_for_attempt (att_status a) spec) (sres_summary result))
         \<lparr>pe_worker_id := att_worker_id a, pe_status := att_status a,
          pe_duration_ms := as_duration_ms (sres_stats result),
          pe_cost_usd := cb_total_usd (as_cost (sres_stats result)),
          pe_metadata := Some [(''artifact_count'', JNum (of_nat (length artifacts))),
            (''substages'', JArr (map (\<lambda>t. JObj [(''name'', JStr (sst_name t)),
               (''duration_ms'', JNum (of_int (sst_duration_ms t)))]) (as_substages (sres_stats result))))]\<rparr>)"

definition completion_comment :: "stage_attempt \<Rightarrow> stage_result \<Rightarrow> string" where
  "completion_comment a result =
     ''Stage `'' @ att_stage a @ ''` completed with status `'' @ att_status a @ ''`: '' @
     sres_summary result @ '' Cost: $'' @ fmt_6f (cb_total_usd (as_cost (sres_stats result))) @
     ''. Duration: '' @ fmt_d (as_duration_ms (sres_stats result)) @ ''ms.''"

definition complete_update ::
  "'x service \<Rightarrow> string \<Rightarrow> stage_result \<Rightarrow> artifact_ref list \<Rightarrow> ('x world, pipeline_event) go" where
  "complete_update sv attempt_id result artifacts =
     m_bind get_state (\<lambda>s.
       case gm_get (ps_attempts s) attempt_id of
         None \<Rightarrow> m_err (''attempt '' @ attempt_id @ '' not found'')
       | Some a0 \<Rightarrow>
           m_bind (ask_ext (sv_now sv)) (\<lambda>now.
             (let a1 = finish_attempt a0 result artifacts now;
                  outputs = result_outputs sv result;
                  ar = record_outcome result outputs now
                    (a1, gm_get_or zero_run_request (ps_runs s) (att_run_id a1))
              in m_then (on_ext (release_locks (sv_locker sv) a1))
                (m_bind (persist_stage_report sv (snd ar) (fst ar) result artifacts) (\<lambda>entry.
                  (let (a, r) = attach_report entry ar
                   in m_then (put_attempt attempt_id a)
                     (m_bind get_state (\<lambda>s'.
                       (let run = r\<lparr>run_stats_of := collect_run_stats s' (run_id r), run_updated_at := now\<rparr>
                        in m_then (put_run run)
                          (m_then (record_comment sv (run_issue_id run) (completion_comment a result))
                             (m_ret (completion_event sv run a result artifacts))))))))))))"

definition complete ::
  "'x service \<Rightarrow> string \<Rightarrow> stage_result \<Rightarrow> artifact_ref list \<Rightarrow> ('x world, unit) go" where
  "complete sv attempt_id result artifacts =
     m_bind (save sv (complete_update sv attempt_id result artifacts)) (emit_signals sv)"

subsection \<open>Recovery of stuck attempts\<close>

definition stuck :: "int \<Rightarrow> time \<Rightarrow> stage_attempt \<Rightarrow> bool" where
  "stuck max_age now a \<longleftrightarrow> att_status a = AttemptStatusRunning \<and>
     (case att_lease_expires_at a of None \<Rightarrow> False | Some t \<Rightarrow> \<not> now < t + max_age)"

definition requeue_attempt :: "stage_attempt \<Rightarrow> stage_attempt" where
  "requeue_attempt a = a\<lparr>att_status := AttemptStatusPending, att_worker_id := [], att_lease_expires_at := None\<rparr>"

definition recover_attempt ::
  "'x service \<Rightarrow> int \<Rightarrow> time \<Rightarrow> string \<Rightarrow> pipeline_event list \<Rightarrow> ('x world, pipeline_event list) go" where
  "recover_attempt sv max_age now aid events =
     m_bind get_state (\<lambda>s.
       let a = gm_get_or zero_stage_attempt (ps_attempts s) aid
       in if \<not> stuck max_age now a then m_ret events
          else
            (let a' = requeue_attempt a
             in m_then (on_ext (release_locks (sv_locker sv) a'))
               (m_then (put_attempt aid a')
                  (let run = gm_get_or zero_run_request (ps_runs s) (att_run_id a);
                       spec = gm_get_or zero_stage_spec (sv_specs sv) (att_stage a)
                   in m_then (record_comment sv (run_issue_id run)
                        (''Recovered stale stage `'' @ att_stage a @ ''` back to pending.''))
                      (m_ret (events @ [event_of ''stale_attempt_recovered'' run a' spec ''low''
                         (''Recovered stale stage '' @ att_stage a @ '' back to pending.'')]))))))"

definition recover_stuck_runs :: "'x service \<Rightarrow> int \<Rightarrow> ('x world, unit) go" where
  "recover_stuck_runs sv max_age =
     m_bind (save sv (m_bind (ask_ext (sv_now sv)) (\<lambda>now. m_bind get_state (\<lambda>s.
         m_fold (recover_attempt sv max_age now) (gm_keys (ps_attempts s)) []))))
       (m_iter (emit_signals sv))"

end
