(* ===== verification/ControlPlaneInv.thy ===== *)
theory ControlPlaneInv
  imports ControlPlane "HOL-Library.Sublist"
begin

section \<open>The invariant and the history of the control plane\<close>

text \<open>
  \<open>cp_inv\<close> is the well-formedness of the persisted state that every handler keeps; \<open>evolves\<close> is
  what the state may do over time: issues, runs and attempts stay, comments only grow, a finished
  attempt stays finished.  A handler reads the state, talks to the outside and writes: the triple
  for it is stated relative to the state it read (\<open>since\<close>), because what it relies on (an entry is
  there, an attempt was finished) cannot be undone in between.
\<close>

subsection \<open>Definitions\<close>

definition counter_of :: "persisted_state \<Rightarrow> string \<Rightarrow> int" where
  "counter_of s p = gm_get_or 0 (ps_counters s) p"

definition numbered :: "persisted_state \<Rightarrow> string \<Rightarrow> string \<Rightarrow> bool" where
  "numbered s p k \<longleftrightarrow> (\<exists>n. 1 \<le> n \<and> n \<le> counter_of s p \<and> k = id_of p n)"

definition finished :: "stage_attempt \<Rightarrow> bool" where
  "finished a \<longleftrightarrow> att_status a = AttemptStatusSucceeded \<or> att_status a = AttemptStatusFailed \<or>
     att_status a = AttemptStatusBlocked"

definition tracked :: "persisted_state \<Rightarrow> string \<Rightarrow> bool" where
  "tracked s k \<longleftrightarrow> gm_get (ps_issues s) k \<noteq> None"

definition known_run :: "persisted_state \<Rightarrow> string \<Rightarrow> bool" where
  "known_run s k \<longleftrightarrow> gm_get (ps_runs s) k \<noteq> None"

definition attempt_ok :: "persisted_state \<Rightarrow> string \<Rightarrow> stage_attempt \<Rightarrow> bool" where
  "attempt_ok s k a \<longleftrightarrow> att_id a = k \<and> numbered s ''attempt'' k \<and> known_run s (att_run_id a) \<and>
     (finished a \<or> att_status a = AttemptStatusPending \<or> att_status a = AttemptStatusRunning) \<and>
     (att_status a = AttemptStatusRunning \<longrightarrow> att_lease_expires_at a \<noteq> None) \<and>
     (finished a \<longrightarrow> att_finished_at a \<noteq> None \<and> att_result a \<noteq> None)"

definition run_statuses :: "string set" where
  "run_statuses = {RunStatusPending, RunStatusActive, RunStatusAwaitingApproval, RunStatusCompleted,
     RunStatusFailed}"

definition run_ok :: "persisted_state \<Rightarrow> string \<Rightarrow> run_request \<Rightarrow> bool" where
  "run_ok s k r \<longleftrightarrow> run_id r = k \<and> numbered s ''run'' k \<and> tracked s (run_issue_id r) \<and>
     run_status r \<in> run_statuses"

definition cp_inv :: "persisted_state \<Rightarrow> bool" where
  "cp_inv s \<longleftrightarrow> gm_wf (ps_issues s) \<and> gm_wf (ps_runs s) \<and> gm_wf (ps_attempts s) \<and> gm_wf (ps_counters s) \<and>
     (\<forall>p. 0 \<le> counter_of s p) \<and>
     (\<forall>k t. gm_get (ps_issues s) k = Some t \<longrightarrow> di_id (ti_issue t) = k) \<and>
     (\<forall>k r. gm_get (ps_runs s) k = Some r \<longrightarrow> run_ok s k r) \<and>
     (\<forall>k a. gm_get (ps_attempts s) k = Some a \<longrightarrow> attempt_ok s k a)"

definition same_run :: "run_request \<Rightarrow> run_request \<Rightarrow> bool" where
  "same_run r r' \<longleftrightarrow> run_issue_id r' = run_issue_id r \<and> run_work_order r' = run_work_order r \<and>
     run_created_at r' = run_created_at r"

definition follows :: "stage_attempt \<Rightarrow> stage_attempt \<Rightarrow> bool" where
  "follows a a' \<longleftrightarrow> att_run_id a' = att_run_id a \<and> att_stage a' = att_stage a \<and>
     att_attempt a' = att_attempt a \<and> (finished a \<longrightarrow> finished a')"

definition grows :: "('a \<Rightarrow> 'a \<Rightarrow> bool) \<Rightarrow> 'a gomap \<Rightarrow> 'a gomap \<Rightarrow> bool" where
  "grows rel m m' \<longleftrightarrow> (\<forall>k v. gm_get m k = Some v \<longrightarrow> (\<exists>v'. gm_get m' k = Some v' \<and> rel v v'))"

definition evolves :: "persisted_state \<Rightarrow> persisted_state \<Rightarrow> bool" where
  "evolves s s' \<longleftrightarrow>
     grows (\<lambda>t t'. prefix (ti_comments t) (ti_comments t')) (ps_issues s) (ps_issues s') \<and>
     grows same_run (ps_runs s) (ps_runs s') \<and> grows follows (ps_attempts s) (ps_attempts s') \<and>
     (\<forall>p. counter_of s p \<le> counter_of s' p)"

definition good :: "persisted_state \<Rightarrow> persisted_state \<Rightarrow> bool" where
  "good s0 s \<longleftrightarrow> cp_inv s \<and> evolves s0 s"

definition since :: "persisted_state \<Rightarrow> 'x world \<Rightarrow> bool" where
  "since s0 w \<longleftrightarrow> good s0 (w_state w)"

subsection \<open>Growth\<close>

lemma grows_refl: "(\<And>v. rel v v) \<Longrightarrow> grows rel m m"
  by (auto simp: grows_def)

lemma grows_trans:
  assumes "\<And>x y z. rel x y \<Longrightarrow> rel y z \<Longrightarrow> rel x z" and "grows rel m1 m2" and "grows rel m2 m3"
  shows "grows rel m1 m3"
  using assms unfolding grows_def by blast

lemma grows_put:
  "grows rel m m' \<Longrightarrow> (\<And>v0. gm_get m k = Some v0 \<Longrightarrow> rel v0 v) \<Longrightarrow> grows rel m (gm_put k v m')"
  by (auto simp: grows_def)

lemma same_run_refl [simp]: "same_run r r"
  by (simp add: same_run_def)

lemma follows_refl [simp]: "follows a a"
  by (simp add: follows_def)

lemma evolves_refl [simp]: "evolves s s"
  by (simp add: evolves_def grows_refl)

definition longer_log :: "tracked_issue \<Rightarrow> tracked_issue \<Rightarrow> bool" where
  "longer_log t t' \<longleftrightarrow> prefix (ti_comments t) (ti_comments t')"

lemma evolves_parts:
  "evolves s s' \<longleftrightarrow> grows longer_log (ps_issues s) (ps_issues s') \<and> grows same_run (ps_runs s) (ps_runs s') \<and>
     grows follows (ps_attempts s) (ps_attempts s') \<and> (\<forall>p. counter_of s p \<le> counter_of s' p)"
  by (simp add: evolves_def longer_log_def [abs_def])

lemma longer_log_trans: "longer_log x y \<Longrightarrow> longer_log y z \<Longrightarrow> longer_log x z"
  unfolding longer_log_def by (rule prefix_order.trans)

lemma same_run_trans: "same_run x y \<Longrightarrow> same_run y z \<Longrightarrow> same_run x z"
  by (simp add: same_run_def)

lemma follows_trans: "follows x y \<Longrightarrow> follows y z \<Longrightarrow> follows x z"
  by (simp add: follows_def)

lemma evolves_trans:
  assumes "evolves s1 s2" and "evolves s2 s3"
  shows "evolves s1 s3"
proof -
  have "grows longer_log (ps_issues s1) (ps_issues s3)"
    by (rule grows_trans [of longer_log "ps_issues s1" "ps_issues s2", OF longer_log_trans])
      (use assms in \<open>simp_all add: evolves_parts\<close>)
  moreover have "grows same_run (ps_runs s1) (ps_runs s3)"
    by (rule grows_trans [of same_run "ps_runs s1" "ps_runs s2", OF same_run_trans]) (use assms in \<open>simp_all add: evolves_parts\<close>)
  moreover have "grows follows (ps_attempts s1) (ps_attempts s3)"
    by (rule grows_trans [of follows "ps_attempts s1" "ps_attempts s2", OF follows_trans]) (use assms in \<open>simp_all add: evolves_parts\<close>)
  moreover have "counter_of s1 p \<le> counter_of s3 p" for p
    using assms unfolding evolves_parts by (meson order_trans)
  ultimately show ?thesis unfolding evolves_parts by blast
qed

lemma good_trans: "evolves s0 s \<Longrightarrow> good s s' \<Longrightarrow> good s0 s'"
  unfolding good_def using evolves_trans by blast

lemma good_refl: "cp_inv s \<Longrightarrow> good s s"
  by (simp add: good_def)

lemma numbered_mono: "evolves s s' \<Longrightarrow> numbered s p k \<Longrightarrow> numbered s' p k"
proof -
  assume "evolves s s'" and "numbered s p k"
  then obtain n where "1 \<le> n" "n \<le> counter_of s' p" "k = id_of p n"
    unfolding numbered_def evolves_def using order_trans by blast
  then show ?thesis unfolding numbered_def by blast
qed

lemma tracked_mono: "evolves s s' \<Longrightarrow> tracked s k \<Longrightarrow> tracked s' k"
  unfolding tracked_def evolves_def grows_def by (metis not_None_eq)

lemma known_run_mono: "evolves s s' \<Longrightarrow> known_run s k \<Longrightarrow> known_run s' k"
  unfolding known_run_def evolves_def grows_def by (metis not_None_eq)

lemma attempt_ok_mono: "evolves s s' \<Longrightarrow> attempt_ok s k a \<Longrightarrow> attempt_ok s' k a"
  unfolding attempt_ok_def using numbered_mono known_run_mono by blast

lemma run_ok_mono: "evolves s s' \<Longrightarrow> run_ok s k r \<Longrightarrow> run_ok s' k r"
  unfolding run_ok_def using numbered_mono tracked_mono by blast

lemma cp_inv_attempt: "cp_inv s \<Longrightarrow> gm_get (ps_attempts s) k = Some a \<Longrightarrow> attempt_ok s k a"
  by (simp add: cp_inv_def)

lemma cp_inv_run: "cp_inv s \<Longrightarrow> gm_get (ps_runs s) k = Some r \<Longrightarrow> run_ok s k r"
  by (simp add: cp_inv_def)

lemma cp_inv_issue: "cp_inv s \<Longrightarrow> gm_get (ps_issues s) k = Some t \<Longrightarrow> di_id (ti_issue t) = k"
  by (simp add: cp_inv_def)

lemma attempt_run:
  assumes "cp_inv s" and "gm_get (ps_attempts s) k = Some a"
  shows "run_ok s (att_run_id a) (gm_get_or zero_run_request (ps_runs s) (att_run_id a)) \<and>
    gm_get (ps_runs s) (att_run_id a) = Some (gm_get_or zero_run_request (ps_runs s) (att_run_id a))"
  using cp_inv_attempt [OF assms] cp_inv_run [OF assms(1)]
  by (auto simp: attempt_ok_def known_run_def gm_get_or_def)

lemma fresh_number: "cp_inv s \<Longrightarrow> \<not> numbered s p (id_of p (counter_of s p + 1))"
proof
  assume "cp_inv s" and "numbered s p (id_of p (counter_of s p + 1))"
  then obtain n where n: "1 \<le> n" "n \<le> counter_of s p" "id_of p (counter_of s p + 1) = id_of p n"
    unfolding numbered_def by blast
  moreover have "0 \<le> counter_of s p" using \<open>cp_inv s\<close> by (simp add: cp_inv_def)
  ultimately have "counter_of s p + 1 = n"
    using id_of_inj [of "counter_of s p + 1" n p] by simp
  with n show False by simp
qed

subsection \<open>Updates of the state\<close>

definition base :: "persisted_state \<Rightarrow> persisted_state \<Rightarrow> bool" where
  "base s s' \<longleftrightarrow> (\<forall>p. counter_of s p \<le> counter_of s' p) \<and> (\<forall>k. tracked s k \<longrightarrow> tracked s' k) \<and>
     (\<forall>k. known_run s k \<longrightarrow> known_run s' k)"

lemma base_numbered: "base s s' \<Longrightarrow> numbered s p k \<Longrightarrow> numbered s' p k"
proof -
  assume "base s s'" and "numbered s p k"
  then obtain n where "1 \<le> n" "n \<le> counter_of s' p" "k = id_of p n"
    unfolding numbered_def base_def using order_trans by blast
  then show ?thesis unfolding numbered_def by blast
qed

lemma base_attempt: "base s s' \<Longrightarrow> attempt_ok s k a \<Longrightarrow> attempt_ok s' k a"
  unfolding attempt_ok_def using base_numbered by (auto simp: base_def)

lemma base_run: "base s s' \<Longrightarrow> run_ok s k r \<Longrightarrow> run_ok s' k r"
  unfolding run_ok_def using base_numbered by (auto simp: base_def)

lemma good_put_attempt:
  assumes "good s0 s" and "attempt_ok s0 k a"
    and "\<And>a0. gm_get (ps_attempts s0) k = Some a0 \<Longrightarrow> follows a0 a"
  shows "good s0 (s\<lparr>ps_attempts := gm_put k a (ps_attempts s)\<rparr>)" (is "good s0 ?s")
proof -
  have c: "counter_of ?s = counter_of s" by (simp add: counter_of_def fun_eq_iff)
  have b: "base s ?s" by (simp add: base_def tracked_def known_run_def c)
  have "attempt_ok s k a" using assms(1,2) attempt_ok_mono unfolding good_def by blast
  then have "cp_inv ?s"
    using assms(1) base_attempt [OF b] base_run [OF b] by (auto simp: good_def cp_inv_def c)
  moreover have "evolves s0 ?s"
    using assms(1,3) by (auto simp: good_def evolves_parts c intro: grows_put)
  ultimately show ?thesis by (simp add: good_def)
qed

lemma good_put_run:
  assumes "good s0 s" and "run_ok s0 (run_id r) r"
    and "\<And>r0. gm_get (ps_runs s0) (run_id r) = Some r0 \<Longrightarrow> same_run r0 r"
  shows "good s0 (s\<lparr>ps_runs := gm_put (run_id r) r (ps_runs s)\<rparr>)" (is "good s0 ?s")
proof -
  have c: "counter_of ?s = counter_of s" by (simp add: counter_of_def fun_eq_iff)
  have b: "base s ?s" by (simp add: base_def tracked_def known_run_def c)
  have "run_ok s (run_id r) r" using assms(1,2) run_ok_mono unfolding good_def by blast
  then have "cp_inv ?s"
    using assms(1) base_attempt [OF b] base_run [OF b] by (auto simp: good_def cp_inv_def c)
  moreover have "evolves s0 ?s"
    using assms(1,3) by (auto simp: good_def evolves_parts c intro: grows_put)
  ultimately show ?thesis by (simp add: good_def)
qed

lemma good_put_issue:
  assumes "good s0 s" and "di_id (ti_issue t) = k"
    and "\<And>t0. gm_get (ps_issues s0) k = Some t0 \<Longrightarrow> longer_log t0 t"
  shows "good s0 (s\<lparr>ps_issues := gm_put k t (ps_issues s)\<rparr>)" (is "good s0 ?s")
proof -
  have c: "counter_of ?s = counter_of s" by (simp add: counter_of_def fun_eq_iff)
  have b: "base s ?s" by (simp add: base_def tracked_def known_run_def c)
  have "cp_inv ?s"
    using assms(1,2) base_attempt [OF b] base_run [OF b] by (auto simp: good_def cp_inv_def c)
  moreover have "evolves s0 ?s"
    using assms(1,3) by (auto simp: good_def evolves_parts c intro: grows_put)
  ultimately show ?thesis by (simp add: good_def)
qed

lemma next_id_counter:
  "counter_of (snd (next_id p s)) q = (if q = p then counter_of s p + 1 else counter_of s q)"
  by (simp add: counter_of_def next_id_eq gm_get_or_def)

lemma next_id_fields:
  "ps_issues (snd (next_id p s)) = ps_issues s" "ps_runs (snd (next_id p s)) = ps_runs s"
  "ps_attempts (snd (next_id p s)) = ps_attempts s"
  "fst (next_id p s) = Inr (id_of p (counter_of s p + 1))"
  by (simp_all add: next_id_eq counter_of_def)

lemma next_id_evolves: "evolves s (snd (next_id p s))"
  by (simp add: evolves_parts next_id_fields next_id_counter grows_refl longer_log_def)

lemma good_next_id:
  assumes "good s0 s"
  shows "good s0 (snd (next_id p s))" and "numbered (snd (next_id p s)) p (id_of p (counter_of s p + 1))"
proof -
  let ?s = "snd (next_id p s)"
  have b: "base s ?s"
    by (simp add: base_def tracked_def known_run_def next_id_fields next_id_counter)
  have "gm_wf (ps_counters ?s)" using assms by (simp add: good_def cp_inv_def next_id_eq)
  then have "cp_inv ?s"
    using assms base_attempt [OF b] base_run [OF b]
    by (auto simp: good_def cp_inv_def next_id_fields next_id_counter)
  then show "good s0 ?s"
    using assms evolves_trans [OF _ next_id_evolves [of s p]] by (simp add: good_def)
  have "0 \<le> counter_of s p" using assms by (simp add: good_def cp_inv_def)
  then show "numbered ?s p (id_of p (counter_of s p + 1))"
    unfolding numbered_def next_id_counter by (intro exI [of _ "counter_of s p + 1"]) simp
qed

subsection \<open>The rules for handlers\<close>

lemma sinceD: "since s0 w \<Longrightarrow> cp_inv (w_state w) \<and> evolves s0 (w_state w)"
  by (simp add: since_def good_def)

lemma keeps_get:
  fixes f :: "persisted_state \<Rightarrow> ('x world, 'a) go"
  assumes "\<And>s. good s0 s \<Longrightarrow> keeps (since s) (f s)"
  shows "keeps (since s0) (m_bind get_state f)"
proof (rule keepsI)
  fix w :: "'x world" assume w: "since s0 w"
  then have g: "good s0 (w_state w)" by (simp add: since_def)
  then have "since (w_state w) w" by (simp add: since_def good_def)
  then have "since (w_state w) (snd (f (w_state w) w))"
    by (rule keepsD [OF assms [OF g]])
  then have "since s0 (snd (f (w_state w) w))"
    using g unfolding since_def good_def using evolves_trans by blast
  then show "since s0 (snd (m_bind get_state f w))"
    by (simp add: m_bind_def get_state_def m_gets_def)
qed

lemma keeps_on_state:
  "(\<And>s. good s0 s \<Longrightarrow> good s0 (snd (m s))) \<Longrightarrow> keeps (since s0) (on_state m)"
  by (rule keepsI) (simp add: since_def on_state_def split_beta)

lemma on_ext_state [simp]: "w_state (snd (on_ext m w)) = w_state w"
  by (simp add: on_ext_def split: prod.splits)

lemma keeps_put_attempt:
  "attempt_ok s0 k a \<Longrightarrow> (\<And>a0. gm_get (ps_attempts s0) k = Some a0 \<Longrightarrow> follows a0 a) \<Longrightarrow>
   keeps (since s0) (put_attempt k a)"
  unfolding put_attempt_def by (rule keeps_on_state) (simp add: m_modify_def good_put_attempt)

lemma keeps_put_run:
  "run_ok s0 (run_id r) r \<Longrightarrow> (\<And>r0. gm_get (ps_runs s0) (run_id r) = Some r0 \<Longrightarrow> same_run r0 r) \<Longrightarrow>
   keeps (since s0) (put_run r)"
  unfolding put_run_def by (rule keeps_on_state) (simp add: m_modify_def good_put_run)

lemma save_result:
  "save sv u w = (r, w') \<Longrightarrow>
   (\<exists>w1 w2 x. w_state w1 = w_state w \<and> u w1 = (Inr x, w2) \<and> r = Inr x \<and> w_state w' = w_state w2) \<or>
   (\<exists>e. r = Inl e) \<and> w_state w' = w_state w"
  by (auto simp: save_def split: prod.splits sum.splits) (metis on_ext_state snd_conv)+

lemma keeps_save:
  fixes u :: "('x world, 'a) go"
  assumes "keeps (since s0) u"
  shows "keeps (since s0) (save sv u)"
proof (rule keepsI)
  fix w :: "'x world" assume w: "since s0 w"
  obtain r w' where s: "save sv u w = (r, w')" by fastforce
  from save_result [OF s] show "since s0 (snd (save sv u w))"
  proof
    assume "\<exists>w1 w2 x. w_state w1 = w_state w \<and> u w1 = (Inr x, w2) \<and> r = Inr x \<and> w_state w' = w_state w2"
    then obtain w1 w2 x where u: "w_state w1 = w_state w" "u w1 = (Inr x, w2)" "w_state w' = w_state w2"
      by blast
    then have "since s0 (snd (u w1))"
      using w by (intro keepsD [OF assms]) (simp add: since_def)
    then show ?thesis using u s by (simp add: since_def)
  qed (use w s in \<open>simp add: since_def\<close>)
qed

text \<open>Handlers that only talk to the outside keep any property of the state.\<close>

definition ext_only :: "('x world, 'a) go \<Rightarrow> bool" where
  "ext_only m \<longleftrightarrow> (\<forall>s. keeps (\<lambda>w. w_state w = s) m)"

lemma ext_only_state: "ext_only m \<Longrightarrow> w_state (snd (m w)) = w_state w"
  unfolding ext_only_def by (rule keepsD [of "\<lambda>v. w_state v = w_state w"]) auto

lemma ext_only_since: "ext_only m \<Longrightarrow> keeps (since s0) m"
  by (rule keepsI) (simp add: since_def ext_only_state)

lemma ext_only_on_ext: "ext_only (on_ext m)"
  unfolding ext_only_def by (intro allI keepsI) simp

lemma ext_only_ask_ext: "ext_only (ask_ext f)"
  unfolding ask_ext_def by (rule ext_only_on_ext)

lemma ext_only_ret: "ext_only (m_ret x)"
  unfolding ext_only_def by (intro allI keeps_ret)

lemma ext_only_err: "ext_only (m_err x)"
  unfolding ext_only_def by (intro allI keeps_err)

lemma ext_only_bind: "ext_only m \<Longrightarrow> (\<And>x. ext_only (f x)) \<Longrightarrow> ext_only (m_bind m f)"
  unfolding ext_only_def by (blast intro: keeps_bind)

lemma ext_only_then: "ext_only m \<Longrightarrow> ext_only n \<Longrightarrow> ext_only (m_then m n)"
  unfolding ext_only_def by (blast intro: keeps_then)

lemma ext_only_wrap: "ext_only m \<Longrightarrow> ext_only (m_wrap msg m)"
  unfolding ext_only_def by (blast intro: keeps_wrap)

lemma ext_only_try: "ext_only m \<Longrightarrow> ext_only (m_try m)"
  unfolding ext_only_def by (blast intro: keeps_try)

lemma ext_only_fold: "(\<And>x b. ext_only (f x b)) \<Longrightarrow> ext_only (m_fold f xs b)"
  unfolding ext_only_def by (blast intro: keeps_fold)

lemma ext_only_if: "ext_only m \<Longrightarrow> ext_only n \<Longrightarrow> ext_only (if b then m else n)"
  by simp

lemma ext_only_option: "ext_only m \<Longrightarrow> (\<And>x. ext_only (n x)) \<Longrightarrow> ext_only (case v of None \<Rightarrow> m | Some x \<Rightarrow> n x)"
  by (cases v) auto

lemma ext_only_stat:
  "ext_only l \<Longrightarrow> ext_only m \<Longrightarrow> (\<And>x. ext_only (n x)) \<Longrightarrow>
   ext_only (case v of Stat_found \<Rightarrow> l | Stat_missing \<Rightarrow> m | Stat_error x \<Rightarrow> n x)"
  by (cases v) auto

lemma ext_only_dir:
  "(\<And>x. ext_only (l x)) \<Longrightarrow> ext_only m \<Longrightarrow> (\<And>x. ext_only (n x)) \<Longrightarrow>
   ext_only (case v of Dir_entries x \<Rightarrow> l x | Dir_missing \<Rightarrow> m | Dir_error x \<Rightarrow> n x)"
  by (cases v) auto

lemma ext_only_prod: "(\<And>x y. ext_only (f x y)) \<Longrightarrow> ext_only (case v of (x, y) \<Rightarrow> f x y)"
  by (cases v) auto

lemma ext_only_prod_app: "(\<And>x y. ext_only (f x y b)) \<Longrightarrow> ext_only ((case v of (x, y) \<Rightarrow> f x y) b)"
  by (cases v) auto

lemma ext_only_json: "(\<And>x. ext_only (l x)) \<Longrightarrow> ext_only n \<Longrightarrow> ext_only (case v of JObj x \<Rightarrow> l x | _ \<Rightarrow> n)"
  by (cases v) auto

lemmas ext_rules = ext_only_on_ext ext_only_ask_ext ext_only_ret ext_only_err ext_only_bind
  ext_only_then ext_only_wrap ext_only_try ext_only_fold ext_only_if ext_only_option ext_only_stat
  ext_only_dir ext_only_prod ext_only_prod_app ext_only_json

lemma ext_git: "ext_only (git sv msg args)"
  unfolding git_def by (intro ext_rules)

lemma ext_git_do: "ext_only (git_do sv msg args)"
  unfolding git_do_def by (intro ext_rules ext_git)

lemma ext_commit: "ext_only (commit_if_changed sv msg1 paths msg2 text)"
  unfolding commit_if_changed_def by (intro ext_rules ext_git ext_git_do)

lemma ext_ensure_repo: "ext_only (ensure_work_order_repo sv)"
  unfolding ensure_work_order_repo_def Let_def by (intro ext_rules ext_git_do)

lemma ext_head: "ext_only (journal_head sv msg)"
  unfolding journal_head_def by (intro ext_rules ext_git)

lemma ext_write_pretty: "ext_only (write_pretty sv path content)"
  unfolding write_pretty_def by (intro ext_rules)

lemma ext_read_dir: "ext_only (read_dir sv dir)"
  unfolding read_dir_def by (intro ext_rules)

lemmas journal_rules = ext_rules ext_git ext_git_do ext_commit ext_ensure_repo ext_head
  ext_write_pretty ext_read_dir

lemma ext_work_order: "ext_only (persist_work_order sv run)"
  unfolding persist_work_order_def Let_def by (intro journal_rules)

lemma ext_plan: "ext_only (pipeline_plan_for_run sv run)"
  unfolding pipeline_plan_for_run_def by (intro journal_rules)

lemma ext_build_index: "ext_only (build_run_index sv run p d)"
  unfolding build_run_index_def stage_reports_def Let_def by (intro journal_rules)

lemma ext_run_index: "ext_only (persist_run_index sv run)"
  unfolding persist_run_index_def Let_def by (intro journal_rules ext_build_index)

lemma ext_stage_report: "ext_only (persist_stage_report sv run a result artifacts)"
  unfolding persist_stage_report_def Let_def by (intro journal_rules ext_build_index)

lemmas since_ext = ext_only_since [OF ext_only_on_ext] ext_only_since [OF ext_only_ask_ext]
  ext_only_since [OF ext_work_order] ext_only_since [OF ext_plan] ext_only_since [OF ext_run_index]
  ext_only_since [OF ext_stage_report] ext_only_since [OF ext_git_do] ext_only_since [OF ext_commit]
  ext_only_since [OF ext_ensure_repo]

lemmas since_rules = keeps_rules since_ext

subsection \<open>Comments, labels and signals\<close>

lemma add_comment_eq:
  "snd (add_comment k body now s) =
     (let s1 = snd (next_id ''comment'' s); issue = gm_get_or zero_tracked_issue (ps_issues s) k
      in s1\<lparr>ps_issues := gm_put k (issue\<lparr>ti_comments := ti_comments issue @
            [\<lparr>ico_id = id_of ''comment'' (counter_of s ''comment'' + 1), ico_issue_id = k, ico_body = body,
              ico_created_at = now\<rparr>]\<rparr>) (ps_issues s1)\<rparr>)"
  by (simp add: add_comment_def m_bind_def m_modify_def next_id_eq Let_def counter_of_def)

lemma longer_log_put:
  assumes "evolves s0 s" and "gm_get (ps_issues s0) k = Some t0"
  shows "longer_log t0 ((gm_get_or zero_tracked_issue (ps_issues s) k)\<lparr>ti_comments :=
      ti_comments (gm_get_or zero_tracked_issue (ps_issues s) k) @ cs\<rparr>)"
proof -
  obtain t where "gm_get (ps_issues s) k = Some t" "longer_log t0 t"
    using assms unfolding evolves_parts grows_def by blast
  then show ?thesis
    by (simp add: longer_log_def gm_get_or_def prefix_append)
qed

lemma good_add_comment:
  assumes "good s0 s" and "tracked s0 k"
  shows "good s0 (snd (add_comment k body now s))"
proof -
  have "tracked s k" using assms tracked_mono unfolding good_def by blast
  then have "di_id (ti_issue (gm_get_or zero_tracked_issue (ps_issues s) k)) = k"
    using assms(1) cp_inv_issue [of s k] by (auto simp: good_def tracked_def gm_get_or_def)
  moreover have "longer_log t0 ((gm_get_or zero_tracked_issue (ps_issues s) k)\<lparr>ti_comments :=
      ti_comments (gm_get_or zero_tracked_issue (ps_issues s) k) @ cs\<rparr>)"
    if "gm_get (ps_issues s0) k = Some t0" for t0 cs
    using longer_log_put [OF _ that] assms(1) by (simp add: good_def)
  ultimately show ?thesis
    unfolding add_comment_eq Let_def
    by (intro good_put_issue good_next_id assms(1)) simp_all
qed

lemma keeps_record_comment:
  "tracked s0 k \<Longrightarrow> keeps (since s0) (record_comment sv k body)"
  unfolding record_comment_def
  by (intro since_rules keeps_on_state good_add_comment)

lemma good_relabel:
  assumes "good s0 s" and "tracked s0 (di_id issue)"
  shows "good s0 (relabel issue labels s)"
proof -
  have "longer_log t0 \<lparr>ti_issue = i, ti_comments =
      ti_comments (gm_get_or zero_tracked_issue (ps_issues s) (di_id issue))\<rparr>"
    if "gm_get (ps_issues s0) (di_id issue) = Some t0" for t0 i
    using longer_log_put [OF _ that, of s "[]"] assms(1) by (simp add: good_def longer_log_def)
  then show ?thesis
    unfolding relabel_def by (intro good_put_issue assms(1)) simp_all
qed

lemma keeps_transition:
  "tracked s0 (di_id issue) \<Longrightarrow> keeps (since s0) (transition_issue sv issue labels comment)"
  unfolding transition_issue_def
  by (intro since_rules keeps_on_state keeps_record_comment) (simp_all add: m_modify_def good_relabel)

lemma keeps_announce:
  "tracked s0 (di_id issue) \<Longrightarrow> keeps (since s0) (announce_status sv issue status)"
  unfolding announce_status_def by (intro keeps_if keeps_transition)

lemma keeps_comment_issue: "tracked s0 k \<Longrightarrow> keeps (since s0) (comment_issue sv k body)"
  unfolding comment_issue_def by (intro keeps_save keeps_record_comment)

text \<open>
  The signals raised for an event are about the issue of the event: all that the control plane
  needs to know of the signal service.
\<close>

locale event_source =
  fixes sv :: "'x service"
  assumes raised: "sv_record_event sv e x = (Inr gs, x') \<Longrightarrow> list_all (about_event e) gs"
begin

lemma keeps_emit:
  assumes "tracked s0 (pe_issue_id e)"
  shows "keeps (since s0) (emit_signals sv e)"
proof -
  have "hoare (since s0) (on_ext (sv_record_event sv e)) (\<lambda>gs w. list_all (about_event e) gs \<and> since s0 w) (since s0)"
    by (rule hoareI) (auto simp: on_ext_def since_def dest: raised split: prod.splits)
  moreover have "hoare (\<lambda>w. list_all (about_event e) gs \<and> since s0 w) (m_iter (comment_signal sv) gs)
      (\<lambda>_. since s0) (since s0)" for gs
  proof (cases "list_all (about_event e) gs")
    case True
    have "keeps (since s0) (m_iter (comment_signal sv) gs)"
      unfolding comment_signal_def using True assms
      by (intro since_rules keeps_comment_issue) (auto simp: list_all_iff about_event_def)
    then show ?thesis using True by (simp add: keeps_def)
  next
    case False
    then show ?thesis by (simp add: hoare_def)
  qed
  ultimately show ?thesis
    unfolding keeps_def emit_signals_def by (rule hoare_bind)
qed

end

subsection \<open>The handlers\<close>

lemma good_track_issue: "good s0 s \<Longrightarrow> good s0 (track_issue i s)"
proof -
  assume g: "good s0 s"
  have "longer_log t0 (case gm_get (ps_issues s) (di_id i) of
      Some t \<Rightarrow> t\<lparr>ti_issue := i\<rparr> | None \<Rightarrow> \<lparr>ti_issue = i, ti_comments = []\<rparr>)"
    if t0: "gm_get (ps_issues s0) (di_id i) = Some t0" for t0
  proof -
    obtain t where "gm_get (ps_issues s) (di_id i) = Some t" "longer_log t0 t"
      using g t0 unfolding good_def evolves_parts grows_def by blast
    then show ?thesis by (simp add: longer_log_def)
  qed
  then show ?thesis
    unfolding track_issue_def by (intro good_put_issue g) (simp_all split: option.splits)
qed

lemma keeps_enqueue: "keeps (since s0) (enqueue_from_gitlab sv)"
proof -
  have "good s0 s \<Longrightarrow> good s0 (fold track_issue issues s)" for s issues
    by (rule fold_keeps [where I = "good s0"]) (simp_all add: good_track_issue)
  then show ?thesis
    unfolding enqueue_from_gitlab_def
    by (intro since_rules keeps_save keeps_on_state) (simp add: m_modify_def)
qed

lemma absent_attempt: "cp_inv s \<Longrightarrow> gm_get (ps_attempts s) (id_of ''attempt'' (counter_of s ''attempt'' + 1)) = None"
  using fresh_number [of s "''attempt''"] cp_inv_attempt
  by (cases "gm_get (ps_attempts s) (id_of ''attempt'' (counter_of s ''attempt'' + 1))")
    (auto simp: attempt_ok_def)

lemma absent_run: "cp_inv s \<Longrightarrow> gm_get (ps_runs s) (id_of ''run'' (counter_of s ''run'' + 1)) = None"
  using fresh_number [of s "''run''"] cp_inv_run
  by (cases "gm_get (ps_runs s) (id_of ''run'' (counter_of s ''run'' + 1))") (auto simp: run_ok_def)

lemma create_attempt_eq:
  "create_attempt run spec n md s =
     (let s1 = snd (next_id ''attempt'' s); aid = id_of ''attempt'' (counter_of s ''attempt'' + 1);
          a = new_attempt aid run spec n md
      in (Inr a, s1\<lparr>ps_attempts := gm_put aid a (ps_attempts s1)\<rparr>))"
  by (simp add: create_attempt_def m_bind_def m_modify_def m_ret_def next_id_eq Let_def counter_of_def)

lemma new_attempt_fields [simp]:
  "att_id (new_attempt aid run spec n md) = aid" "att_run_id (new_attempt aid run spec n md) = run_id run"
  "att_stage (new_attempt aid run spec n md) = ss_name spec"
  "att_status (new_attempt aid run spec n md) = AttemptStatusPending"
  "att_attempt (new_attempt aid run spec n md) = n"
  by (simp_all add: new_attempt_def)

lemma good_create_attempt:
  assumes "good s0 s" and "known_run s0 (run_id run)"
  shows "good s0 (snd (create_attempt run spec n md s))"
proof -
  let ?s1 = "snd (next_id ''attempt'' s)" and ?aid = "id_of ''attempt'' (counter_of s ''attempt'' + 1)"
  have g1: "good s0 ?s1" by (rule good_next_id(1) [OF assms(1)])
  have "known_run ?s1 (run_id run)"
    using g1 assms(2) known_run_mono unfolding good_def by blast
  then have "attempt_ok ?s1 ?aid (new_attempt ?aid run spec n md)"
    using good_next_id(2) [OF assms(1), of "''attempt''"] by (simp add: attempt_ok_def finished_def)
  moreover have "gm_get (ps_attempts ?s1) ?aid = None"
    using absent_attempt assms(1) by (simp add: next_id_fields good_def)
  ultimately have "good ?s1 (snd (create_attempt run spec n md s))"
    unfolding create_attempt_eq Let_def snd_conv
    by (intro good_put_attempt good_refl) (use g1 in \<open>auto simp: good_def\<close>)
  then show ?thesis using g1 good_trans unfolding good_def by blast
qed

lemma keeps_create_attempt:
  "known_run s0 (run_id run) \<Longrightarrow> keeps (since s0) (on_state (create_attempt run spec n md))"
  by (intro keeps_on_state good_create_attempt)

lemma keeps_queue_triggered:
  "known_run s0 (run_id run) \<Longrightarrow> tracked s0 i \<Longrightarrow> keeps (since s0) (queue_triggered sv i run spec bs)"
  unfolding queue_triggered_def
  by (intro since_rules keeps_create_attempt keeps_record_comment)

lemma keeps_queue_runnable:
  assumes "known_run s0 (run_id run)" and "tracked s0 i"
  shows "keeps (since s0) (queue_runnable sv i run spec bs)"
proof -
  have "known_run s (run_id run) \<and> tracked s i" if "good s0 s" for s
    using assms that known_run_mono tracked_mono unfolding good_def by blast
  then show ?thesis
    unfolding queue_runnable_def
    by (intro since_rules keeps_get keeps_create_attempt keeps_record_comment) blast+
qed

lemma eval_loop_status:
  "eval_loop run bs approved specs v = Inl e \<Longrightarrow> ev_status e \<in> run_statuses"
  by (induction specs arbitrary: v)
    (auto simp: eval_stage_def run_statuses_def Let_def split: option.splits if_splits sum.splits)

lemma evaluate_status: "ev_status (evaluate plan run bs approved) \<in> run_statuses"
proof (cases "eval_loop run bs approved (specs_in_order (plan_specs plan))
    \<lparr>ev_trig = [], ev_run = [], ev_has_active = False, ev_has_failed = False, ev_has_rollback = False\<rparr>")
  case (Inl e)
  then show ?thesis using eval_loop_status [OF Inl] by (simp add: evaluate_def Let_def)
next
  case (Inr v)
  then show ?thesis by (simp add: evaluate_def Let_def run_statuses_def)
qed

lemma known_runI: "cp_inv s \<Longrightarrow> gm_get (ps_runs s) k = Some r \<Longrightarrow> known_run s (run_id r) \<and> run_id r = k"
  using cp_inv_run [of s k r] by (simp add: run_ok_def known_run_def)

text \<open>Writing back a run that was read earlier, with the same issue, work order and date.\<close>

lemma keeps_put_later:
  assumes "cp_inv s" and "gm_get (ps_runs s) k = Some run" and "good s s'"
    and "run_id run' = k" and "same_run run run'" and "run_status run' \<in> run_statuses"
  shows "keeps (since s') (put_run run')"
proof (rule keeps_put_run)
  have "run_ok s k run" by (rule cp_inv_run [OF assms(1,2)])
  then have "run_ok s k run'" using assms(4,5,6) by (simp add: run_ok_def same_run_def)
  then show "run_ok s' (run_id run') run'"
    using assms(3,4) run_ok_mono unfolding good_def by blast
next
  fix r0 assume "gm_get (ps_runs s') (run_id run') = Some r0"
  moreover obtain r1 where "gm_get (ps_runs s') k = Some r1" "same_run run r1"
    using assms(2,3) unfolding good_def evolves_parts grows_def by blast
  ultimately show "same_run r0 run'" using assms(4,5) by (simp add: same_run_def)
qed

lemma keeps_advance_run:
  assumes "cp_inv s" and "gm_get (ps_runs s) k = Some run"
    and "tracked s i" and "tracked s (di_id (ti_issue t))"
  shows "keeps (since s) (advance_run sv i t run bs plan)"
proof -
  note known = known_runI [OF assms(1,2)]
  have put: "keeps (since s') (put_run (run\<lparr>run_status := ev_status (evaluate p run b appr), run_updated_at := now\<rparr>))"
    if "good s s'" for s' p b appr now
    by (rule keeps_put_later [OF assms(1,2) that])
      (use known in \<open>simp_all add: same_run_def evaluate_status\<close>)
  have tr: "tracked s' (di_id (ti_issue t))" if "good s s'" for s'
    using that assms(4) tracked_mono unfolding good_def by blast
  show ?thesis
    unfolding advance_run_def Let_def
    using known assms(3)
    by (intro since_rules keeps_get put keeps_announce keeps_queue_triggered keeps_queue_runnable tr) auto
qed

lemma latest_run_get:
  assumes "cp_inv s" and "latest_run_for_issue s i = Some run"
  shows "gm_get (ps_runs s) (run_id run) = Some run \<and> run_issue_id run = i"
proof -
  obtain k where "(k, run) \<in> set (ps_runs s)"
    using latest_run_Some [OF assms(2)] by force
  then have g: "gm_get (ps_runs s) k = Some run"
    using assms(1) by (simp add: cp_inv_def gm_get_wf)
  with cp_inv_run [OF assms(1) g] latest_run_Some [OF assms(2)] show ?thesis
    by (simp add: run_ok_def)
qed

lemma keeps_reconcile_issue: "keeps (since s0) (reconcile_issue sv issue_filter i)"
proof -
  have adv: "keeps (since s) (advance_run sv i t run bs plan)"
    if "good s0 s" and "gm_get (ps_issues s) i = Some t" and "latest_run_for_issue s i = Some run"
    for s t run bs plan
  proof (rule keeps_advance_run)
    show inv: "cp_inv s" using that(1) by (simp add: good_def)
    show "gm_get (ps_runs s) (run_id run) = Some run"
      using latest_run_get [OF inv that(3)] by simp
    show "tracked s i" using that(2) by (simp add: tracked_def)
    show "tracked s (di_id (ti_issue t))"
      using cp_inv_issue [OF inv that(2)] that(2) by (simp add: tracked_def)
  qed
  show ?thesis
    unfolding reconcile_issue_def by (intro keeps_get since_rules adv)
qed

lemma keeps_reconcile: "keeps (since s0) (reconcile sv issue_filter)"
  unfolding reconcile_def by (intro keeps_save keeps_get keeps_iter keeps_reconcile_issue)

lemma keeps_next_id:
  fixes f :: "string \<Rightarrow> ('x world, 'a) go"
  assumes "\<And>s. good s0 s \<Longrightarrow> keeps (since (snd (next_id p s))) (f (id_of p (counter_of s p + 1)))"
  shows "keeps (since s0) (m_bind (on_state (next_id p)) f)"
proof (rule keepsI)
  fix w :: "'x world" assume w: "since s0 w"
  let ?s = "w_state w" and ?s1 = "snd (next_id p (w_state w))"
  have g: "good s0 ?s" using w by (simp add: since_def)
  have g1: "good s0 ?s1" by (rule good_next_id(1) [OF g])
  have "since ?s1 (w\<lparr>w_state := ?s1\<rparr>)" using g1 by (simp add: since_def good_def)
  then have "since ?s1 (snd (f (id_of p (counter_of ?s p + 1)) (w\<lparr>w_state := ?s1\<rparr>)))"
    by (rule keepsD [OF assms [OF g]])
  then have "since s0 (snd (f (id_of p (counter_of ?s p + 1)) (w\<lparr>w_state := ?s1\<rparr>)))"
    using g1 good_trans unfolding since_def good_def by blast
  then show "since s0 (snd (m_bind (on_state (next_id p)) f w))"
    by (simp add: m_bind_def on_state_def next_id_eq counter_of_def)
qed

lemma new_run_fields [simp]:
  "run_id (new_run rid i wo now) = rid" "run_issue_id (new_run rid i wo now) = i"
  "run_status (new_run rid i wo now) = RunStatusPending"
  by (simp_all add: new_run_def)

lemma keeps_create_run:
  assumes "tracked s0 i"
  shows "keeps (since s0) (create_run sv i t)"
proof -
  have put: "keeps (since (snd (next_id ''run'' s))) (put_run r)"
    if "good s0 s" and "run_id r = id_of ''run'' (counter_of s ''run'' + 1)" and "run_issue_id r = i"
      and "run_status r = RunStatusPending" for s r
  proof (rule keeps_put_run)
    have "tracked (snd (next_id ''run'' s)) i"
      using assms tracked_mono good_next_id(1) [OF that(1)] unfolding good_def by blast
    then show "run_ok (snd (next_id ''run'' s)) (run_id r) r"
      using that good_next_id(2) [OF that(1)] by (simp add: run_ok_def run_statuses_def)
  next
    fix r0 assume "gm_get (ps_runs (snd (next_id ''run'' s))) (run_id r) = Some r0"
    then show "same_run r0 r" using absent_run that by (simp add: next_id_fields good_def)
  qed
  show ?thesis
    unfolding create_run_def Let_def
    by (intro since_rules keeps_next_id put) simp_all
qed

lemma keeps_ensure_run: "keeps (since s0) (ensure_run_for_issue sv i)"
proof -
  have "keeps (since s) (create_run sv i t)" if "gm_get (ps_issues s) i = Some t" for s t
    using that by (intro keeps_create_run) (simp add: tracked_def)
  then show ?thesis
    unfolding ensure_run_for_issue_def by (intro keeps_save keeps_get since_rules)
qed

lemma evidence_fields:
  "run_id (persist_pipeline_plan_evidence o' r) = run_id r \<and>
   run_status (persist_pipeline_plan_evidence o' r) = run_status r \<and>
   same_run r (persist_pipeline_plan_evidence o' r)"
  unfolding persist_pipeline_plan_evidence_def
  by (rule fold_keeps [where I = "\<lambda>x. run_id x = run_id r \<and> run_status x = run_status r \<and> same_run r x"])
    (auto simp: same_run_def split: option.splits)

lemma keeps_persist_artifacts: "keeps (since s0) (persist_pipeline_artifacts sv rid outputs)"
proof -
  have put: "keeps (since s) (put_run ((persist_pipeline_plan_evidence outputs run)\<lparr>run_updated_at := now\<rparr>))"
    if "good s0 s" and "gm_get (ps_runs s) rid = Some run" for s run now
  proof (rule keeps_put_later)
    show inv: "cp_inv s" using that(1) by (simp add: good_def)
    show "gm_get (ps_runs s) rid = Some run" by (rule that(2))
    show "good s s" by (rule good_refl [OF inv])
  qed (use evidence_fields [of outputs run] cp_inv_run [of s rid run] that in
      \<open>auto simp: good_def run_ok_def same_run_def\<close>)
  show ?thesis
    unfolding persist_pipeline_artifacts_def Let_def
    by (intro keeps_save keeps_get since_rules put)
qed

lemma attempt_known:
  "cp_inv s \<Longrightarrow> gm_get (ps_attempts s) k = Some a \<Longrightarrow>
   attempt_ok s k a \<and> run_ok s (att_run_id a) (gm_get_or zero_run_request (ps_runs s) (att_run_id a)) \<and>
   gm_get (ps_runs s) (att_run_id a) = Some (gm_get_or zero_run_request (ps_runs s) (att_run_id a))"
  using cp_inv_attempt attempt_run by blast

lemma put_stage_state_fields [simp]:
  "run_id (put_stage_state stage st r) = run_id r"
  "run_issue_id (put_stage_state stage st r) = run_issue_id r"
  "run_work_order (put_stage_state stage st r) = run_work_order r"
  "run_created_at (put_stage_state stage st r) = run_created_at r"
  "run_status (put_stage_state stage st r) = run_status r"
  by (simp_all add: put_stage_state_def Let_def)

lemma keeps_heartbeat: "keeps (since s0) (heartbeat sv aid lease summary md)"
proof -
  have A: "keeps (since s) (put_attempt aid (beat_attempt a lease summary md now))"
    and R: "keeps (since s) (put_run ((put_stage_state stage st
       (gm_get_or zero_run_request (ps_runs s) (att_run_id a)))\<lparr>run_updated_at := now\<rparr>))"
    if g: "good s0 s" and a: "gm_get (ps_attempts s) aid = Some a" for s a now stage st
  proof -
    have inv: "cp_inv s" using g by (simp add: good_def)
    note K = attempt_known [OF inv a]
    show "keeps (since s) (put_attempt aid (beat_attempt a lease summary md now))"
      by (rule keeps_put_attempt)
        (use K a in \<open>auto simp: attempt_ok_def beat_attempt_def finished_def follows_def\<close>)
    show "keeps (since s) (put_run ((put_stage_state stage st
       (gm_get_or zero_run_request (ps_runs s) (att_run_id a)))\<lparr>run_updated_at := now\<rparr>))"
      by (rule keeps_put_later [OF inv conjunct2 [OF conjunct2 [OF K]] good_refl [OF inv]])
        (use K in \<open>auto simp: run_ok_def same_run_def\<close>)
  qed
  show ?thesis
    unfolding heartbeat_def by (intro keeps_save keeps_get since_rules A R)
qed

subsection \<open>Handlers that raise events after their transaction\<close>

text \<open>
  \<open>gives s0 m R\<close>: \<open>m\<close> keeps \<open>since s0\<close>, and its result and the state it leaves satisfy \<open>R\<close>.
\<close>

definition gives :: "persisted_state \<Rightarrow> ('x world, 'a) go \<Rightarrow> ('a \<Rightarrow> persisted_state \<Rightarrow> bool) \<Rightarrow> bool" where
  "gives s0 m R \<longleftrightarrow> hoare (since s0) m (\<lambda>x w. since s0 w \<and> R x (w_state w)) (since s0)"

lemma gives_bind: "keeps (since s0) m \<Longrightarrow> (\<And>x. gives s0 (f x) R) \<Longrightarrow> gives s0 (m_bind m f) R"
  unfolding gives_def keeps_def by (rule hoare_bind)

lemma gives_then: "keeps (since s0) m \<Longrightarrow> gives s0 n R \<Longrightarrow> gives s0 (m_then m n) R"
  unfolding m_then_def by (rule gives_bind)

lemma gives_ret: "(\<And>s. good s0 s \<Longrightarrow> R x s) \<Longrightarrow> gives s0 (m_ret x) R"
  by (simp add: gives_def hoare_def m_ret_def since_def)

lemma gives_err: "gives s0 (m_err e) R"
  by (simp add: gives_def hoare_def m_err_def)

lemma gives_if: "(b \<Longrightarrow> gives s0 m R) \<Longrightarrow> (\<not> b \<Longrightarrow> gives s0 n R) \<Longrightarrow> gives s0 (if b then m else n) R"
  by simp

lemma gives_option:
  "(v = None \<Longrightarrow> gives s0 m R) \<Longrightarrow> (\<And>x. v = Some x \<Longrightarrow> gives s0 (n x) R) \<Longrightarrow>
   gives s0 (case v of None \<Rightarrow> m | Some x \<Rightarrow> n x) R"
  by (cases v) auto

lemma since_lift: "good s0 s \<Longrightarrow> since s w \<Longrightarrow> since s0 w"
  using good_trans unfolding since_def good_def by blast

lemma from_current:
  assumes "\<And>s. good s0 s \<Longrightarrow> T s \<Longrightarrow> hoare (since s) m (\<lambda>x w. since s w \<and> R x (w_state w)) (since s)"
  shows "hoare (\<lambda>w. since s0 w \<and> T (w_state w)) m (\<lambda>x w. since s0 w \<and> R x (w_state w)) (since s0)"
proof (rule hoareI)
  fix w e w' assume w: "since s0 w \<and> T (w_state w)" and m: "m w = (Inl e, w')"
  then have g: "good s0 (w_state w)" and s: "since (w_state w) w" by (simp_all add: since_def good_def)
  show "since s0 w'"
    using hoareD_err [OF assms [OF g] s m] w since_lift [OF g] by blast
next
  fix w x w' assume w: "since s0 w \<and> T (w_state w)" and m: "m w = (Inr x, w')"
  then have g: "good s0 (w_state w)" and s: "since (w_state w) w" by (simp_all add: since_def good_def)
  show "since s0 w' \<and> R x (w_state w')"
    using hoareD_ok [OF assms [OF g] s m] w since_lift [OF g] by blast
qed

lemma gives_get:
  assumes "\<And>s. good s0 s \<Longrightarrow> gives s (f s) R"
  shows "gives s0 (m_bind get_state f) R"
  unfolding gives_def
proof (rule hoareI)
  fix w e w' assume w: "since s0 w" and m: "m_bind get_state f w = (Inl e, w')"
  then have g: "good s0 (w_state w)" and s: "since (w_state w) w" by (simp_all add: since_def good_def)
  have "f (w_state w) w = (Inl e, w')" using m by (simp add: m_bind_def get_state_def m_gets_def)
  then show "since s0 w'"
    using hoareD_err [OF assms [OF g, unfolded gives_def] s] since_lift [OF g] by blast
next
  fix w x w' assume w: "since s0 w" and m: "m_bind get_state f w = (Inr x, w')"
  then have g: "good s0 (w_state w)" and s: "since (w_state w) w" by (simp_all add: since_def good_def)
  have "f (w_state w) w = (Inr x, w')" using m by (simp add: m_bind_def get_state_def m_gets_def)
  then show "since s0 w' \<and> R x (w_state w')"
    using hoareD_ok [OF assms [OF g, unfolded gives_def] s] since_lift [OF g] by blast
qed

lemma gives_save:
  assumes "gives s0 u R"
  shows "gives s0 (save sv u) R"
  unfolding gives_def
proof (rule hoareI)
  fix w e w' assume "since s0 w" and "save sv u w = (Inl e, w')"
  then show "since s0 w'" using save_result [of sv u w "Inl e" w'] by (auto simp: since_def)
next
  fix w x w' assume w: "since s0 w" and s: "save sv u w = (Inr x, w')"
  then obtain w1 w2 where u: "w_state w1 = w_state w" "u w1 = (Inr x, w2)" "w_state w' = w_state w2"
    using save_result [OF s] by auto
  then have "since s0 w1" using w by (simp add: since_def)
  then show "since s0 w' \<and> R x (w_state w')"
    using hoareD_ok [OF assms [unfolded gives_def] _ u(2)] u(3) by (simp add: since_def)
qed

lemma keeps_gives: "gives s0 m R \<Longrightarrow> keeps (since s0) m"
  unfolding gives_def keeps_def by (erule hoare_conseq) auto

text \<open>A transaction followed by what its result calls for.\<close>

lemma keeps_after:
  assumes "gives s0 m R" and "\<And>s x. good s0 s \<Longrightarrow> R x s \<Longrightarrow> keeps (since s) (f x)"
  shows "keeps (since s0) (m_bind m f)"
  unfolding keeps_def
proof (rule hoare_bind [OF assms(1) [unfolded gives_def]])
  fix x
  show "hoare (\<lambda>w. since s0 w \<and> R x (w_state w)) (f x) (\<lambda>_. since s0) (since s0)"
    by (rule hoare_conseq [OF from_current [where T = "R x" and R = "\<lambda>_ _. True"]])
      (use assms(2) in \<open>auto simp: keeps_def intro: hoare_conseq\<close>)
qed

definition tracked_events :: "pipeline_event list \<Rightarrow> persisted_state \<Rightarrow> bool" where
  "tracked_events es s \<longleftrightarrow> list_all (\<lambda>e. tracked s (pe_issue_id e)) es"

lemma tracked_events_mono: "good s0 s \<Longrightarrow> tracked_events es s0 \<Longrightarrow> tracked_events es s"
  using tracked_mono unfolding tracked_events_def good_def list_all_iff by blast

lemmas gives_rules = gives_bind gives_then gives_err gives_if gives_option

lemma event_of_fields [simp]:
  "pe_issue_id (event_of kind run a spec severity summary) = run_issue_id run"
  "pe_issue_id (contention_event run a spec worker) = run_issue_id run"
  "pe_issue_id (completion_event sv run a result artifacts) = run_issue_id run"
  by (simp_all add: event_of_def contention_event_def completion_event_def Let_def)

lemma hoare_if:
  "(b \<Longrightarrow> hoare P m Q E) \<Longrightarrow> (\<not> b \<Longrightarrow> hoare P n Q E) \<Longrightarrow> hoare P (if b then m else n) Q E"
  by simp

lemma hoare_ext_same: "ext_only m \<Longrightarrow> cp_inv s \<Longrightarrow>
    hoare (\<lambda>w. w_state w = s) m (\<lambda>_ w. w_state w = s) (since s)"
proof (rule hoareI)
  fix w x w' assume "ext_only m" and "w_state w = s" and "m w = (Inr x, w')"
  then show "w_state w' = s" using ext_only_state [of m w] by simp
next
  fix w e w' assume "ext_only m" and "cp_inv s" and "w_state w = s" and "m w = (Inl e, w')"
  then show "since s w'" using ext_only_state [of m w] by (simp add: since_def good_def)
qed

lemma hoare_same_since:
  "cp_inv s \<Longrightarrow> gives s m R \<Longrightarrow> hoare (\<lambda>w. w_state w = s) m (\<lambda>x w. since s w \<and> R x (w_state w)) (since s)"
  unfolding gives_def by (erule hoare_pre) (simp add: since_def good_def)

lemma gives_start:
  assumes inv: "cp_inv s" and a: "gm_get (ps_attempts s) aid = Some a"
    and "att_status a = AttemptStatusPending" and "tracked_events events s"
  shows "gives s (m_then (put_attempt aid (start_attempt a worker lease now keys))
      (m_then (record_comment sv (run_issue_id (gm_get_or zero_run_request (ps_runs s) (att_run_id a))) body)
         (m_ret (Some (start_attempt a worker lease now keys, spec), events))))
    (\<lambda>x. tracked_events (snd x))"
proof -
  note K = attempt_known [OF inv a]
  have "keeps (since s) (put_attempt aid (start_attempt a worker lease now keys))"
    by (rule keeps_put_attempt)
      (use K a assms(3) in \<open>auto simp: attempt_ok_def start_attempt_def finished_def follows_def\<close>)
  then show ?thesis
    using K assms(4)
    by (intro gives_then keeps_record_comment gives_ret)
      (auto simp: run_ok_def intro: tracked_events_mono)
qed

lemma claim_loop_gives:
  assumes inv: "cp_inv s"
  shows "\<forall>aid \<in> set ids. \<exists>a. gm_get (ps_attempts s) aid = Some a \<and> att_status a = AttemptStatusPending \<Longrightarrow>
    tracked_events events s \<Longrightarrow>
    hoare (\<lambda>w. w_state w = s) (claim_loop sv worker lease allowed issue_id now ids events)
      (\<lambda>x w. since s w \<and> tracked_events (snd x) (w_state w)) (since s)"
proof (induction ids arbitrary: events)
  case Nil
  then show ?case using inv by (simp add: hoare_def m_ret_def since_def good_def)
next
  case (Cons aid rest)
  let ?Q = "\<lambda>x w. since s w \<and> tracked_events (snd x) (w_state w)"
  obtain a where a: "gm_get (ps_attempts s) aid = Some a" "att_status a = AttemptStatusPending"
    using Cons.prems(1) by auto
  let ?run = "gm_get_or zero_run_request (ps_runs s) (att_run_id a)"
  have ga: "gm_get_or zero_stage_attempt (ps_attempts s) aid = a" using a by (simp add: gm_get_or_def)
  have issue: "tracked s (run_issue_id ?run)"
    using attempt_known [OF inv a(1)] by (simp add: run_ok_def)
  have skip: "hoare (\<lambda>w. w_state w = s) (claim_loop sv worker lease allowed issue_id now rest es) ?Q (since s)"
    if "tracked_events es s" for es
    by (rule Cons.IH) (use Cons.prems that in auto)
  have start: "hoare (\<lambda>w. w_state w = s)
      (m_then (put_attempt aid (start_attempt a worker lease now keys))
        (m_then (record_comment sv (run_issue_id ?run) body)
          (m_ret (Some (start_attempt a worker lease now keys, spec), events)))) ?Q (since s)"
    for keys body spec
    by (rule hoare_same_since [OF inv gives_start [OF inv a Cons.prems(2)]])
  have err: "hoare (\<lambda>w. w_state w = s) (m_err e) ?Q (since s)" for e
    using inv by (simp add: hoare_def m_err_def since_def good_def)
  have lock: "hoare (\<lambda>w. w_state w = s)
      (if keys = [] \<and> keys_for_stage ?run spec \<noteq> [] then
         claim_loop sv worker lease allowed issue_id now rest (events @ [contention_event ?run a spec worker])
       else m_then (put_attempt aid (start_attempt a worker lease now keys))
         (m_then (record_comment sv (run_issue_id ?run) body)
           (m_ret (Some (start_attempt a worker lease now keys, spec), events)))) ?Q (since s)"
    for keys spec body
  proof -
    have "tracked_events (events @ [contention_event ?run a spec worker]) s"
      using Cons.prems(2) issue by (simp add: tracked_events_def)
    then show ?thesis by (intro hoare_if skip start)
  qed
  have body: "hoare (\<lambda>w. w_state w = s)
      (m_bind (pipeline_plan_for_run sv ?run) (\<lambda>p. case p of
           None \<Rightarrow> m_err (missing_plan ?run)
         | Some plan \<Rightarrow> (case gm_get (plan_specs_map (Some plan)) (att_stage a) of
             None \<Rightarrow> m_err (''run '' @ run_id ?run @ '' pipeline plan missing stage '' @ att_stage a)
           | Some spec \<Rightarrow> m_bind (on_ext (acquire_locks (sv_locker sv) ?run a spec worker lease)) (\<lambda>keys.
               if keys = [] \<and> keys_for_stage ?run spec \<noteq> [] then
                 claim_loop sv worker lease allowed issue_id now rest (events @ [contention_event ?run a spec worker])
               else m_then (put_attempt aid (start_attempt a worker lease now keys))
                 (m_then (record_comment sv (run_issue_id ?run)
                    (''Stage `'' @ att_stage a @ ''` started on worker `'' @ worker @ ''`.''))
                   (m_ret (Some (start_attempt a worker lease now keys, spec), events))))))) ?Q (since s)"
    by (rule hoare_bind [OF hoare_ext_same [OF ext_plan inv]])
      (auto split: option.splits intro!: err lock hoare_bind [OF hoare_ext_same [OF ext_only_on_ext inv]])
  have here: "hoare (\<lambda>w. w_state w = s) (m_bind get_state f) ?Q (since s)"
    if "hoare (\<lambda>w. w_state w = s) (f s) ?Q (since s)" for f
    using that by (simp add: hoare_def m_bind_def get_state_def m_gets_def)
  show ?case
    unfolding claim_loop.simps
    by (rule here, unfold Let_def ga, intro hoare_if body skip Cons.prems(2))
qed

lemma pending_ids_pending:
  assumes "cp_inv s" and "aid \<in> set (pending_ids s)"
  shows "\<exists>a. gm_get (ps_attempts s) aid = Some a \<and> att_status a = AttemptStatusPending"
proof -
  obtain a where "(aid, a) \<in> set (ps_attempts s)" and "att_status a = AttemptStatusPending"
    using assms(2) by (auto simp: pending_ids_def)
  moreover have "gm_wf (ps_attempts s)" using assms(1) by (simp add: cp_inv_def)
  ultimately show ?thesis by (intro exI [of _ a]) (simp add: gm_get_wf)
qed

lemma claim_update_gives:
  "gives s0 (claim_update sv worker lease allowed issue_id) (\<lambda>x. tracked_events (snd x))"
  unfolding claim_update_def
proof (rule gives_bind [OF ext_only_since [OF ext_only_ask_ext]])
  fix now
  let ?loop = "\<lambda>s. claim_loop sv worker lease allowed issue_id now (pending_ids s) []"
  have loop: "hoare (\<lambda>w. w_state w = s) (?loop s)
      (\<lambda>x w. since s w \<and> tracked_events (snd x) (w_state w)) (since s)" if "good s0 s" for s
    by (rule claim_loop_gives)
      (use that pending_ids_pending in \<open>simp_all add: good_def tracked_events_def\<close>)
  show "gives s0 (m_bind get_state ?loop) (\<lambda>x. tracked_events (snd x))"
    unfolding gives_def
  proof (rule hoareI)
    fix w x w' assume w: "since s0 w" and m: "m_bind get_state ?loop w = (Inr x, w')"
    then have g: "good s0 (w_state w)" by (simp add: since_def)
    have l: "?loop (w_state w) w = (Inr x, w')" using m by (simp add: m_bind_def get_state_def m_gets_def)
    have "since (w_state w) w' \<and> tracked_events (snd x) (w_state w')"
      by (rule hoareD_ok [OF loop [OF g] refl l])
    then show "since s0 w' \<and> tracked_events (snd x) (w_state w')" using since_lift [OF g] by blast
  next
    fix w e w' assume w: "since s0 w" and m: "m_bind get_state ?loop w = (Inl e, w')"
    then have g: "good s0 (w_state w)" by (simp add: since_def)
    have l: "?loop (w_state w) w = (Inl e, w')" using m by (simp add: m_bind_def get_state_def m_gets_def)
    have "since (w_state w) w'"
      by (rule hoareD_err [OF loop [OF g] refl l])
    then show "since s0 w'" using since_lift [OF g] by blast
  qed
qed

lemma final_status_finished: "att_status a = final_status st \<Longrightarrow> finished a"
  by (simp add: finished_def final_status_def)

lemma finish_fields:
  "finished (finish_attempt a result artifacts now)" "att_id (finish_attempt a result artifacts now) = att_id a"
  "att_run_id (finish_attempt a result artifacts now) = att_run_id a"
  "att_stage (finish_attempt a result artifacts now) = att_stage a"
  "att_attempt (finish_attempt a result artifacts now) = att_attempt a"
  "att_finished_at (finish_attempt a result artifacts now) = Some now"
  "att_result (finish_attempt a result artifacts now) = Some result"
  "att_status (finish_attempt a result artifacts now) = final_status (sres_status result)"
  "att_lease_expires_at (finish_attempt a result artifacts now) = None"
  by (simp_all add: finish_attempt_def finished_def final_status_def)

text \<open>What is recorded of a result only touches the metadata.\<close>

definition only_metadata :: "stage_attempt \<times> run_request \<Rightarrow> stage_attempt \<times> run_request \<Rightarrow> bool" where
  "only_metadata ar ar' \<longleftrightarrow>
     (\<exists>m n. ar' = ((fst ar)\<lparr>att_metadata := m\<rparr>, (snd ar)\<lparr>run_metadata := n\<rparr>))"

lemma only_metadata_refl: "only_metadata ar ar"
  unfolding only_metadata_def
  by (intro exI [of _ "att_metadata (fst ar)"] exI [of _ "run_metadata (snd ar)"]) simp

lemma only_metadata_trans: "only_metadata x y \<Longrightarrow> only_metadata y z \<Longrightarrow> only_metadata x z"
  unfolding only_metadata_def by auto

lemma only_metadata_set:
  "only_metadata (a, r) (a\<lparr>att_metadata := m\<rparr>, r)" "only_metadata (a, r) (a, r\<lparr>run_metadata := n\<rparr>)"
  "only_metadata (a, r) (a\<lparr>att_metadata := m\<rparr>, r\<lparr>run_metadata := n\<rparr>)"
  by (auto simp: only_metadata_def intro: exI [of _ "att_metadata a"] exI [of _ "run_metadata r"])

lemma only_metadata_commits: "only_metadata ar (persist_stage_commits o' ar)"
  unfolding persist_stage_commits_def Let_def
  by (rule fold_keeps [where I = "only_metadata ar"])
    (auto simp: split_beta intro: only_metadata_refl only_metadata_trans [OF _ only_metadata_set(3)])

lemma only_metadata_evidence: "only_metadata (a, r) (a, persist_pipeline_plan_evidence o' r)"
  unfolding persist_pipeline_plan_evidence_def
  by (rule fold_keeps [where I = "\<lambda>x. only_metadata (a, r) (a, x)"])
    (auto intro: only_metadata_refl only_metadata_trans [OF _ only_metadata_set(2)] split: option.splits)

lemma only_metadata_journal: "only_metadata ar (journal_outputs outputs ar)"
proof (cases outputs)
  case None
  then show ?thesis by (simp add: journal_outputs_def only_metadata_refl)
next
  case (Some o')
  define ar1 where "ar1 = (case extract_journal_entry (att_stage (fst ar)) o' of
                None \<Rightarrow> ar
              | Some e \<Rightarrow>
                  ((fst ar)\<lparr>att_metadata := meta_put ''journal_entry'' (JObj e) (att_metadata (fst ar))\<rparr>,
                   (snd ar)\<lparr>run_metadata := Some (append_journal_history
                      (gm_put ''last_journal'' (JObj e) (ensure_metadata (run_metadata (snd ar)))) e)\<rparr>))"
  have 1: "only_metadata ar ar1"
    using only_metadata_set(3) [of "fst ar" "snd ar"]
    by (cases ar) (auto simp: ar1_def intro: only_metadata_refl split: option.splits)
  have 2: "only_metadata ar1 (fst ar1, persist_pipeline_plan_evidence o' (snd ar1))"
    using only_metadata_evidence [of "fst ar1" "snd ar1"] by simp
  have "journal_outputs outputs ar = persist_stage_commits o' (fst ar1, persist_pipeline_plan_evidence o' (snd ar1))"
    by (simp add: journal_outputs_def Some ar1_def Let_def split_beta)
  then show ?thesis
    using only_metadata_trans [OF only_metadata_trans [OF 1 2] only_metadata_commits] by simp
qed

lemma put_stage_state_metadata: "\<exists>m. put_stage_state stage st r = r\<lparr>run_metadata := m\<rparr>"
  by (auto simp: put_stage_state_def Let_def)

lemma only_metadata_outcome: "only_metadata ar (record_outcome result outputs now ar)"
proof -
  obtain a r where ar: "journal_outputs outputs ar = (a, r)" by fastforce
  define a' where "a' = a\<lparr>att_metadata := meta_delete ''runtime_summary''
      (meta_delete ''runtime_state'' (att_metadata a))\<rparr>"
  obtain m where "put_stage_state (att_stage a') (finish_state a' result outputs now) r = r\<lparr>run_metadata := m\<rparr>"
    using put_stage_state_metadata by blast
  then have "record_outcome result outputs now ar = (a', r\<lparr>run_metadata := m\<rparr>)"
    unfolding record_outcome_def ar Let_def prod.case a'_def by simp
  then have "only_metadata (a, r) (record_outcome result outputs now ar)"
    by (simp add: a'_def only_metadata_set)
  then show ?thesis using only_metadata_trans [OF only_metadata_journal] ar by metis
qed

lemma only_metadata_attach: "only_metadata ar (attach_report entry ar)"
  by (cases entry; cases ar) (simp_all add: attach_report_def only_metadata_refl only_metadata_set)

lemma finished_metadata [simp]: "finished (a\<lparr>att_metadata := m\<rparr>) = finished a"
  by (simp add: finished_def)

lemma final_not_running: "final_status st \<noteq> AttemptStatusRunning"
  by (simp add: final_status_def)

lemma finish_ok:
  assumes "attempt_ok s k a"
  shows "attempt_ok s k ((finish_attempt a result artifacts now)\<lparr>att_metadata := m\<rparr>)"
    and "follows a ((finish_attempt a result artifacts now)\<lparr>att_metadata := m\<rparr>)"
proof -
  show "attempt_ok s k ((finish_attempt a result artifacts now)\<lparr>att_metadata := m\<rparr>)"
    using assms final_not_running [of "sres_status result"]
    unfolding attempt_ok_def by (simp add: finish_fields)
  show "follows a ((finish_attempt a result artifacts now)\<lparr>att_metadata := m\<rparr>)"
    by (simp add: follows_def finish_fields)
qed

text \<open>Completing: the attempt is finished, the run keeps its identity.\<close>

lemma complete_update_gives:
  "gives s0 (complete_update sv aid result artifacts) (\<lambda>e. tracked_events [e])"
proof -
  have fin: "gives s (let (a, r) = attach_report entry (record_outcome result outputs now
          (finish_attempt a0 result artifacts now, gm_get_or zero_run_request (ps_runs s) (att_run_id a0)))
        in m_then (put_attempt aid a)
             (m_bind get_state (\<lambda>s'. let run = r\<lparr>run_stats_of := collect_run_stats s' (run_id r), run_updated_at := now\<rparr>
                in m_then (put_run run)
                  (m_then (record_comment sv (run_issue_id run) (completion_comment a result))
                     (m_ret (completion_event sv run a result artifacts)))))) (\<lambda>e. tracked_events [e])"
    if g: "good s0 s" and a0: "gm_get (ps_attempts s) aid = Some a0" for s a0 now entry outputs
  proof -
    have inv: "cp_inv s" using g by (simp add: good_def)
    note K = attempt_known [OF inv a0]
    let ?run = "gm_get_or zero_run_request (ps_runs s) (att_run_id a0)"
    obtain m n where eq: "attach_report entry (record_outcome result outputs now
          (finish_attempt a0 result artifacts now, ?run)) =
        ((finish_attempt a0 result artifacts now)\<lparr>att_metadata := m\<rparr>, ?run\<lparr>run_metadata := n\<rparr>)"
      using only_metadata_trans [OF only_metadata_outcome only_metadata_attach,
          of "(finish_attempt a0 result artifacts now, ?run)" entry result outputs now]
      unfolding only_metadata_def by auto
    have A: "keeps (since s) (put_attempt aid ((finish_attempt a0 result artifacts now)\<lparr>att_metadata := m\<rparr>))"
      by (rule keeps_put_attempt [OF finish_ok(1)])
        (use K a0 in \<open>auto intro: finish_ok(2)\<close>)
    have R: "keeps (since s') (put_run (?run\<lparr>run_metadata := n, run_stats_of := st, run_updated_at := now\<rparr>))"
      if "good s s'" for s' st
      by (rule keeps_put_later [OF inv conjunct2 [OF conjunct2 [OF K]] that])
        (use K in \<open>auto simp: run_ok_def same_run_def\<close>)
    have T: "tracked s' (run_issue_id ?run)" if "good s s'" for s'
      using K that tracked_mono unfolding good_def run_ok_def by blast
    show ?thesis
      unfolding eq prod.case Let_def
      by (intro gives_rules gives_get gives_ret A R keeps_record_comment)
        (simp_all add: T tracked_events_def, blast intro: T good_trans dest: good_def [THEN iffD1])
  qed
  show ?thesis
    unfolding complete_update_def Let_def finish_fields
    by (intro gives_get gives_rules since_ext fin [unfolded Let_def])
qed

lemma recover_attempt_gives:
  assumes g: "good s0 s" and e: "tracked_events events s"
  shows "gives s (let a = gm_get_or zero_stage_attempt (ps_attempts s) aid
       in if \<not> stuck max_age now a then m_ret events
          else
            (let a' = requeue_attempt a
             in m_then (on_ext (release_locks (sv_locker sv) a'))
               (m_then (put_attempt aid a')
                  (let run = gm_get_or zero_run_request (ps_runs s) (att_run_id a);
                       spec = gm_get_or zero_stage_spec (sv_specs sv) (att_stage a)
                   in m_then (record_comment sv (run_issue_id run)
                        (''Recovered stale stage `'' @ att_stage a @ ''` back to pending.''))
                      (m_ret (events @ [event_of ''stale_attempt_recovered'' run a' spec ''low''
                         (''Recovered stale stage '' @ att_stage a @ '' back to pending.'')])))))) tracked_events"
proof (cases "stuck max_age now (gm_get_or zero_stage_attempt (ps_attempts s) aid)")
  case False
  then show ?thesis using e by (simp add: Let_def) (blast intro: gives_ret tracked_events_mono)
next
  case True
  then obtain a where a: "gm_get (ps_attempts s) aid = Some a" and run: "att_status a = AttemptStatusRunning"
    by (auto simp: gm_get_or_def stuck_def zero_stage_attempt_def split: option.splits)
  have ga: "gm_get_or zero_stage_attempt (ps_attempts s) aid = a" using a by (simp add: gm_get_or_def)
  have inv: "cp_inv s" using g by (simp add: good_def)
  note K = attempt_known [OF inv a]
  let ?run = "gm_get_or zero_run_request (ps_runs s) (att_run_id a)"
  have A: "keeps (since s) (put_attempt aid (requeue_attempt a))"
    by (rule keeps_put_attempt)
      (use K a run in \<open>auto simp: attempt_ok_def requeue_attempt_def finished_def follows_def\<close>)
  have T: "tracked s (run_issue_id ?run)" using K by (simp add: run_ok_def)
  have E: "tracked_events (events @ [event_of k ?run b spec sev su]) s'" if "good s s'" for k b spec sev su s'
    using that T e tracked_mono tracked_events_mono [OF that e]
    by (auto simp: tracked_events_def good_def)
  show ?thesis
    using True unfolding ga Let_def
    by (simp, intro gives_rules gives_ret since_ext A E keeps_record_comment T)
qed

lemma recover_fold:
  "hoare (\<lambda>w. since s0 w \<and> tracked_events events (w_state w))
     (m_fold (recover_attempt sv max_age now) ids events)
     (\<lambda>es w. since s0 w \<and> tracked_events es (w_state w)) (since s0)"
proof (rule hoare_fold [where I = "\<lambda>es w. since s0 w \<and> tracked_events es (w_state w)"])
  fix aid events
  have "hoare (since s) (recover_attempt sv max_age now aid events)
      (\<lambda>es w. since s w \<and> tracked_events es (w_state w)) (since s)"
    if "good s0 s" and "tracked_events events s" for s
  proof -
    have "gives s (recover_attempt sv max_age now aid events) tracked_events"
      unfolding recover_attempt_def
      by (rule gives_get, rule recover_attempt_gives) (use that tracked_events_mono in blast)+
    then show ?thesis by (simp add: gives_def)
  qed
  then show "hoare (\<lambda>w. since s0 w \<and> tracked_events events (w_state w)) (recover_attempt sv max_age now aid events)
      (\<lambda>es w. since s0 w \<and> tracked_events es (w_state w)) (since s0)"
    by (rule from_current)
qed

lemma recover_update_gives:
  "gives s0 (m_bind (ask_ext (sv_now sv)) (\<lambda>now. m_bind get_state (\<lambda>s.
         m_fold (recover_attempt sv max_age now) (gm_keys (ps_attempts s)) []))) tracked_events"
proof -
  have "gives s (m_fold (recover_attempt sv max_age now) ids []) tracked_events" for s now ids
    using recover_fold [of s "[]"] by (simp add: gives_def tracked_events_def)
  then show ?thesis by (intro gives_bind gives_get since_ext)
qed

context event_source
begin

lemma keeps_emit_all: "tracked_events es s \<Longrightarrow> keeps (since s) (m_iter (emit_signals sv) es)"
  by (intro keeps_iter keeps_emit) (simp add: tracked_events_def list_all_iff)

lemma keeps_claim_next: "keeps (since s0) (claim_next sv worker lease allowed issue_id)"
  unfolding claim_next_def
  by (rule keeps_after [OF gives_save [OF claim_update_gives]])
    (auto simp: split_beta intro!: keeps_then keeps_ret keeps_emit_all)

lemma keeps_complete: "keeps (since s0) (complete sv aid result artifacts)"
  unfolding complete_def
  by (rule keeps_after [OF gives_save [OF complete_update_gives]])
    (intro keeps_emit, simp add: tracked_events_def)

lemma keeps_recover: "keeps (since s0) (recover_stuck_runs sv max_age)"
  unfolding recover_stuck_runs_def
  by (rule keeps_after [OF gives_save [OF recover_update_gives]]) (rule keeps_emit_all)

end

subsection \<open>The control plane as it is wired\<close>

text \<open>
  cmd/control-plane runs the service on the Postgres lock manager and the Postgres signal store.
  \<open>wire_service out\<close> puts the two tables beside the rest of the outside world, whose operations
  \<open>out\<close> provides.
\<close>

record 'y plane =
  pl_locks :: lock_db
  pl_signals :: signal_db
  pl_rest :: 'y

definition on_locks :: "(lock_db, 'a) go \<Rightarrow> ('y plane, 'a) go" where
  "on_locks m p = (case m (pl_locks p) of (r, d) \<Rightarrow> (r, p\<lparr>pl_locks := d\<rparr>))"

definition on_signals :: "(signal_db \<Rightarrow> (string + 'a) \<times> signal_db) \<Rightarrow> ('y plane, 'a) go" where
  "on_signals m p = (case m (pl_signals p) of (r, d) \<Rightarrow> (r, p\<lparr>pl_signals := d\<rparr>))"

definition on_rest :: "('y \<Rightarrow> 'b \<times> 'y) \<Rightarrow> 'y plane \<Rightarrow> 'b \<times> 'y plane" where
  "on_rest m p = (case m (pl_rest p) of (r, y) \<Rightarrow> (r, p\<lparr>pl_rest := y\<rparr>))"

definition wire_service :: "'y service \<Rightarrow> 'y plane service" where
  "wire_service out =
     \<lparr>sv_now = on_rest (sv_now out), sv_list_issues = on_rest (sv_list_issues out),
      sv_append_comment = (\<lambda>i b. on_rest (sv_append_comment out i b)),
      sv_set_labels = (\<lambda>i ls. on_rest (sv_set_labels out i ls)),
      sv_locker = \<lparr>lk_try_acquire = (\<lambda>k ow l md. on_locks (pg_try_acquire k ow l md)),
        lk_refresh = (\<lambda>k ow l. on_locks (pg_refresh k ow l)),
        lk_release = (\<lambda>k ow. on_locks (pg_release k ow))\<rparr>,
      sv_record_event = (\<lambda>e. on_signals (\<lambda>d. record_pipeline_event postgres_store (sd_app_now d) e d)),
      sv_specs = sv_specs out, sv_work_order_repo = sv_work_order_repo out,
      sv_read_plan = (\<lambda>p s. on_rest (sv_read_plan out p s)),
      sv_write_file = (\<lambda>p s c. on_rest (sv_write_file out p s c)),
      sv_write_text = (\<lambda>p c. on_rest (sv_write_text out p c)),
      sv_mkdir_all = (\<lambda>p. on_rest (sv_mkdir_all out p)), sv_stat = (\<lambda>p. on_rest (sv_stat out p)),
      sv_read_dir = (\<lambda>p. on_rest (sv_read_dir out p)), sv_git = (\<lambda>d args. on_rest (sv_git out d args)),
      sv_decode = sv_decode out, sv_read_state = on_rest (sv_read_state out),
      sv_write_state = on_rest (sv_write_state out)\<rparr>"

interpretation wired: event_source "wire_service out" for out :: "'y service"
proof
  fix e gs and x x' :: "'y plane"
  assume "sv_record_event (wire_service out) e x = (Inr gs, x')"
  then obtain d where "record_pipeline_event postgres_store (sd_app_now (pl_signals x)) e (pl_signals x) = (Inr gs, d)"
    by (auto simp: wire_service_def on_signals_def split: prod.splits)
  then show "list_all (about_event e) gs"
    using pgs.record_about by blast
qed

end
