(* ===== verification/ControlPlaneSafety.thy ===== *)
theory ControlPlaneSafety
  imports ControlPlaneInv
begin

section \<open>What the control plane guarantees\<close>

text \<open>
  The steps of the control plane are its handlers, any change of the outside world between them,
  and any order in which the entries of the Go maps are visited.  The theorems are about every
  state that these steps reach, about a claim, about a reconciliation and about a recovery.
\<close>

subsection \<open>Steps and reachable states\<close>

definition same_entries :: "persisted_state \<Rightarrow> persisted_state \<Rightarrow> bool" where
  "same_entries s s' \<longleftrightarrow> mset (ps_issues s') = mset (ps_issues s) \<and> mset (ps_runs s') = mset (ps_runs s) \<and>
     mset (ps_attempts s') = mset (ps_attempts s) \<and> mset (ps_counters s') = mset (ps_counters s)"

inductive cp_step :: "'x service \<Rightarrow> 'x world \<Rightarrow> 'x world \<Rightarrow> bool" for sv where
  enqueue: "cp_step sv w (snd (enqueue_from_gitlab sv w))"
| reconcile_all: "cp_step sv w (snd (reconcile sv issue_filter w))"
| ensure_run: "cp_step sv w (snd (ensure_run_for_issue sv i w))"
| persist_artifacts: "cp_step sv w (snd (persist_pipeline_artifacts sv rid outputs w))"
| claim: "cp_step sv w (snd (claim_next sv worker lease allowed i w))"
| beat: "cp_step sv w (snd (heartbeat sv aid lease summary md w))"
| finish: "cp_step sv w (snd (complete sv aid result artifacts w))"
| recover: "cp_step sv w (snd (recover_stuck_runs sv max_age w))"
| outside: "cp_step sv w (w\<lparr>w_ext := x\<rparr>)"
| reorder: "same_entries (w_state w) s \<Longrightarrow> cp_step sv w (w\<lparr>w_state := s\<rparr>)"

inductive cp_reach :: "'x service \<Rightarrow> 'x world \<Rightarrow> bool" for sv where
  start: "w_state w = empty_state \<Longrightarrow> cp_reach sv w"
| step: "cp_reach sv w \<Longrightarrow> cp_step sv w w' \<Longrightarrow> cp_reach sv w'"

inductive_cases cp_stepE: "cp_step sv w w'"

lemma reorder_good:
  assumes "cp_inv s" and "same_entries s s'"
  shows "good s s'"
proof -
  have I: "gm_wf (ps_issues s') \<and> gm_get (ps_issues s') = gm_get (ps_issues s)"
    and R: "gm_wf (ps_runs s') \<and> gm_get (ps_runs s') = gm_get (ps_runs s)"
    and A: "gm_wf (ps_attempts s') \<and> gm_get (ps_attempts s') = gm_get (ps_attempts s)"
    and C: "gm_wf (ps_counters s') \<and> gm_get (ps_counters s') = gm_get (ps_counters s)"
    using assms gm_get_perm [of "ps_issues s" "ps_issues s'"] gm_get_perm [of "ps_runs s" "ps_runs s'"]
      gm_get_perm [of "ps_attempts s" "ps_attempts s'"] gm_get_perm [of "ps_counters s" "ps_counters s'"]
    by (simp_all add: cp_inv_def same_entries_def)
  have c: "counter_of s' = counter_of s" using C by (simp add: counter_of_def gm_get_or_def fun_eq_iff)
  have "base s s'" by (simp add: base_def tracked_def known_run_def c I R)
  then have "cp_inv s'"
    using assms(1) base_attempt base_run unfolding cp_inv_def c by (simp add: I R A C)
  moreover have "evolves s s'"
    by (simp add: evolves_parts grows_def I R A c longer_log_def)
  ultimately show ?thesis by (simp add: good_def)
qed

context event_source
begin

lemma step_good:
  assumes "cp_step sv w w'" and "cp_inv (w_state w)"
  shows "good (w_state w) (w_state w')"
proof -
  have w: "since (w_state w) w" using assms(2) by (simp add: since_def good_def)
  note handlers = keepsD [OF keeps_enqueue w] keepsD [OF keeps_reconcile w] keepsD [OF keeps_ensure_run w]
    keepsD [OF keeps_persist_artifacts w] keepsD [OF keeps_claim_next w] keepsD [OF keeps_heartbeat w]
    keepsD [OF keeps_complete w] keepsD [OF keeps_recover w]
  have "since (w_state w) w'"
    using assms(1)
    by (elim cp_stepE)
      (simp_all add: handlers, use w reorder_good [OF assms(2)] in \<open>simp_all add: since_def\<close>)
  then show ?thesis by (simp add: since_def)
qed

lemma reach_inv: "cp_reach sv w \<Longrightarrow> cp_inv (w_state w)"
proof (induction rule: cp_reach.induct)
  case (start w)
  then show ?case by (simp add: cp_inv_def empty_state_def counter_of_def gm_get_or_def)
next
  case (step w w')
  then show ?case using step_good by (simp add: good_def)
qed

lemma history: "rtranclp (cp_step sv) w w' \<Longrightarrow> cp_inv (w_state w) \<Longrightarrow> good (w_state w) (w_state w')"
proof (induction rule: rtranclp_induct)
  case base
  then show ?case by (rule good_refl)
next
  case (step w1 w2)
  then show ?case using step_good good_trans unfolding good_def by blast
qed

end

text \<open>
  C1: the invariant of the persisted state.  In every state the control plane can reach, whatever
  the outside world does and in whatever order maps are visited, each entry is stored under its own
  identifier and was numbered by the counter, each run belongs to a tracked issue and each attempt
  to a known run, statuses are among the defined ones, a running attempt has a lease (so that
  recovery finds it), and a finished one has its result and its end.
\<close>

theorem control_plane_invariant:
  assumes "cp_reach (wire_service out) w"
  shows "cp_inv (w_state w)"
  by (rule wired.reach_inv [OF assms])

text \<open>
  C2: history is kept.  From a reachable state on, no step ever removes an issue, a run or an
  attempt, changes the issue, the work order or the date of a run, or the run, stage and number of
  an attempt; comments are only appended; an attempt that has finished never becomes pending or
  running again.
\<close>

theorem control_plane_history:
  assumes "cp_reach (wire_service out) w" and "rtranclp (cp_step (wire_service out)) w w'"
  shows "evolves (w_state w) (w_state w')"
  using wired.history [OF assms(2) wired.reach_inv [OF assms(1)]] by (simp add: good_def)

subsection \<open>A claim\<close>

lemma get_state_ok: "get_state w = (Inr s, w') \<longleftrightarrow> s = w_state w \<and> w' = w"
  by (auto simp: get_state_def m_gets_def)

lemma get_state_bind: "m_bind get_state f w = f (w_state w) w"
  by (simp add: m_bind_def get_state_def m_gets_def)

lemma put_attempt_ok: "put_attempt k a w = (Inr (), w') \<longleftrightarrow>
    w' = w\<lparr>w_state := (w_state w)\<lparr>ps_attempts := gm_put k a (ps_attempts (w_state w))\<rparr>\<rparr>"
  by (auto simp: put_attempt_def on_state_def m_modify_def)

lemma ext_only_ok: "ext_only m \<Longrightarrow> m w = (r, w') \<Longrightarrow> w_state w' = w_state w"
  using ext_only_state [of m w] by simp

text \<open>What leaves a part of the persisted state as it is.\<close>

definition frames :: "(persisted_state \<Rightarrow> 'b) \<Rightarrow> ('x world, 'a) go \<Rightarrow> bool" where
  "frames F m \<longleftrightarrow> (\<forall>w. F (w_state (snd (m w))) = F (w_state w))"

lemma frames_keeps: "frames F m \<longleftrightarrow> (\<forall>A. keeps (\<lambda>w. F (w_state w) = A) m)"
  unfolding frames_def by (auto intro: keepsI dest: keepsD)

lemma frames_ext: "ext_only m \<Longrightarrow> frames F m"
  by (simp add: frames_def ext_only_state)

lemma frames_bind: "frames F m \<Longrightarrow> (\<And>x. frames F (f x)) \<Longrightarrow> frames F (m_bind m f)"
  unfolding frames_keeps by (blast intro: keeps_bind)

lemma frames_then: "frames F m \<Longrightarrow> frames F n \<Longrightarrow> frames F (m_then m n)"
  unfolding frames_keeps by (blast intro: keeps_then)

lemma frames_iter: "(\<And>x. frames F (f x)) \<Longrightarrow> frames F (m_iter f xs)"
  unfolding frames_keeps by (blast intro: keeps_iter)

lemma frames_ret: "frames F (m_ret x)"
  by (simp add: frames_def m_ret_def)

lemma frames_if: "frames F m \<Longrightarrow> frames F n \<Longrightarrow> frames F (if b then m else n)"
  by simp

lemma frames_save: "frames F m \<Longrightarrow> frames F (save sv m)"
  unfolding frames_def
proof
  fix w assume m: "\<forall>w. F (w_state (snd (m w))) = F (w_state w)"
  obtain r w' where s: "save sv m w = (r, w')" by fastforce
  from save_result [OF s] m show "F (w_state (snd (save sv m w))) = F (w_state w)"
    unfolding s by (metis snd_conv)
qed

lemma frames_weaken: "frames F m \<Longrightarrow> (\<And>s t. F s = F t \<Longrightarrow> G s = G t) \<Longrightarrow> frames G m"
  unfolding frames_def by blast

lemma framesD: "frames F m \<Longrightarrow> m w = (r, w') \<Longrightarrow> F (w_state w') = F (w_state w)"
  unfolding frames_def by (metis snd_conv)

abbreviation work :: "persisted_state \<Rightarrow> run_request gomap \<times> stage_attempt gomap" where
  "work s \<equiv> (ps_runs s, ps_attempts s)"

lemma frames_comment: "frames work (record_comment sv k body)"
proof -
  have c: "frames work (on_state (add_comment k body now))" for now
    by (simp add: frames_def on_state_def split_beta add_comment_eq next_id_fields Let_def)
  show ?thesis
    unfolding record_comment_def by (intro frames_bind frames_then c frames_ext ext_rules)
qed

lemma frames_emit: "frames work (emit_signals sv e)"
  unfolding emit_signals_def comment_signal_def comment_issue_def
  by (intro frames_bind frames_iter frames_ext ext_rules frames_if frames_ret frames_save frames_comment)

lemma frames_transition: "frames work (transition_issue sv issue labels body)"
proof -
  have r: "frames work (on_state (m_modify (relabel issue labels)))"
    by (simp add: frames_def on_state_def m_modify_def relabel_def)
  show ?thesis
    unfolding transition_issue_def by (intro frames_then r frames_comment frames_ext ext_only_on_ext)
qed

lemma frames_attempts: "frames work m \<Longrightarrow> frames ps_attempts m"
  by (erule frames_weaken) simp

lemma frames_put_run: "frames ps_attempts (put_run r)"
  by (simp add: frames_def put_run_def on_state_def m_modify_def)

text \<open>The claimed attempt, with the run and the locks it was claimed for.\<close>

definition claimed_from ::
  "'x service \<Rightarrow> string \<Rightarrow> int \<Rightarrow> string list \<Rightarrow> string \<Rightarrow> time \<Rightarrow> persisted_state \<Rightarrow> stage_attempt \<Rightarrow>
   stage_spec \<Rightarrow> 'x \<Rightarrow> 'x \<Rightarrow> bool" where
  "claimed_from sv worker lease allowed issue_id now s a spec x x' \<longleftrightarrow>
     (\<exists>aid a0 run keys. aid \<in> set (pending_ids s) \<and>
        a0 = gm_get_or zero_stage_attempt (ps_attempts s) aid \<and>
        run = gm_get_or zero_run_request (ps_runs s) (att_run_id a0) \<and>
        claimable allowed issue_id run a0 \<and> a = start_attempt a0 worker lease now keys \<and>
        acquire_locks (sv_locker sv) run a0 spec worker lease x = (Inr keys, x') \<and>
        \<not> (keys = [] \<and> keys_for_stage run spec \<noteq> []))"

lemma start_attempt_fields [simp]:
  "att_id (start_attempt a worker lease now keys) = att_id a"
  "att_run_id (start_attempt a worker lease now keys) = att_run_id a"
  "att_stage (start_attempt a worker lease now keys) = att_stage a"
  "att_status (start_attempt a worker lease now keys) = AttemptStatusRunning"
  "att_worker_id (start_attempt a worker lease now keys) = worker"
  "att_lease_expires_at (start_attempt a worker lease now keys) = Some (now + lease)"
  by (simp_all add: start_attempt_def)

lemma claim_loop_result:
  assumes "claim_loop sv worker lease allowed issue_id now ids events w = (Inr (c, es), w')"
    and "w_state w = s" and "set ids \<subseteq> set (pending_ids s)"
  shows "case c of
      None \<Rightarrow> w_state w' = s
    | Some (a, spec) \<Rightarrow>
        \<exists>aid x x'. claimed_from sv worker lease allowed issue_id now s a spec x x' \<and> aid \<in> set (pending_ids s) \<and>
          att_id a = att_id (gm_get_or zero_stage_attempt (ps_attempts s) aid) \<and>
          ps_attempts (w_state w') = gm_put aid a (ps_attempts s) \<and>
          (\<exists>v i body. w_ext v = x' \<and> record_comment sv i body v = (Inr (), w'))"
  using assms
proof (induction ids arbitrary: events w)
  case Nil
  then show ?case by (simp add: m_ret_ok)
next
  case (Cons aid rest)
  let ?a = "gm_get_or zero_stage_attempt (ps_attempts s) aid"
  let ?run = "gm_get_or zero_run_request (ps_runs s) (att_run_id ?a)"
  show ?case
  proof (cases "claimable allowed issue_id ?run ?a")
    case False
    then show ?thesis
      using Cons.IH [of events w] Cons.prems by (simp add: m_bind_ok get_state_ok Let_def)
  next
    case True
    define K where "K = (\<lambda>p. case p of None \<Rightarrow> m_err (missing_plan ?run) | Some plan \<Rightarrow>
        (case gm_get (plan_specs_map (Some plan)) (att_stage ?a) of
          None \<Rightarrow> m_err (''run '' @ run_id ?run @ '' pipeline plan missing stage '' @ att_stage ?a)
        | Some spec \<Rightarrow> m_bind (on_ext (acquire_locks (sv_locker sv) ?run ?a spec worker lease)) (\<lambda>keys.
            if keys = [] \<and> keys_for_stage ?run spec \<noteq> [] then
              claim_loop sv worker lease allowed issue_id now rest (events @ [contention_event ?run ?a spec worker])
            else m_then (put_attempt aid (start_attempt ?a worker lease now keys))
              (m_then (record_comment sv (run_issue_id ?run)
                 (''Stage `'' @ att_stage ?a @ ''` started on worker `'' @ worker @ ''`.''))
                (m_ret (Some (start_attempt ?a worker lease now keys, spec), events))))))"
    have "m_bind (pipeline_plan_for_run sv ?run) K w = (Inr (c, es), w')"
      using Cons.prems(1) True
      unfolding claim_loop.simps get_state_bind Let_def Cons.prems(2) K_def by (simp only: not_True_eq_False if_False)
    then obtain p w1 where p: "pipeline_plan_for_run sv ?run w = (Inr p, w1)" and rest: "K p w1 = (Inr (c, es), w')"
      unfolding m_bind_ok by blast
    have s1: "w_state w1 = s" using ext_only_ok [OF ext_plan p] Cons.prems(2) by simp
    obtain spec keys w2 where
      lock: "on_ext (acquire_locks (sv_locker sv) ?run ?a spec worker lease) w1 = (Inr keys, w2)"
      and after: "(if keys = [] \<and> keys_for_stage ?run spec \<noteq> [] then
              claim_loop sv worker lease allowed issue_id now rest (events @ [contention_event ?run ?a spec worker])
            else m_then (put_attempt aid (start_attempt ?a worker lease now keys))
              (m_then (record_comment sv (run_issue_id ?run)
                 (''Stage `'' @ att_stage ?a @ ''` started on worker `'' @ worker @ ''`.''))
                (m_ret (Some (start_attempt ?a worker lease now keys, spec), events)))) w2 = (Inr (c, es), w')"
      using rest unfolding K_def
      by (cases p; cases "gm_get (plan_specs_map p) (att_stage ?a)") (auto simp: m_err_def m_bind_ok)
    have s2: "w_state w2 = s" using ext_only_ok [OF ext_only_on_ext lock] s1 by simp
    show ?thesis
    proof (cases "keys = [] \<and> keys_for_stage ?run spec \<noteq> []")
      case refused: True
      then show ?thesis
        using Cons.IH [OF _ s2] after Cons.prems(3) by simp
    next
      case got: False
      then have "m_then (put_attempt aid (start_attempt ?a worker lease now keys))
              (m_then (record_comment sv (run_issue_id ?run)
                 (''Stage `'' @ att_stage ?a @ ''` started on worker `'' @ worker @ ''`.''))
                (m_ret (Some (start_attempt ?a worker lease now keys, spec), events))) w2 = (Inr (c, es), w')"
        using after by (simp only: if_False)
      then obtain w3 body where put: "put_attempt aid (start_attempt ?a worker lease now keys) w2 = (Inr (), w3)"
        and comment: "record_comment sv (run_issue_id ?run) body w3 = (Inr (), w')"
        and c: "c = Some (start_attempt ?a worker lease now keys, spec)"
        unfolding m_then_ok m_ret_ok by blast
      note w3 = framesD [OF frames_comment comment]
      have "claimed_from sv worker lease allowed issue_id now s (start_attempt ?a worker lease now keys) spec
          (w_ext w1) (w_ext w2)"
        unfolding claimed_from_def using True got lock Cons.prems(3)
        by (intro exI [of _ aid] exI [of _ ?a] exI [of _ ?run] exI [of _ keys])
          (auto simp: on_ext_def split: prod.splits)
      moreover have "ps_attempts (w_state w') = gm_put aid (start_attempt ?a worker lease now keys) (ps_attempts s)"
        using w3 put s2 by (simp add: put_attempt_ok)
      moreover have "aid \<in> set (pending_ids s)" using Cons.prems(3) by simp
      moreover have "w_ext w3 = w_ext w2" using put by (simp add: put_attempt_ok)
      ultimately show ?thesis
        unfolding c option.case prod.case using start_attempt_fields(1) comment by blast
    qed
  qed
qed

lemma save_ok: "save sv u w = (Inr x, w') \<Longrightarrow>
    \<exists>w1 w2. on_ext (sv_read_state sv) w = (Inr (), w1) \<and> u w1 = (Inr x, w2) \<and>
      on_ext (sv_write_state sv) w2 = (Inr (), w')"
  by (auto simp: save_def split: prod.splits sum.splits)

text \<open>A claim, taken apart: the loop, the commit, the signals.\<close>

lemma claim_next_parts:
  assumes "claim_next sv worker lease allowed issue_id w = (Inr c, w')"
  obtains now es w1 w2 w3 where "w_state w1 = w_state w"
    and "claim_loop sv worker lease allowed issue_id now (pending_ids (w_state w)) [] w1 = (Inr (c, es), w2)"
    and "on_ext (sv_write_state sv) w2 = (Inr (), w3)"
    and "m_iter (emit_signals sv) es w3 = (Inr (), w')"
proof -
  obtain es w3 where s: "save sv (claim_update sv worker lease allowed issue_id) w = (Inr (c, es), w3)"
    and i: "m_iter (emit_signals sv) es w3 = (Inr (), w')"
    using assms by (auto simp: claim_next_def m_bind_ok m_then_ok m_ret_ok)
  from save_ok [OF s] obtain w0 w2 where r: "on_ext (sv_read_state sv) w = (Inr (), w0)"
    and u: "claim_update sv worker lease allowed issue_id w0 = (Inr (c, es), w2)"
    and wr: "on_ext (sv_write_state sv) w2 = (Inr (), w3)" by blast
  obtain now w1 where n: "ask_ext (sv_now sv) w0 = (Inr now, w1)"
    and l: "claim_loop sv worker lease allowed issue_id now (pending_ids (w_state w1)) [] w1 = (Inr (c, es), w2)"
    using u by (auto simp: claim_update_def m_bind_ok get_state_ok)
  have "w_state w1 = w_state w"
    using ext_only_ok [OF ext_only_ask_ext n] ext_only_ok [OF ext_only_on_ext r] by simp
  with that l wr i show thesis by metis
qed

text \<open>What a claim does to the attempts.\<close>

lemma claim_takes_pending:
  assumes "cp_inv (w_state w)"
    and "claim_next sv worker lease allowed issue_id w = (Inr (Some (a, spec)), w')"
  shows "\<exists>a0 run. gm_get (ps_attempts (w_state w)) (att_id a) = Some a0 \<and>
      att_status a0 = AttemptStatusPending \<and> follows a0 a \<and>
      gm_get (ps_runs (w_state w)) (att_run_id a) = Some run \<and> claimable allowed issue_id run a \<and>
      att_status a = AttemptStatusRunning \<and> att_worker_id a = worker \<and> att_lease_expires_at a \<noteq> None \<and>
      (\<forall>k. gm_get (ps_attempts (w_state w')) k =
         (if k = att_id a then Some a else gm_get (ps_attempts (w_state w)) k))"
proof -
  let ?s = "w_state w"
  obtain now es w1 w2 w3 where w1: "w_state w1 = ?s"
    and l: "claim_loop sv worker lease allowed issue_id now (pending_ids ?s) [] w1 = (Inr (Some (a, spec), es), w2)"
    and wr: "on_ext (sv_write_state sv) w2 = (Inr (), w3)"
    and i: "m_iter (emit_signals sv) es w3 = (Inr (), w')"
    by (rule claim_next_parts [OF assms(2)]) blast
  have "case Some (a, spec) of None \<Rightarrow> w_state w2 = ?s | Some (a, spec) \<Rightarrow>
      \<exists>aid x x'. claimed_from sv worker lease allowed issue_id now ?s a spec x x' \<and> aid \<in> set (pending_ids ?s) \<and>
        att_id a = att_id (gm_get_or zero_stage_attempt (ps_attempts ?s) aid) \<and>
        ps_attempts (w_state w2) = gm_put aid a (ps_attempts ?s) \<and>
        (\<exists>v i body. w_ext v = x' \<and> record_comment sv i body v = (Inr (), w2))"
    by (rule claim_loop_result [OF l w1]) simp
  then obtain aid x x' where
    from_s: "claimed_from sv worker lease allowed issue_id now ?s a spec x x'" and aid: "aid \<in> set (pending_ids ?s)"
    and id: "att_id a = att_id (gm_get_or zero_stage_attempt (ps_attempts ?s) aid)"
    and put: "ps_attempts (w_state w2) = gm_put aid a (ps_attempts ?s)"
    unfolding option.case prod.case by blast
  obtain a1 where a1: "gm_get (ps_attempts ?s) aid = Some a1"
    using pending_ids_pending [OF assms(1) aid] by blast
  have aid_id: "att_id a = aid"
    using id a1 cp_inv_attempt [OF assms(1) a1] by (simp add: gm_get_or_def attempt_ok_def)
  from from_s obtain aid' a0 run keys where f: "aid' \<in> set (pending_ids ?s)"
    "a0 = gm_get_or zero_stage_attempt (ps_attempts ?s) aid'"
    "run = gm_get_or zero_run_request (ps_runs ?s) (att_run_id a0)" "claimable allowed issue_id run a0"
    "a = start_attempt a0 worker lease now keys" unfolding claimed_from_def by blast
  obtain a2 where a2: "gm_get (ps_attempts ?s) aid' = Some a2" "att_status a2 = AttemptStatusPending"
    using pending_ids_pending [OF assms(1) f(1)] by blast
  have a: "a = start_attempt a2 worker lease now keys" and run: "run = gm_get_or zero_run_request (ps_runs ?s) (att_run_id a2)"
    and claimable: "claimable allowed issue_id run a2"
    using f a2(1) by (simp_all add: gm_get_or_def)
  have id2: "att_id a = aid'" using cp_inv_attempt [OF assms(1) a2(1)] a by (simp add: attempt_ok_def)
  have final: "ps_attempts (w_state w') = gm_put (att_id a) a (ps_attempts ?s)"
    using framesD [OF frames_iter [OF frames_emit] i]
      ext_only_ok [OF ext_only_on_ext wr] put aid_id by simp
  show ?thesis
  proof (intro exI conjI)
    show "gm_get (ps_attempts ?s) (att_id a) = Some a2" using a2(1) id2 by simp
    show "follows a2 a" using a2(2) by (simp add: a follows_def finished_def start_attempt_def)
    show "gm_get (ps_runs ?s) (att_run_id a) = Some run"
      using attempt_known [OF assms(1) a2(1)] by (simp add: a run)
    show "claimable allowed issue_id run a" using claimable by (simp add: claimable_def a)
    show "\<forall>k. gm_get (ps_attempts (w_state w')) k =
        (if k = att_id a then Some a else gm_get (ps_attempts ?s) k)" by (simp add: final)
  qed (use a2(2) a in simp_all)
qed

text \<open>
  C3: a claim takes exactly one attempt, one that was pending, of an allowed stage and of a run of
  the issue asked for that has neither failed nor completed; afterwards the attempt is running for
  the worker with a lease, as it is returned, and no other attempt has changed.
\<close>

theorem claim_next_takes_pending:
  assumes "cp_inv (w_state w)"
    and "claim_next sv worker lease allowed issue_id w = (Inr (Some (a, spec)), w')"
  shows "\<exists>a0 run. gm_get (ps_attempts (w_state w)) (att_id a) = Some a0 \<and>
      att_status a0 = AttemptStatusPending \<and> follows a0 a \<and>
      gm_get (ps_runs (w_state w)) (att_run_id a) = Some run \<and> claimable allowed issue_id run a \<and>
      att_status a = AttemptStatusRunning \<and> att_worker_id a = worker \<and> att_lease_expires_at a \<noteq> None \<and>
      (\<forall>k. gm_get (ps_attempts (w_state w')) k =
         (if k = att_id a then Some a else gm_get (ps_attempts (w_state w)) k))"
  by (rule claim_takes_pending [OF assms])

subsection \<open>The locks of a claimed attempt\<close>

lemma on_locks_hom:
  "on_locks (m_ret x) = m_ret x" "on_locks (m_err e) = m_err e"
  "on_locks (m_bind m f) = m_bind (on_locks m) (\<lambda>x. on_locks (f x))"
  "on_locks (m_try m) = m_try (on_locks m)" "on_locks (m_ignore m) = m_ignore (on_locks m)"
  by (auto simp: fun_eq_iff on_locks_def m_ret_def m_err_def m_bind_def m_try_def m_ignore_def
      split: prod.splits sum.splits)

lemma on_locks_iter: "on_locks (m_iter f xs) = m_iter (\<lambda>x. on_locks (f x)) xs"
  by (induction xs) (simp_all add: on_locks_hom)

definition wired_manager :: "'y plane manager" where
  "wired_manager = \<lparr>lk_try_acquire = (\<lambda>k ow l md. on_locks (pg_try_acquire k ow l md)),
        lk_refresh = (\<lambda>k ow l. on_locks (pg_refresh k ow l)),
        lk_release = (\<lambda>k ow. on_locks (pg_release k ow))\<rparr>"

lemma wired_release: "release_acquired wired_manager keys ow = on_locks (release_acquired postgres_manager keys ow)"
  by (simp add: release_acquired_def on_locks_iter on_locks_hom wired_manager_def postgres_manager_def)

lemma on_locks_sum:
  "on_locks (case r of Inl e \<Rightarrow> f e | Inr x \<Rightarrow> g x) = (case r of Inl e \<Rightarrow> on_locks (f e) | Inr x \<Rightarrow> on_locks (g x))"
  by (cases r) simp_all

lemma wired_acquire:
  "acquire_keys (wired_manager :: 'y plane manager) ow l md ks acq = on_locks (acquire_keys postgres_manager ow l md ks acq)"
proof (induction ks arbitrary: acq)
  case Nil
  then show ?case by (simp add: on_locks_hom)
next
  case (Cons k ks)
  have "lk_try_acquire (wired_manager :: 'y plane manager) k ow l md = on_locks (lk_try_acquire postgres_manager k ow l md)"
    by (simp add: wired_manager_def postgres_manager_def)
  moreover have "on_locks (if \<not> ok then m_bind (release_acquired postgres_manager acq ow) (\<lambda>_. m_ret [])
        else acquire_keys postgres_manager ow l md ks (acq @ [k])) =
      (if \<not> ok then m_bind (release_acquired (wired_manager :: 'y plane manager) acq ow) (\<lambda>_. m_ret [])
        else acquire_keys wired_manager ow l md ks (acq @ [k]))" for ok
    by (simp add: Cons.IH wired_release on_locks_hom)
  ultimately show ?case
    by (simp only: acquire_keys.simps on_locks_hom on_locks_sum wired_release)
qed

lemma wired_acquire_locks:
  "acquire_locks (sv_locker (wire_service out)) run a spec worker lease =
     on_locks (acquire_locks postgres_manager run a spec worker lease)"
proof -
  have "sv_locker (wire_service out) = wired_manager" by (simp add: wire_service_def wired_manager_def)
  then show ?thesis by (simp add: acquire_locks_def Let_def wired_acquire on_locks_hom)
qed

text \<open>What leaves the lock table as it is.\<close>

definition same_locks :: "('y plane world, 'a) go \<Rightarrow> bool" where
  "same_locks m \<longleftrightarrow> (\<forall>L. keeps (\<lambda>w. pl_locks (w_ext w) = L) m)"

lemma same_locksD: "same_locks m \<Longrightarrow> m w = (r, w') \<Longrightarrow> pl_locks (w_ext w') = pl_locks (w_ext w)"
  unfolding same_locks_def using keepsD [of "\<lambda>v. pl_locks (w_ext v) = pl_locks (w_ext w)" m w] by simp

lemma same_locks_on_rest: "same_locks (on_ext (on_rest m))" "same_locks (ask_ext (on_rest f))"
  unfolding same_locks_def ask_ext_def
  by (auto intro!: keepsI simp: on_ext_def on_rest_def split: prod.splits)

lemma same_locks_on_signals: "same_locks (on_ext (on_signals m))"
  unfolding same_locks_def by (auto intro!: keepsI simp: on_ext_def on_signals_def split: prod.splits)

lemma same_locks_on_state: "same_locks (on_state m)"
  unfolding same_locks_def by (auto intro!: keepsI simp: on_state_def split: prod.splits)

lemma same_locks_bind: "same_locks m \<Longrightarrow> (\<And>x. same_locks (f x)) \<Longrightarrow> same_locks (m_bind m f)"
  unfolding same_locks_def by (blast intro: keeps_bind)

lemma same_locks_then: "same_locks m \<Longrightarrow> same_locks n \<Longrightarrow> same_locks (m_then m n)"
  unfolding same_locks_def by (blast intro: keeps_then)

lemma same_locks_iter: "(\<And>x. same_locks (f x)) \<Longrightarrow> same_locks (m_iter f xs)"
  unfolding same_locks_def by (blast intro: keeps_iter)

lemma same_locks_ret: "same_locks (m_ret x)"
  unfolding same_locks_def by (blast intro: keeps_ret)

lemma same_locks_if: "same_locks m \<Longrightarrow> same_locks n \<Longrightarrow> same_locks (if b then m else n)"
  by simp

lemma wire_simps:
  "sv_now (wire_service out) = on_rest (sv_now out)"
  "sv_append_comment (wire_service out) i b = on_rest (sv_append_comment out i b)"
  "sv_read_state (wire_service out) = on_rest (sv_read_state out)"
  "sv_write_state (wire_service out) = on_rest (sv_write_state out)"
  "sv_record_event (wire_service out) e =
     on_signals (\<lambda>d. record_pipeline_event postgres_store (sd_app_now d) e d)"
  by (simp_all add: wire_service_def)

lemma same_locks_comment: "same_locks (record_comment (wire_service out) i body)"
  unfolding record_comment_def wire_simps
  by (intro same_locks_bind same_locks_then same_locks_on_rest same_locks_on_state)

lemma same_locks_save:
  assumes "same_locks m"
  shows "same_locks (save (wire_service out) m)"
  unfolding same_locks_def
proof (intro allI keepsI)
  fix L and w :: "'a plane world" assume L: "pl_locks (w_ext w) = L"
  note D = same_locksD [OF assms] and R = same_locksD [OF same_locks_on_rest(1)]
  show "pl_locks (w_ext (snd (save (wire_service out) m w))) = L"
    unfolding save_def wire_simps using L
    by (auto split: prod.splits sum.splits dest!: D R)
qed

lemma same_locks_emit: "same_locks (emit_signals (wire_service out) e)"
  unfolding emit_signals_def comment_signal_def comment_issue_def wire_simps
  by (intro same_locks_bind same_locks_on_signals same_locks_iter same_locks_if same_locks_ret
      same_locks_save same_locks_comment)

lemma lock_keys_start: "keys \<noteq> [] \<Longrightarrow> lock_keys (start_attempt a worker lease now keys) = keys"
  by (rule lock_keys_stored) (simp add: start_attempt_def meta_put_def)

lemma acquired_locks_facts:
  assumes "acquire_locks postgres_manager run a spec worker lease d = (Inr keys, d')"
    and "\<not> (keys = [] \<and> keys_for_stage run spec \<noteq> [])"
  shows "keys = keys_for_stage run spec \<and> (\<forall>key \<in> set keys. pg_own d' key (att_id a)) \<and>
    (\<forall>key \<in> set keys. \<forall>other. pg_own d key other \<and> pg_live d key \<longrightarrow> other = att_id a)"
proof (cases "keys_for_stage run spec = []")
  case True
  then show ?thesis using assms(1) by (simp add: acquire_locks_def m_ret_def)
next
  case False
  then obtain md where k:
    "acquire_keys postgres_manager (att_id a) lease md (keys_for_stage run spec) [] d = (Inr keys, d')"
    using assms(1) by (auto simp: acquire_locks_def Let_def)
  have "keys \<noteq> []" using assms(2) False by blast
  then have "keys = keys_for_stage run spec" and "\<forall>key \<in> set keys. pg_own d' key (att_id a)"
    using pg.acquire_keys_all [OF k] by auto
  moreover have "other = att_id a"
    if "key \<in> set keys" and "pg_own d key other" and "pg_live d key" for key other
    using pg.acquire_keys_blocked [of key "keys_for_stage run spec" d other "att_id a" lease md "[]"]
      that \<open>keys \<noteq> []\<close> calculation(1) k by fastforce
  ultimately show ?thesis by blast
qed


end
