(* ===== verification/ControlPlaneStarts.thy ===== *)
theory ControlPlaneStarts
  imports ControlPlaneSafety
begin

section \<open>What a reconciliation starts and a recovery requeues\<close>

text \<open>
  The attempts after \<open>Reconcile\<close> are those before it and new ones; each new one is justified by the
  plan of its run and by outcomes that were there before.  \<open>RecoverStuckRuns\<close> requeues exactly the
  stuck attempts.
\<close>

subsection \<open>Stages that an evaluation returns\<close>

lemma eval_loop_members:
  assumes "\<And>s. s \<in> set (ev_run v) \<Longrightarrow> P s" and "\<And>s. s \<in> set (ev_trig v) \<Longrightarrow> Q s"
    and "\<And>s. s \<in> set specs \<Longrightarrow> is_ready s bs approved \<Longrightarrow> P s"
    and "\<And>s. s \<in> set specs \<Longrightarrow> is_triggered run bs s \<Longrightarrow> Q s"
  shows "case eval_loop run bs approved specs v of
      Inl e \<Rightarrow> (\<forall>s \<in> set (ev_runnable e). P s) \<and> (\<forall>s \<in> set (ev_triggered e). Q s)
    | Inr v' \<Rightarrow> (\<forall>s \<in> set (ev_run v'). P s) \<and> (\<forall>s \<in> set (ev_trig v'). Q s)"
  using assms
proof (induction specs arbitrary: v)
  case Nil
  then show ?case by simp
next
  case (Cons x specs)
  show ?case
  proof (cases "eval_stage run bs approved x v")
    case (Inl e)
    then have "ev_runnable e = ev_run v \<and> ev_triggered e = ev_trig v"
      by (auto simp: eval_stage_def Let_def split: option.splits if_splits)
    then show ?thesis using Inl Cons.prems(1,2) by simp
  next
    case (Inr v')
    have "set (ev_run v') \<subseteq> set (ev_run v) \<union> (if is_ready x bs approved then {x} else {})"
      and "set (ev_trig v') \<subseteq> set (ev_trig v) \<union> (if is_triggered run bs x then {x} else {})"
      using Inr by (auto simp: eval_stage_def is_triggered_def Let_def split: option.splits if_splits)
    then have "\<And>s. s \<in> set (ev_run v') \<Longrightarrow> P s" and "\<And>s. s \<in> set (ev_trig v') \<Longrightarrow> Q s"
      using Cons.prems by (auto split: if_splits)
    from Cons.IH [OF this] Cons.prems(3,4) Inr show ?thesis by simp
  qed
qed

lemma evaluate_started:
  "(\<forall>s \<in> set (ev_runnable (evaluate plan run bs approved)).
      s \<in> set (specs_in_order (plan_specs plan)) \<and> is_ready s bs approved) \<and>
   (\<forall>s \<in> set (ev_triggered (evaluate plan run bs approved)).
      s \<in> set (specs_in_order (plan_specs plan)) \<and> is_triggered run bs s)"
  using eval_loop_members [where specs = "specs_in_order (plan_specs plan)" and run = run and bs = bs and
      approved = approved and v = "\<lparr>ev_trig = [], ev_run = [], ev_has_active = False, ev_has_failed = False,
        ev_has_rollback = False\<rparr>"
      and P = "\<lambda>s. s \<in> set (specs_in_order (plan_specs plan)) \<and> is_ready s bs approved"
      and Q = "\<lambda>s. s \<in> set (specs_in_order (plan_specs plan)) \<and> is_triggered run bs s"]
  by (simp add: evaluate_def Let_def split: sum.splits)

subsection \<open>New attempts\<close>

definition outcome :: "persisted_state \<Rightarrow> string \<Rightarrow> string \<Rightarrow> string \<Rightarrow> bool" where
  "outcome s rid stage st \<longleftrightarrow> (\<exists>k a. gm_get (ps_attempts s) k = Some a \<and> att_run_id a = rid \<and>
     att_stage a = stage \<and> att_status a = st)"

definition unstarted :: "persisted_state \<Rightarrow> string \<Rightarrow> string \<Rightarrow> bool" where
  "unstarted s rid stage \<longleftrightarrow> (\<forall>k a. gm_get (ps_attempts s) k = Some a \<longrightarrow>
     \<not> (att_run_id a = rid \<and> att_stage a = stage))"

text \<open>The plan of the run, as it was read, has a stage that may start on these outcomes.\<close>

definition may_start :: "persisted_state \<Rightarrow> string \<Rightarrow> stage_spec \<Rightarrow> bool" where
  "may_start s rid spec \<longleftrightarrow>
     (if auto_queue spec
      then \<forall>dep \<in> set (ss_dependencies spec). outcome s rid dep AttemptStatusSucceeded
      else (\<exists>n \<in> set (sr_trigger_on_failure (ss_runtime spec)). outcome s rid n AttemptStatusFailed) \<or>
        (\<exists>n \<in> set (sr_trigger_on_success (ss_runtime spec)). outcome s rid n AttemptStatusSucceeded))"

definition justified :: "'x service \<Rightarrow> persisted_state \<Rightarrow> string \<Rightarrow> string \<Rightarrow> bool" where
  "justified sv s rid stage \<longleftrightarrow>
     (\<exists>run plan spec. run_id run = rid \<and>
        (\<exists>w w'. pipeline_plan_for_run sv run w = (Inr (Some plan), w')) \<and>
        spec \<in> set (specs_in_order (plan_specs (Some plan))) \<and> ss_name spec = stage \<and> may_start s rid spec)"

definition starts :: "'x service \<Rightarrow> persisted_state \<Rightarrow> stage_attempt gomap \<Rightarrow> bool" where
  "starts sv s0 A \<longleftrightarrow>
     (\<forall>k a. gm_get (ps_attempts s0) k = Some a \<longrightarrow> gm_get A k = Some a) \<and>
     (\<forall>k a. gm_get A k = Some a \<and> gm_get (ps_attempts s0) k = None \<longrightarrow>
        att_status a = AttemptStatusPending \<and> unstarted s0 (att_run_id a) (att_stage a) \<and>
        justified sv s0 (att_run_id a) (att_stage a))"

definition starting :: "'x service \<Rightarrow> persisted_state \<Rightarrow> persisted_state \<Rightarrow> 'x world \<Rightarrow> bool" where
  "starting sv s0 s w \<longleftrightarrow> since s w \<and> starts sv s0 (ps_attempts (w_state w))"

lemma starts_outcome:
  "starts sv s0 (ps_attempts s) \<Longrightarrow> outcome s rid stage st \<Longrightarrow> st \<noteq> AttemptStatusPending \<Longrightarrow>
   outcome s0 rid stage st"
  unfolding starts_def outcome_def by (metis option.exhaust option.inject)

lemma starts_unstarted:
  "starts sv s0 (ps_attempts s) \<Longrightarrow> unstarted s rid stage \<Longrightarrow> unstarted s0 rid stage"
  unfolding starts_def unstarted_def by blast

lemma keeps_starting:
  fixes m :: "('x world, 'a) go"
  assumes "keeps (since s) m" and "frames ps_attempts m"
  shows "keeps (starting sv s0 s) m"
proof (rule keepsI)
  fix w :: "'x world" assume "starting sv s0 s w"
  then show "starting sv s0 s (snd (m w))"
    using keepsD [OF assms(1)] assms(2) by (simp add: starting_def frames_def)
qed

lemma keeps_starting_get:
  fixes f :: "persisted_state \<Rightarrow> ('x world, 'a) go"
  assumes "\<And>s'. good s s' \<Longrightarrow> starts sv s0 (ps_attempts s') \<Longrightarrow> keeps (starting sv s0 s') (f s')"
  shows "keeps (starting sv s0 s) (m_bind get_state f)"
proof (rule keepsI)
  fix w :: "'x world" assume w: "starting sv s0 s w"
  then have g: "good s (w_state w)" and st: "starts sv s0 (ps_attempts (w_state w))"
    by (simp_all add: starting_def since_def)
  then have "starting sv s0 (w_state w) w" by (simp add: starting_def since_def good_def)
  then have "starting sv s0 (w_state w) (snd (f (w_state w) w))"
    by (rule keepsD [OF assms [OF g st]])
  then have "since s (snd (f (w_state w) w)) \<and> starts sv s0 (ps_attempts (w_state (snd (f (w_state w) w))))"
    unfolding starting_def using since_lift [OF g] by blast
  then show "starting sv s0 s (snd (m_bind get_state f w))"
    unfolding starting_def get_state_bind .
qed

lemma starts_create:
  assumes "starts sv s0 (ps_attempts s)" and "cp_inv s"
    and "unstarted s0 (run_id run) (ss_name spec)" and "justified sv s0 (run_id run) (ss_name spec)"
  shows "starts sv s0 (ps_attempts (snd (create_attempt run spec n md s)))"
  using assms absent_attempt [OF assms(2)]
  by (auto simp: starts_def create_attempt_eq next_id_fields Let_def)

lemma keeps_starting_create:
  fixes sv :: "'x service"
  assumes "known_run s (run_id run)"
    and "unstarted s0 (run_id run) (ss_name spec)" and "justified sv s0 (run_id run) (ss_name spec)"
  shows "keeps (starting sv s0 s) (on_state (create_attempt run spec n md))"
proof (rule keepsI)
  fix w :: "'x world" assume w: "starting sv s0 s w"
  then have "since s w" by (simp add: starting_def)
  from keepsD [OF keeps_create_attempt [OF assms(1)] this]
  have "since s (snd (on_state (create_attempt run spec n md) w))" .
  moreover have "starts sv s0 (ps_attempts (snd (create_attempt run spec n md (w_state w))))"
    using w assms by (intro starts_create) (simp_all add: starting_def since_def good_def)
  ultimately show "starting sv s0 s (snd (on_state (create_attempt run spec n md) w))"
    by (simp add: starting_def on_state_def split_beta)
qed

lemma keeps_bind_result:
  assumes "keeps I m" and "\<And>x w w'. m w = (Inr x, w') \<Longrightarrow> keeps I (f x)"
  shows "keeps I (m_bind m f)"
proof (rule keepsI)
  fix w assume w: "I w"
  show "I (snd (m_bind m f w))"
  proof (cases "m w")
    case (Pair r w')
    then have "I w'" using keepsD [OF assms(1) w] by simp
    then show ?thesis
      using Pair keepsD [OF assms(2)] by (cases r) (auto simp: m_bind_def)
  qed
qed

lemma stage_outcome:
  assumes "cp_inv s" and "stage_has_status (attempts_by_stage s rid) st n"
  shows "outcome s rid n st"
proof -
  obtain a where a: "gm_get (attempts_by_stage s rid) n = Some a" "att_status a = st"
    using assms(2) unfolding stage_has_status_def by (simp split: option.splits)
  note latest = attempts_by_stage_Some [OF a(1)]
  then obtain k where "(k, a) \<in> set (ps_attempts s)" and r: "att_run_id a = rid"
    unfolding attempts_of_run_iff by blast
  moreover have "gm_wf (ps_attempts s)" using assms(1) by (simp add: cp_inv_def)
  ultimately have "gm_get (ps_attempts s) k = Some a" by (simp add: gm_get_wf)
  then show ?thesis unfolding outcome_def using r latest a(2) by blast
qed

lemma stage_unstarted:
  assumes "cp_inv s" and "gm_get (attempts_by_stage s rid) n = None"
  shows "unstarted s rid n"
  unfolding unstarted_def
proof (intro allI impI notI)
  fix k a assume a: "gm_get (ps_attempts s) k = Some a" and eq: "att_run_id a = rid \<and> att_stage a = n"
  then have "(k, a) \<in> set (ps_attempts s)" by (intro gm_get_SomeD)
  then have "a \<in> set (attempts_of_run s rid)" using eq attempts_of_run_iff by blast
  then show False using assms(2) eq attempts_by_stage_None by blast
qed

lemma starts_may_start:
  "starts sv s0 (ps_attempts s) \<Longrightarrow> may_start s rid spec \<Longrightarrow> may_start s0 rid spec"
  unfolding may_start_def
  using starts_outcome [of sv s0 s rid _ AttemptStatusSucceeded] starts_outcome [of sv s0 s rid _ AttemptStatusFailed]
  by (auto split: if_splits)

lemma ready_may_start:
  assumes "cp_inv s" and "is_ready spec (attempts_by_stage s rid) approved"
  shows "unstarted s rid (ss_name spec) \<and> may_start s rid spec"
  using assms stage_unstarted [OF assms(1)] stage_outcome [OF assms(1)]
  by (auto simp: is_ready_def may_start_def list_all_iff split: if_splits)

lemma triggered_may_start:
  assumes inv: "cp_inv s" and trig: "is_triggered run (attempts_by_stage s rid) spec"
  shows "unstarted s rid (ss_name spec) \<and> may_start s rid spec"
proof -
  have "triggered_by_failure spec run (attempts_by_stage s rid) \<Longrightarrow>
      \<exists>n \<in> set (sr_trigger_on_failure (ss_runtime spec)). outcome s rid n AttemptStatusFailed"
    unfolding triggered_by_failure_def list_ex_iff using stage_outcome [OF inv] by blast
  moreover have "triggered_by_success spec (attempts_by_stage s rid) \<Longrightarrow>
      \<exists>n \<in> set (sr_trigger_on_success (ss_runtime spec)). outcome s rid n AttemptStatusSucceeded"
    unfolding triggered_by_success_def list_ex_iff using stage_outcome [OF inv] by blast
  ultimately show ?thesis
    using trig stage_unstarted [OF inv] unfolding is_triggered_def may_start_def by auto
qed

subsection \<open>Reconciliation\<close>

lemma keeps_starting_queue_triggered:
  assumes "known_run s (run_id run)" and "tracked s i"
    and "unstarted s0 (run_id run) (ss_name spec)" and "justified sv s0 (run_id run) (ss_name spec)"
  shows "keeps (starting sv s0 s) (queue_triggered sv i run spec bs)"
  unfolding queue_triggered_def
  by (intro keeps_bind keeps_ret keeps_starting_create assms keeps_starting keeps_record_comment
      frames_attempts frames_comment)

lemma keeps_starting_queue_runnable:
  assumes "known_run s (run_id run)" and "tracked s i"
    and "unstarted s0 (run_id run) (ss_name spec)" and "justified sv s0 (run_id run) (ss_name spec)"
  shows "keeps (starting sv s0 s) (queue_runnable sv i run spec bs)"
proof -
  have k: "known_run s' (run_id run) \<and> tracked s' i" if "good s s'" for s'
    using assms(1,2) that known_run_mono tracked_mono unfolding good_def by blast
  have ask: "keeps (starting sv s0 s) (ask_ext (sv_now sv))"
    by (intro keeps_starting since_rules frames_ext ext_rules)
  show ?thesis
    unfolding queue_runnable_def
    by (intro keeps_bind [OF ask] keeps_starting_get keeps_if keeps_ret keeps_bind keeps_starting_create
        assms(3,4) keeps_starting keeps_record_comment frames_attempts frames_comment) (use k in blast)+
qed

lemma frames_announce: "frames ps_attempts (announce_status sv issue st)"
  unfolding announce_status_def by (intro frames_if frames_attempts frames_transition)

lemma keeps_starting_ext: "ext_only m \<Longrightarrow> keeps (starting sv s0 s) m"
  by (intro keeps_starting ext_only_since frames_ext)

lemma keeps_starting_advance:
  fixes sv :: "'x service"
  assumes inv: "cp_inv s" and run: "gm_get (ps_runs s) k = Some run"
    and i: "tracked s i" and t: "tracked s (di_id (ti_issue t))"
    and st: "starts sv s0 (ps_attempts s)"
    and plan: "pipeline_plan_for_run sv run v = (Inr (Some plan), v')"
  shows "keeps (starting sv s0 s) (advance_run sv i t run (attempts_by_stage s (run_id run)) plan)"
proof -
  let ?bs = "attempts_by_stage s (run_id run)" and ?a = "issue_approved t"
  let ?e = "evaluate (Some plan) run ?bs ?a"
  note known = known_runI [OF inv run]
  have may: "unstarted s0 (run_id run) (ss_name spec) \<and> justified sv s0 (run_id run) (ss_name spec)"
    if "spec \<in> set (specs_in_order (plan_specs (Some plan)))"
      and u: "unstarted s (run_id run) (ss_name spec) \<and> may_start s (run_id run) spec" for spec
    using starts_unstarted [OF st] starts_may_start [OF st] that plan
    unfolding justified_def by blast
  have trig: "keeps (starting sv s0 s) (queue_triggered sv i run spec bs)"
    if "spec \<in> set (ev_triggered ?e)" for spec bs
    using that evaluate_started [of "Some plan" run ?bs ?a] may triggered_may_start [OF inv] known i
    by (intro keeps_starting_queue_triggered) blast+
  have ready: "keeps (starting sv s0 s) (queue_runnable sv i run spec bs)"
    if "spec \<in> set (ev_runnable ?e)" for spec bs
    using that evaluate_started [of "Some plan" run ?bs ?a] may ready_may_start [OF inv] known i
    by (intro keeps_starting_queue_runnable) blast+
  have put: "keeps (starting sv s0 s') (put_run (run\<lparr>run_status := ev_status (evaluate p run b appr), run_updated_at := now\<rparr>))"
    if "good s s'" for s' p b appr now
    by (intro keeps_starting frames_put_run keeps_put_later [OF inv run that])
      (use known in \<open>simp_all add: same_run_def evaluate_status\<close>)
  have tr: "tracked s' (di_id (ti_issue t))" if "good s s'" for s'
    using that t tracked_mono unfolding good_def by blast
  show ?thesis
    unfolding advance_run_def Let_def
    by (intro keeps_bind [OF keeps_fold] trig ready keeps_starting_get keeps_bind [OF keeps_starting_ext]
        keeps_then put keeps_starting [OF keeps_announce frames_announce] tr
        keeps_ret ext_rules ext_run_index)
qed

lemma keeps_starting_issue:
  fixes sv :: "'x service"
  shows "keeps (starting sv s0 s) (reconcile_issue sv issue_filter i)"
proof -
  have adv: "keeps (starting sv s0 s')
      (advance_run sv i t run (attempts_by_stage s' (run_id run)) plan)"
    if "good s s'" and st: "starts sv s0 (ps_attempts s')" and "gm_get (ps_issues s') i = Some t"
      and "latest_run_for_issue s' i = Some run"
      and plan: "pipeline_plan_for_run sv run v = (Inr (Some plan), v')" for s' t run plan v v'
  proof (rule keeps_starting_advance [OF _ _ _ _ st plan])
    show inv: "cp_inv s'" using that(1) by (simp add: good_def)
    show "gm_get (ps_runs s') (run_id run) = Some run"
      using latest_run_get [OF inv that(4)] by simp
    show "tracked s' i" using that(3) by (simp add: tracked_def)
    show "tracked s' (di_id (ti_issue t))"
      using cp_inv_issue [OF inv that(3)] that(3) by (simp add: tracked_def)
  qed
  have plan: "keeps (starting sv s0 s') (m_bind (pipeline_plan_for_run sv run)
      (\<lambda>p. case p of None \<Rightarrow> m_err (missing_plan run)
       | Some plan \<Rightarrow> advance_run sv i t run (attempts_by_stage s' (run_id run)) plan))"
    if "good s s'" and "starts sv s0 (ps_attempts s')" and "gm_get (ps_issues s') i = Some t"
      and "latest_run_for_issue s' i = Some run" for s' t run
  proof (rule keeps_bind_result [OF keeps_starting_ext [OF ext_plan]])
    fix p v v' assume "pipeline_plan_for_run sv run v = (Inr p, v')"
    then show "keeps (starting sv s0 s') (case p of None \<Rightarrow> m_err (missing_plan run)
       | Some plan \<Rightarrow> advance_run sv i t run (attempts_by_stage s' (run_id run)) plan)"
      using adv [OF that] by (cases p) (simp_all add: keeps_err)
  qed
  show ?thesis
    unfolding reconcile_issue_def
    by (intro keeps_starting_get keeps_case_option keeps_ret keeps_if plan)
qed

lemma starting_here: "cp_inv (w_state w) \<Longrightarrow> starting sv (w_state w) (w_state w) w"
  by (auto simp: starting_def starts_def since_def good_refl)


subsection \<open>Recovery\<close>

definition recovered :: "int \<Rightarrow> time \<Rightarrow> string set \<Rightarrow> stage_attempt gomap \<Rightarrow> stage_attempt gomap \<Rightarrow> bool" where
  "recovered max_age now K A B \<longleftrightarrow> (\<forall>k. gm_get B k = map_option
     (\<lambda>a. if k \<in> K \<and> stuck max_age now a then requeue_attempt a else a) (gm_get A k))"

lemma zero_not_stuck: "\<not> stuck max_age now zero_stage_attempt"
  by (simp add: stuck_def zero_stage_attempt_def)

lemma recover_attempt_ok:
  assumes "recover_attempt sv max_age now aid events w = (Inr x, w')"
  shows "ps_attempts (w_state w') =
    (let a = gm_get_or zero_stage_attempt (ps_attempts (w_state w)) aid
     in if stuck max_age now a then gm_put aid (requeue_attempt a) (ps_attempts (w_state w))
        else ps_attempts (w_state w))"
proof (cases "stuck max_age now (gm_get_or zero_stage_attempt (ps_attempts (w_state w)) aid)")
  case False
  then show ?thesis
    using assms by (simp add: recover_attempt_def get_state_bind Let_def m_ret_ok)
next
  case True
  let ?a = "gm_get_or zero_stage_attempt (ps_attempts (w_state w)) aid"
  let ?run = "gm_get_or zero_run_request (ps_runs (w_state w)) (att_run_id ?a)"
  obtain u1 w1 u2 w2 u3 w3 where release: "on_ext (release_locks (sv_locker sv) (requeue_attempt ?a)) w = (Inr u1, w1)"
    and put: "put_attempt aid (requeue_attempt ?a) w1 = (Inr u2, w2)"
    and comment: "record_comment sv (run_issue_id ?run)
        (''Recovered stale stage `'' @ att_stage ?a @ ''` back to pending.'') w2 = (Inr u3, w3)" and w': "w' = w3"
    using assms True
    by (auto simp: recover_attempt_def get_state_bind Let_def m_then_ok m_ret_ok)
  have w1: "w_state w1 = w_state w" by (rule ext_only_ok [OF ext_only_on_ext release])
  then have "ps_attempts (w_state w2) = gm_put aid (requeue_attempt ?a) (ps_attempts (w_state w))"
    using put by (auto simp: put_attempt_def on_state_def m_modify_def)
  with framesD [OF frames_comment comment] True w' show ?thesis by (simp add: Let_def)
qed

lemma recover_loop_ok:
  assumes "m_fold (recover_attempt sv max_age now) ks events w = (Inr x, w')" and "distinct ks"
    and "recovered max_age now K A (ps_attempts (w_state w))" and "K \<inter> set ks = {}"
  shows "recovered max_age now (K \<union> set ks) A (ps_attempts (w_state w'))"
  using assms
proof (induction ks arbitrary: events w K)
  case Nil
  then show ?case by (simp add: m_ret_ok)
next
  case (Cons k ks)
  obtain e1 w1 where r: "recover_attempt sv max_age now k events w = (Inr e1, w1)"
    and rest: "m_fold (recover_attempt sv max_age now) ks e1 w1 = (Inr x, w')"
    using Cons.prems(1) by (auto simp: m_bind_ok)
  have "recovered max_age now (insert k K) A (ps_attempts (w_state w1))"
    unfolding recovered_def
  proof
    fix j
    have "gm_get (ps_attempts (w_state w)) j = map_option
        (\<lambda>a. if j \<in> K \<and> stuck max_age now a then requeue_attempt a else a) (gm_get A j)"
      using Cons.prems(3) by (simp add: recovered_def)
    then show "gm_get (ps_attempts (w_state w1)) j = map_option
        (\<lambda>a. if j \<in> insert k K \<and> stuck max_age now a then requeue_attempt a else a) (gm_get A j)"
      using recover_attempt_ok [OF r] Cons.prems(2,4) zero_not_stuck [of max_age now]
      by (cases "gm_get A j") (auto simp: Let_def gm_get_or_def split: option.splits if_splits)
  qed
  from Cons.IH [OF rest _ this] Cons.prems(2,4) show ?case by simp
qed


end
