(* ===== verification/ControlPlaneComplete.thy ===== *)
theory ControlPlaneComplete
  imports ControlPlaneStarts
begin

section \<open>Completion, and handlers that fail\<close>

text \<open>
  What \<open>Complete\<close> leaves in the persisted state, and that a handler whose transaction fails leaves the
  persisted state as it was.
\<close>

subsection \<open>Completion\<close>

lemma put_run_ok: "put_run r w = (Inr (), w') \<longleftrightarrow>
    w' = w\<lparr>w_state := (w_state w)\<lparr>ps_runs := gm_put (run_id r) r (ps_runs (w_state w))\<rparr>\<rparr>"
  by (auto simp: put_run_def on_state_def m_modify_def)

lemma stats_of_attempts: "ps_attempts s = ps_attempts t \<Longrightarrow> collect_run_stats s rid = collect_run_stats t rid"
  by (simp add: collect_run_stats_def attempts_of_run_def)

text \<open>The attempt under a key is finished with this result.\<close>

definition completed_with :: "stage_attempt \<Rightarrow> stage_result \<Rightarrow> artifact_ref list \<Rightarrow> stage_attempt \<Rightarrow> bool" where
  "completed_with a0 result artifacts a \<longleftrightarrow> follows a0 a \<and>
     att_status a = final_status (sres_status result) \<and> att_result a = Some result \<and>
     att_stats a = sres_stats result \<and> att_artifacts a = artifacts \<and> att_lease_expires_at a = None \<and>
     (\<exists>now. att_finished_at a = Some now)"

lemma completed_finish:
  "completed_with a0 result artifacts ((finish_attempt a0 result artifacts now)\<lparr>att_metadata := m\<rparr>)"
proof -
  have "finished ((finish_attempt a0 result artifacts now)\<lparr>att_metadata := m\<rparr>)"
    by (simp add: finish_attempt_def finished_def final_status_def)
  then show ?thesis by (simp add: completed_with_def finish_attempt_def follows_def)
qed

lemma complete_update_ok:
  assumes "complete_update sv k result artifacts w = (Inr e, w')"
  shows "\<exists>a0 a run. gm_get (ps_attempts (w_state w)) k = Some a0 \<and> completed_with a0 result artifacts a \<and>
     ps_attempts (w_state w') = gm_put k a (ps_attempts (w_state w)) \<and>
     run_id run = run_id (gm_get_or zero_run_request (ps_runs (w_state w)) (att_run_id a0)) \<and>
     run_stats_of run = collect_run_stats (w_state w') (run_id run) \<and>
     ps_runs (w_state w') = gm_put (run_id run) run (ps_runs (w_state w))"
proof (cases "gm_get (ps_attempts (w_state w)) k")
  case None
  then show ?thesis using assms by (simp add: complete_update_def get_state_bind m_err_ok)
next
  case (Some a0)
  let ?run = "gm_get_or zero_run_request (ps_runs (w_state w)) (att_run_id a0)"
  obtain now w1 where n: "ask_ext (sv_now sv) w = (Inr now, w1)"
    and rest: "(let a1 = finish_attempt a0 result artifacts now; outputs = result_outputs sv result;
                  ar = record_outcome result outputs now (a1, gm_get_or zero_run_request (ps_runs (w_state w)) (att_run_id a1))
              in m_then (on_ext (release_locks (sv_locker sv) a1))
                (m_bind (persist_stage_report sv (snd ar) (fst ar) result artifacts) (\<lambda>entry.
                  (let (a, r) = attach_report entry ar
                   in m_then (put_attempt k a)
                     (m_bind get_state (\<lambda>s'.
                       (let run = r\<lparr>run_stats_of := collect_run_stats s' (run_id r), run_updated_at := now\<rparr>
                        in m_then (put_run run)
                          (m_then (record_comment sv (run_issue_id run) (completion_comment a result))
                             (m_ret (completion_event sv run a result artifacts)))))))))) w1 = (Inr e, w')"
    using assms Some by (auto simp: complete_update_def get_state_bind m_bind_ok [of "ask_ext (sv_now sv)"])
  let ?a1 = "finish_attempt a0 result artifacts now"
  have rid: "att_run_id ?a1 = att_run_id a0" by (simp add: finish_attempt_def)
  define ar where "ar = record_outcome result (result_outputs sv result) now (?a1, ?run)"
  obtain w2 entry w3 where rel: "on_ext (release_locks (sv_locker sv) ?a1) w1 = (Inr (), w2)"
    and rep: "persist_stage_report sv (snd ar) (fst ar) result artifacts w2 = (Inr entry, w3)"
    and tail: "(let (a, r) = attach_report entry ar
                   in m_then (put_attempt k a)
                     (m_bind get_state (\<lambda>s'.
                       (let run = r\<lparr>run_stats_of := collect_run_stats s' (run_id r), run_updated_at := now\<rparr>
                        in m_then (put_run run)
                          (m_then (record_comment sv (run_issue_id run) (completion_comment a result))
                             (m_ret (completion_event sv run a result artifacts))))))) w3 = (Inr e, w')"
    using rest unfolding Let_def rid ar_def [symmetric] m_then_ok m_bind_ok
    by (metis (no_types, lifting))
  have w3: "w_state w3 = w_state w"
    using ext_only_ok [OF ext_only_ask_ext n] ext_only_ok [OF ext_only_on_ext rel]
      ext_only_ok [OF ext_stage_report rep] by simp
  obtain m n' where eq: "attach_report entry ar = (?a1\<lparr>att_metadata := m\<rparr>, ?run\<lparr>run_metadata := n'\<rparr>)"
    using only_metadata_trans [OF only_metadata_outcome only_metadata_attach,
        of "(?a1, ?run)" entry result "result_outputs sv result" now]
    unfolding only_metadata_def ar_def by auto
  let ?a = "?a1\<lparr>att_metadata := m\<rparr>"
  let ?s = "(w_state w)\<lparr>ps_attempts := gm_put k ?a (ps_attempts (w_state w))\<rparr>"
  define run where "run = ?run\<lparr>run_metadata := n', run_stats_of := collect_run_stats ?s (run_id ?run), run_updated_at := now\<rparr>"
  obtain w4 where c: "record_comment sv (run_issue_id run) (completion_comment ?a result)
      (w3\<lparr>w_state := ?s\<lparr>ps_runs := gm_put (run_id run) run (ps_runs (w_state w))\<rparr>\<rparr>) = (Inr (), w4)" and w4: "w_state w' = w_state w4"
    using tail w3 unfolding eq prod.case Let_def m_then_ok put_attempt_ok get_state_bind put_run_ok m_ret_ok
    by (auto simp: run_def)
  have "ps_attempts (w_state w') = ps_attempts ?s \<and> ps_runs (w_state w') = gm_put (run_id run) run (ps_runs (w_state w))"
    using framesD [OF frames_comment c] w4 by simp
  then show ?thesis
    using Some completed_finish [of a0 result artifacts m now] stats_of_attempts [of "w_state w'" ?s]
    by (intro exI [of _ a0] exI [of _ ?a] exI [of _ run]) (simp add: run_def)
qed

definition recorded ::
  "persisted_state \<Rightarrow> string \<Rightarrow> stage_result \<Rightarrow> artifact_ref list \<Rightarrow> persisted_state \<Rightarrow> bool" where
  "recorded s k result artifacts s' \<longleftrightarrow>
     (\<exists>a0 a run. gm_get (ps_attempts s) k = Some a0 \<and> completed_with a0 result artifacts a \<and>
        gm_get (ps_attempts s') k = Some a \<and>
        (\<forall>j. j \<noteq> k \<longrightarrow> gm_get (ps_attempts s') j = gm_get (ps_attempts s) j) \<and>
        gm_get (ps_runs s') (att_run_id a0) = Some run \<and>
        run_stats_of run = collect_run_stats s' (att_run_id a0) \<and>
        (\<forall>j. j \<noteq> att_run_id a0 \<longrightarrow> gm_get (ps_runs s') j = gm_get (ps_runs s) j))"

text \<open>
  C6: \<open>Complete\<close> is all or nothing.  Either the attempt under the given identifier has the final status
  for the reported one, the result, the artifacts, an end and no lease, its run has the statistics
  summed over all its attempts as they are now, and every other attempt and run is untouched; or the
  call returns an error and no attempt and no run has changed.
\<close>

theorem complete_all_or_nothing:
  assumes "cp_inv (w_state w)" and "complete sv k result artifacts w = (r, w')"
  shows "recorded (w_state w) k result artifacts (w_state w') \<or>
    (\<exists>e. r = Inl e) \<and> ps_attempts (w_state w') = ps_attempts (w_state w) \<and>
    ps_runs (w_state w') = ps_runs (w_state w)"
proof -
  obtain r1 w1 where s: "save sv (complete_update sv k result artifacts) w = (r1, w1)" by fastforce
  consider (ok) e v v1 where "w_state v = w_state w" "complete_update sv k result artifacts v = (Inr e, v1)"
      "r1 = Inr e" "w_state w1 = w_state v1"
    | (err) e where "r1 = Inl e" "w_state w1 = w_state w"
    using save_result [OF s] by blast
  then show ?thesis
  proof cases
    case ok
    have "emit_signals sv e w1 = (r, w')"
      using assms(2) s ok(3) by (simp add: complete_def m_bind_def)
    then have w': "work (w_state w') = work (w_state v1)"
      using framesD [OF frames_emit] ok(4) by metis
    obtain a0 a run where c: "gm_get (ps_attempts (w_state w)) k = Some a0" "completed_with a0 result artifacts a"
        "ps_attempts (w_state v1) = gm_put k a (ps_attempts (w_state w))"
        "run_id run = run_id (gm_get_or zero_run_request (ps_runs (w_state w)) (att_run_id a0))"
        "run_stats_of run = collect_run_stats (w_state v1) (run_id run)"
        "ps_runs (w_state v1) = gm_put (run_id run) run (ps_runs (w_state w))"
      using complete_update_ok [OF ok(2)] ok(1) by auto
    have "attempt_ok (w_state w) k a0" using assms(1) c(1) by (rule cp_inv_attempt)
    then have "run_id run = att_run_id a0"
      using c(4) cp_inv_run [OF assms(1)] by (auto simp: attempt_ok_def known_run_def run_ok_def gm_get_or_def)
    then have "recorded (w_state w) k result artifacts (w_state w')"
      unfolding recorded_def
      using c w' stats_of_attempts [of "w_state v1" "w_state w'"]
      by (intro exI [of _ a0] exI [of _ a] exI [of _ run]) simp
    then show ?thesis ..
  next
    case err
    then have "r = Inl e" "w' = w1" using assms(2) s by (simp_all add: complete_def m_bind_def)
    then show ?thesis using err by simp
  qed
qed

subsection \<open>Handlers that fail\<close>

lemma save_error: "save sv u w = (Inl e, w') \<Longrightarrow> w_state w' = w_state w"
  using save_result [of sv u w "Inl e" w'] by auto

text \<open>The calls whose state change is one transaction.\<close>

datatype request =
    Enqueue
  | Reconcile string
  | Ensure_run string
  | Persist_artifacts string jmap
  | Heartbeat string int string jmap

definition handle :: "'x service \<Rightarrow> request \<Rightarrow> ('x world, unit) go" where
  "handle sv q =
     (case q of
        Enqueue \<Rightarrow> enqueue_from_gitlab sv
      | Reconcile issue_filter \<Rightarrow> reconcile sv issue_filter
      | Ensure_run i \<Rightarrow> m_bind (ensure_run_for_issue sv i) (\<lambda>_. m_ret ())
      | Persist_artifacts rid outputs \<Rightarrow> m_bind (persist_pipeline_artifacts sv rid outputs) (\<lambda>_. m_ret ())
      | Heartbeat k lease summary md \<Rightarrow> heartbeat sv k lease summary md)"

lemma m_bind_ret_err: "m_bind m (\<lambda>_. m_ret ()) w = (Inl e, w') \<Longrightarrow> m w = (Inl e, w')"
  by (auto simp: m_bind_def m_ret_def split: prod.splits sum.splits)


end
