(* ===== verification/ControlPlaneWitness.thy ===== *)
theory ControlPlaneWitness
  imports ControlPlaneComplete
begin

section \<open>The control plane on a concrete run\<close>

text \<open>
  An outside world with one requested issue and a plan of two stages.  The handlers are evaluated on
  it from the empty state: the issue is enqueued, a run is opened, the first stage is queued, claimed,
  and completed or recovered.
\<close>

definition sample_issue :: delivery_issue where
  "sample_issue = zero_delivery_issue\<lparr>di_id := ''i'', di_labels := [IssueLabelRequested]\<rparr>"

definition sample_stage_plan :: pipeline_execution_plan where
  "sample_stage_plan = \<lparr>pep_schema_version = [], pep_run_id = [], pep_issue_id = [],
     pep_work_order_id = [], pep_issue_type = [], pep_pipeline_family = [],
     pep_pipeline_selection = [], pep_optimization_goals = [], pep_testing = zero_testing_policy,
     pep_delivery_name = [], pep_checkpoint = [],
     pep_stages = map (\<lambda>s. plan_stage s \<lparr>ri_stage = [], ri_ref = [], ri_digest = []\<rparr>)
       [sample_lock_spec, sample_spec ''deploy'' [''implement'']]\<rparr>"

text \<open>A clock that ticks at every reading is the state of the outside world.\<close>

definition sample_out :: "int service" where
  "sample_out =
     \<lparr>sv_now = (\<lambda>t. (t, t + 1)), sv_list_issues = m_ret [sample_issue],
      sv_append_comment = (\<lambda>i b. m_ret ()), sv_set_labels = (\<lambda>i ls. m_ret ()),
      sv_locker = \<lparr>lk_try_acquire = (\<lambda>k ow l md. m_ret True), lk_refresh = (\<lambda>k ow l. m_ret ()),
        lk_release = (\<lambda>k ow. m_ret ())\<rparr>,
      sv_record_event = (\<lambda>e. m_ret []), sv_specs = [], sv_work_order_repo = ''j'',
      sv_read_plan = (\<lambda>p s. m_ret sample_stage_plan), sv_write_file = (\<lambda>p s c. m_ret ()),
      sv_write_text = (\<lambda>p c. m_ret ()), sv_mkdir_all = (\<lambda>p. m_ret ()), sv_stat = (\<lambda>p t. (Stat_found, t)),
      sv_read_dir = (\<lambda>p t. (Dir_missing, t)), sv_git = (\<lambda>d args. m_ret []), sv_decode = (\<lambda>x. Inl []),
      sv_read_state = m_ret (), sv_write_state = m_ret ()\<rparr>"

definition sample_service :: "int plane service" where
  "sample_service = wire_service sample_out"

definition sample_start :: "int plane world" where
  "sample_start = \<lparr>w_state = empty_state, w_ext = \<lparr>pl_locks = sample_lock_db, pl_signals = sample_signal_db, pl_rest = 0\<rparr>\<rparr>"

text \<open>The state after the issue was enqueued and its run opened, and with its first stage queued.\<close>

definition sample_run :: run_request where
  "sample_run = sample_lock_run\<lparr>run_issue_id := ''i'', run_status := RunStatusActive\<rparr>"

definition sample_pending :: stage_attempt where
  "sample_pending = zero_stage_attempt\<lparr>att_id := ''attempt-00001'', att_run_id := ''run-00001'',
     att_stage := ''implement'', att_attempt := 1, att_status := AttemptStatusPending\<rparr>"

definition sample_state :: "stage_attempt gomap \<Rightarrow> persisted_state" where
  "sample_state attempts = empty_state\<lparr>ps_issues := [(''i'', \<lparr>ti_issue = sample_issue, ti_comments = []\<rparr>)],
     ps_runs := [(''run-00001'', sample_run)], ps_attempts := attempts,
     ps_counters := [(''run'', 1), (''attempt'', 1)]\<rparr>"

definition sample_world :: "stage_attempt gomap \<Rightarrow> int plane world" where
  "sample_world attempts = \<lparr>w_state = sample_state attempts,
      w_ext = \<lparr>pl_locks = sample_lock_db, pl_signals = sample_signal_db, pl_rest = 100\<rparr>\<rparr>"

definition sample_queued :: "int plane world" where
  "sample_queued = sample_world [(''attempt-00001'', sample_pending)]"

text \<open>The attempt is running on a worker whose lease ended at time 60; the clock shows 100.\<close>

definition sample_running :: stage_attempt where
  "sample_running = sample_pending\<lparr>att_status := AttemptStatusRunning, att_worker_id := ''w1'',
     att_lease_expires_at := Some 60\<rparr>"

definition sample_stale :: "int plane world" where
  "sample_stale = sample_world [(''attempt-00001'', sample_running)]"

lemma sample_numbers: "id_of ''run'' 1 = ''run-00001''" "id_of ''attempt'' 1 = ''attempt-00001''"
  by code_simp+

lemma sample_state_inv:
  assumes "a = sample_pending \<or> a = sample_running"
  shows "cp_inv (sample_state [(''attempt-00001'', a)])"
proof -
  let ?s = "sample_state [(''attempt-00001'', a)]"
  have c: "counter_of ?s p = (if p = ''run'' \<or> p = ''attempt'' then 1 else 0)" for p
    by (simp add: counter_of_def gm_get_or_def gm_get_Cons sample_state_def)
  have "numbered ?s ''run'' ''run-00001''" and n: "numbered ?s ''attempt'' ''attempt-00001''"
    unfolding numbered_def c by (intro exI [of _ 1]; simp add: sample_numbers)+
  then have "run_ok ?s ''run-00001'' sample_run"
    by (simp add: run_ok_def sample_run_def sample_lock_run_def tracked_def run_statuses_def gm_get_Cons sample_state_def)
  moreover have "attempt_ok ?s ''attempt-00001'' a"
    using n assms
    by (auto simp: attempt_ok_def sample_pending_def sample_running_def known_run_def finished_def gm_get_Cons sample_state_def)
  ultimately show ?thesis
    unfolding cp_inv_def c
    by (auto simp: sample_state_def gm_wf_def gm_get_Cons sample_issue_def split: if_splits)
qed

subsection \<open>Witnesses\<close>

lemma sample_enqueue_reached:
  "cp_reach sample_service (snd (enqueue_from_gitlab sample_service sample_start))"
  by (rule cp_reach.step [OF cp_reach.start cp_step.enqueue]) (simp add: sample_start_def)

lemma control_plane_invariant_witness:
  "cp_inv (w_state (snd (enqueue_from_gitlab sample_service sample_start)))"
  using control_plane_invariant [OF sample_enqueue_reached [unfolded sample_service_def]]
  unfolding sample_service_def .

lemma control_plane_history_witness:
  "evolves (w_state (snd (enqueue_from_gitlab sample_service sample_start)))
     (w_state (snd (ensure_run_for_issue sample_service ''i'' (snd (enqueue_from_gitlab sample_service sample_start)))))"
  using control_plane_history [OF sample_enqueue_reached [unfolded sample_service_def]
      r_into_rtranclp [of "cp_step (wire_service sample_out)", OF cp_step.ensure_run]]
  unfolding sample_service_def .

definition sample_claim :: "(string + (stage_attempt \<times> stage_spec) option) \<times> int plane world" where
  "sample_claim = claim_next sample_service ''w1'' 60 [] [] sample_queued"

lemma sample_claim_result:
  "(case fst sample_claim of Inr (Some (a, spec)) \<Rightarrow>
      att_run_id a = ''run-00001'' \<and> keys_for_stage sample_run spec = [''apprepo:group/app'']
    | _ \<Rightarrow> False)"
  by code_simp

lemma sample_claim_Some:
  obtains a spec w' where "sample_claim = (Inr (Some (a, spec)), w')"
    "claim_next sample_service ''w1'' 60 [] [] sample_queued = (Inr (Some (a, spec)), w')"
    "att_run_id a = ''run-00001''" "keys_for_stage sample_run spec = [''apprepo:group/app'']"
proof -
  obtain r w' where s: "sample_claim = (r, w')" by fastforce
  have "(case r of Inr (Some (a, spec)) \<Rightarrow>
      att_run_id a = ''run-00001'' \<and> keys_for_stage sample_run spec = [''apprepo:group/app'']
    | _ \<Rightarrow> False)" using sample_claim_result unfolding s fst_conv .
  then obtain a spec where "r = Inr (Some (a, spec))" "att_run_id a = ''run-00001''"
      "keys_for_stage sample_run spec = [''apprepo:group/app'']"
    by (auto split: sum.splits option.splits)
  with s show thesis using that by (simp add: sample_claim_def)
qed

lemma sample_queued_inv: "cp_inv (w_state sample_queued)"
  unfolding sample_queued_def sample_world_def world.simps by (rule sample_state_inv) simp

lemma claim_next_takes_pending_witness:
  "\<exists>a spec w'. sample_claim = (Inr (Some (a, spec)), w') \<and> att_status a = AttemptStatusRunning \<and>
     gm_get (ps_attempts (w_state w')) (att_id a) = Some a \<and>
     gm_get (ps_attempts (w_state sample_queued)) (att_id a) \<noteq> None"
proof -
  obtain a spec w' where c: "sample_claim = (Inr (Some (a, spec)), w')"
    "claim_next sample_service ''w1'' 60 [] [] sample_queued = (Inr (Some (a, spec)), w')"
    by (rule sample_claim_Some)
  show ?thesis using claim_next_takes_pending [OF sample_queued_inv c(2)] c(1)
    by (intro exI [of _ a] exI [of _ spec] exI [of _ w']) auto
qed



lemma sample_recover: "fst (recover_stuck_runs sample_service 10 sample_stale) = Inr ()"
  by code_simp


text \<open>Without a work order repository nothing is journalled, and this service records no signals.\<close>

definition sample_result :: stage_result where
  "sample_result = \<lparr>sres_status = AttemptStatusSucceeded, sres_summary = ''ok'', sres_outputs = [],
     sres_next_signals = [], sres_stats = zero_attempt_stats\<rparr>"

definition sample_done :: "(string + unit) \<times> int world" where
  "sample_done = complete (sample_out\<lparr>sv_work_order_repo := []\<rparr>) ''attempt-00001'' sample_result []
     \<lparr>w_state = sample_state [(''attempt-00001'', sample_running)], w_ext = 100\<rparr>"

lemma iter_ret: "m_iter (\<lambda>x. m_ret ()) xs = m_ret ()"
  by (induction xs) (simp_all add: m_ret_def m_bind_def)

lemma release_ret: "release_locks \<lparr>lk_try_acquire = f, lk_refresh = g, lk_release = \<lambda>k ow. m_ret ()\<rparr> a = m_ret ()"
  by (simp add: release_locks_def iter_ret)

lemma sample_done_ok: "fst sample_done = Inr ()"
  by (simp add: sample_done_def complete_def complete_update_def sample_out_def,
      simp add: save_def release_ret persist_stage_report_def m_bind_def m_ret_def on_ext_def on_state_def
        ask_ext_def get_state_def m_gets_def m_modify_def sample_state_def gm_get_Cons next_id_eq
        record_comment_def m_then_def add_comment_def put_attempt_def put_run_def emit_signals_def
        Let_def attach_report_def split_beta)

lemma complete_all_or_nothing_witness:
  "\<exists>a. gm_get (ps_attempts (w_state (snd sample_done))) ''attempt-00001'' = Some a \<and>
     att_status a = AttemptStatusSucceeded"
proof -
  let ?w = "\<lparr>w_state = sample_state [(''attempt-00001'', sample_running)], w_ext = 100\<rparr> :: int world"
  have r: "complete (sample_out\<lparr>sv_work_order_repo := []\<rparr>) ''attempt-00001'' sample_result [] ?w =
      (Inr (), snd sample_done)"
    using sample_done_ok by (simp add: sample_done_def prod_eq_iff)
  have "cp_inv (w_state ?w)" unfolding world.simps by (rule sample_state_inv) simp
  from complete_all_or_nothing [OF this r] show ?thesis
    by (auto simp: recorded_def completed_with_def final_status_def sample_result_def)
qed


end
