(* ===== verification/Ratchet.thy ===== *)
theory Ratchet
  imports Model
begin

section \<open>Findings and invariants (internal/ratchet)\<close>

text \<open>
  Findings reported by stages are grouped into clusters; a recurring cluster is proposed as an
  invariant; an approved proposal becomes an active invariant, which later stages retrieve, ranked.
  \<open>ratchet_store\<close> is the interface \<open>Store\<close> of service.go; \<open>noop_ratchet\<close> and \<open>postgres_ratchet\<close>, over the
  six tables of postgres.go, implement it.  Scores are rationals.
\<close>

record finding_event =
  fe_id :: int
  fe_run_id :: string
  fe_issue_id :: string
  fe_stage :: string
  fe_repo_scope :: string
  fe_environment :: string
  fe_service_scope :: string
  fe_scope_type :: string
  fe_scope_key :: string
  fe_category :: string
  fe_fingerprint :: string
  fe_title :: string
  fe_summary :: string
  fe_severity :: string
  fe_outcome_impact :: string
  fe_evidence_uri :: string
  fe_created_at :: time

record finding_cluster =
  fc_id :: int
  fc_scope_type :: string
  fc_scope_key :: string
  fc_category :: string
  fc_fingerprint :: string
  fc_title :: string
  fc_canonical_summary :: string
  fc_first_seen_at :: time
  fc_last_seen_at :: time
  fc_occurrence_count :: int
  fc_distinct_run_count :: int
  fc_distinct_issue_count :: int
  fc_highest_severity :: string
  fc_status :: string

record invariant_proposal =
  pp_id :: int
  pp_cluster_id :: int
  pp_scope_type :: string
  pp_scope_key :: string
  pp_category :: string
  pp_fingerprint :: string
  pp_proposed_text :: string
  pp_rationale :: string
  pp_evidence_summary :: string
  pp_proposal_reason :: string
  pp_status :: string
  pp_created_at :: time
  pp_updated_at :: time

record active_invariant =
  ai_id :: int
  ai_scope_type :: string
  ai_scope_key :: string
  ai_category :: string
  ai_fingerprint :: string
  ai_statement :: string
  ai_severity :: string
  ai_enforcement_mode :: string
  ai_source_proposal_id :: "int option"
  ai_created_at :: time
  ai_updated_at :: time

record invariant_stage_stat =
  iss_invariant_id :: int
  iss_stage :: string
  iss_occurrence_count :: int
  iss_last_seen_at :: time
  iss_rollback_count :: int
  iss_block_count :: int

record ranked_invariant =
  rk_invariant :: active_invariant
  rk_stage_stat :: "invariant_stage_stat option"
  rk_score :: rat

record retrieval_request =
  rq_stage :: string
  rq_repo_scope :: string
  rq_environment :: string
  rq_service_scope :: string
  rq_limit :: int

record ingest_result =
  ir_cluster :: finding_cluster
  ir_proposal :: "invariant_proposal option"

definition zero_finding_cluster :: finding_cluster where
  "zero_finding_cluster = \<lparr>fc_id = 0, fc_scope_type = [], fc_scope_key = [], fc_category = [],
     fc_fingerprint = [], fc_title = [], fc_canonical_summary = [], fc_first_seen_at = 0,
     fc_last_seen_at = 0, fc_occurrence_count = 0, fc_distinct_run_count = 0,
     fc_distinct_issue_count = 0, fc_highest_severity = [], fc_status = []\<rparr>"

subsection \<open>Scoring\<close>

definition scope_matches :: "active_invariant \<Rightarrow> retrieval_request \<Rightarrow> bool" where
  "scope_matches i req \<longleftrightarrow>
     (if ai_scope_type i = ''global'' then True
      else if ai_scope_type i = ''repo'' then ai_scope_key i = rq_repo_scope req
      else if ai_scope_type i = ''environment'' then ai_scope_key i = rq_environment req
      else if ai_scope_type i = ''service'' then ai_scope_key i = rq_service_scope req
      else False)"

definition severity_score :: "string \<Rightarrow> rat" where
  "severity_score s =
     (if s = ''critical'' then 30 else if s = ''high'' then 20 else if s = ''medium'' then 10
      else if s = ''low'' then 5 else 1)"

definition enforcement_score :: "string \<Rightarrow> rat" where
  "enforcement_score m =
     (if m = ''block'' then 25 else if m = ''warn'' then 10 else if m = ''inform'' then 3 else 0)"

text \<open>\<open>Time.Sub\<close> saturates at the int64 range of nanoseconds.\<close>

definition time_sub :: "time \<Rightarrow> time \<Rightarrow> int" where
  "time_sub a b = max (- (2 ^ 63)) (min (2 ^ 63 - 1) (a - b))"

definition days_since :: "time \<Rightarrow> time \<Rightarrow> rat" where
  "days_since now t = of_int (time_sub now t) / (3600 * 1000000000) / 24"

definition stat_score :: "time \<Rightarrow> invariant_stage_stat \<Rightarrow> rat" where
  "stat_score now s =
     of_int (iss_occurrence_count s) * (3 / 2) + of_int (iss_rollback_count s) * 6 +
     of_int (iss_block_count s) * 4 +
     (if iss_last_seen_at s \<noteq> 0 then max 0 (10 - days_since now (iss_last_seen_at s)) else 0)"

definition score_of :: "time \<Rightarrow> active_invariant \<Rightarrow> invariant_stage_stat option \<Rightarrow> rat" where
  "score_of now i stat = severity_score (ai_severity i) + enforcement_score (ai_enforcement_mode i) +
     (case stat of None \<Rightarrow> 0 | Some s \<Rightarrow> stat_score now s)"

definition stat_index :: "invariant_stage_stat list \<Rightarrow> (int \<times> invariant_stage_stat) list" where
  "stat_index stats = fold (\<lambda>s. AList.update (iss_invariant_id s) s) stats []"

definition ranked_of :: "time \<Rightarrow> (int \<times> invariant_stage_stat) list \<Rightarrow> active_invariant \<Rightarrow> ranked_invariant" where
  "ranked_of now stats i =
     (let stat = map_of stats (ai_id i)
      in \<lparr>rk_invariant = i, rk_stage_stat = stat, rk_score = score_of now i stat\<rparr>)"

text \<open>
  The comparison of \<open>RankForStage\<close>: by descending score, then by identifier.  Sorting stably by the
  second component and then by the first sorts by it.
\<close>

definition rank_before :: "ranked_invariant \<Rightarrow> ranked_invariant \<Rightarrow> bool" where
  "rank_before a b \<longleftrightarrow>
     (if rk_score a = rk_score b then ai_id (rk_invariant a) < ai_id (rk_invariant b)
      else rk_score a > rk_score b)"

definition sort_ranked :: "ranked_invariant list \<Rightarrow> ranked_invariant list" where
  "sort_ranked rs = sort_key (\<lambda>r. - rk_score r) (sort_key (\<lambda>r. ai_id (rk_invariant r)) rs)"

definition rank_for_stage ::
  "time \<Rightarrow> active_invariant list \<Rightarrow> (int \<times> invariant_stage_stat) list \<Rightarrow> retrieval_request \<Rightarrow>
   ranked_invariant list" where
  "rank_for_stage now invariants stats req =
     (let ranked = sort_ranked (map (ranked_of now stats) (filter (\<lambda>i. scope_matches i req) invariants))
      in if rq_limit req > 0 \<and> int (length ranked) > rq_limit req
         then take (nat (rq_limit req)) ranked else ranked)"

definition should_propose :: "finding_cluster \<Rightarrow> string option" where
  "should_propose c =
     (if fc_highest_severity c = ''critical'' then Some ''severity_threshold''
      else if fc_occurrence_count c \<ge> 3 \<and> fc_distinct_run_count c \<ge> 3 then Some ''frequency_threshold''
      else if fc_occurrence_count c \<ge> 2 \<and> fc_scope_type c = ''global'' then Some ''global_frequency_threshold''
      else None)"

definition statement_for_cluster :: "finding_cluster \<Rightarrow> string" where
  "statement_for_cluster c = fc_title c"

definition rationale_for_cluster :: "finding_cluster \<Rightarrow> string \<Rightarrow> string" where
  "rationale_for_cluster c reason = ''Proposed from recurring finding cluster via '' @ reason @ ''.''"

definition filter_blocking :: "active_invariant list \<Rightarrow> active_invariant list" where
  "filter_blocking = filter (\<lambda>i. ai_enforcement_mode i = ''block'')"

subsection \<open>The service\<close>

text \<open>The interface \<open>Store\<close>; a nil pointer is \<open>None\<close>.\<close>

record 'x ratchet_store =
  rst_record_finding :: "finding_event \<Rightarrow> ('x, finding_cluster \<times> active_invariant option) go"
  rst_has_open_proposal :: "int \<Rightarrow> ('x, bool) go"
  rst_create_proposal :: "finding_cluster \<Rightarrow> string \<Rightarrow> ('x, invariant_proposal option) go"
  rst_activate_proposal :: "int \<Rightarrow> string \<Rightarrow> ('x, active_invariant option) go"
  rst_ranked_invariants :: "retrieval_request \<Rightarrow> ('x, ranked_invariant list) go"

definition ingest_finding :: "'x ratchet_store \<Rightarrow> finding_event \<Rightarrow> ('x, ingest_result) go" where
  "ingest_finding st event =
     m_bind (rst_record_finding st event) (\<lambda>(cluster, active).
       if active \<noteq> None then m_ret \<lparr>ir_cluster = cluster, ir_proposal = None\<rparr>
       else (case should_propose cluster of
           None \<Rightarrow> m_ret \<lparr>ir_cluster = cluster, ir_proposal = None\<rparr>
         | Some reason \<Rightarrow>
             m_bind (rst_has_open_proposal st (fc_id cluster)) (\<lambda>exists.
               if exists then m_ret \<lparr>ir_cluster = cluster, ir_proposal = None\<rparr>
               else m_bind (rst_create_proposal st cluster reason)
                 (\<lambda>p. m_ret \<lparr>ir_cluster = cluster, ir_proposal = p\<rparr>))))"

definition noop_ratchet :: "'x ratchet_store" where
  "noop_ratchet = \<lparr>rst_record_finding = (\<lambda>_. m_ret (zero_finding_cluster, None)),
     rst_has_open_proposal = (\<lambda>_. m_ret False), rst_create_proposal = (\<lambda>_ _. m_ret None),
     rst_activate_proposal = (\<lambda>_ _. m_ret None), rst_ranked_invariants = (\<lambda>_. m_ret [])\<rparr>"

subsection \<open>The Postgres store\<close>

text \<open>
  A table with a unique key is an association list over it.  Sequences are not rolled back, and a
  conflicting insert draws a number as well.  A statement may fail for reasons of the server
  (\<open>fd_fault\<close>); adding to an INTEGER column fails out of range.
\<close>

type_synonym finding_key = "string \<times> string \<times> string \<times> string"

definition fe_key :: "finding_event \<Rightarrow> finding_key" where
  "fe_key e = (fe_scope_type e, fe_scope_key e, fe_category e, fe_fingerprint e)"

definition fc_key :: "finding_cluster \<Rightarrow> finding_key" where
  "fc_key c = (fc_scope_type c, fc_scope_key c, fc_category c, fc_fingerprint c)"

definition pp_key :: "invariant_proposal \<Rightarrow> finding_key" where
  "pp_key p = (pp_scope_type p, pp_scope_key p, pp_category p, pp_fingerprint p)"

definition ai_key :: "active_invariant \<Rightarrow> finding_key" where
  "ai_key i = (ai_scope_type i, ai_scope_key i, ai_category i, ai_fingerprint i)"

text \<open>The counters of cluster_stage_stats and invariant_stage_stats.\<close>

record stage_counts =
  sc_occurrence_count :: int
  sc_last_seen_at :: time
  sc_rollback_count :: int
  sc_block_count :: int

record ratchet_tables =
  tb_events :: "finding_event list"
  tb_clusters :: "(finding_key \<times> finding_cluster) list"
  tb_cluster_stats :: "((int \<times> string) \<times> stage_counts) list"
  tb_proposals :: "(int \<times> invariant_proposal) list"
  tb_invariants :: "(finding_key \<times> active_invariant) list"
  tb_invariant_stats :: "((int \<times> string) \<times> stage_counts) list"

record ratchet_db =
  fd_tables :: ratchet_tables
  fd_next_event :: int
  fd_next_cluster :: int
  fd_next_proposal :: int
  fd_next_invariant :: int
  fd_db_now :: time
  fd_app_now :: time
  fd_calls :: nat
  fd_fault :: "nat \<Rightarrow> string option"

text \<open>One round trip to the server; a statement that fails changes nothing.\<close>

definition fd_exec :: "(ratchet_db \<Rightarrow> (string + 'a) \<times> ratchet_db) \<Rightarrow> (ratchet_db, 'a) go" where
  "fd_exec stmt d =
     (let d' = d\<lparr>fd_calls := Suc (fd_calls d)\<rparr>
      in case fd_fault d (fd_calls d) of
           Some e \<Rightarrow> (Inl e, d')
         | None \<Rightarrow> (case stmt d' of (Inl e, _) \<Rightarrow> (Inl e, d') | (Inr x, d'') \<Rightarrow> (Inr x, d'')))"

text \<open>
  A transaction with its deferred rollback: whatever fails, \<open>BEGIN\<close> and \<open>COMMIT\<close> included, the tables
  are as before.
\<close>

definition fd_tx :: "(ratchet_db, 'a) go \<Rightarrow> (ratchet_db, 'a) go" where
  "fd_tx body d =
     (let call = fd_exec (\<lambda>d. (Inr (), d)) in
      case m_bind call (\<lambda>_. m_bind body (\<lambda>x. m_bind call (\<lambda>_. m_ret x))) d of
        (Inl e, d') \<Rightarrow> (Inl e, d'\<lparr>fd_tables := fd_tables d\<rparr>)
      | (Inr x, d') \<Rightarrow> (Inr x, d'))"

definition int4_max :: int where
  "int4_max = 2147483647"

definition int4_add :: "int \<Rightarrow> int \<Rightarrow> int option" where
  "int4_add a b = (if \<bar>a + b\<bar> \<le> int4_max then Some (a + b) else None)"

definition bool_int :: "bool \<Rightarrow> int" where
  "bool_int b = (if b then 1 else 0)"

definition highest_severity :: "string \<Rightarrow> string \<Rightarrow> string" where
  "highest_severity new old =
     (if new = ''critical'' \<or> old = ''critical'' then ''critical''
      else if new = ''high'' \<or> old = ''high'' then ''high''
      else if new = ''medium'' \<or> old = ''medium'' then ''medium''
      else if new = ''low'' \<or> old = ''low'' then ''low''
      else if old \<noteq> [] then old else new)"

definition insert_event :: "finding_event \<Rightarrow> (ratchet_db, unit) go" where
  "insert_event e = m_wrap ''insert finding event'' (fd_exec (\<lambda>d.
     (Inr (), d\<lparr>fd_tables := (fd_tables d)\<lparr>tb_events := tb_events (fd_tables d) @
          [e\<lparr>fe_id := fd_next_event d, fe_created_at := fd_db_now d\<rparr>]\<rparr>,
        fd_next_event := fd_next_event d + 1\<rparr>)))"

definition new_cluster :: "ratchet_db \<Rightarrow> finding_event \<Rightarrow> finding_cluster" where
  "new_cluster d e = \<lparr>fc_id = fd_next_cluster d, fc_scope_type = fe_scope_type e,
     fc_scope_key = fe_scope_key e, fc_category = fe_category e, fc_fingerprint = fe_fingerprint e,
     fc_title = fe_title e, fc_canonical_summary = fe_summary e, fc_first_seen_at = fd_db_now d,
     fc_last_seen_at = fd_db_now d, fc_occurrence_count = 1, fc_distinct_run_count = 0,
     fc_distinct_issue_count = 0, fc_highest_severity = fe_severity e, fc_status = ''active''\<rparr>"

definition merge_cluster :: "time \<Rightarrow> finding_event \<Rightarrow> int \<Rightarrow> finding_cluster \<Rightarrow> finding_cluster" where
  "merge_cluster now e n c = c\<lparr>fc_title := fe_title e, fc_canonical_summary := fe_summary e,
     fc_last_seen_at := now, fc_occurrence_count := n,
     fc_highest_severity := highest_severity (fe_severity e) (fc_highest_severity c)\<rparr>"

definition put_cluster :: "finding_key \<Rightarrow> finding_cluster \<Rightarrow> ratchet_db \<Rightarrow> ratchet_db" where
  "put_cluster k c d = d\<lparr>fd_tables := (fd_tables d)\<lparr>tb_clusters :=
     AList.update k c (tb_clusters (fd_tables d))\<rparr>, fd_next_cluster := fd_next_cluster d + 1\<rparr>"

definition upsert_cluster :: "finding_event \<Rightarrow> (ratchet_db, unit) go" where
  "upsert_cluster e = m_wrap ''upsert finding cluster'' (fd_exec (\<lambda>d.
     case map_of (tb_clusters (fd_tables d)) (fe_key e) of
       None \<Rightarrow> (Inr (), put_cluster (fe_key e) (new_cluster d e) d)
     | Some c \<Rightarrow>
         (case int4_add (fc_occurrence_count c) 1 of
            None \<Rightarrow> (Inl ''integer out of range'', d)
          | Some n \<Rightarrow> (Inr (), put_cluster (fe_key e) (merge_cluster (fd_db_now d) e n c) d))))"

definition read_cluster_tx :: "finding_event \<Rightarrow> (ratchet_db, finding_cluster) go" where
  "read_cluster_tx e = m_wrap ''read finding cluster'' (fd_exec (\<lambda>d.
     case map_of (tb_clusters (fd_tables d)) (fe_key e) of
       None \<Rightarrow> (Inl ''sql: no rows in result set'', d)
     | Some c \<Rightarrow> (Inr c, d)))"

definition events_of :: "finding_key \<Rightarrow> finding_event list \<Rightarrow> finding_event list" where
  "events_of k es = filter (\<lambda>e. fe_key e = k) es"

definition count_distinct :: "(finding_event \<Rightarrow> string) \<Rightarrow> finding_event list \<Rightarrow> int" where
  "count_distinct f es = int (length (remdups (map f es)))"

definition refresh_counts :: "finding_event \<Rightarrow> int \<Rightarrow> (ratchet_db, unit) go" where
  "refresh_counts e cid = m_wrap ''refresh cluster counts'' (fd_exec (\<lambda>d.
     let es = events_of (fe_key e) (tb_events (fd_tables d));
         runs = count_distinct fe_run_id es; issues = count_distinct fe_issue_id es
     in if runs > int4_max \<or> issues > int4_max then (Inl ''integer out of range'', d)
        else (Inr (), d\<lparr>fd_tables := (fd_tables d)\<lparr>tb_clusters := map (\<lambda>(k, c).
             (k, if fc_id c = cid then c\<lparr>fc_distinct_run_count := runs, fc_distinct_issue_count := issues\<rparr>
                 else c)) (tb_clusters (fd_tables d))\<rparr>\<rparr>)))"

text \<open>The upsert of a stage counter, the same for both tables; the initial time is \<open>NOW()\<close>.\<close>

definition count_finding ::
  "time \<Rightarrow> finding_event \<Rightarrow> stage_counts option \<Rightarrow> stage_counts option" where
  "count_finding now e old =
     (let rb = bool_int (fe_outcome_impact e = ''rollback''); bl = bool_int (fe_outcome_impact e = ''block'')
      in case old of
           None \<Rightarrow> Some \<lparr>sc_occurrence_count = 1, sc_last_seen_at = now, sc_rollback_count = rb, sc_block_count = bl\<rparr>
         | Some s \<Rightarrow>
             (case (int4_add (sc_occurrence_count s) 1, int4_add (sc_rollback_count s) rb,
                    int4_add (sc_block_count s) bl) of
                (Some n, Some r, Some b) \<Rightarrow>
                  Some \<lparr>sc_occurrence_count = n, sc_last_seen_at = now, sc_rollback_count = r, sc_block_count = b\<rparr>
              | _ \<Rightarrow> None))"

definition upsert_cluster_stat :: "finding_event \<Rightarrow> int \<Rightarrow> (ratchet_db, unit) go" where
  "upsert_cluster_stat e cid = m_wrap ''upsert cluster stage stat'' (fd_exec (\<lambda>d.
     let rows = tb_cluster_stats (fd_tables d) in
     case count_finding (fd_db_now d) e (map_of rows (cid, fe_stage e)) of
       None \<Rightarrow> (Inl ''integer out of range'', d)
     | Some s \<Rightarrow> (Inr (), d\<lparr>fd_tables := (fd_tables d)\<lparr>tb_cluster_stats :=
          AList.update (cid, fe_stage e) s rows\<rparr>\<rparr>)))"

definition upsert_invariant_stat :: "finding_event \<Rightarrow> int \<Rightarrow> (ratchet_db, unit) go" where
  "upsert_invariant_stat e iid = m_wrap ''upsert invariant stage stat'' (fd_exec (\<lambda>d.
     let rows = tb_invariant_stats (fd_tables d) in
     case count_finding (fd_db_now d) e (map_of rows (iid, fe_stage e)) of
       None \<Rightarrow> (Inl ''integer out of range'', d)
     | Some s \<Rightarrow> (Inr (), d\<lparr>fd_tables := (fd_tables d)\<lparr>tb_invariant_stats :=
          AList.update (iid, fe_stage e) s rows\<rparr>\<rparr>)))"

definition read_active_tx :: "finding_key \<Rightarrow> (ratchet_db, active_invariant option) go" where
  "read_active_tx k = m_wrap ''read active invariant'' (fd_exec (\<lambda>d.
     (Inr (map_of (tb_invariants (fd_tables d)) k), d)))"

definition cluster_by_id :: "int \<Rightarrow> ratchet_tables \<Rightarrow> finding_cluster option" where
  "cluster_by_id cid t = find (\<lambda>c. fc_id c = cid) (map snd (tb_clusters t))"

definition read_cluster :: "int \<Rightarrow> (ratchet_db, finding_cluster) go" where
  "read_cluster cid = m_wrap ''read finding cluster by id'' (fd_exec (\<lambda>d.
     case cluster_by_id cid (fd_tables d) of
       None \<Rightarrow> (Inl ''sql: no rows in result set'', d)
     | Some c \<Rightarrow> (Inr c, d)))"

definition record_tx :: "finding_event \<Rightarrow> (ratchet_db, int \<times> active_invariant option) go" where
  "record_tx e =
     m_then (insert_event e)
     (m_then (upsert_cluster e)
     (m_bind (read_cluster_tx e) (\<lambda>c.
      m_then (refresh_counts e (fc_id c))
     (m_then (upsert_cluster_stat e (fc_id c))
     (m_bind (read_active_tx (fe_key e)) (\<lambda>active.
      m_then (case active of None \<Rightarrow> m_ret () | Some i \<Rightarrow> upsert_invariant_stat e (ai_id i))
        (m_ret (fc_id c, active))))))))"

definition pg_record_finding ::
  "finding_event \<Rightarrow> (ratchet_db, finding_cluster \<times> active_invariant option) go" where
  "pg_record_finding e =
     m_bind (fd_tx (record_tx e)) (\<lambda>(cid, active). m_bind (read_cluster cid) (\<lambda>c. m_ret (c, active)))"

definition open_proposals :: "int \<Rightarrow> ratchet_tables \<Rightarrow> invariant_proposal list" where
  "open_proposals cid t =
     filter (\<lambda>p. pp_cluster_id p = cid \<and> pp_status p = ''proposed'') (map snd (tb_proposals t))"

definition pg_has_open_proposal :: "int \<Rightarrow> (ratchet_db, bool) go" where
  "pg_has_open_proposal cid = fd_exec (\<lambda>d. (Inr (length (open_proposals cid (fd_tables d)) > 0), d))"

definition new_proposal :: "ratchet_db \<Rightarrow> finding_cluster \<Rightarrow> string \<Rightarrow> invariant_proposal" where
  "new_proposal d c reason = \<lparr>pp_id = fd_next_proposal d, pp_cluster_id = fc_id c,
     pp_scope_type = fc_scope_type c, pp_scope_key = fc_scope_key c, pp_category = fc_category c,
     pp_fingerprint = fc_fingerprint c, pp_proposed_text = statement_for_cluster c,
     pp_rationale = rationale_for_cluster c reason,
     pp_evidence_summary = fc_canonical_summary c, pp_proposal_reason = reason,
     pp_status = ''proposed'', pp_created_at = fd_db_now d, pp_updated_at = fd_db_now d\<rparr>"

text \<open>The foreign key of the table refuses a cluster that does not exist.\<close>

definition pg_create_proposal ::
  "finding_cluster \<Rightarrow> string \<Rightarrow> (ratchet_db, invariant_proposal option) go" where
  "pg_create_proposal c reason = m_wrap ''create proposal'' (fd_exec (\<lambda>d.
     case cluster_by_id (fc_id c) (fd_tables d) of
       None \<Rightarrow> (Inl ''violates foreign key constraint'', d)
     | Some _ \<Rightarrow>
         (let p = new_proposal d c reason
          in (Inr (Some p), d\<lparr>fd_tables := (fd_tables d)\<lparr>tb_proposals :=
               AList.update (fd_next_proposal d) p (tb_proposals (fd_tables d))\<rparr>,
             fd_next_proposal := fd_next_proposal d + 1\<rparr>))))"

definition load_proposal :: "int \<Rightarrow> (ratchet_db, invariant_proposal \<times> finding_cluster) go" where
  "load_proposal pid = m_wrap ''load proposal'' (fd_exec (\<lambda>d.
     case map_of (tb_proposals (fd_tables d)) pid of
       None \<Rightarrow> (Inl ''sql: no rows in result set'', d)
     | Some p \<Rightarrow> (case cluster_by_id (pp_cluster_id p) (fd_tables d) of
           None \<Rightarrow> (Inl ''sql: no rows in result set'', d)
         | Some c \<Rightarrow> (Inr (p, c), d))))"

definition invariant_of ::
  "ratchet_db \<Rightarrow> invariant_proposal \<Rightarrow> finding_cluster \<Rightarrow> string \<Rightarrow> active_invariant option \<Rightarrow>
   active_invariant" where
  "invariant_of d p c mode old =
     (case old of
        None \<Rightarrow> \<lparr>ai_id = fd_next_invariant d, ai_scope_type = pp_scope_type p,
          ai_scope_key = pp_scope_key p, ai_category = pp_category p, ai_fingerprint = pp_fingerprint p,
          ai_statement = pp_proposed_text p, ai_severity = fc_highest_severity c,
          ai_enforcement_mode = mode, ai_source_proposal_id = Some (pp_id p),
          ai_created_at = fd_db_now d, ai_updated_at = fd_db_now d\<rparr>
      | Some i \<Rightarrow> i\<lparr>ai_statement := pp_proposed_text p, ai_severity := fc_highest_severity c,
          ai_enforcement_mode := mode, ai_source_proposal_id := Some (pp_id p),
          ai_updated_at := fd_db_now d\<rparr>)"

definition upsert_invariant ::
  "invariant_proposal \<Rightarrow> finding_cluster \<Rightarrow> string \<Rightarrow> (ratchet_db, active_invariant) go" where
  "upsert_invariant p c mode = m_wrap ''activate proposal'' (fd_exec (\<lambda>d.
     let i = invariant_of d p c mode (map_of (tb_invariants (fd_tables d)) (pp_key p))
     in (Inr i, d\<lparr>fd_tables := (fd_tables d)\<lparr>tb_invariants :=
          AList.update (pp_key p) i (tb_invariants (fd_tables d))\<rparr>,
        fd_next_invariant := fd_next_invariant d + 1\<rparr>)))"

definition seed_rows ::
  "int \<Rightarrow> int \<Rightarrow> ((int \<times> string) \<times> stage_counts) list \<Rightarrow> ((int \<times> string) \<times> stage_counts) list \<Rightarrow>
   ((int \<times> string) \<times> stage_counts) list" where
  "seed_rows iid cid crows irows =
     fold (\<lambda>((c, stage), s) rows. if c = cid then AList.update (iid, stage) s rows else rows) crows irows"

definition seed_stats :: "int \<Rightarrow> int \<Rightarrow> (ratchet_db, unit) go" where
  "seed_stats iid cid = m_wrap ''seed invariant stage stats'' (fd_exec (\<lambda>d.
     (Inr (), d\<lparr>fd_tables := (fd_tables d)\<lparr>tb_invariant_stats :=
        seed_rows iid cid (tb_cluster_stats (fd_tables d)) (tb_invariant_stats (fd_tables d))\<rparr>\<rparr>)))"

definition mark_approved :: "int \<Rightarrow> (ratchet_db, unit) go" where
  "mark_approved pid = m_wrap ''mark proposal approved'' (fd_exec (\<lambda>d.
     (Inr (), d\<lparr>fd_tables := (fd_tables d)\<lparr>tb_proposals := map (\<lambda>(k, p). (k,
        if k = pid then p\<lparr>pp_status := ''approved'', pp_updated_at := fd_db_now d\<rparr> else p))
        (tb_proposals (fd_tables d))\<rparr>\<rparr>)))"

definition pg_activate_proposal :: "int \<Rightarrow> string \<Rightarrow> (ratchet_db, active_invariant option) go" where
  "pg_activate_proposal pid mode =
     fd_tx (m_bind (load_proposal pid) (\<lambda>(p, c).
       m_bind (upsert_invariant p c mode) (\<lambda>i.
         m_then (seed_stats (ai_id i) (fc_id c))
           (m_then (mark_approved (pp_id p)) (m_ret (Some i))))))"

text \<open>The left join of the invariants with their counters for the stage.\<close>

definition stage_stats_of :: "string \<Rightarrow> ratchet_tables \<Rightarrow> invariant_stage_stat list" where
  "stage_stats_of stage t = List.map_filter (\<lambda>i.
     map_option (\<lambda>s. \<lparr>iss_invariant_id = ai_id i, iss_stage = stage,
       iss_occurrence_count = sc_occurrence_count s, iss_last_seen_at = sc_last_seen_at s,
       iss_rollback_count = sc_rollback_count s, iss_block_count = sc_block_count s\<rparr>)
       (map_of (tb_invariant_stats t) (ai_id i, stage))) (map snd (tb_invariants t))"

definition pg_ranked_invariants :: "retrieval_request \<Rightarrow> (ratchet_db, ranked_invariant list) go" where
  "pg_ranked_invariants req = m_wrap ''query ranked invariants'' (fd_exec (\<lambda>d.
     (Inr (rank_for_stage (fd_app_now d) (map snd (tb_invariants (fd_tables d)))
        (stat_index (stage_stats_of (rq_stage req) (fd_tables d))) req), d)))"

definition postgres_ratchet :: "ratchet_db ratchet_store" where
  "postgres_ratchet = \<lparr>rst_record_finding = pg_record_finding,
     rst_has_open_proposal = pg_has_open_proposal, rst_create_proposal = pg_create_proposal,
     rst_activate_proposal = pg_activate_proposal, rst_ranked_invariants = pg_ranked_invariants\<rparr>"

end
