(* ===== verification/RatchetRank.thy ===== *)
theory RatchetRank
  imports Ratchet
begin

section \<open>Ranking and the ingestion of findings\<close>

text \<open>
  The order of \<open>RankForStage\<close>, and what the service derives from the contract of a store, which both
  stores fulfil.
\<close>

subsection \<open>Ranking\<close>

lemma sorted_wrt_lex:
  assumes "sorted (map f xs)" and "\<And>k. sorted_wrt P (filter (\<lambda>x. f x = k) xs)"
    and "\<And>a b. f a < f b \<Longrightarrow> P a b"
  shows "sorted_wrt P xs"
  using assms(1,2)
proof (induction xs)
  case Nil
  then show ?case by simp
next
  case (Cons x xs)
  have "P x y" if y: "y \<in> set xs" for y
  proof (cases "f x < f y")
    case True
    then show ?thesis by (rule assms(3))
  next
    case False
    then have "f y = f x" using Cons.prems(1) y by fastforce
    then show ?thesis using Cons.prems(2) [of "f x"] y by simp
  qed
  moreover have "sorted_wrt P (filter (\<lambda>z. f z = k) xs)" for k
    using Cons.prems(2) [of k] by (simp split: if_splits)
  ultimately show ?case using Cons by simp
qed

lemma sort_key_perm:
  assumes "mset ys = mset xs" and d: "distinct (map f xs)"
  shows "sort_key f ys = sort_key f xs"
proof (rule map_sorted_distinct_set_unique)
  have set: "set ys = set xs" using assms(1) by (metis set_mset_mset)
  show "inj_on f (set (sort_key f ys) \<union> set (sort_key f xs))"
    using d set by (simp add: distinct_map)
  have "distinct (map f zs)" if "mset zs = mset xs" for zs
    using that d by (metis mset_eq_imp_distinct_iff mset_map)
  then show "distinct (map f (sort_key f ys))" "distinct (map f (sort_key f xs))"
    using assms(1) by simp_all
  show "set (sort_key f ys) = set (sort_key f xs)" using set by simp
qed simp_all

lemma sort_ranked_sorted:
  assumes "distinct (map (\<lambda>r. ai_id (rk_invariant r)) rs)"
  shows "sorted_wrt rank_before (sort_ranked rs)"
  unfolding sort_ranked_def
proof (rule sorted_wrt_lex [where f = "\<lambda>r. - rk_score r"])
  let ?id = "\<lambda>r. ai_id (rk_invariant r)" and ?in = "sort_key (\<lambda>r. ai_id (rk_invariant r)) rs"
  have "sorted (map ?id ?in)" and "distinct (map ?id ?in)"
    using assms by (simp, metis mset_eq_imp_distinct_iff mset_map mset_sort)
  then have "sorted_wrt (<) (map ?id ?in)" by (simp add: strict_sorted_iff)
  then have "sorted_wrt (\<lambda>a b. ?id a < ?id b) ?in" unfolding sorted_wrt_map .
  then show "sorted_wrt rank_before (filter (\<lambda>r. - rk_score r = k) (sort_key (\<lambda>r. - rk_score r) ?in))" for k
    unfolding sort_key_stable
    by (rule sorted_wrt_mono_rel [rotated, OF sorted_wrt_filter]) (simp add: rank_before_def)
qed (simp_all add: rank_before_def)

lemma sort_ranked_perm:
  "mset ys = mset xs \<Longrightarrow> distinct (map (\<lambda>r. ai_id (rk_invariant r)) xs) \<Longrightarrow> sort_ranked ys = sort_ranked xs"
  using sort_key_perm [of ys xs "\<lambda>r. ai_id (rk_invariant r)"] by (simp add: sort_ranked_def)

lemma ranked_ids: "map (\<lambda>r. ai_id (rk_invariant r)) (map (ranked_of now stats) is) = map ai_id is"
  by (simp add: ranked_of_def Let_def)

text \<open>
  C23: The invariants retrieved for a stage are the best ones in scope: they and the ones left out by the
  limit are together exactly the invariants whose scope matches the request, each with its counters
  for the stage, strictly ordered by score and then by identifier; the limit is met exactly; and the
  result does not depend on the order in which the rows were read.
\<close>

theorem rank_for_stage_correct:
  assumes "distinct (map ai_id invariants)" and "mset invariants' = mset invariants"
  shows "\<exists>rest.
    mset (rank_for_stage now invariants stats req @ rest) =
      mset (map (ranked_of now stats) (filter (\<lambda>i. scope_matches i req) invariants)) \<and>
    sorted_wrt rank_before (rank_for_stage now invariants stats req @ rest) \<and>
    int (length (rank_for_stage now invariants stats req)) =
      (let n = int (length (filter (\<lambda>i. scope_matches i req) invariants))
       in if 0 < rq_limit req then min (rq_limit req) n else n) \<and>
    rank_for_stage now invariants' stats req = rank_for_stage now invariants stats req"
proof -
  let ?f = "filter (\<lambda>i. scope_matches i req)"
  define rs where "rs = map (ranked_of now stats) (?f invariants)"
  define n where "n = (if rq_limit req > 0 \<and> int (length rs) > rq_limit req then nat (rq_limit req) else length rs)"
  have d: "distinct (map (\<lambda>r. ai_id (rk_invariant r)) rs)"
    unfolding rs_def ranked_ids using assms(1) by (rule distinct_map_filter)
  have len: "length (sort_ranked rs) = length rs" by (simp add: sort_ranked_def)
  have lrs: "length rs = length (?f invariants)" by (simp add: rs_def)
  have r: "rank_for_stage now invariants stats req = take n (sort_ranked rs)"
    unfolding rank_for_stage_def rs_def [symmetric] Let_def len n_def by (simp add: len)
  have "mset (map (ranked_of now stats) (?f invariants')) = mset rs"
    using assms(2) by (simp add: rs_def mset_map mset_filter)
  then have "sort_ranked (map (ranked_of now stats) (?f invariants')) = sort_ranked rs"
    by (rule sort_ranked_perm [OF _ d])
  then have perm: "rank_for_stage now invariants' stats req = rank_for_stage now invariants stats req"
    unfolding rank_for_stage_def rs_def [symmetric] by simp
  have all: "take n (sort_ranked rs) @ drop n (sort_ranked rs) = sort_ranked rs" by simp
  have "mset (sort_ranked rs) = mset rs" by (simp add: sort_ranked_def)
  moreover have "int (length (take n (sort_ranked rs))) =
      (let m = int (length (?f invariants)) in if 0 < rq_limit req then min (rq_limit req) m else m)"
    unfolding lrs [symmetric] by (simp add: len n_def Let_def)
  ultimately show ?thesis
    unfolding perm unfolding r
    by (intro exI [of _ "drop n (sort_ranked rs)"] conjI refl; (unfold all)?)
      (simp_all add: sort_ranked_sorted [OF d] rs_def [symmetric])
qed

subsection \<open>The contract of a store\<close>

text \<open>
  A store keeps its own invariant \<open>ok\<close>; a recorded finding yields a cluster it knows (\<open>current\<close>); when
  it finds no open proposal the cluster is \<open>free\<close>; a proposal for a known and free cluster is open and
  about that cluster.  A store that tracks findings gives the cluster the key of the finding.
\<close>

locale finding_store =
  fixes st :: "'x ratchet_store" and ok :: "'x \<Rightarrow> bool"
    and current :: "finding_cluster \<Rightarrow> 'x \<Rightarrow> bool" and free :: "int \<Rightarrow> 'x \<Rightarrow> bool"
  assumes record_keeps: "ok s \<Longrightarrow> ok (snd (rst_record_finding st e s))"
    and record_current: "ok s \<Longrightarrow> rst_record_finding st e s = (Inr (c, active), s') \<Longrightarrow> current c s'"
    and open_keeps: "ok s \<Longrightarrow> ok (snd (rst_has_open_proposal st i s))"
    and open_current: "current c s \<Longrightarrow> current c (snd (rst_has_open_proposal st i s))"
    and open_free: "rst_has_open_proposal st i s = (Inr False, s') \<Longrightarrow> free i s'"
    and create_keeps: "ok s \<Longrightarrow> current c s \<Longrightarrow> free (fc_id c) s \<Longrightarrow> ok (snd (rst_create_proposal st c reason s))"
    and created: "rst_create_proposal st c reason s = (Inr (Some p), s') \<Longrightarrow>
      pp_cluster_id p = fc_id c \<and> pp_key p = fc_key c \<and> pp_status p = ''proposed'' \<and>
      pp_proposal_reason p = reason"
begin

abbreviation no_proposal :: "finding_cluster \<Rightarrow> ('x, ingest_result) go" where
  "no_proposal c \<equiv> m_ret \<lparr>ir_cluster = c, ir_proposal = None\<rparr>"

abbreviation propose :: "finding_cluster \<Rightarrow> string \<Rightarrow> ('x, ingest_result) go" where
  "propose c reason \<equiv> m_bind (rst_has_open_proposal st (fc_id c)) (\<lambda>exists.
     if exists then no_proposal c
     else m_bind (rst_create_proposal st c reason) (\<lambda>p. m_ret \<lparr>ir_cluster = c, ir_proposal = p\<rparr>))"

lemma ingest_cases:
  "ingest_finding st e s =
     (case rst_record_finding st e s of
        (Inl err, s') \<Rightarrow> (Inl err, s')
      | (Inr (c, active), s') \<Rightarrow>
          (case (active, should_propose c) of (None, Some reason) \<Rightarrow> propose c reason s' | _ \<Rightarrow> no_proposal c s'))"
  by (auto simp: ingest_finding_def m_bind_def split: prod.splits sum.splits option.splits)

lemma propose_keeps:
  assumes "ok s" and "current c s"
  shows "ok (snd (propose c reason s))"
proof -
  obtain r s1 where h: "rst_has_open_proposal st (fc_id c) s = (r, s1)" by fastforce
  have s1: "ok s1" "current c s1" using open_keeps [OF assms(1)] open_current [OF assms(2)] h by (metis snd_conv)+
  show ?thesis
  proof (cases "r = Inr False")
    case True
    with h have "free (fc_id c) s1" by (simp add: open_free)
    with create_keeps [OF s1] have "ok (snd (rst_create_proposal st c reason s1))" by blast
    then show ?thesis using h True by (auto simp: m_bind_def m_ret_def split: prod.splits sum.splits)
  next
    case False
    then show ?thesis using h s1 by (auto simp: m_bind_def m_ret_def split: sum.splits)
  qed
qed

lemma ingest_keeps: "keeps ok (ingest_finding st e)"
proof (rule keepsI)
  fix s assume s: "ok s"
  obtain r s1 where rec: "rst_record_finding st e s = (r, s1)" by fastforce
  have s1: "ok s1" using record_keeps [OF s] rec by (metis snd_conv)
  then show "ok (snd (ingest_finding st e s))"
    using record_current [OF s] propose_keeps [OF s1] rec
    by (auto simp: ingest_cases m_ret_def split: sum.splits option.splits)
qed

text \<open>A proposal is made only above a threshold, without an active invariant or an open proposal.\<close>

lemma ingest_proposes:
  assumes "ingest_finding st e s = (Inr r, s')" and "ir_proposal r = Some p"
  shows "\<exists>s1 s2. rst_record_finding st e s = (Inr (ir_cluster r, None), s1) \<and>
    should_propose (ir_cluster r) = Some (pp_proposal_reason p) \<and>
    rst_has_open_proposal st (fc_id (ir_cluster r)) s1 = (Inr False, s2) \<and>
    rst_create_proposal st (ir_cluster r) (pp_proposal_reason p) s2 = (Inr (Some p), s') \<and>
    pp_cluster_id p = fc_id (ir_cluster r) \<and> pp_key p = fc_key (ir_cluster r) \<and>
    pp_status p = ''proposed''"
proof -
  obtain c active s1 where rec: "rst_record_finding st e s = (Inr (c, active), s1)"
    using assms(1) by (auto simp: ingest_cases split: prod.splits sum.splits)
  obtain reason where n: "active = None" "should_propose c = Some reason" "propose c reason s1 = (Inr r, s')"
    using assms rec by (auto simp: ingest_cases m_ret_def split: option.splits)
  from n(3) obtain exists s2 where h: "rst_has_open_proposal st (fc_id c) s1 = (Inr exists, s2)"
    and rest: "(if exists then no_proposal c
       else m_bind (rst_create_proposal st c reason) (\<lambda>p. m_ret \<lparr>ir_cluster = c, ir_proposal = p\<rparr>)) s2 = (Inr r, s')"
    by (auto simp: m_bind_ok)
  from rest assms(2) have "\<not> exists" by (auto simp: m_ok)
  with rest assms(2) have "rst_create_proposal st c reason s2 = (Inr (Some p), s')" "ir_cluster r = c"
    by (auto simp: m_ok)
  with created [OF this(1)] rec n h \<open>\<not> exists\<close> show ?thesis by auto
qed

end

locale tracking_store = finding_store +
  assumes record_key: "ok s \<Longrightarrow> rst_record_finding st e s = (Inr (c, active), s') \<Longrightarrow> fc_key c = fe_key e"
begin

lemma ingest_key:
  assumes "ok s" and "ingest_finding st e s = (Inr r, s')"
  shows "fc_key (ir_cluster r) = fe_key e \<and> (\<forall>p. ir_proposal r = Some p \<longrightarrow> pp_key p = fe_key e)"
proof -
  obtain c active s1 where rec: "rst_record_finding st e s = (Inr (c, active), s1)" and "ir_cluster r = c"
    using assms(2) by (auto simp: ingest_cases m_ok split: prod.splits sum.splits option.splits if_splits)
  with record_key [OF assms(1) rec] ingest_proposes [OF assms(2)] show ?thesis by auto
qed

end

interpretation noop_store: finding_store noop_ratchet "\<lambda>_. True" "\<lambda>_ _. True" "\<lambda>_ _. True"
  by unfold_locales (auto simp: noop_ratchet_def m_ret_def)

end
