(* ===== verification/RatchetInv.thy ===== *)
theory RatchetInv
  imports RatchetRank
begin

section \<open>The tables of findings agree with the findings\<close>

text \<open>
  The counters that the statements of postgres.go maintain are, in every state the service can reach,
  those of the recorded events; a transaction that fails changes no table.
\<close>

subsection \<open>The invariant\<close>

definition sev_rank :: "string \<Rightarrow> nat" where
  "sev_rank s = (if s = ''critical'' then 4 else if s = ''high'' then 3 else if s = ''medium'' then 2
     else if s = ''low'' then 1 else 0)"

definition worst :: "finding_event list \<Rightarrow> nat" where
  "worst es = fold (\<lambda>e m. max (sev_rank (fe_severity e)) m) es 0"

definition at_stage :: "string \<Rightarrow> finding_event list \<Rightarrow> finding_event list" where
  "at_stage stage es = filter (\<lambda>e. fe_stage e = stage) es"

definition impact_count :: "string \<Rightarrow> finding_event list \<Rightarrow> int" where
  "impact_count impact es = int (length (filter (\<lambda>e. fe_outcome_impact e = impact) es))"

definition counts_ok :: "finding_event list \<Rightarrow> stage_counts option \<Rightarrow> bool" where
  "counts_ok es r \<longleftrightarrow>
     (case r of
        None \<Rightarrow> es = []
      | Some s \<Rightarrow> es \<noteq> [] \<and> sc_occurrence_count s = int (length es) \<and>
          sc_rollback_count s = impact_count ''rollback'' es \<and> sc_block_count s = impact_count ''block'' es)"

definition cluster_ok :: "ratchet_tables \<Rightarrow> finding_key \<Rightarrow> finding_cluster \<Rightarrow> bool" where
  "cluster_ok t k c \<longleftrightarrow>
     (let es = events_of k (tb_events t)
      in fc_key c = k \<and> es \<noteq> [] \<and> fc_occurrence_count c = int (length es) \<and>
         fc_occurrence_count c \<le> int4_max \<and> fc_distinct_run_count c = count_distinct fe_run_id es \<and>
         fc_distinct_issue_count c = count_distinct fe_issue_id es \<and>
         sev_rank (fc_highest_severity c) = worst es \<and>
         (\<forall>stage. counts_ok (at_stage stage es) (map_of (tb_cluster_stats t) (fc_id c, stage))))"

definition invariant_ok :: "ratchet_tables \<Rightarrow> finding_key \<Rightarrow> active_invariant \<Rightarrow> bool" where
  "invariant_ok t k i \<longleftrightarrow> ai_key i = k \<and> map_of (tb_clusters t) k \<noteq> None \<and>
     (\<forall>stage. counts_ok (at_stage stage (events_of k (tb_events t))) (map_of (tb_invariant_stats t) (ai_id i, stage)))"

definition proposal_ok :: "ratchet_tables \<Rightarrow> int \<Rightarrow> invariant_proposal \<Rightarrow> bool" where
  "proposal_ok t pid p \<longleftrightarrow> pp_id p = pid \<and>
     (\<exists>c. map_of (tb_clusters t) (pp_key p) = Some c \<and> fc_id c = pp_cluster_id p)"

definition own_ids :: "('k \<times> 'v) list \<Rightarrow> ('v \<Rightarrow> int) \<Rightarrow> int \<Rightarrow> bool" where
  "own_ids rows id_of bound \<longleftrightarrow> distinct (map fst rows) \<and>
     (\<forall>k v. map_of rows k = Some v \<longrightarrow> id_of v < bound) \<and>
     (\<forall>k k' v v'. map_of rows k = Some v \<and> map_of rows k' = Some v' \<and> id_of v = id_of v' \<longrightarrow> k = k')"

definition stats_below :: "((int \<times> string) \<times> stage_counts) list \<Rightarrow> int \<Rightarrow> bool" where
  "stats_below rows bound \<longleftrightarrow> distinct (map fst rows) \<and> (\<forall>i stage s. map_of rows (i, stage) = Some s \<longrightarrow> i < bound)"

definition one_open :: "ratchet_tables \<Rightarrow> bool" where
  "one_open t \<longleftrightarrow> (\<forall>i j p q. map_of (tb_proposals t) i = Some p \<and> map_of (tb_proposals t) j = Some q \<and>
     pp_status p = ''proposed'' \<and> pp_status q = ''proposed'' \<and> pp_cluster_id p = pp_cluster_id q \<longrightarrow> i = j)"

definition ratchet_ok :: "ratchet_db \<Rightarrow> bool" where
  "ratchet_ok d \<longleftrightarrow>
     (let t = fd_tables d
      in own_ids (tb_clusters t) fc_id (fd_next_cluster d) \<and>
         own_ids (tb_proposals t) pp_id (fd_next_proposal d) \<and>
         own_ids (tb_invariants t) ai_id (fd_next_invariant d) \<and>
         stats_below (tb_cluster_stats t) (fd_next_cluster d) \<and>
         stats_below (tb_invariant_stats t) (fd_next_invariant d) \<and>
         (\<forall>e \<in> set (tb_events t). map_of (tb_clusters t) (fe_key e) \<noteq> None) \<and>
         (\<forall>k c. map_of (tb_clusters t) k = Some c \<longrightarrow> cluster_ok t k c) \<and>
         (\<forall>k i. map_of (tb_invariants t) k = Some i \<longrightarrow> invariant_ok t k i) \<and>
         (\<forall>pid p. map_of (tb_proposals t) pid = Some p \<longrightarrow> proposal_ok t pid p) \<and>
         one_open t)"

subsection \<open>Counting one more event\<close>

lemma highest_severity_rank: "sev_rank (highest_severity new old) = max (sev_rank new) (sev_rank old)"
  unfolding highest_severity_def sev_rank_def by simp

lemma events_of_snoc: "events_of k (es @ [e]) = events_of k es @ (if fe_key e = k then [e] else [])"
  by (simp add: events_of_def)

lemma worst_snoc: "worst (es @ [e]) = max (sev_rank (fe_severity e)) (worst es)"
  by (simp add: worst_def)

lemma at_stage_snoc: "at_stage stage (es @ [e]) = at_stage stage es @ (if fe_stage e = stage then [e] else [])"
  by (simp add: at_stage_def)

lemma int4_add_Some: "int4_add a b = Some n \<longleftrightarrow> n = a + b \<and> \<bar>a + b\<bar> \<le> int4_max"
  by (auto simp: int4_add_def)

lemma count_finding_ok:
  assumes "count_finding now e old = Some s" and "counts_ok es old"
  shows "counts_ok (es @ [e]) (Some s)"
  using assms
  by (auto simp: count_finding_def counts_ok_def impact_count_def bool_int_def Let_def int4_add_Some
      split: option.splits if_splits)

text \<open>The stored event counts like the reported one.\<close>

definition stored_event :: "ratchet_db \<Rightarrow> finding_event \<Rightarrow> finding_event" where
  "stored_event d e = e\<lparr>fe_id := fd_next_event d, fe_created_at := fd_db_now d\<rparr>"

lemma stored_event_fields [simp]:
  "fe_key (stored_event d e) = fe_key e" "fe_stage (stored_event d e) = fe_stage e"
  "fe_severity (stored_event d e) = fe_severity e"
  by (simp_all add: stored_event_def fe_key_def)

lemma count_finding_stored [simp]: "count_finding now (stored_event d e) = count_finding now e"
  by (simp add: count_finding_def stored_event_def fun_eq_iff)

subsection \<open>What the statements do\<close>

text \<open>All but the tables: the sequences of the tables with references.\<close>

abbreviation seqs :: "ratchet_db \<Rightarrow> int \<times> int \<times> int" where
  "seqs d \<equiv> (fd_next_cluster d, fd_next_proposal d, fd_next_invariant d)"

lemma fd_exec_ok: "fd_exec stmt d = (Inr x, d') \<Longrightarrow> stmt (d\<lparr>fd_calls := Suc (fd_calls d)\<rparr>) = (Inr x, d')"
  by (auto simp: fd_exec_def Let_def split: option.splits sum.splits prod.splits)

lemma fd_exec_err: "fd_exec stmt d = (Inl e, d') \<Longrightarrow> fd_tables d' = fd_tables d \<and> seqs d' = seqs d"
  by (auto simp: fd_exec_def Let_def split: option.splits sum.splits prod.splits)

lemma insert_event_ok:
  "insert_event e d = (Inr (), d') \<Longrightarrow>
   fd_tables d' = (fd_tables d)\<lparr>tb_events := tb_events (fd_tables d) @ [stored_event d e]\<rparr> \<and>
   seqs d' = seqs d \<and> fd_db_now d' = fd_db_now d"
  unfolding insert_event_def m_wrap_ok by (drule fd_exec_ok) (auto simp: stored_event_def)

definition upserted :: "ratchet_db \<Rightarrow> finding_event \<Rightarrow> finding_cluster \<Rightarrow> bool" where
  "upserted d e c \<longleftrightarrow>
     (case map_of (tb_clusters (fd_tables d)) (fe_key e) of
        None \<Rightarrow> c = new_cluster d e
      | Some old \<Rightarrow> fc_occurrence_count old + 1 \<le> int4_max \<and>
          c = merge_cluster (fd_db_now d) e (fc_occurrence_count old + 1) old)"

lemma upsert_cluster_ok:
  "upsert_cluster e d = (Inr (), d') \<Longrightarrow>
   \<exists>c. upserted d e c \<and> fd_tables d' = (fd_tables d)\<lparr>tb_clusters := AList.update (fe_key e) c (tb_clusters (fd_tables d))\<rparr> \<and>
     fd_next_cluster d' = fd_next_cluster d + 1 \<and> fd_next_proposal d' = fd_next_proposal d \<and>
     fd_next_invariant d' = fd_next_invariant d \<and> fd_db_now d' = fd_db_now d"
  unfolding upsert_cluster_def m_wrap_ok upserted_def
  by (drule fd_exec_ok)
    (auto simp: put_cluster_def new_cluster_def int4_add_Some split: option.splits)

lemma read_cluster_tx_ok:
  "read_cluster_tx e d = (Inr c, d') \<Longrightarrow>
   map_of (tb_clusters (fd_tables d)) (fe_key e) = Some c \<and> fd_tables d' = fd_tables d \<and> seqs d' = seqs d \<and>
   fd_db_now d' = fd_db_now d"
  unfolding read_cluster_tx_def m_wrap_ok by (drule fd_exec_ok) (auto split: option.splits)

definition recount :: "finding_event list \<Rightarrow> finding_cluster \<Rightarrow> finding_cluster" where
  "recount es c = c\<lparr>fc_distinct_run_count := count_distinct fe_run_id es,
     fc_distinct_issue_count := count_distinct fe_issue_id es\<rparr>"

lemma refresh_counts_ok:
  "refresh_counts e cid d = (Inr (), d') \<Longrightarrow>
   fd_tables d' = (fd_tables d)\<lparr>tb_clusters := map (\<lambda>(k, c). (k,
      if fc_id c = cid then recount (events_of (fe_key e) (tb_events (fd_tables d))) c else c))
      (tb_clusters (fd_tables d))\<rparr> \<and> seqs d' = seqs d \<and> fd_db_now d' = fd_db_now d"
  unfolding refresh_counts_def m_wrap_ok recount_def
  by (drule fd_exec_ok) (auto simp: Let_def split: if_splits)

lemma upsert_cluster_stat_ok:
  "upsert_cluster_stat e cid d = (Inr (), d') \<Longrightarrow>
   \<exists>s. count_finding (fd_db_now d) e (map_of (tb_cluster_stats (fd_tables d)) (cid, fe_stage e)) = Some s \<and>
     fd_tables d' = (fd_tables d)\<lparr>tb_cluster_stats :=
       AList.update (cid, fe_stage e) s (tb_cluster_stats (fd_tables d))\<rparr> \<and> seqs d' = seqs d \<and> fd_db_now d' = fd_db_now d"
  unfolding upsert_cluster_stat_def m_wrap_ok
  by (drule fd_exec_ok) (auto simp: Let_def split: option.splits)

lemma upsert_invariant_stat_ok:
  "upsert_invariant_stat e iid d = (Inr (), d') \<Longrightarrow>
   \<exists>s. count_finding (fd_db_now d) e (map_of (tb_invariant_stats (fd_tables d)) (iid, fe_stage e)) = Some s \<and>
     fd_tables d' = (fd_tables d)\<lparr>tb_invariant_stats :=
       AList.update (iid, fe_stage e) s (tb_invariant_stats (fd_tables d))\<rparr> \<and> seqs d' = seqs d"
  unfolding upsert_invariant_stat_def m_wrap_ok
  by (drule fd_exec_ok) (auto simp: Let_def split: option.splits)

lemma read_active_ok:
  "read_active_tx k d = (Inr a, d') \<Longrightarrow>
   a = map_of (tb_invariants (fd_tables d)) k \<and> fd_tables d' = fd_tables d \<and> seqs d' = seqs d"
  unfolding read_active_tx_def m_wrap_ok by (drule fd_exec_ok) auto

text \<open>A transaction either runs to its end or leaves the tables.\<close>

lemma fd_tx_ok:
  assumes "fd_tx m d = (Inr x, d')"
  shows "\<exists>d1 d2. fd_tables d1 = fd_tables d \<and> seqs d1 = seqs d \<and> m d1 = (Inr x, d2) \<and>
    fd_tables d' = fd_tables d2 \<and> seqs d' = seqs d2"
proof -
  let ?call = "fd_exec (\<lambda>d. (Inr (), d))"
  from assms have "m_bind ?call (\<lambda>_. m_bind m (\<lambda>x. m_bind ?call (\<lambda>_. m_ret x))) d = (Inr x, d')"
    by (auto simp: fd_tx_def Let_def split: prod.splits sum.splits)
  then obtain d1 d2 where "?call d = (Inr (), d1)" "m d1 = (Inr x, d2)" "?call d2 = (Inr (), d')"
    by (auto simp: m_ok)
  then show ?thesis
    by (intro exI [of _ d1] exI [of _ d2]) (auto dest!: fd_exec_ok)
qed

lemma fd_tx_err: "fd_tx m d = (Inl e, d') \<Longrightarrow> fd_tables d' = fd_tables d"
  by (auto simp: fd_tx_def Let_def split: prod.splits sum.splits)

subsection \<open>Recording a finding\<close>

definition recorded_stat ::
  "finding_event \<Rightarrow> int \<times> string \<Rightarrow> ((int \<times> string) \<times> stage_counts) list \<Rightarrow>
   ((int \<times> string) \<times> stage_counts) list \<Rightarrow> bool" where
  "recorded_stat e k rows rows' \<longleftrightarrow>
     (\<exists>now s. count_finding now e (map_of rows k) = Some s \<and> rows' = AList.update k s rows)"

definition recorded_tables :: "ratchet_db \<Rightarrow> finding_event \<Rightarrow> finding_cluster \<Rightarrow> ratchet_tables \<Rightarrow> bool" where
  "recorded_tables d e c t' \<longleftrightarrow>
     (let t = fd_tables d; k = fe_key e; es = tb_events t @ [stored_event d e]
      in upserted d e c \<and> tb_events t' = es \<and>
         map_of (tb_clusters t') = (map_of (tb_clusters t))(k \<mapsto> recount (events_of k es) c) \<and>
         distinct (map fst (tb_clusters t')) \<and>
         recorded_stat e (fc_id c, fe_stage e) (tb_cluster_stats t) (tb_cluster_stats t') \<and>
         tb_proposals t' = tb_proposals t \<and> tb_invariants t' = tb_invariants t \<and>
         (case map_of (tb_invariants t) k of
            None \<Rightarrow> tb_invariant_stats t' = tb_invariant_stats t
          | Some i \<Rightarrow> recorded_stat e (ai_id i, fe_stage e) (tb_invariant_stats t) (tb_invariant_stats t')))"

lemma own_idsD:
  assumes "own_ids rows f n"
  shows "map_of rows k = Some v \<Longrightarrow> f v < n"
    and "map_of rows k = Some v \<Longrightarrow> map_of rows k' = Some v' \<Longrightarrow> f v = f v' \<Longrightarrow> k = k'"
    and "distinct (map fst rows)"
  using assms unfolding own_ids_def by blast+

lemma upserted_id:
  assumes "upserted d e c" and own: "own_ids (tb_clusters (fd_tables d)) fc_id (fd_next_cluster d)"
    and k: "map_of (tb_clusters (fd_tables d)) k = Some c'" and same: "fc_id c' = fc_id c"
  shows "k = fe_key e"
proof (cases "map_of (tb_clusters (fd_tables d)) (fe_key e)")
  case None
  then have "fc_id c = fd_next_cluster d" using assms(1) by (simp add: upserted_def new_cluster_def)
  then show ?thesis using own_idsD(1) [OF own k] same by simp
next
  case (Some old)
  then have "fc_id c' = fc_id old" using assms(1) same by (simp add: upserted_def merge_cluster_def)
  then show ?thesis by (rule own_idsD(2) [OF own k Some])
qed

lemma map_of_values: "map_of (map (\<lambda>(k, v). (k, f v)) xs) = (\<lambda>k. map_option f (map_of xs k))"
  by (induction xs) (auto simp: fun_eq_iff)

lemma recounted_clusters:
  assumes "upserted d e c" and own: "own_ids (tb_clusters (fd_tables d)) fc_id (fd_next_cluster d)"
    and rows: "rows = map (\<lambda>(k, x). (k, if fc_id x = fc_id c then recount es x else x))
      (AList.update (fe_key e) c (tb_clusters (fd_tables d)))"
  shows "map_of rows = (map_of (tb_clusters (fd_tables d)))(fe_key e \<mapsto> recount es c)" and "distinct (map fst rows)"
proof -
  have "distinct (map fst (AList.update (fe_key e) c (tb_clusters (fd_tables d))))"
    using own by (simp add: own_ids_def distinct_update)
  then show "distinct (map fst rows)" by (simp add: rows case_prod_beta comp_def)
  have "map_of rows k = ((map_of (tb_clusters (fd_tables d)))(fe_key e \<mapsto> recount es c)) k" for k
    using upserted_id [OF assms(1) own, of k]
    by (cases "map_of (tb_clusters (fd_tables d)) k") (auto simp: rows map_of_values update_conv')
  then show "map_of rows = (map_of (tb_clusters (fd_tables d)))(fe_key e \<mapsto> recount es c)" ..
qed

lemma record_tx_ok:
  assumes own: "own_ids (tb_clusters (fd_tables d)) fc_id (fd_next_cluster d)"
    and run: "record_tx e d = (Inr (cid, active), d')"
  shows "\<exists>c. cid = fc_id c \<and> recorded_tables d e c (fd_tables d') \<and>
    active = map_of (tb_invariants (fd_tables d)) (fe_key e) \<and> fd_next_cluster d' = fd_next_cluster d + 1 \<and>
    fd_next_proposal d' = fd_next_proposal d \<and> fd_next_invariant d' = fd_next_invariant d"
proof -
  let ?es = "tb_events (fd_tables d) @ [stored_event d e]"
  obtain d1 d2 c0 d3 d4 d5 d6 where i: "insert_event e d = (Inr (), d1)" and u: "upsert_cluster e d1 = (Inr (), d2)"
    and rd: "read_cluster_tx e d2 = (Inr c0, d3)" and rf: "refresh_counts e (fc_id c0) d3 = (Inr (), d4)"
    and cs: "upsert_cluster_stat e (fc_id c0) d4 = (Inr (), d5)"
    and ra: "read_active_tx (fe_key e) d5 = (Inr active, d6)" and cid: "cid = fc_id c0"
    and iv: "(case active of None \<Rightarrow> m_ret () | Some i \<Rightarrow> upsert_invariant_stat e (ai_id i)) d6 = (Inr (), d')"
    using run unfolding record_tx_def m_ok by blast
  note i = insert_event_ok [OF i]
  obtain c where c: "upserted d1 e c"
    "fd_tables d2 = (fd_tables d1)\<lparr>tb_clusters := AList.update (fe_key e) c (tb_clusters (fd_tables d1))\<rparr>"
    "fd_next_cluster d2 = fd_next_cluster d1 + 1" "fd_next_proposal d2 = fd_next_proposal d1"
    "fd_next_invariant d2 = fd_next_invariant d1"
    using upsert_cluster_ok [OF u] by blast
  have up: "upserted d e c"
    using c(1) i unfolding upserted_def by (auto simp: new_cluster_def split: option.splits)
  have c0: "c0 = c" using read_cluster_tx_ok [OF rd] c(2) by (simp add: update_conv')
  note rf = refresh_counts_ok [OF rf] and ra = read_active_ok [OF ra] and rd = read_cluster_tx_ok [OF rd]
  obtain s now where s: "count_finding now e (map_of (tb_cluster_stats (fd_tables d4)) (fc_id c, fe_stage e)) = Some s"
    "fd_tables d5 = (fd_tables d4)\<lparr>tb_cluster_stats :=
       AList.update (fc_id c, fe_stage e) s (tb_cluster_stats (fd_tables d4))\<rparr>" "seqs d5 = seqs d4"
    using upsert_cluster_stat_ok [OF cs] c0 by blast
  have t2: "tb_events (fd_tables d3) = ?es" using i c rd by simp
  have t6: "fd_tables d6 = (fd_tables d)\<lparr>tb_events := ?es, tb_clusters := map (\<lambda>(k, x). (k,
        if fc_id x = fc_id c then recount (events_of (fe_key e) ?es) x else x))
        (AList.update (fe_key e) c (tb_clusters (fd_tables d))),
      tb_cluster_stats := AList.update (fc_id c, fe_stage e) s (tb_cluster_stats (fd_tables d))\<rparr>"
    and now: "count_finding now e (map_of (tb_cluster_stats (fd_tables d)) (fc_id c, fe_stage e)) = Some s"
    and sq: "fd_next_cluster d6 = fd_next_cluster d + 1" "fd_next_proposal d6 = fd_next_proposal d"
      "fd_next_invariant d6 = fd_next_invariant d"
    using i c s rd rf [unfolded t2(1)] ra c0 by simp_all
  have act: "active = map_of (tb_invariants (fd_tables d)) (fe_key e)" using ra i c s rd rf c0 by simp
  note clusters = recounted_clusters [OF up own refl, of "events_of (fe_key e) ?es"]
  have "recorded_tables d e c (fd_tables d') \<and> seqs d' = seqs d6"
  proof (cases active)
    case None
    then have "d' = d6" using iv by (simp add: m_ret_ok)
    then show ?thesis
      using up clusters now None act by (auto simp: recorded_tables_def recorded_stat_def t6 Let_def)
  next
    case (Some a)
    then obtain s' now' where "count_finding now' e (map_of (tb_invariant_stats (fd_tables d6)) (ai_id a, fe_stage e)) = Some s'"
      "fd_tables d' = (fd_tables d6)\<lparr>tb_invariant_stats :=
         AList.update (ai_id a, fe_stage e) s' (tb_invariant_stats (fd_tables d6))\<rparr>" "seqs d' = seqs d6"
      using iv upsert_invariant_stat_ok [of e "ai_id a" d6 d'] by auto
    then show ?thesis
      using up clusters now Some act by (auto simp: recorded_tables_def recorded_stat_def t6 Let_def)
  qed
  then show ?thesis using act sq cid c0 by (intro exI [of _ c]) simp
qed

lemma recorded_stat_counts:
  assumes "recorded_stat e (i, fe_stage e) rows rows'"
    and "\<And>stage. counts_ok (at_stage stage es) (map_of rows (i, stage))"
  shows "counts_ok (at_stage stage (es @ [stored_event d e])) (map_of rows' (i, stage))"
proof -
  obtain now s where s: "count_finding now e (map_of rows (i, fe_stage e)) = Some s"
    "rows' = AList.update (i, fe_stage e) s rows"
    using assms(1) by (auto simp: recorded_stat_def)
  then show ?thesis
    using count_finding_ok [of now "stored_event d e" "map_of rows (i, fe_stage e)" s] assms(2)
    by (simp add: at_stage_snoc update_conv')
qed

lemma recorded_stat_other: "recorded_stat e (i, x) rows rows' \<Longrightarrow> j \<noteq> i \<Longrightarrow> map_of rows' (j, y) = map_of rows (j, y)"
  by (auto simp: recorded_stat_def update_conv')

lemma stats_below_mono: "stats_below rows b \<Longrightarrow> b \<le> b' \<Longrightarrow> stats_below rows b'"
  unfolding stats_below_def by (meson order_less_le_trans)

lemma stats_below_update: "stats_below rows b \<Longrightarrow> i < b \<Longrightarrow> stats_below (AList.update (i, x) s rows) b"
  unfolding stats_below_def by (auto simp: update_conv' distinct_update simp del: map_of_eq_Some_iff split: if_splits)

lemma recorded_stat_below:
  "recorded_stat e (i, x) rows rows' \<Longrightarrow> stats_below rows b \<Longrightarrow> b \<le> b' \<Longrightarrow> i < b' \<Longrightarrow> stats_below rows' b'"
  unfolding recorded_stat_def using stats_below_update stats_below_mono by blast

lemma own_ids_mono: "own_ids rows f b \<Longrightarrow> b \<le> b' \<Longrightarrow> own_ids rows f b'"
  unfolding own_ids_def by (meson order_less_le_trans)

text \<open>Writing one row keeps the identifiers apart when the row keeps its own or draws a fresh one.\<close>

lemma own_ids_put:
  assumes "own_ids rows f b" and "\<And>old. map_of rows k = Some old \<Longrightarrow> f v = f old"
    and "map_of rows k = None \<Longrightarrow> f v = b" and "map_of rows' = (map_of rows)(k \<mapsto> v)"
    and "distinct (map fst rows')"
  shows "own_ids rows' f (b + 1)"
proof -
  have apart: "f w \<noteq> f v" if "map_of rows j = Some w" and "j \<noteq> k" for j w
    using that own_idsD(1,2) [OF assms(1)] assms(2,3) by (cases "map_of rows k") force+
  have below: "f v < b + 1"
    using own_idsD(1) [OF assms(1)] assms(2,3) by (cases "map_of rows k") force+
  have old: "f w < b + 1" if "map_of rows j = Some w" for j w
    using own_idsD(1) [OF assms(1) that] by simp
  show ?thesis
    unfolding own_ids_def assms(4)
  proof (intro conjI allI impI)
    fix j w assume "((map_of rows)(k \<mapsto> v)) j = Some w"
    then show "f w < b + 1" using below old by (auto split: if_splits)
  next
    fix j j' w w'
    assume "((map_of rows)(k \<mapsto> v)) j = Some w \<and> ((map_of rows)(k \<mapsto> v)) j' = Some w' \<and> f w = f w'"
    then show "j = j'"
      using apart [of j w] apart [of j' w'] own_idsD(2) [OF assms(1), of j w j' w']
      by (auto split: if_splits)
  qed (rule assms(5))
qed

lemma ratchet_okD:
  assumes "ratchet_ok d" and "t = fd_tables d"
  shows "own_ids (tb_clusters t) fc_id (fd_next_cluster d)"
    and "own_ids (tb_proposals t) pp_id (fd_next_proposal d)"
    and "own_ids (tb_invariants t) ai_id (fd_next_invariant d)"
    and "stats_below (tb_cluster_stats t) (fd_next_cluster d)"
    and "stats_below (tb_invariant_stats t) (fd_next_invariant d)"
    and "e \<in> set (tb_events t) \<Longrightarrow> map_of (tb_clusters t) (fe_key e) \<noteq> None"
    and "map_of (tb_clusters t) k = Some c \<Longrightarrow> cluster_ok t k c"
    and "map_of (tb_invariants t) k = Some i \<Longrightarrow> invariant_ok t k i"
    and "map_of (tb_proposals t) pid = Some p \<Longrightarrow> proposal_ok t pid p"
    and "one_open t"
  using assms unfolding ratchet_ok_def Let_def by blast+

lemma no_cluster_no_event: "ratchet_ok d \<Longrightarrow> map_of (tb_clusters (fd_tables d)) k = None \<Longrightarrow> events_of k (tb_events (fd_tables d)) = []"
  using ratchet_okD(6) [OF _ refl] by (fastforce simp: events_of_def filter_empty_conv)

lemma no_stat: "stats_below rows b \<Longrightarrow> b \<le> i \<Longrightarrow> map_of rows (i, stage) = None"
  unfolding stats_below_def by (meson not_Some_eq linorder_not_less)

lemma upserted_key:
  assumes ok: "ratchet_ok d" and up: "upserted d e c"
  shows "fc_key c = fe_key e"
proof (cases "map_of (tb_clusters (fd_tables d)) (fe_key e)")
  case None
  then show ?thesis using up by (simp add: upserted_def new_cluster_def fc_key_def fe_key_def)
next
  case (Some old)
  then show ?thesis
    using up ratchet_okD(7) [OF ok refl Some]
    by (simp add: upserted_def cluster_ok_def Let_def merge_cluster_def fc_key_def)
qed

lemma upserted_count:
  assumes ok: "ratchet_ok d" and up: "upserted d e c"
  shows "fc_occurrence_count c = int (length (events_of (fe_key e) (tb_events (fd_tables d)))) + 1 \<and>
    fc_occurrence_count c \<le> int4_max \<and>
    sev_rank (fc_highest_severity c) =
      max (sev_rank (fe_severity e)) (worst (events_of (fe_key e) (tb_events (fd_tables d))))"
proof (cases "map_of (tb_clusters (fd_tables d)) (fe_key e)")
  case None
  then show ?thesis
    using up no_cluster_no_event [OF ok None]
    by (simp add: upserted_def new_cluster_def worst_def int4_max_def)
next
  case (Some old)
  then show ?thesis
    using up ratchet_okD(7) [OF ok refl Some]
    by (simp add: upserted_def merge_cluster_def cluster_ok_def Let_def highest_severity_rank)
qed

lemma upserted_stats:
  assumes ok: "ratchet_ok d" and up: "upserted d e c"
  shows "counts_ok (at_stage stage (events_of (fe_key e) (tb_events (fd_tables d))))
    (map_of (tb_cluster_stats (fd_tables d)) (fc_id c, stage))"
proof (cases "map_of (tb_clusters (fd_tables d)) (fe_key e)")
  case None
  then show ?thesis
    using up no_cluster_no_event [OF ok None] no_stat [OF ratchet_okD(4) [OF ok refl]]
    by (simp add: upserted_def new_cluster_def at_stage_def counts_ok_def)
next
  case (Some old)
  then show ?thesis
    using up ratchet_okD(7) [OF ok refl Some]
    by (simp add: upserted_def merge_cluster_def cluster_ok_def Let_def)
qed

lemma recount_fields [simp]:
  "fc_id (recount es c) = fc_id c" "fc_key (recount es c) = fc_key c"
  "fc_occurrence_count (recount es c) = fc_occurrence_count c"
  "fc_highest_severity (recount es c) = fc_highest_severity c"
  "fc_distinct_run_count (recount es c) = count_distinct fe_run_id es"
  "fc_distinct_issue_count (recount es c) = count_distinct fe_issue_id es"
  by (simp_all add: recount_def fc_key_def)

lemma recorded_cluster_ok:
  assumes ok: "ratchet_ok d" and rec: "recorded_tables d e c t'"
    and k: "map_of (tb_clusters t') k = Some c'"
  shows "cluster_ok t' k c'"
proof -
  let ?old = "tb_events (fd_tables d)" and ?ev = "stored_event d e"
  have up: "upserted d e c" and ev: "tb_events t' = ?old @ [?ev]"
    and st: "recorded_stat e (fc_id c, fe_stage e) (tb_cluster_stats (fd_tables d)) (tb_cluster_stats t')"
    and cl: "map_of (tb_clusters t') = (map_of (tb_clusters (fd_tables d)))
      (fe_key e \<mapsto> recount (events_of (fe_key e) (?old @ [?ev])) c)"
    using rec unfolding recorded_tables_def Let_def by blast+
  show ?thesis
  proof (cases "k = fe_key e")
    case True
    then have c': "c' = recount (events_of k (?old @ [?ev])) c" using k cl by simp
    have "counts_ok (at_stage stage (events_of k ?old @ [?ev])) (map_of (tb_cluster_stats t') (fc_id c, stage))" for stage
      using recorded_stat_counts [OF st upserted_stats [OF ok up]] True by simp
    then show ?thesis
      using upserted_count [OF ok up] upserted_key [OF ok up] True
      by (simp add: cluster_ok_def Let_def ev c' events_of_snoc worst_snoc)
  next
    case False
    then have k': "map_of (tb_clusters (fd_tables d)) k = Some c'" using k cl by simp
    have "fc_id c' \<noteq> fc_id c" using upserted_id [OF up ratchet_okD(1) [OF ok refl] k'] False by blast
    then show ?thesis
      using ratchet_okD(7) [OF ok refl k'] False recorded_stat_other [OF st]
      by (simp add: cluster_ok_def Let_def ev events_of_snoc)
  qed
qed

lemma recorded_invariant_ok:
  assumes ok: "ratchet_ok d" and rec: "recorded_tables d e c t'"
    and k: "map_of (tb_invariants t') k = Some i"
  shows "invariant_ok t' k i"
proof -
  let ?t = "fd_tables d"
  have ev: "tb_events t' = tb_events ?t @ [stored_event d e]" and inv: "tb_invariants t' = tb_invariants ?t"
    and cl: "map_of (tb_clusters t') = (map_of (tb_clusters ?t))
      (fe_key e \<mapsto> recount (events_of (fe_key e) (tb_events ?t @ [stored_event d e])) c)"
    and st: "case map_of (tb_invariants ?t) (fe_key e) of
            None \<Rightarrow> tb_invariant_stats t' = tb_invariant_stats ?t
          | Some i \<Rightarrow> recorded_stat e (ai_id i, fe_stage e) (tb_invariant_stats ?t) (tb_invariant_stats t')"
    using rec unfolding recorded_tables_def Let_def by blast+
  have k': "map_of (tb_invariants ?t) k = Some i" using k inv by simp
  note old = ratchet_okD(8) [OF ok refl k']
  show ?thesis
  proof (cases "k = fe_key e")
    case True
    then have "recorded_stat e (ai_id i, fe_stage e) (tb_invariant_stats ?t) (tb_invariant_stats t')"
      using st k' by simp
    from recorded_stat_counts [OF this] old True show ?thesis
      by (simp add: invariant_ok_def ev cl events_of_snoc)
  next
    case False
    have "map_of (tb_invariant_stats t') (ai_id i, stage) = map_of (tb_invariant_stats ?t) (ai_id i, stage)" for stage
    proof (cases "map_of (tb_invariants ?t) (fe_key e)")
      case (Some j)
      then have "ai_id i \<noteq> ai_id j" using own_idsD(2) [OF ratchet_okD(3) [OF ok refl] k' Some] False by blast
      then show ?thesis using recorded_stat_other st Some by simp
    qed (use st in simp)
    then show ?thesis using old False by (simp add: invariant_ok_def ev cl events_of_snoc)
  qed
qed

end
