(* ===== verification/RatchetSafety.thy ===== *)
theory RatchetSafety
  imports RatchetInv
begin

section \<open>The Postgres store keeps its tables consistent\<close>

text \<open>
  Every operation of postgres.go keeps the invariant of the tables, whatever statement of it fails; the
  Postgres store is an instance of the contract of stores.
\<close>

subsection \<open>Sequences only grow\<close>

definition later :: "ratchet_db \<Rightarrow> ratchet_db \<Rightarrow> bool" where
  "later d d' \<longleftrightarrow> fd_next_cluster d \<le> fd_next_cluster d' \<and> fd_next_proposal d \<le> fd_next_proposal d' \<and>
     fd_next_invariant d \<le> fd_next_invariant d'"

lemma later_exec: "(\<And>d x d'. stmt d = (Inr x, d') \<Longrightarrow> later d d') \<Longrightarrow> keeps (later d0) (fd_exec stmt)"
  by (rule keepsI)
    (fastforce simp: fd_exec_def later_def Let_def split: option.splits sum.splits prod.splits)

lemma later_tx: "keeps (later d0) m \<Longrightarrow> keeps (later d0) (fd_tx m)"
proof (rule keepsI)
  fix d assume "keeps (later d0) m" and d: "later d0 d"
  then have "keeps (later d0) (m_bind (fd_exec (\<lambda>d. (Inr (), d))) (\<lambda>_. m_bind m (\<lambda>x.
      m_bind (fd_exec (\<lambda>d. (Inr (), d))) (\<lambda>_. m_ret x))))"
    by (intro keeps_bind keeps_ret later_exec) (auto simp: later_def)
  from keepsD [OF this d] show "later d0 (snd (fd_tx m d))"
    by (auto simp: fd_tx_def later_def Let_def split: prod.splits sum.splits)
qed

lemma later_statements [intro]:
  "keeps (later d0) (insert_event e)" "keeps (later d0) (upsert_cluster e)" "keeps (later d0) (read_cluster_tx e)"
  "keeps (later d0) (refresh_counts e cid)" "keeps (later d0) (upsert_cluster_stat e cid)"
  "keeps (later d0) (read_active_tx k)" "keeps (later d0) (upsert_invariant_stat e iid)"
  "keeps (later d0) (load_proposal pid)" "keeps (later d0) (upsert_invariant p c mode)"
  "keeps (later d0) (seed_stats iid cid)" "keeps (later d0) (mark_approved pid)"
  unfolding insert_event_def upsert_cluster_def read_cluster_tx_def refresh_counts_def upsert_cluster_stat_def
    read_active_tx_def upsert_invariant_stat_def load_proposal_def upsert_invariant_def seed_stats_def
    mark_approved_def
  by (intro keeps_wrap later_exec; auto simp: later_def put_cluster_def Let_def split: option.splits if_splits)+

lemma later_record_tx: "keeps (later d0) (record_tx e)"
  unfolding record_tx_def
  by (intro keeps_then keeps_bind keeps_ret later_statements) (auto split: option.splits)

subsection \<open>Transactions\<close>

lemma ratchet_ok_later:
  assumes "ratchet_ok d" and "fd_tables d' = fd_tables d" and "later d d'"
  shows "ratchet_ok d'"
  using assms unfolding ratchet_ok_def Let_def later_def
  by (auto intro: own_ids_mono stats_below_mono simp del: map_of_eq_Some_iff)

lemma seqs_later: "seqs d' = seqs d \<Longrightarrow> later d d'"
  by (simp add: later_def)

lemma later_refl: "later d d"
  by (simp add: later_def)

lemma ratchet_ok_exec:
  assumes "ratchet_ok d" and "\<And>d1 x d2. ratchet_ok d1 \<Longrightarrow> fd_tables d1 = fd_tables d \<Longrightarrow> stmt d1 = (Inr x, d2) \<Longrightarrow> ratchet_ok d2"
  shows "ratchet_ok (snd (fd_exec stmt d))"
proof (cases "fd_exec stmt d")
  case (Pair r d')
  show ?thesis
  proof (cases r)
    case (Inl e)
    then have "fd_tables d' = fd_tables d" "later d d'"
      using fd_exec_err [of stmt d e d'] Pair by (simp_all add: later_def)
    then show ?thesis using ratchet_ok_later [OF assms(1)] Pair by simp
  next
    case (Inr x)
    have "ratchet_ok (d\<lparr>fd_calls := Suc (fd_calls d)\<rparr>)"
      by (rule ratchet_ok_later [OF assms(1)]) (simp_all add: later_def)
    moreover have "stmt (d\<lparr>fd_calls := Suc (fd_calls d)\<rparr>) = (Inr x, d')" using Pair Inr by (simp add: fd_exec_ok)
    ultimately show ?thesis using assms(2) Pair by simp
  qed
qed

lemma ratchet_ok_tx:
  assumes "\<And>d1 x d2. ratchet_ok d1 \<Longrightarrow> m d1 = (Inr x, d2) \<Longrightarrow> ratchet_ok d2" and "\<And>d0. keeps (later d0) m"
  shows "keeps ratchet_ok (fd_tx m)"
proof (rule keepsI)
  fix d assume d: "ratchet_ok d"
  have later: "later d (snd (fd_tx m d))" using keepsD [OF later_tx [OF assms(2)] later_refl] .
  show "ratchet_ok (snd (fd_tx m d))"
  proof (cases "fst (fd_tx m d)")
    case (Inl e)
    then have "fd_tables (snd (fd_tx m d)) = fd_tables d" using fd_tx_err [of m d e] by (metis prod.collapse)
    then show ?thesis by (rule ratchet_ok_later [OF d _ later])
  next
    case (Inr x)
    then obtain d1 d2 where i: "fd_tables d1 = fd_tables d" "seqs d1 = seqs d" and m: "m d1 = (Inr x, d2)"
      and j: "fd_tables (snd (fd_tx m d)) = fd_tables d2" "seqs (snd (fd_tx m d)) = seqs d2"
      using fd_tx_ok [of m d x] by (metis prod.collapse)
    have "ratchet_ok d2" by (rule assms(1) [OF ratchet_ok_later [OF d i(1) seqs_later [OF i(2)]] m])
    then show ?thesis using ratchet_ok_later j seqs_later by blast
  qed
qed

subsection \<open>Recording\<close>

lemma ratchet_ok_recorded:
  assumes ok: "ratchet_ok d" and rec: "recorded_tables d e c (fd_tables d')"
    and sq: "fd_next_cluster d' = fd_next_cluster d + 1" "fd_next_proposal d' = fd_next_proposal d"
      "fd_next_invariant d' = fd_next_invariant d"
  shows "ratchet_ok d'"
proof -
  let ?t = "fd_tables d" and ?t' = "fd_tables d'"
  have up: "upserted d e c" and ev: "tb_events ?t' = tb_events ?t @ [stored_event d e]"
    and cl: "map_of (tb_clusters ?t') = (map_of (tb_clusters ?t))
      (fe_key e \<mapsto> recount (events_of (fe_key e) (tb_events ?t @ [stored_event d e])) c)"
    and dc: "distinct (map fst (tb_clusters ?t'))"
    and st: "recorded_stat e (fc_id c, fe_stage e) (tb_cluster_stats ?t) (tb_cluster_stats ?t')"
    and same: "tb_proposals ?t' = tb_proposals ?t" "tb_invariants ?t' = tb_invariants ?t"
    and ist: "case map_of (tb_invariants ?t) (fe_key e) of
            None \<Rightarrow> tb_invariant_stats ?t' = tb_invariant_stats ?t
          | Some i \<Rightarrow> recorded_stat e (ai_id i, fe_stage e) (tb_invariant_stats ?t) (tb_invariant_stats ?t')"
    using rec unfolding recorded_tables_def Let_def by blast+
  have id_old: "fc_id c = fc_id old" if "map_of (tb_clusters ?t) (fe_key e) = Some old" for old
    using up that by (simp add: upserted_def merge_cluster_def)
  have id_new: "fc_id c = fd_next_cluster d" if "map_of (tb_clusters ?t) (fe_key e) = None"
    using up that by (simp add: upserted_def new_cluster_def)
  have below: "fc_id c < fd_next_cluster d'"
  proof (cases "map_of (tb_clusters ?t) (fe_key e)")
    case (Some old)
    then show ?thesis using id_old own_idsD(1) [OF ratchet_okD(1) [OF ok refl] Some] sq by simp
  qed (use id_new sq in simp)
  have "own_ids (tb_clusters ?t') fc_id (fd_next_cluster d')"
    unfolding sq by (rule own_ids_put [OF ratchet_okD(1) [OF ok refl] _ _ cl dc]) (simp_all add: id_old id_new)
  moreover have "stats_below (tb_cluster_stats ?t') (fd_next_cluster d')"
    by (rule recorded_stat_below [OF st ratchet_okD(4) [OF ok refl] _ below]) (simp add: sq)
  moreover have "stats_below (tb_invariant_stats ?t') (fd_next_invariant d')"
  proof (cases "map_of (tb_invariants ?t) (fe_key e)")
    case (Some i)
    then have r: "recorded_stat e (ai_id i, fe_stage e) (tb_invariant_stats ?t) (tb_invariant_stats ?t')"
      using ist by simp
    show ?thesis
      unfolding sq
      by (rule recorded_stat_below [OF r ratchet_okD(5) [OF ok refl] order_refl
            own_idsD(1) [OF ratchet_okD(3) [OF ok refl] Some]])
  qed (use ist ratchet_okD(5) [OF ok refl] sq in simp)
  moreover have "map_of (tb_clusters ?t') (fe_key x) \<noteq> None" if "x \<in> set (tb_events ?t')" for x
    using that ratchet_okD(6) [OF ok refl] unfolding ev cl by auto
  moreover have "proposal_ok ?t' pid p" if "map_of (tb_proposals ?t') pid = Some p" for pid p
    using ratchet_okD(9) [OF ok refl] that id_old unfolding proposal_ok_def same cl
    by (cases "pp_key p = fe_key e") fastforce+
  moreover have "one_open ?t'" using ratchet_okD(10) [OF ok refl] by (simp add: one_open_def same)
  ultimately show ?thesis
    using recorded_cluster_ok [OF ok rec] recorded_invariant_ok [OF ok rec] ratchet_okD(2,3) [OF ok refl]
    unfolding ratchet_ok_def Let_def by (simp add: same sq)
qed

lemma record_tx_keeps: "ratchet_ok d \<Longrightarrow> record_tx e d = (Inr x, d') \<Longrightarrow> ratchet_ok d'"
  using record_tx_ok [OF ratchet_okD(1) [OF _ refl], of d e "fst x" "snd x" d'] ratchet_ok_recorded by fastforce

lemma read_cluster_keeps: "keeps ratchet_ok (read_cluster cid)"
  unfolding read_cluster_def
  by (intro keeps_wrap keepsI ratchet_ok_exec) (auto split: option.splits)

lemma record_finding_keeps: "keeps ratchet_ok (pg_record_finding e)"
  unfolding pg_record_finding_def
  by (rule keeps_bind [OF ratchet_ok_tx [OF record_tx_keeps later_record_tx]])
    (auto intro!: keeps_bind keeps_ret read_cluster_keeps split: prod.splits)

text \<open>The cluster returned is the one in the table, and it has the key of the finding.\<close>

definition current :: "finding_cluster \<Rightarrow> ratchet_db \<Rightarrow> bool" where
  "current c d \<longleftrightarrow> map_of (tb_clusters (fd_tables d)) (fc_key c) = Some c"

lemma cluster_by_idD:
  assumes ok: "ratchet_ok d" and f: "cluster_by_id cid (fd_tables d) = Some c"
  shows "fc_id c = cid \<and> map_of (tb_clusters (fd_tables d)) (fc_key c) = Some c"
proof -
  from f obtain k where "(k, c) \<in> set (tb_clusters (fd_tables d))" and id: "fc_id c = cid"
    unfolding cluster_by_id_def find_Some_iff by (metis (mono_tags) imageE length_map list.set_map nth_mem prod.collapse)
  then have k: "map_of (tb_clusters (fd_tables d)) k = Some c"
    using own_idsD(3) [OF ratchet_okD(1) [OF ok refl]] by simp
  with ratchet_okD(7) [OF ok refl k] id show ?thesis by (simp add: cluster_ok_def Let_def)
qed

lemma record_finding_returns:
  assumes ok: "ratchet_ok d" and run: "pg_record_finding e d = (Inr (c, active), d')"
  shows "current c d' \<and> fc_key c = fe_key e \<and> active = map_of (tb_invariants (fd_tables d')) (fe_key e)"
proof -
  obtain cid d1 where tx: "fd_tx (record_tx e) d = (Inr (cid, active), d1)" and rd: "read_cluster cid d1 = (Inr c, d')"
    using run unfolding pg_record_finding_def by (auto simp: m_ok split: prod.splits)
  have ok1: "ratchet_ok d1" using keepsD [OF ratchet_ok_tx [OF record_tx_keeps later_record_tx] ok, of e] tx by simp
  have "cluster_by_id cid (fd_tables d1) = Some c" and same: "fd_tables d' = fd_tables d1"
    using rd unfolding read_cluster_def m_wrap_ok by (auto dest!: fd_exec_ok split: option.splits)
  then have c: "fc_id c = cid" "map_of (tb_clusters (fd_tables d1)) (fc_key c) = Some c"
    using cluster_by_idD [OF ok1] by blast+
  obtain d0 d2 where i: "fd_tables d0 = fd_tables d" "seqs d0 = seqs d" and m: "record_tx e d0 = (Inr (cid, active), d2)"
    and t: "fd_tables d1 = fd_tables d2"
    using fd_tx_ok [OF tx] by blast
  have ok0: "ratchet_ok d0" by (rule ratchet_ok_later [OF ok i(1) seqs_later [OF i(2)]])
  obtain c0 where "cid = fc_id c0" and "recorded_tables d0 e c0 (fd_tables d2)"
    and active: "active = map_of (tb_invariants (fd_tables d0)) (fe_key e)"
    using record_tx_ok [OF ratchet_okD(1) [OF ok0 refl] m] by blast
  then obtain c1 where "map_of (tb_clusters (fd_tables d1)) (fe_key e) = Some c1" "fc_id c1 = cid"
    and inv: "tb_invariants (fd_tables d1) = tb_invariants (fd_tables d0)"
    unfolding recorded_tables_def Let_def t by auto
  then have "fc_key c = fe_key e" using own_idsD(2) [OF ratchet_okD(1) [OF ok1 refl] c(2)] c(1) by metis
  then show ?thesis using c active inv by (simp add: current_def same)
qed

subsection \<open>Proposals\<close>

definition free :: "int \<Rightarrow> ratchet_db \<Rightarrow> bool" where
  "free cid d \<longleftrightarrow> open_proposals cid (fd_tables d) = []"

lemma has_open_proposal:
  "pg_has_open_proposal cid d = (r, d') \<Longrightarrow> fd_tables d' = fd_tables d \<and> later d d'"
  "pg_has_open_proposal cid d = (Inr False, d') \<Longrightarrow> free cid d'"
  unfolding pg_has_open_proposal_def free_def
  by (auto simp: fd_exec_def later_def Let_def split: option.splits sum.splits)

lemma free_none:
  "free cid d \<Longrightarrow> map_of (tb_proposals (fd_tables d)) pid = Some p \<Longrightarrow> pp_status p = ''proposed'' \<Longrightarrow>
   pp_cluster_id p \<noteq> cid"
  unfolding free_def open_proposals_def filter_empty_conv by (force dest: map_of_SomeD)

lemma snd_wrap: "snd (m_wrap msg m s) = snd (m s)"
  by (simp add: m_wrap_def split: prod.splits sum.splits)

lemma ratchet_ok_proposed:
  assumes ok: "ratchet_ok d" and cur: "current c d" and fr: "free (fc_id c) d"
    and d': "d' = d\<lparr>fd_tables := (fd_tables d)\<lparr>tb_proposals :=
               AList.update (fd_next_proposal d) (new_proposal d c reason) (tb_proposals (fd_tables d))\<rparr>,
             fd_next_proposal := fd_next_proposal d + 1\<rparr>"
  shows "ratchet_ok d'"
proof -
  let ?n = "new_proposal d c reason"
  note own = ratchet_okD(2) [OF ok refl]
  have none: "map_of (tb_proposals (fd_tables d)) (fd_next_proposal d) = None"
  proof (rule ccontr)
    assume "\<not> ?thesis"
    then obtain p where p: "map_of (tb_proposals (fd_tables d)) (fd_next_proposal d) = Some p" by blast
    from own_idsD(1) [OF own p] ratchet_okD(9) [OF ok refl p] show False by (simp add: proposal_ok_def)
  qed
  have "own_ids (AList.update (fd_next_proposal d) ?n (tb_proposals (fd_tables d))) pp_id (fd_next_proposal d + 1)"
    using none own_idsD(3) [OF own]
    by (intro own_ids_put [OF own, of "fd_next_proposal d" ?n]) (simp_all add: update_conv' distinct_update new_proposal_def)
  moreover have "proposal_ok (fd_tables d') pid p" if "map_of (tb_proposals (fd_tables d')) pid = Some p" for pid p
    using that ratchet_okD(9) [OF ok refl, of pid p] cur
    by (auto simp: d' update_conv' proposal_ok_def new_proposal_def current_def pp_key_def fc_key_def
        split: if_splits simp del: map_of_eq_Some_iff)
  moreover have "one_open (fd_tables d')"
    using ratchet_okD(10) [OF ok refl] free_none [OF fr] free_none [OF fr, symmetric]
    unfolding one_open_def
    by (auto simp: d' update_conv' new_proposal_def split: if_splits simp del: map_of_eq_Some_iff)
  ultimately show ?thesis
    using ratchet_okD [OF ok refl] unfolding ratchet_ok_def Let_def
    by (simp add: d' cluster_ok_def invariant_ok_def del: map_of_eq_Some_iff)
qed

lemma create_proposal_keeps:
  assumes ok: "ratchet_ok d" and cur: "current c d" and fr: "free (fc_id c) d"
  shows "ratchet_ok (snd (pg_create_proposal c reason d))"
  unfolding pg_create_proposal_def snd_wrap
proof (rule ratchet_ok_exec [OF ok])
  fix d1 x d2
  assume ok1: "ratchet_ok d1" and t: "fd_tables d1 = fd_tables d"
    and run: "(case cluster_by_id (fc_id c) (fd_tables d1) of None \<Rightarrow> (Inl ''violates foreign key constraint'', d1)
     | Some _ \<Rightarrow> (let p = new_proposal d1 c reason in (Inr (Some p), d1\<lparr>fd_tables := (fd_tables d1)\<lparr>tb_proposals :=
               AList.update (fd_next_proposal d1) p (tb_proposals (fd_tables d1))\<rparr>,
             fd_next_proposal := fd_next_proposal d1 + 1\<rparr>))) = (Inr x, d2)"
  have "current c d1" "free (fc_id c) d1" using cur fr t by (simp_all add: current_def free_def)
  from ratchet_ok_proposed [OF ok1 this refl, of reason] run show "ratchet_ok d2"
    by (auto simp: Let_def split: option.splits)
qed

subsection \<open>Activation\<close>

lemma seed_rows_lookup:
  "distinct (map fst crows) \<Longrightarrow>
   map_of (seed_rows iid cid crows irows) (i, stage) =
     (if i = iid \<and> map_of crows (cid, stage) \<noteq> None then map_of crows (cid, stage) else map_of irows (i, stage))"
proof (induction crows arbitrary: irows)
  case Nil
  then show ?case by (simp add: seed_rows_def)
next
  case (Cons r crows)
  obtain c y s where r: "r = ((c, y), s)" by (metis prod.collapse)
  have "map_of crows (c, y) = None" using Cons.prems by (simp add: r map_of_eq_None_iff)
  then show ?case
    using Cons by (auto simp: r seed_rows_def update_conv' simp del: map_of_eq_Some_iff)
qed

lemma seed_rows_below:
  "stats_below irows b \<Longrightarrow> iid < b \<Longrightarrow> stats_below (seed_rows iid cid crows irows) b"
  by (induction crows arbitrary: irows) (auto simp: seed_rows_def stats_below_update)

lemma map_of_key_values: "map_of (map (\<lambda>(k, v). (k, f k v)) xs) k = map_option (f k) (map_of xs k)"
  by (induction xs) auto

lemma own_ids_same:
  assumes own: "own_ids rows f b" and "distinct (map fst rows')"
    and was: "\<And>k v. map_of rows' k = Some v \<Longrightarrow> \<exists>u. map_of rows k = Some u \<and> f v = f u"
  shows "own_ids rows' f b"
  unfolding own_ids_def
proof (intro conjI allI impI assms(2))
  show "f v < b" if "map_of rows' k = Some v" for k v
    using was [OF that] own_idsD(1) [OF own] by auto
  show "k = k'" if "map_of rows' k = Some v \<and> map_of rows' k' = Some v' \<and> f v = f v'" for k k' v v'
  proof -
    from that obtain u u' where "map_of rows k = Some u" "map_of rows k' = Some u'" "f u = f u'"
      using was [of k v] was [of k' v'] by auto
    then show ?thesis by (rule own_idsD(2) [OF own])
  qed
qed

lemma ratchet_ok_activated:
  assumes ok: "ratchet_ok d" and p: "map_of (tb_proposals (fd_tables d)) pid = Some p"
    and c: "cluster_by_id (pp_cluster_id p) (fd_tables d) = Some c"
    and i: "i = invariant_of d0 p c mode (map_of (tb_invariants (fd_tables d)) (pp_key p))"
    and d0: "fd_next_invariant d0 = fd_next_invariant d"
    and t': "fd_tables d' = (fd_tables d)\<lparr>tb_invariants := AList.update (pp_key p) i (tb_invariants (fd_tables d)),
        tb_invariant_stats := seed_rows (ai_id i) (fc_id c) (tb_cluster_stats (fd_tables d))
          (tb_invariant_stats (fd_tables d)),
        tb_proposals := map (\<lambda>(k, q). (k, if k = pp_id p then q\<lparr>pp_status := ''approved'', pp_updated_at := now\<rparr>
          else q)) (tb_proposals (fd_tables d))\<rparr>"
    and sq: "fd_next_cluster d' = fd_next_cluster d" "fd_next_proposal d' = fd_next_proposal d"
      "fd_next_invariant d' = fd_next_invariant d + 1"
  shows "ratchet_ok d'"
proof -
  let ?t = "fd_tables d" and ?k = "pp_key p"
  obtain c1 where c1: "map_of (tb_clusters ?t) ?k = Some c1" "fc_id c1 = pp_cluster_id p"
    using ratchet_okD(9) [OF ok refl p] by (auto simp: proposal_ok_def)
  have cid: "fc_id c = pp_cluster_id p" and "map_of (tb_clusters ?t) (fc_key c) = Some c"
    using cluster_by_idD [OF ok c] by blast+
  then have ck: "fc_key c = ?k" using own_idsD(2) [OF ratchet_okD(1) [OF ok refl]] c1 by metis
  note cc = ratchet_okD(7) [OF ok refl \<open>map_of (tb_clusters ?t) (fc_key c) = Some c\<close>, unfolded ck]
  have id_old: "ai_id i = ai_id old" if "map_of (tb_invariants ?t) ?k = Some old" for old
    using that by (simp add: i invariant_of_def)
  have id_new: "ai_id i = fd_next_invariant d" if "map_of (tb_invariants ?t) ?k = None"
    using that by (simp add: i invariant_of_def d0)
  have key: "ai_key i = ?k"
  proof (cases "map_of (tb_invariants ?t) ?k")
    case None
    then show ?thesis by (simp add: i invariant_of_def ai_key_def pp_key_def)
  next
    case (Some old)
    then show ?thesis
      using ratchet_okD(8) [OF ok refl Some] by (simp add: i invariant_of_def invariant_ok_def ai_key_def)
  qed
  note own = ratchet_okD(3) [OF ok refl]
  have own': "own_ids (AList.update ?k i (tb_invariants ?t)) ai_id (fd_next_invariant d + 1)"
    using id_old id_new own_idsD(3) [OF own]
    by (intro own_ids_put [OF own, of ?k i]) (simp_all add: update_conv' distinct_update)
  have below: "ai_id i < fd_next_invariant d + 1"
    using own_idsD(1) [OF own', of ?k i] by (simp add: update_conv')
  have stats: "stats_below (seed_rows (ai_id i) (fc_id c) (tb_cluster_stats ?t) (tb_invariant_stats ?t)) (fd_next_invariant d + 1)"
    by (rule seed_rows_below [OF stats_below_mono [OF ratchet_okD(5) [OF ok refl]] below]) simp
  have lookup: "map_of (tb_invariant_stats (fd_tables d')) (j, stage) =
     (if j = ai_id i \<and> map_of (tb_cluster_stats ?t) (fc_id c, stage) \<noteq> None
      then map_of (tb_cluster_stats ?t) (fc_id c, stage) else map_of (tb_invariant_stats ?t) (j, stage))" for j stage
    using ratchet_okD(4) [OF ok refl] by (simp add: t' seed_rows_lookup stats_below_def)
  have ccs: "counts_ok (at_stage stage (events_of ?k (tb_events ?t))) (map_of (tb_cluster_stats ?t) (fc_id c, stage))" for stage
    using cc unfolding cluster_ok_def Let_def by blast
  have "counts_ok (at_stage stage (events_of ?k (tb_events ?t))) (map_of (tb_invariant_stats (fd_tables d')) (ai_id i, stage))" for stage
  proof (cases "map_of (tb_cluster_stats ?t) (fc_id c, stage)")
    case (Some s)
    then show ?thesis using ccs [of stage] lookup [of "ai_id i" stage] by simp
  next
    case None
    then have e: "at_stage stage (events_of ?k (tb_events ?t)) = []" using ccs [of stage] by (simp add: counts_ok_def)
    have "map_of (tb_invariant_stats ?t) (ai_id i, stage) = None"
    proof (cases "map_of (tb_invariants ?t) ?k")
      case None
      then show ?thesis using no_stat [OF ratchet_okD(5) [OF ok refl]] id_new by simp
    next
      case (Some old)
      have "counts_ok (at_stage stage (events_of ?k (tb_events ?t))) (map_of (tb_invariant_stats ?t) (ai_id old, stage))"
        using ratchet_okD(8) [OF ok refl Some] unfolding invariant_ok_def by blast
      then show ?thesis using id_old [OF Some] e by (simp add: counts_ok_def split: option.splits)
    qed
    then show ?thesis using None e lookup [of "ai_id i" stage] by (simp add: counts_ok_def)
  qed
  then have new_ok: "invariant_ok (fd_tables d') ?k i" using key c1 by (simp add: invariant_ok_def t')
  have inv: "invariant_ok (fd_tables d') k j" if "map_of (tb_invariants (fd_tables d')) k = Some j" for k j
  proof (cases "k = ?k")
    case True
    then show ?thesis using that new_ok by (simp add: t' update_conv')
  next
    case False
    then have kj: "map_of (tb_invariants ?t) k = Some j" using that by (simp add: t' update_conv')
    have "ai_id j \<noteq> ai_id i"
      using own_idsD(2) [OF own', of k j ?k i] kj False by (auto simp: update_conv')
    then show ?thesis
      using ratchet_okD(8) [OF ok refl kj] lookup by (simp add: invariant_ok_def t')
  qed
  have props: "map_of (tb_proposals (fd_tables d')) k = map_option (\<lambda>q. if k = pp_id p
      then q\<lparr>pp_status := ''approved'', pp_updated_at := now\<rparr> else q) (map_of (tb_proposals ?t) k)" for k
    by (simp add: t' map_of_key_values)
  have was: "\<exists>q0. map_of (tb_proposals ?t) k = Some q0 \<and> pp_id q = pp_id q0 \<and> pp_key q = pp_key q0 \<and>
      pp_cluster_id q = pp_cluster_id q0 \<and> (pp_status q = ''proposed'' \<longrightarrow> pp_status q0 = ''proposed'')"
    if "map_of (tb_proposals (fd_tables d')) k = Some q" for k q
    using that unfolding props by (auto simp: pp_key_def simp del: map_of_eq_Some_iff)
  have "distinct (map fst (tb_proposals (fd_tables d')))"
    using own_idsD(3) [OF ratchet_okD(2) [OF ok refl]] by (simp add: t' case_prod_beta comp_def)
  then have "own_ids (tb_proposals (fd_tables d')) pp_id (fd_next_proposal d')"
    unfolding sq using was by (intro own_ids_same [OF ratchet_okD(2) [OF ok refl]]) blast+
  moreover have "proposal_ok (fd_tables d') k q" if "map_of (tb_proposals (fd_tables d')) k = Some q" for k q
    using was [OF that] ratchet_okD(9) [OF ok refl, of k] by (auto simp: proposal_ok_def t' simp del: map_of_eq_Some_iff)
  moreover have "one_open (fd_tables d')"
    unfolding one_open_def
  proof (intro allI impI, elim conjE)
    fix k l q r assume "map_of (tb_proposals (fd_tables d')) k = Some q" "map_of (tb_proposals (fd_tables d')) l = Some r"
      "pp_status q = ''proposed''" "pp_status r = ''proposed''" "pp_cluster_id q = pp_cluster_id r"
    then show "k = l" using was [of k q] was [of l r] ratchet_okD(10) [OF ok refl] unfolding one_open_def by fastforce
  qed
  moreover have "cluster_ok (fd_tables d') k x" if "map_of (tb_clusters (fd_tables d')) k = Some x" for k x
    using ratchet_okD(7) [OF ok refl, of k x] that by (simp add: t' cluster_ok_def)
  ultimately show ?thesis
    using ratchet_okD(1,4,6) [OF ok refl] own' stats inv unfolding ratchet_ok_def Let_def sq
    by (simp add: t' del: map_of_eq_Some_iff)
qed

lemma activate_keeps: "keeps ratchet_ok (pg_activate_proposal pid mode)"
  unfolding pg_activate_proposal_def
proof (rule ratchet_ok_tx)
  fix d x d'
  assume ok: "ratchet_ok d" and "m_bind (load_proposal pid) (\<lambda>(p, c). m_bind (upsert_invariant p c mode) (\<lambda>i.
         m_then (seed_stats (ai_id i) (fc_id c)) (m_then (mark_approved (pp_id p)) (m_ret (Some i))))) d = (Inr x, d')"
  then obtain p c d1 i d2 d3 d4 where l: "load_proposal pid d = (Inr (p, c), d1)"
    and u: "upsert_invariant p c mode d1 = (Inr i, d2)" and s: "seed_stats (ai_id i) (fc_id c) d2 = (Inr (), d3)"
    and m: "mark_approved (pp_id p) d3 = (Inr (), d')"
    by (auto simp: m_ok)
  have d1: "fd_tables d1 = fd_tables d" "seqs d1 = seqs d" "map_of (tb_proposals (fd_tables d)) pid = Some p"
    "cluster_by_id (pp_cluster_id p) (fd_tables d) = Some c"
    using l unfolding load_proposal_def m_wrap_ok by (auto dest!: fd_exec_ok split: option.splits)
  obtain d0 where d2: "i = invariant_of d0 p c mode (map_of (tb_invariants (fd_tables d1)) (pp_key p))"
    "fd_next_invariant d0 = fd_next_invariant d1"
    "fd_tables d2 = (fd_tables d1)\<lparr>tb_invariants := AList.update (pp_key p) i (tb_invariants (fd_tables d1))\<rparr>"
    "fd_next_cluster d2 = fd_next_cluster d1" "fd_next_proposal d2 = fd_next_proposal d1"
    "fd_next_invariant d2 = fd_next_invariant d1 + 1"
    using u unfolding upsert_invariant_def m_wrap_ok by (auto dest!: fd_exec_ok simp: Let_def)
  have d3: "fd_tables d3 = (fd_tables d2)\<lparr>tb_invariant_stats := seed_rows (ai_id i) (fc_id c)
      (tb_cluster_stats (fd_tables d2)) (tb_invariant_stats (fd_tables d2))\<rparr>" "seqs d3 = seqs d2"
    using s unfolding seed_stats_def m_wrap_ok by (auto dest!: fd_exec_ok)
  obtain now where d4: "fd_tables d' = (fd_tables d3)\<lparr>tb_proposals := map (\<lambda>(k, q). (k, if k = pp_id p
      then q\<lparr>pp_status := ''approved'', pp_updated_at := now\<rparr> else q)) (tb_proposals (fd_tables d3))\<rparr>" "seqs d' = seqs d3"
    using m unfolding mark_approved_def m_wrap_ok by (auto dest!: fd_exec_ok)
  show "ratchet_ok d'"
    by (rule ratchet_ok_activated [OF ok d1(3,4), of i d0 mode d' now]) (use d1 d2 d3 d4 in simp_all)
qed (auto intro!: keeps_bind keeps_then keeps_ret later_statements split: prod.splits)

subsection \<open>The contract\<close>

interpretation pg_ratchet: tracking_store postgres_ratchet ratchet_ok current free
proof unfold_locales
  show "ratchet_ok s \<Longrightarrow> ratchet_ok (snd (rst_record_finding postgres_ratchet e s))" for s e
    using keepsD [OF record_finding_keeps] by (simp add: postgres_ratchet_def)
  show "ratchet_ok s \<Longrightarrow> rst_record_finding postgres_ratchet e s = (Inr (c, active), s') \<Longrightarrow> current c s'"
    and "ratchet_ok s \<Longrightarrow> rst_record_finding postgres_ratchet e s = (Inr (c, active), s') \<Longrightarrow> fc_key c = fe_key e"
    for s e c active s'
    using record_finding_returns [of s e c active s'] by (simp_all add: postgres_ratchet_def)
  show "ratchet_ok s \<Longrightarrow> ratchet_ok (snd (rst_has_open_proposal postgres_ratchet i s))"
    and "current c s \<Longrightarrow> current c (snd (rst_has_open_proposal postgres_ratchet i s))" for s i c
    using has_open_proposal(1) [of i s "fst (pg_has_open_proposal i s)" "snd (pg_has_open_proposal i s)"]
      ratchet_ok_later [of s "snd (pg_has_open_proposal i s)"]
    by (simp_all add: postgres_ratchet_def current_def)
  show "rst_has_open_proposal postgres_ratchet i s = (Inr False, s') \<Longrightarrow> free i s'" for i s s'
    using has_open_proposal(2) by (simp add: postgres_ratchet_def)
  show "ratchet_ok s \<Longrightarrow> current c s \<Longrightarrow> free (fc_id c) s \<Longrightarrow>
      ratchet_ok (snd (rst_create_proposal postgres_ratchet c reason s))" for s c reason
    using create_proposal_keeps by (simp add: postgres_ratchet_def)
  show "rst_create_proposal postgres_ratchet c reason s = (Inr (Some p), s') \<Longrightarrow>
      pp_cluster_id p = fc_id c \<and> pp_key p = fc_key c \<and> pp_status p = ''proposed'' \<and> pp_proposal_reason p = reason"
    for c reason s p s'
    unfolding postgres_ratchet_def pg_create_proposal_def ratchet_store.simps m_wrap_ok
    by (drule fd_exec_ok) (auto simp: Let_def new_proposal_def pp_key_def fc_key_def split: option.splits)
qed

subsection \<open>Properties\<close>

lemma sev_critical: "sev_rank s = 4 \<longleftrightarrow> s = ''critical''"
  by (simp add: sev_rank_def)

text \<open>The thresholds, over the recorded events.\<close>

definition due :: "finding_key \<Rightarrow> finding_event list \<Rightarrow> bool" where
  "due k es \<longleftrightarrow> worst es = 4 \<or> 3 \<le> length es \<and> 3 \<le> count_distinct fe_run_id es \<or> 2 \<le> length es \<and> fst k = ''global''"

lemma should_propose_due:
  "cluster_ok t k c \<Longrightarrow> should_propose c \<noteq> None \<longleftrightarrow> due k (events_of k (tb_events t))"
  by (auto simp: cluster_ok_def Let_def should_propose_def due_def sev_critical [symmetric] fc_key_def)

lemma created_proposal:
  assumes "pg_create_proposal c reason d = (Inr x, d')"
  shows "\<exists>p. x = Some p \<and> pp_key p = fc_key c \<and> p \<in> set (open_proposals (fc_id c) (fd_tables d')) \<and>
    tb_clusters (fd_tables d') = tb_clusters (fd_tables d) \<and> tb_events (fd_tables d') = tb_events (fd_tables d) \<and>
    tb_invariants (fd_tables d') = tb_invariants (fd_tables d)"
proof -
  obtain d1 where n: "x = Some (new_proposal d1 c reason)" "fd_tables d1 = fd_tables d"
    "fd_tables d' = (fd_tables d1)\<lparr>tb_proposals :=
       AList.update (fd_next_proposal d1) (new_proposal d1 c reason) (tb_proposals (fd_tables d1))\<rparr>"
    using assms unfolding pg_create_proposal_def m_wrap_ok
    by (auto dest!: fd_exec_ok simp: Let_def split: option.splits)
  have "map_of (tb_proposals (fd_tables d')) (fd_next_proposal d1) = Some (new_proposal d1 c reason)"
    by (simp add: n(3) update_conv')
  then have "new_proposal d1 c reason \<in> snd ` set (tb_proposals (fd_tables d'))"
    by (auto dest: map_of_SomeD intro: rev_image_eqI)
  then show ?thesis
    using n by (simp add: open_proposals_def new_proposal_def pp_key_def fc_key_def)
qed

lemma single_open:
  assumes ok: "ratchet_ok d" and "p \<in> set (open_proposals cid (fd_tables d))"
  shows "open_proposals cid (fd_tables d) = [p]"
proof -
  let ?ps = "tb_proposals (fd_tables d)"
  note d = own_idsD(3) [OF ratchet_okD(2) [OF ok refl]]
  define rows where "rows = filter (\<lambda>x. pp_cluster_id (snd x) = cid \<and> pp_status (snd x) = ''proposed'') ?ps"
  have o: "open_proposals cid (fd_tables d) = map snd rows"
    by (simp add: open_proposals_def rows_def filter_map comp_def case_prod_beta)
  have same: "fst x = fst y" if "x \<in> set rows" "y \<in> set rows" for x y
  proof -
    have "map_of ?ps (fst x) = Some (snd x)" "map_of ?ps (fst y) = Some (snd y)"
      using that d by (simp_all add: rows_def)
    then show ?thesis
      using that ratchet_okD(10) [OF ok refl, unfolded one_open_def, rule_format, of "fst x" "snd x" "fst y" "snd y"]
      unfolding rows_def by (simp del: map_of_eq_Some_iff)
  qed
  have dr: "distinct (map fst rows)" unfolding rows_def using d by (rule distinct_map_filter)
  obtain x xs where rows: "rows = x # xs" using assms(2) unfolding o by (cases rows) auto
  have x: "fst x \<notin> fst ` set xs" using dr unfolding rows by simp
  have "y \<notin> set xs" for y
  proof
    assume y: "y \<in> set xs"
    then have "fst x = fst y" using same [of x y] unfolding rows by simp
    then show False using x y by (metis imageI)
  qed
  then have "xs = []" by (cases xs) auto
  then show ?thesis using assms(2) unfolding o rows by simp
qed

definition empty_ratchet_db :: "time \<Rightarrow> (nat \<Rightarrow> string option) \<Rightarrow> ratchet_db" where
  "empty_ratchet_db now fault = \<lparr>fd_tables = \<lparr>tb_events = [], tb_clusters = [], tb_cluster_stats = [],
       tb_proposals = [], tb_invariants = [], tb_invariant_stats = []\<rparr>, fd_next_event = 1, fd_next_cluster = 1,
     fd_next_proposal = 1, fd_next_invariant = 1, fd_db_now = now, fd_app_now = now, fd_calls = 0,
     fd_fault = fault\<rparr>"

lemma ratchet_ok_empty:
  "tb_events t = [] \<Longrightarrow> tb_clusters t = [] \<Longrightarrow> tb_cluster_stats t = [] \<Longrightarrow> tb_proposals t = [] \<Longrightarrow>
   tb_invariants t = [] \<Longrightarrow> tb_invariant_stats t = [] \<Longrightarrow> fd_tables d = t \<Longrightarrow> ratchet_ok d"
  by (simp add: ratchet_ok_def own_ids_def stats_below_def one_open_def Let_def)

lemma pg_operations [simp]:
  "rst_record_finding postgres_ratchet = pg_record_finding"
  "rst_has_open_proposal postgres_ratchet = pg_has_open_proposal"
  "rst_create_proposal postgres_ratchet = pg_create_proposal"
  by (simp_all add: postgres_ratchet_def)

lemma ingest_outcome:
  assumes ok: "ratchet_ok d" and run: "ingest_finding postgres_ratchet e d = (Inr r, d')"
  shows "\<exists>d1 active. current (ir_cluster r) d1 \<and> fc_key (ir_cluster r) = fe_key e \<and> ratchet_ok d1 \<and>
    active = map_of (tb_invariants (fd_tables d1)) (fe_key e) \<and>
    (case (active, should_propose (ir_cluster r)) of
       (None, Some reason) \<Rightarrow> pg_ratchet.propose (ir_cluster r) reason d1 = (Inr r, d')
     | _ \<Rightarrow> ir_proposal r = None \<and> d' = d1)"
proof -
  obtain c active d1 where rec: "pg_record_finding e d = (Inr (c, active), d1)"
    and rest: "(case (active, should_propose c) of (None, Some reason) \<Rightarrow> pg_ratchet.propose c reason d1
       | _ \<Rightarrow> pg_ratchet.no_proposal c d1) = (Inr r, d')"
    using run by (auto simp: pg_ratchet.ingest_cases split: prod.splits sum.splits)
  have ok1: "ratchet_ok d1" using keepsD [OF record_finding_keeps ok, of e] rec by simp
  note ret = record_finding_returns [OF ok rec]
  show ?thesis
  proof (cases "active = None \<and> should_propose c \<noteq> None")
    case True
    then obtain reason where p: "should_propose c = Some reason" "pg_ratchet.propose c reason d1 = (Inr r, d')"
      using rest by auto
    have c: "ir_cluster r = c" using p(2) by (auto simp: m_bind_ok m_ret_ok split: if_splits)
    show ?thesis using ret ok1 True p unfolding c by (intro exI [of _ d1] exI [of _ active]) simp
  next
    case False
    then have "pg_ratchet.no_proposal c d1 = (Inr r, d')" using rest by (cases active) auto
    then show ?thesis
      using ret ok1 False by (intro exI [of _ d1] exI [of _ active]) (auto simp: m_ret_ok split: option.splits)
  qed
qed

text \<open>
  C21: The tables of findings stay consistent whatever is done with them and whatever statement fails:
  from the empty tables on, every ingestion, activation and ranking keeps that each cluster's occurrence,
  run and issue counts and its severity are those of the events recorded under its key, that the
  counters of clusters and of active invariants per stage count exactly those events and their
  impacts, that identifiers and references are sound, and that a cluster has at most one open
  proposal.
\<close>

theorem findings_consistent:
  "ratchet_ok (empty_ratchet_db now fault) \<and> keeps ratchet_ok (ingest_finding postgres_ratchet e) \<and>
   keeps ratchet_ok (rst_activate_proposal postgres_ratchet pid mode) \<and>
   keeps ratchet_ok (rst_ranked_invariants postgres_ratchet req)"
proof (intro conjI)
  show "ratchet_ok (empty_ratchet_db now fault)"
    by (rule ratchet_ok_empty [OF _ _ _ _ _ _ refl]) (simp_all add: empty_ratchet_db_def)
  show "keeps ratchet_ok (ingest_finding postgres_ratchet e)" by (rule pg_ratchet.ingest_keeps)
  show "keeps ratchet_ok (rst_activate_proposal postgres_ratchet pid mode)"
    using activate_keeps by (simp add: postgres_ratchet_def)
  show "keeps ratchet_ok (rst_ranked_invariants postgres_ratchet req)"
    unfolding postgres_ratchet_def ratchet_store.simps pg_ranked_invariants_def
    by (intro keeps_wrap keepsI ratchet_ok_exec) auto
qed

text \<open>
  C22: A successful ingestion of a finding returns the cluster of the finding's key as it is then in the
  table; it makes a proposal only when the recorded events of that key reach a threshold and no
  invariant is active for it, and then that proposal is the only open one of the cluster; and it makes
  none only when no threshold is reached, an invariant is active, or the cluster already has exactly
  one open proposal.
\<close>

theorem ingest_proposes_once:
  assumes ok: "ratchet_ok d" and run: "ingest_finding postgres_ratchet e d = (Inr r, d')"
  shows "map_of (tb_clusters (fd_tables d')) (fe_key e) = Some (ir_cluster r) \<and>
    (case ir_proposal r of
       Some p \<Rightarrow> due (fe_key e) (events_of (fe_key e) (tb_events (fd_tables d'))) \<and>
         map_of (tb_invariants (fd_tables d')) (fe_key e) = None \<and> pp_key p = fe_key e \<and>
         open_proposals (fc_id (ir_cluster r)) (fd_tables d') = [p]
     | None \<Rightarrow> \<not> due (fe_key e) (events_of (fe_key e) (tb_events (fd_tables d'))) \<or>
         map_of (tb_invariants (fd_tables d')) (fe_key e) \<noteq> None \<or>
         length (open_proposals (fc_id (ir_cluster r)) (fd_tables d')) = 1)"
proof -
  let ?c = "ir_cluster r" and ?k = "fe_key e"
  obtain d1 active where cur: "current ?c d1" and key: "fc_key ?c = ?k" and ok1: "ratchet_ok d1"
    and act: "active = map_of (tb_invariants (fd_tables d1)) ?k"
    and rest: "case (active, should_propose ?c) of
       (None, Some reason) \<Rightarrow> pg_ratchet.propose ?c reason d1 = (Inr r, d')
     | _ \<Rightarrow> ir_proposal r = None \<and> d' = d1"
    using ingest_outcome [OF ok run] by blast
  have c1: "map_of (tb_clusters (fd_tables d1)) ?k = Some ?c" using cur key by (simp add: current_def)
  note due = should_propose_due [OF ratchet_okD(7) [OF ok1 refl c1]]
  have ok': "ratchet_ok d'" using keepsD [OF pg_ratchet.ingest_keeps ok, of e] run by simp
  show ?thesis
  proof (cases "active = None \<and> should_propose ?c \<noteq> None")
    case True
    then obtain reason where n: "active = None" "should_propose ?c = Some reason"
      "pg_ratchet.propose ?c reason d1 = (Inr r, d')" using rest by auto
    then obtain ex d2 where h: "pg_has_open_proposal (fc_id ?c) d1 = (Inr ex, d2)"
      and step: "(if ex then pg_ratchet.no_proposal ?c else m_bind (pg_create_proposal ?c reason)
        (\<lambda>p. m_ret \<lparr>ir_cluster = ?c, ir_proposal = p\<rparr>)) d2 = (Inr r, d')"
      unfolding m_bind_ok [of "pg_has_open_proposal (fc_id ?c)"] pg_operations by blast
    have t2: "fd_tables d2 = fd_tables d1" using has_open_proposal(1) [OF h] by blast
    show ?thesis
    proof (cases ex)
      case ex: True
      then have d': "d' = d2" and "\<lparr>ir_cluster = ?c, ir_proposal = None\<rparr> = r" using step by (simp_all add: m_ret_ok)
      from arg_cong [OF this(2), of ir_proposal] have none: "ir_proposal r = None" by simp
      have "open_proposals (fc_id ?c) (fd_tables d1) \<noteq> []"
        using h ex unfolding pg_has_open_proposal_def by (auto dest!: fd_exec_ok)
      then obtain p where "p \<in> set (open_proposals (fc_id ?c) (fd_tables d1))"
        by (cases "open_proposals (fc_id ?c) (fd_tables d1)") auto
      from single_open [OF ok1 this] show ?thesis using c1 none by (simp add: d' t2)
    next
      case False
      then obtain x where cr: "pg_create_proposal ?c reason d2 = (Inr x, d')" and "\<lparr>ir_cluster = ?c, ir_proposal = x\<rparr> = r"
        using step False by (auto simp: m_bind_ok m_ret_ok)
      from arg_cong [OF this(2), of ir_proposal] have r: "ir_proposal r = x" by simp
      from cr obtain p where p: "pp_key p = ?k" "p \<in> set (open_proposals (fc_id ?c) (fd_tables d'))" "x = Some p"
        and same: "tb_clusters (fd_tables d') = tb_clusters (fd_tables d2)" "tb_events (fd_tables d') = tb_events (fd_tables d2)"
          "tb_invariants (fd_tables d') = tb_invariants (fd_tables d2)"
        using created_proposal key by metis
      then show ?thesis using single_open [OF ok' p(2)] c1 n act due r p(1,3) same by (simp add: t2)
    qed
  next
    case False
    then have "ir_proposal r = None" "d' = d1" using rest by (auto split: option.splits)
    then show ?thesis using False due act c1 by auto
  qed
qed

end
