(* ===== verification/RatchetWitness.thy ===== *)
theory RatchetWitness
  imports RatchetSafety
begin

section \<open>The ratchet on concrete findings\<close>

text \<open>A critical finding reported into empty tables, and two active invariants ranked for a stage.\<close>

definition sample_finding :: finding_event where
  "sample_finding = \<lparr>fe_id = 0, fe_run_id = ''r1'', fe_issue_id = ''i1'', fe_stage = ''implement'',
     fe_repo_scope = ''svc'', fe_environment = ''prod'', fe_service_scope = ''svc'', fe_scope_type = ''repo'',
     fe_scope_key = ''svc'', fe_category = ''secrets'', fe_fingerprint = ''f1'', fe_title = ''leak'',
     fe_summary = ''token in log'', fe_severity = ''critical'', fe_outcome_impact = ''block'',
     fe_evidence_uri = [], fe_created_at = 0\<rparr>"

definition sample_db :: ratchet_db where
  "sample_db = empty_ratchet_db 100 (\<lambda>_. None)"

lemma sample_db_ok: "ratchet_ok sample_db"
  by (rule ratchet_ok_empty [OF _ _ _ _ _ _ refl]) (simp_all add: sample_db_def empty_ratchet_db_def)

lemma sample_ingest:
  "case ingest_finding postgres_ratchet sample_finding sample_db of
     (Inr r, d') \<Rightarrow> ir_proposal r \<noteq> None \<and> fc_occurrence_count (ir_cluster r) = 1 \<and> fc_id (ir_cluster r) = 1
   | _ \<Rightarrow> False"
  by code_simp

theorem ingest_proposes_once_witness:
  "case ingest_finding postgres_ratchet sample_finding sample_db of
     (Inr r, d') \<Rightarrow> ir_proposal r \<noteq> None \<and>
       map_of (tb_clusters (fd_tables d')) (fe_key sample_finding) = Some (ir_cluster r) \<and>
       length (open_proposals 1 (fd_tables d')) = 1
   | _ \<Rightarrow> False"
proof -
  obtain r d' where run: "ingest_finding postgres_ratchet sample_finding sample_db = (Inr r, d')"
    and r: "ir_proposal r \<noteq> None" "fc_id (ir_cluster r) = 1"
    using sample_ingest by (auto split: prod.splits sum.splits)
  with ingest_proposes_once [OF sample_db_ok run] show ?thesis by (auto simp: run)
qed

definition sample_invariant :: "int \<Rightarrow> string \<Rightarrow> active_invariant" where
  "sample_invariant n severity = \<lparr>ai_id = n, ai_scope_type = ''global'', ai_scope_key = [], ai_category = [],
     ai_fingerprint = [], ai_statement = [], ai_severity = severity, ai_enforcement_mode = ''warn'',
     ai_source_proposal_id = None, ai_created_at = 0, ai_updated_at = 0\<rparr>"

definition sample_retrieval :: retrieval_request where
  "sample_retrieval = \<lparr>rq_stage = ''implement'', rq_repo_scope = [], rq_environment = [], rq_service_scope = [], rq_limit = 1\<rparr>"

theorem rank_for_stage_correct_witness:
  "length (rank_for_stage 0 [sample_invariant 1 ''low'', sample_invariant 2 ''high''] [] sample_retrieval) = 1 \<and>
   rank_for_stage 0 [sample_invariant 2 ''high'', sample_invariant 1 ''low''] [] sample_retrieval =
     rank_for_stage 0 [sample_invariant 1 ''low'', sample_invariant 2 ''high''] [] sample_retrieval"
proof -
  let ?is = "[sample_invariant 1 ''low'', sample_invariant 2 ''high'']"
  have "distinct (map ai_id ?is)" "mset [sample_invariant 2 ''high'', sample_invariant 1 ''low''] = mset ?is"
    by (simp_all add: sample_invariant_def)
  from rank_for_stage_correct [OF this, of 0 "[]" sample_retrieval] show ?thesis
    by (auto simp: sample_retrieval_def sample_invariant_def scope_matches_def)
qed

end
