(* ===== verification/Resolver.thy ===== *)
theory Resolver
  imports Model Paths
begin

section \<open>Resolving goals (internal/runner: resolver, ledger, catalogs, providers)\<close>

text \<open>
  The recursive resolver of resolver.go with the interfaces \<open>Ledger\<close>, \<open>Catalog\<close> and \<open>Provider\<close> as
  records of operations on a state; the ledger of git_ledger.go on a map of files, the catalog of
  postgres_catalog.go and the providers, with the container runner, the query, the file reader and the
  JSON decoder as parameters.  The recursion need not end: it has fuel, and \<open>None\<close> means that the fuel
  was too little.  Fitness is rational; the telemetry channel, which nobody reads, is left out.
\<close>

subsection \<open>Interfaces\<close>

record contract =
  ct_name :: string
  ct_version :: string

record goal =
  gl_contract :: contract
  gl_input :: string

type_synonym exec_stats = "(string \<times> rat) list"

record 'x provider =
  pv_dependencies :: "string \<Rightarrow> ('x, goal list) go"
  pv_execute :: "string list \<Rightarrow> ('x, string \<times> rat \<times> exec_stats) go"

record 'x ledger =
  ld_lookup :: "contract \<Rightarrow> string \<Rightarrow> 'x \<Rightarrow> string option"
  ld_commit :: "contract \<Rightarrow> string \<Rightarrow> string \<Rightarrow> exec_stats \<Rightarrow> ('x, unit) go"

record 'x catalog =
  ca_find :: "contract \<Rightarrow> ('x, 'x provider) go"
  ca_build :: "contract \<Rightarrow> ('x, unit) go"

record 'x resolver =
  rs_ledger :: "'x ledger"
  rs_catalog :: "'x catalog"
  rs_threshold :: rat

subsection \<open>Resolve\<close>

definition find_provider :: "'x catalog \<Rightarrow> contract \<Rightarrow> ('x, 'x provider) go" where
  "find_provider cat c =
     m_bind (m_try (ca_find cat c)) (\<lambda>found. case found of
         Inr p \<Rightarrow> m_ret p
       | Inl _ \<Rightarrow>
           m_then (m_wrap (''capability build failed for '' @ ct_name c) (ca_build cat c))
             (m_wrap (''capability still missing after build for '' @ ct_name c) (ca_find cat c)))"

text \<open>The loop over the execution attempts that are left.\<close>

primrec try_execute ::
  "nat \<Rightarrow> rat \<Rightarrow> 'x provider \<Rightarrow> string list \<Rightarrow> string option \<Rightarrow> ('x, string \<times> exec_stats) go" where
  "try_execute 0 th p inputs last_err =
     m_err (''provider failed after retries: '' @ (case last_err of None \<Rightarrow> ''<nil>'' | Some e \<Rightarrow> e))"
| "try_execute (Suc n) th p inputs last_err =
     m_bind (m_try (pv_execute p inputs)) (\<lambda>res. case res of
         Inr (out, fitness, stats) \<Rightarrow>
           if fitness \<ge> th then m_ret (out, stats) else try_execute n th p inputs None
       | Inl e \<Rightarrow> try_execute n th p inputs (Some e))"

type_synonym 'x resolution = "goal \<Rightarrow> 'x \<Rightarrow> ((string + string) \<times> 'x) option"

primrec resolve_deps ::
  "'x resolution \<Rightarrow> goal list \<Rightarrow> string list \<Rightarrow> 'x \<Rightarrow> ((string + string list) \<times> 'x) option" where
  "resolve_deps rec [] inputs s = Some (Inr inputs, s)"
| "resolve_deps rec (d # ds) inputs s =
     (case rec d s of
        None \<Rightarrow> None
      | Some (Inl e, s') \<Rightarrow>
          Some (Inl (''failed to resolve dependency '' @ ct_name (gl_contract d) @ '': '' @ e), s')
      | Some (Inr sha, s') \<Rightarrow> resolve_deps rec ds (inputs @ [sha]) s')"

definition run_provider :: "'x resolver \<Rightarrow> goal \<Rightarrow> 'x provider \<Rightarrow> string list \<Rightarrow> ('x, string) go" where
  "run_provider r g p inputs =
     m_bind (try_execute 3 (rs_threshold r) p inputs None) (\<lambda>(out, stats).
       m_then (m_wrap ''failed to commit transition to ledger''
           (ld_commit (rs_ledger r) (gl_contract g) (gl_input g) out stats))
         (m_ret out))"

definition plan_goal :: "'x resolver \<Rightarrow> goal \<Rightarrow> ('x, 'x provider \<times> goal list) go" where
  "plan_goal r g =
     m_bind (find_provider (rs_catalog r) (gl_contract g)) (\<lambda>p.
       m_bind (m_wrap (''failed to compute dependencies for '' @ ct_name (gl_contract g))
           (pv_dependencies p (gl_input g)))
         (\<lambda>deps. m_ret (p, deps)))"

fun resolve :: "nat \<Rightarrow> 'x resolver \<Rightarrow> 'x resolution" where
  "resolve 0 r g s = None"
| "resolve (Suc n) r g s =
     (case ld_lookup (rs_ledger r) (gl_contract g) (gl_input g) s of
        Some sha \<Rightarrow> Some (Inr sha, s)
      | None \<Rightarrow>
          (case plan_goal r g s of
             (Inl e, s1) \<Rightarrow> Some (Inl e, s1)
           | (Inr (p, deps), s1) \<Rightarrow>
               (case resolve_deps (resolve n r) deps [gl_input g] s1 of
                  None \<Rightarrow> None
                | Some (Inl e, s2) \<Rightarrow> Some (Inl e, s2)
                | Some (Inr inputs, s2) \<Rightarrow> Some (run_provider r g p inputs s2))))"

subsection \<open>The projection of the graph\<close>

record node_projection =
  np_name :: string
  np_status :: string
  np_fitness :: rat
  np_last_sha :: string

record edge_projection =
  ep_from :: string
  ep_to :: string

record graph_projection =
  gp_nodes :: "node_projection gomap"
  gp_edges :: "edge_projection list"

definition node_of :: "'x resolver \<Rightarrow> goal \<Rightarrow> 'x \<Rightarrow> node_projection" where
  "node_of r g s =
     (let found = ld_lookup (rs_ledger r) (gl_contract g) (gl_input g) s
      in \<lparr>np_name = ct_name (gl_contract g),
          np_status = (if found \<noteq> None then ''succeeded'' else ''pending''), np_fitness = 0,
          np_last_sha = (case found of None \<Rightarrow> [] | Some sha \<Rightarrow> sha)\<rparr>)"

definition add_edge :: "goal \<Rightarrow> goal \<Rightarrow> graph_projection \<Rightarrow> graph_projection" where
  "add_edge d g G = G\<lparr>gp_edges := gp_edges G @
     [\<lparr>ep_from = ct_name (gl_contract d), ep_to = ct_name (gl_contract g)\<rparr>]\<rparr>"

primrec traverse_deps ::
  "(goal \<Rightarrow> graph_projection \<times> 'x \<Rightarrow> (graph_projection \<times> 'x) option) \<Rightarrow> goal \<Rightarrow> goal list \<Rightarrow>
   graph_projection \<times> 'x \<Rightarrow> (graph_projection \<times> 'x) option" where
  "traverse_deps rec g [] Gs = Some Gs"
| "traverse_deps rec g (d # ds) Gs =
     (case rec d (add_edge d g (fst Gs), snd Gs) of None \<Rightarrow> None | Some Gs' \<Rightarrow> traverse_deps rec g ds Gs')"

text \<open>An unknown provider is skipped, an error of \<open>Dependencies\<close> is dropped.\<close>

fun traverse ::
  "nat \<Rightarrow> 'x resolver \<Rightarrow> goal \<Rightarrow> graph_projection \<times> 'x \<Rightarrow> (graph_projection \<times> 'x) option" where
  "traverse 0 r g Gs = None"
| "traverse (Suc n) r g Gs =
     (case ca_find (rs_catalog r) (gl_contract g) (snd Gs) of
        (Inl _, s) \<Rightarrow> Some (fst Gs, s)
      | (Inr p, s) \<Rightarrow>
          (let G = (fst Gs)\<lparr>gp_nodes := gm_put (ct_name (gl_contract g)) (node_of r g s) (gp_nodes (fst Gs))\<rparr>
           in case pv_dependencies p (gl_input g) s of
                (Inl _, s') \<Rightarrow> Some (G, s')
              | (Inr deps, s') \<Rightarrow> traverse_deps (traverse n r) g deps (G, s')))"

definition project_current_state :: "nat \<Rightarrow> 'x resolver \<Rightarrow> goal \<Rightarrow> 'x \<Rightarrow> (graph_projection \<times> 'x) option" where
  "project_current_state n r g s = traverse n r g (\<lparr>gp_nodes = [], gp_edges = []\<rparr>, s)"

subsection \<open>The ledger of files\<close>

text \<open>
  Files by path; a call that fails (\<open>dk_fault\<close>) leaves, when it is a write, whatever contents the fault
  says.
\<close>

record 'x disk =
  dk_files :: "string \<Rightarrow> string option"
  dk_calls :: nat
  dk_fault :: "nat \<Rightarrow> (string \<times> string option) option"
  dk_rest :: 'x

definition dk_mkdir_all :: "string \<Rightarrow> ('x disk, unit) go" where
  "dk_mkdir_all path d =
     (let d' = d\<lparr>dk_calls := Suc (dk_calls d)\<rparr>
      in case dk_fault d (dk_calls d) of Some (e, _) \<Rightarrow> (Inl e, d') | None \<Rightarrow> (Inr (), d'))"

definition dk_write_file :: "string \<Rightarrow> string \<Rightarrow> ('x disk, unit) go" where
  "dk_write_file path data d =
     (let d' = d\<lparr>dk_calls := Suc (dk_calls d)\<rparr>
      in case dk_fault d (dk_calls d) of
           Some (e, left) \<Rightarrow> (Inl e, d'\<lparr>dk_files := (dk_files d)(path := left)\<rparr>)
         | None \<Rightarrow> (Inr (), d'\<lparr>dk_files := (dk_files d)(path \<mapsto> data)\<rparr>))"

definition git_lookup :: "string \<Rightarrow> contract \<Rightarrow> string \<Rightarrow> 'x disk \<Rightarrow> string option" where
  "git_lookup repo c input d =
     map_option trim_space
       (dk_files d (path_join [repo, ''.autodev'', ''ledger'', ct_name c, input, ''result.sha'']))"

definition git_commit :: "string \<Rightarrow> contract \<Rightarrow> string \<Rightarrow> string \<Rightarrow> exec_stats \<Rightarrow> ('x disk, unit) go" where
  "git_commit repo c input out stats =
     (let dir = path_join [repo, ''.autodev'', ''ledger'', ct_name c, input]
      in m_then (dk_mkdir_all dir) (dk_write_file (path_join [dir, ''result.sha'']) out))"

definition git_ledger :: "string \<Rightarrow> 'x disk ledger" where
  "git_ledger repo = \<lparr>ld_lookup = git_lookup repo, ld_commit = git_commit repo\<rparr>"

text \<open>The ledger and the catalog of test_utils.go, in memory.\<close>

definition mock_key :: "contract \<Rightarrow> string \<Rightarrow> string" where
  "mock_key c input = ct_name c @ '':'' @ input"

definition mock_ledger :: "(string gomap \<times> 'x) ledger" where
  "mock_ledger =
     \<lparr>ld_lookup = (\<lambda>c input s. gm_get (fst s) (mock_key c input)),
      ld_commit = (\<lambda>c input out stats. m_modify (\<lambda>s. (gm_put (mock_key c input) out (fst s), snd s)))\<rparr>"

definition mock_catalog :: "'x provider gomap \<Rightarrow> 'x catalog" where
  "mock_catalog providers =
     \<lparr>ca_find = (\<lambda>c. case gm_get providers (ct_name c) of None \<Rightarrow> m_err ''no provider'' | Some p \<Rightarrow> m_ret p),
      ca_build = (\<lambda>c. m_ret ())\<rparr>"

subsection \<open>Providers\<close>

record provider_result =
  pr_status :: string
  pr_new_sha :: string
  pr_fitness :: rat

record 'x exec_env =
  ee_run_container :: "stage_spec \<Rightarrow> string \<Rightarrow> runtime_image \<Rightarrow> ('x, unit) go"
  ee_run_command :: "string list \<Rightarrow> string list \<Rightarrow> ('x, unit) go"
  ee_read_file :: "string \<Rightarrow> ('x, string) go"
  ee_decode :: "string \<Rightarrow> string + provider_result"

definition spec_dependencies :: "stage_spec \<Rightarrow> string \<Rightarrow> ('x, goal list) go" where
  "spec_dependencies spec input =
     m_ret (map (\<lambda>n. \<lparr>gl_contract = \<lparr>ct_name = n, ct_version = ss_version spec\<rparr>, gl_input = input\<rparr>)
       (ss_dependencies spec))"

definition read_result :: "'x exec_env \<Rightarrow> ('x, string \<times> rat \<times> exec_stats) go" where
  "read_result env =
     m_bind (m_wrap ''failed to read result.json'' (ee_read_file env (path_join [''/workspace'', ''result.json''])))
       (\<lambda>data. m_bind (m_wrap ''failed to parse result.json'' (m_lift (ee_decode env data)))
         (\<lambda>res. m_ret (pr_new_sha res, pr_fitness res, [])))"

definition container_execute ::
  "'x exec_env \<Rightarrow> stage_spec \<Rightarrow> string list \<Rightarrow> ('x, string \<times> rat \<times> exec_stats) go" where
  "container_execute env spec inputs =
     m_then (m_wrap ''container execution failed'' (ee_run_container env spec ''e2e-run-placeholder''
         \<lparr>ri_stage = [], ri_ref = tr_url (ss_tooling_repo spec) @ '':'' @ ss_version spec,
          ri_digest = ss_version spec\<rparr>))
       (read_result env)"

definition container_provider :: "'x exec_env \<Rightarrow> stage_spec \<Rightarrow> 'x provider" where
  "container_provider env spec =
     \<lparr>pv_dependencies = spec_dependencies spec, pv_execute = container_execute env spec\<rparr>"

definition binary_execute ::
  "'x exec_env \<Rightarrow> stage_spec \<Rightarrow> string list \<Rightarrow> ('x, string \<times> rat \<times> exec_stats) go" where
  "binary_execute env spec inputs =
     (if ss_entrypoint spec = [] then m_err ''no entrypoint defined for binary provider''
      else m_then (m_wrap ''binary execution failed'' (ee_run_command env (ss_entrypoint spec)
             [''AUTODEV_STAGE_CONTEXT=/workspace/context.json'',
              ''AUTODEV_STAGE_RESULT=/workspace/result.json'',
              ''AUTODEV_STAGE_REPORT=/workspace/report.json'']))
           (read_result env))"

definition native_provider ::
  "(string list \<Rightarrow> ('x, string \<times> rat \<times> exec_stats) go) \<Rightarrow> 'x provider" where
  "native_provider executor = \<lparr>pv_dependencies = (\<lambda>_. m_ret []), pv_execute = executor\<rparr>"

subsection \<open>The catalog of capabilities\<close>

text \<open>\<open>query\<close> is the row of the table capabilities for a name: its image and its entrypoint.\<close>

definition capability_spec :: "string \<Rightarrow> string \<Rightarrow> string list \<Rightarrow> stage_spec" where
  "capability_spec name image_ref entrypoint =
     zero_stage_spec\<lparr>ss_name := name, ss_entrypoint := entrypoint,
       ss_tooling_repo := \<lparr>tr_url = image_ref, tr_ref = []\<rparr>, ss_version := ''latest''\<rparr>"

definition postgres_catalog ::
  "(string \<Rightarrow> ('x, string \<times> string list) go) \<Rightarrow> 'x exec_env \<Rightarrow> 'x catalog" where
  "postgres_catalog query env =
     \<lparr>ca_find = (\<lambda>c. m_bind (m_wrap (''capability '' @ ct_name c @ '' not found in catalog'') (query (ct_name c)))
        (\<lambda>(image_ref, entrypoint). m_ret (container_provider env (capability_spec (ct_name c) image_ref entrypoint)))),
      ca_build = (\<lambda>c. m_ret ())\<rparr>"

end
