(* ===== verification/ResolverProps.thy ===== *)
theory ResolverProps
  imports Resolver
begin

section \<open>Resolution returns, and agrees with the ledger\<close>

text \<open>
  The recursion of the resolver returns when the dependencies have a rank; the ledgers' contract and
  what a successful resolution leaves in them.
\<close>

subsection \<open>Fuel\<close>

lemma resolve_deps_mono:
  assumes "\<And>d s x. rec d s = Some x \<Longrightarrow> rec' d s = Some x" and "resolve_deps rec ds inputs s = Some x"
  shows "resolve_deps rec' ds inputs s = Some x"
  using assms(2)
proof (induction ds arbitrary: inputs s)
  case (Cons d ds)
  then obtain res s' where "rec d s = Some (res, s')" by (auto split: option.splits)
  then show ?case using Cons assms(1) [of d s] by (auto split: sum.splits)
qed simp

lemma resolve_mono: "resolve n r g s = Some x \<Longrightarrow> n \<le> m \<Longrightarrow> resolve m r g s = Some x"
proof (induction n arbitrary: m g s x)
  case (Suc n)
  then obtain k where m: "m = Suc k" "n \<le> k" by (cases m) auto
  show ?case
  proof (cases "ld_lookup (rs_ledger r) (gl_contract g) (gl_input g) s")
    case None
    show ?thesis
    proof (cases "plan_goal r g s")
      case (Pair res s1)
      show ?thesis
      proof (cases res)
        case (Inl e)
        then show ?thesis using Suc.prems None Pair by (simp add: m)
      next
        case (Inr pd)
        then obtain p deps where pd: "plan_goal r g s = (Inr (p, deps), s1)" using Pair by (cases pd) auto
        with Suc.prems None obtain y where y: "resolve_deps (resolve n r) deps [gl_input g] s1 = Some y"
          by (auto split: option.splits)
        have "resolve_deps (resolve k r) deps [gl_input g] s1 = Some y"
          by (rule resolve_deps_mono [OF Suc.IH [OF _ m(2)] y])
        then show ?thesis using Suc.prems None pd y by (simp add: m)
      qed
    qed
  qed (use Suc.prems m in simp)
qed simp

lemma traverse_deps_mono:
  assumes "\<And>d s x. rec d s = Some x \<Longrightarrow> rec' d s = Some x" and "traverse_deps rec g ds Gs = Some x"
  shows "traverse_deps rec' g ds Gs = Some x"
  using assms(2)
proof (induction ds arbitrary: Gs)
  case (Cons d ds)
  then obtain Gs' where "rec d (add_edge d g (fst Gs), snd Gs) = Some Gs'" by (auto split: option.splits)
  then show ?case using Cons assms(1) [of d] by auto
qed simp

lemma traverse_mono: "traverse n r g Gs = Some x \<Longrightarrow> n \<le> m \<Longrightarrow> traverse m r g Gs = Some x"
proof (induction n arbitrary: m g Gs x)
  case (Suc n)
  then obtain k where m: "m = Suc k" "n \<le> k" by (cases m) auto
  have deps: "traverse_deps (traverse k r) g ds Hs = Some x" if "traverse_deps (traverse n r) g ds Hs = Some x" for ds Hs
    by (rule traverse_deps_mono [OF Suc.IH [OF _ m(2)] that])
  show ?case
    using Suc.prems(1) by (auto simp: m Let_def deps split: prod.splits sum.splits simp del: split_paired_All split_paired_Ex)
qed simp

subsection \<open>A rank of the goals bounds the recursion\<close>

definition ranked :: "'x catalog \<Rightarrow> (goal \<Rightarrow> nat) \<Rightarrow> bool" where
  "ranked cat rank \<longleftrightarrow> (\<forall>g p ds d s s1 s2 s3. ca_find cat (gl_contract g) s = (Inr p, s1) \<longrightarrow>
     pv_dependencies p (gl_input g) s2 = (Inr ds, s3) \<longrightarrow> d \<in> set ds \<longrightarrow> rank d < rank g)"

lemma find_provider_found:
  "find_provider cat c s = (Inr p, s') \<Longrightarrow> \<exists>s0 s1. ca_find cat c s0 = (Inr p, s1)"
  by (auto simp: find_provider_def m_try_def m_ok m_bind_def m_ret_def split: sum.splits prod.splits) (metis prod.collapse)+

lemma ranked_plan:
  assumes "ranked cat rank" and "rs_catalog r = cat" and "plan_goal r g s = (Inr (p, ds), s')" and "d \<in> set ds"
  shows "rank d < rank g"
proof -
  obtain s1 s2 where f: "find_provider cat (gl_contract g) s = (Inr p, s1)"
    and d: "pv_dependencies p (gl_input g) s1 = (Inr ds, s2)"
    using assms(2,3) by (auto simp: plan_goal_def m_ok)
  from find_provider_found [OF f] d assms(1,4) show ?thesis unfolding ranked_def by blast
qed

lemma resolve_deps_total:
  "(\<And>d s. d \<in> set ds \<Longrightarrow> rec d s \<noteq> None) \<Longrightarrow> resolve_deps rec ds inputs s \<noteq> None"
proof (induction ds arbitrary: inputs s)
  case (Cons d ds)
  obtain res s' where "rec d s = Some (res, s')" using Cons.prems [of d s] by auto
  then show ?case using Cons by (cases res) auto
qed simp

lemma resolve_total:
  assumes "ranked (rs_catalog r) rank"
  shows "rank g < n \<Longrightarrow> resolve n r g s \<noteq> None"
proof (induction n arbitrary: g s)
  case (Suc n)
  have deps: "\<exists>y. resolve_deps (resolve n r) ds inputs s1 = Some y"
    if p: "plan_goal r g s = (Inr (p, ds), s1)" for p ds inputs s1
    unfolding not_None_eq [symmetric] using Suc.IH ranked_plan [OF assms refl p] Suc.prems by (intro resolve_deps_total) fastforce
  show ?case
  proof (cases "plan_goal r g s")
    case (Pair res s1)
    then show ?thesis
      using deps [of "fst (projr res)" "snd (projr res)" s1 "[gl_input g]"]
      by (cases res) (auto split: option.splits prod.splits sum.splits)
  qed
qed simp

lemma traverse_deps_total:
  "(\<And>d Gs. d \<in> set ds \<Longrightarrow> rec d Gs \<noteq> None) \<Longrightarrow> traverse_deps rec g ds Gs \<noteq> None"
proof (induction ds arbitrary: Gs)
  case (Cons d ds)
  have "rec d (add_edge d g (fst Gs), snd Gs) \<noteq> None" by (rule Cons.prems) simp
  moreover have "traverse_deps rec g ds Gs' \<noteq> None" for Gs' using Cons by simp
  ultimately show ?case by (auto simp del: split_paired_All split_paired_Ex)
qed simp

lemma traverse_total:
  assumes "ranked (rs_catalog r) rank"
  shows "rank g < n \<Longrightarrow> traverse n r g Gs \<noteq> None"
proof (induction n arbitrary: g Gs)
  case (Suc n)
  have deps: "traverse_deps (traverse n r) g ds Hs \<noteq> None"
    if "ca_find (rs_catalog r) (gl_contract g) s = (Inr p, s1)" "pv_dependencies p (gl_input g) s2 = (Inr ds, s3)"
    for p ds s s1 s2 s3 Hs
  proof (rule traverse_deps_total)
    fix d Gs assume "d \<in> set ds"
    then have "rank d < rank g" using assms that unfolding ranked_def by blast
    then show "traverse n r d Gs \<noteq> None" using Suc.IH Suc.prems by simp
  qed
  show ?case using deps by (auto simp: Let_def split: prod.splits sum.splits)
qed simp

text \<open>
  C24: Resolution and projection return when the dependencies of every provider rank below the goal they
  serve: some recursion depth, at most one more than the rank of the goal, gives a result, and any
  greater depth gives the same one.
\<close>

theorem resolve_terminates:
  assumes "\<And>g p ds d s s1 s2 s3. ca_find (rs_catalog r) (gl_contract g) s = (Inr p, s1) \<Longrightarrow>
    pv_dependencies p (gl_input g) s2 = (Inr ds, s3) \<Longrightarrow> d \<in> set ds \<Longrightarrow> rank d < rank g"
  shows "\<exists>res s' G. \<forall>n. rank g < n \<longrightarrow> resolve n r g s = Some (res, s') \<and> project_current_state n r g s = Some G"
proof -
  have "ranked (rs_catalog r) rank" using assms unfolding ranked_def by blast
  note total = resolve_total [OF this] traverse_total [OF this]
  obtain res s' where r: "resolve (Suc (rank g)) r g s = Some (res, s')"
    using total(1) [of g "Suc (rank g)" s] by (cases "resolve (Suc (rank g)) r g s") auto
  obtain G where G: "project_current_state (Suc (rank g)) r g s = Some G"
    using total(2) [of g "Suc (rank g)"] unfolding project_current_state_def by (metis lessI not_None_eq)
  show ?thesis
    by (intro exI [of _ res] exI [of _ s'] exI [of _ G] allI impI conjI resolve_mono [OF r]
        traverse_mono [OF G [unfolded project_current_state_def], folded project_current_state_def]) auto
qed

subsection \<open>The contract of a ledger\<close>

definition keeps_ledger :: "'x ledger \<Rightarrow> ('x, 'a) go \<Rightarrow> bool" where
  "keeps_ledger led m \<longleftrightarrow> (\<forall>s c i. ld_lookup led c i (snd (m s)) = ld_lookup led c i s)"

text \<open>The catalog and the providers leave the entries of the ledger.\<close>

definition leaves_ledger :: "'x ledger \<Rightarrow> 'x catalog \<Rightarrow> bool" where
  "leaves_ledger led cat \<longleftrightarrow>
     (\<forall>c. keeps_ledger led (ca_find cat c) \<and> keeps_ledger led (ca_build cat c)) \<and>
     (\<forall>c s p s'. ca_find cat c s = (Inr p, s') \<longrightarrow>
        (\<forall>i. keeps_ledger led (pv_dependencies p i)) \<and> (\<forall>inputs. keeps_ledger led (pv_execute p inputs)))"

text \<open>Whatever a provider returns with enough fitness is a good result for its contract and its first input.\<close>

definition accepts ::
  "(contract \<Rightarrow> string \<Rightarrow> string \<Rightarrow> bool) \<Rightarrow> rat \<Rightarrow> 'x catalog \<Rightarrow> bool" where
  "accepts good th cat \<longleftrightarrow> (\<forall>c s p s' i deps s1 out f st s2. ca_find cat c s = (Inr p, s') \<longrightarrow>
     pv_execute p (i # deps) s1 = (Inr (out, f, st), s2) \<longrightarrow> th \<le> f \<longrightarrow> good c i out)"

definition sound_ledger :: "'x ledger \<Rightarrow> (contract \<Rightarrow> string \<Rightarrow> string \<Rightarrow> bool) \<Rightarrow> 'x \<Rightarrow> bool" where
  "sound_ledger led good s \<longleftrightarrow> (\<forall>c i x. ld_lookup led c i s = Some x \<longrightarrow> good c i x)"

lemma keeps_ledgerD: "keeps_ledger led m \<Longrightarrow> m s = (x, s') \<Longrightarrow> ld_lookup led c i s' = ld_lookup led c i s"
  unfolding keeps_ledger_def by (metis snd_conv)

lemma find_provider_keeps:
  assumes "leaves_ledger led cat" and "find_provider cat c s = (Inr p, s')"
  shows "ld_lookup led c' i s' = ld_lookup led c' i s"
  using assms unfolding find_provider_def leaves_ledger_def
  by (auto simp: m_ok m_try_def split: sum.splits dest!: keeps_ledgerD) (metis keeps_ledgerD prod.collapse)+

lemma plan_goal_keeps:
  assumes "leaves_ledger led (rs_catalog r)" and "plan_goal r g s = (Inr (p, ds), s')"
  shows "ld_lookup led c i s' = ld_lookup led c i s"
    and "\<exists>s0 s1. ca_find (rs_catalog r) (gl_contract g) s0 = (Inr p, s1)"
proof -
  obtain s1 where f: "find_provider (rs_catalog r) (gl_contract g) s = (Inr p, s1)"
    and d: "pv_dependencies p (gl_input g) s1 = (Inr ds, s')"
    using assms(2) by (auto simp: plan_goal_def m_ok)
  from find_provider_found [OF f] show ex: "\<exists>s0 s1. ca_find (rs_catalog r) (gl_contract g) s0 = (Inr p, s1)" .
  then have "keeps_ledger led (pv_dependencies p (gl_input g))" using assms(1) unfolding leaves_ledger_def by blast
  from keeps_ledgerD [OF this d] find_provider_keeps [OF assms(1) f]
  show "ld_lookup led c i s' = ld_lookup led c i s" by simp
qed

lemma try_execute_ok:
  assumes "keeps_ledger led (pv_execute p inputs)"
  shows "try_execute n th p inputs le s = (Inr (out, st), s') \<Longrightarrow>
    (\<forall>c i. ld_lookup led c i s' = ld_lookup led c i s) \<and>
    (\<exists>s1 f s2. pv_execute p inputs s1 = (Inr (out, f, st), s2) \<and> th \<le> f)"
proof (induction n arbitrary: le s)
  case 0
  then show ?case by (simp add: m_err_ok)
next
  case (Suc n)
  obtain res s1 where e: "pv_execute p inputs s = (res, s1)" by fastforce
  have keep: "ld_lookup led c i s1 = ld_lookup led c i s" for c i by (rule keeps_ledgerD [OF assms e])
  show ?case
  proof (cases res)
    case (Inl err)
    then have "try_execute n th p inputs (Some err) s1 = (Inr (out, st), s')"
      using Suc.prems e by (simp add: m_try_def m_bind_def)
    from Suc.IH [OF this] keep show ?thesis by simp
  next
    case (Inr y)
    obtain out1 f st1 where y: "y = (out1, f, st1)" by (cases y)
    show ?thesis
    proof (cases "th \<le> f")
      case True
      then have "out1 = out \<and> st1 = st \<and> s1 = s'" using Suc.prems e Inr y by (simp add: m_try_def m_bind_def m_ret_def)
      then show ?thesis using keep e Inr y True by blast
    next
      case False
      then have "try_execute n th p inputs None s1 = (Inr (out, st), s')"
        using Suc.prems e Inr y by (simp add: m_try_def m_bind_def)
      from Suc.IH [OF this] keep show ?thesis by simp
    qed
  qed
qed

text \<open>A notion of goodness that cannot tell goals with the same entry apart, nor results with the same normal form.\<close>

definition coherent ::
  "(string \<Rightarrow> string) \<Rightarrow> (contract \<Rightarrow> string \<Rightarrow> 'k) \<Rightarrow> (contract \<Rightarrow> string \<Rightarrow> string \<Rightarrow> bool) \<Rightarrow> bool" where
  "coherent nf key good \<longleftrightarrow> (\<forall>c c' i i' x. key c i = key c' i' \<longrightarrow> good c i x \<longrightarrow> good c' i' (nf x))"

locale result_ledger =
  fixes led :: "'x ledger" and nf :: "string \<Rightarrow> string" and key :: "contract \<Rightarrow> string \<Rightarrow> 'k"
  assumes committed: "ld_commit led c i out st s = (Inr (), s') \<Longrightarrow>
      ld_lookup led c' i' s' = (if key c' i' = key c i then Some (nf out) else ld_lookup led c' i' s)"
    and normal: "ld_lookup led c i s = Some x \<Longrightarrow> nf x = x"
begin

lemma run_provider_ok:
  assumes led: "rs_ledger r = led" and ext: "leaves_ledger led (rs_catalog r)"
    and acc: "accepts good (rs_threshold r) (rs_catalog r)" and coh: "coherent nf key good"
    and found: "ca_find (rs_catalog r) (gl_contract g) s0 = (Inr p, s1)"
    and sound: "sound_ledger led good s" and run: "run_provider r g p (gl_input g # ins) s = (Inr out, s')"
  shows "sound_ledger led good s' \<and> ld_lookup led (gl_contract g) (gl_input g) s' = Some (nf out) \<and>
    (\<forall>c i. ld_lookup led c i s \<noteq> None \<longrightarrow> ld_lookup led c i s' \<noteq> None)"
proof -
  obtain st s2 where t: "try_execute 3 (rs_threshold r) p (gl_input g # ins) None s = (Inr (out, st), s2)"
    and c: "ld_commit led (gl_contract g) (gl_input g) out st s2 = (Inr (), s')"
    using run led by (auto simp: run_provider_def m_ok)
  have "keeps_ledger led (pv_execute p (gl_input g # ins))" using ext found unfolding leaves_ledger_def by blast
  from try_execute_ok [OF this t] have same: "ld_lookup led c i s2 = ld_lookup led c i s" for c i by blast
  have "good (gl_contract g) (gl_input g) out"
    using \<open>keeps_ledger led _\<close> try_execute_ok [OF _ t] acc found unfolding accepts_def by blast
  then show ?thesis
    using committed [OF c] same sound coh unfolding sound_ledger_def coherent_def by auto
qed

lemma resolve_deps_ok:
  assumes rec: "\<And>d s out s'. rec d s = Some (Inr out, s') \<Longrightarrow> sound_ledger led good s \<Longrightarrow>
      sound_ledger led good s' \<and> (\<forall>c i. ld_lookup led c i s \<noteq> None \<longrightarrow> ld_lookup led c i s' \<noteq> None)"
  shows "resolve_deps rec ds inputs s = Some (Inr outs, s') \<Longrightarrow> sound_ledger led good s \<Longrightarrow>
    (\<exists>shas. outs = inputs @ shas) \<and> sound_ledger led good s' \<and>
    (\<forall>c i. ld_lookup led c i s \<noteq> None \<longrightarrow> ld_lookup led c i s' \<noteq> None)"
proof (induction ds arbitrary: inputs s)
  case (Cons d ds)
  then obtain sha s1 where d: "rec d s = Some (Inr sha, s1)"
    and rest: "resolve_deps rec ds (inputs @ [sha]) s1 = Some (Inr outs, s')"
    by (auto split: option.splits sum.splits)
  from rec [OF d Cons.prems(2)] Cons.IH [OF rest] show ?case by auto
qed simp

lemma resolve_ok:
  assumes led: "rs_ledger r = led" and ext: "leaves_ledger led (rs_catalog r)"
    and acc: "accepts good (rs_threshold r) (rs_catalog r)" and coh: "coherent nf key good"
  shows "resolve n r g s = Some (Inr out, s') \<Longrightarrow> sound_ledger led good s \<Longrightarrow>
    sound_ledger led good s' \<and> ld_lookup led (gl_contract g) (gl_input g) s' = Some (nf out) \<and>
    (\<forall>c i. ld_lookup led c i s \<noteq> None \<longrightarrow> ld_lookup led c i s' \<noteq> None)"
proof (induction n arbitrary: g s out s')
  case (Suc n)
  show ?case
  proof (cases "ld_lookup led (gl_contract g) (gl_input g) s")
    case (Some sha)
    then show ?thesis using Suc.prems led normal by simp
  next
    case None
    then obtain p ds s1 ins s2 where p: "plan_goal r g s = (Inr (p, ds), s1)"
      and d: "resolve_deps (resolve n r) ds [gl_input g] s1 = Some (Inr ins, s2)"
      and run: "run_provider r g p ins s2 = (Inr out, s')"
      using Suc.prems(1) led by (auto split: prod.splits sum.splits option.splits)
    note keep = plan_goal_keeps [OF ext p]
    have "sound_ledger led good s1" using Suc.prems(2) keep(1) by (simp add: sound_ledger_def)
    with resolve_deps_ok [where rec = "resolve n r" and good = good, OF _ d] Suc.IH
    obtain shas where ins: "ins = gl_input g # shas" and s2: "sound_ledger led good s2"
      and known: "\<forall>c i. ld_lookup led c i s1 \<noteq> None \<longrightarrow> ld_lookup led c i s2 \<noteq> None" by (metis append_Cons append_Nil)
    obtain s3 s4 where f: "ca_find (rs_catalog r) (gl_contract g) s3 = (Inr p, s4)" using keep(2) by blast
    from run_provider_ok [OF led ext acc coh f s2 run [unfolded ins]] known keep(1) show ?thesis by simp
  qed
qed simp

lemma resolve_again:
  "rs_ledger r = led \<Longrightarrow> ld_lookup led (gl_contract g) (gl_input g) s = Some x \<Longrightarrow> 0 < m \<Longrightarrow>
   resolve m r g s = Some (Inr x, s)"
  by (cases m) simp_all

end

subsection \<open>The two ledgers\<close>

definition git_key :: "string \<Rightarrow> contract \<Rightarrow> string \<Rightarrow> string" where
  "git_key repo c i = path_join [repo, ''.autodev'', ''ledger'', ct_name c, i, ''result.sha'']"

lemma git_commit_ok:
  assumes "git_commit repo c i out st d = (Inr (), d')"
  shows "dk_files d' = (dk_files d)(git_key repo c i \<mapsto> out)"
proof -
  have key: "path_join [path_join [repo, ''.autodev'', ''ledger'', ct_name c, i], ''result.sha''] = git_key repo c i"
    unfolding git_key_def
    by (subst path_join_last [where x = "''ledger''"]) (simp_all add: path_segment_def)
  show ?thesis
    using assms unfolding git_commit_def Let_def key
    by (auto simp: m_ok dk_mkdir_all_def dk_write_file_def Let_def split: option.splits)
qed

lemma git_lookup_key: "git_lookup repo c i d = map_option trim_space (dk_files d (git_key repo c i))"
  by (simp add: git_lookup_def git_key_def)

interpretation git: result_ledger "git_ledger repo" trim_space "git_key repo" for repo
proof unfold_locales
  fix c i out st s s' c' i'
  assume "ld_commit (git_ledger repo) c i out st s = (Inr (), s')"
  then have "dk_files s' = (dk_files s)(git_key repo c i \<mapsto> out)" by (simp add: git_ledger_def git_commit_ok)
  then show "ld_lookup (git_ledger repo) c' i' s' =
      (if git_key repo c' i' = git_key repo c i then Some (trim_space out) else ld_lookup (git_ledger repo) c' i' s)"
    by (simp add: git_ledger_def git_lookup_key)
next
  show "ld_lookup (git_ledger repo) c i s = Some x \<Longrightarrow> trim_space x = x" for c i s x
    by (auto simp: git_ledger_def git_lookup_key trim_space_idem)
qed

interpretation mock: result_ledger mock_ledger "\<lambda>s. s" mock_key
  by unfold_locales (auto simp: mock_ledger_def m_modify_def)

text \<open>A write that fails after the truncation leaves an empty entry, which counts as a result.\<close>

lemma truncated_entry_found:
  "dk_fault d (dk_calls d) = Some (e, Some []) \<Longrightarrow>
   git_lookup repo c i (snd (dk_write_file (git_key repo c i) out d)) = Some []"
  by (simp add: dk_write_file_def git_lookup_key trim_space_def)

subsection \<open>Resolution over the ledger of files\<close>

text \<open>
  C25: A successful resolution over the ledger of files records its result and is remembered: the ledger
  then holds the returned result, without its surrounding white space, for the goal, every later
  resolution of the goal returns that without running a provider or writing, no known entry
  disappears, and every entry is still good when results with enough fitness are, so that a result
  below the threshold is never recorded.  This is for providers and catalogs that leave the ledger's
  files alone.
\<close>

theorem resolve_recorded:
  assumes "rs_ledger r = git_ledger repo" and "leaves_ledger (git_ledger repo) (rs_catalog r)"
    and "\<And>c s p s' i deps s1 out f st s2. ca_find (rs_catalog r) c s = (Inr p, s') \<Longrightarrow>
      pv_execute p (i # deps) s1 = (Inr (out, f, st), s2) \<Longrightarrow> rs_threshold r \<le> f \<Longrightarrow>
      good (git_key repo c i) (trim_space out)"
    and "\<And>c i x. git_lookup repo c i d = Some x \<Longrightarrow> good (git_key repo c i) x"
    and "resolve n r g d = Some (Inr out, d')"
  shows "git_lookup repo (gl_contract g) (gl_input g) d' = Some (trim_space out) \<and>
    (\<forall>m > 0. resolve m r g d' = Some (Inr (trim_space out), d')) \<and>
    (\<forall>c i. git_lookup repo c i d \<noteq> None \<longrightarrow> git_lookup repo c i d' \<noteq> None) \<and>
    (\<forall>c i x. git_lookup repo c i d' = Some x \<longrightarrow> good (git_key repo c i) x)"
proof -
  let ?good = "\<lambda>c i x. good (git_key repo c i) (trim_space x)"
  have look: "ld_lookup (git_ledger repo) = git_lookup repo" by (simp add: git_ledger_def)
  have trim: "trim_space x = x" if "git_lookup repo c i s = Some x" for c i x and s :: "'a disk"
    using git.normal [of repo c i s x] that by (simp add: look)
  have acc: "accepts ?good (rs_threshold r) (rs_catalog r)" using assms(3) unfolding accepts_def by blast
  have coh: "coherent trim_space (git_key repo) ?good" by (simp add: coherent_def trim_space_idem)
  have sound: "sound_ledger (git_ledger repo) ?good d" using assms(4) trim by (simp add: sound_ledger_def look)
  note ok = git.resolve_ok [OF assms(1,2) acc coh assms(5) sound, unfolded look]
  then have found: "git_lookup repo (gl_contract g) (gl_input g) d' = Some (trim_space out)" by blast
  moreover have "resolve m r g d' = Some (Inr (trim_space out), d')" if "0 < m" for m
    using git.resolve_again [OF assms(1) _ that, unfolded look, OF found] .
  moreover have "good (git_key repo c i) x" if "git_lookup repo c i d' = Some x" for c i x
    using ok trim [OF that] that unfolding sound_ledger_def look by metis
  ultimately show ?thesis using ok by blast
qed

end
