(* ===== verification/ResolverWitness.thy ===== *)
theory ResolverWitness
  imports ResolverProps
begin

section \<open>Resolving a chain of goals\<close>

text \<open>The catalog of resolver_test.go, in which C needs B and B needs A, over an empty ledger of files.\<close>

definition sample_goal :: "string \<Rightarrow> goal" where
  "sample_goal n = \<lparr>gl_contract = \<lparr>ct_name = n, ct_version = ''1.0''\<rparr>, gl_input = ''SHA-0''\<rparr>"

definition sample_provider :: "string \<Rightarrow> string list \<Rightarrow> 'x provider" where
  "sample_provider n deps =
     \<lparr>pv_dependencies = (\<lambda>i. m_ret (map (\<lambda>d. (sample_goal d)\<lparr>gl_input := i\<rparr>) deps)),
      pv_execute = (\<lambda>inputs. m_ret (''SHA-FROM-'' @ n, 1, []))\<rparr>"

definition sample_catalog :: "'x catalog" where
  "sample_catalog = mock_catalog [(''A'', sample_provider ''A'' []), (''B'', sample_provider ''B'' [''A'']),
     (''C'', sample_provider ''C'' [''B''])]"

definition sample_resolver :: "unit disk resolver" where
  "sample_resolver = \<lparr>rs_ledger = git_ledger ''/repo'', rs_catalog = sample_catalog, rs_threshold = 9 / 10\<rparr>"

definition sample_disk :: "unit disk" where
  "sample_disk = \<lparr>dk_files = (\<lambda>_. None), dk_calls = 0, dk_fault = (\<lambda>_. None), dk_rest = ()\<rparr>"

definition sample_rank :: "goal \<Rightarrow> nat" where
  "sample_rank g = (if ct_name (gl_contract g) = ''A'' then 0 else if ct_name (gl_contract g) = ''B'' then 1
     else if ct_name (gl_contract g) = ''C'' then 2 else 3)"

lemma sample_find:
  "ca_find sample_catalog c s = (Inr p, s') \<Longrightarrow> s' = s \<and>
   (ct_name c = ''A'' \<and> p = sample_provider ''A'' [] \<or> ct_name c = ''B'' \<and> p = sample_provider ''B'' [''A''] \<or>
    ct_name c = ''C'' \<and> p = sample_provider ''C'' [''B''])"
  by (auto simp: sample_catalog_def mock_catalog_def gm_get_def m_ret_def m_err_def split: if_splits option.splits)

lemma sample_ranked:
  assumes "ca_find (rs_catalog sample_resolver) (gl_contract g) s = (Inr p, s1)"
    and "pv_dependencies p (gl_input g) s2 = (Inr ds, s3)" and "d \<in> set ds"
  shows "sample_rank d < sample_rank g"
  using sample_find [of "gl_contract g" s p s1] assms
  by (auto simp: sample_resolver_def sample_provider_def sample_goal_def sample_rank_def m_ret_def)

theorem resolve_terminates_witness:
  "\<exists>res s' G. resolve 3 sample_resolver (sample_goal ''C'') sample_disk = Some (res, s') \<and>
    project_current_state 3 sample_resolver (sample_goal ''C'') sample_disk = Some G"
proof -
  have "sample_rank (sample_goal ''C'') < 3" by (simp add: sample_rank_def sample_goal_def)
  moreover have "\<exists>res s' G. \<forall>n. sample_rank (sample_goal ''C'') < n \<longrightarrow>
      resolve n sample_resolver (sample_goal ''C'') sample_disk = Some (res, s') \<and>
      project_current_state n sample_resolver (sample_goal ''C'') sample_disk = Some G"
    by (rule resolve_terminates) (rule sample_ranked)
  ultimately show ?thesis by blast
qed

lemma sample_plan:
  "plan_goal sample_resolver (sample_goal ''A'') s = (Inr (sample_provider ''A'' [], []), s)"
  "plan_goal sample_resolver (sample_goal ''B'') s = (Inr (sample_provider ''B'' [''A''], [sample_goal ''A'']), s)"
  "plan_goal sample_resolver (sample_goal ''C'') s = (Inr (sample_provider ''C'' [''B''], [sample_goal ''B'']), s)"
  by (simp_all add: plan_goal_def find_provider_def sample_resolver_def sample_catalog_def mock_catalog_def
      gm_get_def sample_provider_def sample_goal_def m_bind_def m_try_def m_ret_def m_wrap_def)

lemma sample_provider_runs:
  "dk_fault d = (\<lambda>_. None) \<Longrightarrow>
   \<exists>d'. run_provider sample_resolver g (sample_provider n ds) ins d = (Inr (''SHA-FROM-'' @ n), d') \<and>
     dk_fault d' = (\<lambda>_. None)"
  unfolding run_provider_def eval_nat_numeral
  by (simp add: sample_provider_def sample_resolver_def git_ledger_def git_commit_def dk_mkdir_all_def
      dk_write_file_def m_bind_def m_then_def m_try_def m_ret_def m_wrap_def Let_def)

lemma sample_empty: "ld_lookup (rs_ledger sample_resolver) c i sample_disk = None"
  by (simp add: sample_resolver_def git_ledger_def git_lookup_def sample_disk_def)

lemma sample_run: "\<exists>d. resolve 3 sample_resolver (sample_goal ''C'') sample_disk = Some (Inr ''SHA-FROM-C'', d)"
proof -
  have f0: "dk_fault sample_disk = (\<lambda>_. None)" by (simp add: sample_disk_def)
  obtain d1 where a: "run_provider sample_resolver (sample_goal ''A'') (sample_provider ''A'' []) [''SHA-0''] sample_disk =
      (Inr ''SHA-FROM-A'', d1)" and f1: "dk_fault d1 = (\<lambda>_. None)" using sample_provider_runs [OF f0] by force
  obtain d2 where b: "run_provider sample_resolver (sample_goal ''B'') (sample_provider ''B'' [''A''])
      [''SHA-0'', ''SHA-FROM-A''] d1 = (Inr ''SHA-FROM-B'', d2)" and f2: "dk_fault d2 = (\<lambda>_. None)"
    using sample_provider_runs [OF f1] by force
  obtain d3 where c: "run_provider sample_resolver (sample_goal ''C'') (sample_provider ''C'' [''B''])
      [''SHA-0'', ''SHA-FROM-B''] d2 = (Inr ''SHA-FROM-C'', d3)" using sample_provider_runs [OF f2] by force
  have input: "gl_input (sample_goal n) = ''SHA-0''" for n by (simp add: sample_goal_def)
  have "resolve (Suc 0) sample_resolver (sample_goal ''A'') sample_disk = Some (Inr ''SHA-FROM-A'', d1)"
    by (simp add: sample_empty sample_plan input a)
  then have "resolve (Suc (Suc 0)) sample_resolver (sample_goal ''B'') sample_disk = Some (Inr ''SHA-FROM-B'', d2)"
    by (subst resolve.simps) (simp add: sample_empty sample_plan input b del: resolve.simps)
  then have "resolve (Suc (Suc (Suc 0))) sample_resolver (sample_goal ''C'') sample_disk = Some (Inr ''SHA-FROM-C'', d3)"
    by (subst resolve.simps) (simp add: sample_empty sample_plan input c del: resolve.simps)
  then show ?thesis unfolding numeral_3_eq_3 by blast
qed

lemma sample_state:
  "snd (ca_find sample_catalog c s) = s" "snd (ca_build sample_catalog c s) = s"
  by (simp_all add: sample_catalog_def mock_catalog_def m_ret_def m_err_def split: option.splits)

lemma sample_provider_state:
  "snd (pv_dependencies (sample_provider n ds) i s) = s" "snd (pv_execute (sample_provider n ds) ins s) = s"
  by (simp_all add: sample_provider_def m_ret_def)

lemma sample_leaves: "leaves_ledger led sample_catalog"
proof -
  have "keeps_ledger led (ca_find sample_catalog c)" "keeps_ledger led (ca_build sample_catalog c)" for c
    by (simp_all add: keeps_ledger_def sample_state)
  moreover have "keeps_ledger led (pv_dependencies p i) \<and> keeps_ledger led (pv_execute p ins)"
    if "ca_find sample_catalog c s = (Inr p, s')" for c s p s' i ins
  proof -
    have "\<exists>n ds. p = sample_provider n ds" using sample_find [OF that] by metis
    then show ?thesis by (auto simp: keeps_ledger_def sample_provider_state)
  qed
  ultimately show ?thesis unfolding leaves_ledger_def by simp
qed

lemma sample_good:
  assumes "ca_find (rs_catalog sample_resolver) c s = (Inr p, s')"
    and "pv_execute p (i # deps) s1 = (Inr (out, f, st), s2)" and "rs_threshold sample_resolver \<le> f"
  shows "has_prefix (trim_space out) ''SHA''"
proof -
  have "ca_find sample_catalog c s = (Inr p, s')" using assms(1) by (simp add: sample_resolver_def)
  from sample_find [OF this] assms(2) have "out = ''SHA-FROM-A'' \<or> out = ''SHA-FROM-B'' \<or> out = ''SHA-FROM-C''"
    by (auto simp: sample_provider_def m_ret_def)
  moreover have "has_prefix (trim_space ''SHA-FROM-A'') ''SHA'' \<and> has_prefix (trim_space ''SHA-FROM-B'') ''SHA'' \<and>
      has_prefix (trim_space ''SHA-FROM-C'') ''SHA''" by code_simp
  ultimately show ?thesis by auto
qed

theorem resolve_recorded_witness:
  "case resolve 3 sample_resolver (sample_goal ''C'') sample_disk of
     Some (Inr out, d) \<Rightarrow> out = ''SHA-FROM-C'' \<and>
       resolve 1 sample_resolver (sample_goal ''C'') d = Some (Inr (trim_space out), d)
   | _ \<Rightarrow> False"
proof -
  obtain out d where run: "resolve 3 sample_resolver (sample_goal ''C'') sample_disk = Some (Inr out, d)"
    and out: "out = ''SHA-FROM-C''"
    using sample_run by blast
  have led: "rs_ledger sample_resolver = git_ledger ''/repo''" and
    leaves: "leaves_ledger (git_ledger ''/repo'') (rs_catalog sample_resolver)"
    using sample_leaves by (simp_all add: sample_resolver_def)
  have "git_lookup ''/repo'' (gl_contract (sample_goal ''C'')) (gl_input (sample_goal ''C'')) d = Some (trim_space out) \<and>
    (\<forall>m > 0. resolve m sample_resolver (sample_goal ''C'') d = Some (Inr (trim_space out), d)) \<and>
    (\<forall>c i. git_lookup ''/repo'' c i sample_disk \<noteq> None \<longrightarrow> git_lookup ''/repo'' c i d \<noteq> None) \<and>
    (\<forall>c i x. git_lookup ''/repo'' c i d = Some x \<longrightarrow> has_prefix x ''SHA'')"
  proof (rule resolve_recorded [OF led leaves, where good = "\<lambda>_ x. has_prefix x ''SHA''" and n = 3])
    show "git_lookup ''/repo'' c i sample_disk = Some x \<Longrightarrow> has_prefix x ''SHA''" for c i x
      by (simp add: git_lookup_def sample_disk_def)
  qed (rule sample_good run | assumption)+
  then have "resolve 1 sample_resolver (sample_goal ''C'') d = Some (Inr (trim_space out), d)" using zero_less_one by blast
  then show ?thesis using run out by (simp del: resolve.simps)
qed

end
