(* ===== verification/Docker.thy ===== *)
theory Docker
  imports Model Paths
begin

section \<open>Stage containers (internal/stagecontainer)\<close>

text \<open>
  How a stage is run in a container: the mounts granted by its context file, the arguments of
  \<open>docker run\<close>, and the digest of an image (docker.go, runtime_substrate.go).  \<open>docker_env\<close> holds the
  operations of the outside: reading and checking the context file, \<open>os.Stat\<close>, \<open>os.MkdirAll\<close>, the
  working directory, and the docker commands.  A Go set is a list; the order of a map that is sorted
  afterwards does not matter.
\<close>

record repo_mount =
  rm_type :: string
  rm_path :: string

record write_scope =
  ws_root :: string
  ws_patterns :: "string list"
  ws_allow_all :: bool

record stage_context =
  cx_repos :: "repo_mount list"
  cx_writable :: "write_scope list"
  cx_repo_control :: "string list"
  cx_work_order_repo :: string

record 'x docker_env =
  de_data_dir :: string
  de_cwd :: string
  de_read_context :: "string \<Rightarrow> ('x, stage_context) go"
  de_stat :: "string \<Rightarrow> 'x \<Rightarrow> stat_result \<times> 'x"
  de_mkdir_all :: "string \<Rightarrow> ('x, unit) go"
  de_docker :: "string list \<Rightarrow> ('x, unit) go"
  de_output :: "string list \<Rightarrow> 'x \<Rightarrow> (string option \<times> string) \<times> 'x"
  de_string_list :: "string \<Rightarrow> string + string list"

subsection \<open>Mounts\<close>

definition add_mount :: "string \<Rightarrow> string \<Rightarrow> bool \<Rightarrow> string list \<Rightarrow> string list" where
  "add_mount source target ro out =
     (let source = trim_space source; target = trim_space target
      in if source = [] \<or> target = [] then out
         else let entry = path_clean source @ '':'' @ path_clean target @ (if ro then '':ro'' else [])
              in if entry \<in> set out then out else out @ [entry])"

definition writable_whole_roots :: "write_scope list \<Rightarrow> string list" where
  "writable_whole_roots scopes =
     map (\<lambda>s. path_clean (trim_space (ws_root s)))
       (filter (\<lambda>s. ws_allow_all s \<and> trim_space (ws_root s) \<noteq> []) scopes)"

definition allowed_roots :: "repo_mount list \<Rightarrow> string list" where
  "allowed_roots repos =
     map (\<lambda>r. path_clean (trim_space (rm_path r))) (filter (\<lambda>r. trim_space (rm_path r) \<noteq> []) repos)"

fun static_segments :: "string list \<Rightarrow> string list" where
  "static_segments [] = []"
| "static_segments (s # ss) =
     (let t = trim_space s
      in if t = [] \<or> t = ''.'' then static_segments ss
         else if contains_any t ''*?['' then []
         else t # static_segments ss)"

definition writable_pattern_root :: "string \<Rightarrow> string \<Rightarrow> string" where
  "writable_pattern_root rt pattern =
     (let pattern = trim_space pattern
      in if pattern = [] \<or> pattern = ''.'' \<or> pattern = ''**'' then rt
         else let static = static_segments (split_on CHR ''/'' pattern)
              in if static = [] then rt
                 else let path = path_join (rt # static)
                      in if CHR ''.'' \<in> set (last static) then path_dir path else path)"

definition ensure_mount_path :: "'x docker_env \<Rightarrow> string \<Rightarrow> ('x, unit) go" where
  "ensure_mount_path env path s =
     (case de_stat env path s of
        (Stat_found, s') \<Rightarrow> (Inr (), s')
      | (Stat_missing, s') \<Rightarrow> de_mkdir_all env path s'
      | (Stat_error e, s') \<Rightarrow> (Inl e, s'))"

text \<open>The mount roots of one scope, before their paths are made to exist.\<close>

definition scope_mounts :: "string list \<Rightarrow> write_scope \<Rightarrow> string list" where
  "scope_mounts allowed sc =
     (let rt = path_clean (trim_space (ws_root sc))
      in if rt = ''.'' \<or> rt = [] then []
         else if rt \<notin> set allowed \<or> ws_allow_all sc then []
         else filter (\<lambda>m. m \<noteq> [] \<and> m \<noteq> rt) (map (writable_pattern_root rt) (ws_patterns sc)))"

definition keep_ensured :: "'x docker_env \<Rightarrow> string \<Rightarrow> string list \<Rightarrow> ('x, string list) go" where
  "keep_ensured env m out =
     m_bind (m_try (ensure_mount_path env m)) (\<lambda>r. m_ret (case r of Inl _ \<Rightarrow> out | Inr _ \<Rightarrow> out @ [m]))"

definition writable_subpath_mounts ::
  "'x docker_env \<Rightarrow> repo_mount list \<Rightarrow> write_scope list \<Rightarrow> ('x, string list) go" where
  "writable_subpath_mounts env repos scopes =
     m_bind (m_fold (keep_ensured env) (concat (map (scope_mounts (allowed_roots repos)) scopes)) [])
       (\<lambda>found. m_ret (sort (remdups found)))"

definition control_root :: "string list \<Rightarrow> string \<Rightarrow> string list" where
  "control_root allowed entry =
     (let rt = path_clean (trim_space entry)
      in if rt = ''.'' \<or> rt = [] \<or> rt \<notin> set allowed then [] else [path_join [rt, ''.git'']])"

definition keep_found :: "'x docker_env \<Rightarrow> string \<Rightarrow> string list \<Rightarrow> ('x, string list) go" where
  "keep_found env m out s =
     (case de_stat env m s of (r, s') \<Rightarrow> (Inr (if r = Stat_found then out @ [m] else out), s'))"

definition repo_control_mounts ::
  "'x docker_env \<Rightarrow> repo_mount list \<Rightarrow> string list \<Rightarrow> ('x, string list) go" where
  "repo_control_mounts env repos control =
     m_bind (m_fold (keep_found env) (concat (map (control_root (allowed_roots repos)) control)) [])
       (\<lambda>found. m_ret (sort (remdups found)))"

definition add_repo :: "string list \<Rightarrow> repo_mount \<Rightarrow> string list \<Rightarrow> string list" where
  "add_repo whole r out =
     (let path = trim_space (rm_path r)
      in if path = [] then out else add_mount path path (path \<notin> set whole) out)"

definition add_writable :: "string \<Rightarrow> string list \<Rightarrow> string list" where
  "add_writable m = add_mount m m False"

definition stage_workspace :: "'x docker_env \<Rightarrow> stage_spec \<Rightarrow> string \<Rightarrow> string" where
  "stage_workspace env spec run = path_join [de_data_dir env, ''workspaces'', run, ss_name spec]"

definition mounts :: "'x docker_env \<Rightarrow> stage_spec \<Rightarrow> string \<Rightarrow> ('x, string list) go" where
  "mounts env spec run =
     (let workspace = stage_workspace env spec run;
          out = add_mount (path_abs (de_cwd env) workspace) ''/workspace'' False []
      in m_bind (m_try (de_read_context env (path_join [workspace, ''context.json'']))) (\<lambda>r. case r of
           Inl _ \<Rightarrow> m_ret out
         | Inr cx \<Rightarrow>
             (let out = (if trim_space (cx_work_order_repo cx) \<noteq> []
                         then add_mount (cx_work_order_repo cx) (cx_work_order_repo cx) True out else out);
                  out = fold (add_repo (writable_whole_roots (cx_writable cx))) (cx_repos cx) out
              in m_bind (writable_subpath_mounts env (cx_repos cx) (cx_writable cx)) (\<lambda>sub.
                   m_bind (repo_control_mounts env (cx_repos cx) (cx_repo_control cx)) (\<lambda>control.
                     m_ret (fold add_writable control (fold add_writable sub out)))))))"

subsection \<open>The docker command\<close>

definition container_entrypoint :: "string \<Rightarrow> string" where
  "container_entrypoint entrypoint =
     (let e = trim_space entrypoint
      in if e = [] \<or> CHR ''/'' \<in> set e then e else path_join [''/usr/local/bin'', e])"

definition RuntimeIsolationModeContainer :: string where
  "RuntimeIsolationModeContainer = ''container-user''"

definition docker_args ::
  "'x docker_env \<Rightarrow> stage_spec \<Rightarrow> string \<Rightarrow> string \<Rightarrow> ('x, string list) go" where
  "docker_args env spec run image_ref =
     (case ss_entrypoint spec of
        [] \<Rightarrow> m_err (''stage '' @ ss_name spec @ '' has no entrypoint configured'')
      | entry # rest \<Rightarrow>
          (let workspace = stage_workspace env spec run;
               user = sp_runtime_user (sc_permissions (container_config spec))
           in m_bind (mounts env spec run) (\<lambda>ms. m_ret (
                [''run'', ''--rm'', ''-w'', ''/app''] @ concat (map (\<lambda>m. [''-v'', m]) ms) @
                (if ru_mode user = RuntimeIsolationModeContainer \<and> trim_space (ru_container_user user) \<noteq> []
                 then [''--user'', ru_container_user user] else []) @
                [''-e'', ''AUTODEV_STAGE_CONTEXT='' @ path_join [workspace, ''context.json''],
                 ''-e'', ''AUTODEV_STAGE_RESULT='' @ path_join [workspace, ''result.json''],
                 ''-e'', ''AUTODEV_STAGE_REPORT='' @ path_join [workspace, ''report.json''],
                 ''-e'', ''AUTODEV_STAGE_STATE='' @ path_join [workspace, ''state.json''],
                 ''--entrypoint'', container_entrypoint entry, image_ref] @ rest))))"

definition docker_run :: "'x docker_env \<Rightarrow> stage_spec \<Rightarrow> string \<Rightarrow> runtime_image \<Rightarrow> ('x, unit) go" where
  "docker_run env spec run im =
     (if trim_space (ri_digest im) = [] \<and> trim_space (ri_ref im) = []
      then m_err (''stage '' @ ss_name spec @ '' runtime image is missing reference/digest'')
      else m_bind (docker_args env spec run (ri_ref im)) (de_docker env))"

subsection \<open>Image digests\<close>

definition stage_image_ref :: "string \<Rightarrow> string" where
  "stage_image_ref stage = ''autodev-stage-'' @ stage @ '':current''"

text \<open>What follows the first \<open>@\<close>, if there is one.\<close>

definition after_at :: "string \<Rightarrow> string option" where
  "after_at s = (case dropWhile (\<lambda>c. c \<noteq> CHR ''@'') s of [] \<Rightarrow> None | _ # rest \<Rightarrow> Some rest)"

definition repo_digest :: "'x docker_env \<Rightarrow> string \<Rightarrow> string option" where
  "repo_digest env output =
     (let out = trim_space output
      in if out \<noteq> [] \<and> out \<noteq> ''null'' \<and> out \<noteq> ''[]''
         then (case de_string_list env out of
             Inr (d # _) \<Rightarrow>
               (case after_at d of
                  Some part \<Rightarrow> if trim_space part \<noteq> [] then Some (trim_space part) else None
                | None \<Rightarrow> None)
           | _ \<Rightarrow> None)
         else None)"

text \<open>\<open>de_output\<close> runs docker and gives its error, if any, and its output.\<close>

definition inspect_image_digest :: "'x docker_env \<Rightarrow> string \<Rightarrow> ('x, string) go" where
  "inspect_image_digest env ref s =
     (case de_output env [''image'', ''inspect'', ref, ''--format'', ''{{json .RepoDigests}}''] s of
        ((Some e, out), s1) \<Rightarrow>
          (Inl (''inspect runtime image '' @ ref @ '': '' @ e @ [char_of (10 :: nat)] @ trim_space out), s1)
      | ((None, out), s1) \<Rightarrow>
          (case repo_digest env out of
             Some d \<Rightarrow> (Inr d, s1)
           | None \<Rightarrow>
               (case de_output env [''image'', ''inspect'', ref, ''--format'', ''{{.Id}}''] s1 of
                  ((Some e, out2), s2) \<Rightarrow>
                    (Inl (''inspect runtime image id '' @ ref @ '': '' @ e @ [char_of (10 :: nat)] @
                       trim_space out2), s2)
                | ((None, out2), s2) \<Rightarrow>
                    if trim_space out2 = [] then (Inl (''runtime image '' @ ref @ '' returned empty image id''), s2)
                    else (Inr (trim_space out2), s2))))"

definition resolve_runtime_image :: "'x docker_env \<Rightarrow> string \<Rightarrow> ('x, runtime_image) go" where
  "resolve_runtime_image env stage =
     m_bind (inspect_image_digest env (stage_image_ref stage))
       (\<lambda>d. m_ret \<lparr>ri_stage = stage, ri_ref = stage_image_ref stage, ri_digest = d\<rparr>)"

definition resolve_runtime_images :: "'x docker_env \<Rightarrow> string list \<Rightarrow> ('x, runtime_image gomap) go" where
  "resolve_runtime_images env stages =
     m_fold (\<lambda>stage images. m_bind (resolve_runtime_image env stage) (\<lambda>im. m_ret (gm_put stage im images)))
       stages []"

end
