(* ===== verification/DockerSafety.thy ===== *)
theory DockerSafety
  imports Docker
begin

section \<open>What a stage container may write\<close>

text \<open>
  Every mount of a stage container is read-only, the stage's own workspace, or within a materialized
  repository and granted by a writable scope or a repository-control entry of the context file.
\<close>

subsection \<open>Below a root\<close>

definition below :: "string \<Rightarrow> string \<Rightarrow> bool" where
  "below rt path \<longleftrightarrow> path_rooted path = path_rooted rt \<and> (\<exists>ps. ps \<noteq> [] \<and> path_comps path = path_comps rt @ ps)"

text \<open>A clean path below the root whose last component has no white space around it.\<close>

definition tidy_below :: "string \<Rightarrow> string \<Rightarrow> bool" where
  "tidy_below rt path \<longleftrightarrow> path_clean path = path \<and> path_rooted path = path_rooted rt \<and>
     (\<exists>ps p. path_comps path = path_comps rt @ ps @ [p] \<and> trim_space p = p)"

lemma tidy_below_below: "tidy_below rt path \<Longrightarrow> below rt path"
  unfolding tidy_below_def below_def by blast

lemma join_with_last: "xs \<noteq> [] \<Longrightarrow> last xs \<noteq> [] \<Longrightarrow> join_with sep xs \<noteq> [] \<and> last (join_with sep xs) = last (last xs)"
  by (induction sep xs rule: join_with.induct) auto

lemma tidy_below_trim:
  assumes "tidy_below rt path" and "path_rooted rt"
  shows "trim_space path = path"
proof (rule trim_space_ends)
  obtain ps p where c: "path_comps path = path_comps rt @ ps @ [p]" and p: "trim_space p = p"
    and r: "path_rooted path" and clean: "path_clean path = path"
    using assms unfolding tidy_below_def by blast
  have pne: "p \<noteq> []" using path_comps_props [of p path] c by simp
  have eq: "path = CHR ''/'' # join_with ''/'' (path_comps path)"
    using clean r by (simp add: path_clean_def path_render_def)
  have j: "join_with ''/'' (path_comps path) \<noteq> []" "last (join_with ''/'' (path_comps path)) = last p"
    using join_with_last [of "path_comps path" "''/''"] c pne by simp_all
  show "path \<noteq> []" by (subst eq) simp
  have "hd path = CHR ''/''" by (subst eq) simp
  then show "\<not> is_space (hd path)" by (simp add: is_space_def)
  have "last path = last p" using j by (subst eq) simp
  then show "\<not> is_space (last path)" using trim_space_last [OF p pne] by simp
qed

lemma static_segments_props:
  "''..'' \<notin> set (map trim_space ss) \<Longrightarrow> \<forall>s \<in> set ss. CHR ''/'' \<notin> set s \<Longrightarrow> x \<in> set (static_segments ss) \<Longrightarrow>
   path_segment x \<and> trim_space x = x"
proof (induction ss)
  case (Cons s ss)
  have "set (trim_space s) \<subseteq> set s"
    unfolding trim_space_def by (auto dest!: set_dropWhileD)
  then show ?case
    using Cons by (auto simp: Let_def path_segment_def trim_space_idem split: if_splits)
qed simp

lemma path_dir_rooted:
  assumes r: "path_rooted path" and clean: "path_clean path = path" and c: "path_comps path = cs @ [l]"
  shows "path_rooted (path_dir path) \<and> path_comps (path_dir path) = cs \<and> path_clean (path_dir path) = path_dir path"
proof -
  let ?up = "CHR ''/'' # join_with ''/'' cs"
  have path: "path = CHR ''/'' # join_with ''/'' (cs @ [l])"
    using clean r c by (simp add: path_clean_def path_render_def)
  have l: "CHR ''/'' \<notin> set l" using path_comps_props [of l path] c by simp
  have cut: "rev (dropWhile (\<lambda>c. c \<noteq> CHR ''/'') (rev (xs @ CHR ''/'' # l))) = xs @ ''/''" for xs
  proof -
    have "rev (xs @ CHR ''/'' # l) = rev l @ CHR ''/'' # rev xs" by simp
    moreover have "dropWhile (\<lambda>c. c \<noteq> CHR ''/'') (rev l @ CHR ''/'' # rev xs) = CHR ''/'' # rev xs"
      using l by (subst dropWhile_append2) auto
    ultimately show ?thesis by simp
  qed
  have seg: "p \<noteq> [] \<and> p \<noteq> ''.'' \<and> p \<noteq> ''..'' \<and> CHR ''/'' \<notin> set p" if "p \<in> set cs" for p
    using path_comps_segment [OF r, of p] c that by (auto simp: path_segment_def)
  have up: "path_rooted ?up \<and> path_comps ?up = cs"
    using path_render_comps [of cs True] seg dotdots_first_plain [of cs] by (auto simp: path_render_def)
  have "path_dir path = path_clean (if cs = [] then ''/'' else ?up @ ''/'')"
  proof (cases "cs = []")
    case True
    then show ?thesis unfolding path_dir_def path using cut [of "[]"] by simp
  next
    case False
    then have "path = ?up @ CHR ''/'' # l" unfolding path using join_with_append [of cs "[l]" "''/''"] by simp
    then show ?thesis unfolding path_dir_def using cut [of ?up] False by simp
  qed
  moreover have "path_comps (?up @ ''/'') = cs"
    using up path_elems_append [of ?up "[]"] by (simp add: path_comps_def path_elems_Nil path_rooted_def)
  moreover have "path_comps ''/'' = []" by (simp add: path_comps_def path_elems_def)
  ultimately show ?thesis by (auto simp: path_clean_comps)
qed

lemma pattern_root_tidy:
  assumes r: "path_rooted rt" and clean: "path_clean rt = rt"
    and plain: "''..'' \<notin> set (map trim_space (split_on CHR ''/'' (trim_space pattern)))"
    and other: "writable_pattern_root rt pattern \<noteq> rt"
  shows "tidy_below rt (writable_pattern_root rt pattern)"
proof -
  define ps where "ps = static_segments (split_on CHR ''/'' (trim_space pattern))"
  have ps: "path_segment x \<and> trim_space x = x" if "x \<in> set ps" for x
    using static_segments_props [OF plain _ that [unfolded ps_def]] split_on_parts by metis
  define path where "path = path_join (rt # ps)"
  have ne: "ps \<noteq> []" and w: "writable_pattern_root rt pattern = (if CHR ''.'' \<in> set (last ps) then path_dir path else path)"
    using other by (auto simp: writable_pattern_root_def Let_def ps_def path_def split: if_splits)
  have rt: "rt \<noteq> []" using r by (auto simp: path_rooted_def)
  from path_join_base [OF rt _ ne] have j: "path_rooted path" "path_comps path = path_comps rt @ ps"
    using ps r by (auto simp: path_def list_all_iff)
  have "path_clean path = path" using rt by (simp add: path_def path_join_def Let_def)
  obtain qs q where q: "ps = qs @ [q]" using ne by (metis append_butlast_last_id)
  show ?thesis
  proof (cases "CHR ''.'' \<in> set q")
    case False
    then have "writable_pattern_root rt pattern = path" using w q by simp
    then show ?thesis
      using j r \<open>path_clean path = path\<close> ps [of q] q unfolding tidy_below_def by auto
  next
    case True
    then have w: "writable_pattern_root rt pattern = path_dir path" using w q by simp
    have "path_comps path = (path_comps rt @ qs) @ [q]" using j q by simp
    note d = path_dir_rooted [OF j(1) \<open>path_clean path = path\<close> this]
    have "qs \<noteq> []"
    proof
      assume "qs = []"
      then have "path_clean (path_dir path) = path_clean rt" using d r \<open>qs = []\<close> by (subst path_clean_eq) simp
      then show False using other w d clean by simp
    qed
    then obtain us u where u: "qs = us @ [u]" by (metis append_butlast_last_id)
    then show ?thesis
      using d r ps [of u] q unfolding tidy_below_def w by (intro conjI exI [of _ us] exI [of _ u]) auto
  qed
qed

subsection \<open>The list of mounts\<close>

definition granted :: "stage_context \<Rightarrow> string \<Rightarrow> bool" where
  "granted cx src \<longleftrightarrow> (\<exists>r \<in> set (allowed_roots (cx_repos cx)).
     src = r \<and> r \<in> set (writable_whole_roots (cx_writable cx)) \<or>
     below r src \<and> (\<exists>sc \<in> set (cx_writable cx). \<exists>pat \<in> set (ws_patterns sc). \<not> ws_allow_all sc \<and>
       path_clean (trim_space (ws_root sc)) = r \<and> src = writable_pattern_root r pat) \<or>
     below r src \<and> (\<exists>c \<in> set (cx_repo_control cx). path_clean (trim_space c) = r \<and> src = path_join [r, ''.git'']))"

text \<open>Repositories are given by absolute paths and no pattern has a parent reference.\<close>

definition plain_context :: "stage_context \<Rightarrow> bool" where
  "plain_context cx \<longleftrightarrow>
     (\<forall>r \<in> set (cx_repos cx). trim_space (rm_path r) \<noteq> [] \<longrightarrow> path_rooted (trim_space (rm_path r))) \<and>
     (\<forall>sc \<in> set (cx_writable cx). \<forall>pat \<in> set (ws_patterns sc).
        ''..'' \<notin> set (map trim_space (split_on CHR ''/'' (trim_space pat))))"

definition mount_ok :: "string \<Rightarrow> stage_context option \<Rightarrow> string \<Rightarrow> bool" where
  "mount_ok workspace cx m \<longleftrightarrow> m = path_clean workspace @ '':/workspace'' \<or> has_suffix m '':ro'' \<or>
     (\<exists>c src. cx = Some c \<and> granted c src \<and> m = src @ '':'' @ src)"

definition entries_ok :: "(string \<Rightarrow> bool) \<Rightarrow> string list \<Rightarrow> bool" where
  "entries_ok P out \<longleftrightarrow> distinct out \<and> (\<forall>m \<in> set out. P m)"

lemma add_mount_ok:
  assumes "entries_ok P out"
    and "trim_space source \<noteq> [] \<Longrightarrow> trim_space target \<noteq> [] \<Longrightarrow>
      P (path_clean (trim_space source) @ '':'' @ path_clean (trim_space target) @ (if ro then '':ro'' else []))"
  shows "entries_ok P (add_mount source target ro out)"
  using assms by (auto simp: add_mount_def entries_ok_def Let_def)

lemma fold_ok:
  "(\<And>x out. x \<in> set xs \<Longrightarrow> entries_ok P out \<Longrightarrow> entries_ok P (f x out)) \<Longrightarrow> entries_ok P out \<Longrightarrow> entries_ok P (fold f xs out)"
  by (induction xs arbitrary: out) simp_all

lemma keep_fold:
  assumes "\<And>m out s out' s'. f m out s = (Inr out', s') \<Longrightarrow> set out' \<subseteq> insert m (set out)"
  shows "m_fold f ms out s = (Inr out', s') \<Longrightarrow> set out' \<subseteq> set out \<union> set ms"
proof (induction ms arbitrary: out s)
  case (Cons m ms)
  then obtain out1 s1 where "f m out s = (Inr out1, s1)" "m_fold f ms out1 s1 = (Inr out', s')"
    by (auto simp: m_bind_ok)
  with assms [of m out s out1 s1] Cons.IH show ?case by fastforce
qed (simp add: m_ret_ok)

lemma keep_ensured_sub: "keep_ensured env m out s = (Inr out', s') \<Longrightarrow> set out' \<subseteq> insert m (set out)"
  by (auto simp: keep_ensured_def m_bind_def m_try_def m_ret_def split: sum.splits prod.splits)

lemma keep_found_sub: "keep_found env m out s = (Inr out', s') \<Longrightarrow> set out' \<subseteq> insert m (set out)"
  by (auto simp: keep_found_def split: prod.splits if_splits)

lemma subpath_from_scopes:
  assumes "writable_subpath_mounts env repos scopes s = (Inr ms, s')" and "m \<in> set ms"
  shows "\<exists>sc \<in> set scopes. m \<in> set (scope_mounts (allowed_roots repos) sc)"
proof -
  obtain found where "m_fold (keep_ensured env) (concat (map (scope_mounts (allowed_roots repos)) scopes)) [] s = (Inr found, s')"
    and "ms = sort (remdups found)"
    using assms(1) by (auto simp: writable_subpath_mounts_def m_bind_ok m_ret_ok)
  moreover from this(1) have "set found \<subseteq> set [] \<union> set (concat (map (scope_mounts (allowed_roots repos)) scopes))"
    by (rule keep_fold [rotated]) (rule keep_ensured_sub)
  ultimately show ?thesis using assms(2) by auto
qed

lemma control_from_entries:
  assumes "repo_control_mounts env repos control s = (Inr ms, s')" and "m \<in> set ms"
  shows "\<exists>c \<in> set control. m \<in> set (control_root (allowed_roots repos) c)"
proof -
  obtain found where "m_fold (keep_found env) (concat (map (control_root (allowed_roots repos)) control)) [] s = (Inr found, s')"
    and "ms = sort (remdups found)"
    using assms(1) by (auto simp: repo_control_mounts_def m_bind_ok m_ret_ok)
  moreover from this(1) have "set found \<subseteq> set [] \<union> set (concat (map (control_root (allowed_roots repos)) control))"
    by (rule keep_fold [rotated]) (rule keep_found_sub)
  ultimately show ?thesis using assms(2) by auto
qed

lemma allowed_rooted:
  "plain_context cx \<Longrightarrow> r \<in> set (allowed_roots (cx_repos cx)) \<Longrightarrow> path_rooted r \<and> path_clean r = r"
  by (auto simp: plain_context_def allowed_roots_def path_clean_comps)

lemma scope_mount_granted:
  assumes "plain_context cx" and "sc \<in> set (cx_writable cx)" and m: "m \<in> set (scope_mounts (allowed_roots (cx_repos cx)) sc)"
  shows "granted cx m \<and> path_clean (trim_space m) = m"
proof -
  define r where "r = path_clean (trim_space (ws_root sc))"
  obtain pat where pat: "pat \<in> set (ws_patterns sc)" "m = writable_pattern_root r pat" "m \<noteq> r"
    and r: "r \<in> set (allowed_roots (cx_repos cx))" "\<not> ws_allow_all sc"
    using m by (auto simp: scope_mounts_def Let_def r_def split: if_splits)
  note rooted = allowed_rooted [OF assms(1) r(1)]
  have tidy: "tidy_below r m"
    using pattern_root_tidy [of r pat] rooted assms(1,2) pat unfolding plain_context_def by auto
  then have "path_clean (trim_space m) = m"
    using tidy_below_trim rooted unfolding tidy_below_def by metis
  then show ?thesis using tidy_below_below [OF tidy] assms(2) pat r r_def unfolding granted_def by blast
qed

lemma control_mount_granted:
  assumes "plain_context cx" and "c \<in> set (cx_repo_control cx)" and m: "m \<in> set (control_root (allowed_roots (cx_repos cx)) c)"
  shows "granted cx m \<and> path_clean (trim_space m) = m"
proof -
  define r where "r = path_clean (trim_space c)"
  have mr: "m = path_join [r, ''.git'']" and r: "r \<in> set (allowed_roots (cx_repos cx))"
    using m by (auto simp: control_root_def Let_def r_def split: if_splits)
  note rooted = allowed_rooted [OF assms(1) r]
  have rt: "r \<noteq> []" using rooted by (auto simp: path_rooted_def)
  have seg: "list_all path_segment [''.git'']" by (simp add: path_segment_def)
  have "trim_space ''.git'' = ''.git''" by code_simp
  then have tidy: "tidy_below r m"
    using path_join_base [OF rt seg] rt unfolding tidy_below_def mr
    by (auto simp: path_join_pair intro!: exI [of _ "[]"])
  then have "path_clean (trim_space m) = m"
    using tidy_below_trim rooted unfolding tidy_below_def by metis
  then show ?thesis using tidy_below_below [OF tidy] assms(2) mr r r_def unfolding granted_def by blast
qed

lemma add_repo_ok:
  assumes "entries_ok (mount_ok ws (Some cx)) out" and r: "r \<in> set (cx_repos cx)"
  shows "entries_ok (mount_ok ws (Some cx)) (add_repo (writable_whole_roots (cx_writable cx)) r out)"
proof -
  let ?p = "trim_space (rm_path r)"
  have "mount_ok ws (Some cx) (path_clean ?p @ '':'' @ path_clean ?p @
      (if ?p \<notin> set (writable_whole_roots (cx_writable cx)) then '':ro'' else []))" if "?p \<noteq> []"
  proof (cases "?p \<in> set (writable_whole_roots (cx_writable cx))")
    case True
    then have "path_clean ?p = ?p" by (auto simp: writable_whole_roots_def)
    moreover have "path_clean ?p \<in> set (allowed_roots (cx_repos cx))" using r that by (auto simp: allowed_roots_def)
    ultimately have "granted cx ?p" using True unfolding granted_def by metis
    then show ?thesis using True \<open>path_clean ?p = ?p\<close> by (auto simp: mount_ok_def)
  next
    case False
    then show ?thesis by (simp add: mount_ok_def has_suffix_iff)
  qed
  then show ?thesis
    using assms(1) by (auto simp: add_repo_def Let_def trim_space_idem intro!: add_mount_ok)
qed

lemma add_writable_ok:
  assumes "entries_ok (mount_ok ws (Some cx)) out" and "granted cx m \<and> path_clean (trim_space m) = m"
  shows "entries_ok (mount_ok ws (Some cx)) (add_writable m out)"
  unfolding add_writable_def using assms by (auto simp: mount_ok_def intro!: add_mount_ok)


text \<open>With a parent reference in a pattern, the mount leaves the repository.\<close>

lemma pattern_root_escapes: "writable_pattern_root ''/repos/app'' ''../../etc/x'' = ''/etc/x''"
  by code_simp

end
