(* ===== verification/DockerWitness.thy ===== *)
theory DockerWitness
  imports DockerSafety
begin

section \<open>The mounts of a stage\<close>

text \<open>One materialized repository with a writable directory and repository control.\<close>

definition sample_context :: stage_context where
  "sample_context = \<lparr>cx_repos = [\<lparr>rm_type = ''component'', rm_path = ''/r''\<rparr>],
     cx_writable = [\<lparr>ws_root = ''/r'', ws_patterns = [''docs/**''], ws_allow_all = False\<rparr>],
     cx_repo_control = [''/r''], cx_work_order_repo = ''/j''\<rparr>"

definition sample_docker :: "unit docker_env" where
  "sample_docker = \<lparr>de_data_dir = ''/d'', de_cwd = ''/'', de_read_context = (\<lambda>_. m_ret sample_context),
     de_stat = (\<lambda>_ s. (Stat_found, s)), de_mkdir_all = (\<lambda>_. m_ret ()), de_docker = (\<lambda>_. m_ret ()),
     de_output = (\<lambda>_ s. ((None, []), s)), de_string_list = (\<lambda>_. Inl [])\<rparr>"

definition sample_stage :: stage_spec where
  "sample_stage = zero_stage_spec\<lparr>ss_name := ''s''\<rparr>"

lemma sample_mounts: "mounts sample_docker sample_stage ''x'' () =
  (Inr [''/d/workspaces/x/s:/workspace'', ''/j:/j:ro'', ''/r:/r:ro'', ''/r/docs:/r/docs'', ''/r/.git:/r/.git''], ())"
  by code_simp

lemma sample_context_plain: "plain_context sample_context"
  unfolding plain_context_def by code_simp


end
