(* ===== verification/HttpViews.thy ===== *)
theory HttpViews
  imports ControlPlane Resolver
begin

section \<open>What the HTTP interface shows (internal/httpapi/server.go)\<close>

text \<open>
  The summaries that the endpoints return, as records where the source builds a \<open>map[string]any\<close>
  with fixed keys.  Sorting by time is stable here; the source leaves the order of equal times open.
  \<open>parse\<close> is \<open>time.Parse\<close> for RFC 3339.
\<close>

record run_summary =
  su_id :: string
  su_issue_id :: string
  su_work_order_id :: string
  su_work_order_name :: string
  su_issue_type :: string
  su_pipeline_family :: "json option"
  su_status :: string
  su_updated_at :: time
  su_created_at :: time
  su_metadata :: "jmap option"
  su_attempts :: "stage_attempt list"
  su_current_stage :: string
  su_stats :: run_stats

record issue_entry =
  ie_id :: string
  ie_title :: string
  ie_issue_type :: string
  ie_labels :: "string list"
  ie_updated_at :: time
  ie_approval :: approval_gate
  ie_latest_run :: "run_summary option"

record work_order_entry =
  we_id :: string
  we_issue_type :: string
  we_requested_outcome :: string
  we_pipeline_family :: "json option"
  we_run_ids :: "string list"
  we_statuses :: "string list"
  we_active_runs :: int
  we_latest_updated :: time

record board_run =
  br_run_id :: string
  br_work_order_id :: string
  br_issue_type :: string
  br_status :: string
  br_current_stage :: string
  br_updated_at :: time

record board_entry =
  be_pipeline_family :: string
  be_runs :: "board_run list"
  be_active_runs :: int

record dashboard =
  da_generated_at :: time
  da_issues :: "issue_entry list"
  da_runs :: "run_summary list"
  da_work_orders :: "work_order_entry list"
  da_pipeline_board :: "board_entry list"

record stage_entry =
  se_name :: string
  se_queue_mode :: string
  se_environment :: string
  se_dependencies :: "string list"
  se_run_as :: execution_identity
  se_write_as :: execution_identity
  se_materialize :: "string list"
  se_entrypoint :: "string list"
  se_report_stages :: "string list"
  se_success_criteria :: stage_success_criteria
  se_summary :: string

subsection \<open>Runs\<close>

definition stage_time :: "(string \<Rightarrow> time option) \<Rightarrow> jmap \<Rightarrow> time option" where
  "stage_time parse payload =
     (case gm_get payload ''updated_at'' of
        Some (JStr s) \<Rightarrow> parse s
      | Some (JTime t) \<Rightarrow> Some t
      | _ \<Rightarrow> None)"

fun current_stage_of :: "(string \<Rightarrow> time option) \<Rightarrow> jmap \<Rightarrow> time \<Rightarrow> string \<Rightarrow> string" where
  "current_stage_of parse [] latest current = current"
| "current_stage_of parse ((stage, raw) # rest) latest current =
     (let payload = (case as_obj raw of None \<Rightarrow> [] | Some m \<Rightarrow> m)
      in if jget_str payload ''status'' = AttemptStatusRunning then stage
         else (case stage_time parse payload of
             Some ts \<Rightarrow> if latest < ts then current_stage_of parse rest ts stage
               else current_stage_of parse rest latest current
           | None \<Rightarrow> current_stage_of parse rest latest current))"

definition detect_current_stage :: "(string \<Rightarrow> time option) \<Rightarrow> jmap option \<Rightarrow> string" where
  "detect_current_stage parse metadata =
     current_stage_of parse (case meta_obj metadata ''current_stage_states'' of None \<Rightarrow> [] | Some m \<Rightarrow> m) 0 []"

text \<open>Latest start first, attempts that have not started last.\<close>

definition sort_attempts :: "stage_attempt list \<Rightarrow> stage_attempt list" where
  "sort_attempts as =
     sort_key (\<lambda>a. case att_started_at a of Some t \<Rightarrow> - t | None \<Rightarrow> 0) (filter (\<lambda>a. att_started_at a \<noteq> None) as) @
     filter (\<lambda>a. att_started_at a = None) as"

definition summarize_run :: "(string \<Rightarrow> time option) \<Rightarrow> persisted_state \<Rightarrow> run_request \<Rightarrow> run_summary" where
  "summarize_run parse s run =
     \<lparr>su_id = run_id run, su_issue_id = run_issue_id run, su_work_order_id = wo_id (run_work_order run),
      su_work_order_name = wo_requested_outcome (run_work_order run),
      su_issue_type = wo_issue_type (run_work_order run),
      su_pipeline_family = meta_get (run_metadata run) ''pipeline_family'', su_status = run_status run,
      su_updated_at = run_updated_at run, su_created_at = run_created_at run,
      su_metadata = run_metadata run,
      su_attempts = sort_attempts (filter (\<lambda>a. att_run_id a = run_id run) (map snd (ps_attempts s))),
      su_current_stage = detect_current_stage parse (run_metadata run), su_stats = run_stats_of run\<rparr>"

definition latest_first :: "run_request list \<Rightarrow> run_request list" where
  "latest_first runs = sort_key (\<lambda>r. - run_updated_at r) runs"

definition active_status :: "string \<Rightarrow> bool" where
  "active_status status \<longleftrightarrow> status = RunStatusActive \<or> status = RunStatusAwaitingApproval"

subsection \<open>Work orders and the pipeline board\<close>

definition new_work_order :: "run_request \<Rightarrow> work_order_entry" where
  "new_work_order run =
     \<lparr>we_id = wo_id (run_work_order run), we_issue_type = wo_issue_type (run_work_order run),
      we_requested_outcome = wo_requested_outcome (run_work_order run),
      we_pipeline_family = meta_get (run_metadata run) ''pipeline_family'', we_run_ids = [],
      we_statuses = [], we_active_runs = 0, we_latest_updated = run_updated_at run\<rparr>"

definition count_run :: "run_request \<Rightarrow> work_order_entry gomap \<Rightarrow> work_order_entry gomap" where
  "count_run run rows =
     (let wid = wo_id (run_work_order run)
      in if trim_space wid = [] then rows
         else let e = gm_get_or (new_work_order run) rows wid
              in gm_put wid (e\<lparr>we_run_ids := we_run_ids e @ [run_id run],
                   we_statuses := we_statuses e @ [run_status run],
                   we_active_runs := (if active_status (run_status run) then we_active_runs e + 1 else we_active_runs e),
                   we_latest_updated := max (we_latest_updated e) (run_updated_at run)\<rparr>) rows)"

definition summarize_work_orders :: "run_request list \<Rightarrow> work_order_entry list" where
  "summarize_work_orders runs =
     sort_key (\<lambda>e. - we_latest_updated e) (map snd (fold count_run runs []))"

definition board_row :: "run_summary \<Rightarrow> board_run" where
  "board_row r = \<lparr>br_run_id = su_id r, br_work_order_id = su_work_order_id r, br_issue_type = su_issue_type r,
     br_status = su_status r, br_current_stage = su_current_stage r, br_updated_at = su_updated_at r\<rparr>"

definition board_family :: "run_summary \<Rightarrow> string" where
  "board_family r =
     (let family = (case Option.bind (su_pipeline_family r) as_str of None \<Rightarrow> [] | Some f \<Rightarrow> f)
      in if trim_space family = [] then ''unassigned'' else family)"

definition count_board :: "run_summary \<Rightarrow> board_entry gomap \<Rightarrow> board_entry gomap" where
  "count_board r rows =
     (let family = board_family r;
          e = gm_get_or \<lparr>be_pipeline_family = family, be_runs = [], be_active_runs = 0\<rparr> rows family
      in gm_put family (e\<lparr>be_runs := be_runs e @ [board_row r],
           be_active_runs := (if active_status (su_status r) then be_active_runs e + 1 else be_active_runs e)\<rparr>) rows)"

definition summarize_pipeline_board :: "run_summary list \<Rightarrow> board_entry list" where
  "summarize_pipeline_board summaries =
     sort_key be_pipeline_family
       (map (\<lambda>(_, e). e\<lparr>be_runs := sort_key (\<lambda>r. - br_updated_at r) (be_runs e)\<rparr>) (fold count_board summaries []))"

subsection \<open>The dashboard\<close>

definition issue_row :: "(string \<Rightarrow> time option) \<Rightarrow> persisted_state \<Rightarrow> tracked_issue \<Rightarrow> issue_entry" where
  "issue_row parse s t =
     (let i = ti_issue t
      in \<lparr>ie_id = di_id i, ie_title = di_title i, ie_issue_type = wo_issue_type (di_work_order i),
          ie_labels = di_labels i, ie_updated_at = di_updated_at i, ie_approval = di_approval i,
          ie_latest_run = map_option (summarize_run parse s) (latest_run_for_issue s (di_id i))\<rparr>)"

definition build_dashboard :: "(string \<Rightarrow> time option) \<Rightarrow> time \<Rightarrow> persisted_state \<Rightarrow> dashboard" where
  "build_dashboard parse now s =
     (let runs = latest_first (map snd (ps_runs s)); summaries = map (summarize_run parse s) runs
      in \<lparr>da_generated_at = now,
          da_issues = sort_key (\<lambda>e. - ie_updated_at e) (map (issue_row parse s) (map snd (ps_issues s))),
          da_runs = summaries, da_work_orders = summarize_work_orders runs,
          da_pipeline_board = summarize_pipeline_board summaries\<rparr>)"

subsection \<open>Catalogs\<close>

definition summarize_stage_catalog :: "stage_spec list \<Rightarrow> stage_entry list" where
  "summarize_stage_catalog specs =
     sort_key se_name (map (\<lambda>s.
       \<lparr>se_name = ss_name s, se_queue_mode = sr_queue_mode (ss_runtime s),
        se_environment = sr_environment (ss_runtime s), se_dependencies = ss_dependencies s,
        se_run_as = run_as_identity s, se_write_as = write_as_identity s,
        se_materialize = sc_materialize (container_config s), se_entrypoint = ss_entrypoint s,
        se_report_stages = sr_report_stages (ss_runtime s),
        se_success_criteria = sr_success_criteria (ss_runtime s), se_summary = sr_summary (ss_runtime s)\<rparr>) specs)"

text \<open>The rows of one section of the catalog: the name and the listed keys of each entry.\<close>

definition catalog_rows :: "string list \<Rightarrow> jmap \<Rightarrow> string \<Rightarrow> json" where
  "catalog_rows keys raw section =
     (case jget_obj raw section of
        None \<Rightarrow> JArr []
      | Some entries \<Rightarrow> JArr (map (\<lambda>(name, v).
          let entry = (case as_obj v of None \<Rightarrow> [] | Some m \<Rightarrow> m)
          in JObj ((''name'', JStr name) #
               map (\<lambda>f. (f, case gm_get entry f of None \<Rightarrow> JNull | Some x \<Rightarrow> x)) keys))
          (sort_key fst entries)))"

definition summarize_pipeline_catalog :: "jmap option \<Rightarrow> json" where
  "summarize_pipeline_catalog raw =
     (let m = (case raw of None \<Rightarrow> [] | Some m \<Rightarrow> m)
      in JObj [(''issue_types'', catalog_rows [''family'', ''preferred_pipeline'', ''optimization_goals''] m ''issue_types''),
        (''pipelines'', catalog_rows [''family'', ''accepted_issue_types'', ''testing_policy'',
           ''optimization_goals'', ''summary''] m ''pipelines''),
        (''testing'', catalog_rows [''strategy'', ''immutable'', ''readable_by_agent'', ''executable_by_agent'',
           ''inspection_points''] m ''testing_policies'')])"

end
