(* ===== verification/Materialize.thy ===== *)
theory Materialize
  imports Docker
begin

section \<open>Materializing the pipeline plan (internal/runner/materialize.go)\<close>

text \<open>
  The plan stage run outside any attempt, to produce the pipeline artifacts of a run: the context file
  is written, the container is run, and its result file is read.  Reading and writing checked JSON
  files and decoding the operation configuration are parameters.
\<close>

text \<open>What the context file of a materialization holds.\<close>

record plan_context =
  px_spec :: stage_spec
  px_operation_plan :: "operation_step list"
  px_run :: run_request
  px_issue :: delivery_issue
  px_stage_catalog :: "stage_spec list"
  px_pipeline_catalog :: "jmap option"
  px_runtime_images :: "runtime_image gomap"
  px_workspace :: string
  px_work_order_repo :: string
  px_artifact_dir :: string

record 'x plan_env =
  pe_docker :: "'x docker_env"
  pe_work_order_repo :: string
  pe_decode_steps :: "jmap \<Rightarrow> string + operation_step list"
  pe_write_context :: "string \<Rightarrow> plan_context \<Rightarrow> ('x, unit) go"
  pe_read_outputs :: "string \<Rightarrow> ('x, jmap option) go"

definition spec_map :: "stage_spec list \<Rightarrow> stage_spec gomap" where
  "spec_map specs = fold (\<lambda>s m. gm_put (ss_name s) s m) specs []"

definition orchestration_plan ::
  "(jmap \<Rightarrow> string + operation_step list) \<Rightarrow> stage_spec \<Rightarrow> string + operation_step list" where
  "orchestration_plan decode s =
     (if trim_space (ss_operation s) \<noteq> ''orchestrate''
      then Inl (''stage '' @ ss_name s @ '' does not declare orchestrated execution'')
      else case ss_operation_config s of
          None \<Rightarrow> Inr []
        | Some [] \<Rightarrow> Inr []
        | Some m \<Rightarrow> decode m)"

definition materialize_pipeline_artifacts ::
  "'x plan_env \<Rightarrow> stage_spec list \<Rightarrow> jmap option \<Rightarrow> run_request \<Rightarrow> delivery_issue \<Rightarrow> ('x, jmap option) go" where
  "materialize_pipeline_artifacts env specs catalog run issue =
     (case gm_get (spec_map specs) ''plan'' of
        None \<Rightarrow> m_err ''plan stage spec is required for materialization''
      | Some plan \<Rightarrow>
          m_bind (m_lift (orchestration_plan (pe_decode_steps env) plan)) (\<lambda>steps.
            let dk = pe_docker env;
                workspace = path_join [de_data_dir dk, ''workspaces'', run_id run, ss_name plan]
            in m_then (de_mkdir_all dk workspace)
              (m_bind (resolve_runtime_images dk (map ss_name specs)) (\<lambda>images.
                 m_then (pe_write_context env (path_join [workspace, ''context.json''])
                     \<lparr>px_spec = plan, px_operation_plan = steps, px_run = run, px_issue = issue,
                      px_stage_catalog = specs, px_pipeline_catalog = catalog, px_runtime_images = images,
                      px_workspace = workspace, px_work_order_repo = pe_work_order_repo env,
                      px_artifact_dir = path_join [de_data_dir dk, ''artifacts'']\<rparr>)
                 (case gm_get images (ss_name plan) of
                    None \<Rightarrow> m_err (''runtime image missing for stage '' @ ss_name plan)
                  | Some im \<Rightarrow>
                      m_then (m_wrap ''materialize pipeline plan via stage runtime'' (docker_run dk plan (run_id run) im))
                        (pe_read_outputs env (path_join [workspace, ''result.json''])))))))"

end
