(* ===== verification/Http.thy ===== *)
theory Http
  imports HttpViews Materialize
begin

section \<open>The HTTP interface of the control plane (internal/httpapi/server.go)\<close>

text \<open>
  The server is a function from a request and a world to a response and a world; it has no answer
  only when the projection of a goal does not return within the fuel.  A response carries the value
  that \<open>writeJSON\<close> encodes.  Decoding request bodies, validating against a JSON schema, reading
  files, parsing times and the embedded user interface are fields of the environment.
\<close>

subsection \<open>Requests and responses\<close>

record http_request =
  hr_method :: string
  hr_path :: string
  hr_goal :: string
  hr_body :: string

datatype payload =
    Body_none
  | Body_text string
  | Body_location string
  | Body_done
  | Body_state persisted_state
  | Body_claim stage_attempt stage_spec
  | Body_dashboard dashboard
  | Body_issues "issue_entry list"
  | Body_issue tracked_issue
  | Body_imported string string
  | Body_materialized string string jmap
  | Body_work_orders "work_order_entry list"
  | Body_work_order work_order_entry "run_summary list"
  | Body_pipelines time json "stage_entry list"
  | Body_catalog json
  | Body_stages "stage_entry list"
  | Body_runs "run_summary list" "board_entry list"
  | Body_run run_summary
  | Body_document "jmap option"
  | Body_projection graph_projection
  | Body_asset string

record response =
  rp_status :: int
  rp_body :: payload

text \<open>
  \<open>hd_\<close>: the decoder of the body of a request, with the message of its error.  \<open>he_validate\<close> is
  \<open>contracts.Validate\<close> for the issue schema and \<open>he_read_contract\<close> is \<open>contracts.ReadFile\<close> without
  a schema.
\<close>

record 'x http_env =
  he_service :: "'x service"
  he_gitlab_dir :: string
  he_work_order_repo :: string
  he_local_import :: bool
  he_specs :: "stage_spec list"
  he_catalog :: "jmap option"
  he_plan :: "'x plan_env"
  he_resolver :: "'x resolver"
  he_fuel :: nat
  he_read_file :: "string \<Rightarrow> ('x, string) go"
  he_read_contract :: "string \<Rightarrow> ('x, jmap option) go"
  he_parse_time :: "string \<Rightarrow> time option"
  he_asset :: "string \<Rightarrow> string option"
  he_validate :: "string \<Rightarrow> string + unit"
  hd_claim :: "string \<Rightarrow> string + string \<times> int \<times> string list"
  hd_beat :: "string \<Rightarrow> string + int \<times> string \<times> jmap"
  hd_complete :: "string \<Rightarrow> string + stage_result \<times> artifact_ref list"
  hd_raw :: "string \<Rightarrow> string + string"
  hd_issue :: "string \<Rightarrow> string + delivery_issue"

type_synonym 'x exchange = "'x world \<Rightarrow> (response \<times> 'x world) option"
type_synonym 'x http_handler = "'x http_env \<Rightarrow> http_request \<Rightarrow> 'x exchange"

definition http_error :: "string \<Rightarrow> int \<Rightarrow> response" where
  "http_error msg code = \<lparr>rp_status = code, rp_body = Body_text (msg @ [CHR 0x0A])\<rparr>"

definition not_found :: response where
  "not_found = http_error ''404 page not found'' 404"

definition method_not_allowed :: response where
  "method_not_allowed = http_error ''method not allowed'' 405"

definition write_json :: "payload \<Rightarrow> response" where
  "write_json body = \<lparr>rp_status = 200, rp_body = body\<rparr>"

text \<open>A handler that panics: the connection is closed without a response.\<close>

definition aborted :: response where
  "aborted = \<lparr>rp_status = 0, rp_body = Body_none\<rparr>"

definition reply :: "response \<Rightarrow> 'x exchange" where
  "reply r w = Some (r, w)"

text \<open>A call whose error is answered with the status \<open>code\<close>.\<close>

definition answer :: "int \<Rightarrow> ('a \<Rightarrow> response) \<Rightarrow> ('x world, 'a) go \<Rightarrow> 'x exchange" where
  "answer code f m w =
     (case m w of (Inl e, w') \<Rightarrow> Some (http_error e code, w') | (Inr x, w') \<Rightarrow> Some (f x, w'))"

definition only_post :: "http_request \<Rightarrow> 'x exchange \<Rightarrow> 'x exchange" where
  "only_post req h = (if hr_method req \<noteq> ''POST'' then reply method_not_allowed else h)"

definition decoding :: "string + 'a \<Rightarrow> ('a \<Rightarrow> 'x exchange) \<Rightarrow> 'x exchange" where
  "decoding d k = (case d of Inl e \<Rightarrow> reply (http_error e 400) | Inr v \<Rightarrow> k v)"

definition ok_json :: "unit \<Rightarrow> response" where
  "ok_json = (\<lambda>_. write_json Body_done)"

text \<open>\<open>time.Duration(n) * time.Second\<close>, in 64 bits.\<close>

definition seconds :: "int \<Rightarrow> int" where
  "seconds n = signed_take_bit 63 (n * 1000000000)"

subsection \<open>Operations\<close>

definition handle_enqueue :: "'x http_handler" where
  "handle_enqueue env req = only_post req (answer 500 ok_json (enqueue_from_gitlab (he_service env)))"

definition handle_reconcile :: "'x http_handler" where
  "handle_reconcile env req = only_post req (answer 500 ok_json (reconcile (he_service env) []))"

definition handle_recover :: "'x http_handler" where
  "handle_recover env req =
     only_post req (answer 500 ok_json (recover_stuck_runs (he_service env) (seconds 30)))"

definition handle_snapshot :: "'x http_handler" where
  "handle_snapshot env req = answer 500 (\<lambda>s. write_json (Body_state s)) (snapshot (he_service env))"

definition handle_claim :: "'x http_handler" where
  "handle_claim env req = only_post req (decoding (hd_claim env (hr_body req)) (\<lambda>(worker, lease, allowed).
     answer 500 (\<lambda>c. case c of
         None \<Rightarrow> \<lparr>rp_status = 204, rp_body = Body_none\<rparr>
       | Some (a, spec) \<Rightarrow> write_json (Body_claim a spec))
       (claim_next (he_service env) worker (seconds lease) allowed [])))"

definition attempt_action :: "'x http_env \<Rightarrow> http_request \<Rightarrow> string \<Rightarrow> string \<Rightarrow> 'x exchange" where
  "attempt_action env req attempt_id action =
     (if action = ''heartbeat'' then decoding (hd_beat env (hr_body req)) (\<lambda>(lease, summary, md).
         answer 500 ok_json (heartbeat (he_service env) attempt_id (seconds lease) summary md))
      else if action = ''complete'' then decoding (hd_complete env (hr_body req)) (\<lambda>(result, artifacts).
         answer 500 ok_json (complete (he_service env) attempt_id result artifacts))
      else reply not_found)"

definition handle_attempt_actions :: "'x http_handler" where
  "handle_attempt_actions env req =
     (case split_on CHR ''/'' (trim_prefix (hr_path req) ''/attempts/'') of
        [attempt_id, action] \<Rightarrow> attempt_action env req attempt_id action
      | _ \<Rightarrow> reply not_found)"

subsection \<open>Views\<close>

definition view :: "'x http_env \<Rightarrow> (persisted_state \<Rightarrow> response) \<Rightarrow> 'x exchange" where
  "view env f = answer 500 f (snapshot (he_service env))"

definition dashboard_of :: "'x http_env \<Rightarrow> ('x world, dashboard) go" where
  "dashboard_of env = m_bind (snapshot (he_service env)) (\<lambda>s.
     m_bind (ask_ext (sv_now (he_service env))) (\<lambda>now. m_ret (build_dashboard (he_parse_time env) now s)))"

definition handle_dashboard :: "'x http_handler" where
  "handle_dashboard env req = answer 500 (\<lambda>d. write_json (Body_dashboard d)) (dashboard_of env)"

definition handle_pipelines :: "'x http_handler" where
  "handle_pipelines env req = answer 500 (\<lambda>now. write_json (Body_pipelines now
      (summarize_pipeline_catalog (he_catalog env)) (summarize_stage_catalog (he_specs env))))
     (ask_ext (sv_now (he_service env)))"

definition handle_v1_overview :: "'x http_handler" where
  "handle_v1_overview env req = answer 500 (\<lambda>d. write_json (Body_dashboard d)) (dashboard_of env)"

definition handle_v1_work_orders :: "'x http_handler" where
  "handle_v1_work_orders env req = view env (\<lambda>s.
     write_json (Body_work_orders (summarize_work_orders (latest_first (map snd (ps_runs s))))))"

definition work_order_view :: "'x http_env \<Rightarrow> string \<Rightarrow> persisted_state \<Rightarrow> response" where
  "work_order_view env wid s =
     (let runs = filter (\<lambda>r. wo_id (run_work_order r) = wid) (map snd (ps_runs s))
      in if runs = [] then not_found
         else (case summarize_work_orders (latest_first runs) of
             [] \<Rightarrow> aborted
           | e # _ \<Rightarrow> write_json (Body_work_order e
               (map (summarize_run (he_parse_time env) s) (latest_first runs)))))"

definition handle_v1_work_order :: "'x http_handler" where
  "handle_v1_work_order env req =
     (let wid = trim_char CHR ''/'' (trim_prefix (hr_path req) ''/api/v1/work-orders/'')
      in if wid = [] then reply not_found else view env (work_order_view env wid))"

definition handle_v1_pipelines :: "'x http_handler" where
  "handle_v1_pipelines env req = reply (write_json (Body_catalog (summarize_pipeline_catalog (he_catalog env))))"

definition handle_v1_stages :: "'x http_handler" where
  "handle_v1_stages env req = reply (write_json (Body_stages (summarize_stage_catalog (he_specs env))))"

definition handle_v1_runs :: "'x http_handler" where
  "handle_v1_runs env req = view env (\<lambda>s.
     (let summaries = map (summarize_run (he_parse_time env) s) (latest_first (map snd (ps_runs s)))
      in write_json (Body_runs summaries (summarize_pipeline_board summaries))))"

subsection \<open>Files of a run\<close>

text \<open>\<open>json.Unmarshal\<close> into a \<open>map[string]any\<close>.\<close>

definition decode_map :: "'x http_env \<Rightarrow> string \<Rightarrow> string + jmap option" where
  "decode_map env data =
     (case sv_decode (he_service env) data of
        Inl e \<Rightarrow> Inl e
      | Inr JNull \<Rightarrow> Inr None
      | Inr (JObj m) \<Rightarrow> Inr (Some m)
      | Inr _ \<Rightarrow> Inl ''json: cannot unmarshal into Go value of type map[string]interface {}'')"

definition find_run :: "'x http_env \<Rightarrow> string \<Rightarrow> ('x world, run_request) go" where
  "find_run env rid = m_bind (snapshot (he_service env)) (\<lambda>s.
     case gm_get (ps_runs s) rid of None \<Rightarrow> m_err (''run '' @ rid @ '' not found'') | Some run \<Rightarrow> m_ret run)"

definition run_file :: "'x http_env \<Rightarrow> run_request \<Rightarrow> string list \<Rightarrow> ('x world, jmap option) go" where
  "run_file env run rest =
     m_bind (on_ext (he_read_file env (path_join ([he_work_order_repo env, ''work-orders'',
         sanitize_path_segment (wo_id (run_work_order run)), ''runs'', sanitize_path_segment (run_id run)] @ rest))))
       (\<lambda>data. m_lift (decode_map env data))"

definition read_run_index :: "'x http_env \<Rightarrow> string \<Rightarrow> ('x world, jmap option) go" where
  "read_run_index env rid = m_bind (find_run env rid) (\<lambda>run. run_file env run [''index.json''])"

definition read_pipeline_artifact :: "'x http_env \<Rightarrow> string \<Rightarrow> string \<Rightarrow> ('x world, jmap option) go" where
  "read_pipeline_artifact env rid artifact = m_bind (find_run env rid) (\<lambda>run.
     if artifact \<notin> set [''pipeline_intent'', ''policy_evaluation'', ''pipeline_build_plan'', ''pipeline_execution_plan'']
     then m_err (''unknown pipeline artifact '' @ artifact)
     else run_file env run [''pipeline'', artifact @ ''.json''])"

text \<open>\<open>Reader.readJSON\<close> of internal/workorder: the file must exist before it is read.\<close>

definition read_journal :: "'x http_env \<Rightarrow> string \<Rightarrow> ('x world, jmap option) go" where
  "read_journal env path = m_bind (ask_ext (sv_stat (he_service env) path)) (\<lambda>st.
     case st of
       Stat_found \<Rightarrow> on_ext (he_read_contract env path)
     | Stat_missing \<Rightarrow> m_err (''read journal file '' @ path @ '': file does not exist'')
     | Stat_error e \<Rightarrow> m_err (''read journal file '' @ path @ '': '' @ e))"

definition listing :: "dir_listing \<Rightarrow> string + (string \<times> bool) list" where
  "listing d = (case d of Dir_entries es \<Rightarrow> Inr es | Dir_missing \<Rightarrow> Inl ''file does not exist'' | Dir_error e \<Rightarrow> Inl e)"

definition read_latest_stage_report :: "'x http_env \<Rightarrow> string \<Rightarrow> string \<Rightarrow> ('x world, jmap option) go" where
  "read_latest_stage_report env rid stage = m_bind (find_run env rid) (\<lambda>run.
     let repo = he_work_order_repo env
     in m_bind (read_dir (he_service env) (path_join [repo, run_relative_dir run, ''stages'', stage])) (\<lambda>d.
        m_bind (m_lift (latest_attempt repo run stage (\<lambda>_. listing d))) (\<lambda>a.
          read_journal env (report_path repo run a))))"

definition document :: "('x world, jmap option) go \<Rightarrow> 'x exchange" where
  "document m = answer 404 (\<lambda>d. write_json (Body_document d)) m"

definition handle_run_actions :: "'x http_handler" where
  "handle_run_actions env req =
     (case split_on CHR ''/'' (trim_char CHR ''/'' (trim_prefix (hr_path req) ''/api/runs/'')) of
        rid # action # rest \<Rightarrow>
          (if action = ''index'' then document (read_run_index env rid)
           else if action = ''pipeline'' then
             (case rest of [artifact] \<Rightarrow> document (read_pipeline_artifact env rid artifact) | _ \<Rightarrow> reply not_found)
           else if action = ''stages'' then
             (case rest of
                [stage, kind] \<Rightarrow> if kind \<noteq> ''report'' then reply not_found
                  else document (read_latest_stage_report env rid stage)
              | _ \<Rightarrow> reply not_found)
           else reply not_found)
      | _ \<Rightarrow> reply not_found)"

definition handle_v1_run_actions :: "'x http_handler" where
  "handle_v1_run_actions env req =
     (let parts = split_on CHR ''/'' (trim_char CHR ''/'' (trim_prefix (hr_path req) ''/api/v1/runs/''))
      in if length parts = 1 \<and> hr_method req = ''GET'' then view env (\<lambda>s.
           case gm_get (ps_runs s) (hd parts) of
             None \<Rightarrow> not_found
           | Some run \<Rightarrow> write_json (Body_run (summarize_run (he_parse_time env) s run)))
         else if length parts \<ge> 2 then
           handle_run_actions env (req\<lparr>hr_path := ''/api/runs/'' @ join_with ''/'' parts\<rparr>)
         else reply not_found)"

subsection \<open>Issues\<close>

definition handle_issue_import :: "'x http_handler" where
  "handle_issue_import env req = only_post req
     (if \<not> he_local_import env then
        reply (http_error ''local issue import is only available with the filesystem GitLab adapter'' 400)
      else if trim_space (he_gitlab_dir env) = [] then
        reply (http_error ''local issue import requires runtime gitlab dir'' 400)
      else decoding (hd_raw env (hr_body req)) (\<lambda>raw. decoding (he_validate env raw) (\<lambda>_.
        decoding (hd_issue env raw) (\<lambda>issue.
          if di_id issue = [] then reply (http_error ''issue id is required'' 400)
          else
            (let dir = path_join [he_gitlab_dir env, ''issues'']; path = path_join [dir, di_id issue @ ''.json'']
             in answer 500 (\<lambda>_. write_json (Body_imported (di_id issue) path))
               (m_then (on_ext (sv_mkdir_all (he_service env) dir))
                 (m_then (on_ext (sv_write_text (he_service env) path raw))
                    (enqueue_from_gitlab (he_service env)))))))))"

definition materialize_issue :: "'x http_env \<Rightarrow> string \<Rightarrow> ('x world, run_request \<times> jmap) go" where
  "materialize_issue env issue_id =
     (let sv = he_service env
      in m_then (enqueue_from_gitlab sv) (m_bind (snapshot sv) (\<lambda>s.
           case gm_get (ps_issues s) issue_id of
             None \<Rightarrow> m_err (''issue '' @ issue_id @ '' not found'')
           | Some tracked \<Rightarrow>
               m_bind (ensure_run_for_issue sv issue_id) (\<lambda>run.
               m_bind (on_ext (materialize_pipeline_artifacts (he_plan env) (he_specs env) (he_catalog env) run
                   (ti_issue tracked))) (\<lambda>made.
                 (let outputs = (case made of None \<Rightarrow> [] | Some m \<Rightarrow> m)
                  in m_bind (persist_pipeline_artifacts sv (run_id run) outputs) (\<lambda>run'.
                       m_ret (run', outputs))))))))"

definition issue_action :: "'x http_env \<Rightarrow> http_request \<Rightarrow> string \<Rightarrow> string \<Rightarrow> 'x exchange" where
  "issue_action env req issue_id action =
     (if action = ''materialize'' then only_post req
        (answer 400 (\<lambda>(run, outputs). write_json (Body_materialized issue_id (run_id run) outputs))
           (materialize_issue env issue_id))
      else if action = ''reconcile'' then only_post req
        (answer 500 ok_json (reconcile (he_service env) issue_id))
      else reply not_found)"

definition handle_issue_actions :: "'x http_handler" where
  "handle_issue_actions env req =
     (case split_on CHR ''/'' (trim_char CHR ''/'' (trim_prefix (hr_path req) ''/api/issues/'')) of
        [issue_id, action] \<Rightarrow> issue_action env req issue_id action
      | _ \<Rightarrow> reply not_found)"

definition handle_v1_issues :: "'x http_handler" where
  "handle_v1_issues env req =
     (if hr_method req = ''GET'' then answer 500 (\<lambda>d. write_json (Body_issues (da_issues d))) (dashboard_of env)
      else if hr_method req = ''POST'' then handle_issue_import env req
      else reply method_not_allowed)"

definition handle_v1_issue_actions :: "'x http_handler" where
  "handle_v1_issue_actions env req =
     (let parts = split_on CHR ''/'' (trim_char CHR ''/'' (trim_prefix (hr_path req) ''/api/v1/issues/''))
      in if length parts = 1 \<and> hr_method req = ''GET'' then view env (\<lambda>s.
           case gm_get (ps_issues s) (hd parts) of
             None \<Rightarrow> not_found
           | Some t \<Rightarrow> write_json (Body_issue t))
         else if length parts = 2 then
           handle_issue_actions env (req\<lparr>hr_path := ''/api/issues/'' @ join_with ''/'' parts\<rparr>)
         else reply not_found)"

subsection \<open>The projection of a goal\<close>

definition projection_goal :: "string \<Rightarrow> goal" where
  "projection_goal name =
     \<lparr>gl_contract = \<lparr>ct_name = name, ct_version = ''1.0''\<rparr>, gl_input = ''SHA-INITIAL''\<rparr>"

definition handle_projection :: "'x http_handler" where
  "handle_projection env req w =
     (if hr_goal req = [] then reply (http_error ''missing goal parameter'' 400) w
      else (case project_current_state (he_fuel env) (he_resolver env) (projection_goal (hr_goal req)) (w_ext w) of
          None \<Rightarrow> None
        | Some (G, x) \<Rightarrow> Some (write_json (Body_projection G), w\<lparr>w_ext := x\<rparr>)))"

subsection \<open>The user interface\<close>

definition handle_ui :: "'x http_handler" where
  "handle_ui env req =
     (if hr_path req \<noteq> ''/'' then reply not_found
      else reply \<lparr>rp_status = 302, rp_body = Body_location ''/assets/index.html''\<rparr>)"

definition handle_assets :: "'x http_handler" where
  "handle_assets env req =
     (case he_asset env (trim_prefix (hr_path req) ''/assets/'') of
        None \<Rightarrow> reply not_found
      | Some data \<Rightarrow> reply (write_json (Body_asset data)))"

subsection \<open>Routing\<close>

definition routes :: "(string \<times> 'x http_handler) list" where
  "routes =
     [(''/api/v1/projection'', handle_projection), (''/assets/'', handle_assets), (''/'', handle_ui),
      (''/enqueue'', handle_enqueue), (''/reconcile'', handle_reconcile), (''/recover'', handle_recover),
      (''/snapshot'', handle_snapshot), (''/attempts/claim'', handle_claim),
      (''/attempts/'', handle_attempt_actions), (''/api/dashboard'', handle_dashboard),
      (''/api/issues/import'', handle_issue_import), (''/api/issues/'', handle_issue_actions),
      (''/api/runs/'', handle_run_actions), (''/api/pipelines'', handle_pipelines),
      (''/api/v1/overview'', handle_v1_overview), (''/api/v1/issues'', handle_v1_issues),
      (''/api/v1/issues/'', handle_v1_issue_actions), (''/api/v1/work-orders'', handle_v1_work_orders),
      (''/api/v1/work-orders/'', handle_v1_work_order), (''/api/v1/pipelines'', handle_v1_pipelines),
      (''/api/v1/stages'', handle_v1_stages), (''/api/v1/runs'', handle_v1_runs),
      (''/api/v1/runs/'', handle_v1_run_actions), (''/api/enqueue'', handle_enqueue),
      (''/api/reconcile'', handle_reconcile), (''/api/recover'', handle_recover),
      (''/api/snapshot'', handle_snapshot)]"

text \<open>
  The multiplexer of \<open>net/http\<close>: a pattern that ends in a slash matches everything below it, the
  longest matching pattern wins, a path is cleaned first, and a path whose only match is through the
  pattern with a slash appended, or that was not clean, is redirected.
\<close>

definition clean_url :: "string \<Rightarrow> string" where
  "clean_url path =
     (let p = (if path = [] then ''/'' else if hd path \<noteq> CHR ''/'' then CHR ''/'' # path else path);
          c = path_clean p
      in if last p = CHR ''/'' \<and> c \<noteq> ''/'' then c @ ''/'' else c)"

definition route_matches :: "string \<Rightarrow> string \<Rightarrow> bool" where
  "route_matches pattern path \<longleftrightarrow>
     pattern = path \<or> has_suffix pattern ''/'' \<and> has_prefix path pattern"

definition longer_route :: "string \<Rightarrow> string \<times> 'h \<Rightarrow> (string \<times> 'h) option \<Rightarrow> (string \<times> 'h) option" where
  "longer_route path r best =
     (if route_matches (fst r) path \<and> (case best of None \<Rightarrow> True | Some b \<Rightarrow> length (fst b) < length (fst r))
      then Some r else best)"

definition redirect_to :: "string \<Rightarrow> response" where
  "redirect_to path = \<lparr>rp_status = 301, rp_body = Body_location path\<rparr>"

definition handler :: "'x http_handler" where
  "handler env req =
     (let path = (if hr_method req = ''CONNECT'' then hr_path req else clean_url (hr_path req))
      in case fold (longer_route path) routes None of
           None \<Rightarrow> reply not_found
         | Some (pattern, h) \<Rightarrow>
             if pattern \<noteq> path \<and> \<not> has_suffix path ''/'' \<and> (path @ ''/'') \<in> set (map fst (routes :: (string \<times> 'x http_handler) list))
             then reply (redirect_to (path @ ''/''))
             else if path \<noteq> hr_path req then reply (redirect_to path)
             else h env req)"

end
