(* ===== verification/HttpProps.thy ===== *)
theory HttpProps
  imports Http ControlPlaneSafety
begin

section \<open>Properties of the HTTP interface\<close>

text \<open>
  Every exchange is a sequence of steps of the control plane, so its invariant and its history hold
  for a server; reading requests and refused requests leave the persisted state as it was; only the
  projection of a goal can fail to answer.
\<close>

subsection \<open>Handlers as sequences of steps\<close>

definition via :: "'x service \<Rightarrow> ('x world, 'a) go \<Rightarrow> bool" where
  "via sv m \<longleftrightarrow> (\<forall>w. rtranclp (cp_step sv) w (snd (m w)))"

lemma ext_world: "w_state w' = w_state w \<Longrightarrow> w' = (w :: 'x world)\<lparr>w_ext := w_ext w'\<rparr>"
  by simp

lemma same_state_step: "w_state w' = w_state w \<Longrightarrow> rtranclp (cp_step sv) w w'"
  using cp_step.outside [of sv w "w_ext w'"] ext_world [of w' w] by (metis r_into_rtranclp)

lemma via_ext: "ext_only m \<Longrightarrow> via sv m"
  by (simp add: via_def same_state_step ext_only_state)

lemma via_step: "(\<And>w. cp_step sv w (snd (m w))) \<Longrightarrow> via sv m"
  by (simp add: via_def r_into_rtranclp)

lemma via_bind:
  assumes "via sv m" and "\<And>x. via sv (f x)"
  shows "via sv (m_bind m f)"
proof -
  have "rtranclp (cp_step sv) w (snd (m_bind m f w))" for w
  proof (cases "m w")
    case (Pair r w1)
    then have m: "rtranclp (cp_step sv) w w1" using assms(1) unfolding via_def by (metis snd_conv)
    show ?thesis
    proof (cases r)
      case (Inl e)
      then show ?thesis using m Pair by (simp add: m_bind_def)
    next
      case (Inr x)
      have "rtranclp (cp_step sv) w1 (snd (f x w1))" using assms(2) [of x] by (simp add: via_def)
      then show ?thesis using rtranclp_trans [OF m] Pair Inr by (simp add: m_bind_def)
    qed
  qed
  then show ?thesis by (simp add: via_def)
qed

lemma via_then: "via sv m \<Longrightarrow> via sv n \<Longrightarrow> via sv (m_then m n)"
  unfolding m_then_def by (rule via_bind)

lemma ext_snapshot: "ext_only (snapshot sv)"
proof -
  have "ext_only get_state" by (auto simp: ext_only_def keeps_def hoare_def get_state_def m_gets_def)
  then show ?thesis unfolding snapshot_def by (intro ext_only_bind ext_only_on_ext)
qed

lemma ext_lift: "ext_only (m_lift r)"
  by (auto simp: ext_only_def keeps_def hoare_def m_lift_def split: sum.splits)

lemmas via_calls = via_step [OF cp_step.enqueue] via_step [OF cp_step.reconcile_all]
  via_step [OF cp_step.ensure_run] via_step [OF cp_step.persist_artifacts] via_step [OF cp_step.claim]
  via_step [OF cp_step.beat] via_step [OF cp_step.finish] via_step [OF cp_step.recover]

subsection \<open>Exchanges\<close>

text \<open>The statuses of a request that was not carried out.\<close>

definition refused :: "int \<Rightarrow> bool" where
  "refused code \<longleftrightarrow> code \<in> {301, 302, 404, 405}"

definition exchange_ok :: "'x service \<Rightarrow> bool \<Rightarrow> 'x exchange \<Rightarrow> bool" where
  "exchange_ok sv reads x \<longleftrightarrow> (\<forall>w. \<exists>r w'. x w = Some (r, w') \<and> rtranclp (cp_step sv) w w' \<and>
     (reads \<or> refused (rp_status r) \<longrightarrow> w_state w' = w_state w))"

lemma ok_reply: "exchange_ok sv reads (reply r)"
  by (simp add: exchange_ok_def reply_def)

lemma ok_read: "ext_only m \<Longrightarrow> exchange_ok sv reads (answer code f m)"
  unfolding exchange_ok_def
proof
  fix w assume "ext_only m"
  then have "w_state (snd (m w)) = w_state w" by (rule ext_only_state)
  then show "\<exists>r w'. answer code f m w = Some (r, w') \<and> rtranclp (cp_step sv) w w' \<and>
      (reads \<or> refused (rp_status r) \<longrightarrow> w_state w' = w_state w)"
    by (cases "m w"; cases "fst (m w)") (auto simp: answer_def intro: same_state_step)
qed

lemma ok_write:
  assumes "via sv m" and "\<not> refused code" and "\<And>x. \<not> refused (rp_status (f x))"
  shows "exchange_ok sv False (answer code f m)"
  unfolding exchange_ok_def
proof
  fix w
  have "rtranclp (cp_step sv) w (snd (m w))" using assms(1) by (simp add: via_def)
  then show "\<exists>r w'. answer code f m w = Some (r, w') \<and> rtranclp (cp_step sv) w w' \<and>
      (False \<or> refused (rp_status r) \<longrightarrow> w_state w' = w_state w)"
    using assms(2,3) by (cases "m w"; cases "fst (m w)") (auto simp: answer_def http_error_def)
qed

lemma ok_post:
  "(hr_method req = ''POST'' \<Longrightarrow> exchange_ok sv False h) \<Longrightarrow>
   exchange_ok sv (hr_method req \<noteq> ''POST'') (only_post req h)"
  by (auto simp: only_post_def ok_reply)

lemma ok_decoding: "(\<And>v. exchange_ok sv reads (k v)) \<Longrightarrow> exchange_ok sv reads (decoding d k)"
  by (cases d) (simp_all add: decoding_def ok_reply)

lemma ok_if: "exchange_ok sv reads x \<Longrightarrow> exchange_ok sv reads y \<Longrightarrow> exchange_ok sv reads (if b then x else y)"
  by simp

lemma not_refused: "\<not> refused 200" "\<not> refused 204" "\<not> refused 400" "\<not> refused 500"
  by (simp_all add: refused_def)

lemma ok_json_status: "\<not> refused (rp_status (ok_json u))" "\<not> refused (rp_status (write_json b))"
  by (simp_all add: ok_json_def write_json_def not_refused)

lemmas ok_rules = ok_reply ok_post ok_decoding ok_if not_refused ok_json_status via_calls

lemma ok_enqueue: "exchange_ok (he_service env) (hr_method req \<noteq> ''POST'') (handle_enqueue env req)"
  unfolding handle_enqueue_def by (intro ok_rules ok_write)

lemma ok_reconcile: "exchange_ok (he_service env) (hr_method req \<noteq> ''POST'') (handle_reconcile env req)"
  unfolding handle_reconcile_def by (intro ok_rules ok_write)

lemma ok_recover: "exchange_ok (he_service env) (hr_method req \<noteq> ''POST'') (handle_recover env req)"
  unfolding handle_recover_def by (intro ok_rules ok_write)

lemma ok_claim: "exchange_ok (he_service env) (hr_method req \<noteq> ''POST'') (handle_claim env req)"
proof -
  have s: "\<not> refused (rp_status (case c of None \<Rightarrow> \<lparr>rp_status = 204, rp_body = Body_none\<rparr>
       | Some (a, spec) \<Rightarrow> write_json (Body_claim a spec)))" for c
    by (auto simp: ok_json_status not_refused split: option.splits)
  have "exchange_ok (he_service env) False (case v of (worker, lease, allowed) \<Rightarrow>
      answer 500 (\<lambda>c. case c of None \<Rightarrow> \<lparr>rp_status = 204, rp_body = Body_none\<rparr>
         | Some (a, spec) \<Rightarrow> write_json (Body_claim a spec))
       (claim_next (he_service env) worker (seconds lease) allowed []))" for v
    by (cases v) (simp, intro ok_write via_calls not_refused s)
  then show ?thesis unfolding handle_claim_def by (intro ok_post ok_decoding)
qed

lemma ok_attempt_actions: "exchange_ok (he_service env) False (handle_attempt_actions env req)"
proof -
  have "exchange_ok (he_service env) False (attempt_action env req aid action)" for aid action
    by (auto simp: attempt_action_def split_def intro!: ok_decoding ok_write ok_rules)
  then show ?thesis by (auto simp: handle_attempt_actions_def ok_reply split: list.splits)
qed

lemma ok_view: "exchange_ok sv reads (view env f)"
  unfolding view_def by (intro ok_read ext_snapshot)

lemma ext_dashboard: "ext_only (dashboard_of env)"
  unfolding dashboard_of_def by (intro ext_rules ext_snapshot)

lemma ext_find_run: "ext_only (find_run env rid)"
  unfolding find_run_def by (intro ext_rules ext_snapshot)

lemma ext_run_file: "ext_only (run_file env run rest)"
  unfolding run_file_def by (intro ext_rules ext_lift)

lemma ext_read_journal: "ext_only (read_journal env path)"
  unfolding read_journal_def by (intro ext_rules)

lemma ext_documents:
  "ext_only (read_run_index env rid)" "ext_only (read_pipeline_artifact env rid artifact)"
  "ext_only (read_latest_stage_report env rid stage)"
  unfolding read_run_index_def read_pipeline_artifact_def read_latest_stage_report_def Let_def
  by (intro ext_rules ext_find_run ext_run_file ext_read_dir ext_lift ext_read_journal)+

lemma ok_document:
  "exchange_ok sv reads (document (read_run_index env rid))"
  "exchange_ok sv reads (document (read_pipeline_artifact env rid artifact))"
  "exchange_ok sv reads (document (read_latest_stage_report env rid stage))"
  unfolding document_def by (intro ok_read ext_documents)+

lemma ok_run_actions: "exchange_ok sv reads (handle_run_actions env req)"
  by (auto simp: handle_run_actions_def ok_document ok_reply split: list.splits)

lemma ok_v1_run_actions: "exchange_ok sv reads (handle_v1_run_actions env req)"
  by (auto simp: handle_v1_run_actions_def Let_def ok_run_actions ok_reply ok_view)

lemma ok_dashboards:
  "exchange_ok sv reads (handle_dashboard env req)" "exchange_ok sv reads (handle_v1_overview env req)"
  "exchange_ok sv reads (handle_pipelines env req)" "exchange_ok sv reads (handle_snapshot env req)"
  unfolding handle_dashboard_def handle_v1_overview_def handle_pipelines_def handle_snapshot_def
  by (intro ok_read ext_dashboard ext_only_ask_ext ext_snapshot)+

lemma ok_v1_views:
  "exchange_ok sv reads (handle_v1_work_orders env req)" "exchange_ok sv reads (handle_v1_work_order env req)"
  "exchange_ok sv reads (handle_v1_pipelines env req)" "exchange_ok sv reads (handle_v1_stages env req)"
  "exchange_ok sv reads (handle_v1_runs env req)"
  by (simp_all add: handle_v1_work_orders_def handle_v1_work_order_def handle_v1_pipelines_def
      handle_v1_stages_def handle_v1_runs_def Let_def ok_view ok_reply)

lemma ok_ui: "exchange_ok sv reads (handle_ui env req)" "exchange_ok sv reads (handle_assets env req)"
  by (auto simp: handle_ui_def handle_assets_def ok_reply split: option.splits)

lemma ok_issue_import:
  "exchange_ok (he_service env) (hr_method req \<noteq> ''POST'') (handle_issue_import env req)"
  unfolding handle_issue_import_def Let_def
  by (intro ok_rules ok_write via_then via_ext [OF ext_only_on_ext])

lemma via_materialize: "via (he_service env) (materialize_issue env issue_id)"
proof -
  have opt: "via sv m \<Longrightarrow> (\<And>x. via sv (n x)) \<Longrightarrow> via sv (case v of None \<Rightarrow> m | Some x \<Rightarrow> n x)" for sv m n v
    by (cases v) simp_all
  show ?thesis unfolding materialize_issue_def Let_def
    by (intro via_then via_bind opt via_calls via_ext ext_snapshot ext_only_on_ext ext_only_err ext_only_ret)
qed

lemma ok_issue_actions:
  "exchange_ok (he_service env) (hr_method req \<noteq> ''POST'') (handle_issue_actions env req)"
proof -
  have "exchange_ok (he_service env) (hr_method req \<noteq> ''POST'') (issue_action env req i action)" for i action
    unfolding issue_action_def split_def
    by (intro ok_rules ok_write via_materialize)
  then show ?thesis by (auto simp: handle_issue_actions_def ok_reply split: list.splits)
qed

lemma ok_v1_issues: "exchange_ok (he_service env) (hr_method req \<noteq> ''POST'') (handle_v1_issues env req)"
  using ok_issue_import [of env req]
  by (auto simp: handle_v1_issues_def ok_reply intro: ok_read ext_dashboard)

lemma ok_v1_issue_actions:
  "exchange_ok (he_service env) (hr_method req \<noteq> ''POST'') (handle_v1_issue_actions env req)"
  using ok_issue_actions [of env "req\<lparr>hr_path := p\<rparr>" for p]
  by (auto simp: handle_v1_issue_actions_def Let_def ok_reply ok_view)

subsection \<open>The multiplexer\<close>

abbreviation reading :: "http_request \<Rightarrow> bool" where
  "reading req \<equiv> hr_method req \<noteq> ''POST'' \<and> \<not> has_prefix (hr_path req) ''/attempts/''"

lemma ok_mono: "exchange_ok sv reads x \<Longrightarrow> (reads' \<Longrightarrow> reads) \<Longrightarrow> exchange_ok sv reads' x"
  unfolding exchange_ok_def by blast

lemma route_found:
  "fold (longer_route path) rs best = Some r \<Longrightarrow> best = Some r \<or> r \<in> set rs \<and> route_matches (fst r) path"
proof (induction rs arbitrary: best)
  case (Cons q rs)
  then have "longer_route path q best = Some r \<or> r \<in> set rs \<and> route_matches (fst r) path" by simp
  then show ?case by (auto simp: longer_route_def split: if_splits)
qed simp

definition posting :: "'x http_handler list" where
  "posting = [handle_enqueue, handle_reconcile, handle_recover, handle_claim, handle_issue_import,
     handle_issue_actions, handle_v1_issues, handle_v1_issue_actions]"

definition viewing :: "'x http_handler list" where
  "viewing = [handle_run_actions, handle_v1_run_actions, handle_dashboard, handle_v1_overview,
     handle_pipelines, handle_snapshot, handle_v1_work_orders, handle_v1_work_order,
     handle_v1_pipelines, handle_v1_stages, handle_v1_runs, handle_ui, handle_assets]"

lemma routes_split:
  assumes "(pattern, h) \<in> set routes" and "pattern \<noteq> ''/api/v1/projection''"
  shows "pattern = ''/attempts/'' \<and> h = handle_attempt_actions \<or> h \<in> set posting \<or> h \<in> set viewing"
  using assms unfolding routes_def list.set insert_iff empty_iff prod.inject posting_def viewing_def
  by (elim disjE conjE) (simp_all only: simp_thms)

lemma posting_ok:
  "h \<in> set posting \<Longrightarrow> exchange_ok (he_service env) (hr_method req \<noteq> ''POST'') (h env req)"
  unfolding posting_def list.set insert_iff empty_iff
  by (elim disjE)
    (simp_all only: ok_enqueue ok_reconcile ok_recover ok_claim ok_issue_import ok_issue_actions ok_v1_issues
      ok_v1_issue_actions)

lemma viewing_ok: "h \<in> set viewing \<Longrightarrow> exchange_ok sv reads (h env req)"
  unfolding viewing_def list.set insert_iff empty_iff
  by (elim disjE) (simp_all only: ok_run_actions ok_v1_run_actions ok_dashboards ok_v1_views ok_ui)

lemma route_ok:
  assumes "(pattern, h) \<in> set routes" and "route_matches pattern (hr_path req)"
    and "hr_path req \<noteq> ''/api/v1/projection''"
  shows "exchange_ok (he_service env) (reading req) (h env req)"
proof -
  have np: "pattern \<noteq> ''/api/v1/projection''"
  proof
    assume p: "pattern = ''/api/v1/projection''"
    have "\<not> has_suffix ''/api/v1/projection'' ''/''" by code_simp
    then show False using assms(2,3) p by (simp add: route_matches_def)
  qed
  have att: "pattern = ''/attempts/'' \<Longrightarrow> \<not> reading req"
  proof -
    assume p: "pattern = ''/attempts/''"
    have "''/attempts/'' = hr_path req \<or> has_prefix (hr_path req) ''/attempts/''"
      using assms(2) unfolding route_matches_def p by blast
    then have "has_prefix (hr_path req) ''/attempts/''" using has_prefix_refl by (elim disjE) (erule subst)
    then show ?thesis by (simp only: simp_thms)
  qed
  consider "pattern = ''/attempts/''" "h = handle_attempt_actions" | "h \<in> set posting" | "h \<in> set viewing"
    using routes_split [OF assms(1) np] by blast
  then show ?thesis
  proof cases
    case 1
    from 1(1) have "\<not> reading req" by (rule att)
    then show ?thesis using ok_attempt_actions [of env req] 1(2) by (simp only: simp_thms)
  next
    case 2
    then have "exchange_ok (he_service env) (hr_method req \<noteq> ''POST'') (h env req)" by (rule posting_ok)
    then show ?thesis by (rule ok_mono) blast
  next
    case 3
    then show ?thesis by (rule viewing_ok)
  qed
qed

lemma handler_ok:
  assumes "hr_path req \<noteq> ''/api/v1/projection''"
  shows "exchange_ok (he_service env) (reading req) (handler env req)"
proof -
  define path where "path = (if hr_method req = ''CONNECT'' then hr_path req else clean_url (hr_path req))"
  show ?thesis
  proof (cases "fold (longer_route path) (routes :: (string \<times> 'a http_handler) list) None")
    case None
    then show ?thesis by (simp add: handler_def Let_def path_def [symmetric] ok_reply)
  next
    case (Some r)
    obtain pattern h where r: "r = (pattern, h)" by (cases r)
    have "(pattern, h) \<in> set routes" and "route_matches pattern path"
      using route_found [OF Some] r by auto
    then have "path = hr_path req \<Longrightarrow> exchange_ok (he_service env) (reading req) (h env req)"
      using route_ok assms by metis
    then show ?thesis using Some r
      by (simp add: handler_def Let_def path_def [symmetric] ok_reply)
  qed
qed

lemma projection_ext:
  assumes "handle_projection env req w = Some (r, w')"
  shows "w_state w' = w_state w"
  using assms by (auto simp: handle_projection_def reply_def split: if_splits option.splits)

lemma handler_projection:
  assumes "hr_path req = ''/api/v1/projection''"
  shows "handler env req = handle_projection env req"
proof -
  have c: "clean_url ''/api/v1/projection'' = ''/api/v1/projection''" by code_simp
  have f: "fold (longer_route ''/api/v1/projection'') routes None =
      Some (''/api/v1/projection'', handle_projection)"
  proof -
    have "route_matches ''/api/v1/projection'' ''/api/v1/projection''" by (simp add: route_matches_def)
    moreover have "list_all (\<lambda>p. \<not> route_matches p ''/api/v1/projection'' \<or> length p < 18)
      [''/assets/'', ''/'', ''/enqueue'', ''/reconcile'', ''/recover'', ''/snapshot'', ''/attempts/claim'',
       ''/attempts/'', ''/api/dashboard'', ''/api/issues/import'', ''/api/issues/'', ''/api/runs/'',
       ''/api/pipelines'', ''/api/v1/overview'', ''/api/v1/issues'', ''/api/v1/issues/'',
       ''/api/v1/work-orders'', ''/api/v1/work-orders/'', ''/api/v1/pipelines'', ''/api/v1/stages'',
       ''/api/v1/runs'', ''/api/v1/runs/'', ''/api/enqueue'', ''/api/reconcile'', ''/api/recover'',
       ''/api/snapshot'']" by code_simp
    ultimately show ?thesis by (simp add: routes_def longer_route_def)
  qed
  show ?thesis
    by (rule ext) (simp add: handler_def assms c f)
qed

lemma handler_step:
  assumes "handler env req w = Some (r, w')"
  shows "rtranclp (cp_step (he_service env)) w w'"
    and "reading req \<or> refused (rp_status r) \<Longrightarrow> w_state w' = w_state w"
proof -
  have "rtranclp (cp_step (he_service env)) w w' \<and>
    (reading req \<or> refused (rp_status r) \<longrightarrow> w_state w' = w_state w)"
  proof (cases "hr_path req = ''/api/v1/projection''")
    case True
    then have "w_state w' = w_state w" using assms handler_projection projection_ext by metis
    then show ?thesis by (simp add: same_state_step)
  next
    case False
    obtain r1 w1 where "handler env req w = Some (r1, w1)" "rtranclp (cp_step (he_service env)) w w1"
      "reading req \<or> refused (rp_status r1) \<longrightarrow> w_state w1 = w_state w"
      using handler_ok [OF False, of env] unfolding exchange_ok_def by blast
    then show ?thesis using assms by (simp only: option.inject prod.inject)
  qed
  then show "rtranclp (cp_step (he_service env)) w w'"
    and "reading req \<or> refused (rp_status r) \<Longrightarrow> w_state w' = w_state w" by blast+
qed

lemma handler_answers:
  assumes "hr_path req \<noteq> ''/api/v1/projection''"
  shows "\<exists>r w'. handler env req w = Some (r, w')"
  using handler_ok [OF assms, of env] unfolding exchange_ok_def by blast

text \<open>
  C27: the server refines the control plane.  In a reachable state, answering any request, whatever its
  method, path and body and whatever files, decoders and the container do, is a sequence of operations
  of the control plane: the state it leaves is reachable and has the invariant, and the history of
  issues, runs and attempts is kept.
\<close>

theorem http_refines_control_plane:
  assumes "he_service env = wire_service out" and "cp_reach (wire_service out) w"
    and "handler env req w = Some (r, w')"
  shows "rtranclp (cp_step (wire_service out)) w w' \<and> cp_reach (wire_service out) w' \<and>
    cp_inv (w_state w') \<and> evolves (w_state w) (w_state w')"
proof -
  have s: "rtranclp (cp_step (wire_service out)) w w'"
    using handler_step(1) [OF assms(3)] assms(1) by simp
  have "rtranclp (cp_step sv) v v' \<Longrightarrow> cp_reach sv v \<Longrightarrow> cp_reach sv v'" for sv :: "'b service" and v v'
    by (induction rule: rtranclp_induct) (auto intro: cp_reach.step)
  with s assms(2) have reach: "cp_reach (wire_service out) w'" by blast
  show ?thesis
    using s reach wired.reach_inv [OF reach] wired.history [OF s wired.reach_inv [OF assms(2)]]
    by (simp add: good_def)
qed

text \<open>
  C28: requests that must not write do not write.  A request that is redirected, not found or of a
  method that is not allowed, and a request that is neither a \<open>POST\<close> nor addressed to an attempt,
  leaves the persisted state exactly as it was.
\<close>

theorem http_reads_change_nothing:
  assumes "handler env req w = Some (r, w')"
    and "rp_status r \<in> {301, 302, 404, 405} \<or>
      hr_method req \<noteq> ''POST'' \<and> \<not> has_prefix (hr_path req) ''/attempts/''"
  shows "w_state w' = w_state w"
  using handler_step(2) [OF assms(1)] assms(2) by (simp only: refused_def) blast

end
