(* ===== verification/HttpClient.thy ===== *)
theory HttpClient
  imports HttpProps
begin

section \<open>The HTTP client (internal/httpapi/client.go) against the server\<close>

text \<open>
  The client's calls over a transport \<open>send method path body\<close>, with the encoders of the request
  bodies as parameters (\<open>json.Marshal\<close>).  Over the server of this development each call gives what
  the control plane's own operation gives.
\<close>

record client_codec =
  ec_claim :: "string \<Rightarrow> int \<Rightarrow> string list \<Rightarrow> string + string"
  ec_beat :: "int \<Rightarrow> string \<Rightarrow> jmap \<Rightarrow> string + string"
  ec_complete :: "stage_result \<Rightarrow> artifact_ref list \<Rightarrow> string + string"

type_synonym 'w transport = "string \<Rightarrow> string \<Rightarrow> string \<Rightarrow> ('w, response) go"

text \<open>What \<open>io.ReadAll\<close> returns for an error response, whose body is text.\<close>

definition body_text :: "payload \<Rightarrow> string" where
  "body_text b = (case b of Body_text s \<Rightarrow> s | _ \<Rightarrow> [])"

definition client_post :: "'w transport \<Rightarrow> string \<Rightarrow> string + string \<Rightarrow> ('w, unit) go" where
  "client_post send path body =
     m_bind (m_lift body) (\<lambda>data. m_bind (send ''POST'' path data) (\<lambda>r.
       if rp_status r < 200 \<or> 299 < rp_status r
       then m_err (''request '' @ path @ '' failed: '' @ body_text (rp_body r)) else m_ret ()))"

definition client_enqueue :: "'w transport \<Rightarrow> ('w, unit) go" where
  "client_enqueue send = client_post send ''/enqueue'' (Inr [])"

definition client_reconcile :: "'w transport \<Rightarrow> ('w, unit) go" where
  "client_reconcile send = client_post send ''/reconcile'' (Inr [])"

definition client_recover :: "'w transport \<Rightarrow> ('w, unit) go" where
  "client_recover send = client_post send ''/recover'' (Inr [])"

definition client_snapshot :: "'w transport \<Rightarrow> ('w, persisted_state) go" where
  "client_snapshot send = m_bind (send ''GET'' ''/snapshot'' []) (\<lambda>r.
     if rp_status r \<noteq> 200 then m_err (''snapshot failed: '' @ body_text (rp_body r))
     else (case rp_body r of Body_state s \<Rightarrow> m_ret s | _ \<Rightarrow> m_err ''decode snapshot''))"

definition client_claim ::
  "client_codec \<Rightarrow> 'w transport \<Rightarrow> string \<Rightarrow> int \<Rightarrow> string list \<Rightarrow>
   ('w, (stage_attempt \<times> stage_spec) option) go" where
  "client_claim codec send worker lease allowed =
     m_bind (m_lift (ec_claim codec worker lease allowed)) (\<lambda>data.
     m_bind (send ''POST'' ''/attempts/claim'' data) (\<lambda>r.
       if rp_status r = 204 then m_ret None
       else if rp_status r \<noteq> 200 then m_err (''claim failed: '' @ body_text (rp_body r))
       else (case rp_body r of Body_claim a spec \<Rightarrow> m_ret (Some (a, spec)) | _ \<Rightarrow> m_err ''decode claim'')))"

definition client_heartbeat ::
  "client_codec \<Rightarrow> 'w transport \<Rightarrow> string \<Rightarrow> int \<Rightarrow> string \<Rightarrow> jmap \<Rightarrow> ('w, unit) go" where
  "client_heartbeat codec send aid lease summary md =
     client_post send (''/attempts/'' @ aid @ ''/heartbeat'') (ec_beat codec lease summary md)"

definition client_complete ::
  "client_codec \<Rightarrow> 'w transport \<Rightarrow> string \<Rightarrow> stage_result \<Rightarrow> artifact_ref list \<Rightarrow> ('w, unit) go" where
  "client_complete codec send aid result artifacts =
     client_post send (''/attempts/'' @ aid @ ''/complete'') (ec_complete codec result artifacts)"

subsection \<open>Routing of the client's paths\<close>

lemma has_prefix_shorter: "has_prefix path p \<Longrightarrow> p \<noteq> path \<Longrightarrow> length p < length path"
  by (auto simp: has_prefix_iff)

lemma longer_route_stays:
  "\<forall>q\<in>set rs. route_matches (fst q) path \<longrightarrow> length (fst q) \<le> length (fst r) \<Longrightarrow>
   fold (longer_route path) rs (Some r) = Some r"
  by (induction rs) (auto simp: longer_route_def)

lemma longest_route:
  assumes "distinct (map fst rs)" and "(p, h) \<in> set rs" and "route_matches p path"
    and "\<And>q. q \<in> fst ` set rs \<Longrightarrow> route_matches q path \<Longrightarrow> q \<noteq> p \<Longrightarrow> length q < length p"
  shows "fold (longer_route path) rs None = Some (p, h)"
proof -
  obtain xs ys where rs: "rs = xs @ (p, h) # ys" using assms(2) by (auto dest: split_list)
  define b where "b = fold (longer_route path) xs None"
  have "length (fst r) < length p" if "b = Some r" for r
  proof -
    have r: "r \<in> set xs" "route_matches (fst r) path" using route_found [of path xs None r] that by (simp_all add: b_def)
    then have "fst r \<noteq> p" using assms(1) rs by force
    then show ?thesis using assms(4) [of "fst r"] r rs by auto
  qed
  then have "longer_route path (p, h) b = Some (p, h)"
    using assms(3) by (cases b) (auto simp: longer_route_def)
  moreover have "fold (longer_route path) ys (Some (p, h)) = Some (p, h)"
    using assms(4) rs by (intro longer_route_stays) (force intro: less_imp_le)
  ultimately show ?thesis by (simp add: rs b_def)
qed

lemma exact_route:
  assumes "distinct (map fst rs)" and "(path, h) \<in> set rs"
  shows "fold (longer_route path) rs None = Some (path, h)"
  by (rule longest_route [OF assms]) (auto simp: route_matches_def has_prefix_shorter)

definition patterns :: "string list" where
  "patterns = [''/api/v1/projection'', ''/assets/'', ''/'', ''/enqueue'', ''/reconcile'', ''/recover'',
     ''/snapshot'', ''/attempts/claim'', ''/attempts/'', ''/api/dashboard'', ''/api/issues/import'',
     ''/api/issues/'', ''/api/runs/'', ''/api/pipelines'', ''/api/v1/overview'', ''/api/v1/issues'',
     ''/api/v1/issues/'', ''/api/v1/work-orders'', ''/api/v1/work-orders/'', ''/api/v1/pipelines'',
     ''/api/v1/stages'', ''/api/v1/runs'', ''/api/v1/runs/'', ''/api/enqueue'', ''/api/reconcile'',
     ''/api/recover'', ''/api/snapshot'']"

lemma routes_patterns: "map fst routes = patterns"
  by (simp add: routes_def patterns_def)

lemma patterns_distinct: "distinct patterns"
  by code_simp

lemma handler_exact:
  assumes "hr_method req \<noteq> ''CONNECT''" and "(hr_path req, h) \<in> set routes"
    and "clean_url (hr_path req) = hr_path req"
  shows "handler env req = h env req"
  using exact_route [OF _ assms(2)] assms(1,3) patterns_distinct
  by (simp add: handler_def routes_patterns)

lemma clean_segments:
  assumes "list_all path_segment ps" and "ps \<noteq> []"
  shows "clean_url (CHR ''/'' # join_with ''/'' ps) = CHR ''/'' # join_with ''/'' ps"
proof -
  define s where "s = CHR ''/'' # join_with ''/'' ps"
  have c: "path_comps s = ps" "path_rooted s"
    using path_render_comps [of ps True] assms dotdots_first_plain [of ps]
    by (auto simp: path_render_def list_all_iff path_segment_def s_def)
  then have cl: "path_clean s = s" using assms(2) by (simp add: path_clean_def path_render_def s_def)
  have "last s \<noteq> CHR ''/''"
  proof -
    define p where "p = last ps"
    have p: "p \<noteq> []" "CHR ''/'' \<notin> set p"
      using assms last_in_set [OF assms(2)] by (auto simp: p_def list_all_iff path_segment_def)
    have "last (join_with ''/'' ps) = last p \<and> join_with ''/'' ps \<noteq> []"
      unfolding p_def using assms(2) p [unfolded p_def]
      by (induction "''/''" ps rule: join_with.induct) auto
    moreover have "last p \<in> set p" using p by simp
    ultimately have "last s \<in> set p" by (simp add: s_def)
    then show ?thesis using p(2) by metis
  qed
  then show ?thesis using cl by (simp add: clean_url_def Let_def s_def)
qed

lemma attempt_path:
  "''/attempts/'' @ aid @ ''/'' @ action = CHR ''/'' # join_with ''/'' [''attempts'', aid, action]"
  by simp

lemma slash_not_claim: "a @ CHR ''/'' # b \<noteq> ''claim''"
proof
  assume "a @ CHR ''/'' # b = ''claim''"
  then have "CHR ''/'' \<in> set ''claim''" by (metis in_set_conv_decomp)
  then show False by simp
qed

lemma attempt_route:
  assumes "path_segment aid" and "path_segment action"
  shows "fold (longer_route (''/attempts/'' @ aid @ ''/'' @ action)) (routes :: (string \<times> 'a http_handler) list) None =
    Some (''/attempts/'', handle_attempt_actions)"
proof (rule longest_route)
  let ?path = "''/attempts/'' @ aid @ ''/'' @ action"
  show "distinct (map fst (routes :: (string \<times> 'a http_handler) list))" by (simp only: routes_patterns patterns_distinct)
  show "(''/attempts/'', handle_attempt_actions) \<in> set routes" by (simp add: routes_def)
  have "has_suffix ''/attempts/'' ''/''" by code_simp
  moreover have "has_prefix ?path ''/attempts/''" by (rule has_prefix_append)
  ultimately show "route_matches ''/attempts/'' ?path" unfolding route_matches_def by blast
  have c: "aid @ CHR ''/'' # action \<noteq> ''claim''" by (rule slash_not_claim)
  have s: "\<not> has_suffix ''/attempts/claim'' ''/''" by code_simp
  fix q assume "q \<in> fst ` set (routes :: (string \<times> 'a http_handler) list)" and m: "route_matches q ?path"
    and ne: "q \<noteq> ''/attempts/''"
  then have "q \<in> set patterns" using routes_patterns by (metis list.set_map)
  then have "q = ''/''" using m ne c
    unfolding patterns_def list.set insert_iff empty_iff
    by (elim disjE) (simp_all add: route_matches_def s)
  then show "length q < length ''/attempts/''" by simp
qed

lemma handler_attempt:
  assumes "path_segment aid" and "path_segment action"
    and "hr_path req = ''/attempts/'' @ aid @ ''/'' @ action" and "hr_method req \<noteq> ''CONNECT''"
  shows "handler (env :: 'a http_env) req = attempt_action env req aid action"
proof -
  let ?path = "''/attempts/'' @ aid @ ''/'' @ action"
  have cl: "clean_url ?path = ?path"
    unfolding attempt_path using assms(1,2) by (intro clean_segments) (auto simp: path_segment_def)
  have ns: "CHR ''/'' \<notin> set aid" "CHR ''/'' \<notin> set action" using assms(1,2) by (simp_all add: path_segment_def)
  have sp: "split_on CHR ''/'' (aid @ ''/'' @ action) = [aid, action]"
    using split_on_append [OF ns(1), of action] split_on_absent [OF ns(2)] by simp
  have "set (map fst (routes :: (string \<times> 'a http_handler) list)) = set patterns" by (simp only: routes_patterns)
  have np: "?path @ ''/'' \<notin> set patterns"
  proof
    assume "?path @ ''/'' \<in> set patterns"
    moreover have "aid @ CHR ''/'' # action @ ''/'' \<noteq> ''claim''" by (rule slash_not_claim)
    ultimately show False unfolding patterns_def list.set insert_iff empty_iff by (elim disjE) simp_all
  qed
  have "fold (longer_route ?path) (routes :: (string \<times> 'a http_handler) list) None =
      Some (''/attempts/'', handle_attempt_actions)" by (rule attempt_route [OF assms(1,2)])
  then have "handler env req = handle_attempt_actions env req"
    using assms(4) np
    unfolding handler_def Let_def routes_patterns assms(3) cl if_cancel by simp
  also have "\<dots> = attempt_action env req aid action"
    unfolding handle_attempt_actions_def assms(3) trim_prefix_append sp by simp
  finally show ?thesis .
qed

subsection \<open>The client over the server\<close>

definition over :: "'x http_env \<Rightarrow> 'x world transport" where
  "over env method path body w =
     (case handler env \<lparr>hr_method = method, hr_path = path, hr_goal = [], hr_body = body\<rparr> w of
        None \<Rightarrow> (Inl ''no response'', w)
      | Some (r, w') \<Rightarrow> (Inr r, w'))"

text \<open>The operation with its error message as the client reports it.\<close>

definition relayed :: "string \<Rightarrow> ('w, 'a) go \<Rightarrow> ('w, 'a) go" where
  "relayed what m w =
     (case m w of (Inl e, w') \<Rightarrow> (Inl (what @ '' failed: '' @ e @ [CHR 0x0A]), w') | (Inr x, w') \<Rightarrow> (Inr x, w'))"

lemma over_exact:
  assumes "method \<noteq> ''CONNECT''" and "(path, h) \<in> set routes" and "clean_url path = path"
  shows "over (env :: 'x http_env) method path body w =
    (case h env \<lparr>hr_method = method, hr_path = path, hr_goal = [], hr_body = body\<rparr> w of
        None \<Rightarrow> (Inl ''no response'', w)
      | Some (r, w') \<Rightarrow> (Inr r, w'))"
  unfolding over_def by (subst handler_exact [of _ h]) (use assms in simp_all)

lemma client_post_answer:
  assumes "\<And>w. send ''POST'' path data w =
      (case answer 500 ok_json m w of None \<Rightarrow> (Inl ''no response'', w) | Some (r, w') \<Rightarrow> (Inr r, w'))"
  shows "client_post send path (Inr data) = relayed (''request '' @ path) m"
proof
  fix w
  show "client_post send path (Inr data) w = relayed (''request '' @ path) m w"
    by (cases "m w"; cases "fst (m w)")
      (simp_all add: client_post_def m_bind_def m_lift_def assms answer_def http_error_def ok_json_def
        write_json_def relayed_def body_text_def m_err_def m_ret_def)
qed

lemma clean_paths: "clean_url ''/enqueue'' = ''/enqueue''" "clean_url ''/reconcile'' = ''/reconcile''"
  "clean_url ''/recover'' = ''/recover''" "clean_url ''/snapshot'' = ''/snapshot''"
  "clean_url ''/attempts/claim'' = ''/attempts/claim''"
  by code_simp+

lemma client_simple_calls:
  "client_enqueue (over env) = relayed ''request /enqueue'' (enqueue_from_gitlab (he_service env))"
  "client_reconcile (over env) = relayed ''request /reconcile'' (reconcile (he_service env) [])"
  "client_recover (over env) = relayed ''request /recover'' (recover_stuck_runs (he_service env) (seconds 30))"
proof -
  have e: "over env ''POST'' ''/enqueue'' [] w =
      (case answer 500 ok_json (enqueue_from_gitlab (he_service env)) w of
         None \<Rightarrow> (Inl ''no response'', w) | Some (r, w') \<Rightarrow> (Inr r, w'))" for w
    by (subst over_exact [of _ _ handle_enqueue])
      (simp_all add: routes_def clean_paths handle_enqueue_def only_post_def)
  have r: "over env ''POST'' ''/reconcile'' [] w =
      (case answer 500 ok_json (reconcile (he_service env) []) w of
         None \<Rightarrow> (Inl ''no response'', w) | Some (r, w') \<Rightarrow> (Inr r, w'))" for w
    by (subst over_exact [of _ _ handle_reconcile])
      (simp_all add: routes_def clean_paths handle_reconcile_def only_post_def)
  have c: "over env ''POST'' ''/recover'' [] w =
      (case answer 500 ok_json (recover_stuck_runs (he_service env) (seconds 30)) w of
         None \<Rightarrow> (Inl ''no response'', w) | Some (r, w') \<Rightarrow> (Inr r, w'))" for w
    by (subst over_exact [of _ _ handle_recover])
      (simp_all add: routes_def clean_paths handle_recover_def only_post_def)
  show "client_enqueue (over env) = relayed ''request /enqueue'' (enqueue_from_gitlab (he_service env))"
    "client_reconcile (over env) = relayed ''request /reconcile'' (reconcile (he_service env) [])"
    "client_recover (over env) = relayed ''request /recover'' (recover_stuck_runs (he_service env) (seconds 30))"
    unfolding client_enqueue_def client_reconcile_def client_recover_def
    using client_post_answer [of "over env", OF e] client_post_answer [of "over env", OF r]
      client_post_answer [of "over env", OF c] by simp_all
qed

lemma client_snapshot_over:
  "client_snapshot (over env) = relayed ''snapshot'' (snapshot (he_service env))"
proof
  fix w
  have s: "over env ''GET'' ''/snapshot'' [] w =
      (case answer 500 (\<lambda>s. write_json (Body_state s)) (snapshot (he_service env)) w of
         None \<Rightarrow> (Inl ''no response'', w) | Some (r, w') \<Rightarrow> (Inr r, w'))"
    by (subst over_exact [of _ _ handle_snapshot]) (simp_all add: routes_def clean_paths handle_snapshot_def)
  show "client_snapshot (over env) w = relayed ''snapshot'' (snapshot (he_service env)) w"
    by (cases "snapshot (he_service env) w"; cases "fst (snapshot (he_service env) w)")
      (simp_all add: client_snapshot_def m_bind_def s answer_def http_error_def write_json_def relayed_def
        body_text_def m_err_def m_ret_def)
qed

lemma client_claim_over:
  assumes "ec_claim codec worker lease allowed = Inr data" and "hd_claim env data = Inr (worker, lease, allowed)"
  shows "client_claim codec (over env) worker lease allowed =
    relayed ''claim'' (claim_next (he_service env) worker (seconds lease) allowed [])"
proof
  fix w
  let ?m = "claim_next (he_service env) worker (seconds lease) allowed []"
  have s: "over env ''POST'' ''/attempts/claim'' data w =
      (case answer 500 (\<lambda>c. case c of None \<Rightarrow> \<lparr>rp_status = 204, rp_body = Body_none\<rparr>
         | Some (a, spec) \<Rightarrow> write_json (Body_claim a spec)) ?m w of
         None \<Rightarrow> (Inl ''no response'', w) | Some (r, w') \<Rightarrow> (Inr r, w'))"
    by (subst over_exact [of _ _ handle_claim])
      (simp_all add: routes_def clean_paths handle_claim_def only_post_def decoding_def assms(2))
  obtain r w' where m: "?m w = (r, w')" by fastforce
  show "client_claim codec (over env) worker lease allowed w = relayed ''claim'' ?m w"
    using m
    by (cases r; cases "projr r"; cases "the (projr r)")
      (auto simp: client_claim_def m_bind_def m_lift_def assms(1) s answer_def http_error_def write_json_def
        relayed_def body_text_def m_err_def m_ret_def split: option.splits)
qed

lemma client_attempt_over:
  assumes "path_segment aid"
  shows "ec_beat codec lease summary md = Inr d \<Longrightarrow> hd_beat env d = Inr (lease, summary, md) \<Longrightarrow>
    client_heartbeat codec (over env) aid lease summary md =
    relayed (''request /attempts/'' @ aid @ ''/heartbeat'') (heartbeat (he_service env) aid (seconds lease) summary md)"
    and "ec_complete codec result artifacts = Inr d \<Longrightarrow> hd_complete env d = Inr (result, artifacts) \<Longrightarrow>
    client_complete codec (over env) aid result artifacts =
    relayed (''request /attempts/'' @ aid @ ''/complete'') (complete (he_service env) aid result artifacts)"
proof -
  have h: "handler env \<lparr>hr_method = ''POST'', hr_path = ''/attempts/'' @ aid @ ''/'' @ action, hr_goal = [], hr_body = d\<rparr> =
      attempt_action env \<lparr>hr_method = ''POST'', hr_path = ''/attempts/'' @ aid @ ''/'' @ action, hr_goal = [], hr_body = d\<rparr>
        aid action" if "path_segment action" for action
    by (rule handler_attempt [OF assms that]) simp_all
  have segs: "path_segment ''heartbeat''" "path_segment ''complete''" by (simp_all add: path_segment_def)
  show "client_heartbeat codec (over env) aid lease summary md =
    relayed (''request /attempts/'' @ aid @ ''/heartbeat'') (heartbeat (he_service env) aid (seconds lease) summary md)"
    if e: "ec_beat codec lease summary md = Inr d" and dec: "hd_beat env d = Inr (lease, summary, md)"
  proof -
    have "over env ''POST'' (''/attempts/'' @ aid @ ''/heartbeat'') d w =
      (case answer 500 ok_json (heartbeat (he_service env) aid (seconds lease) summary md) w of
         None \<Rightarrow> (Inl ''no response'', w) | Some (r, w') \<Rightarrow> (Inr r, w'))" for w
      using h [OF segs(1)] by (simp add: over_def attempt_action_def decoding_def dec)
    from client_post_answer [of "over env", OF this] show ?thesis by (simp add: client_heartbeat_def e)
  qed
  show "client_complete codec (over env) aid result artifacts =
    relayed (''request /attempts/'' @ aid @ ''/complete'') (complete (he_service env) aid result artifacts)"
    if e: "ec_complete codec result artifacts = Inr d" and dec: "hd_complete env d = Inr (result, artifacts)"
  proof -
    have "over env ''POST'' (''/attempts/'' @ aid @ ''/complete'') d w =
      (case answer 500 ok_json (complete (he_service env) aid result artifacts) w of
         None \<Rightarrow> (Inl ''no response'', w) | Some (r, w') \<Rightarrow> (Inr r, w'))" for w
      using h [OF segs(2)] by (simp add: over_def attempt_action_def decoding_def dec)
    from client_post_answer [of "over env", OF this] show ?thesis by (simp add: client_complete_def e)
  qed
qed


end
