(* ===== verification/HttpWitness.thy ===== *)
theory HttpWitness
  imports HttpClient ControlPlaneWitness
begin

section \<open>The HTTP interface on a concrete server\<close>

text \<open>
  A server over the control plane of \<open>ControlPlaneWitness\<close>, with an empty catalog of providers, whose
  decoders accept one body each.
\<close>

definition http_docker :: "'x docker_env" where
  "http_docker = \<lparr>de_data_dir = ''/data'', de_cwd = ''/'', de_read_context = (\<lambda>p. m_err ''no context''),
     de_stat = (\<lambda>p x. (Stat_missing, x)), de_mkdir_all = (\<lambda>p. m_ret ()), de_docker = (\<lambda>args. m_ret ()),
     de_output = (\<lambda>args x. ((None, []), x)), de_string_list = (\<lambda>s. Inl ''no list'')\<rparr>"

definition sample_env :: "int plane http_env" where
  "sample_env =
     \<lparr>he_service = sample_service, he_gitlab_dir = ''/gitlab'', he_work_order_repo = ''/journal'',
      he_local_import = True, he_specs = [], he_catalog = None,
      he_plan = \<lparr>pe_docker = http_docker, pe_work_order_repo = ''/journal'', pe_decode_steps = (\<lambda>m. Inr []),
        pe_write_context = (\<lambda>p c. m_ret ()), pe_read_outputs = (\<lambda>p. m_ret None)\<rparr>,
      he_resolver = \<lparr>rs_ledger = \<lparr>ld_lookup = (\<lambda>c i x. None), ld_commit = (\<lambda>c i r s. m_ret ())\<rparr>,
        rs_catalog = \<lparr>ca_find = (\<lambda>c. m_err ''none''), ca_build = (\<lambda>c. m_err ''none'')\<rparr>, rs_threshold = 0\<rparr>,
      he_fuel = 1, he_read_file = (\<lambda>p. m_err ''no file''), he_read_contract = (\<lambda>p. m_err ''no file''),
      he_parse_time = (\<lambda>s. None), he_asset = (\<lambda>p. None), he_validate = (\<lambda>s. Inr ()),
      hd_claim = (\<lambda>s. if s = ''claim'' then Inr (''w1'', 60, []) else Inl ''EOF''),
      hd_beat = (\<lambda>s. if s = ''beat'' then Inr (60, ''busy'', []) else Inl ''EOF''),
      hd_complete = (\<lambda>s. if s = ''complete'' then Inr (sample_result, []) else Inl ''EOF''),
      hd_raw = Inr, hd_issue = (\<lambda>s. Inr sample_issue)\<rparr>"

definition sample_request :: "string \<Rightarrow> string \<Rightarrow> http_request" where
  "sample_request method path = \<lparr>hr_method = method, hr_path = path, hr_goal = [], hr_body = ''claim''\<rparr>"

lemma sample_enqueue_answer:
  "\<exists>r w'. handler sample_env (sample_request ''POST'' ''/enqueue'') sample_start = Some (r, w')"
  by (rule handler_answers) (simp add: sample_request_def)

lemma http_refines_control_plane_witness:
  "\<exists>r w'. handler sample_env (sample_request ''POST'' ''/enqueue'') sample_start = Some (r, w') \<and>
     rtranclp (cp_step sample_service) sample_start w' \<and> cp_reach sample_service w' \<and>
     cp_inv (w_state w') \<and> evolves (w_state sample_start) (w_state w')"
proof -
  obtain r w' where h: "handler sample_env (sample_request ''POST'' ''/enqueue'') sample_start = Some (r, w')"
    using sample_enqueue_answer by blast
  have s: "he_service sample_env = wire_service sample_out" by (simp add: sample_env_def sample_service_def)
  have "cp_reach (wire_service sample_out) sample_start"
    by (rule cp_reach.start) (simp add: sample_start_def)
  from http_refines_control_plane [OF s this h] show ?thesis
    unfolding sample_service_def using h by blast
qed

text \<open>A claim that is not sent with \<open>POST\<close>.\<close>

lemma sample_get_claim:
  "handler sample_env (sample_request ''GET'' ''/attempts/claim'') sample_queued =
   Some (method_not_allowed, sample_queued)"
  by (subst handler_exact [of _ handle_claim])
    (simp_all add: sample_request_def routes_def clean_paths handle_claim_def only_post_def reply_def)

lemma http_reads_change_nothing_witness:
  "\<exists>r w'. handler sample_env (sample_request ''GET'' ''/attempts/claim'') sample_queued = Some (r, w') \<and>
     w_state w' = w_state sample_queued"
proof -
  have "rp_status method_not_allowed = 405" by (simp add: method_not_allowed_def http_error_def)
  then show ?thesis
    using sample_get_claim http_reads_change_nothing [OF sample_get_claim] by simp
qed

definition sample_codec :: client_codec where
  "sample_codec = \<lparr>ec_claim = (\<lambda>w l a. Inr ''claim''), ec_beat = (\<lambda>l s m. Inr ''beat''),
     ec_complete = (\<lambda>r a. Inr ''complete'')\<rparr>"


end
