(* ===== verification/RepoManager.thy ===== *)
theory RepoManager
  imports Isolation
begin

section \<open>Repositories of a run (internal/repos/manager.go, state.go)\<close>

text \<open>
  A run works on clones below the materialization path of each repository target.  git, the file
  operations and \<open>os.Stat\<close> are fields of the environment.
\<close>

record 'x repo_env =
  re_root_dir :: string
  re_roots :: "string list"
  re_is_dir :: "string \<Rightarrow> 'x \<Rightarrow> bool \<times> 'x"
  re_present :: "string \<Rightarrow> 'x \<Rightarrow> bool \<times> 'x"
  re_mkdir_all :: "string \<Rightarrow> ('x, unit) go"
  re_remove_all :: "string \<Rightarrow> ('x, unit) go"
  re_git :: "string \<Rightarrow> string list \<Rightarrow> ('x, string) go"

record source_stamp =
  sstp_project_path :: string
  sstp_default_branch :: string
  sstp_commit_sha :: string
  sstp_tree_state :: string

text \<open>An operation that cannot fail, as a step of a handler.\<close>

definition m_ask :: "('x \<Rightarrow> 'a \<times> 'x) \<Rightarrow> ('x, 'a) go" where
  "m_ask f x = (case f x of (a, x') \<Rightarrow> (Inr a, x'))"

definition run_repo_path :: "string \<Rightarrow> repo_target \<Rightarrow> string" where
  "run_repo_path rid repo =
     (if trim_space (rt_project_path repo) = [] \<or> trim_space (rt_materialization_path repo) = [] then []
      else path_clean (replace_all (rt_materialization_path repo) ''{run_id}'' rid))"

fun first_checkout :: "'x repo_env \<Rightarrow> string list \<Rightarrow> ('x, string) go" where
  "first_checkout env [] = m_ret []"
| "first_checkout env (c # cs) =
     m_bind (m_ask (re_is_dir env (path_join [c, ''.git'']))) (\<lambda>d.
       if d then m_ret c else first_checkout env cs)"

definition resolve_source_path :: "'x repo_env \<Rightarrow> string \<Rightarrow> ('x, string) go" where
  "resolve_source_path env project_path =
     first_checkout env (repo_candidates (re_root_dir env) project_path (re_roots env))"

text \<open>\<open>None\<close>: the directory is no usable checkout.\<close>

definition source_stamp_from_path :: "'x repo_env \<Rightarrow> string \<Rightarrow> repo_target \<Rightarrow> ('x, source_stamp option) go" where
  "source_stamp_from_path env path repo =
     m_bind (m_try (re_git env path [''rev-parse'', ''HEAD''])) (\<lambda>head. case head of
         Inl _ \<Rightarrow> m_ret None
       | Inr sha \<Rightarrow> m_bind (m_try (re_git env path [''status'', ''--porcelain''])) (\<lambda>st. case st of
             Inl _ \<Rightarrow> m_ret None
           | Inr status \<Rightarrow> m_ret (Some
               \<lparr>sstp_project_path = rt_project_path repo, sstp_default_branch = rt_default_branch repo,
                sstp_commit_sha = trim_space sha,
                sstp_tree_state = (if trim_space status \<noteq> [] then ''dirty'' else ''clean'')\<rparr>)))"

definition git_quiet :: "'x repo_env \<Rightarrow> string \<Rightarrow> string \<Rightarrow> string list \<Rightarrow> ('x, unit) go" where
  "git_quiet env msg dir args = m_bind (m_wrap msg (re_git env dir args)) (\<lambda>_. m_ret ())"

definition configure_commit_identity :: "'x repo_env \<Rightarrow> string \<Rightarrow> ('x, unit) go" where
  "configure_commit_identity env dir =
     m_then (git_quiet env ''set git user.name'' dir [''config'', ''user.name'', ''autodev''])
       (git_quiet env ''set git user.email'' dir [''config'', ''user.email'', ''autodev@example.invalid''])"

definition checkout_resolved_ref :: "'x repo_env \<Rightarrow> string \<Rightarrow> repo_target \<Rightarrow> ('x, unit) go" where
  "checkout_resolved_ref env dir repo =
     (let ref = trim_space (rt_ref repo)
      in git_quiet env (''checkout '' @ ref @ '' for '' @ rt_project_path repo) dir [''checkout'', ''--quiet'', ref])"

definition reset_dir :: "'x repo_env \<Rightarrow> string \<Rightarrow> ('x, unit) go" where
  "reset_dir env dest =
     m_bind (m_ask (re_present env dest)) (\<lambda>there.
       if there then m_wrap ''reset run repo dir'' (re_remove_all env dest) else m_ret ())"

definition clone_repo :: "'x repo_env \<Rightarrow> repo_target \<Rightarrow> string \<Rightarrow> string \<Rightarrow> ('x, unit) go" where
  "clone_repo env repo source dest =
     m_then (m_wrap ''create run repo parent'' (re_mkdir_all env (path_dir dest)))
    (m_then (reset_dir env dest)
    (m_then (git_quiet env (''clone '' @ rt_project_path repo @ '' into run repo'') (path_dir dest)
         [''clone'', ''--quiet'', ''--no-hardlinks'', source, dest])
    (m_then (configure_commit_identity env dest) (checkout_resolved_ref env dest repo))))"

text \<open>The directory of the checkout; the second result of the source is always \<open>resolved\<close>.\<close>

definition ensure_run_repo :: "'x repo_env \<Rightarrow> string \<Rightarrow> repo_target \<Rightarrow> ('x, string \<times> string) go" where
  "ensure_run_repo env rid repo =
     (let dest = run_repo_path rid repo
      in if trim_space (rt_project_path repo) = [] then m_err ''repo target is missing project_path''
         else if trim_space (rt_materialization_path repo) = []
           then m_err (''repo '' @ rt_project_path repo @ '' is missing materialization_path'')
         else if trim_space (rt_ref repo) = [] then m_err (''repo '' @ rt_project_path repo @ '' is missing ref'')
         else if dest = [] then m_err (''repo '' @ rt_project_path repo @ '' did not resolve a materialization path'')
         else m_bind (source_stamp_from_path env dest repo) (\<lambda>stamp.
           if stamp \<noteq> None then m_ret (dest, ''resolved'')
           else m_bind (resolve_source_path env (rt_project_path repo)) (\<lambda>source.
             if source = []
             then m_err (''repo '' @ rt_project_path repo @ '' could not be resolved from configured repo roots'')
             else m_then (clone_repo env repo source dest) (m_ret (dest, ''resolved'')))))"

text \<open>A materialized repository is at the path its target names.\<close>

lemma ensure_run_repo_path:
  "ensure_run_repo env rid repo x = (Inr (dir, status), x') \<Longrightarrow>
   dir = run_repo_path rid repo \<and> dir \<noteq> [] \<and> status = ''resolved''"
  by (auto simp: ensure_run_repo_def m_ok Let_def split: if_splits)

text \<open>
  Nothing bounds that path: with the environment below, which records what is removed, a target whose
  materialization path is a system directory has that directory removed before the clone.
\<close>

definition logging_repos :: "string list repo_env" where
  "logging_repos = \<lparr>re_root_dir = ''/srv/app'', re_roots = [], re_is_dir = (\<lambda>p x. (True, x)),
     re_present = (\<lambda>p x. (True, x)), re_mkdir_all = (\<lambda>p. m_ret ()),
     re_remove_all = (\<lambda>p x. (Inr (), p # x)),
     re_git = (\<lambda>d args. if args = [''rev-parse'', ''HEAD''] then m_err ''no repository'' else m_ret [])\<rparr>"

lemma materialization_path_unconfined:
  "ensure_run_repo logging_repos ''run-1''
     (zero_repo_target\<lparr>rt_project_path := ''g/app'', rt_ref := ''main'', rt_materialization_path := ''/etc''\<rparr>) [] =
   (Inr (''/etc'', ''resolved''), [''/etc''])"
  by code_simp

end
