(* ===== verification/StageInputs.thy ===== *)
theory StageInputs
  imports RepoManager Materialize Workorder Pipeline RatchetRank Components
begin

section \<open>What a stage is given (internal/runner, internal/secrets, internal/artifacts)\<close>

text \<open>
  The parts of the stage executor before the container runs: writes through the sandbox, secrets, the
  materialized repositories and what they grant, the invariants of the ratchet, and the plan of the run
  with the image it pins.  \<open>sx_json\<close> is the JSON encoding of a value, \<open>sx_marshal\<close> is
  \<open>contracts.Marshal\<close>; reading and writing files, git and docker are fields as well.
\<close>

record secret_value =
  sec_name :: string
  sec_source :: string
  sec_text :: string

datatype secret_result = Sec_value secret_value | Sec_missing string | Sec_error string

datatype exec_doc =
    D_work_order work_order
  | D_components "delivery_component list"
  | D_environments promotion_targets
  | D_release release_definition
  | D_repo repo_target
  | D_tooling tooling_repo
  | D_container stage_container
  | D_permissions stage_permissions
  | D_criteria stage_success_criteria
  | D_runtime stage_runtime
  | D_plan "operation_step list"
  | D_run run_request
  | D_attempt stage_attempt
  | D_issue delivery_issue
  | D_ranked "ranked_invariant list"
  | D_catalog "stage_spec list"
  | D_stats attempt_stats
  | D_result stage_result

record stage_state =
  sts_summary :: string
  sts_metadata :: "jmap option"
  sts_state :: string
  sts_step :: string
  sts_status :: string

record stage_output =
  so_status :: string
  so_summary :: string
  so_outputs :: jmap
  so_next :: "string list"

record stage_evidence =
  er_schema_version :: string
  er_run_id :: string
  er_issue_id :: string
  er_stage :: string
  er_attempt :: int
  er_status :: string
  er_summary :: string
  er_outputs :: jmap
  er_metadata :: jmap
  er_created_at :: time

record 'x executor =
  sx_root_dir :: string
  sx_data_dir :: string
  sx_cwd :: string
  sx_repo_roots :: "string list"
  sx_work_order_repo :: string
  sx_artifact_root :: string
  sx_pipeline_catalog :: "jmap option"
  sx_has_env :: bool
  sx_docker :: "'x docker_env"
  sx_repos :: "'x repo_env"
  sx_ranker :: "(retrieval_request \<Rightarrow> ('x, ranked_invariant list) go) option"
  sx_secrets :: "(string \<Rightarrow> 'x \<Rightarrow> secret_result \<times> 'x) list"
  sx_now :: "'x \<Rightarrow> time \<times> 'x"
  sx_read_plan :: "string \<Rightarrow> string \<Rightarrow> ('x, pipeline_execution_plan) go"
  sx_read_text :: "string \<Rightarrow> ('x, string) go"
  sx_read_state :: "string \<Rightarrow> ('x, stage_state) go"
  sx_load_result :: "string \<Rightarrow> string \<Rightarrow> stage_output \<Rightarrow> ('x, stage_output) go"
  sx_load_report :: "string \<Rightarrow> string \<Rightarrow> stage_evidence \<Rightarrow> ('x, stage_evidence) go"
  sx_marshal :: "string \<Rightarrow> string \<Rightarrow> json \<Rightarrow> string + string"
  sx_encode :: "jmap \<Rightarrow> string + string"
  sx_mkdir_all :: "string \<Rightarrow> ('x, unit) go"
  sx_write_file :: "string \<Rightarrow> string \<Rightarrow> ('x, unit) go"
  sx_sha256 :: "string \<Rightarrow> string"
  sx_json :: "exec_doc \<Rightarrow> json"
  sx_decode_steps :: "jmap \<Rightarrow> string + operation_step list"

subsection \<open>Writes through the sandbox\<close>

definition sandbox_mkdir_all :: "'x executor \<Rightarrow> sandbox \<Rightarrow> string \<Rightarrow> ('x, unit) go" where
  "sandbox_mkdir_all ex sb path =
     m_then (m_lift (require_write (sx_cwd ex) sb path)) (sx_mkdir_all ex path)"

definition sandbox_write_file :: "'x executor \<Rightarrow> sandbox \<Rightarrow> string \<Rightarrow> string \<Rightarrow> ('x, unit) go" where
  "sandbox_write_file ex sb path data =
     m_then (m_lift (require_write (sx_cwd ex) sb path))
      (m_then (let parent = path_dir path
               in if parent \<noteq> [] \<and> parent \<noteq> ''.''
                  then m_then (m_lift (require_write (sx_cwd ex) sb parent)) (sx_mkdir_all ex parent)
                  else m_ret ())
        (sx_write_file ex path data))"

definition sandbox_summary :: "'x executor \<Rightarrow> sandbox \<Rightarrow> json" where
  "sandbox_summary ex sb =
     JObj [(''stage'', JStr (sb_stage sb)), (''environment'', JStr (sb_environment sb)),
       (''run_as'', JStr (sb_run_as sb)), (''write_as'', JStr (sb_write_as sb)),
       (''permissions'', sx_json ex (D_permissions (sb_permissions sb))),
       (''workspace'', JStr (sb_workspace_root sb)),
       (''writable'', JArr (map (\<lambda>sc. JObj [(''root'', JStr (scp_root sc)), (''patterns'', jstrs (scp_patterns sc)),
          (''allow_all'', JBool (scp_allow_all sc)), (''reason'', JStr (scp_reason sc))]) (sb_writable_scopes sb))),
       (''repo_control'', JArr (map (\<lambda>(r, reason). JObj [(''root'', JStr r), (''reason'', JStr reason)])
          (sb_repo_control_roots sb)))]"

definition stage_dir_of :: "'x executor \<Rightarrow> string \<Rightarrow> string \<Rightarrow> string" where
  "stage_dir_of ex rid stage = path_join [sx_data_dir ex, ''workspaces'', rid, stage]"

definition workspace_schema :: "string \<Rightarrow> string" where
  "workspace_schema name =
     (if name = ''context.json'' then ''stage-context.schema.json''
      else if name = ''result.json'' then ''stage-result.schema.json''
      else if name = ''report.json'' then ''stage-report.schema.json''
      else if name = ''state.json'' then ''stage-state.schema.json''
      else [])"

definition prepare_workspace :: "'x executor \<Rightarrow> sandbox \<Rightarrow> string \<Rightarrow> stage_spec \<Rightarrow> ('x, unit) go" where
  "prepare_workspace ex sb rid spec = sandbox_mkdir_all ex sb (stage_dir_of ex rid (ss_name spec))"

definition write_workspace_json ::
  "'x executor \<Rightarrow> sandbox \<Rightarrow> string \<Rightarrow> string \<Rightarrow> string \<Rightarrow> json \<Rightarrow> ('x, unit) go" where
  "write_workspace_json ex sb rid stage name payload =
     (let dir = stage_dir_of ex rid stage; path = path_join [dir, name]
      in m_then (sandbox_mkdir_all ex sb dir)
        (m_bind (m_lift (sx_marshal ex (workspace_schema name) path payload)) (sandbox_write_file ex sb path)))"

subsection \<open>Secrets\<close>

text \<open>\<open>Chain.Resolve\<close>: the first provider that has the secret; a provider without it is skipped.\<close>

fun chain_resolve ::
  "(string \<Rightarrow> 'x \<Rightarrow> secret_result \<times> 'x) list \<Rightarrow> string \<Rightarrow> string list \<Rightarrow> ('x, secret_value) go" where
  "chain_resolve [] name errs x =
     (if errs \<noteq> [] then m_err (join_with ''; '' errs) x else m_err (''secret not found: '' @ name) x)"
| "chain_resolve (p # ps) name errs x =
     (case p name x of
        (Sec_value v, x') \<Rightarrow> (Inr v, x')
      | (Sec_missing _, x') \<Rightarrow> chain_resolve ps name errs x'
      | (Sec_error e, x') \<Rightarrow> chain_resolve ps name (errs @ [e]) x')"


fun resolve_all :: "'x executor \<Rightarrow> string list \<Rightarrow> ('x, secret_value list) go" where
  "resolve_all ex [] = m_ret []"
| "resolve_all ex (n # ns) =
     m_bind (chain_resolve (sx_secrets ex) n []) (\<lambda>v. m_bind (resolve_all ex ns) (\<lambda>vs. m_ret (v # vs)))"

text \<open>What the stage is told of its secrets: their names and where they come from.\<close>

definition secret_metadata :: "secret_value list \<Rightarrow> json" where
  "secret_metadata vs =
     JArr (map (\<lambda>v. JObj [(''name'', JStr (sec_name v)), (''source'', JStr (sec_source v))]) vs)"

subsection \<open>Artifacts\<close>

definition artifact_schema :: "string \<Rightarrow> string" where
  "artifact_schema name =
     (if name = ''result'' then ''stage-result.schema.json''
      else if name = ''evidence'' then ''stage-report.schema.json'' else [])"

definition put_json ::
  "'x executor \<Rightarrow> string \<Rightarrow> string \<Rightarrow> string \<Rightarrow> json \<Rightarrow> string \<Rightarrow> ('x, artifact_ref) go" where
  "put_json ex rid stage name value retention =
     (let dir = path_join [sx_artifact_root ex, rid, stage]; path = path_join [dir, name @ ''.json'']
      in m_then (m_wrap ''create artifact dir'' (sx_mkdir_all ex dir))
        (m_bind (m_wrap (''encode artifact '' @ name) (m_lift (sx_marshal ex (artifact_schema name) path value))) (\<lambda>data.
         m_then (m_wrap (''write artifact '' @ name) (sx_write_file ex path data))
           (m_ret \<lparr>af_name = name, af_uri = path, af_digest = ''sha256:'' @ sx_sha256 ex data,
              af_producer_stage = stage, af_retention_policy = retention,
              af_metadata = Some [(''size'', JNum (of_nat (length data)))]\<rparr>))))"

subsection \<open>Materialized repositories\<close>

text \<open>The sandbox and the list of repositories grow together.\<close>

type_synonym grants = "sandbox \<times> json list"

definition grant_component_access :: "string \<Rightarrow> delivery_component \<Rightarrow> sandbox \<Rightarrow> sandbox" where
  "grant_component_access dir component sb =
     (if dir = [] then sb
      else let patterns = mutable_patterns (component_rules_for component (sb_write_as sb));
               reason = sb_write_as sb @ '' component '' @ dc_name component;
               s1 = (if patterns \<noteq> [] \<and> allows_writable (sb_permissions sb) StageSurfaceComponents
                     then sb_allow_patterns dir patterns reason sb else sb)
           in if allows_repo_control (sb_permissions sb) StageSurfaceComponents
              then sb_allow_repo_control dir reason s1 else s1)"

definition component_repo :: "'x executor \<Rightarrow> string \<Rightarrow> delivery_component \<Rightarrow> grants \<Rightarrow> ('x, grants) go" where
  "component_repo ex rid component g =
     m_bind (m_wrap (''materialize component repo '' @ rt_project_path (dc_repo component))
         (ensure_run_repo (sx_repos ex) rid (dc_repo component))) (\<lambda>(dir, status).
       m_ret (grant_component_access dir component (fst g),
         snd g @ [JObj [(''type'', JStr ''component''), (''name'', JStr (dc_name component)),
           (''project_path'', JStr (rt_project_path (dc_repo component))), (''path'', JStr dir),
           (''status'', JStr status)]]))"

definition grant_journal :: "string \<Rightarrow> string \<Rightarrow> bool \<Rightarrow> sandbox \<Rightarrow> sandbox" where
  "grant_journal dir path generator sb =
     (if dir = [] then sb
      else let pattern = (if trim_space path = [] then ''**'' else trim_char CHR ''/'' path @ ''/**'');
               s1 = sb_allow_patterns dir [pattern] ''run-scoped journal repo''
                 (sb_allow_repo_control dir ''run-scoped journal repo'' sb)
           in if generator
              then sb_allow_patterns dir [path_join [trim_char CHR ''/'' path, ''generated''] @ ''/**'']
                ''run-scoped generator outputs'' s1
              else s1)"

definition journal_repo :: "'x executor \<Rightarrow> stage_spec \<Rightarrow> run_request \<Rightarrow> grants \<Rightarrow> ('x, grants) go" where
  "journal_repo ex spec run g =
     (let target = dt_journal (wo_delivery (run_work_order run)); repo = jt_repo target
      in if rt_project_path repo = [] then m_ret g
         else m_bind (m_wrap (''materialize journal repo '' @ rt_project_path repo)
             (ensure_run_repo (sx_repos ex) (run_id run) repo)) (\<lambda>(dir, status).
           m_ret (grant_journal dir (jt_path target) (write_as_identity spec = ExecutionIdentityGenerator) (fst g),
             snd g @ [JObj [(''type'', JStr ''journal''), (''project_path'', JStr (rt_project_path repo)),
               (''path'', JStr dir), (''status'', JStr status)]])))"

definition grant_gitops :: "string \<Rightarrow> string \<Rightarrow> string \<Rightarrow> sandbox \<Rightarrow> sandbox" where
  "grant_gitops dir path env_name sb =
     (if dir = [] then sb
      else sb_allow_patterns dir [trim_char CHR ''/'' path @ ''/**''] (''run-scoped gitops repo '' @ env_name)
        (sb_allow_repo_control dir (''run-scoped gitops repo '' @ env_name) sb))"

definition gitops_repo :: "'x executor \<Rightarrow> stage_spec \<Rightarrow> run_request \<Rightarrow> grants \<Rightarrow> ('x, grants) go" where
  "gitops_repo ex spec run g =
     (let env_name = spec_environment spec; target = et_gitops_repo (run_environment_target run env_name)
      in if env_name = []
         then m_err (''stage '' @ ss_name spec @ '' requested gitops materialization without runtime.environment'')
         else m_bind (m_wrap (''materialize gitops repo '' @ gt_project_path target)
             (ensure_run_repo (sx_repos ex) (run_id run)
               \<lparr>rt_project_path = gt_project_path target, rt_default_branch = gt_promotion_branch target,
                rt_working_branch_prefix = ''autodev'', rt_ref = gt_ref target,
                rt_materialization_path = gt_materialization_path target\<rparr>)) (\<lambda>(dir, status).
           m_ret (grant_gitops dir (gt_path target) env_name (fst g),
             snd g @ [JObj [(''type'', JStr ''gitops''), (''environment'', JStr env_name),
               (''project_path'', JStr (gt_project_path target)), (''path'', JStr dir), (''status'', JStr status)]])))"

definition initialize_stage_repos ::
  "'x executor \<Rightarrow> stage_spec \<Rightarrow> run_request \<Rightarrow> sandbox \<Rightarrow> ('x, grants) go" where
  "initialize_stage_repos ex spec run sb =
     m_bind (if materialized_surface spec StageSurfaceComponents
         then m_fold (component_repo ex (run_id run)) (selected_delivery_components (wo_delivery (run_work_order run))) (sb, [])
         else m_ret (sb, [])) (\<lambda>g1.
     m_bind (if materialized_surface spec StageSurfaceJournal then journal_repo ex spec run g1 else m_ret g1) (\<lambda>g2.
       if materialized_surface spec StageSurfaceGitOps then gitops_repo ex spec run g2 else m_ret g2))"

subsection \<open>Invariants\<close>

definition blocking_invariants :: "ranked_invariant list \<Rightarrow> ranked_invariant list" where
  "blocking_invariants rs = filter (\<lambda>r. ai_enforcement_mode (rk_invariant r) = ''block'') rs"

definition advisory_invariants :: "ranked_invariant list \<Rightarrow> ranked_invariant list" where
  "advisory_invariants rs = take 5 (filter (\<lambda>r. ai_enforcement_mode (rk_invariant r) \<noteq> ''block'') rs)"

definition load_invariant_context :: "'x executor \<Rightarrow> stage_spec \<Rightarrow> run_request \<Rightarrow> ('x, json) go" where
  "load_invariant_context ex spec run =
     (case sx_ranker ex of
        None \<Rightarrow> m_err (''ratchet backend is required for stage '' @ ss_name spec)
      | Some ranker \<Rightarrow>
          m_bind (ranker \<lparr>rq_stage = ss_name spec, rq_repo_scope = repo_scope run,
              rq_environment = spec_environment spec, rq_service_scope = service_scope run, rq_limit = 0\<rparr>) (\<lambda>rs.
            m_ret (JObj [(''stage'', JStr (ss_name spec)),
              (''scope'', JObj [(''repo'', JStr (repo_scope run)), (''environment'', JStr (spec_environment spec)),
                 (''service'', JStr (service_scope run))]),
              (''blocking'', sx_json ex (D_ranked (blocking_invariants rs))),
              (''top_relevant'', sx_json ex (D_ranked (advisory_invariants rs))),
              (''total_candidates'', JNum (of_nat (length rs))),
              (''selection_strategy'', JStr ''global-invariants-with-stage-stats''),
              (''advisory_limit'', JNum 5), (''blocking_always_included'', JBool True)])))"

subsection \<open>The plan of the run and the image it pins\<close>

definition executor_plan :: "'x executor \<Rightarrow> run_request \<Rightarrow> ('x, pipeline_execution_plan) go" where
  "executor_plan ex run =
     (let missing = ''run '' @ run_id run @ '' missing materialized pipeline execution plan''
      in if trim_space (sx_work_order_repo ex) = [] then m_err missing
         else (case gm_get (pipeline_artifact_paths run) ''pipeline_execution_plan'' of
             None \<Rightarrow> m_err missing
           | Some rel \<Rightarrow>
               if rel = [] then m_err missing
               else m_bind (m_wrap (''load pipeline execution plan for run '' @ run_id run)
                   (sx_read_plan ex (path_join [sx_work_order_repo ex, rel]) ''pipeline-execution-plan.schema.json'')) (\<lambda>plan.
                 if pep_stages plan = [] then m_err (''run '' @ run_id run @ '' pipeline execution plan has no stages'')
                 else m_ret plan)))"

definition stage_catalog_for_run :: "'x executor \<Rightarrow> run_request \<Rightarrow> ('x, stage_spec list) go" where
  "stage_catalog_for_run ex run = m_bind (executor_plan ex run) (\<lambda>plan. m_ret (plan_specs (Some plan)))"

definition stage_names_from_specs :: "stage_spec list \<Rightarrow> string list" where
  "stage_names_from_specs specs = filter (\<lambda>n. trim_space n \<noteq> []) (map ss_name specs)"

definition check_image ::
  "run_request \<Rightarrow> string \<Rightarrow> runtime_image \<Rightarrow> pipeline_execution_stage \<Rightarrow> string + runtime_image" where
  "check_image run stage im st =
     (let here = ''run '' @ run_id run @ '' stage '' @ stage
      in if trim_space (pes_image st) = [] \<or> trim_space (pes_image_digest st) = []
           then Inl (here @ '' missing runtime image reference or digest'')
         else if pes_image st \<noteq> ri_ref im
           then Inl (here @ '' image_ref mismatch: plan='' @ pes_image st @ '' derived='' @ ri_ref im)
         else if pes_image_digest st \<noteq> ri_digest im
           then Inl (here @ '' image_digest mismatch: plan='' @ pes_image_digest st @ '' derived='' @ ri_digest im)
         else Inr im)"

definition runtime_image_for_stage ::
  "'x executor \<Rightarrow> run_request \<Rightarrow> string \<Rightarrow> runtime_image gomap \<Rightarrow> ('x, runtime_image) go" where
  "runtime_image_for_stage ex run stage derived =
     m_bind (executor_plan ex run) (\<lambda>plan.
     m_bind (case gm_get derived stage of
         Some im \<Rightarrow> m_ret im
       | None \<Rightarrow> m_wrap (''derive runtime image for stage '' @ stage) (resolve_runtime_image (sx_docker ex) stage)) (\<lambda>im.
       case find (\<lambda>st. pes_name st = stage) (pep_stages plan) of
         None \<Rightarrow> m_err (''run '' @ run_id run @ '' pipeline execution plan missing stage '' @ stage)
       | Some st \<Rightarrow> m_lift (check_image run stage im st)))"

end
