(* ===== verification/Executor.thy ===== *)
theory Executor
  imports StageInputs
begin

section \<open>Executing a stage (internal/runner/runner.go)\<close>

text \<open>
  \<open>ExecuteWithProgress\<close>: the inputs of the stage are prepared, its container is run, its result is
  checked against the success criteria of its specification, and the artifacts are stored.  The run of
  the container is one step; the reports of progress that the source makes while it runs are made here
  before it (\<open>polls\<close> of them) and after it.  A panic (\<open>mustPlan\<close>) is an error here.
\<close>

subsection \<open>Timing and statistics\<close>

record phase_timer =
  pt_last :: time
  pt_timings :: "substage_timing list"

text \<open>Times are in nanoseconds.\<close>

definition milliseconds :: "int \<Rightarrow> int" where
  "milliseconds d = max 0 d div 1000000"

definition mark :: "'x executor \<Rightarrow> string \<Rightarrow> phase_timer \<Rightarrow> ('x, phase_timer) go" where
  "mark ex name t = m_bind (m_ask (sx_now ex)) (\<lambda>now.
     m_ret \<lparr>pt_last = now, pt_timings = pt_timings t @
       [\<lparr>sst_name = name, sst_duration_ms = milliseconds (now - pt_last t)\<rparr>]\<rparr>)"

definition report_evidence_count :: "stage_evidence \<Rightarrow> int" where
  "report_evidence_count r =
     (if er_outputs r = [] then 0
      else case Option.bind (jget_obj (er_outputs r) ''release_bundle'') (\<lambda>b. jget_arr b ''evidence'') of
          Some evidence \<Rightarrow> int (length evidence)
        | None \<Rightarrow> int (length (er_outputs r)))"

definition estimate_attempt_stats ::
  "'x executor \<Rightarrow> stage_spec \<Rightarrow> stage_attempt \<Rightarrow> time \<Rightarrow> int \<Rightarrow> substage_timing list \<Rightarrow> ('x, attempt_stats) go" where
  "estimate_attempt_stats ex spec attempt started evidence substages =
     m_bind (m_ask (sx_now ex)) (\<lambda>now. m_ret (zero_attempt_stats\<lparr>as_stage := ss_name spec,
       as_worker_id := att_worker_id attempt, as_duration_ms := milliseconds (now - started),
       as_substages := substages, as_evidence_count := evidence\<rparr>))"

subsection \<open>Progress\<close>

definition state_summary :: "stage_state \<Rightarrow> string" where
  "state_summary st =
     (if trim_space (sts_summary st) \<noteq> [] then trim_space (sts_summary st)
      else join_with '' '' ((if sts_state st \<noteq> [] then [''state='' @ sts_state st] else []) @
        (if sts_step st \<noteq> [] then [''step='' @ sts_step st] else [])))"

definition state_metadata :: "stage_state \<Rightarrow> jmap" where
  "state_metadata st =
     (let put = (\<lambda>k v m. if trim_space v \<noteq> [] then gm_put k (JStr v) m else m)
      in put ''status'' (sts_status st) (put ''current_step'' (sts_step st) (put ''current_state'' (sts_state st)
           (case sts_metadata st of None \<Rightarrow> [] | Some m \<Rightarrow> m))))"

type_synonym 'x progress = "string \<Rightarrow> jmap \<Rightarrow> 'x \<Rightarrow> 'x"

text \<open>Reports the state file when it differs from the last one reported.\<close>

definition emit_stage_state :: "'x executor \<Rightarrow> string \<Rightarrow> 'x progress \<Rightarrow> string \<Rightarrow> ('x, string) go" where
  "emit_stage_state ex path progress seen =
     m_bind (m_try (sx_read_text ex path)) (\<lambda>payload. case payload of
         Inl _ \<Rightarrow> m_ret seen
       | Inr digest \<Rightarrow>
           if digest = [] \<or> digest = seen then m_ret seen
           else m_bind (m_try (sx_read_state ex path)) (\<lambda>st. case st of
               Inl _ \<Rightarrow> m_ret seen
             | Inr s \<Rightarrow> m_then (m_modify (progress (state_summary s) (state_metadata s))) (m_ret digest)))"

primrec poll_states :: "nat \<Rightarrow> 'x executor \<Rightarrow> string \<Rightarrow> 'x progress \<Rightarrow> string \<Rightarrow> ('x, string) go" where
  "poll_states 0 ex path progress seen = m_ret seen"
| "poll_states (Suc n) ex path progress seen =
     m_bind (emit_stage_state ex path progress seen) (poll_states n ex path progress)"

definition run_entrypoint :: "'x executor \<Rightarrow> stage_spec \<Rightarrow> string \<Rightarrow> runtime_image \<Rightarrow> ('x, unit) go" where
  "run_entrypoint ex spec rid im =
     (if ss_entrypoint spec = [] then m_err (''stage '' @ ss_name spec @ '' has no entrypoint configured'')
      else if \<not> sx_has_env ex
        then m_err (''stage '' @ ss_name spec @ '' requires a container execution environment'')
      else docker_run (sx_docker ex) spec rid im)"

definition run_with_progress ::
  "'x executor \<Rightarrow> nat \<Rightarrow> 'x progress option \<Rightarrow> stage_spec \<Rightarrow> string \<Rightarrow> runtime_image \<Rightarrow> ('x, unit) go" where
  "run_with_progress ex polls progress spec rid im =
     (let msg = ''run stage entrypoint for '' @ ss_name spec;
          path = path_join [stage_dir_of ex rid (ss_name spec), ''state.json'']
      in case progress of
           None \<Rightarrow> m_wrap msg (run_entrypoint ex spec rid im)
         | Some p \<Rightarrow>
             m_bind (poll_states polls ex path p []) (\<lambda>seen.
             m_bind (m_try (run_entrypoint ex spec rid im)) (\<lambda>r.
             m_bind (emit_stage_state ex path p seen) (\<lambda>_.
               case r of
                 Inl e \<Rightarrow> m_err (msg @ '': '' @ e)
               | Inr _ \<Rightarrow> m_bind (emit_stage_state ex path p []) (\<lambda>_. m_ret ())))))"

subsection \<open>Success criteria\<close>

record contract_validation =
  cvl_passed :: bool
  cvl_violations :: "string list"
  cvl_checked_at :: time
  cvl_criteria :: stage_success_criteria

definition criteria_violations :: "stage_success_criteria \<Rightarrow> stage_output \<Rightarrow> stage_evidence \<Rightarrow> string list" where
  "criteria_violations c res rep =
     (let expected = trim_space (ssc_result_status c); got = trim_space (so_status res)
      in (if expected \<noteq> [] \<and> got \<noteq> expected
          then [''expected result status '' @ fmt_q expected @ '', got '' @ fmt_q got] else []) @
         (if ssc_require_summary c \<and> trim_space (so_summary res) = []
          then [''result summary is required but empty''] else []) @
         map (\<lambda>k. ''missing required output '' @ fmt_q (trim_space k))
           (filter (\<lambda>k. gm_get (so_outputs res) (trim_space k) = None) (ssc_required_outputs c)) @
         map (\<lambda>k. ''missing required report metadata '' @ fmt_q (trim_space k))
           (filter (\<lambda>k. gm_get (er_metadata rep) (trim_space k) = None) (ssc_required_report_meta c)))"

definition validate_success_criteria ::
  "stage_spec \<Rightarrow> stage_output \<Rightarrow> stage_evidence \<Rightarrow> time \<Rightarrow> contract_validation" where
  "validate_success_criteria spec res rep now =
     (let c = success_criteria_contract spec
      in if trim_space (so_status res) = AttemptStatusBlocked
         then \<lparr>cvl_passed = True, cvl_violations = [], cvl_checked_at = now, cvl_criteria = c\<rparr>
         else let v = criteria_violations c res rep
              in \<lparr>cvl_passed = (v = []), cvl_violations = v, cvl_checked_at = now, cvl_criteria = c\<rparr>)"

definition violation_summary :: "string list \<Rightarrow> string" where
  "violation_summary v =
     (if v = [] then ''Stage contract validation failed.''
      else ''Stage contract validation failed: '' @ join_with ''; '' v)"

definition validation_json :: "'x executor \<Rightarrow> contract_validation \<Rightarrow> json" where
  "validation_json ex v =
     JObj ([(''passed'', JBool (cvl_passed v))] @
       (if cvl_violations v = [] then [] else [(''violations'', jstrs (cvl_violations v))]) @
       [(''checked_at'', JTime (cvl_checked_at v)), (''criteria'', sx_json ex (D_criteria (cvl_criteria v)))])"

definition evidence_json :: "stage_evidence \<Rightarrow> json" where
  "evidence_json r =
     JObj [(''schema_version'', JStr (er_schema_version r)), (''run_id'', JStr (er_run_id r)),
       (''issue_id'', JStr (er_issue_id r)), (''stage'', JStr (er_stage r)),
       (''attempt'', JNum (of_int (er_attempt r))), (''status'', JStr (er_status r)),
       (''summary'', JStr (er_summary r)), (''outputs'', JObj (er_outputs r)),
       (''metadata'', JObj (er_metadata r)), (''created_at'', JTime (er_created_at r))]"

text \<open>The validation is recorded, and a violation turns the result into a failure.\<close>

definition judge ::
  "'x executor \<Rightarrow> stage_spec \<Rightarrow> time \<Rightarrow> stage_output \<times> stage_evidence \<Rightarrow> stage_output \<times> stage_evidence" where
  "judge ex spec now rr =
     (let (res, rep) = rr; v = validate_success_criteria spec res rep now;
          rep = rep\<lparr>er_metadata := gm_put ''contract_validation'' (validation_json ex v) (er_metadata rep)\<rparr>;
          res = res\<lparr>so_outputs := gm_put ''contract_validation'' (validation_json ex v)
            (gm_put ''stage_metadata'' (JObj (er_metadata rep)) (so_outputs res))\<rparr>
      in (if cvl_passed v then res
          else res\<lparr>so_status := AttemptStatusFailed, so_summary := violation_summary (cvl_violations v),
            so_next := failure_stages spec\<rparr>, rep))"

subsection \<open>Inputs\<close>

record stage_inputs =
  si_sandbox :: sandbox
  si_outputs :: jmap
  si_invariants :: json
  si_secrets :: "secret_value list"
  si_timer :: phase_timer

definition base_outputs ::
  "'x executor \<Rightarrow> stage_spec \<Rightarrow> run_request \<Rightarrow> stage_attempt \<Rightarrow> delivery_issue \<Rightarrow>
   secret_value list \<Rightarrow> sandbox \<Rightarrow> time \<Rightarrow> jmap" where
  "base_outputs ex spec run attempt issue secrets sb now =
     (let wo = run_work_order run; target = wo_delivery wo
      in [(''stage'', JStr (ss_name spec)), (''run_id'', JStr (run_id run)), (''attempt_id'', JStr (att_id attempt)),
          (''issue_id'', JStr (di_id issue)), (''issue_title'', JStr (di_title issue)),
          (''work_order'', sx_json ex (D_work_order wo)), (''requested_outcome'', JStr (wo_requested_outcome wo)),
          (''application_repo'', sx_json ex (D_repo (dt_application_repo target))),
          (''selected_components'', jstrs (selected_component_names target)),
          (''ordered_selected_components'', jstrs (ordered_selected_component_names target)),
          (''components'', sx_json ex (D_components (selected_delivery_components target))),
          (''environments'', sx_json ex (D_environments (dt_environments target))),
          (''release'', sx_json ex (D_release (dt_release target))),
          (''tooling_repo'', sx_json ex (D_tooling (ss_tooling_repo spec))),
          (''container'', sx_json ex (D_container (container_config spec))),
          (''success_criteria'', sx_json ex (D_criteria (success_criteria_contract spec))),
          (''timestamp'', JTime now), (''resolved_secrets'', secret_metadata secrets),
          (''runtime_isolation'', sandbox_summary ex sb)])"

definition prepare_inputs ::
  "'x executor \<Rightarrow> stage_spec \<Rightarrow> run_request \<Rightarrow> stage_attempt \<Rightarrow> delivery_issue \<Rightarrow> time \<Rightarrow> ('x, stage_inputs) go" where
  "prepare_inputs ex spec run attempt issue started =
     (let sb = new_sandbox (sx_root_dir ex) (sx_data_dir ex) (sx_repo_roots ex) spec run
      in m_bind (m_wrap (''resolve stage secrets for '' @ ss_name spec) (resolve_all ex (ss_allowed_secrets spec))) (\<lambda>secrets.
         m_bind (mark ex ''resolve_secrets'' \<lparr>pt_last = started, pt_timings = []\<rparr>) (\<lambda>t1.
         m_then (prepare_workspace ex sb (run_id run) spec)
        (m_bind (mark ex ''prepare_workspace'' t1) (\<lambda>t2.
         m_bind (m_ask (sx_now ex)) (\<lambda>now.
         m_bind (initialize_stage_repos ex spec run sb) (\<lambda>(sb', repos).
         m_bind (m_wrap (''load stage invariants for '' @ ss_name spec) (load_invariant_context ex spec run)) (\<lambda>inv.
         m_bind (mark ex ''load_invariants'' t2) (\<lambda>t3.
           m_ret \<lparr>si_sandbox = sb', si_outputs = gm_put ''invariants'' inv (gm_put ''materialized_repos'' (JArr repos)
                (base_outputs ex spec run attempt issue secrets sb now)),
              si_invariants = inv, si_secrets = secrets, si_timer = t3\<rparr>)))))))))"

definition images_json :: "runtime_image gomap \<Rightarrow> json" where
  "images_json images = JObj (map (\<lambda>(k, im). (k, JObj [(''stage'', JStr (ri_stage im)), (''image'', JStr (ri_ref im)),
     (''digest'', JStr (ri_digest im))])) images)"

definition must_plan :: "'x executor \<Rightarrow> stage_spec \<Rightarrow> ('x, operation_step list) go" where
  "must_plan ex spec = m_wrap ''panic'' (m_lift (orchestration_plan (sx_decode_steps ex) spec))"

definition context_payload ::
  "'x executor \<Rightarrow> stage_spec \<Rightarrow> run_request \<Rightarrow> stage_attempt \<Rightarrow> delivery_issue \<Rightarrow> stage_inputs \<Rightarrow>
   operation_step list \<Rightarrow> stage_spec list \<Rightarrow> runtime_image gomap \<Rightarrow> json" where
  "context_payload ex spec run attempt issue inp steps catalog images =
     (let ws = stage_dir_of ex (run_id run) (ss_name spec)
      in JObj [(''schema_version'', JStr ''autodev-stage-context-v1''),
        (''stage'', JObj [(''name'', JStr (ss_name spec)), (''operation'', JStr (ss_operation spec)),
           (''operation_plan'', sx_json ex (D_plan steps)), (''runtime'', sx_json ex (D_runtime (ss_runtime spec))),
           (''container'', sx_json ex (D_container (container_config spec))),
           (''tooling_repo'', sx_json ex (D_tooling (ss_tooling_repo spec))),
           (''prompt_file'', JStr (ss_prompt_file spec)),
           (''success_criteria'', sx_json ex (D_criteria (success_criteria_contract spec)))]),
        (''run'', sx_json ex (D_run run)), (''attempt'', sx_json ex (D_attempt attempt)),
        (''issue'', sx_json ex (D_issue issue)), (''work_order'', sx_json ex (D_work_order (run_work_order run))),
        (''invariants'', si_invariants inp), (''resolved_secrets'', secret_metadata (si_secrets inp)),
        (''runtime_isolation'', sandbox_summary ex (si_sandbox inp)),
        (''materialized_repos'', gm_get_or JNull (si_outputs inp) ''materialized_repos''),
        (''pipeline_contract'', JObj [(''stage_catalog'', sx_json ex (D_catalog catalog)),
           (''pipeline_catalog'', case sx_pipeline_catalog ex of None \<Rightarrow> JNull | Some [] \<Rightarrow> JNull | Some m \<Rightarrow> JObj m),
           (''runtime_images'', images_json images)]),
        (''paths'', JObj [(''workspace'', JStr ws), (''prompt'', JStr (path_join [ws, ''prompt.md''])),
           (''tooling'', JStr (path_join [ws, ''tooling''])), (''secrets_dir'', JStr (path_join [ws, ''secrets''])),
           (''work_order_repo'', JStr (sx_work_order_repo ex)),
           (''artifact_dir'', JStr (path_join [sx_data_dir ex, ''artifacts'']))])])"

subsection \<open>Execution\<close>

definition default_output :: "stage_spec \<Rightarrow> jmap \<Rightarrow> stage_output" where
  "default_output spec outputs =
     \<lparr>so_status = AttemptStatusSucceeded, so_summary = summary_text spec, so_outputs = outputs,
      so_next = next_stages spec\<rparr>"

definition default_evidence ::
  "stage_spec \<Rightarrow> run_request \<Rightarrow> stage_attempt \<Rightarrow> delivery_issue \<Rightarrow> jmap \<Rightarrow> time \<Rightarrow> stage_evidence" where
  "default_evidence spec run attempt issue outputs now =
     \<lparr>er_schema_version = ''autodev-container-report-v1'', er_run_id = run_id run, er_issue_id = di_id issue,
      er_stage = ss_name spec, er_attempt = att_attempt attempt, er_status = AttemptStatusSucceeded,
      er_summary = summary_text spec, er_outputs = outputs, er_metadata = [], er_created_at = now\<rparr>"

definition load_workspace :: "(string \<Rightarrow> string \<Rightarrow> 'a \<Rightarrow> ('x, 'a) go) \<Rightarrow> 'x executor \<Rightarrow> string \<Rightarrow> string \<Rightarrow> string \<Rightarrow> 'a \<Rightarrow> ('x, 'a) go" where
  "load_workspace load ex rid stage name dest =
     m_wrap (''load workspace '' @ rid @ ''/'' @ stage @ ''/'' @ name)
       (load (path_join [stage_dir_of ex rid stage, name]) (workspace_schema name) dest)"

definition output_artifact_payload :: "jmap \<Rightarrow> string \<Rightarrow> json option" where
  "output_artifact_payload outputs source =
     (let s = trim_space source
      in if s \<in> set pipeline_plan_keys then gm_get outputs s
         else if s = ''manifest'' then
           (case gm_get outputs ''release_manifest'' of
              Some m \<Rightarrow> Some m
            | None \<Rightarrow> Option.bind (jget_obj outputs ''release_bundle'') (\<lambda>b. gm_get b ''manifest''))
         else None)"

fun put_outputs ::
  "'x executor \<Rightarrow> stage_spec \<Rightarrow> string \<Rightarrow> jmap \<Rightarrow> stage_output_artifact list \<Rightarrow> ('x, artifact_ref list) go" where
  "put_outputs ex spec rid outputs [] = m_ret []"
| "put_outputs ex spec rid outputs (a # as) =
     (case output_artifact_payload outputs (soa_source a) of
        None \<Rightarrow> put_outputs ex spec rid outputs as
      | Some payload \<Rightarrow>
          m_bind (put_json ex rid (ss_name spec) (soa_name a) payload (ap_retention (ss_artifact_policy spec))) (\<lambda>r.
          m_bind (put_outputs ex spec rid outputs as) (\<lambda>rs. m_ret (r # rs))))"

definition store_artifacts ::
  "'x executor \<Rightarrow> stage_spec \<Rightarrow> string \<Rightarrow> stage_result \<Rightarrow> stage_evidence \<Rightarrow> jmap \<Rightarrow> ('x, artifact_ref list) go" where
  "store_artifacts ex spec rid result rep outputs =
     (let put = (\<lambda>name v. put_json ex rid (ss_name spec) name v (ap_retention (ss_artifact_policy spec)))
      in m_bind (put ''result'' (sx_json ex (D_result result))) (\<lambda>a1.
         m_bind (put ''evidence'' (evidence_json rep)) (\<lambda>a2.
         m_bind (put ''stats'' (sx_json ex (D_stats (sres_stats result)))) (\<lambda>a3.
         m_bind (put_outputs ex spec rid outputs (sr_output_artifacts (ss_runtime spec))) (\<lambda>rest.
           m_ret (a1 # a2 # a3 # rest))))))"

definition conclude_stage ::
  "'x executor \<Rightarrow> stage_spec \<Rightarrow> run_request \<Rightarrow> stage_attempt \<Rightarrow> time \<Rightarrow> stage_inputs \<Rightarrow> phase_timer \<Rightarrow>
   stage_output \<times> stage_evidence \<Rightarrow> ('x, stage_result \<times> artifact_ref list) go" where
  "conclude_stage ex spec run attempt started inp t5 rr =
     m_bind (m_wrap ''encode stage outputs'' (m_lift (sx_encode ex (so_outputs (fst rr))))) (\<lambda>bytes.
     m_bind (estimate_attempt_stats ex spec attempt started (report_evidence_count (snd rr)) (pt_timings t5)) (\<lambda>stats.
     m_bind (mark ex ''compute_stats'' t5) (\<lambda>_.
       (let result = \<lparr>sres_status = trim_space (so_status (fst rr)), sres_summary = trim_space (so_summary (fst rr)),
              sres_outputs = bytes, sres_next_signals = so_next (fst rr), sres_stats = stats\<rparr>;
            evidence = (snd rr)\<lparr>er_status := sres_status result, er_summary := sres_summary result,
              er_outputs := so_outputs (fst rr)\<rparr>
        in m_then (m_wrap ''write stage stats'' (write_workspace_json ex (si_sandbox inp) (run_id run)
               (ss_name spec) ''stats.json'' (sx_json ex (D_stats stats))))
          (m_bind (store_artifacts ex spec (run_id run) result evidence (so_outputs (fst rr))) (\<lambda>arts.
             m_ret (result\<lparr>sres_stats := stats\<lparr>as_artifact_count := int (length arts)\<rparr>\<rparr>, arts)))))))"

text \<open>What follows the run of the container: its files are read, judged and stored.\<close>

definition take_result ::
  "'x executor \<Rightarrow> stage_spec \<Rightarrow> run_request \<Rightarrow> stage_attempt \<Rightarrow> time \<Rightarrow> stage_inputs \<Rightarrow> phase_timer \<Rightarrow>
   stage_output \<times> stage_evidence \<Rightarrow> ('x, stage_result \<times> artifact_ref list) go" where
  "take_result ex spec run attempt started inp t4 defaults =
     m_bind (load_workspace (sx_load_result ex) ex (run_id run) (ss_name spec) ''result.json'' (fst defaults)) (\<lambda>loaded.
     m_bind (load_workspace (sx_load_report ex) ex (run_id run) (ss_name spec) ''report.json'' (snd defaults)) (\<lambda>report.
     m_bind (mark ex ''ingest_outputs'' t4) (\<lambda>t5.
     m_bind (m_ask (sx_now ex)) (\<lambda>checked.
       conclude_stage ex spec run attempt started inp t5 (judge ex spec checked (loaded, report))))))"

definition execute_with_progress ::
  "'x executor \<Rightarrow> nat \<Rightarrow> 'x progress option \<Rightarrow> stage_spec \<Rightarrow> run_request \<Rightarrow> stage_attempt \<Rightarrow> delivery_issue \<Rightarrow>
   ('x, stage_result \<times> artifact_ref list) go" where
  "execute_with_progress ex polls progress spec run attempt issue =
     m_bind (m_ask (sx_now ex)) (\<lambda>started.
     m_bind (prepare_inputs ex spec run attempt issue started) (\<lambda>inp.
     m_bind (stage_catalog_for_run ex run) (\<lambda>catalog.
     m_bind (resolve_runtime_images (sx_docker ex) (stage_names_from_specs catalog)) (\<lambda>images.
     m_bind (runtime_image_for_stage ex run (ss_name spec) images) (\<lambda>im.
     m_bind (must_plan ex spec) (\<lambda>steps.
     m_then (m_wrap ''write invariant context'' (write_workspace_json ex (si_sandbox inp) (run_id run) (ss_name spec)
         ''invariants.json'' (si_invariants inp)))
    (m_then (m_wrap ''write stage context'' (write_workspace_json ex (si_sandbox inp) (run_id run) (ss_name spec)
         ''context.json'' (context_payload ex spec run attempt issue inp steps catalog images)))
    (m_bind (mark ex ''write_contract_inputs'' (si_timer inp)) (\<lambda>t3.
     m_bind (m_ask (sx_now ex)) (\<lambda>created.
     m_then (run_with_progress ex polls progress spec (run_id run) im)
    (m_bind (mark ex ''run_container_contract'' t3) (\<lambda>t4.
       take_result ex spec run attempt started inp t4
         (default_output spec (si_outputs inp),
          default_evidence spec run attempt issue (si_outputs inp) created)))))))))))))"

definition execute_stage ::
  "'x executor \<Rightarrow> stage_spec \<Rightarrow> run_request \<Rightarrow> stage_attempt \<Rightarrow> delivery_issue \<Rightarrow>
   ('x, stage_result \<times> artifact_ref list) go" where
  "execute_stage ex = execute_with_progress ex 0 None"

end
