(* ===== verification/ExecutorProps.thy ===== *)
theory ExecutorProps
  imports Executor
begin

section \<open>Properties of stage execution\<close>

text \<open>
  A stage is judged by its criteria, runs the image its plan pins, and is granted no more than pattern
  access to the repositories of its run.
\<close>

subsection \<open>The image\<close>

lemma m_lift_ok: "m_lift r w = (Inr y, w') \<longleftrightarrow> r = Inr y \<and> w' = w"
  by (auto simp: m_lift_def)

lemma m_ask_ok: "m_ask f w = (Inr y, w') \<longleftrightarrow> f w = (y, w')"
  by (auto simp: m_ask_def split: prod.splits)

lemma check_image_ok:
  "check_image run stage im st = Inr im' \<longleftrightarrow> im' = im \<and> trim_space (pes_image st) \<noteq> [] \<and>
     trim_space (pes_image_digest st) \<noteq> [] \<and> pes_image st = ri_ref im \<and> pes_image_digest st = ri_digest im"
  by (auto simp: check_image_def Let_def)

definition pinned :: "pipeline_execution_plan \<Rightarrow> string \<Rightarrow> runtime_image \<Rightarrow> bool" where
  "pinned plan stage im \<longleftrightarrow>
     (\<exists>st. find (\<lambda>st. pes_name st = stage) (pep_stages plan) = Some st \<and> trim_space (ri_ref im) \<noteq> [] \<and>
        trim_space (ri_digest im) \<noteq> [] \<and> pes_image st = ri_ref im \<and> pes_image_digest st = ri_digest im)"

lemma runtime_image_pinned:
  assumes "runtime_image_for_stage ex run stage derived x = (Inr im, x')"
  shows "\<exists>plan x1. executor_plan ex run x = (Inr plan, x1) \<and> pinned plan stage im"
proof -
  obtain plan x1 im0 x2 where p: "executor_plan ex run x = (Inr plan, x1)"
    and f: "(case find (\<lambda>st. pes_name st = stage) (pep_stages plan) of
         None \<Rightarrow> m_err (''run '' @ run_id run @ '' pipeline execution plan missing stage '' @ stage)
       | Some st \<Rightarrow> m_lift (check_image run stage im0 st)) x2 = (Inr im, x')"
    using assms unfolding runtime_image_for_stage_def m_bind_ok by blast
  then show ?thesis
    by (cases "find (\<lambda>st. pes_name st = stage) (pep_stages plan)")
      (auto simp: m_err_ok m_lift_ok check_image_ok pinned_def)
qed

lemma run_with_progress_ok:
  assumes "run_with_progress ex polls progress spec rid im x = (Inr (), x')"
  shows "\<exists>y y'. docker_run (sx_docker ex) spec rid im y = (Inr (), y')"
proof -
  have "\<exists>y y'. run_entrypoint ex spec rid im y = (Inr (), y')"
  proof (cases progress)
    case None
    then show ?thesis using assms by (auto simp: run_with_progress_def m_wrap_ok)
  next
    case (Some p)
    then obtain y r y' z where r: "m_try (run_entrypoint ex spec rid im) y = (Inr r, y')"
      and c: "(case r of
                 Inl e \<Rightarrow> m_err ((''run stage entrypoint for '' @ ss_name spec) @ '': '' @ e)
               | Inr _ \<Rightarrow> m_bind (emit_stage_state ex (path_join [stage_dir_of ex rid (ss_name spec), ''state.json'']) p [])
                   (\<lambda>_. m_ret ())) z = (Inr (), x')"
      using assms unfolding run_with_progress_def Let_def Some option.case m_bind_ok by blast
    from c have "\<not> isl r" by (cases r) (auto simp: m_err_ok)
    then show ?thesis using r by (cases r) (auto simp: m_try_def prod_eq_iff)
  qed
  then show ?thesis by (auto simp: run_entrypoint_def m_err_ok split: if_splits)
qed

subsection \<open>The result\<close>

lemma put_json_ok:
  "put_json ex rid stage name v ret x = (Inr a, x') \<Longrightarrow> af_name a = name \<and> af_producer_stage a = stage"
  by (auto simp: put_json_def Let_def m_ok)

lemma store_artifacts_ok:
  "store_artifacts ex spec rid result rep outputs x = (Inr arts, x') \<Longrightarrow>
   3 \<le> length arts \<and> map af_name (take 3 arts) = [''result'', ''evidence'', ''stats'']"
  by (auto simp: store_artifacts_def Let_def m_ok numeral_3_eq_3 dest!: put_json_ok)

text \<open>How a result follows from what the container reported.\<close>

definition judged :: "stage_spec \<Rightarrow> stage_output \<Rightarrow> stage_evidence \<Rightarrow> stage_result \<Rightarrow> bool" where
  "judged spec out rep r \<longleftrightarrow>
     (let v = criteria_violations (success_criteria_contract spec) out rep
      in if trim_space (so_status out) = AttemptStatusBlocked \<or> v = []
         then sres_status r = trim_space (so_status out) \<and> sres_summary r = trim_space (so_summary out) \<and>
           sres_next_signals r = so_next out
         else sres_status r = AttemptStatusFailed \<and> sres_summary r = trim_space (violation_summary v) \<and>
           sres_next_signals r = failure_stages spec)"

lemma failed_trim: "trim_space AttemptStatusFailed = AttemptStatusFailed"
  by code_simp

lemma judge_judged:
  assumes "judge ex spec now (out, rep) = (res, rep')"
    and "sres_status r = trim_space (so_status res)" and "sres_summary r = trim_space (so_summary res)"
    and "sres_next_signals r = so_next res"
  shows "judged spec out rep r"
proof (cases "cvl_passed (validate_success_criteria spec out rep now)")
  case True
  then have "so_status res = so_status out" "so_summary res = so_summary out" "so_next res = so_next out"
    using assms(1) by (auto simp: judge_def Let_def)
  then show ?thesis using True assms(2-4)
    by (auto simp: judged_def validate_success_criteria_def Let_def split: if_splits)
next
  case False
  then have "so_status res = AttemptStatusFailed" "so_next res = failure_stages spec"
      "so_summary res = violation_summary (cvl_violations (validate_success_criteria spec out rep now))"
    using assms(1) by (auto simp: judge_def Let_def)
  then show ?thesis using False assms(2-4)
    by (auto simp: judged_def validate_success_criteria_def Let_def failed_trim split: if_splits)
qed

lemma take_result_ok:
  assumes "take_result ex spec run attempt started inp t4 defaults x = (Inr (r, arts), x')"
  shows "\<exists>out rep y y' z z'.
    load_workspace (sx_load_result ex) ex (run_id run) (ss_name spec) ''result.json'' (fst defaults) y = (Inr out, y') \<and>
    load_workspace (sx_load_report ex) ex (run_id run) (ss_name spec) ''report.json'' (snd defaults) z = (Inr rep, z') \<and>
    judged spec out rep r \<and> as_artifact_count (sres_stats r) = int (length arts) \<and>
    map af_name (take 3 arts) = [''result'', ''evidence'', ''stats'']"
proof -
  obtain out y' rep z' checked t5 z2 where l:
      "load_workspace (sx_load_result ex) ex (run_id run) (ss_name spec) ''result.json'' (fst defaults) x = (Inr out, y')"
      "load_workspace (sx_load_report ex) ex (run_id run) (ss_name spec) ''report.json'' (snd defaults) y' = (Inr rep, z')"
    and c: "conclude_stage ex spec run attempt started inp t5 (judge ex spec checked (out, rep)) z2 = (Inr (r, arts), x')"
    using assms unfolding take_result_def m_bind_ok by blast
  obtain res rep' where j: "judge ex spec checked (out, rep) = (res, rep')" by fastforce
  have rest: "\<exists>stats result evidence u u'.
       store_artifacts ex spec (run_id run) result evidence (so_outputs res) u = (Inr arts, u') \<and>
       r = result\<lparr>sres_stats := stats\<lparr>as_artifact_count := int (length arts)\<rparr>\<rparr> \<and>
       sres_status result = trim_space (so_status res) \<and> sres_summary result = trim_space (so_summary res) \<and>
       sres_next_signals result = so_next res"
    using c unfolding j by (auto simp: conclude_stage_def Let_def m_bind_ok m_then_ok m_ret_ok) force
  from rest obtain stats result evidence u u' where
      s: "store_artifacts ex spec (run_id run) result evidence (so_outputs res) u = (Inr arts, u')"
      "r = result\<lparr>sres_stats := stats\<lparr>as_artifact_count := int (length arts)\<rparr>\<rparr>"
      "sres_status result = trim_space (so_status res)" "sres_summary result = trim_space (so_summary res)"
      "sres_next_signals result = so_next res" by blast
  have "judged spec out rep r" by (rule judge_judged [OF j]) (use s in simp_all)
  then show ?thesis using l s store_artifacts_ok [OF s(1)] by auto
qed


subsection \<open>The grants\<close>

text \<open>The repositories a stage works on: those of the surfaces it materializes.\<close>

definition stage_targets :: "stage_spec \<Rightarrow> run_request \<Rightarrow> repo_target list" where
  "stage_targets spec run =
     (let target = wo_delivery (run_work_order run); gitops = et_gitops_repo (run_environment_target run (spec_environment spec))
      in (if materialized_surface spec StageSurfaceComponents then map dc_repo (selected_delivery_components target) else []) @
         (if materialized_surface spec StageSurfaceJournal then [jt_repo (dt_journal target)] else []) @
         (if materialized_surface spec StageSurfaceGitOps
          then [\<lparr>rt_project_path = gt_project_path gitops, rt_default_branch = gt_promotion_branch gitops,
                 rt_working_branch_prefix = ''autodev'', rt_ref = gt_ref gitops,
                 rt_materialization_path = gt_materialization_path gitops\<rparr>]
          else []))"

text \<open>\<open>grants_within roots sb sb'\<close>: what \<open>sb'\<close> allows beyond \<open>sb\<close> are patterns below one of the roots.\<close>

definition grants_within :: "string set \<Rightarrow> sandbox \<Rightarrow> sandbox \<Rightarrow> bool" where
  "grants_within roots sb sb' \<longleftrightarrow>
     sb_write_as sb' = sb_write_as sb \<and> sb_permissions sb' = sb_permissions sb \<and>
     sb_workspace_root sb' = sb_workspace_root sb \<and>
     (\<forall>sc \<in> set (sb_writable_scopes sb'). sc \<in> set (sb_writable_scopes sb) \<or>
        \<not> scp_allow_all sc \<and> scp_root sc \<in> roots) \<and>
     set (gm_keys (sb_repo_control_roots sb')) \<subseteq> set (gm_keys (sb_repo_control_roots sb)) \<union> roots"

lemma grants_refl: "grants_within roots sb sb"
  by (simp add: grants_within_def)

lemma grants_trans: "grants_within R sb1 sb2 \<Longrightarrow> grants_within R sb2 sb3 \<Longrightarrow> grants_within R sb1 sb3"
  unfolding grants_within_def by (auto 4 3)

lemma grants_patterns: "path_clean dir \<in> R \<Longrightarrow> grants_within R sb (sb_allow_patterns dir ps reason sb)"
  by (auto simp: grants_within_def sb_allow_patterns_def Let_def)

lemma grants_control: "path_clean dir \<in> R \<Longrightarrow> grants_within R sb (sb_allow_repo_control dir reason sb)"
  by (auto simp: grants_within_def sb_allow_repo_control_def Let_def)

lemma grants_component: "path_clean dir \<in> R \<Longrightarrow> grants_within R sb (grant_component_access dir c sb)"
  unfolding grant_component_access_def Let_def
  by (auto intro: grants_refl grants_patterns grants_control grants_trans [OF grants_patterns grants_control])

lemma grants_journal: "path_clean dir \<in> R \<Longrightarrow> grants_within R sb (grant_journal dir path gen sb)"
  unfolding grant_journal_def Let_def
  by (auto intro!: grants_refl grants_trans [OF grants_control grants_patterns]
      grants_trans [OF grants_trans [OF grants_control grants_patterns] grants_patterns])

lemma grants_gitops: "path_clean dir \<in> R \<Longrightarrow> grants_within R sb (grant_gitops dir path e sb)"
  unfolding grant_gitops_def
  by (auto intro!: grants_refl grants_trans [OF grants_control grants_patterns])

definition target_roots :: "string \<Rightarrow> repo_target list \<Rightarrow> string set" where
  "target_roots rid ts = {path_clean (run_repo_path rid t) | t. t \<in> set ts \<and> run_repo_path rid t \<noteq> []}"

lemma component_grants:
  assumes "component_repo ex rid c g x = (Inr g', x')" and "target_roots rid [dc_repo c] \<subseteq> R"
  shows "grants_within R (fst g) (fst g')"
proof -
  obtain dir st where e: "ensure_run_repo (sx_repos ex) rid (dc_repo c) x = (Inr (dir, st), x')"
    and g: "fst g' = grant_component_access dir c (fst g)"
    using assms(1) by (auto simp: component_repo_def m_ok)
  have "path_clean dir \<in> R"
    using ensure_run_repo_path [OF e] assms(2) by (auto simp: target_roots_def)
  then show ?thesis unfolding g by (rule grants_component)
qed

lemma components_grants:
  "m_fold (component_repo ex rid) cs g x = (Inr g', x') \<Longrightarrow> target_roots rid (map dc_repo cs) \<subseteq> R \<Longrightarrow>
   grants_within R (fst g) (fst g')"
proof (induction cs arbitrary: g x)
  case Nil
  then show ?case by (simp add: m_ret_ok grants_refl)
next
  case (Cons c cs)
  obtain g1 x1 where c: "component_repo ex rid c g x = (Inr g1, x1)"
    and cs: "m_fold (component_repo ex rid) cs g1 x1 = (Inr g', x')"
    using Cons.prems(1) by (auto simp: m_bind_ok)
  have "target_roots rid [dc_repo c] \<subseteq> R" "target_roots rid (map dc_repo cs) \<subseteq> R"
    using Cons.prems(2) by (auto simp: target_roots_def)
  then show ?case using component_grants [OF c] Cons.IH [OF cs] grants_trans by blast
qed

lemma journal_grants:
  assumes "journal_repo ex spec run g x = (Inr g', x')"
    and "target_roots (run_id run) [jt_repo (dt_journal (wo_delivery (run_work_order run)))] \<subseteq> R"
  shows "grants_within R (fst g) (fst g')"
proof (cases "rt_project_path (jt_repo (dt_journal (wo_delivery (run_work_order run)))) = []")
  case True
  then show ?thesis using assms(1) by (simp add: journal_repo_def m_ret_ok grants_refl)
next
  case False
  let ?j = "dt_journal (wo_delivery (run_work_order run))"
  obtain dir st where e: "ensure_run_repo (sx_repos ex) (run_id run) (jt_repo ?j) x = (Inr (dir, st), x')"
    and g: "fst g' = grant_journal dir (jt_path ?j) (write_as_identity spec = ExecutionIdentityGenerator) (fst g)"
    using assms(1) False by (auto simp: journal_repo_def Let_def m_ok)
  have "path_clean dir \<in> R"
    using ensure_run_repo_path [OF e] assms(2) by (auto simp: target_roots_def)
  then show ?thesis unfolding g by (rule grants_journal)
qed

lemma gitops_grants:
  assumes "gitops_repo ex spec run g x = (Inr g', x')"
    and "target_roots (run_id run) [\<lparr>rt_project_path = gt_project_path t, rt_default_branch = gt_promotion_branch t,
           rt_working_branch_prefix = ''autodev'', rt_ref = gt_ref t,
           rt_materialization_path = gt_materialization_path t\<rparr>] \<subseteq> R"
    and t: "t = et_gitops_repo (run_environment_target run (spec_environment spec))"
  shows "grants_within R (fst g) (fst g')"
proof -
  obtain dir st where e: "ensure_run_repo (sx_repos ex) (run_id run)
        \<lparr>rt_project_path = gt_project_path t, rt_default_branch = gt_promotion_branch t,
           rt_working_branch_prefix = ''autodev'', rt_ref = gt_ref t,
           rt_materialization_path = gt_materialization_path t\<rparr> x = (Inr (dir, st), x')"
    and g: "fst g' = grant_gitops dir (gt_path t) (spec_environment spec) (fst g)"
    using assms(1) unfolding t by (auto simp: gitops_repo_def Let_def m_ok split: if_splits)
  have "path_clean dir \<in> R"
    using ensure_run_repo_path [OF e] assms(2) by (auto simp: target_roots_def)
  then show ?thesis unfolding g by (rule grants_gitops)
qed

text \<open>
  C32: what materialization grants.  The sandbox of a stage keeps its identity, its permissions and its
  workspace when the repositories of the run are materialized; every write scope it gains is a set of
  patterns, never a whole directory, and every write scope and controlled repository it gains is at the
  materialization path of a target that the stage's surfaces name.
\<close>

theorem materialization_grants_confined:
  assumes "initialize_stage_repos ex spec run sb x = (Inr (sb', repos), x')"
  shows "grants_within (target_roots (run_id run) (stage_targets spec run)) sb sb'"
proof -
  let ?R = "target_roots (run_id run) (stage_targets spec run)"
  let ?c = "materialized_surface spec StageSurfaceComponents" and ?j = "materialized_surface spec StageSurfaceJournal"
    and ?g = "materialized_surface spec StageSurfaceGitOps"
  obtain g1 x1 g2 x2 where
      c: "(if ?c then m_fold (component_repo ex (run_id run)) (selected_delivery_components (wo_delivery (run_work_order run))) (sb, [])
           else m_ret (sb, [])) x = (Inr g1, x1)"
    and j: "(if ?j then journal_repo ex spec run g1 else m_ret g1) x1 = (Inr g2, x2)"
    and g: "(if ?g then gitops_repo ex spec run g2 else m_ret g2) x2 = (Inr (sb', repos), x')"
    using assms unfolding initialize_stage_repos_def m_bind_ok by blast
  have roots: "ts \<subseteq> set (stage_targets spec run) \<Longrightarrow>
      {path_clean (run_repo_path (run_id run) t) | t. t \<in> ts \<and> run_repo_path (run_id run) t \<noteq> []} \<subseteq> ?R" for ts
    unfolding target_roots_def by blast
  have 1: "grants_within ?R sb (fst g1)"
  proof (cases ?c)
    case True
    have "target_roots (run_id run) (map dc_repo (selected_delivery_components (wo_delivery (run_work_order run)))) \<subseteq> ?R"
      unfolding target_roots_def [of _ "map _ _"] using True by (intro roots) (auto simp: stage_targets_def Let_def)
    then show ?thesis using components_grants c True by fastforce
  next
    case False
    then show ?thesis using c by (auto simp: m_ret_ok grants_refl)
  qed
  have 2: "grants_within ?R (fst g1) (fst g2)"
  proof (cases ?j)
    case True
    have "target_roots (run_id run) [jt_repo (dt_journal (wo_delivery (run_work_order run)))] \<subseteq> ?R"
      unfolding target_roots_def [of _ "[_]"] using True by (intro roots) (auto simp: stage_targets_def Let_def)
    then show ?thesis using journal_grants j True by simp
  next
    case False
    then show ?thesis using j by (auto simp: m_ret_ok grants_refl)
  qed
  have 3: "grants_within ?R (fst g2) sb'"
  proof (cases ?g)
    case True
    let ?t = "et_gitops_repo (run_environment_target run (spec_environment spec))"
    have "target_roots (run_id run) [\<lparr>rt_project_path = gt_project_path ?t, rt_default_branch = gt_promotion_branch ?t,
           rt_working_branch_prefix = ''autodev'', rt_ref = gt_ref ?t,
           rt_materialization_path = gt_materialization_path ?t\<rparr>] \<subseteq> ?R"
      unfolding target_roots_def [of _ "[_]"] using True by (intro roots) (auto simp: stage_targets_def Let_def)
    then show ?thesis using gitops_grants [OF _ _ refl] g True by fastforce
  next
    case False
    then show ?thesis using g by (auto simp: m_ret_ok grants_refl)
  qed
  show ?thesis using 1 2 3 grants_trans by blast
qed

end
