(* ===== verification/ExecutorWitness.thy ===== *)
theory ExecutorWitness
  imports ExecutorProps
begin

section \<open>A stage that violates its contract\<close>

text \<open>
  The stage must produce \<open>change_set\<close>; its container reports success without it.  Its plan materializes
  the journal of the run.
\<close>

definition contract_spec :: stage_spec where
  "contract_spec = zero_stage_spec\<lparr>ss_name := ''implement'', ss_operation := ''orchestrate'', ss_entrypoint := [''run''],
     ss_runtime := zero_stage_runtime\<lparr>sr_summary := ''Implements.'',
       sr_success_criteria := \<lparr>ssc_result_status = ''succeeded'', ssc_require_summary = False,
         ssc_required_outputs = [''change_set''], ssc_required_report_meta = []\<rparr>,
       sr_transitions := \<lparr>st_on_success = [''deploy''], st_on_failure = [''rollback'']\<rparr>\<rparr>,
     ss_container := zero_stage_container\<lparr>sc_write_as := ExecutionIdentityGenerator,
       sc_materialize := [StageSurfaceJournal]\<rparr>\<rparr>"

definition contract_target :: delivery_target where
  "contract_target = zero_delivery_target\<lparr>dt_journal := zero_journal_target\<lparr>jt_path := ''runs'',
     jt_repo := zero_repo_target\<lparr>rt_project_path := ''g/journal'', rt_ref := ''main'',
       rt_materialization_path := ''/d/repos/{run_id}/journal''\<rparr>\<rparr>\<rparr>"

definition contract_run :: run_request where
  "contract_run = zero_run_request\<lparr>run_id := ''r1'',
     run_work_order := zero_work_order\<lparr>wo_id := ''w'', wo_delivery := contract_target\<rparr>\<rparr>"

definition contract_plan :: pipeline_execution_plan where
  "contract_plan = \<lparr>pep_schema_version = [], pep_run_id = [], pep_issue_id = [],
     pep_work_order_id = [], pep_issue_type = [], pep_pipeline_family = [],
     pep_pipeline_selection = [], pep_optimization_goals = [], pep_testing = zero_testing_policy,
     pep_delivery_name = [], pep_checkpoint = [],
     pep_stages = [plan_stage contract_spec
       \<lparr>ri_stage = ''implement'', ri_ref = ''autodev-stage-implement:current'', ri_digest = ''sha256:1''\<rparr>]\<rparr>"

definition contract_docker :: "unit docker_env" where
  "contract_docker = \<lparr>de_data_dir = ''/d'', de_cwd = ''/'', de_read_context = (\<lambda>_. m_err ''none''),
     de_stat = (\<lambda>_ s. (Stat_found, s)), de_mkdir_all = (\<lambda>_. m_ret ()), de_docker = (\<lambda>_. m_ret ()),
     de_output = (\<lambda>args s. ((None, if last args = ''{{.Id}}'' then ''sha256:1'' else ''[]''), s)),
     de_string_list = (\<lambda>_. Inl [])\<rparr>"

definition contract_executor :: "unit executor" where
  "contract_executor =
     \<lparr>sx_root_dir = ''/srv/app'', sx_data_dir = ''/d'', sx_cwd = ''/'', sx_repo_roots = [],
      sx_work_order_repo = ''/j'', sx_artifact_root = ''/d/artifacts'', sx_pipeline_catalog = None, sx_has_env = True,
      sx_docker = contract_docker,
      sx_repos = \<lparr>re_root_dir = ''/srv/app'', re_roots = [], re_is_dir = (\<lambda>p x. (True, x)),
        re_present = (\<lambda>p x. (False, x)), re_mkdir_all = (\<lambda>p. m_ret ()), re_remove_all = (\<lambda>p. m_ret ()),
        re_git = (\<lambda>d args. m_ret [])\<rparr>,
      sx_ranker = Some (\<lambda>q. m_ret []), sx_secrets = [], sx_now = (\<lambda>x. (0, x)),
      sx_read_plan = (\<lambda>p s. m_ret contract_plan), sx_read_text = (\<lambda>p. m_ret []),
      sx_read_state = (\<lambda>p. m_err ''none''), sx_load_result = (\<lambda>p s. m_ret), sx_load_report = (\<lambda>p s. m_ret),
      sx_marshal = (\<lambda>s n j. Inr ''{}''), sx_encode = (\<lambda>m. Inr ''{}''), sx_mkdir_all = (\<lambda>p. m_ret ()),
      sx_write_file = (\<lambda>p d. m_ret ()), sx_sha256 = (\<lambda>d. ''0''), sx_json = (\<lambda>d. JNull),
      sx_decode_steps = (\<lambda>m. Inr [])\<rparr>"

definition contract_exec :: "(string + stage_result \<times> artifact_ref list) \<times> unit" where
  "contract_exec = execute_with_progress contract_executor 0 None contract_spec contract_run zero_stage_attempt
     zero_delivery_issue ()"

lemma contract_violated:
  "(case fst contract_exec of
      Inr (r, arts) \<Rightarrow> sres_status r = ''failed'' \<and> sres_next_signals r = [''rollback''] \<and> length arts = 3
    | Inl _ \<Rightarrow> False)"
  by code_simp


definition contract_sandbox :: sandbox where
  "contract_sandbox = new_sandbox ''/srv/app'' ''/d'' [] contract_spec contract_run"

lemma contract_repos:
  "(case fst (initialize_stage_repos contract_executor contract_spec contract_run contract_sandbox ()) of
      Inr (sb, repos) \<Rightarrow> map scp_root (sb_writable_scopes sb) =
        [''/d/workspaces/r1/implement'', ''/d/repos/r1/journal'', ''/d/repos/r1/journal'']
    | Inl _ \<Rightarrow> False)"
  by code_simp

theorem materialization_grants_confined_witness:
  "\<exists>sb repos. initialize_stage_repos contract_executor contract_spec contract_run contract_sandbox () =
       (Inr (sb, repos), ()) \<and>
     grants_within (target_roots ''r1'' (stage_targets contract_spec contract_run)) contract_sandbox sb"
proof -
  obtain res where c: "initialize_stage_repos contract_executor contract_spec contract_run contract_sandbox () = (res, ())"
    by (cases "initialize_stage_repos contract_executor contract_spec contract_run contract_sandbox ()") simp
  obtain sb repos where r: "res = Inr (sb, repos)"
    using contract_repos unfolding c fst_conv by (auto split: sum.splits)
  have "run_id contract_run = ''r1''" by (simp add: contract_run_def)
  then show ?thesis using materialization_grants_confined [OF c [unfolded r]] c r by auto
qed

end
