(* ===== verification/Config.thy ===== *)
theory Config
  imports Materialize
begin

section \<open>Configuration: stage specifications, the catalog and the environment (internal/config, internal/configsource, internal/app)\<close>

text \<open>
  Stage specifications are read from the JSON files of a directory and checked one by one; the first
  bad one ends the loading.  Reading the directory and the files, validating against a JSON schema and
  decoding are parameters.
\<close>

record 'x config_env =
  ce_home :: string
  ce_cwd :: string
  ce_read_dir :: "string \<Rightarrow> ('x, (string \<times> bool) list) go"
  ce_read_file :: "string \<Rightarrow> ('x, string) go"
  ce_validate :: "string \<Rightarrow> string \<Rightarrow> string \<Rightarrow> string + unit"
  ce_decode_spec :: "string \<Rightarrow> string + stage_spec"
  ce_decode_steps :: "jmap \<Rightarrow> string + operation_step list"
  ce_decode_map :: "string \<Rightarrow> string + jmap option"

subsection \<open>Checking a specification\<close>

definition StageQueueModeAuto :: string where "StageQueueModeAuto = ''auto''"
definition StageQueueModeTriggered :: string where "StageQueueModeTriggered = ''triggered''"

definition path_ext :: "string \<Rightarrow> string" where
  "path_ext name =
     (let r = takeWhile (\<lambda>c. c \<noteq> CHR ''.'' \<and> c \<noteq> CHR ''/'') (rev name); rest = drop (length r) (rev name)
      in case rest of c # _ \<Rightarrow> if c = CHR ''.'' then CHR ''.'' # rev r else [] | [] \<Rightarrow> [])"

definition require :: "bool \<Rightarrow> string \<Rightarrow> string + unit \<Rightarrow> string + unit" where
  "require ok msg rest = (if ok then rest else Inl msg)"

fun check_steps :: "string \<Rightarrow> int \<Rightarrow> operation_step list \<Rightarrow> string + unit" where
  "check_steps path i [] = Inr ()"
| "check_steps path i (s # ss) =
     require (os_command s \<noteq> []) (''spec '' @ path @ '' step '' @ fmt_d (i + 1) @ '' missing command'')
      (require (list_all (\<lambda>item. trim_space item \<noteq> []) (os_command s))
         (''spec '' @ path @ '' step '' @ fmt_d (i + 1) @ '' has empty command element'')
        (check_steps path (i + 1) ss))"

definition check_container :: "string \<Rightarrow> stage_spec \<Rightarrow> string + unit \<Rightarrow> string + unit" where
  "check_container path spec rest =
     (let c = container_config spec
      in require (identity_valid (sc_run_as c)) (''spec '' @ path @ '' missing valid container.run_as'')
        (require (identity_valid (sc_write_as c)) (''spec '' @ path @ '' missing valid container.write_as'')
        (require (sp_network (sc_permissions c) \<noteq> []) (''spec '' @ path @ '' missing container.permissions.network'')
        (require (ru_mode (sp_runtime_user (sc_permissions c)) \<noteq> [])
           (''spec '' @ path @ '' missing container.permissions.runtime_user.mode'') rest))))"

definition check_stats :: "string \<Rightarrow> stage_spec \<Rightarrow> string + unit \<Rightarrow> string + unit" where
  "check_stats path spec rest =
     (let s = sr_stats (ss_runtime spec)
      in require (trim_space (ssp_model s) \<noteq> []) (''spec '' @ path @ '' missing runtime.stats.model'')
        (require (ssp_tool_calls s > 0) (''spec '' @ path @ '' missing runtime.stats.tool_calls'')
        (require (ssp_tooling_usd s > 0) (''spec '' @ path @ '' missing runtime.stats.tooling_usd'')
        (require (ssp_expected_artifacts s > 0) (''spec '' @ path @ '' missing runtime.stats.expected_artifacts'') rest))))"

definition check_operation ::
  "(jmap \<Rightarrow> string + operation_step list) \<Rightarrow> string \<Rightarrow> stage_spec \<Rightarrow> string + unit \<Rightarrow> string + unit" where
  "check_operation decode path spec rest =
     require (ss_name spec \<noteq> []) (''spec '' @ path @ '' missing stage name'')
    (require (trim_space (ss_operation spec) \<noteq> []) (''spec '' @ path @ '' missing stage operation'')
    (require (trim_space (ss_operation spec) = ''orchestrate'')
       (''spec '' @ path @ '' must use operation '' @ fmt_q ''orchestrate'' @ '', got '' @
        fmt_q (trim_space (ss_operation spec)))
      (case orchestration_plan decode spec of
         Inl e \<Rightarrow> Inl (''decode operation plan '' @ path @ '': '' @ e)
       | Inr steps \<Rightarrow>
           require (steps \<noteq> []) (''spec '' @ path @ '' missing orchestration steps'')
             (case check_steps path 0 steps of Inl e \<Rightarrow> Inl e | Inr _ \<Rightarrow> rest))))"

definition check_spec ::
  "(jmap \<Rightarrow> string + operation_step list) \<Rightarrow> string \<Rightarrow> stage_spec \<Rightarrow> string + unit" where
  "check_spec decode path spec =
     check_operation decode path spec
    (require (summary_text spec \<noteq> []) (''spec '' @ path @ '' missing runtime summary'')
    (require (queue_mode spec \<noteq> []) (''spec '' @ path @ '' missing runtime.queue_mode'')
    (require (queue_mode spec = StageQueueModeAuto \<or> queue_mode spec = StageQueueModeTriggered)
       (''spec '' @ path @ '' has invalid runtime.queue_mode '' @ fmt_q (queue_mode spec))
    (check_container path spec (check_stats path spec
    (require (\<not> (ssc_require_summary (success_criteria_contract spec) \<and> summary_text spec = []))
       (''spec '' @ path @ '' requires a summary but provides none'') (Inr ())))))))"

subsection \<open>Loading\<close>

definition load_spec :: "'x config_env \<Rightarrow> string \<Rightarrow> ('x, stage_spec) go" where
  "load_spec env path =
     m_bind (m_wrap (''read spec '' @ path) (ce_read_file env path)) (\<lambda>data.
     m_bind (m_lift (ce_validate env ''stage-spec.schema.json'' path data)) (\<lambda>_.
     m_bind (m_wrap (''decode spec '' @ path) (m_lift (ce_decode_spec env data))) (\<lambda>spec.
     m_bind (m_lift (check_spec (ce_decode_steps env) path spec)) (\<lambda>_. m_ret spec))))"

definition spec_entry :: "string \<times> bool \<Rightarrow> bool" where
  "spec_entry e \<longleftrightarrow> \<not> snd e \<and> path_ext (fst e) = ''.json''"

fun load_entries :: "'x config_env \<Rightarrow> string \<Rightarrow> (string \<times> bool) list \<Rightarrow> ('x, stage_spec list) go" where
  "load_entries env dir [] = m_ret []"
| "load_entries env dir (e # es) =
     (if \<not> spec_entry e then load_entries env dir es
      else m_bind (load_spec env (path_join [dir, fst e])) (\<lambda>spec.
        m_bind (load_entries env dir es) (\<lambda>specs. m_ret (spec # specs))))"

definition load_stage_specs :: "'x config_env \<Rightarrow> string \<Rightarrow> ('x, stage_spec list) go" where
  "load_stage_specs env dir =
     m_bind (m_wrap ''read specs dir'' (ce_read_dir env dir)) (\<lambda>entries.
     m_bind (load_entries env dir entries) (\<lambda>specs. m_ret (sort_key ss_name specs)))"

definition config_root :: "'x config_env \<Rightarrow> string" where
  "config_root env = path_join [ce_home env, ''.autodev/config'']"

definition load_configured_specs :: "'x config_env \<Rightarrow> ('x, stage_spec list) go" where
  "load_configured_specs env = load_stage_specs env (path_join [config_root env, ''stage-specs''])"

definition pipeline_catalog_path :: "'x config_env \<Rightarrow> string" where
  "pipeline_catalog_path env = path_join [config_root env, ''pipelines'', ''catalog.json'']"

definition load_pipeline_catalog :: "'x config_env \<Rightarrow> ('x, jmap) go" where
  "load_pipeline_catalog env =
     m_bind (m_wrap ''read pipeline catalog'' (ce_read_file env (pipeline_catalog_path env))) (\<lambda>data.
     m_bind (m_lift (ce_validate env ''pipeline-catalog.schema.json'' (pipeline_catalog_path env) data)) (\<lambda>_.
     m_bind (m_lift (ce_decode_map env data)) (\<lambda>catalog.
       case catalog of
         Some (e # es) \<Rightarrow> m_ret (e # es)
       | _ \<Rightarrow> m_err ''pipeline catalog is empty'')))"

subsection \<open>The environment\<close>

record app_file =
  af_root_dir :: string
  af_data_dir :: string
  af_work_order_repo :: string
  af_repo_roots :: "string list"
  af_smoke_secrets :: string
  af_token_name :: string
  af_keychain_service :: string

record app_paths =
  ae_root_dir :: string
  ae_data_dir :: string
  ae_state_dir :: string
  ae_artifact_dir :: string
  ae_gitlab_dir :: string
  ae_work_order_repo :: string
  ae_smoke_secrets :: string
  ae_repo_roots :: "string list"

definition resolve_path :: "string \<Rightarrow> string \<Rightarrow> string" where
  "resolve_path base value = (if path_rooted value then path_clean value else path_clean (path_join [base, value]))"

definition validate_app :: "string \<Rightarrow> app_file \<Rightarrow> string + unit" where
  "validate_app path f =
     require (af_root_dir f \<noteq> []) (''config '' @ path @ '' must set paths.root_dir'')
    (require (af_data_dir f \<noteq> []) (''config '' @ path @ '' must set paths.data_dir'')
    (require (af_work_order_repo f \<noteq> []) (''config '' @ path @ '' must set paths.work_order_repo'')
    (require (af_token_name f \<noteq> []) (''config '' @ path @ '' must set gitlab.token_name'')
    (require (af_keychain_service f \<noteq> []) (''config '' @ path @ '' must set secrets.local_keychain_service'')
      (Inr ())))))"

definition prepare_resolved :: "string \<Rightarrow> app_file \<Rightarrow> app_paths" where
  "prepare_resolved path f =
     (let base = path_dir path; data = resolve_path base (af_data_dir f)
      in \<lparr>ae_root_dir = resolve_path base (af_root_dir f), ae_data_dir = data,
          ae_state_dir = path_join [data, ''state''], ae_artifact_dir = path_join [data, ''artifacts''],
          ae_gitlab_dir = path_join [data, ''gitlab''],
          ae_work_order_repo = resolve_path base (af_work_order_repo f),
          ae_smoke_secrets = (if af_smoke_secrets f \<noteq> [] then resolve_path base (af_smoke_secrets f) else []),
          ae_repo_roots = map (resolve_path base) (af_repo_roots f)\<rparr>)"

definition validate_contract_files :: "'x config_env \<Rightarrow> ('x, unit) go" where
  "validate_contract_files env =
     m_bind (load_pipeline_catalog env) (\<lambda>_. m_bind (load_configured_specs env) (\<lambda>_. m_ret ()))"

definition load_app :: "'x config_env \<Rightarrow> (string \<Rightarrow> string + app_file) \<Rightarrow> string \<Rightarrow> ('x, app_paths) go" where
  "load_app env decode path =
     (let abs_path = path_abs (ce_cwd env) path
      in m_bind (m_wrap (''read config '' @ abs_path) (ce_read_file env abs_path)) (\<lambda>data.
         m_bind (m_lift (ce_validate env ''config.schema.json'' abs_path data)) (\<lambda>_.
         m_bind (m_wrap (''decode config '' @ abs_path) (m_lift (decode data))) (\<lambda>f.
         m_bind (m_lift (validate_app abs_path f)) (\<lambda>_.
         m_bind (validate_contract_files env) (\<lambda>_. m_ret (prepare_resolved abs_path f)))))))"

subsection \<open>Properties\<close>

text \<open>What the loader promises of a specification.\<close>

definition spec_valid :: "(jmap \<Rightarrow> string + operation_step list) \<Rightarrow> stage_spec \<Rightarrow> bool" where
  "spec_valid decode spec \<longleftrightarrow>
     ss_name spec \<noteq> [] \<and> summary_text spec \<noteq> [] \<and>
     (auto_queue spec \<longleftrightarrow> queue_mode spec = StageQueueModeAuto) \<and>
     queue_mode spec \<in> {StageQueueModeAuto, StageQueueModeTriggered} \<and>
     (case orchestration_plan decode spec of
        Inl _ \<Rightarrow> False
      | Inr steps \<Rightarrow> steps \<noteq> [] \<and>
          list_all (\<lambda>s. os_command s \<noteq> [] \<and> list_all (\<lambda>i. trim_space i \<noteq> []) (os_command s)) steps) \<and>
     identity_valid (run_as_identity spec) \<and> identity_valid (write_as_identity spec) \<and>
     sp_network (sc_permissions (container_config spec)) \<noteq> [] \<and>
     ru_mode (sp_runtime_user (sc_permissions (container_config spec))) \<noteq> [] \<and>
     stats_model spec \<noteq> [] \<and> 0 < stats_tool_calls spec \<and> 0 < stats_tooling_usd spec \<and>
     0 < ssp_expected_artifacts (sr_stats (ss_runtime spec))"

lemma require_ok: "require ok msg rest = Inr () \<longleftrightarrow> ok \<and> rest = Inr ()"
  by (simp add: require_def)

lemma check_steps_ok:
  "check_steps path i ss = Inr () \<longleftrightarrow>
   list_all (\<lambda>s. os_command s \<noteq> [] \<and> list_all (\<lambda>i. trim_space i \<noteq> []) (os_command s)) ss"
  by (induction path i ss rule: check_steps.induct) (simp_all add: require_ok)

lemma orchestrated: "orchestration_plan decode spec = Inr steps \<Longrightarrow> trim_space (ss_operation spec) = ''orchestrate''"
  by (auto simp: orchestration_plan_def split: if_splits)

lemma check_operation_ok:
  "check_operation decode path spec rest = Inr () \<longleftrightarrow>
     ss_name spec \<noteq> [] \<and> rest = Inr () \<and>
     (case orchestration_plan decode spec of
        Inl _ \<Rightarrow> False
      | Inr steps \<Rightarrow> steps \<noteq> [] \<and>
          list_all (\<lambda>s. os_command s \<noteq> [] \<and> list_all (\<lambda>i. trim_space i \<noteq> []) (os_command s)) steps)"
proof (cases "orchestration_plan decode spec")
  case (Inl e)
  then show ?thesis by (simp add: check_operation_def require_ok)
next
  case (Inr steps)
  then show ?thesis using orchestrated [OF Inr] check_steps_ok [of path 0 steps]
    by (cases "check_steps path 0 steps") (auto simp: check_operation_def require_ok)
qed

lemma check_spec_ok: "check_spec decode path spec = Inr () \<longleftrightarrow> spec_valid decode spec"
proof -
  have "StageQueueModeAuto \<noteq> ''triggered'' \<and> StageQueueModeTriggered = ''triggered'' \<and>
      StageQueueModeAuto \<noteq> [] \<and> StageQueueModeTriggered \<noteq> []"
    by (simp add: StageQueueModeAuto_def StageQueueModeTriggered_def)
  then show ?thesis
    unfolding check_spec_def check_operation_ok require_ok check_container_def check_stats_def Let_def spec_valid_def
    by (auto simp: run_as_identity_def write_as_identity_def stats_model_def stats_tool_calls_def
        stats_tooling_usd_def auto_queue_def)
qed

lemma load_spec_valid: "load_spec env path x = (Inr s, x') \<Longrightarrow> spec_valid (ce_decode_steps env) s"
  using check_spec_ok [of "ce_decode_steps env" path s]
  by (auto simp: load_spec_def m_ok m_lift_def)

lemma load_entries_valid:
  "load_entries env dir es x = (Inr specs, x') \<Longrightarrow>
   list_all (spec_valid (ce_decode_steps env)) specs \<and> length specs = length (filter spec_entry es)"
  by (induction env dir es arbitrary: specs x x' rule: load_entries.induct)
    (auto simp: m_ok dest: load_spec_valid split: if_splits)

text \<open>
  C30: loaded stage specifications are well formed.  When loading succeeds, there is one specification
  for each JSON file of the directory, in the order of the names; each has a name, a summary, a plan of
  at least one step whose commands have no blank element, a defined queueing mode, identities that are
  defined, a network and a user mode, and positive resource estimates.
\<close>

theorem loaded_specs_valid:
  assumes "load_stage_specs env dir x = (Inr specs, x')"
  shows "list_all (spec_valid (ce_decode_steps env)) specs \<and> sorted (map ss_name specs) \<and>
    (\<exists>entries x1. ce_read_dir env dir x = (Inr entries, x1) \<and>
       length specs = length (filter spec_entry entries))"
proof -
  obtain entries x1 loaded where e: "ce_read_dir env dir x = (Inr entries, x1)"
      "load_entries env dir entries x1 = (Inr loaded, x')" "specs = sort_key ss_name loaded"
    using assms by (auto simp: load_stage_specs_def m_ok)
  then show ?thesis
    using load_entries_valid [OF e(2)] by (auto simp: list_all_iff)
qed

subsection \<open>A directory with one specification\<close>

definition sample_config_spec :: stage_spec where
  "sample_config_spec = zero_stage_spec\<lparr>ss_name := ''plan'', ss_operation := ''orchestrate'',
     ss_operation_config := Some [(''steps'', JArr [])],
     ss_runtime := zero_stage_runtime\<lparr>sr_queue_mode := ''auto'', sr_summary := ''Plans.'',
       sr_stats := \<lparr>ssp_model = ''m'', ssp_tool_calls = 1, ssp_tooling_usd = 1, ssp_expected_artifacts = 1\<rparr>\<rparr>,
     ss_container := zero_stage_container\<lparr>sc_run_as := ExecutionIdentityAgent, sc_write_as := ExecutionIdentityAgent,
       sc_permissions := zero_stage_permissions\<lparr>sp_network := ''none'',
         sp_runtime_user := \<lparr>ru_mode = ''container'', ru_os_user = [], ru_container_user = [], ru_enforcement = []\<rparr>\<rparr>\<rparr>\<rparr>"

definition sample_config :: "unit config_env" where
  "sample_config = \<lparr>ce_home = ''/home/a'', ce_cwd = ''/'',
     ce_read_dir = (\<lambda>d. m_ret [(''README.md'', False), (''plan.json'', False), (''old.json'', True)]),
     ce_read_file = (\<lambda>p. m_ret ''{}''), ce_validate = (\<lambda>s p d. Inr ()),
     ce_decode_spec = (\<lambda>d. Inr sample_config_spec),
     ce_decode_steps = (\<lambda>m. Inr [\<lparr>os_name = ''s'', os_command = [''make''], os_cwd = []\<rparr>]),
     ce_decode_map = (\<lambda>d. Inr None)\<rparr>"

lemma sample_config_loads: "load_stage_specs sample_config ''/specs'' () = (Inr [sample_config_spec], ())"
  by code_simp

theorem loaded_specs_valid_witness:
  "list_all (spec_valid (ce_decode_steps sample_config)) [sample_config_spec] \<and>
   (\<exists>entries x1. ce_read_dir sample_config ''/specs'' () = (Inr entries, x1) \<and>
      length [sample_config_spec] = length (filter spec_entry entries))"
  using loaded_specs_valid [OF sample_config_loads] by (simp only: simp_thms)

end
