(* ===== verification/Contracts.thy ===== *)
theory Contracts
  imports Json Paths
begin

section \<open>Contracts: validated JSON documents (internal/contracts)\<close>

text \<open>
  Reading, writing and validating JSON documents against the embedded schemas.  The schema library,
  the JSON codec and the file operations are parameters (\<open>contract_io\<close>); the order of the steps, the
  messages and the replacement of a file through a temporary one are the source's.  A decoder changes
  its target and may report an error after it did so, as \<open>json.Unmarshal\<close> does, so what is read is the
  new target and an optional error.
\<close>

record 'x contract_io =
  ci_embedded :: "string \<Rightarrow> string + string"
  ci_instance :: "string \<Rightarrow> string + json"
  ci_add :: "string \<Rightarrow> json \<Rightarrow> string + unit"
  ci_compile :: "string \<Rightarrow> string + unit"
  ci_check :: "string \<Rightarrow> json \<Rightarrow> string + unit"
  ci_parse :: "string \<Rightarrow> string + json"
  ci_marshal :: "json \<Rightarrow> string + string"
  ci_read :: "string \<Rightarrow> ('x, string) go"
  ci_write :: "string \<Rightarrow> string \<Rightarrow> ('x, unit) go"
  ci_mkdir_all :: "string \<Rightarrow> ('x, unit) go"
  ci_rename :: "string \<Rightarrow> string \<Rightarrow> ('x, unit) go"

definition schema_names :: "string list" where
  "schema_names = map (\<lambda>n. n @ ''.schema.json'')
     [''config'', ''stage-spec'', ''issue-file'', ''issue-spec'', ''pipeline-catalog'', ''persisted-state'',
      ''pipeline-intent'', ''policy-evaluation'', ''pipeline-build-plan'', ''pipeline-execution-plan'',
      ''stage-context'', ''stage-result'', ''stage-report'', ''stage-state'', ''stage-metadata'']"

definition prefixed :: "string \<Rightarrow> string + 'a \<Rightarrow> string + 'a" where
  "prefixed msg r = (case r of Inl e \<Rightarrow> Inl (msg @ '': '' @ e) | Inr v \<Rightarrow> Inr v)"

subsection \<open>Schemas\<close>

definition register_schema :: "'x contract_io \<Rightarrow> string \<Rightarrow> string + unit" where
  "register_schema ci name =
     (case prefixed (''read embedded schema '' @ name) (ci_embedded ci name) of
        Inl e \<Rightarrow> Inl e
      | Inr data \<Rightarrow>
          (case prefixed (''decode embedded schema '' @ name) (ci_instance ci data) of
             Inl e \<Rightarrow> Inl e
           | Inr doc \<Rightarrow> prefixed (''register embedded schema '' @ name) (ci_add ci name doc)))"

definition compile_schema :: "'x contract_io \<Rightarrow> string \<Rightarrow> string + unit" where
  "compile_schema ci name = prefixed (''compile embedded schema '' @ name) (ci_compile ci name)"

primrec first_error :: "('a \<Rightarrow> string + unit) \<Rightarrow> 'a list \<Rightarrow> string + unit" where
  "first_error f [] = Inr ()"
| "first_error f (n # ns) = (case f n of Inl e \<Rightarrow> Inl e | Inr _ \<Rightarrow> first_error f ns)"

definition compiled_schema :: "'x contract_io \<Rightarrow> string \<Rightarrow> string + unit" where
  "compiled_schema ci name =
     (case first_error (register_schema ci) schema_names of
        Inl e \<Rightarrow> Inl e
      | Inr _ \<Rightarrow>
          (case first_error (compile_schema ci) schema_names of
             Inl e \<Rightarrow> Inl e
           | Inr _ \<Rightarrow> if name \<in> set schema_names then Inr () else Inl (''unknown schema '' @ fmt_q name)))"

definition validate_document :: "'x contract_io \<Rightarrow> string \<Rightarrow> string \<Rightarrow> string \<Rightarrow> string + unit" where
  "validate_document ci schema doc data =
     (case compiled_schema ci schema of
        Inl e \<Rightarrow> Inl e
      | Inr _ \<Rightarrow>
          (case prefixed (doc @ '' is not valid json'') (ci_instance ci data) of
             Inl e \<Rightarrow> Inl e
           | Inr inst \<Rightarrow> prefixed (doc @ '' does not satisfy '' @ schema) (ci_check ci schema inst)))"

subsection \<open>Documents\<close>

type_synonym 'a decoder = "json \<Rightarrow> 'a \<Rightarrow> 'a \<times> string option"

definition unmarshal_contract ::
  "'x contract_io \<Rightarrow> string \<Rightarrow> string \<Rightarrow> string \<Rightarrow> 'a decoder \<Rightarrow> 'a \<Rightarrow> 'a \<times> string option" where
  "unmarshal_contract ci data schema doc dec dest =
     (case (if schema \<noteq> [] then validate_document ci schema doc data else Inr ()) of
        Inl e \<Rightarrow> (dest, Some e)
      | Inr _ \<Rightarrow>
          (case ci_parse ci data of
             Inl e \<Rightarrow> (dest, Some (''decode '' @ doc @ '': '' @ e))
           | Inr v \<Rightarrow> (case dec v dest of (t, e) \<Rightarrow> (t, map_option (\<lambda>e. ''decode '' @ doc @ '': '' @ e) e))))"

definition read_contract ::
  "'x contract_io \<Rightarrow> string \<Rightarrow> string \<Rightarrow> 'a decoder \<Rightarrow> 'a \<Rightarrow> ('x, 'a \<times> string option) go" where
  "read_contract ci path schema dec dest =
     m_bind (m_try (ci_read ci path)) (\<lambda>r. m_ret (case r of
         Inl e \<Rightarrow> (dest, Some (''read '' @ path @ '': '' @ e))
       | Inr data \<Rightarrow> unmarshal_contract ci data schema path dec dest))"

definition marshal_contract :: "'x contract_io \<Rightarrow> string \<Rightarrow> string \<Rightarrow> json \<Rightarrow> string + string" where
  "marshal_contract ci schema doc v =
     (case prefixed (''marshal '' @ doc) (ci_marshal ci v) of
        Inl e \<Rightarrow> Inl e
      | Inr text \<Rightarrow>
          (let data = text @ [CHR 0x0A]
           in case (if schema \<noteq> [] then validate_document ci schema doc data else Inr ()) of
                Inl e \<Rightarrow> Inl e
              | Inr _ \<Rightarrow> Inr data))"

definition write_contract :: "'x contract_io \<Rightarrow> string \<Rightarrow> string \<Rightarrow> json \<Rightarrow> ('x, unit) go" where
  "write_contract ci path schema v =
     m_bind (m_lift (marshal_contract ci schema path v)) (\<lambda>data.
       let tmp = path @ ''.tmp''
       in m_then (m_wrap (''create directory for '' @ path) (ci_mkdir_all ci (path_dir path)))
         (m_then (m_wrap (''write temp '' @ path) (ci_write ci tmp data))
           (m_wrap (''replace '' @ path) (ci_rename ci tmp path))))"

subsection \<open>Commits\<close>

definition is_lower_hex :: "char \<Rightarrow> bool" where
  "is_lower_hex c \<longleftrightarrow> is_digit c \<or> c \<in> set ''abcdef''"

definition validate_commit :: "string \<Rightarrow> string \<Rightarrow> string + unit" where
  "validate_commit doc data =
     (let commit = trim_space data
      in if length commit = 40 \<and> list_all is_lower_hex commit then Inr ()
         else Inl (doc @ '' must contain exactly one 40-character lowercase git commit sha''))"

subsection \<open>What a written document satisfies\<close>

lemma first_error_ok: "first_error f ns = Inr () \<longleftrightarrow> (\<forall>n \<in> set ns. f n = Inr ())"
  by (induction ns) (auto split: sum.splits)

lemma validated_known: "validate_document ci schema doc data = Inr () \<Longrightarrow> schema \<in> set schema_names"
  by (simp add: validate_document_def compiled_schema_def split: sum.splits if_splits)

text \<open>A document reaches its file only when it satisfies its schema.\<close>

lemma marshal_contract_ok:
  "marshal_contract ci schema doc v = Inr data \<Longrightarrow> schema \<noteq> [] \<Longrightarrow>
   \<exists>text. ci_marshal ci v = Inr text \<and> data = text @ [CHR 0x0A] \<and> validate_document ci schema doc data = Inr ()"
  by (auto simp: marshal_contract_def prefixed_def Let_def split: sum.splits)

lemma write_contract_valid:
  assumes "write_contract ci path schema v x = (Inr (), x')" and "schema \<noteq> []"
  shows "\<exists>text. ci_marshal ci v = Inr text \<and> validate_document ci schema path (text @ [CHR 0x0A]) = Inr () \<and>
    schema \<in> set schema_names"
proof -
  obtain data where "marshal_contract ci schema path v = Inr data"
    using assms(1) unfolding write_contract_def m_bind_ok by (auto simp: m_lift_def)
  from marshal_contract_ok [OF this assms(2)] show ?thesis using validated_known by blast
qed

text \<open>A document that does not satisfy its schema touches no file.\<close>

lemma write_contract_refused:
  assumes "marshal_contract ci schema path v = Inl e"
  shows "write_contract ci path schema v x = (Inl e, x)"
  using assms by (simp add: write_contract_def m_bind_def m_lift_def)

text \<open>What is not accepted is not decoded.\<close>

lemma unmarshal_rejected:
  assumes "schema \<noteq> []" and "validate_document ci schema doc data = Inl e"
  shows "unmarshal_contract ci data schema doc dec dest = (dest, Some e)"
  using assms by (simp add: unmarshal_contract_def)

end
