(* ===== verification/StageEntry.thy ===== *)
theory StageEntry
  imports Contracts StageInputs
begin

section \<open>The program inside a stage container (tooling/runtime/single_plane.go)\<close>

text \<open>
  The interpreter of a stage's operation plan: it reads the stage context, runs the steps one after the
  other, lets each step rewrite a working copy of the result and of the metadata, checks the success
  criteria and writes the result and the report.  The clock, the files and the processes are parameters
  (\<open>entry_env\<close>); documents are read and written through \<open>Contracts\<close>.  Nil and empty slices and maps are
  not told apart: the schemas reject a nil map, and \<open>nonNil\<close> replaces a nil slice.
\<close>

subsection \<open>Data\<close>

record plan_step =
  pst_command :: "string list"
  pst_name :: string
  pst_cwd :: string

record entry_criteria =
  ec_require_summary :: bool
  ec_required_outputs :: "string list"
  ec_required_meta :: "string list"

record entry_runtime =
  en_summary :: string
  en_on_success :: "string list"
  en_on_failure :: "string list"
  en_criteria :: entry_criteria

record entry_contract =
  ct_stage_name :: string
  ct_steps :: "plan_step list"
  ct_runtime :: entry_runtime
  ct_run_id :: string
  ct_attempt_id :: string
  ct_attempt :: int
  ct_issue_id :: string
  ct_issue_title :: string
  ct_work_order :: jmap

record plan_result =
  prs_status :: string
  prs_summary :: string
  prs_outputs :: jmap
  prs_next :: "string list"

record step_log =
  sl_timestamp :: string
  sl_event :: string
  sl_step :: string
  sl_exit_code :: "int option"
  sl_stdout :: string
  sl_stderr :: string

record transition =
  tr_timestamp :: string
  tr_state :: string
  tr_next :: string
  tr_status :: string
  tr_summary :: string

text \<open>
  The metadata is a \<open>map[string]any\<close> whose values are either slices of the program's own types or
  what decoding a document left there.
\<close>

datatype meta_value = MV_json json | MV_transitions "transition list" | MV_logs "step_log list"

type_synonym entry_meta = "meta_value gomap"

record plan_report =
  prp_schema_version :: string
  prp_run_id :: string
  prp_issue_id :: string
  prp_stage :: string
  prp_attempt :: int
  prp_status :: string
  prp_summary :: string
  prp_outputs :: jmap
  prp_metadata :: entry_meta
  prp_created_at :: string

record failure_attribution =
  fa_run_id :: string
  fa_issue_id :: string
  fa_stage :: string
  fa_attempt :: int

text \<open>How a process ended: with its exit code and what it wrote, or it could not be run.\<close>

datatype process_end = Exited int "string list" "string list" | Not_run string

record 'x entry_env =
  ee_getenv :: "string \<Rightarrow> string"
  ee_io :: "'x contract_io"
  ee_now :: "'x \<Rightarrow> string \<times> 'x"
  ee_stat :: "string \<Rightarrow> ('x, unit) go"
  ee_mkdir_temp :: "string \<Rightarrow> ('x, string) go"
  ee_remove_all :: "string \<Rightarrow> ('x, unit) go"
  ee_run :: "string list \<Rightarrow> string \<Rightarrow> string list \<Rightarrow> 'x \<Rightarrow> process_end \<times> 'x"
  ee_decode_contract :: "entry_contract decoder"
  ee_decode_attribution :: "failure_attribution decoder"
  ee_decode_map :: "jmap decoder"

abbreviation report_schema_version :: string where
  "report_schema_version \<equiv> ''autodev-stage-report-v1''"

abbreviation state_schema_version :: string where
  "state_schema_version \<equiv> ''autodev-stage-state-v2''"

abbreviation max_capture :: int where
  "max_capture \<equiv> 1048576"

subsection \<open>Small helpers\<close>

definition or_text :: "string \<Rightarrow> string \<Rightarrow> string" where
  "or_text a b = (if trim_space a \<noteq> [] then a else b)"

primrec first_non_empty :: "string list \<Rightarrow> string" where
  "first_non_empty [] = []"
| "first_non_empty (v # vs) = (if trim_space v \<noteq> [] then v else first_non_empty vs)"

fun blank :: "meta_value option \<Rightarrow> bool" where
  "blank None = True"
| "blank (Some (MV_json JNull)) = True"
| "blank (Some (MV_json (JStr s))) = (trim_space s = [])"
| "blank (Some (MV_json (JArr xs))) = (xs = [])"
| "blank (Some (MV_json (JObj m))) = (m = [])"
| "blank (Some (MV_transitions ts)) = (ts = [])"
| "blank (Some (MV_logs ls)) = (ls = [])"
| "blank (Some _) = False"

definition as_string :: "json option \<Rightarrow> string" where
  "as_string v = (case Option.bind v as_str of None \<Rightarrow> [] | Some s \<Rightarrow> s)"

text \<open>\<open>capWriter\<close> keeps the first \<open>max_capture\<close> bytes; its counter is a 64-bit \<open>int\<close>.\<close>

record cap_writer =
  cw_text :: string
  cw_total :: int

definition cap_write :: "string \<Rightarrow> cap_writer \<Rightarrow> cap_writer" where
  "cap_write p w =
     (let n = int (length p);
          w' = (if cw_total w < max_capture
                then w\<lparr>cw_text := cw_text w @ take (nat (min n (wrap64 (max_capture - cw_total w)))) p\<rparr> else w)
      in w'\<lparr>cw_total := wrap64 (cw_total w + n)\<rparr>)"

definition captured :: "string list \<Rightarrow> string" where
  "captured chunks = cw_text (fold cap_write chunks \<lparr>cw_text = [], cw_total = 0\<rparr>)"

subsection \<open>Encoding\<close>

definition result_json :: "plan_result \<Rightarrow> json" where
  "result_json r = JObj [(''status'', JStr (prs_status r)), (''summary'', JStr (prs_summary r)),
     (''outputs'', JObj (prs_outputs r)), (''next_signals'', jstrs (prs_next r))]"

definition transition_json :: "transition \<Rightarrow> json" where
  "transition_json t = JObj [(''timestamp'', JStr (tr_timestamp t)), (''state'', JStr (tr_state t)),
     (''next'', JStr (tr_next t)), (''status'', JStr (tr_status t)), (''summary'', JStr (tr_summary t))]"

definition log_json :: "step_log \<Rightarrow> json" where
  "log_json l =
     (let opt = (\<lambda>k v. if v = [] then [] else [(k, JStr v)])
      in JObj ([(''timestamp'', JStr (sl_timestamp l)), (''event'', JStr (sl_event l)), (''step'', JStr (sl_step l))] @
        (case sl_exit_code l of None \<Rightarrow> [] | Some c \<Rightarrow> [(''exit_code'', JNum (of_int c))]) @
        opt ''stdout'' (sl_stdout l) @ opt ''stderr'' (sl_stderr l)))"

fun value_json :: "meta_value \<Rightarrow> json" where
  "value_json (MV_json v) = v"
| "value_json (MV_transitions ts) = JArr (map transition_json ts)"
| "value_json (MV_logs ls) = JArr (map log_json ls)"

definition meta_json :: "entry_meta \<Rightarrow> json" where
  "meta_json m = JObj (map (\<lambda>(k, v). (k, value_json v)) m)"

definition report_json :: "plan_report \<Rightarrow> json" where
  "report_json r =
     JObj [(''schema_version'', JStr (prp_schema_version r)), (''run_id'', JStr (prp_run_id r)),
       (''issue_id'', JStr (prp_issue_id r)), (''stage'', JStr (prp_stage r)),
       (''attempt'', JNum (of_int (prp_attempt r))), (''status'', JStr (prp_status r)),
       (''summary'', JStr (prp_summary r)), (''outputs'', JObj (prp_outputs r)),
       (''metadata'', meta_json (prp_metadata r)), (''created_at'', JStr (prp_created_at r))]"

subsection \<open>Decoding\<close>

text \<open>
  \<open>json.Unmarshal\<close> into a value that is already set: the keys of the document overwrite the fields they
  name, whatever their case; a \<open>null\<close> changes nothing; a value of the wrong kind leaves its field and is
  the error that is reported in the end; the entries of an object are added to the map that is there.
\<close>

fun json_kind :: "json \<Rightarrow> string" where
  "json_kind JNull = ''null''"
| "json_kind (JBool b) = ''bool''"
| "json_kind (JNum n) = ''number''"
| "json_kind (JStr s) = ''string''"
| "json_kind (JArr xs) = ''array''"
| "json_kind (JObj m) = ''object''"
| "json_kind (JTime t) = ''string''"

definition wrong_kind :: "json \<Rightarrow> string \<Rightarrow> string" where
  "wrong_kind v ty = ''json: cannot unmarshal '' @ json_kind v @ '' into Go '' @ ty"

definition merge_map :: "('a \<Rightarrow> 'b) \<Rightarrow> 'a gomap \<Rightarrow> 'b gomap \<Rightarrow> 'b gomap" where
  "merge_map f new old = fold (\<lambda>(k, v). gm_put k (f v)) new old"

definition decode_text :: "string \<Rightarrow> (string \<Rightarrow> 'a \<Rightarrow> 'a) \<Rightarrow> 'a decoder" where
  "decode_text field upd v x =
     (case v of JStr s \<Rightarrow> (upd s x, None) | JNull \<Rightarrow> (x, None)
      | _ \<Rightarrow> (x, Some (wrong_kind v (''struct field '' @ field @ '' of type string''))))"

fun text_items :: "json list \<Rightarrow> string list" where
  "text_items [] = []"
| "text_items (JStr s # xs) = s # text_items xs"
| "text_items (_ # xs) = [] # text_items xs"

definition not_text :: "json \<Rightarrow> bool" where
  "not_text v = (case v of JStr _ \<Rightarrow> False | JNull \<Rightarrow> False | _ \<Rightarrow> True)"

definition decode_signals :: "plan_result decoder" where
  "decode_signals v r =
     (let ty = ''struct field Result.next_signals of type ''
      in case v of
           JNull \<Rightarrow> (r\<lparr>prs_next := []\<rparr>, None)
         | JArr xs \<Rightarrow> (r\<lparr>prs_next := text_items xs\<rparr>,
             map_option (\<lambda>b. wrong_kind b (ty @ ''string'')) (List.find not_text xs))
         | _ \<Rightarrow> (r, Some (wrong_kind v (ty @ ''[]string''))))"

definition decode_result_outputs :: "plan_result decoder" where
  "decode_result_outputs v r =
     (case v of
        JObj m \<Rightarrow> (r\<lparr>prs_outputs := merge_map id m (prs_outputs r)\<rparr>, None)
      | JNull \<Rightarrow> (r\<lparr>prs_outputs := []\<rparr>, None)
      | _ \<Rightarrow> (r, Some (wrong_kind v ''struct field Result.outputs of type map[string]interface {}'')))"

definition decode_result_field :: "string \<Rightarrow> plan_result decoder" where
  "decode_result_field k v r =
     (if equal_fold k ''status'' then decode_text ''Result.status'' (\<lambda>s r. r\<lparr>prs_status := s\<rparr>) v r
      else if equal_fold k ''summary'' then decode_text ''Result.summary'' (\<lambda>s r. r\<lparr>prs_summary := s\<rparr>) v r
      else if equal_fold k ''outputs'' then decode_result_outputs v r
      else if equal_fold k ''next_signals'' then decode_signals v r
      else (r, None))"

primrec decode_entries :: "(string \<Rightarrow> 'a decoder) \<Rightarrow> (string \<times> json) list \<Rightarrow> 'a \<Rightarrow> 'a \<times> string option" where
  "decode_entries f [] x = (x, None)"
| "decode_entries f (kv # kvs) x =
     (case f (fst kv) (snd kv) x of
        (y, e) \<Rightarrow> (case decode_entries f kvs y of (z, e') \<Rightarrow> (z, if e = None then e' else e)))"

definition decode_result :: "plan_result decoder" where
  "decode_result v r =
     (case v of JObj kvs \<Rightarrow> decode_entries decode_result_field kvs r
      | JNull \<Rightarrow> (r, None)
      | _ \<Rightarrow> (r, Some (wrong_kind v ''value of type main.Result'')))"

definition decode_meta :: "entry_meta decoder" where
  "decode_meta v m =
     (case v of JObj kvs \<Rightarrow> (merge_map MV_json kvs m, None)
      | JNull \<Rightarrow> ([], None)
      | _ \<Rightarrow> (m, Some (wrong_kind v ''value of type map[string]interface {}'')))"

subsection \<open>Results, reports and the metadata\<close>

definition failed_result :: "string \<Rightarrow> plan_result" where
  "failed_result summary = \<lparr>prs_status = ''failed'', prs_summary = summary, prs_outputs = [], prs_next = []\<rparr>"

definition set_failed :: "entry_runtime \<Rightarrow> string \<Rightarrow> plan_result \<Rightarrow> plan_result" where
  "set_failed rt summary r =
     r\<lparr>prs_status := ''failed'', prs_summary := summary, prs_next := en_on_failure rt\<rparr>"

definition failed_report :: "'x entry_env \<Rightarrow> failure_attribution \<Rightarrow> string \<Rightarrow> ('x, plan_report) go" where
  "failed_report en attr summary =
     m_bind (m_ask (ee_now en)) (\<lambda>now. m_ret
       \<lparr>prp_schema_version = report_schema_version, prp_run_id = fa_run_id attr, prp_issue_id = fa_issue_id attr,
         prp_stage = fa_stage attr, prp_attempt = fa_attempt attr, prp_status = ''failed'', prp_summary = summary,
         prp_outputs = [], prp_metadata = [(''state_transitions'', MV_transitions []), (''step_log'', MV_logs [])],
         prp_created_at = now\<rparr>)"

definition plan_report_of ::
  "'x entry_env \<Rightarrow> entry_contract \<Rightarrow> plan_result \<Rightarrow> entry_meta \<Rightarrow> ('x, plan_report) go" where
  "plan_report_of en c r m =
     m_bind (m_ask (ee_now en)) (\<lambda>now. m_ret
       \<lparr>prp_schema_version = report_schema_version, prp_run_id = ct_run_id c, prp_issue_id = ct_issue_id c,
         prp_stage = ct_stage_name c, prp_attempt = ct_attempt c, prp_status = prs_status r,
         prp_summary = prs_summary r, prp_outputs = prs_outputs r, prp_metadata = m, prp_created_at = now\<rparr>)"

text \<open>
  The transitions are kept only while they are of the program's own type; once a step has written the
  metadata back they are decoded values, and the list starts anew.
\<close>

definition record_transition ::
  "'x entry_env \<Rightarrow> string \<Rightarrow> string \<Rightarrow> plan_result \<Rightarrow> string \<Rightarrow> entry_meta \<Rightarrow> ('x, entry_meta) go" where
  "record_transition en state to r summary m =
     (let old = (case gm_get m ''state_transitions'' of Some (MV_transitions ts) \<Rightarrow> ts | _ \<Rightarrow> [])
      in m_bind (m_ask (ee_now en)) (\<lambda>now. m_ret (gm_put ''state_transitions'' (MV_transitions (old @
           [\<lparr>tr_timestamp = now, tr_state = state, tr_next = to, tr_status = prs_status r,
              tr_summary = summary\<rparr>])) m)))"

definition decoded_log :: "jmap \<Rightarrow> step_log" where
  "decoded_log o' =
     (let text = (\<lambda>k. as_string (gm_get o' k))
      in \<lparr>sl_timestamp = text ''timestamp'', sl_event = text ''event'', sl_step = text ''step'',
           sl_exit_code = None, sl_stdout = text ''stdout'', sl_stderr = text ''stderr''\<rparr>)"

definition append_step_logs :: "meta_value option \<Rightarrow> step_log \<Rightarrow> step_log list" where
  "append_step_logs current entry =
     (case current of
        Some (MV_logs ls) \<Rightarrow> ls @ [entry]
      | Some (MV_json (JArr items)) \<Rightarrow> map decoded_log (List.map_filter as_obj items) @ [entry]
      | _ \<Rightarrow> [entry])"

definition add_log :: "step_log \<Rightarrow> entry_meta \<Rightarrow> entry_meta" where
  "add_log entry m = gm_put ''step_log'' (MV_logs (append_step_logs (gm_get m ''step_log'') entry)) m"

subsection \<open>The state file\<close>

definition state_json ::
  "entry_contract \<Rightarrow> plan_result \<Rightarrow> entry_meta \<Rightarrow> string \<Rightarrow> string \<Rightarrow> string \<Rightarrow> string \<Rightarrow> json" where
  "state_json c r m state to t1 t2 =
     JObj [(''schema_version'', JStr state_schema_version), (''timestamp'', JStr t1),
       (''run_id'', JStr (ct_run_id c)), (''attempt_id'', JStr (ct_attempt_id c)),
       (''issue_id'', JStr (ct_issue_id c)), (''stage'', JStr (ct_stage_name c)),
       (''state'', JStr state), (''next_state'', JStr to), (''current_step'', JStr state),
       (''status'', JStr (prs_status r)), (''summary'', JStr (prs_summary r)),
       (''last_transition'', JObj [(''timestamp'', JStr t2), (''state'', JStr state), (''next'', JStr to),
          (''status'', JStr (prs_status r)), (''summary'', JStr (prs_summary r))]),
       (''metadata'', meta_json m)]"

definition write_state ::
  "'x entry_env \<Rightarrow> string \<Rightarrow> entry_contract \<Rightarrow> plan_result \<Rightarrow> entry_meta \<Rightarrow> string \<Rightarrow> string \<Rightarrow> ('x, unit) go" where
  "write_state en path c r m state to =
     (if path = [] then m_ret ()
      else m_bind (m_ask (ee_now en)) (\<lambda>t1. m_bind (m_ask (ee_now en)) (\<lambda>t2.
        m_ignore (write_contract (ee_io en) path ''stage-state.schema.json'' (state_json c r m state to t1 t2)))))"

subsection \<open>Running a step\<close>

definition reload ::
  "'x entry_env \<Rightarrow> string \<Rightarrow> string \<Rightarrow> 'a decoder \<Rightarrow> 'a \<Rightarrow> ('x, 'a \<times> string option) go" where
  "reload en path schema dec target =
     m_bind (m_try (ee_stat en path)) (\<lambda>s. case s of
         Inl _ \<Rightarrow> m_ret (target, None)
       | Inr _ \<Rightarrow> m_bind (read_contract (ee_io en) path schema dec target) (\<lambda>(t, e).
           m_ret (t, map_option (\<lambda>e. ''load '' @ path @ '': '' @ e) e)))"

definition runtime_subprocess_env :: "string list" where
  "runtime_subprocess_env =
     [''PATH=/usr/local/sbin:/usr/local/bin:/usr/sbin:/usr/bin:/sbin:/bin'', ''TMPDIR=/tmp'', ''TEMP=/tmp'',
      ''TMP=/tmp'', ''LANG=C'', ''LC_ALL=C'', ''LC_CTYPE=C'']"

definition run_cmd ::
  "'x entry_env \<Rightarrow> plan_step \<Rightarrow> (string \<times> string) list \<Rightarrow> ('x, int \<times> string \<times> string) go" where
  "run_cmd en s extra =
     m_bind (m_ask (ee_run en (pst_command s) (if trim_space (pst_cwd s) \<noteq> [] then pst_cwd s else [])
        (runtime_subprocess_env @ map (\<lambda>(k, v). k @ ''='' @ v) extra))) (\<lambda>p. m_ret (case p of
            Exited code outs errs \<Rightarrow> (code, captured outs, captured errs)
          | Not_run e \<Rightarrow> (127, [], e)))"

subsection \<open>The steps of the plan\<close>

record entry_paths =
  ep_context :: string
  ep_state :: string
  ep_result :: string
  ep_meta :: string

definition step_label :: "plan_step \<Rightarrow> string" where
  "step_label s = or_text (pst_name s) (join_with '' '' (pst_command s))"

definition step_env :: "entry_paths \<Rightarrow> int \<Rightarrow> string \<Rightarrow> (string \<times> string) list" where
  "step_env p i label =
     [(''AUTODEV_STAGE_CONTEXT'', ep_context p), (''AUTODEV_STAGE_RESULT_WORKING'', ep_result p),
      (''AUTODEV_STAGE_METADATA_WORKING'', ep_meta p), (''AUTODEV_STAGE_STEP_INDEX'', fmt_d (i + 1)),
      (''AUTODEV_STAGE_STEP_NAME'', label)]"

text \<open>A step's entry in the log, the transition that ends it and the state file.\<close>

definition end_step ::
  "'x entry_env \<Rightarrow> entry_contract \<Rightarrow> entry_paths \<Rightarrow> string \<Rightarrow> step_log \<Rightarrow> plan_result \<Rightarrow> entry_meta \<Rightarrow>
   ('x, entry_meta) go" where
  "end_step en c p label entry r m =
     m_bind (record_transition en label ''done'' r (prs_summary r) (add_log entry m)) (\<lambda>m'.
       m_then (write_state en (ep_state p) c r m' label ''done'') (m_ret m'))"

definition fail_step ::
  "'x entry_env \<Rightarrow> entry_contract \<Rightarrow> entry_paths \<Rightarrow> string \<Rightarrow> int \<Rightarrow> string \<Rightarrow> string \<Rightarrow> string \<Rightarrow>
   plan_result \<Rightarrow> entry_meta \<Rightarrow> ('x, bool \<times> plan_result \<times> entry_meta) go" where
  "fail_step en c p label code out err summary r m =
     m_bind (m_ask (ee_now en)) (\<lambda>now.
       let r' = set_failed (ct_runtime c) summary r
       in m_bind (end_step en c p label \<lparr>sl_timestamp = now, sl_event = ''failed'', sl_step = label,
            sl_exit_code = Some code, sl_stdout = out, sl_stderr = err\<rparr> r' m) (\<lambda>m'. m_ret (False, r', m')))"

definition failure_text :: "int \<Rightarrow> string \<Rightarrow> string \<Rightarrow> string" where
  "failure_text code out err = first_non_empty [trim_space err, trim_space out, ''exit code '' @ fmt_d code]"

text \<open>One turn of the loop: whether it goes on, the result and the metadata.\<close>

definition run_step ::
  "'x entry_env \<Rightarrow> entry_contract \<Rightarrow> entry_paths \<Rightarrow> int \<Rightarrow> plan_step \<Rightarrow> plan_result \<Rightarrow> entry_meta \<Rightarrow>
   ('x, bool \<times> plan_result \<times> entry_meta) go" where
  "run_step en c p i s r m =
     (let label = step_label s
      in m_then (m_wrap ''persist working result''
            (write_contract (ee_io en) (ep_result p) ''stage-result.schema.json'' (result_json r)))
        (m_then (m_wrap ''persist working metadata''
            (write_contract (ee_io en) (ep_meta p) ''stage-metadata.schema.json'' (meta_json m)))
        (m_bind (record_transition en label label r ''running step'' m) (\<lambda>m.
         m_then (write_state en (ep_state p) c r m label label)
        (m_bind (run_cmd en s (step_env p i label)) (\<lambda>(code, out, err).
         m_bind (reload en (ep_result p) ''stage-result.schema.json'' decode_result r) (\<lambda>(r, e1).
         case e1 of
           Some e \<Rightarrow> fail_step en c p label code out e e r m
         | None \<Rightarrow>
             m_bind (reload en (ep_meta p) ''stage-metadata.schema.json'' decode_meta m) (\<lambda>(m, e2).
             case e2 of
               Some e \<Rightarrow> fail_step en c p label code out e e r m
             | None \<Rightarrow>
                 if code \<noteq> 0 then fail_step en c p label code out err (failure_text code out err) r m
                 else m_bind (m_ask (ee_now en)) (\<lambda>now.
                   m_bind (end_step en c p label \<lparr>sl_timestamp = now, sl_event = ''succeeded'', sl_step = label,
                     sl_exit_code = Some code, sl_stdout = out, sl_stderr = err\<rparr> r m) (\<lambda>m.
                     m_ret (True, r, m)))))))))))"

primrec run_steps ::
  "'x entry_env \<Rightarrow> entry_contract \<Rightarrow> entry_paths \<Rightarrow> plan_step list \<Rightarrow> int \<Rightarrow> plan_result \<Rightarrow> entry_meta \<Rightarrow>
   ('x, plan_result \<times> entry_meta) go" where
  "run_steps en c p [] i r m = m_ret (r, m)"
| "run_steps en c p (s # ss) i r m =
     m_bind (run_step en c p i s r m) (\<lambda>(go_on, r, m).
       if go_on then run_steps en c p ss (i + 1) r m else m_ret (r, m))"

subsection \<open>Success criteria\<close>

definition violation :: "string \<Rightarrow> string \<Rightarrow> json" where
  "violation kind field = JObj [(''type'', JStr kind), (''field'', JStr field)]"

definition check_criteria :: "entry_criteria \<Rightarrow> plan_result \<Rightarrow> entry_meta \<Rightarrow> json list" where
  "check_criteria cr r m =
     (if ec_require_summary cr \<and> trim_space (prs_summary r) = []
      then [JObj [(''type'', JStr ''missing_summary'')]] else []) @
     map (violation ''missing_output'') (filter (\<lambda>k. gm_get (prs_outputs r) k = None) (ec_required_outputs cr)) @
     map (violation ''missing_report_metadata'') (filter (\<lambda>k. blank (gm_get m k)) (ec_required_meta cr))"

definition apply_criteria :: "entry_runtime \<Rightarrow> plan_result \<Rightarrow> entry_meta \<Rightarrow> plan_result" where
  "apply_criteria rt r m =
     (if prs_status r = ''succeeded''
      then let v = check_criteria (en_criteria rt) r m;
               r' = r\<lparr>prs_outputs := gm_put ''contract_validation''
                 (JObj [(''passed'', JBool (v = [])), (''violations'', JArr v)]) (prs_outputs r)\<rparr>
           in if v \<noteq> [] then set_failed rt ''Success criteria not satisfied.'' r' else r'
      else r)"

subsection \<open>The contract\<close>

definition step_without_command :: "int \<Rightarrow> plan_step list \<Rightarrow> int option" where
  "step_without_command i ss =
     (if list_ex (\<lambda>s. pst_command s = []) ss
      then Some (i + int (length (takeWhile (\<lambda>s. pst_command s \<noteq> []) ss))) else None)"

definition validate_contract :: "entry_contract \<Rightarrow> string + unit" where
  "validate_contract c =
     (if ct_run_id c = [] \<or> ct_attempt_id c = [] \<or> ct_issue_id c = [] \<or> ct_stage_name c = []
      then Inl ''contract missing required fields''
      else if ct_work_order c = [] then Inl ''contract missing work_order''
      else if ct_steps c = [] then Inl ''operation_plan.steps is empty''
      else case step_without_command 1 (ct_steps c) of
             Some i \<Rightarrow> Inl (''step '' @ fmt_d i @ '': empty command'')
           | None \<Rightarrow> Inr ())"

definition attribution_from_contract :: "entry_contract \<Rightarrow> failure_attribution" where
  "attribution_from_contract c =
     \<lparr>fa_run_id = first_non_empty [ct_run_id c, ''unknown-run''],
       fa_issue_id = first_non_empty [ct_issue_id c, ''unknown-issue''],
       fa_stage = first_non_empty [ct_stage_name c, ''unknown-stage''], fa_attempt = ct_attempt c\<rparr>"

definition unknown_attribution :: failure_attribution where
  "unknown_attribution = \<lparr>fa_run_id = ''unknown-run'', fa_issue_id = ''unknown-issue'',
     fa_stage = ''unknown-stage'', fa_attempt = 0\<rparr>"

definition read_failure_attribution :: "'x entry_env \<Rightarrow> string \<Rightarrow> ('x, failure_attribution) go" where
  "read_failure_attribution en path =
     m_bind (m_try (ci_read (ee_io en) path)) (\<lambda>data. m_ret (case data of
         Inl _ \<Rightarrow> unknown_attribution
       | Inr text \<Rightarrow>
           (let zero = \<lparr>fa_run_id = [], fa_issue_id = [], fa_stage = [], fa_attempt = 0\<rparr>
            in case unmarshal_contract (ee_io en) text [] path (ee_decode_attribution en) zero of
                 (_, Some _) \<Rightarrow> unknown_attribution
               | (q, None) \<Rightarrow>
                   \<lparr>fa_run_id = first_non_empty [fa_run_id q, ''unknown-run''],
                     fa_issue_id = first_non_empty [fa_issue_id q, ''unknown-issue''],
                     fa_stage = first_non_empty [fa_stage q, ''unknown-stage''], fa_attempt = fa_attempt q\<rparr>)))"

definition zero_contract :: entry_contract where
  "zero_contract = \<lparr>ct_stage_name = [], ct_steps = [],
     ct_runtime = \<lparr>en_summary = [], en_on_success = [], en_on_failure = [],
       en_criteria = \<lparr>ec_require_summary = False, ec_required_outputs = [], ec_required_meta = []\<rparr>\<rparr>,
     ct_run_id = [], ct_attempt_id = [], ct_attempt = 0, ct_issue_id = [], ct_issue_title = [],
     ct_work_order = []\<rparr>"

definition no_error :: "'a \<times> string option \<Rightarrow> string + 'a" where
  "no_error te = (case snd te of Some e \<Rightarrow> Inl e | None \<Rightarrow> Inr (fst te))"

definition load_contract :: "'x entry_env \<Rightarrow> string \<Rightarrow> ('x, string \<times> entry_contract) go" where
  "load_contract en path =
     m_bind (m_wrap (''read '' @ path) (ci_read (ee_io en) path)) (\<lambda>raw.
     m_bind (m_lift (no_error (unmarshal_contract (ee_io en) raw ''stage-context.schema.json'' path
        (ee_decode_contract en) zero_contract))) (\<lambda>c.
     m_then (m_lift (validate_contract c)) (m_ret (raw, c))))"

definition build_outputs :: "'x entry_env \<Rightarrow> entry_contract \<Rightarrow> jmap \<Rightarrow> ('x, jmap) go" where
  "build_outputs en c full =
     m_bind (m_ask (ee_now en)) (\<lambda>now. m_ret (
       [(''stage'', JStr (ct_stage_name c)), (''run_id'', JStr (ct_run_id c)),
        (''attempt_id'', JStr (ct_attempt_id c)), (''issue_id'', JStr (ct_issue_id c)),
        (''issue_title'', JStr (ct_issue_title c)), (''timestamp'', JStr now)] @
       concat (map (\<lambda>k. case gm_get full k of Some v \<Rightarrow> [(k, v)] | None \<Rightarrow> [])
         [''work_order'', ''runtime_isolation'', ''resolved_secrets'', ''materialized_repos'', ''invariants'',
          ''pipeline_contract''])))"

subsection \<open>Executing the plan\<close>

definition initial_meta :: entry_meta where
  "initial_meta = [(''state_transitions'', MV_transitions []), (''step_log'', MV_logs [])]"

definition initial_result :: "entry_contract \<Rightarrow> jmap \<Rightarrow> plan_result" where
  "initial_result c outputs =
     \<lparr>prs_status = ''succeeded'',
       prs_summary = or_text (en_summary (ct_runtime c)) (''Stage '' @ ct_stage_name c @ '' completed.''),
       prs_outputs = outputs, prs_next = en_on_success (ct_runtime c)\<rparr>"

text \<open>From the loaded contract to the result and the metadata, in the work directory.\<close>

definition run_plan ::
  "'x entry_env \<Rightarrow> entry_contract \<Rightarrow> entry_paths \<Rightarrow> plan_result \<Rightarrow> ('x, plan_result \<times> entry_meta) go" where
  "run_plan en c p r0 =
     m_bind (record_transition en ''load_contract'' ''execute_steps'' r0 (prs_summary r0) initial_meta) (\<lambda>m0.
     m_then (write_state en (ep_state p) c r0 m0 ''load_contract'' ''execute_steps'')
    (m_bind (run_steps en c p (ct_steps c) 0 r0 m0) (\<lambda>(r, m).
     let r' = apply_criteria (ct_runtime c) r m
     in m_bind (record_transition en ''validate_success_criteria'' ''done'' r' (prs_summary r') m) (\<lambda>m'.
        m_then (write_state en (ep_state p) c r' m' ''validate_success_criteria'' ''done'') (m_ret (r', m'))))))"

definition failed_pair :: "'x entry_env \<Rightarrow> failure_attribution \<Rightarrow> string \<Rightarrow> ('x, plan_result \<times> plan_report) go" where
  "failed_pair en attr msg = m_bind (failed_report en attr msg) (\<lambda>rep. m_ret (failed_result msg, rep))"

definition work_paths :: "string \<Rightarrow> string \<Rightarrow> string \<Rightarrow> entry_paths" where
  "work_paths context state dir =
     \<lparr>ep_context = context, ep_state = state, ep_result = dir @ ''/result.json'', ep_meta = dir @ ''/metadata.json''\<rparr>"

text \<open>The contract is known: every later failure is attributed to it.\<close>

definition execute_contract ::
  "'x entry_env \<Rightarrow> string \<Rightarrow> string \<Rightarrow> string \<Rightarrow> entry_contract \<Rightarrow> ('x, plan_result \<times> plan_report) go" where
  "execute_contract en context state raw c =
     (let attr = attribution_from_contract c
      in case no_error (unmarshal_contract (ee_io en) raw [] context (ee_decode_map en) []) of
           Inl msg \<Rightarrow> failed_pair en attr msg
         | Inr full \<Rightarrow>
             m_bind (build_outputs en c full) (\<lambda>outputs.
             m_bind (m_try (m_wrap ''create work dir'' (ee_mkdir_temp en (''autodev-stage-'' @ ct_attempt_id c @ ''-''))))
               (\<lambda>d. case d of
                 Inl msg \<Rightarrow> failed_pair en attr msg
               | Inr dir \<Rightarrow>
                   m_bind (m_try (run_plan en c (work_paths context state dir) (initial_result c outputs))) (\<lambda>res.
                   m_bind (case res of
                       Inl msg \<Rightarrow> failed_pair en attr msg
                     | Inr (r, m) \<Rightarrow> m_bind (plan_report_of en c r m) (\<lambda>rep. m_ret (r, rep))) (\<lambda>pair.
                   m_then (m_ignore (ee_remove_all en dir)) (m_ret pair))))))"

definition execute_plan :: "'x entry_env \<Rightarrow> string \<Rightarrow> string \<Rightarrow> ('x, plan_result \<times> plan_report) go" where
  "execute_plan en context state =
     m_bind (read_failure_attribution en context) (\<lambda>attr.
     m_bind (m_try (load_contract en context)) (\<lambda>l. case l of
         Inl msg \<Rightarrow> failed_pair en attr msg
       | Inr (raw, c) \<Rightarrow> execute_contract en context state raw c))"

text \<open>The exit code: 2 when a variable is missing or a document cannot be written.\<close>

definition must_env :: "'x entry_env \<Rightarrow> string \<Rightarrow> string option" where
  "must_env en key = (let v = trim_space (ee_getenv en key) in if v = [] then None else Some v)"

definition run_entry :: "'x entry_env \<Rightarrow> ('x, int) go" where
  "run_entry en =
     (case (must_env en ''AUTODEV_STAGE_CONTEXT'', must_env en ''AUTODEV_STAGE_RESULT'',
            must_env en ''AUTODEV_STAGE_REPORT'') of
        (Some context, Some rpath, Some ppath) \<Rightarrow>
          m_bind (execute_plan en context (trim_space (ee_getenv en ''AUTODEV_STAGE_STATE''))) (\<lambda>(r, rep).
          m_bind (m_try (write_contract (ee_io en) rpath ''stage-result.schema.json'' (result_json r))) (\<lambda>w1.
          case w1 of
            Inl _ \<Rightarrow> m_ret 2
          | Inr _ \<Rightarrow>
              m_bind (m_try (write_contract (ee_io en) ppath ''stage-report.schema.json'' (report_json rep))) (\<lambda>w2.
              case w2 of Inl _ \<Rightarrow> m_ret 2 | Inr _ \<Rightarrow> m_ret 0)))
      | _ \<Rightarrow> m_ret 2)"

end
