(* ===== verification/StageEntryProps.thy ===== *)
theory StageEntryProps
  imports StageEntry
begin

section \<open>What the program inside a stage container guarantees\<close>

text \<open>
  The interpreter of \<open>StageEntry\<close> always ends with a result and a report that agree; it reports success
  only when every step of the plan ran and ended with exit code 0 and the success criteria hold; and
  what it captures of a process is bounded.  \<open>plan_ran\<close> is the run of a plan to its end.
\<close>

subsection \<open>Handlers that always answer\<close>

definition returns :: "('x, 'a) go \<Rightarrow> ('a \<Rightarrow> bool) \<Rightarrow> bool" where
  "returns m P \<longleftrightarrow> (\<forall>x. \<exists>y x'. m x = (Inr y, x') \<and> P y)"

named_theorems returns_rules \<open>handlers that never end in an error\<close>

lemma returnsD: "returns m P \<Longrightarrow> m x = (r, x') \<Longrightarrow> \<exists>y. r = Inr y \<and> P y"
  unfolding returns_def by (metis Pair_inject)

lemma returns_ret [returns_rules]: "P y \<Longrightarrow> returns (m_ret y) P"
  by (simp add: returns_def m_ret_def)

lemma returns_ask [returns_rules]: "(\<And>y. P y) \<Longrightarrow> returns (m_ask f) P"
  by (simp add: returns_def m_ask_def split: prod.splits)

lemma returns_try [returns_rules]: "(\<And>y. P y) \<Longrightarrow> returns (m_try m) P"
  by (auto simp: returns_def m_try_def split: prod.splits)

lemma returns_ignore [returns_rules]: "P () \<Longrightarrow> returns (m_ignore m) P"
  by (auto simp: returns_def m_ignore_def split: prod.splits)

lemma returns_bind:
  assumes "returns m Q" and "\<And>y. Q y \<Longrightarrow> returns (f y) P"
  shows "returns (m_bind m f) P"
  unfolding returns_def
proof
  fix x
  obtain y x1 where "m x = (Inr y, x1)" "Q y" using assms(1) unfolding returns_def by blast
  moreover obtain z x2 where "f y x1 = (Inr z, x2)" "P z"
    using assms(2) [OF \<open>Q y\<close>] unfolding returns_def by blast
  ultimately show "\<exists>y x'. m_bind m f x = (Inr y, x') \<and> P y" by (simp add: m_bind_def)
qed

lemma returns_then: "returns m Q \<Longrightarrow> returns n P \<Longrightarrow> returns (m_then m n) P"
  by (rule returns_bind [where Q = Q, of m "\<lambda>_. n", folded m_then_def]) 

subsection \<open>Result and report\<close>

definition agree :: "plan_result \<times> plan_report \<Rightarrow> bool" where
  "agree rr \<longleftrightarrow> (case rr of (r, rep) \<Rightarrow>
     prp_status rep = prs_status r \<and> prp_summary rep = prs_summary r \<and> prp_outputs rep = prs_outputs r \<and>
     prp_schema_version rep = report_schema_version \<and>
     prp_run_id rep \<noteq> [] \<and> prp_issue_id rep \<noteq> [] \<and> prp_stage rep \<noteq> [])"

definition known_attribution :: "failure_attribution \<Rightarrow> bool" where
  "known_attribution a \<longleftrightarrow> fa_run_id a \<noteq> [] \<and> fa_issue_id a \<noteq> [] \<and> fa_stage a \<noteq> []"

lemma trim_nonempty: "trim_space s \<noteq> [] \<Longrightarrow> s \<noteq> []"
  by (auto simp: trim_space_def)

lemma first_non_empty_unknown: "trim_space u \<noteq> [] \<Longrightarrow> first_non_empty [v, u] \<noteq> []"
  by (auto dest: trim_nonempty)

lemma returns_failed_report:
  "known_attribution a \<Longrightarrow> returns (failed_report en a msg) (\<lambda>rep. agree (failed_result msg, rep))"
  by (simp add: returns_def failed_report_def m_bind_def m_ask_def m_ret_def agree_def failed_result_def
    known_attribution_def split: prod.splits)

lemma returns_failed: "known_attribution a \<Longrightarrow> returns (failed_pair en a msg) agree"
  unfolding failed_pair_def by (rule returns_bind [OF returns_failed_report]) (auto intro: returns_ret)

lemma returns_plan_report:
  "ct_run_id c \<noteq> [] \<Longrightarrow> ct_issue_id c \<noteq> [] \<Longrightarrow> ct_stage_name c \<noteq> [] \<Longrightarrow>
   returns (plan_report_of en c r m) (\<lambda>rep. agree (r, rep))"
  by (simp add: returns_def plan_report_of_def m_bind_def m_ask_def m_ret_def agree_def split: prod.splits)

lemma returns_build_outputs: "returns (build_outputs en c full) (\<lambda>_. True)"
  unfolding build_outputs_def by (rule returns_bind [where Q = "\<lambda>_. True"]) (auto intro: returns_rules)

lemma unknown_texts:
  "trim_space ''unknown-run'' = ''unknown-run''" "trim_space ''unknown-issue'' = ''unknown-issue''"
  "trim_space ''unknown-stage'' = ''unknown-stage''"
  by code_simp+

lemma known_attributionI:
  "known_attribution \<lparr>fa_run_id = first_non_empty [a, ''unknown-run''],
     fa_issue_id = first_non_empty [b, ''unknown-issue''],
     fa_stage = first_non_empty [d, ''unknown-stage''], fa_attempt = n\<rparr>"
  unfolding known_attribution_def failure_attribution.simps
  by (intro conjI first_non_empty_unknown) (simp_all only: unknown_texts list.distinct not_False_eq_True)

lemma known_contract: "known_attribution (attribution_from_contract c)"
  unfolding attribution_from_contract_def by (rule known_attributionI)

lemma known_unknown: "known_attribution unknown_attribution"
  by (simp add: known_attribution_def unknown_attribution_def)

lemma returns_attribution: "returns (read_failure_attribution en path) known_attribution"
  unfolding read_failure_attribution_def
  by (intro returns_bind [OF returns_try [where P = "\<lambda>_. True"]] returns_ret TrueI)
    (simp only: Let_def known_unknown known_attributionI split: sum.split option.split prod.split, simp)

lemma loaded_contract:
  "load_contract en path x = (Inr (raw, c), x') \<Longrightarrow> validate_contract c = Inr ()"
  by (auto simp: load_contract_def m_ok m_lift_def)

lemma valid_contract_ids:
  "validate_contract c = Inr () \<Longrightarrow> ct_run_id c \<noteq> [] \<and> ct_attempt_id c \<noteq> [] \<and> ct_issue_id c \<noteq> [] \<and>
     ct_stage_name c \<noteq> [] \<and> ct_steps c \<noteq> []"
  by (auto simp: validate_contract_def split: if_splits)

lemma returns_contract:
  assumes "validate_contract c = Inr ()"
  shows "returns (execute_contract en context state raw c) agree"
proof -
  note f = returns_failed [OF known_contract]
  have conclude: "returns (case res of Inl msg \<Rightarrow> failed_pair en (attribution_from_contract c) msg
      | Inr (r, m) \<Rightarrow> m_bind (plan_report_of en c r m) (\<lambda>rep. m_ret (r, rep))) agree" for res
    using valid_contract_ids [OF assms]
    by (auto split: sum.splits intro!: f returns_bind [OF returns_plan_report] returns_ret)
  have clean: "returns (m_then (m_ignore (ee_remove_all en dir)) (m_ret pair)) agree" if "agree pair" for dir pair
    using that by (intro returns_then [OF returns_ignore [where P = "\<lambda>_. True"]] returns_ret) auto
  have work: "returns (m_bind (m_try (run_plan en c (work_paths context state dir) r0)) (\<lambda>res.
      m_bind (case res of Inl msg \<Rightarrow> failed_pair en (attribution_from_contract c) msg
        | Inr (r, m) \<Rightarrow> m_bind (plan_report_of en c r m) (\<lambda>rep. m_ret (r, rep))) (\<lambda>pair.
      m_then (m_ignore (ee_remove_all en dir)) (m_ret pair)))) agree" for dir r0
    by (rule returns_bind [OF returns_try [where P = "\<lambda>_. True"]]) (auto intro: returns_bind [OF conclude clean])
  have opened: "returns (m_bind (m_try mk) (\<lambda>d. case d of Inl msg \<Rightarrow> failed_pair en (attribution_from_contract c) msg
      | Inr dir \<Rightarrow> k dir)) agree" if "\<And>dir. returns (k dir) agree" for mk :: "('a, string) go" and k
    by (rule returns_bind [OF returns_try [where P = "\<lambda>_. True"]]) (auto intro: f that split: sum.splits)
  show ?thesis
    unfolding execute_contract_def Let_def
    by (auto split: sum.splits intro!: f returns_bind [OF returns_build_outputs] opened work)
qed

lemma returns_execute: "returns (execute_plan en context state) agree"
  unfolding returns_def
proof
  fix x
  obtain attr x1 where a: "read_failure_attribution en context x = (Inr attr, x1)" "known_attribution attr"
    using returns_attribution [of en "context"] unfolding returns_def by blast
  obtain l x2 where l: "load_contract en context x1 = (l, x2)" by fastforce
  have "returns (case l of Inl msg \<Rightarrow> failed_pair en attr msg
      | Inr (raw, c) \<Rightarrow> execute_contract en context state raw c) agree"
    using l loaded_contract by (auto split: sum.splits intro!: returns_failed [OF a(2)] returns_contract)
  then show "\<exists>y x'. execute_plan en context state x = (Inr y, x') \<and> agree y"
    unfolding returns_def by (simp add: execute_plan_def m_bind_def m_try_def a(1) l)
qed

subsection \<open>Runs of a plan\<close>

text \<open>
  \<open>plan_ran en c p i ss (r, m, x) (r', m', x')\<close>: the steps \<open>ss\<close>, numbered from \<open>i\<close>, were run one after the
  other, each ended with exit code 0 and left documents that are valid, and the last one left the
  result \<open>r'\<close>, the metadata \<open>m'\<close> and the world \<open>x'\<close>.
\<close>

inductive plan_ran ::
  "'x entry_env \<Rightarrow> entry_contract \<Rightarrow> entry_paths \<Rightarrow> int \<Rightarrow> plan_step list \<Rightarrow>
   plan_result \<times> entry_meta \<times> 'x \<Rightarrow> plan_result \<times> entry_meta \<times> 'x \<Rightarrow> bool"
  for en c p where
  plan_over: "plan_ran en c p i [] st st"
| plan_next: "run_step en c p i s r m x = (Inr (True, r1, m1), x1) \<Longrightarrow>
    run_cmd en s (step_env p i (step_label s)) y = (Inr (0, out, err), y') \<Longrightarrow>
    plan_ran en c p (i + 1) ss (r1, m1, x1) st \<Longrightarrow> plan_ran en c p i (s # ss) (r, m, x) st"

inductive_simps plan_ran_over: "plan_ran en c p i [] st st'"
inductive_cases plan_ran_next: "plan_ran en c p i (s # ss) st st'"

lemma fail_step_stops: "fail_step en c p label code out err summary r m x = (Inr (b, r', m'), x') \<Longrightarrow>
    \<not> b \<and> prs_status r' = ''failed''"
  by (auto simp: fail_step_def Let_def m_ok set_failed_def)

text \<open>A step that lets the loop go on ended with exit code 0.\<close>

lemma run_step_exit:
  assumes "run_step en c p i s r m x = (Inr (True, r', m'), x')"
  shows "\<exists>y out err y'. run_cmd en s (step_env p i (step_label s)) y = (Inr (0, out, err), y')"
  using assms unfolding run_step_def Let_def m_bind_ok m_then_ok
  by (force simp: m_ok dest: fail_step_stops split: option.splits if_splits prod.splits)

lemma run_step_stops:
  assumes "run_step en c p i s r m x = (Inr (False, r', m'), x')"
  shows "prs_status r' = ''failed''"
  using assms unfolding run_step_def Let_def m_bind_ok m_then_ok
  by (force simp: m_ok dest: fail_step_stops split: option.splits if_splits prod.splits)

lemma run_steps_ran:
  "run_steps en c p ss i r m x = (Inr (r', m'), x') \<Longrightarrow>
   prs_status r' = ''failed'' \<or> plan_ran en c p i ss (r, m, x) (r', m', x')"
proof (induction ss arbitrary: i r m x)
  case Nil
  then show ?case by (simp add: m_ret_ok plan_ran_over)
next
  case (Cons s ss)
  then obtain b r1 m1 x1 where s: "run_step en c p i s r m x = (Inr (b, r1, m1), x1)"
    and t: "(if b then run_steps en c p ss (i + 1) r1 m1 else m_ret (r1, m1)) x1 = (Inr (r', m'), x')"
    by (auto simp: m_ok)
  show ?case
  proof (cases b)
    case True
    with s have s': "run_step en c p i s r m x = (Inr (True, r1, m1), x1)" by simp
    obtain y out err y' where "run_cmd en s (step_env p i (step_label s)) y = (Inr (0, out, err), y')"
      using run_step_exit [OF s'] by blast
    moreover have "prs_status r' = ''failed'' \<or> plan_ran en c p (i + 1) ss (r1, m1, x1) (r', m', x')"
      using True t by (intro Cons.IH) simp
    ultimately show ?thesis using plan_next [OF s'] by blast
  next
    case False
    with s t show ?thesis by (auto simp: m_ok dest: run_step_stops)
  qed
qed


subsection \<open>Success\<close>

lemma apply_criteria_success:
  assumes "prs_status (apply_criteria rt r m) = ''succeeded''"
  shows "prs_status r = ''succeeded'' \<and> check_criteria (en_criteria rt) r m = [] \<and>
    apply_criteria rt r m = r\<lparr>prs_outputs := gm_put ''contract_validation''
      (JObj [(''passed'', JBool True), (''violations'', JArr [])]) (prs_outputs r)\<rparr>"
  using assms by (auto simp: apply_criteria_def Let_def set_failed_def split: if_splits)

lemma run_plan_steps:
  assumes "run_plan en c p r0 x = (Inr (r, m), x')"
  shows "\<exists>m0 y r1 m1 y1. run_steps en c p (ct_steps c) 0 r0 m0 y = (Inr (r1, m1), y1) \<and>
    r = apply_criteria (ct_runtime c) r1 m1"
  using assms unfolding run_plan_def Let_def m_bind_ok m_then_ok by (fastforce simp: m_ok)

lemma failed_pair_status: "failed_pair en a msg x = (Inr (r, rep), x') \<Longrightarrow> prs_status r = ''failed''"
  by (auto simp: failed_pair_def m_ok failed_result_def)

lemma m_try_eq: "m_try m x = (Inr r, x') \<longleftrightarrow> m x = (r, x')"
  by (cases "m x") (simp add: m_try_def)

text \<open>The report names the run, the issue, the stage and the attempt of the contract, and repeats the result.\<close>

definition reports_on :: "entry_contract \<Rightarrow> plan_result \<Rightarrow> plan_report \<Rightarrow> bool" where
  "reports_on c r rep \<longleftrightarrow> prp_run_id rep = ct_run_id c \<and> prp_issue_id rep = ct_issue_id c \<and>
     prp_stage rep = ct_stage_name c \<and> prp_attempt rep = ct_attempt c \<and> prp_status rep = prs_status r \<and>
     prp_summary rep = prs_summary r \<and> prp_outputs rep = prs_outputs r"

lemma execute_contract_success:
  assumes "execute_contract en ctx state raw c x = (Inr (r, rep), x')" and "prs_status r = ''succeeded''"
  shows "\<exists>dir outputs m0 y r1 m1 y1.
    run_steps en c (work_paths ctx state dir) (ct_steps c) 0 (initial_result c outputs) m0 y = (Inr (r1, m1), y1) \<and>
    r = apply_criteria (ct_runtime c) r1 m1 \<and> reports_on c r rep"
proof -
  obtain full where f: "no_error (unmarshal_contract (ee_io en) raw [] ctx (ee_decode_map en) []) = Inr full"
    using assms unfolding execute_contract_def Let_def
    by (cases "no_error (unmarshal_contract (ee_io en) raw [] ctx (ee_decode_map en) [])")
      (auto dest: failed_pair_status)
  obtain d outputs y y1 where d: "(case d of Inl msg \<Rightarrow> failed_pair en (attribution_from_contract c) msg
      | Inr dir \<Rightarrow> m_bind (m_try (run_plan en c (work_paths ctx state dir) (initial_result c outputs))) (\<lambda>res.
        m_bind (case res of Inl msg \<Rightarrow> failed_pair en (attribution_from_contract c) msg
          | Inr (r, m) \<Rightarrow> m_bind (plan_report_of en c r m) (\<lambda>rep. m_ret (r, rep))) (\<lambda>pair.
        m_then (m_ignore (ee_remove_all en dir)) (m_ret pair)))) y = (Inr (r, rep), y1)"
    using assms(1) unfolding execute_contract_def Let_def f m_bind_ok [of "build_outputs en c full"]
      m_bind_ok [of "m_try (m_wrap _ _)"] sum.case by blast
  obtain dir where "d = Inr dir" using d assms(2) by (cases d) (auto dest: failed_pair_status)
  with d obtain res z z1 z2 where p: "run_plan en c (work_paths ctx state dir) (initial_result c outputs) z = (res, z1)"
    and q: "(case res of Inl msg \<Rightarrow> failed_pair en (attribution_from_contract c) msg
          | Inr (r, m) \<Rightarrow> m_bind (plan_report_of en c r m) (\<lambda>rep. m_ret (r, rep))) z1 = (Inr (r, rep), z2)"
    by (auto simp: m_bind_ok m_then_ok m_try_eq m_ret_ok)
  obtain m where m: "res = Inr (r, m)"
    using q assms(2) by (cases res) (auto simp: m_bind_ok m_ret_ok dest: failed_pair_status split: prod.splits)
  have "reports_on c r rep" using q unfolding m by (auto simp: m_ok plan_report_of_def reports_on_def)
  with run_plan_steps [OF p [unfolded m]] show ?thesis by blast
qed

text \<open>
  C35: a stage succeeds only when its plan ran.  When the program in the container reports success, the
  contract it loaded is valid, every step of the contract's plan ran in order, from the initial result in a
  work directory, and ended with exit code 0 and valid working documents, the result the last step left
  reports success and satisfies the success criteria, and what is reported is that result with the
  validation recorded, in a report that names the run, the issue, the stage and the attempt of the contract.
\<close>

theorem success_means_plan_ran:
  assumes "execute_plan en ctx state x = (Inr (r, rep), x')" and "prs_status r = ''succeeded''"
  shows "\<exists>u u' raw c dir outputs m0 y r1 m1 y1.
    load_contract en ctx u = (Inr (raw, c), u') \<and> validate_contract c = Inr () \<and>
    plan_ran en c (work_paths ctx state dir) 0 (ct_steps c) (initial_result c outputs, m0, y) (r1, m1, y1) \<and>
    prs_status r1 = ''succeeded'' \<and> check_criteria (en_criteria (ct_runtime c)) r1 m1 = [] \<and>
    r = r1\<lparr>prs_outputs := gm_put ''contract_validation''
      (JObj [(''passed'', JBool True), (''violations'', JArr [])]) (prs_outputs r1)\<rparr> \<and>
    reports_on c r rep"
proof -
  obtain attr x1 l x2 where l: "m_try (load_contract en ctx) x1 = (Inr l, x2)"
    and e: "(case l of Inl msg \<Rightarrow> failed_pair en attr msg
      | Inr (raw, c) \<Rightarrow> execute_contract en ctx state raw c) x2 = (Inr (r, rep), x')"
    using assms(1) unfolding execute_plan_def by (auto simp only: m_bind_ok)
  obtain raw c where c: "l = Inr (raw, c)"
    using e assms(2) by (cases l) (auto dest: failed_pair_status)
  have load: "load_contract en ctx x1 = (Inr (raw, c), x2)" using l [unfolded c m_try_eq] .
  obtain dir outputs m0 y r1 m1 y1 where
    s: "run_steps en c (work_paths ctx state dir) (ct_steps c) 0 (initial_result c outputs) m0 y = (Inr (r1, m1), y1)"
    and r: "r = apply_criteria (ct_runtime c) r1 m1" and rep: "reports_on c r rep"
    using execute_contract_success [OF e [unfolded c sum.case prod.case] assms(2)] by blast
  note k = apply_criteria_success [OF assms(2) [unfolded r]]
  have ran: "plan_ran en c (work_paths ctx state dir) 0 (ct_steps c) (initial_result c outputs, m0, y) (r1, m1, y1)"
    using run_steps_ran [OF s] k by auto
  show ?thesis using load loaded_contract [OF load] ran k rep r by metis
qed

subsection \<open>The exit code\<close>

definition document_written :: "'x entry_env \<Rightarrow> string \<Rightarrow> json \<Rightarrow> bool" where
  "document_written en schema v \<longleftrightarrow> (\<exists>path text. ci_marshal (ee_io en) v = Inr text \<and>
     validate_document (ee_io en) schema path (text @ [CHR 0x0A]) = Inr ())"

lemma written_document:
  "write_contract (ee_io en) path schema v x = (Inr (), x') \<Longrightarrow> schema \<noteq> [] \<Longrightarrow> document_written en schema v"
  unfolding document_written_def by (blast dest: write_contract_valid)


subsection \<open>What is captured of a process\<close>

lemma cap_write_room:
  assumes "cw_total w = int (length seen)" and "cw_text w = take (nat max_capture) seen"
    and "length seen + length p < 2 ^ 63"
  shows "cw_total (cap_write p w) = int (length (seen @ p)) \<and>
    cw_text (cap_write p w) = take (nat max_capture) (seen @ p)"
proof -
  have "wrap64 (int (length seen) + int (length p)) = int (length seen) + int (length p)"
    using assms(3) by (intro wrap64_id) (simp add: int64_def)
  moreover have "wrap64 (max_capture - int (length seen)) = max_capture - int (length seen)"
    using assms(3) by (intro wrap64_id) (simp add: int64_def)
  moreover have "take (nat (min (int (length p)) (max_capture - int (length seen)))) p =
      take (nat max_capture - length seen) p" if "int (length seen) < max_capture"
    using that by (cases "int (length p) \<le> max_capture - int (length seen)") (simp_all add: min_def nat_diff_distrib')
  ultimately show ?thesis using assms by (auto simp: cap_write_def Let_def)
qed

lemma captured_fold:
  "cw_total w = int (length seen) \<Longrightarrow> cw_text w = take (nat max_capture) seen \<Longrightarrow>
   length seen + length (concat chunks) < 2 ^ 63 \<Longrightarrow>
   cw_text (fold cap_write chunks w) = take (nat max_capture) (seen @ concat chunks)"
proof (induction chunks arbitrary: w seen)
  case Nil
  then show ?case by simp
next
  case (Cons p chunks)
  have "length seen + length p < 2 ^ 63" using Cons.prems(3) by simp
  note s = cap_write_room [OF Cons.prems(1,2) this]
  show ?case using Cons.IH [of "cap_write p w" "seen @ p"] s Cons.prems(3) by simp
qed

text \<open>
  C37: what is kept of the output of a process is exactly its first mebibyte, however the process cut it
  into writes, as long as the output is shorter than the counter can count.
\<close>

theorem captured_bounded:
  assumes "length (concat chunks) < 2 ^ 63"
  shows "captured chunks = take 1048576 (concat chunks)"
  using captured_fold [of "\<lparr>cw_text = [], cw_total = 0\<rparr>" "[]" chunks] assms by (simp add: captured_def)

subsection \<open>Transitions\<close>

text \<open>
  Once a step has left a metadata document, the transitions recorded before it are decoded values, which
  the next record does not extend: the list restarts with one entry.
\<close>

lemma merge_map_get:
  "gm_wf new \<Longrightarrow> gm_get (merge_map f new old) k =
     (case gm_get new k of Some v \<Rightarrow> Some (f v) | None \<Rightarrow> gm_get old k)"
  unfolding merge_map_def
proof (induction new arbitrary: old)
  case Nil
  then show ?case by simp
next
  case (Cons kv new)
  obtain a b where kv: "kv = (a, b)" by fastforce
  have "gm_get new a = None" using Cons.prems by (simp add: gm_get_None gm_keys_def gm_wf_def kv)
  then show ?case using Cons.IH [of "gm_put a (f b) old"] Cons.prems
    by (auto simp: kv gm_get_Cons gm_wf_def split: option.splits)
qed

lemma transitions_restart:
  assumes "gm_wf kvs" and "gm_get kvs ''state_transitions'' = Some v"
    and "decode_meta (JObj kvs) m = (m1, e)" and "record_transition en st to r summary m1 x = (Inr m2, x')"
  shows "\<exists>t. gm_get m2 ''state_transitions'' = Some (MV_transitions [t]) \<and> tr_state t = st \<and> tr_next t = to"
  using assms by (auto simp: decode_meta_def merge_map_get record_transition_def m_ok)

end
