(* ===== verification/StageEntryWitness.thy ===== *)
theory StageEntryWitness
  imports StageEntryProps
begin

section \<open>A stage with one step\<close>

text \<open>
  The interpreter on a plan of one step whose command succeeds: the documents decode, the step leaves
  its working documents as they were, and one output and a summary are required.
\<close>

definition sample_plan :: entry_contract where
  "sample_plan = zero_contract\<lparr>ct_stage_name := ''plan'',
     ct_steps := [\<lparr>pst_command = [''render''], pst_name = [], pst_cwd = []\<rparr>],
     ct_runtime := \<lparr>en_summary = [], en_on_success = [''package''], en_on_failure = [''rollback''],
       en_criteria = \<lparr>ec_require_summary = True, ec_required_outputs = [''run_id''], ec_required_meta = [''step_log'']\<rparr>\<rparr>,
     ct_run_id := ''run-0001'', ct_attempt_id := ''attempt-0001'', ct_attempt := 1, ct_issue_id := ''issue-1'',
     ct_work_order := [(''id'', JStr ''issue-1'')]\<rparr>"

definition sample_io :: "nat contract_io" where
  "sample_io = \<lparr>ci_embedded = (\<lambda>n. Inr ''{}''), ci_instance = (\<lambda>d. Inr (JObj [])), ci_add = (\<lambda>n d. Inr ()),
     ci_compile = (\<lambda>n. Inr ()), ci_check = (\<lambda>n d. Inr ()), ci_parse = (\<lambda>d. Inr (JObj [])),
     ci_marshal = (\<lambda>v. Inr ''{}''), ci_read = (\<lambda>p. m_ret ''{}''), ci_write = (\<lambda>p d. m_ret ()),
     ci_mkdir_all = (\<lambda>p. m_ret ()), ci_rename = (\<lambda>p q. m_ret ())\<rparr>"

definition sample_entry :: "nat entry_env" where
  "sample_entry = \<lparr>ee_getenv = (\<lambda>k. ''/'' @ k), ee_io = sample_io, ee_now = (\<lambda>n. (''t'', n)), ee_stat = (\<lambda>p. m_ret ()),
     ee_mkdir_temp = (\<lambda>p. m_ret ''/tmp/work''), ee_remove_all = (\<lambda>p. m_ret ()),
     ee_run = (\<lambda>cmd dir env n. (Exited 0 [''rendered''] [], Suc n)),
     ee_decode_contract = (\<lambda>v c. (sample_plan, None)), ee_decode_attribution = (\<lambda>v a. (a, None)),
     ee_decode_map = (\<lambda>v m. (m, None))\<rparr>"

definition sample_run :: "(string + plan_result \<times> plan_report) \<times> nat" where
  "sample_run = execute_plan sample_entry ''/context.json'' ''/state.json'' 0"

lemma sample_run_succeeds:
  "(case sample_run of (Inr (r, rep), n) \<Rightarrow> prs_status r = ''succeeded'' \<and> n = 1 | _ \<Rightarrow> False)"
  by code_simp

lemma sample_entry_exit: "run_entry sample_entry 0 = (Inr 0, 1)"
  by code_simp

lemma success_means_plan_ran_witness:
  "\<exists>r rep u u' raw c dir outputs m0 y r1 m1 y1. execute_plan sample_entry ''/context.json'' ''/state.json'' 0 = (Inr (r, rep), 1) \<and>
    prs_status r = ''succeeded'' \<and>
    load_contract sample_entry ''/context.json'' u = (Inr (raw, c), u') \<and> validate_contract c = Inr () \<and>
    plan_ran sample_entry c (work_paths ''/context.json'' ''/state.json'' dir) 0 (ct_steps c)
      (initial_result c outputs, m0, y) (r1, m1, y1) \<and>
    check_criteria (en_criteria (ct_runtime c)) r1 m1 = [] \<and> reports_on c r rep"
proof -
  obtain r rep where e: "execute_plan sample_entry ''/context.json'' ''/state.json'' 0 = (Inr (r, rep), 1)"
    and s: "prs_status r = ''succeeded''"
    using sample_run_succeeds unfolding sample_run_def by (auto split: prod.splits sum.splits)
  from success_means_plan_ran [OF e s] e s show ?thesis by blast
qed

lemma captured_bounded_witness:
  "length (concat [''ab'', ''c'']) < 2 ^ 63 \<and> captured [''ab'', ''c''] = ''abc''"
  using captured_bounded [of "[''ab'', ''c'']"] by simp

end
