(* ===== verification/Gitlab.thy ===== *)
theory Gitlab
  imports Config RepoManager
begin

section \<open>The GitLab adapters (internal/gitlab)\<close>

text \<open>
  Issues and merge requests, as files of a directory (\<open>FilesystemAdapter\<close>) and through the API of a
  GitLab server (\<open>APIAdapter\<close>), and the merge requests that the implement and promotion stages ask for.
  The JSON codec of the documents is a parameter (\<open>gitlab_codec\<close>), as is the HTTP client of the API
  adapter; the directory of the filesystem adapter is a map from paths to contents whose operations may
  fail.
\<close>

subsection \<open>Files in folders\<close>

text \<open>
  A file is kept under its clean path; the entries of a directory are the names of the files directly
  under it, sorted, as \<open>os.ReadDir\<close> gives them.  Subdirectories, which the adapter skips, are not listed.
  A write that fails leaves what the fault says; \<open>MkdirAll\<close> changes no file.
\<close>

record folder =
  fd_files :: "string gomap"
  fd_calls :: nat
  fd_fault :: "nat \<Rightarrow> (string \<times> string option) option"
  fd_clock :: "nat \<Rightarrow> time"

datatype read_outcome = Read_data string | Not_exist | Read_error string

definition fd_call :: "(folder \<Rightarrow> 'a \<times> folder) \<Rightarrow> (string \<Rightarrow> 'a) \<Rightarrow> folder \<Rightarrow> 'a \<times> folder" where
  "fd_call ok bad d =
     (let d' = d\<lparr>fd_calls := Suc (fd_calls d)\<rparr>
      in case fd_fault d (fd_calls d) of Some (e, _) \<Rightarrow> (bad e, d') | None \<Rightarrow> ok d')"

definition fd_read :: "string \<Rightarrow> folder \<Rightarrow> read_outcome \<times> folder" where
  "fd_read path = fd_call (\<lambda>d. (case gm_get (fd_files d) (path_clean path) of
      Some data \<Rightarrow> Read_data data | None \<Rightarrow> Not_exist, d)) Read_error"

definition fd_mkdir_all :: "string \<Rightarrow> (folder, unit) go" where
  "fd_mkdir_all path = fd_call (\<lambda>d. (Inr (), d)) Inl"

definition entry_of :: "string \<Rightarrow> string \<Rightarrow> string option" where
  "entry_of dir path =
     (case path_rel dir path of
        Some n \<Rightarrow> if path_segment n \<and> path_join [dir, n] = path then Some n else None
      | None \<Rightarrow> None)"

definition fd_names :: "string \<Rightarrow> string gomap \<Rightarrow> string list" where
  "fd_names dir files = sort (List.map_filter (entry_of dir) (gm_keys files))"

definition fd_read_dir :: "string \<Rightarrow> (folder, string list) go" where
  "fd_read_dir dir = fd_call (\<lambda>d. (Inr (fd_names dir (fd_files d)), d)) Inl"

definition fd_write :: "string \<Rightarrow> string \<Rightarrow> (folder, unit) go" where
  "fd_write path data d =
     (let d' = d\<lparr>fd_calls := Suc (fd_calls d)\<rparr>
      in case fd_fault d (fd_calls d) of
           Some (e, left) \<Rightarrow>
             (Inl e, d'\<lparr>fd_files := (case left of None \<Rightarrow> gm_delete (path_clean path) (fd_files d)
                                   | Some s \<Rightarrow> gm_put (path_clean path) s (fd_files d))\<rparr>)
         | None \<Rightarrow> (Inr (), d'\<lparr>fd_files := gm_put (path_clean path) data (fd_files d)\<rparr>))"

definition fd_now :: "folder \<Rightarrow> time \<times> folder" where
  "fd_now d = (fd_clock d (fd_calls d), d\<lparr>fd_calls := Suc (fd_calls d)\<rparr>)"

subsection \<open>Merge requests\<close>

record merge_request =
  mr_project_path :: string
  mr_iid :: int
  mr_title :: string
  mr_description :: string
  mr_source_branch :: string
  mr_target_branch :: string
  mr_labels :: "string list"
  mr_state :: string
  mr_web_url :: string
  mr_remove_source :: bool

definition zero_merge_request :: merge_request where
  "zero_merge_request = \<lparr>mr_project_path = [], mr_iid = 0, mr_title = [], mr_description = [],
     mr_source_branch = [], mr_target_branch = [], mr_labels = [], mr_state = [], mr_web_url = [],
     mr_remove_source = False\<rparr>"

record mr_create_payload =
  mc_title :: string
  mc_description :: string
  mc_source_branch :: string
  mc_target_branch :: string
  mc_labels :: "string list"
  mc_remove_source :: bool

record promotion_mr_payload =
  pm_project_path :: string
  pm_title :: string
  pm_description :: string
  pm_source_branch :: string
  pm_target_branch :: string
  pm_labels :: "string list"

record gitlab_codec =
  gc_decode_issue :: "string \<Rightarrow> string + delivery_issue"
  gc_encode_issue :: "delivery_issue \<Rightarrow> string + string"
  gc_decode_mr :: "string \<Rightarrow> string + merge_request"
  gc_encode_mr :: "merge_request \<Rightarrow> string + string"

definition sanitize_project_path :: "string \<Rightarrow> string" where
  "sanitize_project_path value = replace_separators value"

definition write_json_file :: "string \<Rightarrow> string + string \<Rightarrow> (folder, unit) go" where
  "write_json_file path encoded = m_bind (m_lift encoded) (fd_write path)"

subsection \<open>The filesystem adapter: issues\<close>

definition json_names :: "string list \<Rightarrow> string list" where
  "json_names names = filter (\<lambda>n. path_ext n = ''.json'') names"

definition read_issue_file :: "gitlab_codec \<Rightarrow> string \<Rightarrow> (folder, delivery_issue) go" where
  "read_issue_file gc path =
     m_bind (m_ask (fd_read path)) (\<lambda>r. case r of
         Not_exist \<Rightarrow> m_err (''read issue '' @ path @ '': file does not exist'')
       | Read_error e \<Rightarrow> m_err (''read issue '' @ path @ '': '' @ e)
       | Read_data data \<Rightarrow>
           m_wrap (''decode issue '' @ path) (m_lift (gc_decode_issue gc data)))"

primrec read_issue_files :: "gitlab_codec \<Rightarrow> string \<Rightarrow> string list \<Rightarrow> (folder, delivery_issue list) go" where
  "read_issue_files gc dir [] = m_ret []"
| "read_issue_files gc dir (n # ns) =
     m_bind (read_issue_file gc (path_join [dir, n])) (\<lambda>i.
     m_bind (read_issue_files gc dir ns) (\<lambda>rest. m_ret (i # rest)))"

definition fs_list_issues :: "gitlab_codec \<Rightarrow> string \<Rightarrow> (folder, delivery_issue list) go" where
  "fs_list_issues gc rt =
     (let dir = path_join [rt, ''issues'']
      in m_then (m_wrap ''create gitlab issues dir'' (fd_mkdir_all dir))
        (m_bind (m_wrap ''read issues dir'' (fd_read_dir dir)) (\<lambda>names.
         m_bind (read_issue_files gc dir (json_names names)) (\<lambda>issues. m_ret (sort_key di_id issues)))))"

definition issue_path :: "string \<Rightarrow> string \<Rightarrow> string" where
  "issue_path rt issue_id = path_join [rt, ''issues'', issue_id @ ''.json'']"

definition fs_read_issue :: "gitlab_codec \<Rightarrow> string \<Rightarrow> string \<Rightarrow> (folder, delivery_issue \<times> string) go" where
  "fs_read_issue gc rt issue_id =
     (let path = issue_path rt issue_id
      in m_bind (m_ask (fd_read path)) (\<lambda>r. case r of
           Not_exist \<Rightarrow> m_err (''issue '' @ issue_id @ '' not found'')
         | Read_error e \<Rightarrow> m_err (''read issue '' @ issue_id @ '': '' @ e)
         | Read_data data \<Rightarrow>
             m_bind (m_wrap (''decode issue '' @ issue_id) (m_lift (gc_decode_issue gc data))) (\<lambda>i.
               m_ret (i, path))))"

text \<open>The comments are re-read from whatever the metadata holds; what is not an object becomes \<open>null\<close>.\<close>

definition stored_comments :: "json option \<Rightarrow> json list" where
  "stored_comments raw =
     (case raw of Some (JArr xs) \<Rightarrow> map (\<lambda>v. case v of JObj m \<Rightarrow> JObj m | _ \<Rightarrow> JNull) xs | _ \<Rightarrow> [])"

definition fs_append_comment :: "gitlab_codec \<Rightarrow> string \<Rightarrow> string \<Rightarrow> string \<Rightarrow> (folder, unit) go" where
  "fs_append_comment gc rt issue_id body =
     m_bind (fs_read_issue gc rt issue_id) (\<lambda>(issue, path).
       let md = (case di_metadata issue of None \<Rightarrow> [] | Some m \<Rightarrow> m); comments = stored_comments (gm_get md ''comments'')
       in m_bind (m_ask fd_now) (\<lambda>t1.
          m_bind (m_ask fd_now) (\<lambda>t2.
          let c = JObj [(''id'', JStr (issue_id @ ''-comment-'' @ fmt_d (int (length comments) + 1))),
                (''body'', JStr body), (''created_at'', JTime t1)]
          in write_json_file path (gc_encode_issue gc (issue\<lparr>
               di_metadata := Some (gm_put ''comments'' (JArr (comments @ [c])) md), di_updated_at := t2\<rparr>)))))"

definition fs_set_labels :: "gitlab_codec \<Rightarrow> string \<Rightarrow> string \<Rightarrow> string list \<Rightarrow> (folder, unit) go" where
  "fs_set_labels gc rt issue_id labels =
     m_bind (fs_read_issue gc rt issue_id) (\<lambda>(issue, path).
     m_bind (m_ask fd_now) (\<lambda>t.
       write_json_file path (gc_encode_issue gc (issue\<lparr>di_labels := labels, di_updated_at := t\<rparr>))))"

subsection \<open>The filesystem adapter: merge requests\<close>

definition mr_dir :: "string \<Rightarrow> string \<Rightarrow> string" where
  "mr_dir rt project = path_join [rt, ''merge_requests'', sanitize_project_path project]"

definition mr_key :: "string \<Rightarrow> string \<Rightarrow> string" where
  "mr_key source target = sanitize_project_path source @ ''__'' @ sanitize_project_path target @ ''.json''"

primrec max_iid :: "gitlab_codec \<Rightarrow> string \<Rightarrow> string list \<Rightarrow> int \<Rightarrow> (folder, int) go" where
  "max_iid gc dir [] m = m_ret m"
| "max_iid gc dir (n # ns) m =
     m_bind (m_ask (fd_read (path_join [dir, n]))) (\<lambda>r. case r of
         Not_exist \<Rightarrow> m_err (''read merge request '' @ n @ '': file does not exist'')
       | Read_error e \<Rightarrow> m_err (''read merge request '' @ n @ '': '' @ e)
       | Read_data data \<Rightarrow>
           m_bind (m_wrap (''decode merge request '' @ n) (m_lift (gc_decode_mr gc data))) (\<lambda>mr.
             max_iid gc dir ns (if mr_iid mr > m then mr_iid mr else m)))"

definition next_merge_request_iid :: "gitlab_codec \<Rightarrow> string \<Rightarrow> (folder, int) go" where
  "next_merge_request_iid gc dir =
     m_bind (m_wrap ''read merge request dir'' (fd_read_dir dir)) (\<lambda>names.
     m_bind (max_iid gc dir (json_names names) 0) (\<lambda>m. m_ret (wrap64 (m + 1))))"

definition existing_mr :: "gitlab_codec \<Rightarrow> string \<Rightarrow> (folder, merge_request) go" where
  "existing_mr gc path =
     m_bind (m_ask (fd_read path)) (\<lambda>r. case r of
         Not_exist \<Rightarrow> m_ret zero_merge_request
       | Read_error e \<Rightarrow> m_err (''read merge request '' @ path @ '': '' @ e)
       | Read_data data \<Rightarrow> m_wrap (''decode merge request '' @ path) (m_lift (gc_decode_mr gc data)))"

definition fs_upsert ::
  "gitlab_codec \<Rightarrow> string \<Rightarrow> string \<Rightarrow> string \<Rightarrow> string \<Rightarrow> string \<Rightarrow> string \<Rightarrow> string list \<Rightarrow> bool \<Rightarrow>
   (folder, merge_request) go" where
  "fs_upsert gc rt project title desc source target labels remove =
     (let dir = mr_dir rt project; path = path_join [dir, mr_key source target]
      in m_then (m_wrap ''create merge request dir'' (fd_mkdir_all dir))
        (m_bind (existing_mr gc path) (\<lambda>mr.
         m_bind (if mr_iid mr = 0 then next_merge_request_iid gc dir else m_ret (mr_iid mr)) (\<lambda>iid.
           let mr' = \<lparr>mr_project_path = project, mr_iid = iid, mr_title = title, mr_description = desc,
                 mr_source_branch = source, mr_target_branch = target, mr_labels = labels, mr_state = ''opened'',
                 mr_web_url = ''file://'' @ path, mr_remove_source = remove\<rparr>
           in m_then (write_json_file path (gc_encode_mr gc mr')) (m_ret mr')))))"

definition fs_upsert_merge_request ::
  "gitlab_codec \<Rightarrow> string \<Rightarrow> string \<Rightarrow> mr_create_payload \<Rightarrow> (folder, merge_request) go" where
  "fs_upsert_merge_request gc rt project p =
     fs_upsert gc rt project (mc_title p) (mc_description p) (mc_source_branch p) (mc_target_branch p)
       (mc_labels p) (mc_remove_source p)"

definition fs_upsert_promotion ::
  "gitlab_codec \<Rightarrow> string \<Rightarrow> string \<Rightarrow> promotion_mr_payload \<Rightarrow> (folder, merge_request) go" where
  "fs_upsert_promotion gc rt project p =
     fs_upsert gc rt project (pm_title p) (pm_description p) (pm_source_branch p) (pm_target_branch p)
       (pm_labels p) False"

subsection \<open>The API adapter\<close>

record api_issue =
  ai_iid :: int
  ai_project_id :: int
  ai_title :: string
  ai_description :: string
  ai_labels :: "string list"
  ai_updated_at :: string

record http_answer =
  ha_status :: int
  ha_body :: string

text \<open>
  \<open>av_send\<close> is the HTTP client on a request (method, URL, headers, body); the URL escapes, the dates and
  the bodies are codecs; \<open>av_validate\<close> is \<open>contracts.Validate\<close> for the issue schema.
\<close>

record 'x api_env =
  av_base_url :: string
  av_token :: string
  av_project :: string
  av_send :: "string \<Rightarrow> string \<Rightarrow> (string \<times> string) list \<Rightarrow> string \<Rightarrow> ('x, http_answer) go"
  av_path_escape :: "string \<Rightarrow> string"
  av_query_escape :: "string \<Rightarrow> string"
  av_url_path :: "string \<Rightarrow> string"
  av_marshal :: "json \<Rightarrow> string + string"
  av_decode_issues :: "string \<Rightarrow> string + api_issue list"
  av_decode_mr :: "string \<Rightarrow> string + merge_request"
  av_decode_mrs :: "string \<Rightarrow> string + merge_request list"
  av_validate :: "string \<Rightarrow> string + unit"
  av_decode_spec :: "string \<Rightarrow> string + delivery_issue"
  av_parse_time :: "string \<Rightarrow> time"

definition trim_right_slash :: "string \<Rightarrow> string" where
  "trim_right_slash s = rev (dropWhile (\<lambda>c. c = CHR ''/'') (rev s))"

definition new_api_adapter :: "'x api_env \<Rightarrow> string \<Rightarrow> string \<Rightarrow> string \<Rightarrow> 'x api_env" where
  "new_api_adapter av url token project =
     av\<lparr>av_base_url := trim_right_slash url, av_token := token, av_project := project\<rparr>"

definition api_do ::
  "'x api_env \<Rightarrow> string \<Rightarrow> string \<Rightarrow> (string \<times> string) list \<Rightarrow> string \<Rightarrow> (string \<Rightarrow> string + 'a) \<Rightarrow> ('x, 'a) go" where
  "api_do av meth path headers body decode =
     m_bind (av_send av meth (av_base_url av @ path) (headers @ [(''PRIVATE-TOKEN'', av_token av)]) body) (\<lambda>a.
       if ha_status a < 200 \<or> ha_status a > 299
       then m_err (''gitlab api '' @ meth @ '' '' @ av_url_path av (av_base_url av @ path) @ '' failed: '' @
         trim_space (ha_body a))
       else m_lift (decode (ha_body a)))"

definition api_get :: "'x api_env \<Rightarrow> string \<Rightarrow> (string \<Rightarrow> string + 'a) \<Rightarrow> ('x, 'a) go" where
  "api_get av path decode = api_do av ''GET'' path [] [] decode"

definition api_send_json :: "'x api_env \<Rightarrow> string \<Rightarrow> string \<Rightarrow> json \<Rightarrow> (string \<Rightarrow> string + 'a) \<Rightarrow> ('x, 'a) go" where
  "api_send_json av meth path body decode =
     m_bind (m_lift (av_marshal av body)) (\<lambda>payload.
       api_do av meth path [(''Content-Type'', ''application/json'')] payload decode)"

subsection \<open>Identifiers of issues\<close>

definition canonical_issue_id :: "string \<Rightarrow> int \<Rightarrow> string" where
  "canonical_issue_id project iid = ''gitlab:'' @ project @ '':'' @ fmt_d iid"

definition parse_issue_id :: "string \<Rightarrow> string + string \<times> int" where
  "parse_issue_id value =
     (case split_on CHR '':'' value of
        [scheme, project, iid] \<Rightarrow>
          if scheme \<noteq> ''gitlab'' then Inl (''invalid gitlab issue id '' @ fmt_q value)
          else (case atoi iid of
                  None \<Rightarrow> Inl (''parse issue iid: strconv.Atoi: parsing '' @ fmt_q iid @ '': invalid'')
                | Some n \<Rightarrow> Inr (project, n))
      | _ \<Rightarrow> Inl (''invalid gitlab issue id '' @ fmt_q value))"

subsection \<open>The delivery specification in a description\<close>

text \<open>
  The pattern \<open>(?s)```json\s*(\{.*?\})\s*```\<close>: after the first fence that can match, the shortest text
  from an opening to a closing brace that is followed by a closing fence.
\<close>

definition re_space :: "char \<Rightarrow> bool" where
  "re_space c \<longleftrightarrow> c = CHR '' '' \<or> c = CHR 0x09 \<or> c = CHR 0x0A \<or> c = CHR 0x0C \<or> c = CHR 0x0D"

fun upto_fence :: "string \<Rightarrow> string option" where
  "upto_fence [] = None"
| "upto_fence (c # cs) =
     (if c = CHR ''}'' \<and> has_prefix (dropWhile re_space cs) ''```'' then Some [c]
      else map_option (\<lambda>body. c # body) (upto_fence cs))"

definition fenced_object :: "string \<Rightarrow> string option" where
  "fenced_object s =
     (if \<not> has_prefix s ''```json'' then None
      else case dropWhile re_space (drop 7 s) of
             c # cs \<Rightarrow> if c = CHR ''{'' then map_option (\<lambda>body. c # body) (upto_fence cs) else None
           | [] \<Rightarrow> None)"

fun find_fenced :: "string \<Rightarrow> string option" where
  "find_fenced [] = None"
| "find_fenced (c # cs) = (case fenced_object (c # cs) of Some p \<Rightarrow> Some p | None \<Rightarrow> find_fenced cs)"

definition extract_spec :: "'x api_env \<Rightarrow> string \<Rightarrow> string + delivery_issue" where
  "extract_spec av description =
     (case find_fenced description of
        None \<Rightarrow> Inl ''issue description does not contain a ```json delivery spec block''
      | Some payload \<Rightarrow>
          (case av_validate av payload of
             Inl e \<Rightarrow> Inl e
           | Inr _ \<Rightarrow>
               (case av_decode_spec av payload of
                  Inl e \<Rightarrow> Inl (''decode issue delivery spec: '' @ e) | Inr spec \<Rightarrow> Inr spec)))"

definition has_delivery_label :: "string list \<Rightarrow> bool" where
  "has_delivery_label labels = list_ex (\<lambda>l. has_prefix l ''delivery/'') labels"

definition decode_api_issue :: "'x api_env \<Rightarrow> string \<Rightarrow> api_issue \<Rightarrow> string + delivery_issue" where
  "decode_api_issue av default_project issue =
     (case extract_spec av (ai_description issue) of
        Inl e \<Rightarrow> Inl e
      | Inr spec \<Rightarrow>
          (let project = (if fmt_d (ai_project_id issue) = ''0'' then default_project else fmt_d (ai_project_id issue));
               gate = di_approval spec;
               label = (if ag_label gate = [] then ''delivery/approved'' else ag_label gate);
               wo = di_work_order spec
           in Inr (spec\<lparr>di_id := canonical_issue_id project (ai_iid issue), di_project_id := project,
                di_iid := ai_iid issue, di_title := ai_title issue, di_description := ai_description issue,
                di_labels := ai_labels issue, di_updated_at := av_parse_time av (ai_updated_at issue),
                di_approval := gate\<lparr>ag_label := label, ag_approved := label \<in> set (ai_labels issue)\<rparr>,
                di_work_order := wo, di_target := wo_delivery wo, di_requested_outcome := wo_requested_outcome wo,
                di_policy_profile := wo_policy_profile wo, di_pipeline_template := wo_pipeline_template wo,
                di_metadata := Some (case di_metadata spec of None \<Rightarrow> [] | Some m \<Rightarrow> m)\<rparr>)))"

subsection \<open>Listing and changing issues\<close>

primrec decode_batch :: "'x api_env \<Rightarrow> api_issue list \<Rightarrow> string + delivery_issue list" where
  "decode_batch av [] = Inr []"
| "decode_batch av (i # rest) =
     (if \<not> has_delivery_label (ai_labels i) then decode_batch av rest
      else case decode_api_issue av (av_project av) i of
             Inl e \<Rightarrow> Inl e
           | Inr d \<Rightarrow> (case decode_batch av rest of Inl e \<Rightarrow> Inl e | Inr ds \<Rightarrow> Inr (d # ds)))"

text \<open>The pages are read until one is not full; \<open>None\<close> when the fuel is used up before.\<close>

fun list_pages ::
  "nat \<Rightarrow> 'x api_env \<Rightarrow> int \<Rightarrow> delivery_issue list \<Rightarrow> 'x \<Rightarrow> ((string + delivery_issue list) \<times> 'x) option" where
  "list_pages 0 av page acc x = None"
| "list_pages (Suc n) av page acc x =
     (case api_get av (''/projects/'' @ av_path_escape av (av_project av) @
          ''/issues?state=opened&per_page=100&page='' @ fmt_d page) (av_decode_issues av) x of
        (Inl e, x') \<Rightarrow> Some (Inl e, x')
      | (Inr batch, x') \<Rightarrow>
          if batch = [] then Some (Inr acc, x')
          else (case decode_batch av batch of
                  Inl e \<Rightarrow> Some (Inl e, x')
                | Inr ds \<Rightarrow>
                    if length batch < 100 then Some (Inr (acc @ ds), x')
                    else list_pages n av (wrap64 (page + 1)) (acc @ ds) x'))"

definition api_list_issues ::
  "nat \<Rightarrow> 'x api_env \<Rightarrow> 'x \<Rightarrow> ((string + delivery_issue list) \<times> 'x) option" where
  "api_list_issues fuel av x = list_pages fuel av 1 [] x"

definition issue_url :: "'x api_env \<Rightarrow> string \<Rightarrow> int \<Rightarrow> string" where
  "issue_url av project iid = ''/projects/'' @ av_path_escape av project @ ''/issues/'' @ fmt_d iid"

definition api_append_comment :: "'x api_env \<Rightarrow> string \<Rightarrow> string \<Rightarrow> ('x, unit) go" where
  "api_append_comment av issue_id body =
     m_bind (m_lift (parse_issue_id issue_id)) (\<lambda>(project, iid).
       api_send_json av ''POST'' (issue_url av project iid @ ''/notes'') (JObj [(''body'', JStr body)]) (\<lambda>b. Inr ()))"

definition api_set_labels :: "'x api_env \<Rightarrow> string \<Rightarrow> string list \<Rightarrow> ('x, unit) go" where
  "api_set_labels av issue_id labels =
     m_bind (m_lift (parse_issue_id issue_id)) (\<lambda>(project, iid).
       api_send_json av ''PUT'' (issue_url av project iid)
         (JObj [(''labels'', JStr (join_with '','' labels))]) (\<lambda>b. Inr ()))"

subsection \<open>Merge requests through the API\<close>

definition find_open_mr :: "'x api_env \<Rightarrow> string \<Rightarrow> string \<Rightarrow> string \<Rightarrow> ('x, merge_request option) go" where
  "find_open_mr av project source target =
     m_bind (api_get av (''/projects/'' @ av_path_escape av project @ ''/merge_requests?state=opened&source_branch='' @
        av_query_escape av source @ ''&target_branch='' @ av_query_escape av target) (av_decode_mrs av)) (\<lambda>list.
       m_ret (case list of [] \<Rightarrow> None | m # _ \<Rightarrow> Some m))"

definition merge_request_from_api :: "string \<Rightarrow> merge_request \<Rightarrow> bool \<Rightarrow> merge_request" where
  "merge_request_from_api project mr remove = mr\<lparr>mr_project_path := project, mr_remove_source := remove\<rparr>"

definition api_upsert ::
  "'x api_env \<Rightarrow> string \<Rightarrow> string \<Rightarrow> string \<Rightarrow> string \<Rightarrow> string \<Rightarrow> string list \<Rightarrow> bool \<Rightarrow> ('x, merge_request) go" where
  "api_upsert av project title desc source target labels remove =
     (let url = ''/projects/'' @ av_path_escape av project @ ''/merge_requests''
      in m_bind (find_open_mr av project source target) (\<lambda>existing. case existing of
           Some m \<Rightarrow>
             m_bind (api_send_json av ''PUT'' (url @ ''/'' @ fmt_d (mr_iid m))
               (JObj [(''title'', JStr title), (''description'', JStr desc), (''target_branch'', JStr target),
                  (''labels'', jstrs labels)]) (av_decode_mr av)) (\<lambda>u. m_ret (merge_request_from_api project u remove))
         | None \<Rightarrow>
             m_bind (api_send_json av ''POST'' url
               (JObj [(''title'', JStr title), (''description'', JStr desc), (''source_branch'', JStr source),
                  (''target_branch'', JStr target), (''labels'', jstrs labels),
                  (''remove_source_branch'', JBool remove)]) (av_decode_mr av)) (\<lambda>u.
                m_ret (merge_request_from_api project u remove))))"

definition api_upsert_merge_request :: "'x api_env \<Rightarrow> string \<Rightarrow> mr_create_payload \<Rightarrow> ('x, merge_request) go" where
  "api_upsert_merge_request av project p =
     api_upsert av project (mc_title p) (mc_description p) (mc_source_branch p) (mc_target_branch p)
       (mc_labels p) (mc_remove_source p)"

definition api_upsert_promotion :: "'x api_env \<Rightarrow> string \<Rightarrow> promotion_mr_payload \<Rightarrow> ('x, merge_request) go" where
  "api_upsert_promotion av project p =
     api_upsert av project (pm_title p) (pm_description p) (pm_source_branch p) (pm_target_branch p)
       (pm_labels p) False"

end
