(* ===== verification/MergeRequests.thy ===== *)
theory MergeRequests
  imports Gitlab
begin

section \<open>Merge requests for implementations and promotions (internal/gitlab, internal/runner/gitlab_mr.go)\<close>

text \<open>
  From the outputs of a stage to a proposal and from the proposal to the merge requests that are
  created or updated through an adapter.  Decoding the outputs is a parameter; the adapter is the
  function that upserts a merge request.
\<close>

subsection \<open>Data\<close>

record mr_plan_step =
  mps_name :: string
  mps_description :: string
  mps_commands :: "string list"
  mps_candidate_paths :: "string list"

record mutation_plan =
  mp_branch_name :: string
  mp_base_commit :: string
  mp_tree_state :: string
  mp_repo_status :: string
  mp_ready :: bool
  mp_branch_exists :: bool
  mp_candidate_files :: "string list"
  mp_issues :: "string list"
  mp_steps :: "mr_plan_step list"

record implementation_component =
  imc_name :: string
  imc_kind :: string
  imc_project_path :: string
  imc_resolved_repo_path :: string
  imc_branch_name :: string
  imc_source :: source_stamp
  imc_repo_status :: string
  imc_top_level_files :: "string list"
  imc_depends_on :: "string list"
  imc_mutation_plan :: "mutation_plan option"

record implementation_bundle =
  ib_delivery_name :: string
  ib_deploy_as_unit :: bool
  ib_component_count :: int
  ib_resolved_repo_count :: int
  ib_unresolved_repo_count :: int
  ib_components :: "implementation_component list"

record component_mr =
  cmr_name :: string
  cmr_kind :: string
  cmr_project_path :: string
  cmr_resolved_repo_path :: string
  cmr_branch_name :: string
  cmr_target_branch :: string
  cmr_repo_status :: string
  cmr_source :: source_stamp
  cmr_candidate_files :: "string list"
  cmr_depends_on :: "string list"
  cmr_mutation_plan :: "mutation_plan option"

record mr_proposal =
  mpr_issue_id :: string
  mpr_run_id :: string
  mpr_delivery_name :: string
  mpr_deploy_as_unit :: bool
  mpr_components :: "component_mr list"

record implementation_mr_payload =
  imp_project_path :: string
  imp_component :: component_mr
  imp_request :: mr_create_payload

record promotion_file =
  pf_path :: string
  pf_operation :: string
  pf_description :: string
  pf_preview :: string

record promotion_plan =
  pp_stage :: string
  pp_environment :: string
  pp_gitops_repo :: gitops_target
  pp_branch :: string
  pp_application_digest :: string
  pp_infrastructure_ref :: string
  pp_database_bundle_ref :: string
  pp_steps :: "string list"
  pp_files :: "promotion_file list"
  pp_ready :: bool
  pp_issues :: "string list"
  pp_summary :: string
  pp_gitops_commit :: string

record promotion_proposal =
  ppr_issue_id :: string
  ppr_run_id :: string
  ppr_stage :: string
  ppr_environment :: string
  ppr_delivery_name :: string
  ppr_gitops_repo :: gitops_target
  ppr_branch :: string
  ppr_application_digest :: string
  ppr_infrastructure_ref :: string
  ppr_database_bundle_ref :: string
  ppr_gitops_commit :: string
  ppr_ready :: bool
  ppr_issues :: "string list"
  ppr_summary :: string
  ppr_steps :: "string list"
  ppr_file_changes :: "promotion_file list"

subsection \<open>Proposals\<close>

definition decode_implementation_bundle ::
  "(string \<Rightarrow> string + implementation_bundle) \<Rightarrow> string \<Rightarrow> string + implementation_bundle" where
  "decode_implementation_bundle dec outputs =
     (if outputs = [] then Inl ''stage outputs missing implementation bundle''
      else case dec outputs of
             Inl e \<Rightarrow> Inl (''decode implementation bundle: '' @ e)
           | Inr b \<Rightarrow> if ib_delivery_name b = [] \<and> ib_components b = []
                      then Inl ''stage outputs missing implementation bundle'' else Inr b)"

definition target_branch :: "delivery_issue \<Rightarrow> implementation_component \<Rightarrow> string" where
  "target_branch issue c =
     (if sstp_default_branch (imc_source c) = []
      then case gm_get (dt_components (wo_delivery (di_work_order issue))) (imc_name c) of
             Some cfg \<Rightarrow> rt_default_branch (dc_repo cfg)
           | None \<Rightarrow> []
      else sstp_default_branch (imc_source c))"

definition component_mr_of :: "delivery_issue \<Rightarrow> implementation_component \<Rightarrow> component_mr" where
  "component_mr_of issue c =
     \<lparr>cmr_name = imc_name c, cmr_kind = imc_kind c, cmr_project_path = imc_project_path c,
       cmr_resolved_repo_path = imc_resolved_repo_path c, cmr_branch_name = imc_branch_name c,
       cmr_target_branch = target_branch issue c, cmr_repo_status = imc_repo_status c,
       cmr_source = imc_source c, cmr_candidate_files = imc_top_level_files c,
       cmr_depends_on = imc_depends_on c, cmr_mutation_plan = imc_mutation_plan c\<rparr>"

definition build_mr_proposal ::
  "(string \<Rightarrow> string + implementation_bundle) \<Rightarrow> delivery_issue \<Rightarrow> run_request \<Rightarrow> string \<Rightarrow> string + mr_proposal" where
  "build_mr_proposal dec issue run outputs =
     (case decode_implementation_bundle dec outputs of
        Inl e \<Rightarrow> Inl e
      | Inr b \<Rightarrow>
          if ib_components b = []
          then Inl (''implementation bundle for issue '' @ di_id issue @ '' contains no components'')
          else Inr \<lparr>mpr_issue_id = di_id issue, mpr_run_id = run_id run, mpr_delivery_name = ib_delivery_name b,
                 mpr_deploy_as_unit = ib_deploy_as_unit b,
                 mpr_components = map (component_mr_of issue) (ib_components b)\<rparr>)"

definition decode_promotion_plan ::
  "(string \<Rightarrow> string + promotion_plan) \<Rightarrow> string \<Rightarrow> string + promotion_plan" where
  "decode_promotion_plan dec outputs =
     (if outputs = [] then Inl ''stage outputs missing promotion plan''
      else case dec outputs of
             Inl e \<Rightarrow> Inl (''decode promotion plan: '' @ e)
           | Inr p \<Rightarrow> if pp_stage p = [] \<and> pp_files p = []
                      then Inl ''stage outputs missing promotion plan'' else Inr p)"

definition build_promotion_proposal ::
  "(string \<Rightarrow> string + promotion_plan) \<Rightarrow> delivery_issue \<Rightarrow> run_request \<Rightarrow> string \<Rightarrow> string + promotion_proposal" where
  "build_promotion_proposal dec issue run outputs =
     (case decode_promotion_plan dec outputs of
        Inl e \<Rightarrow> Inl e
      | Inr p \<Rightarrow> Inr
          \<lparr>ppr_issue_id = di_id issue, ppr_run_id = run_id run, ppr_stage = pp_stage p,
            ppr_environment = pp_environment p, ppr_delivery_name = pp_summary p,
            ppr_gitops_repo = pp_gitops_repo p, ppr_branch = pp_branch p,
            ppr_application_digest = pp_application_digest p, ppr_infrastructure_ref = pp_infrastructure_ref p,
            ppr_database_bundle_ref = pp_database_bundle_ref p, ppr_gitops_commit = pp_gitops_commit p,
            ppr_ready = pp_ready p, ppr_issues = pp_issues p, ppr_summary = pp_summary p,
            ppr_steps = pp_steps p, ppr_file_changes = pp_files p\<rparr>)"

subsection \<open>Requests\<close>

abbreviation "newline \<equiv> [CHR 0x0A]"

definition implementation_request :: "mr_proposal \<Rightarrow> component_mr \<Rightarrow> implementation_mr_payload" where
  "implementation_request p c =
     \<lparr>imp_project_path = cmr_project_path c, imp_component = c,
       imp_request = \<lparr>
         mc_title = ''[autodev] Implement '' @ mpr_delivery_name p @ '' ('' @ cmr_name c @ '')'',
         mc_description = ''Implements component '' @ cmr_name c @ '' ('' @ cmr_kind c @ '').'' @ newline @ newline @
           ''Issue: '' @ mpr_issue_id p @ newline @ ''Run: '' @ mpr_run_id p,
         mc_source_branch = cmr_branch_name c, mc_target_branch = cmr_target_branch c,
         mc_labels = [''autodev-implement'', ''component:'' @ cmr_name c], mc_remove_source = True\<rparr>\<rparr>"

definition build_implementation_requests :: "mr_proposal \<Rightarrow> implementation_mr_payload list" where
  "build_implementation_requests p = map (implementation_request p) (mpr_components p)"

definition component_names :: "component_mr list \<Rightarrow> string list" where
  "component_names cs = map cmr_name cs"

definition file_previews :: "promotion_file list \<Rightarrow> string list" where
  "file_previews fs = map (\<lambda>f. ''- '' @ pf_path f @ '': '' @ pf_preview f) fs"

definition description_suffix :: "promotion_file list \<Rightarrow> string" where
  "description_suffix fs = (if fs = [] then [] else '' Files: '' @ join_with '', '' (map pf_path fs))"

definition build_promotion_request :: "promotion_proposal \<Rightarrow> string \<Rightarrow> promotion_mr_payload" where
  "build_promotion_request p env =
     \<lparr>pm_project_path = gt_project_path (ppr_gitops_repo p),
       pm_title = ''[autodev] Promote '' @ ppr_delivery_name p @ '' to '' @ env,
       pm_description = ''Promotion plan for '' @ ppr_environment p @ '' (run '' @ ppr_run_id p @ '') targeting '' @
         gt_project_path (ppr_gitops_repo p) @ '' branch '' @ ppr_branch p @ ''.'' @
         description_suffix (ppr_file_changes p) @ newline @ newline @ ''Files:'' @ newline @
         join_with newline (file_previews (ppr_file_changes p)),
       pm_source_branch = ppr_branch p @ ''/'' @ ppr_run_id p, pm_target_branch = ppr_branch p,
       pm_labels = [''autodev-promotion'', ''env:'' @ env]\<rparr>"

subsection \<open>Publishing\<close>

text \<open>Without an adapter nothing is published; a component without a project is skipped.\<close>

primrec publish_requests ::
  "(string \<Rightarrow> mr_create_payload \<Rightarrow> ('x, merge_request) go) \<Rightarrow> implementation_mr_payload list \<Rightarrow>
   ('x, merge_request list) go" where
  "publish_requests upsert [] = m_ret []"
| "publish_requests upsert (r # rs) =
     (if imp_project_path r = [] then publish_requests upsert rs
      else m_bind (m_wrap (''upsert implementation merge request for '' @ cmr_name (imp_component r))
          (upsert (imp_project_path r) (imp_request r))) (\<lambda>mr.
        m_bind (publish_requests upsert rs) (\<lambda>mrs. m_ret (mr # mrs))))"

definition publish_implementation ::
  "(string \<Rightarrow> mr_create_payload \<Rightarrow> ('x, merge_request) go) option \<Rightarrow> mr_proposal \<Rightarrow>
   ('x, merge_request list) go" where
  "publish_implementation gitlab p =
     (case gitlab of None \<Rightarrow> m_ret []
      | Some upsert \<Rightarrow> publish_requests upsert (build_implementation_requests p))"

definition publish_promotion ::
  "(string \<Rightarrow> promotion_mr_payload \<Rightarrow> ('x, merge_request) go) option \<Rightarrow> string \<Rightarrow> promotion_mr_payload \<Rightarrow>
   ('x, merge_request option) go" where
  "publish_promotion gitlab project payload =
     (case gitlab of
        None \<Rightarrow> m_ret None
      | Some upsert \<Rightarrow>
          if project = [] then m_ret None
          else m_bind (m_wrap (''upsert promotion merge request for '' @ project) (upsert project payload)) (\<lambda>mr.
            m_ret (Some mr)))"

end
