(* ===== verification/GitlabProps.thy ===== *)
theory GitlabProps
  imports MergeRequests
begin

section \<open>What the GitLab adapters guarantee\<close>

text \<open>
  The files of the merge requests of a project carry distinct numbers and an upsert keeps them so; a
  canonical identifier of an issue is read back; listing the issues of a server that serves them in
  pages of a hundred gives all of them; and what is published are the merge requests that were asked for.
\<close>

subsection \<open>Names in a folder\<close>

lemma path_join_cleaned: "path_clean (path_join [r, n]) = path_join [r, n]" if "r \<noteq> []" "n \<noteq> []"
  using that by (simp add: path_join_pair)

lemma path_rel_name: "r \<noteq> [] \<Longrightarrow> path_segment n \<Longrightarrow> path_rel r (path_join [r, n]) = Some n"
  using path_rel_join [of r "[n]"] by simp

lemma path_join_inj:
  "r \<noteq> [] \<Longrightarrow> path_segment n \<Longrightarrow> path_segment n' \<Longrightarrow> path_join [r, n] = path_join [r, n'] \<longleftrightarrow> n = n'"
  by (metis path_rel_name option.inject)

lemma set_fd_names:
  assumes "r \<noteq> []"
  shows "n \<in> set (fd_names r fs) \<longleftrightarrow> path_segment n \<and> gm_get fs (path_join [r, n]) \<noteq> None"
proof
  assume "n \<in> set (fd_names r fs)"
  then obtain p where "p \<in> set (gm_keys fs)" "entry_of r p = Some n"
    by (auto simp: fd_names_def List.map_filter_def)
  then show "path_segment n \<and> gm_get fs (path_join [r, n]) \<noteq> None"
    by (auto simp: entry_of_def gm_get_None split: option.splits if_splits)
next
  assume n: "path_segment n \<and> gm_get fs (path_join [r, n]) \<noteq> None"
  then have "entry_of r (path_join [r, n]) = Some n" using assms by (simp add: entry_of_def path_rel_name)
  moreover have "path_join [r, n] \<in> set (gm_keys fs)" using n by (simp add: gm_get_None)
  ultimately show "n \<in> set (fd_names r fs)" by (force simp: fd_names_def List.map_filter_def)
qed

lemma path_ext_suffix: "path_ext (s @ ''.json'') = ''.json''"
  by (simp add: path_ext_def Let_def)

lemma path_segment_json: "CHR ''/'' \<notin> set s \<Longrightarrow> path_segment (s @ ''.json'')"
  by (auto simp: path_segment_def)

lemma sanitized_no_slash: "CHR ''/'' \<notin> set (sanitize_project_path s)"
  using replace_separators_chars [of s] by (auto simp: sanitize_project_path_def list_all_iff is_separator_def)

lemma mr_key_name: "path_segment (mr_key s t) \<and> path_ext (mr_key s t) = ''.json''"
  using path_segment_json [of "sanitize_project_path s @ ''__'' @ sanitize_project_path t"]
    path_ext_suffix [of "sanitize_project_path s @ ''__'' @ sanitize_project_path t"] sanitized_no_slash
  by (simp add: mr_key_def)

lemma mr_dir_nonempty: "mr_dir rt project \<noteq> []"
  by (auto simp: mr_dir_def path_join_def Let_def path_clean_not_Nil)

subsection \<open>Identifiers\<close>

text \<open>
  The identifier of an issue is read back.  The canonical identifier of a project without a colon and
  a number parses to them, and an identifier that parses names the scheme, the project and a numeral of
  the number.
\<close>

theorem issue_id_roundtrip:
  assumes "CHR '':'' \<notin> set project" and "0 \<le> iid" and "iid < 2 ^ 63"
  shows "parse_issue_id (canonical_issue_id project iid) = Inr (project, iid) \<and>
    (parse_issue_id v \<noteq> Inr (p, n) \<or>
     (\<exists>s. v = ''gitlab:'' @ p @ '':'' @ s \<and> CHR '':'' \<notin> set p \<and> atoi s = Some n))"
proof
  have "CHR '':'' \<notin> set (fmt_d iid)"
    using fmt_d_digits [OF assms(2)] by (auto simp: list_all_iff is_digit_def)
  then have "split_on CHR '':'' (canonical_issue_id project iid) = [''gitlab'', project, fmt_d iid]"
    using split_on_append [of "CHR '':''" "''gitlab''" "project @ '':'' @ fmt_d iid"]
      split_on_append [OF assms(1), of "fmt_d iid"] split_on_absent [of "CHR '':''" "fmt_d iid"]
    by (simp add: canonical_issue_id_def)
  then show "parse_issue_id (canonical_issue_id project iid) = Inr (project, iid)"
    by (simp add: parse_issue_id_def atoi_fmt_d_nonneg [OF assms(2,3)])
next
  show "parse_issue_id v \<noteq> Inr (p, n) \<or>
     (\<exists>s. v = ''gitlab:'' @ p @ '':'' @ s \<and> CHR '':'' \<notin> set p \<and> atoi s = Some n)"
  proof (cases "parse_issue_id v = Inr (p, n)")
    case True
    then obtain s where s: "split_on CHR '':'' v = [''gitlab'', p, s]" "atoi s = Some n"
      by (auto simp: parse_issue_id_def split: list.splits if_splits option.splits)
    then have "v = ''gitlab:'' @ p @ '':'' @ s" using join_split [of "CHR '':''" v] by simp
    moreover have "CHR '':'' \<notin> set p" using split_on_parts [of p "CHR '':''" v] s(1) by simp
    ultimately show ?thesis using s(2) by blast
  qed simp
qed

subsection \<open>The merge requests of a project\<close>

definition mr_at :: "gitlab_codec \<Rightarrow> string \<Rightarrow> string gomap \<Rightarrow> string \<Rightarrow> merge_request option" where
  "mr_at gc dir fs n =
     (case gm_get fs (path_join [dir, n]) of
        None \<Rightarrow> None
      | Some data \<Rightarrow> (case gc_decode_mr gc data of Inl _ \<Rightarrow> None | Inr mr \<Rightarrow> Some mr))"

text \<open>Every document decodes to a merge request with a positive number of its own.\<close>

definition mr_store_ok :: "gitlab_codec \<Rightarrow> string \<Rightarrow> string gomap \<Rightarrow> bool" where
  "mr_store_ok gc dir fs \<longleftrightarrow>
     (\<forall>n \<in> set (json_names (fd_names dir fs)). \<exists>mr. mr_at gc dir fs n = Some mr \<and> 0 < mr_iid mr) \<and>
     (\<forall>n n' mr mr'. n \<in> set (json_names (fd_names dir fs)) \<longrightarrow> n' \<in> set (json_names (fd_names dir fs)) \<longrightarrow>
        mr_at gc dir fs n = Some mr \<longrightarrow> mr_at gc dir fs n' = Some mr' \<longrightarrow> mr_iid mr = mr_iid mr' \<longrightarrow> n = n')"

lemma fd_read_ok:
  "fd_read path d = (r, d') \<Longrightarrow> fd_files d' = fd_files d \<and>
   (\<forall>data. r = Read_data data \<longrightarrow> gm_get (fd_files d) (path_clean path) = Some data) \<and>
   (r = Not_exist \<longrightarrow> gm_get (fd_files d) (path_clean path) = None)"
  by (auto simp: fd_read_def fd_call_def Let_def split: option.splits prod.splits)

lemma m_ask_eq: "m_ask f x = (Inr y, x') \<longleftrightarrow> f x = (y, x')"
  by (cases "f x") (simp add: m_ask_def)

lemma m_lift_eq: "m_lift r x = (Inr y, x') \<longleftrightarrow> r = Inr y \<and> x' = x"
  by (auto simp: m_lift_def)

lemma max_iid_bounds:
  assumes "max_iid gc dir ns m d = (Inr k, d')" and "dir \<noteq> []" and "list_all path_segment ns"
  shows "fd_files d' = fd_files d \<and> m \<le> k \<and>
    (\<forall>n \<in> set ns. \<exists>mr. mr_at gc dir (fd_files d) n = Some mr \<and> mr_iid mr \<le> k) \<and>
    (k = m \<or> (\<exists>n \<in> set ns. \<exists>mr. mr_at gc dir (fd_files d) n = Some mr \<and> mr_iid mr = k))"
  using assms
proof (induction ns arbitrary: m d)
  case Nil
  then show ?case by (simp add: m_ret_ok)
next
  case (Cons n ns)
  obtain r0 d1 where r0: "fd_read (path_join [dir, n]) d = (r0, d1)" by fastforce
  from Cons.prems(1) obtain data mr where r: "fd_read (path_join [dir, n]) d = (Read_data data, d1)"
    and e: "gc_decode_mr gc data = Inr mr"
    and rest: "max_iid gc dir ns (if mr_iid mr > m then mr_iid mr else m) d1 = (Inr k, d')"
    by (cases r0) (auto simp: r0 m_bind_ok m_ask_eq m_err_ok m_wrap_ok m_lift_eq)
  have n: "n \<noteq> []" using Cons.prems(3) by (simp add: path_segment_def)
  have d1: "fd_files d1 = fd_files d" and at: "mr_at gc dir (fd_files d) n = Some mr"
    using fd_read_ok [OF r] e path_join_cleaned [OF Cons.prems(2) n] by (auto simp: mr_at_def)
  show ?case
    using Cons.IH [OF rest Cons.prems(2)] Cons.prems(3) at unfolding d1
    by (auto split: if_splits)
qed

lemma fd_read_dir_ok: "fd_read_dir dir d = (Inr ns, d') \<Longrightarrow> ns = fd_names dir (fd_files d) \<and> fd_files d' = fd_files d"
  by (auto simp: fd_read_dir_def fd_call_def Let_def split: option.splits prod.splits)

lemma next_iid_fresh:
  assumes "next_merge_request_iid gc dir d = (Inr k, d')" and "dir \<noteq> []"
    and "\<And>n mr. mr_at gc dir (fd_files d) n = Some mr \<Longrightarrow> mr_iid mr < 2 ^ 63 - 1"
  shows "fd_files d' = fd_files d \<and> 0 < k \<and>
    (\<forall>n \<in> set (json_names (fd_names dir (fd_files d))). \<exists>mr. mr_at gc dir (fd_files d) n = Some mr \<and> mr_iid mr < k)"
proof -
  obtain ns d1 m d2 where r: "fd_read_dir dir d = (Inr ns, d1)" and m: "max_iid gc dir (json_names ns) 0 d1 = (Inr m, d2)"
    and k: "k = wrap64 (m + 1)" "d' = d2"
    using assms(1) by (auto simp: next_merge_request_iid_def m_ok)
  note dir = fd_read_dir_ok [OF r]
  have "list_all path_segment (json_names ns)"
    using dir assms(2) by (auto simp: list_all_iff json_names_def set_fd_names)
  note b = max_iid_bounds [OF m assms(2) this]
  have "m < 2 ^ 63 - 1" using b assms(3) dir by auto
  then have "k = m + 1" using b k(1) by (simp add: wrap64_id int64_def)
  then show ?thesis using b dir k(2) by (force simp: add1_zle_eq)
qed

lemma existing_mr_ok:
  assumes "existing_mr gc path d = (Inr mr, d')"
  shows "fd_files d' = fd_files d \<and>
    (gm_get (fd_files d) (path_clean path) = None \<and> mr = zero_merge_request \<or>
     (\<exists>data. gm_get (fd_files d) (path_clean path) = Some data \<and> gc_decode_mr gc data = Inr mr))"
proof -
  obtain r d1 where r: "fd_read path d = (r, d1)" by fastforce
  from fd_read_ok [OF r] assms show ?thesis
    by (cases r) (auto simp: existing_mr_def r m_bind_ok m_ask_eq m_err_ok m_wrap_ok m_lift_eq m_ret_ok)
qed

lemma fd_write_ok: "fd_write path data d = (Inr (), d') \<Longrightarrow> fd_files d' = gm_put (path_clean path) data (fd_files d)"
  by (auto simp: fd_write_def Let_def split: option.splits prod.splits)

lemma fd_mkdir_ok: "fd_mkdir_all path d = (Inr (), d') \<Longrightarrow> fd_files d' = fd_files d"
  by (auto simp: fd_mkdir_all_def fd_call_def Let_def split: option.splits prod.splits)

lemma json_name:
  "dir \<noteq> [] \<Longrightarrow> n \<in> set (json_names (fd_names dir fs)) \<longleftrightarrow>
     path_segment n \<and> path_ext n = ''.json'' \<and> gm_get fs (path_join [dir, n]) \<noteq> None"
  by (auto simp: json_names_def set_fd_names)

lemma mr_at_put:
  assumes "dir \<noteq> []" and "path_segment key" and "path_segment n" and "gc_decode_mr gc s = Inr mr"
  shows "mr_at gc dir (gm_put (path_join [dir, key]) s fs) n = (if n = key then Some mr else mr_at gc dir fs n)"
  using assms by (auto simp: mr_at_def path_join_inj)

text \<open>A merge request whose number no other one has can be stored.\<close>

lemma mr_store_put:
  assumes "mr_store_ok gc dir fs" and "dir \<noteq> []" and key: "path_segment key" "path_ext key = ''.json''"
    and mr: "gc_decode_mr gc s = Inr mr" "0 < mr_iid mr"
    and new: "\<And>n old. n \<in> set (json_names (fd_names dir fs)) \<Longrightarrow> n \<noteq> key \<Longrightarrow>
      mr_at gc dir fs n = Some old \<Longrightarrow> mr_iid old \<noteq> mr_iid mr"
  shows "mr_store_ok gc dir (gm_put (path_join [dir, key]) s fs)"
proof -
  let ?fs = "gm_put (path_join [dir, key]) s fs"
  have names: "n \<in> set (json_names (fd_names dir ?fs)) \<longleftrightarrow> n = key \<or> n \<in> set (json_names (fd_names dir fs))" for n
    using assms(2) key by (auto simp: json_name path_join_inj)
  have at: "mr_at gc dir ?fs n = (if n = key then Some mr else mr_at gc dir fs n)"
    if "n \<in> set (json_names (fd_names dir ?fs))" for n
    using that assms(2) key mr(1) by (intro mr_at_put) (auto simp: json_name)
  show ?thesis
    unfolding mr_store_ok_def
  proof (intro conjI ballI allI impI)
    fix n assume n: "n \<in> set (json_names (fd_names dir ?fs))"
    show "\<exists>m. mr_at gc dir ?fs n = Some m \<and> 0 < mr_iid m"
      using at [OF n] n assms(1) mr(2) unfolding names mr_store_ok_def by auto
  next
    fix n n' m m'
    assume n: "n \<in> set (json_names (fd_names dir ?fs))" "n' \<in> set (json_names (fd_names dir ?fs))"
      "mr_at gc dir ?fs n = Some m" "mr_at gc dir ?fs n' = Some m'" "mr_iid m = mr_iid m'"
    have old: "k \<in> set (json_names (fd_names dir fs))" if "k \<in> set (json_names (fd_names dir ?fs))" "k \<noteq> key" for k
      using that unfolding names by simp
    show "n = n'"
    proof (cases "n = key \<or> n' = key")
      case True
      then show ?thesis using n(3-5) at [OF n(1)] at [OF n(2)] new old [OF n(1)] old [OF n(2)]
        by (auto split: if_splits)
    next
      case False
      then show ?thesis using n(3-5) at [OF n(1)] at [OF n(2)] old [OF n(1)] old [OF n(2)] assms(1)
        unfolding mr_store_ok_def by auto
    qed
  qed
qed

lemma fs_upsert_ok:
  assumes "fs_upsert gc rt project title desc source targ labels remove d = (Inr mr, d')"
  shows "\<exists>old d2 d3 s. existing_mr gc (path_join [mr_dir rt project, mr_key source targ]) d2 = (Inr old, d3) \<and>
    fd_files d2 = fd_files d \<and>
    (if mr_iid old = 0 then \<exists>d4. next_merge_request_iid gc (mr_dir rt project) d3 = (Inr (mr_iid mr), d4)
     else mr_iid mr = mr_iid old) \<and>
    gc_encode_mr gc mr = Inr s \<and>
    fd_files d' = gm_put (path_join [mr_dir rt project, mr_key source targ]) s (fd_files d) \<and>
    mr_project_path mr = project \<and> mr_source_branch mr = source \<and> mr_target_branch mr = targ \<and>
    mr_title mr = title \<and> mr_description mr = desc \<and> mr_labels mr = labels \<and> mr_remove_source mr = remove \<and>
    mr_state mr = ''opened''"
proof -
  let ?path = "path_join [mr_dir rt project, mr_key source targ]"
  obtain d1 old d2 iid d3 s where k: "fd_mkdir_all (mr_dir rt project) d = (Inr (), d1)"
    and o': "existing_mr gc ?path d1 = (Inr old, d2)"
    and i: "(if mr_iid old = 0 then next_merge_request_iid gc (mr_dir rt project) else m_ret (mr_iid old)) d2 = (Inr iid, d3)"
    and mr: "mr = \<lparr>mr_project_path = project, mr_iid = iid, mr_title = title, mr_description = desc,
       mr_source_branch = source, mr_target_branch = targ, mr_labels = labels, mr_state = ''opened'',
       mr_web_url = ''file://'' @ ?path, mr_remove_source = remove\<rparr>"
    and s: "gc_encode_mr gc mr = Inr s" and w: "fd_write ?path s d3 = (Inr (), d')"
    using assms unfolding fs_upsert_def write_json_file_def Let_def m_bind_ok m_then_ok m_wrap_ok m_ret_ok m_lift_eq by blast
  have n: "mr_key source targ \<noteq> []" using mr_key_name [of source targ] by (simp add: path_segment_def)
  have "fd_files d3 = fd_files d2"
  proof (cases "mr_iid old = 0")
    case True
    with i obtain ns d5 m d6 where "fd_read_dir (mr_dir rt project) d2 = (Inr ns, d5)"
        and m: "max_iid gc (mr_dir rt project) (json_names ns) 0 d5 = (Inr m, d6)" "d3 = d6"
      by (auto simp: next_merge_request_iid_def m_ok)
    note dir = fd_read_dir_ok [OF this(1)]
    have "list_all path_segment (json_names ns)"
      using dir mr_dir_nonempty by (auto simp: list_all_iff json_names_def set_fd_names)
    from max_iid_bounds [OF m(1) mr_dir_nonempty this] dir m(2) show ?thesis by simp
  qed (use i in \<open>simp add: m_ret_ok\<close>)
  then have "fd_files d' = gm_put ?path s (fd_files d)"
    using fd_write_ok [OF w] existing_mr_ok [OF o'] fd_mkdir_ok [OF k] path_join_cleaned [OF mr_dir_nonempty n] by simp
  then show ?thesis using o' fd_mkdir_ok [OF k] i s mr by (auto simp: m_ret_ok split: if_splits)
qed

text \<open>
  C39: merge requests keep their numbers.  When every file of a project's folder is a merge request with a
  positive number of its own, so it is after an upsert, which stores what it returns; a merge request
  that was there keeps its number, a new one gets a number above all others, and no other file changes.
\<close>

theorem upsert_keeps_numbers:
  assumes "mr_store_ok gc (mr_dir rt project) (fd_files d)"
    and "\<And>mr s. gc_encode_mr gc mr = Inr s \<Longrightarrow> gc_decode_mr gc s = Inr mr"
    and "\<And>n mr. mr_at gc (mr_dir rt project) (fd_files d) n = Some mr \<Longrightarrow> mr_iid mr < 2 ^ 63 - 1"
    and "fs_upsert gc rt project title desc source targ labels remove d = (Inr mr, d')"
  shows "mr_store_ok gc (mr_dir rt project) (fd_files d') \<and>
    mr_at gc (mr_dir rt project) (fd_files d') (mr_key source targ) = Some mr \<and> 0 < mr_iid mr \<and>
    (case mr_at gc (mr_dir rt project) (fd_files d) (mr_key source targ) of
       Some old \<Rightarrow> mr_iid mr = mr_iid old
     | None \<Rightarrow> list_all (\<lambda>n. case mr_at gc (mr_dir rt project) (fd_files d) n of
         Some old \<Rightarrow> mr_iid old < mr_iid mr | None \<Rightarrow> False)
         (json_names (fd_names (mr_dir rt project) (fd_files d)))) \<and>
    fd_files d' = gm_put (path_join [mr_dir rt project, mr_key source targ])
      (projr (gc_encode_mr gc mr)) (fd_files d)"
proof -
  let ?dir = "mr_dir rt project" and ?key = "mr_key source targ" and ?fs = "fd_files d"
  obtain old d2 d3 s where o': "existing_mr gc (path_join [?dir, ?key]) d2 = (Inr old, d3)" "fd_files d2 = ?fs"
    and i: "if mr_iid old = 0 then \<exists>d4. next_merge_request_iid gc ?dir d3 = (Inr (mr_iid mr), d4)
      else mr_iid mr = mr_iid old"
    and s: "gc_encode_mr gc mr = Inr s" and w: "fd_files d' = gm_put (path_join [?dir, ?key]) s ?fs"
    using fs_upsert_ok [OF assms(4)] by blast
  note dir = mr_dir_nonempty [of rt project] and key = mr_key_name [of source targ]
  have clean: "path_clean (path_join [?dir, ?key]) = path_join [?dir, ?key]"
    using key by (intro path_join_cleaned dir) (simp add: path_segment_def)
  note e = existing_mr_ok [OF o'(1), unfolded o'(2) clean]
  note dec = assms(2) [OF s]
  have put: "mr_store_ok gc ?dir (fd_files d')"
    if "0 < mr_iid mr" "\<And>n old. n \<in> set (json_names (fd_names ?dir ?fs)) \<Longrightarrow> n \<noteq> ?key \<Longrightarrow>
      mr_at gc ?dir ?fs n = Some old \<Longrightarrow> mr_iid old \<noteq> mr_iid mr"
    unfolding w by (rule mr_store_put [OF assms(1) dir _ _ dec]) (use key that in auto)
  have at: "mr_at gc ?dir (fd_files d') ?key = Some mr"
    using mr_at_put [OF dir _ _ dec, of ?key ?key] key by (simp add: w)
  have frame: "fd_files d' = gm_put (path_join [?dir, ?key]) (projr (gc_encode_mr gc mr)) ?fs"
    using w s by simp
  show ?thesis
  proof (cases "mr_at gc ?dir ?fs ?key")
    case None
    then have "mr_iid old = 0" using e by (auto simp: mr_at_def zero_merge_request_def)
    with i obtain d4 where nx: "next_merge_request_iid gc ?dir d3 = (Inr (mr_iid mr), d4)" by auto
    have "fd_files d3 = ?fs" using e by simp
    note fresh = next_iid_fresh [OF nx dir, unfolded this, OF assms(3)]
    have "mr_store_ok gc ?dir (fd_files d')" by (rule put) (use fresh in fastforce)+
    with at frame fresh None show ?thesis by (fastforce simp: list_all_iff)
  next
    case (Some m)
    then have "gm_get ?fs (path_join [?dir, ?key]) \<noteq> None" and m: "m = old"
      using e by (auto simp: mr_at_def split: option.splits sum.splits)
    then have k: "?key \<in> set (json_names (fd_names ?dir ?fs))" using dir key by (simp add: json_name)
    then have pos: "0 < mr_iid old" using assms(1) Some m unfolding mr_store_ok_def by force
    then have iid: "mr_iid mr = mr_iid old" using i by simp
    have "mr_store_ok gc ?dir (fd_files d')"
      by (rule put) (use pos iid k Some m assms(1) in \<open>auto simp: mr_store_ok_def\<close>)
    with at frame pos iid Some m show ?thesis by simp
  qed
qed

subsection \<open>Listing the issues of a server\<close>

definition page_url :: "'x api_env \<Rightarrow> int \<Rightarrow> string" where
  "page_url av page = ''/projects/'' @ av_path_escape av (av_project av) @
     ''/issues?state=opened&per_page=100&page='' @ fmt_d page"

text \<open>The pages of a hundred that a server with the issues \<open>all\<close> serves.\<close>

definition serves_pages :: "'x api_env \<Rightarrow> api_issue list \<Rightarrow> bool" where
  "serves_pages av all \<longleftrightarrow> (\<forall>k x. \<exists>x'. api_get av (page_url av (int k + 1)) (av_decode_issues av) x =
     (Inr (take 100 (drop (100 * k) all)), x'))"

definition then_decoded :: "delivery_issue list \<Rightarrow> string + delivery_issue list \<Rightarrow> string + delivery_issue list" where
  "then_decoded acc r = (case r of Inl e \<Rightarrow> Inl e | Inr ds \<Rightarrow> Inr (acc @ ds))"

lemma decode_batch_append:
  "decode_batch av (xs @ ys) =
     (case decode_batch av xs of Inl e \<Rightarrow> Inl e | Inr ds \<Rightarrow> then_decoded ds (decode_batch av ys))"
  by (induction xs) (auto simp: then_decoded_def split: sum.splits)

lemma list_pages_Suc:
  "list_pages (Suc n) av page acc x =
     (case api_get av (page_url av page) (av_decode_issues av) x of
        (Inl e, x') \<Rightarrow> Some (Inl e, x')
      | (Inr batch, x') \<Rightarrow>
          if batch = [] then Some (Inr acc, x')
          else (case decode_batch av batch of
                  Inl e \<Rightarrow> Some (Inl e, x')
                | Inr ds \<Rightarrow>
                    if length batch < 100 then Some (Inr (acc @ ds), x')
                    else list_pages n av (wrap64 (page + 1)) (acc @ ds) x'))"
  by (simp add: page_url_def)

lemma list_pages_complete:
  "serves_pages av all \<Longrightarrow> length all < 2 ^ 62 \<Longrightarrow> 100 * k \<le> length all \<Longrightarrow> length all - 100 * k < 100 * n \<Longrightarrow>
   \<exists>x'. list_pages n av (int k + 1) acc x = Some (then_decoded acc (decode_batch av (drop (100 * k) all)), x')"
proof (induction n arbitrary: k acc x)
  case 0
  then show ?case by simp
next
  case (Suc n)
  let ?batch = "take 100 (drop (100 * k) all)"
  obtain x1 where g: "api_get av (page_url av (int k + 1)) (av_decode_issues av) x = (Inr ?batch, x1)"
    using Suc.prems(1) unfolding serves_pages_def by blast
  show ?case
  proof (cases "length (drop (100 * k) all) < 100")
    case True
    then have "?batch = drop (100 * k) all" by simp
    then show ?thesis using g True
      by (auto simp del: list_pages.simps simp: list_pages_Suc then_decoded_def split: sum.splits)
  next
    case False
    then have len: "length ?batch = 100" "?batch \<noteq> []" "100 * Suc k \<le> length all" by auto
    have split: "drop (100 * k) all = ?batch @ drop (100 * Suc k) all"
      using append_take_drop_id [of 100 "drop (100 * k) all"] by (simp add: add.commute)
    have full: "decode_batch av (drop (100 * k) all) = (case decode_batch av ?batch of Inl e \<Rightarrow> Inl e
        | Inr ds \<Rightarrow> then_decoded ds (decode_batch av (drop (100 * Suc k) all)))"
      by (subst split) (rule decode_batch_append)
    have page: "wrap64 (int k + 1 + 1) = int (Suc k) + 1"
      using len(3) Suc.prems(2) by (simp add: wrap64_id int64_def)
    show ?thesis
    proof (cases "decode_batch av ?batch")
      case (Inl e)
      then show ?thesis using g len
        by (simp del: list_pages.simps add: list_pages_Suc then_decoded_def full)
    next
      case (Inr ds)
      have "length all - 100 * Suc k < 100 * n" using Suc.prems(4) len(3) unfolding mult_Suc_right by linarith
      then obtain x2 where "list_pages n av (int (Suc k) + 1) (acc @ ds) x1 =
          Some (then_decoded (acc @ ds) (decode_batch av (drop (100 * Suc k) all)), x2)"
        using Suc.IH [of "Suc k" "acc @ ds" x1] Suc.prems(1,2) len(3) by blast
      moreover have "list_pages (Suc n) av (int k + 1) acc x = list_pages n av (int (Suc k) + 1) (acc @ ds) x1"
        using g len Inr page by (simp del: list_pages.simps add: list_pages_Suc)
      ultimately show ?thesis
        by (simp add: full Inr then_decoded_def split: sum.splits)
    qed
  qed
qed

text \<open>
  C40: listing issues ends with all of them.  Against a server that serves its open issues in pages of a
  hundred, the listing ends after one page more than the full pages, with the delivery issues among all
  of them, in order, or with the error of the first one that does not decode.
\<close>

theorem list_issues_complete:
  assumes "serves_pages av all" and "length all < 2 ^ 62" and "length all div 100 < fuel"
  shows "\<exists>x'. api_list_issues fuel av x = Some (decode_batch av all, x')"
proof -
  have "length all < 100 * fuel" using assms(3) by linarith
  then obtain x' where "list_pages fuel av 1 [] x = Some (then_decoded [] (decode_batch av all), x')"
    using list_pages_complete [OF assms(1,2), of 0 fuel "[]" x] by auto
  moreover have "then_decoded [] r = r" for r by (simp add: then_decoded_def split: sum.split)
  ultimately show ?thesis by (simp add: api_list_issues_def)
qed

subsection \<open>Publishing through an adapter\<close>

text \<open>
  What a client of an adapter relies on: the merge request that comes back is the one that was asked for.
\<close>

locale merge_request_host =
  fixes upsert :: "string \<Rightarrow> mr_create_payload \<Rightarrow> ('x, merge_request) go"
  assumes answers: "upsert project p x = (Inr mr, x') \<Longrightarrow>
    mr_project_path mr = project \<and> mr_source_branch mr = mc_source_branch p \<and>
    mr_target_branch mr = mc_target_branch p \<and> mr_labels mr = mc_labels p"
begin

lemma publish_requests_answers:
  "publish_requests upsert rs x = (Inr mrs, x') \<Longrightarrow>
   map (\<lambda>mr. (mr_project_path mr, mr_source_branch mr, mr_target_branch mr, mr_labels mr)) mrs =
   map (\<lambda>r. (imp_project_path r, mc_source_branch (imp_request r), mc_target_branch (imp_request r),
       mc_labels (imp_request r))) (filter (\<lambda>r. imp_project_path r \<noteq> []) rs)"
  by (induction rs arbitrary: x mrs) (auto simp: m_ok dest: answers split: if_splits)

end

interpretation fs_host: merge_request_host "fs_upsert_merge_request gc rt" for gc rt
  by unfold_locales (auto simp: fs_upsert_merge_request_def dest!: fs_upsert_ok)

text \<open>
  One merge request per component.  When publishing an implementation through the filesystem adapter
  succeeds, there is, in the order of the components that name a project, one merge request for each, from
  the branch of the component to the default branch of its source or, without one, of its repository in
  the work order, labelled with the component.
\<close>

theorem published_per_component:
  assumes "build_mr_proposal dec issue run outputs = Inr p"
    and "publish_implementation (Some (fs_upsert_merge_request gc rt)) p d = (Inr mrs, d')"
  shows "\<exists>b. decode_implementation_bundle dec outputs = Inr b \<and>
    map (\<lambda>mr. (mr_project_path mr, mr_source_branch mr, mr_target_branch mr, mr_labels mr)) mrs =
    map (\<lambda>c. (imc_project_path c, imc_branch_name c, target_branch issue c,
        [''autodev-implement'', ''component:'' @ imc_name c]))
      (filter (\<lambda>c. imc_project_path c \<noteq> []) (ib_components b))"
proof -
  obtain b where b: "decode_implementation_bundle dec outputs = Inr b"
    and p: "mpr_components p = map (component_mr_of issue) (ib_components b)"
    using assms(1) by (auto simp: build_mr_proposal_def split: sum.splits if_splits)
  have "publish_requests (fs_upsert_merge_request gc rt) (build_implementation_requests p) d = (Inr mrs, d')"
    using assms(2) by (simp add: publish_implementation_def)
  from fs_host.publish_requests_answers [OF this] b show ?thesis
    by (simp add: build_implementation_requests_def p implementation_request_def component_mr_of_def
      filter_map o_def)
qed

end
