(* ===== verification/GitlabWitness.thy ===== *)
theory GitlabWitness
  imports GitlabProps
begin

section \<open>Issues and merge requests of a small project\<close>

lemma issue_id_roundtrip_witness:
  "CHR '':'' \<notin> set ''group/app'' \<and> (0::int) \<le> 7 \<and> (7::int) < 2 ^ 63 \<and>
   parse_issue_id (canonical_issue_id ''group/app'' 7) = Inr (''group/app'', 7)"
  using issue_id_roundtrip [of "''group/app''" 7] by simp

subsection \<open>Merge requests\<close>

definition first_mr :: merge_request where
  "first_mr = zero_merge_request\<lparr>mr_project_path := ''group/app'', mr_iid := 1, mr_source_branch := ''a'',
     mr_target_branch := ''main'', mr_state := ''opened''\<rparr>"

definition second_mr :: merge_request where
  "second_mr = \<lparr>mr_project_path = ''group/app'', mr_iid = 2, mr_title = ''[autodev] Implement shop (web)'',
     mr_description = ''Implements component web (service).'' @ newline @ newline @ ''Issue: issue-1'' @ newline @
       ''Run: run-0001'', mr_source_branch = ''b'',
     mr_target_branch = ''main'', mr_labels = [''autodev-implement'', ''component:web''], mr_state = ''opened'',
     mr_web_url = ''file:///gitlab/merge_requests/group-app/b__main.json'', mr_remove_source = True\<rparr>"

definition sample_codec :: gitlab_codec where
  "sample_codec = \<lparr>gc_decode_issue = (\<lambda>s. Inl ''no issue''), gc_encode_issue = (\<lambda>i. Inl ''no issue''),
     gc_decode_mr = (\<lambda>s. if s = ''1'' then Inr first_mr else if s = ''2'' then Inr second_mr else Inl ''unknown''),
     gc_encode_mr = (\<lambda>m. if m = first_mr then Inr ''1'' else if m = second_mr then Inr ''2'' else Inl ''unknown'')\<rparr>"

definition sample_folder :: folder where
  "sample_folder = \<lparr>fd_files = [(''/gitlab/merge_requests/group-app/a__main.json'', ''1'')], fd_calls = 0,
     fd_fault = (\<lambda>n. None), fd_clock = int\<rparr>"

lemma sample_codec_law: "gc_encode_mr sample_codec mr = Inr s \<Longrightarrow> gc_decode_mr sample_codec s = Inr mr"
  by (auto simp: sample_codec_def split: if_splits)

lemma sample_dir: "mr_dir ''/gitlab'' ''group/app'' = ''/gitlab/merge_requests/group-app''"
  by code_simp

lemma sample_names: "json_names (fd_names ''/gitlab/merge_requests/group-app'' (fd_files sample_folder)) = [''a__main.json'']"
  by code_simp

lemma sample_at: "mr_at sample_codec ''/gitlab/merge_requests/group-app'' (fd_files sample_folder) ''a__main.json'' = Some first_mr"
  by code_simp

lemma sample_at_iid:
  "mr_at sample_codec dir (fd_files sample_folder) n = Some mr \<Longrightarrow> mr_iid mr < 2 ^ 63 - 1"
  by (auto simp: mr_at_def sample_codec_def first_mr_def second_mr_def split: option.splits if_splits)

lemma sample_store_ok: "mr_store_ok sample_codec (mr_dir ''/gitlab'' ''group/app'') (fd_files sample_folder)"
  unfolding mr_store_ok_def sample_dir sample_names by (simp add: sample_at) (simp add: first_mr_def)

lemma sample_upsert:
  "case fs_upsert sample_codec ''/gitlab'' ''group/app'' (mr_title second_mr) (mr_description second_mr) ''b'' ''main''
      (mr_labels second_mr) True sample_folder of
     (r, d) \<Rightarrow> r = Inr second_mr \<and> gm_keys (fd_files d) =
       [''/gitlab/merge_requests/group-app/a__main.json'', ''/gitlab/merge_requests/group-app/b__main.json'']"
  by code_simp

lemma upsert_keeps_numbers_witness:
  "\<exists>d'. fs_upsert sample_codec ''/gitlab'' ''group/app'' (mr_title second_mr) (mr_description second_mr) ''b'' ''main''
      (mr_labels second_mr) True sample_folder = (Inr second_mr, d') \<and>
     mr_store_ok sample_codec (mr_dir ''/gitlab'' ''group/app'') (fd_files d') \<and>
     mr_at sample_codec (mr_dir ''/gitlab'' ''group/app'') (fd_files d') (mr_key ''b'' ''main'') = Some second_mr"
proof -
  obtain d' where d': "fs_upsert sample_codec ''/gitlab'' ''group/app'' (mr_title second_mr)
      (mr_description second_mr) ''b'' ''main'' (mr_labels second_mr) True sample_folder = (Inr second_mr, d')"
    using sample_upsert by (auto split: prod.splits)
  have "mr_store_ok sample_codec (mr_dir ''/gitlab'' ''group/app'') (fd_files d') \<and>
      mr_at sample_codec (mr_dir ''/gitlab'' ''group/app'') (fd_files d') (mr_key ''b'' ''main'') = Some second_mr"
    using upsert_keeps_numbers [OF sample_store_ok _ _ d'] sample_codec_law sample_at_iid by blast
  with d' show ?thesis by blast
qed

subsection \<open>Publishing\<close>

definition sample_component :: implementation_component where
  "sample_component = \<lparr>imc_name = ''web'', imc_kind = ''service'', imc_project_path = ''group/app'',
     imc_resolved_repo_path = [], imc_branch_name = ''b'',
     imc_source = \<lparr>sstp_project_path = [], sstp_default_branch = ''main'', sstp_commit_sha = [], sstp_tree_state = []\<rparr>,
     imc_repo_status = [], imc_top_level_files = [], imc_depends_on = [], imc_mutation_plan = None\<rparr>"

definition sample_bundle :: implementation_bundle where
  "sample_bundle = \<lparr>ib_delivery_name = ''shop'', ib_deploy_as_unit = False, ib_component_count = 1,
     ib_resolved_repo_count = 0, ib_unresolved_repo_count = 1, ib_components = [sample_component]\<rparr>"

definition sample_proposal :: "string + mr_proposal" where
  "sample_proposal = build_mr_proposal (\<lambda>s. Inr sample_bundle) (zero_delivery_issue\<lparr>di_id := ''issue-1''\<rparr>)
     (zero_run_request\<lparr>run_id := ''run-0001''\<rparr>) ''outputs''"

lemma sample_published:
  "case sample_proposal of Inl _ \<Rightarrow> False | Inr p \<Rightarrow>
     fst (publish_implementation (Some (fs_upsert_merge_request sample_codec ''/gitlab'')) p sample_folder) =
       Inr [second_mr]"
  by code_simp

lemma published_per_component_witness:
  "\<exists>p d'. sample_proposal = Inr p \<and>
     publish_implementation (Some (fs_upsert_merge_request sample_codec ''/gitlab'')) p sample_folder =
       (Inr [second_mr], d') \<and>
     (\<exists>b. decode_implementation_bundle (\<lambda>s. Inr sample_bundle) ''outputs'' = Inr b \<and>
        map (\<lambda>mr. (mr_project_path mr, mr_source_branch mr, mr_target_branch mr, mr_labels mr)) [second_mr] =
        map (\<lambda>c. (imc_project_path c, imc_branch_name c,
            target_branch (zero_delivery_issue\<lparr>di_id := ''issue-1''\<rparr>) c,
            [''autodev-implement'', ''component:'' @ imc_name c]))
          (filter (\<lambda>c. imc_project_path c \<noteq> []) (ib_components b)))"
proof -
  obtain p where p: "sample_proposal = Inr p" using sample_published by (auto split: sum.splits)
  obtain d' where d': "publish_implementation (Some (fs_upsert_merge_request sample_codec ''/gitlab'')) p sample_folder =
      (Inr [second_mr], d')"
    using sample_published by (auto simp: p prod_eq_iff)
  from published_per_component [OF p [unfolded sample_proposal_def] d'] p d' show ?thesis by blast
qed

subsection \<open>Listing\<close>

definition sample_api_issue :: api_issue where
  "sample_api_issue = \<lparr>ai_iid = 7, ai_project_id = 3, ai_title = ''Checkout'', ai_description = ''```json {} ```'',
     ai_labels = [''delivery/ready''], ai_updated_at = []\<rparr>"

definition sample_api :: "nat api_env" where
  "sample_api = \<lparr>av_base_url = ''http://gitlab'', av_token = ''t'', av_project = ''3'',
     av_send = (\<lambda>m url h b n. (Inr \<lparr>ha_status = 200, ha_body =
       (if url = ''http://gitlab/projects/3/issues?state=opened&per_page=100&page=1'' then ''one'' else ''none'')\<rparr>, Suc n)),
     av_path_escape = (\<lambda>s. s), av_query_escape = (\<lambda>s. s), av_url_path = (\<lambda>s. s), av_marshal = (\<lambda>v. Inr ''{}''),
     av_decode_issues = (\<lambda>b. Inr (if b = ''one'' then [sample_api_issue] else [])),
     av_decode_mr = (\<lambda>b. Inl ''none''), av_decode_mrs = (\<lambda>b. Inr []), av_validate = (\<lambda>p. Inr ()),
     av_decode_spec = (\<lambda>p. Inr zero_delivery_issue), av_parse_time = (\<lambda>s. 0)\<rparr>"

lemma sample_pages: "serves_pages sample_api [sample_api_issue]"
proof -
  have "fmt_d (int k + 1) = ''1'' \<longleftrightarrow> k = 0" for k
  proof
    assume "fmt_d (int k + 1) = ''1''"
    then have "dec_val (nat_dec (Suc k)) = dec_val ''1''" by (simp add: fmt_d_def nat_add_distrib)
    moreover have "dec_val ''1'' = 1" by code_simp
    ultimately show "k = 0" by (simp add: dec_val_nat_dec)
  next
    assume "k = 0" then show "fmt_d (int k + 1) = ''1''" by simp code_simp
  qed
  then show ?thesis
    unfolding serves_pages_def api_get_def api_do_def m_bind_def m_lift_def page_url_def
    by (auto simp: sample_api_def)
qed

lemma list_issues_complete_witness:
  "serves_pages sample_api [sample_api_issue] \<and> length [sample_api_issue] < 2 ^ 62 \<and>
   length [sample_api_issue] div 100 < 1 \<and>
   (\<exists>x'. api_list_issues 1 sample_api 0 = Some (decode_batch sample_api [sample_api_issue], x')) \<and>
   (case decode_batch sample_api [sample_api_issue] of Inl _ \<Rightarrow> False | Inr ds \<Rightarrow> map di_id ds = [''gitlab:3:7''])"
proof -
  have "case decode_batch sample_api [sample_api_issue] of Inl _ \<Rightarrow> False | Inr ds \<Rightarrow> map di_id ds = [''gitlab:3:7'']"
    by code_simp
  then show ?thesis using list_issues_complete [OF sample_pages, of 1 0] sample_pages by simp
qed

end
