(* ===== verification/Commands.thy ===== *)
theory Commands
  imports HttpClient Executor Materialize Contracts Ratchet Signals
begin

section \<open>The commands stage-runner and control-plane (cmd/stage-runner, cmd/control-plane)\<close>

text \<open>
  What the two programs do with the components: how a configuration chooses the stores, the worker that
  claims over HTTP, the local loop, a single stage, the materialization of an issue, and the
  subcommands of the control plane.  A command that ends in \<open>log.Fatal\<close> is one that returns an error;
  options arrive parsed; what a command prints is what it returns.
\<close>

subsection \<open>Arguments\<close>

fun config_args :: "string list \<Rightarrow> string \<times> string list \<Rightarrow> string + string \<times> string list" where
  "config_args [] found = Inr found"
| "config_args (a # as) (path, out) =
     (if a = ''--config'' then
        (case as of [] \<Rightarrow> Inl ''--config requires a path'' | p # rest \<Rightarrow> config_args rest (p, out))
      else if has_prefix a ''--config='' then config_args as (drop (length ''--config='') a, out)
      else config_args as (path, out @ [a]))"

definition extract_config_path :: "string list \<Rightarrow> string + string \<times> string list" where
  "extract_config_path args =
     (case config_args args ([], []) of
        Inl e \<Rightarrow> Inl e
      | Inr (path, out) \<Rightarrow> if trim_space path = [] then Inl ''--config is required'' else Inr (path, out))"

definition split_csv :: "string \<Rightarrow> string list" where
  "split_csv value =
     (if value = [] then [] else filter (\<lambda>p. p \<noteq> []) (map trim_space (split_on CHR '','' value)))"

subsection \<open>What a configuration chooses\<close>

record wiring =
  wr_locks_dsn :: string
  wr_signals_dsn :: string
  wr_ratchet_dsn :: string
  wr_gitlab_base_url :: string
  wr_gitlab_issues_project :: string
  wr_gitlab_token :: string
  wr_gitlab_token_name :: string
  wr_gitlab_dir :: string

datatype store_choice = Noop_store | Postgres_store string

datatype adapter_choice = Filesystem_adapter string | Api_adapter string string string

definition must_locker :: "wiring \<Rightarrow> store_choice" where
  "must_locker wr = (if wr_locks_dsn wr = [] then Noop_store else Postgres_store (wr_locks_dsn wr))"

definition signaler :: "wiring \<Rightarrow> store_choice" where
  "signaler wr = (if wr_signals_dsn wr = [] then Noop_store else Postgres_store (wr_signals_dsn wr))"

definition ratchet_ranker :: "wiring \<Rightarrow> string + store_choice" where
  "ratchet_ranker wr =
     (if wr_ratchet_dsn wr = ''noop'' then Inr Noop_store
      else if wr_ratchet_dsn wr = []
      then Inl (''stores.ratchet_postgres_dsn must be set explicitly; use '' @ fmt_q ''noop'' @
        '' only if that is the declared contract'')
      else Inr (Postgres_store (wr_ratchet_dsn wr)))"

definition must_ratchet_service :: "wiring \<Rightarrow> string + store_choice" where
  "must_ratchet_service wr =
     (if wr_ratchet_dsn wr = []
      then Inl ''stores.ratchet_postgres_dsn must be set in the active config file for ratchet commands''
      else Inr (Postgres_store (wr_ratchet_dsn wr)))"

definition must_signal_service :: "wiring \<Rightarrow> string + store_choice" where
  "must_signal_service wr =
     (if wr_signals_dsn wr = []
      then Inl ''stores.signals_postgres_dsn must be set in the active config file for signal commands''
      else Inr (Postgres_store (wr_signals_dsn wr)))"

definition local_issue_import :: "wiring \<Rightarrow> bool" where
  "local_issue_import wr \<longleftrightarrow> wr_gitlab_base_url wr = [] \<or> wr_gitlab_issues_project wr = []"

text \<open>The token comes from the configuration, else from the keychain.\<close>

definition new_gitlab_adapter :: "(string \<Rightarrow> ('w, string) go) \<Rightarrow> wiring \<Rightarrow> ('w, adapter_choice) go" where
  "new_gitlab_adapter keychain wr =
     (if local_issue_import wr then m_ret (Filesystem_adapter (wr_gitlab_dir wr))
      else let token = trim_space (wr_gitlab_token wr);
               api = Api_adapter (wr_gitlab_base_url wr)
           in if token \<noteq> [] then m_ret (api token (wr_gitlab_issues_project wr))
              else m_bind (m_wrap (''resolve gitlab token '' @ fmt_q (wr_gitlab_token_name wr))
                  (keychain (wr_gitlab_token_name wr))) (\<lambda>t. m_ret (api t (wr_gitlab_issues_project wr))))"

text \<open>The smoke secrets, when they are given, come before the providers of the configuration.\<close>

definition local_secret_provider :: "(string \<Rightarrow> string + 'p) \<Rightarrow> 'p list \<Rightarrow> string \<Rightarrow> string + 'p list" where
  "local_secret_provider load defaults path =
     (if trim_space path = [] then Inr defaults
      else case load path of
             Inl e \<Rightarrow> Inl (''load smoke secrets fixture '' @ fmt_q path @ '': '' @ e)
           | Inr p \<Rightarrow> Inr (p # defaults))"

definition single_run_secret_provider :: "(string \<Rightarrow> string + 'p) \<Rightarrow> 'p list \<Rightarrow> string \<Rightarrow> string + 'p list" where
  "single_run_secret_provider load defaults smoke =
     (if trim_space smoke \<noteq> [] then local_secret_provider load defaults smoke else Inr defaults)"

definition load_catalog :: "string + jmap option \<Rightarrow> string + jmap option" where
  "load_catalog loaded =
     (case loaded of
        Inl e \<Rightarrow> Inl e
      | Inr None \<Rightarrow> Inl ''embedded pipeline catalog is empty''
      | Inr (Some m) \<Rightarrow> if m = [] then Inl ''embedded pipeline catalog is empty'' else Inr (Some m))"

subsection \<open>Looking into a snapshot\<close>

definition latest_run_for_issue_id :: "persisted_state \<Rightarrow> string \<Rightarrow> run_request option" where
  "latest_run_for_issue_id s issue_id =
     fold (\<lambda>r latest.
         if run_issue_id r \<noteq> issue_id then latest
         else case latest of None \<Rightarrow> Some r
            | Some l \<Rightarrow> if run_created_at l < run_created_at r then Some r else latest)
       (map snd (ps_runs s)) None"

definition run_over :: "persisted_state \<Rightarrow> string \<Rightarrow> bool" where
  "run_over s issue_id =
     (case latest_run_for_issue_id s issue_id of
        None \<Rightarrow> False
      | Some r \<Rightarrow> run_status r = RunStatusCompleted \<or> run_status r = RunStatusAwaitingApproval \<or>
          run_status r = RunStatusFailed)"

definition find_attempt :: "persisted_state \<Rightarrow> string \<Rightarrow> string \<Rightarrow> stage_attempt option" where
  "find_attempt s rid stage =
     fold (\<lambda>a selected.
         if att_run_id a \<noteq> rid \<or> att_stage a \<noteq> stage then selected
         else case selected of None \<Rightarrow> Some a
            | Some b \<Rightarrow> if att_attempt b < att_attempt a then Some a else selected)
       (map snd (ps_attempts s)) None"

definition tracked_issue_of :: "persisted_state \<Rightarrow> string \<Rightarrow> delivery_issue" where
  "tracked_issue_of s issue_id =
     (case gm_get (ps_issues s) issue_id of None \<Rightarrow> zero_delivery_issue | Some t \<Rightarrow> ti_issue t)"

subsection \<open>Executing what was claimed\<close>

text \<open>An execution that fails is a failed stage, with the error as its summary and no artifacts.\<close>

definition failure_of :: "string \<Rightarrow> stage_result" where
  "failure_of e = \<lparr>sres_status = AttemptStatusFailed, sres_summary = e, sres_outputs = [],
     sres_next_signals = [], sres_stats = zero_attempt_stats\<rparr>"

definition outcome_of :: "string + stage_result \<times> artifact_ref list \<Rightarrow> stage_result \<times> artifact_ref list" where
  "outcome_of r = (case r of Inl e \<Rightarrow> (failure_of e, []) | Inr v \<Rightarrow> v)"

abbreviation lease_30s :: int where
  "lease_30s \<equiv> 30000000000"

subsection \<open>The worker\<close>

text \<open>\<open>wk_sleep\<close> is \<open>time.Sleep\<close>; \<open>wk_polls\<close> bounds the reports of a stage while it runs.\<close>

record 'w worker =
  wk_codec :: client_codec
  wk_send :: "'w transport"
  wk_executor :: "'w executor"
  wk_polls :: nat
  wk_sleep :: "'w \<Rightarrow> 'w"
  wk_id :: string
  wk_lease :: int
  wk_stages :: "string list"

definition worker_beat :: "'w worker \<Rightarrow> string \<Rightarrow> string \<Rightarrow> jmap \<Rightarrow> ('w, unit) go" where
  "worker_beat wk aid summary md =
     m_ignore (client_heartbeat (wk_codec wk) (wk_send wk) aid (wk_lease wk) summary md)"

text \<open>One turn: \<open>False\<close> when there was nothing to claim.\<close>

definition worker_turn :: "'w worker \<Rightarrow> ('w, bool) go" where
  "worker_turn wk =
     m_bind (client_claim (wk_codec wk) (wk_send wk) (wk_id wk) (wk_lease wk) (wk_stages wk)) (\<lambda>claimed.
       case claimed of
         None \<Rightarrow> m_ret False
       | Some (a, spec) \<Rightarrow>
           m_bind (client_snapshot (wk_send wk)) (\<lambda>s.
             let run = gm_get_or zero_run_request (ps_runs s) (att_run_id a);
                 issue = tracked_issue_of s (run_issue_id run)
             in m_then (worker_beat wk (att_id a) ''execution started'' [(''current_state'', JStr ''STARTING'')])
               (m_bind (m_try (execute_with_progress (wk_executor wk) (wk_polls wk)
                   (Some (\<lambda>summary md w. snd (worker_beat wk (att_id a) summary md w))) spec run a issue)) (\<lambda>r.
                  let (result, artifacts) = outcome_of r
                  in m_then (client_complete (wk_codec wk) (wk_send wk) (att_id a) result artifacts)
                    (m_then (client_reconcile (wk_send wk)) (m_ret True))))))"

text \<open>The loop; \<open>None\<close> when the fuel is used up before it stops.\<close>

fun worker_loop :: "nat \<Rightarrow> 'w worker \<Rightarrow> bool \<Rightarrow> 'w \<Rightarrow> ((string + unit) \<times> 'w) option" where
  "worker_loop 0 wk once w = None"
| "worker_loop (Suc n) wk once w =
     (case worker_turn wk w of
        (Inl e, w') \<Rightarrow> Some (Inl e, w')
      | (Inr worked, w') \<Rightarrow>
          if once then Some (Inr (), w')
          else worker_loop n wk once (if worked then w' else wk_sleep wk w'))"

subsection \<open>A single stage\<close>

definition service_beat :: "'x service \<Rightarrow> string \<Rightarrow> string \<Rightarrow> jmap \<Rightarrow> 'x world \<Rightarrow> 'x world" where
  "service_beat sv aid summary md w = snd (heartbeat sv aid lease_30s summary md w)"

definition run_single ::
  "'x service \<Rightarrow> 'x world executor \<Rightarrow> nat \<Rightarrow> stage_spec list \<Rightarrow> string \<Rightarrow> string \<Rightarrow> ('x world, unit) go" where
  "run_single sv ex polls specs stage rid =
     (if stage = [] \<or> rid = [] then m_err ''run requires --stage and --run-id''
      else case gm_get (spec_map specs) stage of
             None \<Rightarrow> m_err (''unknown stage '' @ stage)
           | Some spec \<Rightarrow>
               m_bind (snapshot sv) (\<lambda>s.
                 case gm_get (ps_runs s) rid of
                   None \<Rightarrow> m_err (''run '' @ rid @ '' not found'')
                 | Some run \<Rightarrow>
                     (case find_attempt s (run_id run) stage of
                        None \<Rightarrow> m_err (''no attempt for run '' @ rid @ '' stage '' @ stage)
                      | Some a \<Rightarrow>
                          m_bind (execute_with_progress ex polls (Some (service_beat sv (att_id a))) spec run a
                              (tracked_issue_of s (run_issue_id run))) (\<lambda>(result, artifacts).
                            m_then (complete sv (att_id a) result artifacts) (reconcile sv [])))))"

subsection \<open>The local loop\<close>

text \<open>One turn for an issue: \<open>False\<close> when its run is over or nothing can be claimed.\<close>

definition local_turn :: "'x service \<Rightarrow> 'x world executor \<Rightarrow> nat \<Rightarrow> delivery_issue \<Rightarrow> ('x world, bool) go" where
  "local_turn sv ex polls issue =
     m_bind (snapshot sv) (\<lambda>s.
       if run_over s (di_id issue) then m_ret False
       else m_bind (claim_next sv ''local-worker'' lease_30s [] (di_id issue)) (\<lambda>claimed.
         case claimed of
           None \<Rightarrow> m_ret False
         | Some (a, spec) \<Rightarrow>
             m_bind (m_try (execute_with_progress ex polls (Some (service_beat sv (att_id a))) spec
                 (gm_get_or zero_run_request (ps_runs s) (att_run_id a)) a issue)) (\<lambda>r.
               let (result, artifacts) = outcome_of r
               in m_then (complete sv (att_id a) result artifacts)
                 (m_then (reconcile sv (di_id issue)) (m_ret True)))))"

primrec local_loop :: "nat \<Rightarrow> 'x service \<Rightarrow> 'x world executor \<Rightarrow> nat \<Rightarrow> delivery_issue \<Rightarrow> ('x world, unit) go" where
  "local_loop 0 sv ex polls issue = m_ret ()"
| "local_loop (Suc n) sv ex polls issue =
     m_bind (local_turn sv ex polls issue) (\<lambda>more.
       if more then local_loop n sv ex polls issue else m_ret ())"

text \<open>The issue: named by its identifier, or read from a file that is copied to where GitLab's issues are.\<close>

definition materialize_issue_input ::
  "'w contract_io \<Rightarrow> (string \<Rightarrow> string + delivery_issue) \<Rightarrow> string \<Rightarrow> string \<Rightarrow> string \<Rightarrow> ('w, delivery_issue) go" where
  "materialize_issue_input ci decode gitlab_dir path explicit =
     (if trim_space explicit \<noteq> [] then m_ret (zero_delivery_issue\<lparr>di_id := explicit\<rparr>)
      else m_then (ci_mkdir_all ci (path_join [gitlab_dir, ''issues'']))
        (m_bind (ci_read ci path) (\<lambda>data.
         m_then (m_lift (validate_document ci ''issue-file.schema.json'' path data))
        (m_bind (m_lift (decode data)) (\<lambda>issue.
         m_then (ci_write ci (path_join [gitlab_dir, ''issues'', di_id issue @ ''.json'']) data)
           (m_ret issue))))))"

definition enqueued_issue ::
  "'x service \<Rightarrow> string \<Rightarrow> delivery_issue \<Rightarrow> ('x world, delivery_issue) go" where
  "enqueued_issue sv explicit issue =
     m_then (enqueue_from_gitlab sv)
       (if trim_space explicit = [] then m_ret issue
        else m_bind (snapshot sv) (\<lambda>s.
          case gm_get (ps_issues s) explicit of
            None \<Rightarrow> m_err (''issue '' @ explicit @ '' was not found after GitLab enqueue'')
          | Some t \<Rightarrow> m_ret (ti_issue t)))"

definition missing_run :: "string \<Rightarrow> string \<Rightarrow> string \<Rightarrow> string \<Rightarrow> string" where
  "missing_run config path explicit issue_id =
     ''issue '' @ issue_id @ '' has no materialized run; run `stage-runner --config '' @ config @
     '' materialize '' @ (if trim_space explicit \<noteq> [] then ''--issue-id '' @ explicit else ''--issue '' @ path) @
     ''` first''"

definition run_local ::
  "'x service \<Rightarrow> 'x world executor \<Rightarrow> nat \<Rightarrow> ('x world, delivery_issue) go \<Rightarrow> string \<Rightarrow> string \<Rightarrow> string \<Rightarrow>
   ('x world, persisted_state) go" where
  "run_local sv ex polls input config path explicit =
     m_bind input (\<lambda>issue0.
     m_bind (enqueued_issue sv explicit issue0) (\<lambda>issue.
     m_then (reconcile sv (di_id issue))
    (m_bind (snapshot sv) (\<lambda>s.
       if latest_run_for_issue_id s (di_id issue) = None
       then m_err (missing_run config path explicit (di_id issue))
       else m_then (local_loop 64 sv ex polls issue) (snapshot sv)))))"

definition run_materialize ::
  "'x service \<Rightarrow> 'x world plan_env \<Rightarrow> stage_spec list \<Rightarrow> jmap option \<Rightarrow> ('x world, delivery_issue) go \<Rightarrow> string \<Rightarrow>
   ('x world, json) go" where
  "run_materialize sv pe specs catalog input explicit =
     m_bind input (\<lambda>issue0.
     m_bind (enqueued_issue sv explicit issue0) (\<lambda>issue.
     m_bind (ensure_run_for_issue sv (di_id issue)) (\<lambda>run.
     m_bind (materialize_pipeline_artifacts pe specs catalog run issue) (\<lambda>outputs.
     m_bind (persist_pipeline_artifacts sv (run_id run) (case outputs of None \<Rightarrow> [] | Some m \<Rightarrow> m)) (\<lambda>run'.
       m_ret (JObj [(''issue_id'', JStr (di_id issue)), (''run_id'', JStr (run_id run')),
         (''outputs'', case outputs of None \<Rightarrow> JNull | Some m \<Rightarrow> JObj m)]))))))"

subsection \<open>The subcommands of the control plane\<close>

definition control_plane_command :: "'x service \<Rightarrow> string \<Rightarrow> ('x world, persisted_state option) go" where
  "control_plane_command sv name =
     (if name = ''enqueue'' then m_then (enqueue_from_gitlab sv) (m_ret None)
      else if name = ''reconcile'' then m_then (reconcile sv []) (m_ret None)
      else if name = ''recover-stuck-runs'' then m_then (recover_stuck_runs sv lease_30s) (m_ret None)
      else if name = ''snapshot'' then m_bind (snapshot sv) (\<lambda>s. m_ret (Some s))
      else m_err ''usage'')"

definition run_ratchet_ingest ::
  "(string \<Rightarrow> ('x, string) go) \<Rightarrow> (string \<Rightarrow> string + finding_event) \<Rightarrow> string + 'x ratchet_store \<Rightarrow> string \<Rightarrow>
   ('x, ingest_result) go" where
  "run_ratchet_ingest read decode rs path =
     (if path = [] then m_err ''ratchet-ingest requires --file''
      else m_bind (read path) (\<lambda>payload. m_bind (m_lift (decode payload)) (\<lambda>event.
        m_bind (m_lift rs) (\<lambda>st. ingest_finding st event))))"

definition run_ratchet_top ::
  "string + 'x ratchet_store \<Rightarrow> retrieval_request \<Rightarrow> ('x, ranked_invariant list) go" where
  "run_ratchet_top rs req =
     (if rq_stage req = [] then m_err ''ratchet-top requires --stage''
      else m_bind (m_lift rs) (\<lambda>st. rst_ranked_invariants st req))"

definition run_ratchet_activate ::
  "string + 'x ratchet_store \<Rightarrow> string \<Rightarrow> string \<Rightarrow> ('x, active_invariant option) go" where
  "run_ratchet_activate rs proposal mode =
     (if proposal = [] then m_err ''ratchet-activate requires --proposal-id''
      else case atoi proposal of
             None \<Rightarrow> m_err (''strconv.ParseInt: parsing '' @ fmt_q proposal @ '': invalid'')
           | Some n \<Rightarrow> m_bind (m_lift rs) (\<lambda>st. rst_activate_proposal st n mode))"

definition run_signal_list ::
  "string + 'x signal_store \<Rightarrow> list_request \<Rightarrow> ('x, operational_signal list) go" where
  "run_signal_list ss req = m_bind (m_lift ss) (\<lambda>st. gs_list_signals st req)"

end
