(* ===== verification/ExecutorFrame.thy ===== *)
theory ExecutorFrame
  imports ExecutorProps ControlPlaneSafety
begin

section \<open>What executing a stage leaves alone\<close>

text \<open>
  \<open>stage_environment\<close> is what the executor relies on to keep a condition of the world: that each operation
  of its environment keeps it.  Then a whole execution keeps it, whatever it is asked to run and however
  it ends.  \<open>beside ex\<close> is an executor that works beside the control plane: its operations touch only the
  outside world, so a whole execution is a sequence of steps of the control plane's system.
\<close>

definition kept :: "('x \<Rightarrow> bool) \<Rightarrow> ('x \<Rightarrow> 'b \<times> 'x) \<Rightarrow> bool" where
  "kept I f \<longleftrightarrow> (\<forall>x. I x \<longrightarrow> I (snd (f x)))"

lemma keptD: "kept I f \<Longrightarrow> I x \<Longrightarrow> f x = (r, x') \<Longrightarrow> I x'"
  unfolding kept_def by (metis snd_conv)

lemma kept_keeps: "kept I m \<Longrightarrow> keeps I m" for m :: "('x, 'a) go"
  by (rule keepsI) (simp add: kept_def)

lemma kept_ask: "kept I f \<Longrightarrow> keeps I (m_ask f)"
  by (rule keepsI) (auto simp: m_ask_def kept_def split: prod.splits)

locale stage_environment =
  fixes ex :: "'x executor" and I :: "'x \<Rightarrow> bool"
  assumes env_now: "kept I (sx_now ex)"
    and env_ranker: "sx_ranker ex = Some ranker \<Longrightarrow> kept I (ranker req)"
    and env_secrets: "provider \<in> set (sx_secrets ex) \<Longrightarrow> kept I (provider name)"
    and env_files: "kept I (sx_read_plan ex p s)" "kept I (sx_read_text ex p)" "kept I (sx_read_state ex p)"
      "kept I (sx_load_result ex p s out)" "kept I (sx_load_report ex p s rep)" "kept I (sx_mkdir_all ex p)"
      "kept I (sx_write_file ex p d)"
    and env_docker: "kept I (de_read_context (sx_docker ex) p)" "kept I (de_stat (sx_docker ex) p)"
      "kept I (de_mkdir_all (sx_docker ex) p)" "kept I (de_docker (sx_docker ex) args)"
      "kept I (de_output (sx_docker ex) args)"
    and env_repos: "kept I (re_is_dir (sx_repos ex) p)" "kept I (re_present (sx_repos ex) p)"
      "kept I (re_mkdir_all (sx_repos ex) p)" "kept I (re_remove_all (sx_repos ex) p)"
      "kept I (re_git (sx_repos ex) d args)"
begin

lemmas env_keeps = env_files [THEN kept_keeps] env_docker(1,3,4) [THEN kept_keeps] env_repos(3-5) [THEN kept_keeps]
  env_now [THEN kept_ask] env_repos(1,2) [THEN kept_ask]

lemma keeps_first_checkout: "keeps I (first_checkout (sx_repos ex) cs)"
  by (induction cs) (auto intro!: keeps_rules env_keeps)

lemma keeps_ensure_run_repo: "keeps I (ensure_run_repo (sx_repos ex) rid repo)"
  unfolding ensure_run_repo_def Let_def clone_repo_def reset_dir_def git_quiet_def
    configure_commit_identity_def checkout_resolved_ref_def source_stamp_from_path_def resolve_source_path_def
  by (intro keeps_rules env_keeps keeps_first_checkout)

lemma keeps_initialize_repos: "keeps I (initialize_stage_repos ex spec run sb)"
  unfolding initialize_stage_repos_def component_repo_def [abs_def] journal_repo_def gitops_repo_def Let_def
  by (intro keeps_rules keeps_ensure_run_repo)

lemma keeps_chain: "set ps \<subseteq> set (sx_secrets ex) \<Longrightarrow> keeps I (chain_resolve ps n errs)"
proof (induction ps arbitrary: errs)
  case Nil
  then show ?case by (intro keepsI) (simp add: m_err_def)
next
  case (Cons p ps)
  have "I (snd (chain_resolve (p # ps) n errs x))" if "I x" for x
  proof -
    obtain r x' where r: "p n x = (r, x')" by fastforce
    have "kept I (p n)" using Cons.prems by (intro env_secrets) simp
    from keptD [OF this that r] have "I x'" .
    then show ?thesis using Cons by (cases r) (auto simp: r dest: keepsD)
  qed
  then show ?case by (rule keepsI)
qed

lemma keeps_resolve_all: "keeps I (resolve_all ex ns)"
  by (induction ns) (auto intro!: keeps_rules keeps_chain)

lemma keeps_write_file: "keeps I (sandbox_write_file ex sb p d)"
  unfolding sandbox_write_file_def Let_def by (intro keeps_rules env_keeps)

lemma keeps_write_json: "keeps I (write_workspace_json ex sb rid stage name v)"
  unfolding write_workspace_json_def sandbox_mkdir_all_def Let_def
  by (intro keeps_rules env_keeps keeps_write_file)

lemma keeps_put_json: "keeps I (put_json ex rid stage name v ret)"
  unfolding put_json_def Let_def by (intro keeps_rules env_keeps)

lemma keeps_invariants: "keeps I (load_invariant_context ex spec run)"
  unfolding load_invariant_context_def by (intro keeps_rules kept_keeps env_ranker)

lemma keeps_plan: "keeps I (executor_plan ex run)"
  unfolding executor_plan_def Let_def by (intro keeps_rules env_keeps)

lemma keeps_digest: "keeps I (inspect_image_digest (sx_docker ex) ref)"
proof (rule keepsI)
  fix x assume x: "I x"
  obtain r x1 where r: "de_output (sx_docker ex) [''image'', ''inspect'', ref, ''--format'', ''{{json .RepoDigests}}''] x = (r, x1)"
    by fastforce
  obtain r' x2 where r': "de_output (sx_docker ex) [''image'', ''inspect'', ref, ''--format'', ''{{.Id}}''] x1 = (r', x2)"
    by fastforce
  have "I x1" by (rule keptD [OF env_docker(5) x r])
  moreover from this have "I x2" by (rule keptD [OF env_docker(5) _ r'])
  ultimately show "I (snd (inspect_image_digest (sx_docker ex) ref x))"
    by (auto simp: inspect_image_digest_def r r' split: option.splits prod.splits)
qed

lemma keeps_image: "keeps I (resolve_runtime_image (sx_docker ex) stage)"
  unfolding resolve_runtime_image_def by (intro keeps_rules keeps_digest)

lemma keeps_images: "keeps I (resolve_runtime_images (sx_docker ex) stages)"
  unfolding resolve_runtime_images_def by (intro keeps_rules keeps_image)

lemma keeps_image_for: "keeps I (runtime_image_for_stage ex run stage images)"
  unfolding runtime_image_for_stage_def by (intro keeps_rules keeps_plan keeps_image)

lemma keeps_ensured: "keeps I (keep_ensured (sx_docker ex) m out)"
proof -
  have "keeps I (ensure_mount_path (sx_docker ex) m)"
    by (rule keepsI) (auto simp: ensure_mount_path_def split: prod.splits stat_result.splits
      dest: keptD [OF env_docker(2)] keepsD [OF kept_keeps [OF env_docker(3)]])
  then show ?thesis unfolding keep_ensured_def by (intro keeps_rules)
qed

lemma keeps_found: "keeps I (keep_found (sx_docker ex) m out)"
  by (rule keepsI) (auto simp: keep_found_def split: prod.splits dest: keptD [OF env_docker(2)])

lemma keeps_mounts: "keeps I (mounts (sx_docker ex) spec rid)"
  unfolding mounts_def Let_def writable_subpath_mounts_def repo_control_mounts_def
  by (intro keeps_rules env_keeps keeps_ensured keeps_found)

lemma keeps_docker_args: "keeps I (docker_args (sx_docker ex) spec rid ref)"
  unfolding docker_args_def Let_def
  by (cases "ss_entrypoint spec") (simp_all only: list.case keeps_err keeps_bind keeps_mounts keeps_ret)

lemma keeps_docker_run: "keeps I (docker_run (sx_docker ex) spec rid im)"
  unfolding docker_run_def by (intro keeps_rules keeps_docker_args env_keeps)

lemma keeps_emit_state:
  assumes "\<And>s md x. I x \<Longrightarrow> I (progress s md x)"
  shows "keeps I (emit_stage_state ex path progress seen)"
  unfolding emit_stage_state_def by (intro keeps_rules env_keeps keeps_modify assms)

lemma keeps_entrypoint: "keeps I (run_entrypoint ex spec rid im)"
  unfolding run_entrypoint_def by (intro keeps_if keeps_err keeps_docker_run)

lemma keeps_run_progress:
  assumes "\<And>p s md x. progress = Some p \<Longrightarrow> I x \<Longrightarrow> I (p s md x)"
  shows "keeps I (run_with_progress ex polls progress spec rid im)"
proof (cases progress)
  case None
  then show ?thesis by (simp add: run_with_progress_def keeps_wrap keeps_entrypoint)
next
  case (Some p)
  note emit = keeps_emit_state [of p, OF assms [OF Some]]
  have poll: "keeps I (poll_states n ex path p seen)" for n path seen
    by (induction n arbitrary: seen) (simp_all add: keeps_ret keeps_bind emit)
  show ?thesis unfolding run_with_progress_def Some option.case Let_def
    by (intro keeps_bind poll keeps_try keeps_entrypoint emit keeps_case_sum keeps_err keeps_ret)
qed

lemma keeps_mark: "keeps I (mark ex name t)"
  unfolding mark_def by (intro keeps_rules env_keeps)

lemma keeps_prepare: "keeps I (prepare_inputs ex spec run attempt issue started)"
  unfolding prepare_inputs_def Let_def prepare_workspace_def sandbox_mkdir_all_def
  by (intro keeps_rules env_keeps keeps_resolve_all keeps_mark keeps_initialize_repos keeps_invariants)

lemma keeps_put_outputs: "keeps I (put_outputs ex spec rid outputs as)"
  by (induction as) (auto intro!: keeps_rules keeps_put_json)

lemma keeps_ingest: "keeps I (take_result ex spec run attempt started inp t4 defaults)"
  unfolding take_result_def load_workspace_def conclude_stage_def Let_def store_artifacts_def estimate_attempt_stats_def
  by (intro keeps_rules env_keeps keeps_mark keeps_write_json keeps_put_json keeps_put_outputs)

lemma keeps_execute:
  assumes p: "\<And>p s md x. progress = Some p \<Longrightarrow> I x \<Longrightarrow> I (p s md x)"
  shows "keeps I (execute_with_progress ex polls progress spec run attempt issue)"
proof -
  have run: "keeps I (run_with_progress ex polls progress spec rid im)" for rid im
    by (rule keeps_run_progress) (rule p)
  show ?thesis
    unfolding execute_with_progress_def must_plan_def stage_catalog_for_run_def
    by (intro keeps_bind keeps_then keeps_wrap keeps_lift keeps_ret env_now [THEN kept_ask] keeps_prepare keeps_plan
      keeps_images keeps_image_for keeps_write_json keeps_mark run keeps_ingest)
qed

end

subsection \<open>An executor beside the control plane\<close>

definition out_of :: "('e \<Rightarrow> 'b \<times> 'e) \<Rightarrow> 'e world \<Rightarrow> 'b \<times> 'e world" where
  "out_of m w = (case m (w_ext w) of (r, x) \<Rightarrow> (r, w\<lparr>w_ext := x\<rparr>))"

definition docker_beside :: "'e docker_env \<Rightarrow> 'e world docker_env" where
  "docker_beside d = \<lparr>de_data_dir = de_data_dir d, de_cwd = de_cwd d,
     de_read_context = (\<lambda>p. out_of (de_read_context d p)), de_stat = (\<lambda>p. out_of (de_stat d p)),
     de_mkdir_all = (\<lambda>p. out_of (de_mkdir_all d p)), de_docker = (\<lambda>a. out_of (de_docker d a)),
     de_output = (\<lambda>a. out_of (de_output d a)), de_string_list = de_string_list d\<rparr>"

definition repos_beside :: "'e repo_env \<Rightarrow> 'e world repo_env" where
  "repos_beside r = \<lparr>re_root_dir = re_root_dir r, re_roots = re_roots r, re_is_dir = (\<lambda>p. out_of (re_is_dir r p)),
     re_present = (\<lambda>p. out_of (re_present r p)), re_mkdir_all = (\<lambda>p. out_of (re_mkdir_all r p)),
     re_remove_all = (\<lambda>p. out_of (re_remove_all r p)), re_git = (\<lambda>d a. out_of (re_git r d a))\<rparr>"

definition beside :: "'e executor \<Rightarrow> 'e world executor" where
  "beside ex = \<lparr>sx_root_dir = sx_root_dir ex, sx_data_dir = sx_data_dir ex, sx_cwd = sx_cwd ex,
     sx_repo_roots = sx_repo_roots ex, sx_work_order_repo = sx_work_order_repo ex,
     sx_artifact_root = sx_artifact_root ex, sx_pipeline_catalog = sx_pipeline_catalog ex,
     sx_has_env = sx_has_env ex, sx_docker = docker_beside (sx_docker ex), sx_repos = repos_beside (sx_repos ex),
     sx_ranker = map_option (\<lambda>r q. out_of (r q)) (sx_ranker ex),
     sx_secrets = map (\<lambda>p n. out_of (p n)) (sx_secrets ex), sx_now = out_of (sx_now ex),
     sx_read_plan = (\<lambda>p s. out_of (sx_read_plan ex p s)), sx_read_text = (\<lambda>p. out_of (sx_read_text ex p)),
     sx_read_state = (\<lambda>p. out_of (sx_read_state ex p)),
     sx_load_result = (\<lambda>p s r. out_of (sx_load_result ex p s r)),
     sx_load_report = (\<lambda>p s r. out_of (sx_load_report ex p s r)), sx_marshal = sx_marshal ex,
     sx_encode = sx_encode ex, sx_mkdir_all = (\<lambda>p. out_of (sx_mkdir_all ex p)),
     sx_write_file = (\<lambda>p d. out_of (sx_write_file ex p d)), sx_sha256 = sx_sha256 ex, sx_json = sx_json ex,
     sx_decode_steps = sx_decode_steps ex\<rparr>"

definition reached :: "'e service \<Rightarrow> 'e world \<Rightarrow> 'e world \<Rightarrow> bool" where
  "reached sv w0 w \<longleftrightarrow> rtranclp (cp_step sv) w0 w"

lemma reached_refl [simp]: "reached sv w w"
  by (simp add: reached_def)

lemma reached_step: "reached sv w0 w \<Longrightarrow> cp_step sv w w' \<Longrightarrow> reached sv w0 w'"
  unfolding reached_def by simp

lemma kept_out_of: "kept (reached sv w0) (out_of m)"
  unfolding kept_def out_of_def by (auto split: prod.splits intro: reached_step cp_step.outside)

lemma beside_fields:
  "sx_now (beside ex) = out_of (sx_now ex)"
  "sx_ranker (beside ex) = map_option (\<lambda>r q. out_of (r q)) (sx_ranker ex)"
  "sx_secrets (beside ex) = map (\<lambda>p n. out_of (p n)) (sx_secrets ex)"
  "sx_read_plan (beside ex) p s = out_of (sx_read_plan ex p s)"
  "sx_read_text (beside ex) p = out_of (sx_read_text ex p)"
  "sx_read_state (beside ex) p = out_of (sx_read_state ex p)"
  "sx_load_result (beside ex) p s r = out_of (sx_load_result ex p s r)"
  "sx_load_report (beside ex) p s r' = out_of (sx_load_report ex p s r')"
  "sx_mkdir_all (beside ex) p = out_of (sx_mkdir_all ex p)"
  "sx_write_file (beside ex) p s = out_of (sx_write_file ex p s)"
  "sx_docker (beside ex) = docker_beside (sx_docker ex)" "sx_repos (beside ex) = repos_beside (sx_repos ex)"
  by (simp_all only: beside_def executor.simps)

lemma docker_fields:
  "de_read_context (docker_beside d) p = out_of (de_read_context d p)"
  "de_stat (docker_beside d) p = out_of (de_stat d p)"
  "de_mkdir_all (docker_beside d) p = out_of (de_mkdir_all d p)"
  "de_docker (docker_beside d) a = out_of (de_docker d a)" "de_output (docker_beside d) a = out_of (de_output d a)"
  by (simp_all only: docker_beside_def docker_env.simps)

lemma repos_fields:
  "re_is_dir (repos_beside r) p = out_of (re_is_dir r p)" "re_present (repos_beside r) p = out_of (re_present r p)"
  "re_mkdir_all (repos_beside r) p = out_of (re_mkdir_all r p)"
  "re_remove_all (repos_beside r) p = out_of (re_remove_all r p)" "re_git (repos_beside r) p a = out_of (re_git r p a)"
  by (simp_all only: repos_beside_def repo_env.simps)

interpretation outer: stage_environment "beside ex" "reached sv w0" for ex sv w0
proof (unfold_locales, unfold beside_fields docker_fields repos_fields)
  fix ranker :: "retrieval_request \<Rightarrow> ('a world, ranked_invariant list) go" and req
  assume "map_option (\<lambda>r q. out_of (r q)) (sx_ranker ex) = Some ranker"
  then show "kept (reached sv w0) (ranker req)" by (auto simp: kept_out_of)
next
  fix provider :: "string \<Rightarrow> 'a world \<Rightarrow> secret_result \<times> 'a world" and name
  assume "provider \<in> set (map (\<lambda>p n. out_of (p n)) (sx_secrets ex))"
  then show "kept (reached sv w0) (provider name)" by (auto simp: kept_out_of)
qed (rule kept_out_of)+

lemma keeps_step:
  assumes "\<And>w. cp_step sv w (snd (m w))"
  shows "keeps (reached sv w0) m"
  by (rule keepsI) (blast intro: reached_step assms)

text \<open>A stage that reports its progress as heartbeats moves the control plane by its own steps only.\<close>

lemma execute_reached:
  assumes "\<And>p s md w. progress = Some p \<Longrightarrow> cp_step sv w (p s md w)"
  shows "keeps (reached sv w0) (execute_with_progress (beside ex) polls progress spec run attempt issue)"
proof (rule outer.keeps_execute)
  fix p s md w
  assume p: "progress = Some p" and w: "reached sv w0 w"
  show "reached sv w0 (p s md w)" by (rule reached_step [OF w assms [OF p]])
qed

end
