(* ===== verification/CommandsProps.thy ===== *)
theory CommandsProps
  imports Commands ExecutorFrame ControlPlaneComplete
begin

section \<open>What the commands do to the control plane\<close>

text \<open>
  Every command moves the control plane by its own operations only, whatever the stages do and however
  they end; a turn of the local loop brings the attempt it claimed to its end; and the commands' own
  lookups give what the control plane's give.
\<close>

subsection \<open>Commands as steps\<close>

lemma keeps_via: "via sv m \<Longrightarrow> keeps (reached sv w0) m"
  unfolding via_def reached_def by (intro keepsI) (blast intro: rtranclp_trans)

lemma via_keeps: "(\<And>w0. keeps (reached sv w0) m) \<Longrightarrow> via sv m"
  unfolding via_def using keepsD [of "reached sv _" m] reached_refl unfolding reached_def by blast

lemmas step_keeps = via_calls [THEN keeps_via] keeps_via [OF via_ext [OF ext_snapshot]]

lemma keeps_service_beat: "cp_step sv w (service_beat sv aid summary md w)"
  unfolding service_beat_def by (rule cp_step.beat)

lemma keeps_beside:
  "keeps (reached sv w0) (execute_with_progress (beside ex) polls (Some (service_beat sv aid)) spec run a issue)"
  by (rule execute_reached) (auto intro: keeps_service_beat)

lemma keeps_run_single: "keeps (reached sv w0) (run_single sv (beside ex) polls specs stage rid)"
  unfolding run_single_def by (intro keeps_rules step_keeps keeps_beside)

lemma keeps_local_turn: "keeps (reached sv w0) (local_turn sv (beside ex) polls issue)"
  unfolding local_turn_def Let_def by (intro keeps_rules step_keeps keeps_beside)

lemma keeps_local_loop: "keeps (reached sv w0) (local_loop n sv (beside ex) polls issue)"
  by (induction n) (simp_all add: keeps_ret keeps_bind keeps_local_turn)

lemma keeps_enqueued: "keeps (reached sv w0) (enqueued_issue sv explicit issue)"
  unfolding enqueued_issue_def by (intro keeps_rules step_keeps)

text \<open>What reads the issue works beside the control plane too.\<close>

lemma keeps_run_local:
  "keeps (reached sv w0) (run_local sv (beside ex) polls (out_of input) config path explicit)"
  unfolding run_local_def
  by (intro keeps_rules step_keeps keeps_local_loop keeps_enqueued kept_keeps [OF kept_out_of])

definition plan_beside :: "'e plan_env \<Rightarrow> 'e world plan_env" where
  "plan_beside pe = \<lparr>pe_docker = docker_beside (pe_docker pe), pe_work_order_repo = pe_work_order_repo pe,
     pe_decode_steps = pe_decode_steps pe, pe_write_context = (\<lambda>p c. out_of (pe_write_context pe p c)),
     pe_read_outputs = (\<lambda>p. out_of (pe_read_outputs pe p))\<rparr>"

lemma keeps_docker_beside:
  "keeps (reached sv w0) (docker_run (docker_beside d) spec rid im)"
  "keeps (reached sv w0) (resolve_runtime_images (docker_beside d) stages)"
  using outer.keeps_docker_run [of sv w0 "undefined\<lparr>sx_docker := d\<rparr>"]
    outer.keeps_images [of sv w0 "undefined\<lparr>sx_docker := d\<rparr>"] by (simp_all add: beside_fields)

lemma keeps_materialize:
  "keeps (reached sv w0) (materialize_pipeline_artifacts (plan_beside pe) specs catalog run issue)"
  unfolding materialize_pipeline_artifacts_def plan_beside_def plan_env.simps docker_fields Let_def
  by (intro keeps_rules keeps_docker_beside kept_keeps [OF kept_out_of])

lemma keeps_run_materialize:
  "keeps (reached sv w0) (run_materialize sv (plan_beside pe) specs catalog (out_of input) explicit)"
  unfolding run_materialize_def
  by (intro keeps_rules step_keeps keeps_enqueued keeps_materialize kept_keeps [OF kept_out_of])

lemma reached_reach: "reached sv w w' \<Longrightarrow> cp_reach sv w \<Longrightarrow> cp_reach sv w'"
  unfolding reached_def by (induction rule: rtranclp_induct) (auto intro: cp_reach.step)

lemma reached_good:
  assumes "reached (wire_service out) w w'" and "cp_reach (wire_service out) w"
  shows "cp_reach (wire_service out) w' \<and> cp_inv (w_state w') \<and> evolves (w_state w) (w_state w')"
  using reached_reach [OF assms] wired.reach_inv [OF reached_reach [OF assms]]
    wired.history [OF assms(1) [unfolded reached_def] wired.reach_inv [OF assms(2)]]
  by (simp add: good_def)

subsection \<open>The worker over the server\<close>

lemma keeps_over: "keeps (reached (he_service env) w0) (over env meth path body)"
proof (rule keepsI)
  fix w assume w: "reached (he_service env) w0 w"
  show "reached (he_service env) w0 (snd (over env meth path body w))"
  proof (cases "handler env \<lparr>hr_method = meth, hr_path = path, hr_goal = [], hr_body = body\<rparr> w")
    case None
    then show ?thesis using w by (simp add: over_def)
  next
    case (Some rw)
    then obtain r w' where "handler env \<lparr>hr_method = meth, hr_path = path, hr_goal = [], hr_body = body\<rparr> w = Some (r, w')"
      by (cases rw) simp
    with handler_step(1) [OF this] w show ?thesis
      unfolding reached_def by (simp add: over_def)
  qed
qed

lemma keeps_client_post: "keeps (reached (he_service env) w0) (client_post (over env) path body)"
  unfolding client_post_def by (intro keeps_rules keeps_over)

lemma keeps_client_claim:
  "keeps (reached (he_service env) w0) (client_claim codec (over env) worker lease allowed)"
proof -
  have "keeps (reached (he_service env) w0)
      (case b of Body_claim a spec \<Rightarrow> m_ret (Some (a, spec)) | _ \<Rightarrow> m_err ''decode claim'')" for b
    by (cases b) (simp_all add: keeps_ret keeps_err)
  then show ?thesis unfolding client_claim_def by (intro keeps_rules keeps_over)
qed

lemma keeps_client_snapshot: "keeps (reached (he_service env) w0) (client_snapshot (over env))"
proof -
  have "keeps (reached (he_service env) w0)
      (case b of Body_state s \<Rightarrow> m_ret s | _ \<Rightarrow> m_err ''decode snapshot'')" for b
    by (cases b) (simp_all add: keeps_ret keeps_err)
  then show ?thesis unfolding client_snapshot_def by (intro keeps_rules keeps_over)
qed

lemma keeps_client_changes:
  "keeps (reached (he_service env) w0) (client_heartbeat codec (over env) aid lease summary md)"
  "keeps (reached (he_service env) w0) (client_complete codec (over env) aid res arts)"
  "keeps (reached (he_service env) w0) (client_reconcile (over env))"
  unfolding client_heartbeat_def client_complete_def client_reconcile_def by (rule keeps_client_post)+

lemmas keeps_client = keeps_client_claim keeps_client_snapshot keeps_client_changes

text \<open>A worker of the server \<open>env\<close>, whose stages run beside the control plane.\<close>

definition remote_worker :: "'e http_env \<Rightarrow> 'e executor \<Rightarrow> 'e world worker \<Rightarrow> bool" where
  "remote_worker env ex wk \<longleftrightarrow> wk_send wk = over env \<and> wk_executor wk = beside ex \<and>
     (\<forall>w. rtranclp (cp_step (he_service env)) w (wk_sleep wk w))"

lemma keeps_worker_beat:
  "wk_send wk = over env \<Longrightarrow> keeps (reached (he_service env) w0) (worker_beat wk aid summary md)"
  unfolding worker_beat_def by (simp only:) (intro keeps_ignore keeps_client)

lemma keeps_worker_turn:
  assumes "remote_worker env ex wk"
  shows "keeps (reached (he_service env) w0) (worker_turn wk)"
proof -
  have send: "wk_send wk = over env" and exec: "wk_executor wk = beside ex"
    using assms by (simp_all add: remote_worker_def)
  have run: "keeps (reached (he_service env) w0) (execute_with_progress (beside ex) polls
      (Some (\<lambda>summary md w. snd (worker_beat wk aid summary md w))) spec rn a issue)" for polls aid spec rn a issue
    by (rule outer.keeps_execute) (auto intro: keepsD [OF keeps_worker_beat [OF send]])
  show ?thesis
    unfolding worker_turn_def send exec Let_def by (intro keeps_rules keeps_client keeps_worker_beat [OF send] run)
qed

lemma worker_loop_reached:
  assumes "remote_worker env ex wk" and "worker_loop n wk once w = Some (r, w')" and "reached (he_service env) w0 w"
  shows "reached (he_service env) w0 w'"
  using assms(2,3)
proof (induction n arbitrary: w)
  case 0
  then show ?case by simp
next
  case (Suc n)
  obtain t w1 where t: "worker_turn wk w = (t, w1)" by fastforce
  have w1: "reached (he_service env) w0 w1"
    using keepsD [OF keeps_worker_turn [OF assms(1)] Suc.prems(2)] t by simp
  show ?case
  proof (cases t)
    case (Inl e)
    then show ?thesis using Suc.prems(1) t w1 by simp
  next
    case (Inr worked)
    have "reached (he_service env) w0 (if worked then w1 else wk_sleep wk w1)"
      using w1 assms(1) unfolding reached_def remote_worker_def by (auto intro: rtranclp_trans)
    with Inr t Suc.prems(1) Suc.IH w1 show ?thesis by (cases once) simp_all
  qed
qed

lemma worker_once_returns: "\<exists>r w'. worker_loop (Suc n) wk True w = Some (r, w')"
  by (auto split: prod.splits sum.splits)

subsection \<open>A turn ends an attempt\<close>

lemma complete_finishes:
  assumes "complete sv k result artifacts w = (Inr (), w')"
  shows "\<exists>a0 a. gm_get (ps_attempts (w_state w)) k = Some a0 \<and>
     gm_get (ps_attempts (w_state w')) k = Some a \<and> follows a0 a \<and> finished a"
proof -
  obtain e w3 where s: "save sv (complete_update sv k result artifacts) w = (Inr e, w3)"
    and i: "emit_signals sv e w3 = (Inr (), w')"
    using assms by (auto simp: complete_def m_bind_ok)
  obtain w1 w2 where r: "on_ext (sv_read_state sv) w = (Inr (), w1)"
    and u: "complete_update sv k result artifacts w1 = (Inr e, w2)"
    and wr: "on_ext (sv_write_state sv) w2 = (Inr (), w3)" using save_ok [OF s] by blast
  obtain a0 a where a: "gm_get (ps_attempts (w_state w1)) k = Some a0" "completed_with a0 result artifacts a"
      "ps_attempts (w_state w2) = gm_put k a (ps_attempts (w_state w1))"
    using complete_update_ok [OF u] by blast
  have "ps_attempts (w_state w') = ps_attempts (w_state w2)"
    using framesD [OF frames_emit i] ext_only_ok [OF ext_only_on_ext wr] by simp
  with a ext_only_ok [OF ext_only_on_ext r] show ?thesis
    by (auto simp: completed_with_def final_status_finished)
qed

lemma keeps_at: "keeps I m \<Longrightarrow> I w \<Longrightarrow> m w = (r, w') \<Longrightarrow> I w'"
  using keepsD [of I m w] by simp

lemma good_attempt:
  assumes "good s s'" and "gm_get (ps_attempts s) k = Some a"
  shows "\<exists>b. gm_get (ps_attempts s') k = Some b \<and> follows a b"
proof -
  have "grows follows (ps_attempts s) (ps_attempts s')" using assms(1) by (simp add: good_def evolves_def)
  with assms(2) show ?thesis unfolding grows_def by blast
qed

text \<open>A turn that goes on, taken apart.\<close>

lemma local_turn_parts:
  assumes "local_turn sv ex polls issue w = (Inr True, w')"
  obtains s w1 a spec w2 r w3 w4 where "snapshot sv w = (Inr s, w1)"
    and "claim_next sv ''local-worker'' lease_30s [] (di_id issue) w1 = (Inr (Some (a, spec)), w2)"
    and "m_try (execute_with_progress ex polls (Some (service_beat sv (att_id a))) spec
      (gm_get_or zero_run_request (ps_runs s) (att_run_id a)) a issue) w2 = (Inr r, w3)"
    and "complete sv (att_id a) (fst (outcome_of r)) (snd (outcome_of r)) w3 = (Inr (), w4)"
    and "reconcile sv (di_id issue) w4 = (Inr (), w')"
proof -
  define K where "K = (\<lambda>(s :: persisted_state) claimed. case claimed of
      None \<Rightarrow> m_ret False
    | Some (a, spec) \<Rightarrow>
        m_bind (m_try (execute_with_progress ex polls (Some (service_beat sv (att_id a))) spec
            (gm_get_or zero_run_request (ps_runs s) (att_run_id a)) a issue)) (\<lambda>r.
          m_then (complete sv (att_id a) (fst (outcome_of r)) (snd (outcome_of r)))
            (m_then (reconcile sv (di_id issue)) (m_ret True))))"
  have eq: "local_turn sv ex polls issue = m_bind (snapshot sv) (\<lambda>s. if run_over s (di_id issue) then m_ret False
      else m_bind (claim_next sv ''local-worker'' lease_30s [] (di_id issue)) (K s))"
    by (simp only: local_turn_def K_def Let_def split_beta)
  obtain s w1 where s: "snapshot sv w = (Inr s, w1)"
    and rest: "(if run_over s (di_id issue) then m_ret False
      else m_bind (claim_next sv ''local-worker'' lease_30s [] (di_id issue)) (K s)) w1 = (Inr True, w')"
    using assms unfolding eq m_bind_ok by blast
  then have "m_bind (claim_next sv ''local-worker'' lease_30s [] (di_id issue)) (K s) w1 = (Inr True, w')"
    by (cases "run_over s (di_id issue)") (simp_all add: m_ret_ok)
  then obtain c w2 where c: "claim_next sv ''local-worker'' lease_30s [] (di_id issue) w1 = (Inr c, w2)"
    and k: "K s c w2 = (Inr True, w')" unfolding m_bind_ok by blast
  then obtain a spec where a: "c = Some (a, spec)" by (cases c) (auto simp: K_def m_ret_ok)
  from k show thesis
    unfolding K_def a option.case prod.case m_bind_ok m_then_ok m_ret_ok
    using that [OF s c [unfolded a]] by blast
qed

text \<open>
  A turn that goes on took a pending attempt of a run of the issue, and that attempt is finished
  afterwards, however its execution went.
\<close>

lemma local_turn_finishes:
  assumes inv: "cp_inv (w_state w)"
    and turn: "local_turn (wire_service out) (beside ex) polls issue w = (Inr True, w')"
  shows "\<exists>k a0 a run. gm_get (ps_attempts (w_state w)) k = Some a0 \<and> att_status a0 = AttemptStatusPending \<and>
     gm_get (ps_runs (w_state w)) (att_run_id a0) = Some run \<and>
     (di_id issue = [] \<or> run_issue_id run = di_id issue) \<and>
     gm_get (ps_attempts (w_state w')) k = Some a \<and> follows a0 a \<and> finished a"
proof -
  let ?sv = "wire_service out"
  obtain s w1 a spec w2 r w3 w4 where snap: "snapshot ?sv w = (Inr s, w1)"
    and claim: "claim_next ?sv ''local-worker'' lease_30s [] (di_id issue) w1 = (Inr (Some (a, spec)), w2)"
    and exec: "m_try (execute_with_progress (beside ex) polls (Some (service_beat ?sv (att_id a))) spec
      (gm_get_or zero_run_request (ps_runs s) (att_run_id a)) a issue) w2 = (Inr r, w3)"
    and fin: "complete ?sv (att_id a) (fst (outcome_of r)) (snd (outcome_of r)) w3 = (Inr (), w4)"
    and rec: "reconcile ?sv (di_id issue) w4 = (Inr (), w')"
    by (rule local_turn_parts [OF turn])
  have w1: "w_state w1 = w_state w" by (rule ext_only_ok [OF ext_snapshot snap])
  obtain a0 run where a0: "gm_get (ps_attempts (w_state w)) (att_id a) = Some a0" "att_status a0 = AttemptStatusPending"
      "gm_get (ps_runs (w_state w)) (att_run_id a) = Some run" "claimable [] (di_id issue) run a" "follows a0 a"
    using claim_takes_pending [OF inv [folded w1] claim] unfolding w1 by metis
  have "reached ?sv w w1" by (rule keeps_at [OF step_keeps(9) reached_refl snap])
  then have "reached ?sv w w2" by (rule keeps_at [OF step_keeps(5) _ claim])
  then have r3: "reached ?sv w w3" by (rule keeps_at [OF keeps_try [OF keeps_beside] _ exec])
  have g: "good (w_state w) (w_state w3)" by (rule wired.history [OF r3 [unfolded reached_def] inv])
  obtain b where b: "gm_get (ps_attempts (w_state w3)) (att_id a) = Some b" "follows a0 b"
    using good_attempt [OF g a0(1)] by blast
  obtain c where c: "gm_get (ps_attempts (w_state w4)) (att_id a) = Some c" "follows b c" "finished c"
    using complete_finishes [OF fin] b(1) by auto
  have r4: "reached ?sv w w4" by (rule keeps_at [OF step_keeps(7) r3 fin])
  then have "cp_inv (w_state w4)" using wired.history [OF _ inv] by (simp add: reached_def good_def)
  moreover have "reached ?sv w4 w'" by (rule keeps_at [OF step_keeps(2) reached_refl rec])
  ultimately have "good (w_state w4) (w_state w')" using wired.history [of _ w4 w'] unfolding reached_def by simp
  then obtain d where d: "gm_get (ps_attempts (w_state w')) (att_id a) = Some d" "follows c d"
    using good_attempt [OF _ c(1)] by blast
  have "follows a0 d" "finished d" "att_run_id a = att_run_id a0"
    using a0(5) b(2) c(2,3) d(2) by (simp_all add: follows_def)
  with a0(1-4) d(1) show ?thesis
    by (intro exI [of _ "att_id a"] exI [of _ a0] exI [of _ d] exI [of _ run]) (auto simp: claimable_def)
qed

subsection \<open>The lookups of the commands\<close>

lemma fold_skip: "fold (\<lambda>x y. if P x then y else f x y) xs b = fold f (filter (\<lambda>x. \<not> P x) xs) b"
  by (induction xs arbitrary: b) auto

lemma latest_run_same: "latest_run_for_issue_id s i = latest_run_for_issue s i"
proof -
  have "(\<lambda>r latest. case latest of None \<Rightarrow> Some r
      | Some l \<Rightarrow> if run_created_at l < run_created_at r then Some r else latest) = newer_run"
    by (auto simp: newer_run_def fun_eq_iff split: option.splits)
  then show ?thesis
    unfolding latest_run_for_issue_id_def latest_run_for_issue_def fold_skip by (simp only: not_not)
qed

lemma find_attempt_same: "find_attempt s rid stage = gm_get (attempts_by_stage s rid) stage"
proof -
  define better where "better = (\<lambda>(a :: stage_attempt) selected. if att_stage a \<noteq> stage then selected
      else case selected of None \<Rightarrow> Some a | Some b \<Rightarrow> if att_attempt b < att_attempt a then Some a else selected)"
  have step: "gm_get (newer_attempt a out) stage = better a (gm_get out stage)" for a out
    unfolding newer_get better_def by (auto split: option.splits)
  have "gm_get (fold newer_attempt xs out) stage = fold better xs (gm_get out stage)" for xs out
    by (induction xs arbitrary: out) (simp_all add: step)
  moreover have "find_attempt s rid stage = fold (\<lambda>a sel. if att_run_id a \<noteq> rid then sel else better a sel)
      (map snd (ps_attempts s)) None"
    unfolding find_attempt_def better_def by (intro arg_cong3 [where f = fold] refl) (auto simp: fun_eq_iff)
  ultimately show ?thesis
    unfolding fold_skip attempts_by_stage_def attempts_of_run_def by simp
qed

lemma run_over_terminal:
  "run_over s i \<longleftrightarrow> (case latest_run_for_issue s i of None \<Rightarrow> False | Some r \<Rightarrow> run_status_terminal (run_status r))"
  by (auto simp: run_over_def latest_run_same run_status_terminal_def split: option.splits)

subsection \<open>Properties\<close>

text \<open>A world the control plane's own operations lead to, with the invariant and the history kept.\<close>

definition stays_in :: "'e service \<Rightarrow> 'e world \<Rightarrow> 'e world \<Rightarrow> bool" where
  "stays_in sv w w' \<longleftrightarrow> rtranclp (cp_step sv) w w' \<and> cp_reach sv w' \<and> cp_inv (w_state w') \<and>
     evolves (w_state w) (w_state w')"

lemma keeps_stays:
  assumes "\<And>w0. keeps (reached (wire_service out) w0) m" and "cp_reach (wire_service out) w"
  shows "stays_in (wire_service out) w (snd (m w))"
proof -
  have "reached (wire_service out) w (snd (m w))" by (rule keepsD [OF assms(1) reached_refl])
  with reached_good [OF this assms(2)] show ?thesis by (simp add: stays_in_def reached_def)
qed

lemma keeps_command: "keeps (reached sv w0) (control_plane_command sv name)"
  unfolding control_plane_command_def by (intro keeps_rules step_keeps)

text \<open>
  C33: the commands refine the control plane.  Whatever a stage does while it runs and however a command
  ends, a subcommand of control-plane, a single stage, a local run and the materialization of an issue
  move the control plane by its own operations only: from a reachable world they lead to a reachable
  world, whose state has the invariant and in which no issue, run or finished attempt is lost.
\<close>

theorem commands_keep_history:
  fixes out :: "'y service" and ex :: "'y plane executor"
  assumes "cp_reach (wire_service out) w"
  shows "stays_in (wire_service out) w (snd (control_plane_command (wire_service out) name w)) \<and>
    stays_in (wire_service out) w (snd (run_single (wire_service out) (beside ex) polls specs stage rid w)) \<and>
    stays_in (wire_service out) w
      (snd (run_local (wire_service out) (beside ex) polls (out_of input) config path explicit w)) \<and>
    stays_in (wire_service out) w
      (snd (run_materialize (wire_service out) (plan_beside pe) specs catalog (out_of input) explicit w))"
  using keeps_stays [OF keeps_command assms] keeps_stays [OF keeps_run_single assms]
    keeps_stays [OF keeps_run_local assms] keeps_stays [OF keeps_run_materialize assms] by blast

text \<open>
  C34: a remote worker refines the control plane.  A worker that claims, beats and completes through the
  HTTP server, whose stages run beside it and which sleeps while others use the control plane, moves
  the control plane by its own operations only, for as many turns as it makes: the state it leaves is
  reachable, with the invariant and the history kept.
\<close>

theorem worker_keeps_history:
  assumes "he_service env = wire_service out" and "remote_worker env ex wk" and "cp_reach (wire_service out) w"
    and "worker_loop n wk once w = Some (r, w')"
  shows "stays_in (wire_service out) w w'"
proof -
  have "reached (wire_service out) w w'"
    using worker_loop_reached [OF assms(2,4), of w] assms(1) by simp
  with reached_good [OF this assms(3)] show ?thesis by (simp add: stays_in_def reached_def)
qed

end
