(* ===== verification/CommandsWitness.thy ===== *)
theory CommandsWitness
  imports CommandsProps HttpWitness
begin

section \<open>The commands on a concrete control plane\<close>

text \<open>An executor whose workspaces cannot be created, so that every stage fails, and a worker that uses it.\<close>

definition failing_executor :: "'e executor" where
  "failing_executor =
     \<lparr>sx_root_dir = ''/srv/app'', sx_data_dir = ''/d'', sx_cwd = ''/'', sx_repo_roots = [],
      sx_work_order_repo = ''/j'', sx_artifact_root = ''/d/artifacts'', sx_pipeline_catalog = None, sx_has_env = True,
      sx_docker = http_docker,
      sx_repos = \<lparr>re_root_dir = ''/srv/app'', re_roots = [], re_is_dir = (\<lambda>p x. (True, x)),
        re_present = (\<lambda>p x. (False, x)), re_mkdir_all = (\<lambda>p. m_ret ()), re_remove_all = (\<lambda>p. m_ret ()),
        re_git = (\<lambda>d args. m_ret [])\<rparr>,
      sx_ranker = None, sx_secrets = [], sx_now = (\<lambda>x. (0, x)),
      sx_read_plan = (\<lambda>p s. m_err ''none''), sx_read_text = (\<lambda>p. m_ret []),
      sx_read_state = (\<lambda>p. m_err ''none''), sx_load_result = (\<lambda>p s. m_ret), sx_load_report = (\<lambda>p s. m_ret),
      sx_marshal = (\<lambda>s n j. Inr ''{}''), sx_encode = (\<lambda>m. Inr ''{}''), sx_mkdir_all = (\<lambda>p. m_err ''read-only''),
      sx_write_file = (\<lambda>p d. m_ret ()), sx_sha256 = (\<lambda>d. ''0''), sx_json = (\<lambda>d. JNull),
      sx_decode_steps = (\<lambda>m. Inr [])\<rparr>"

definition sample_worker :: "int plane world worker" where
  "sample_worker = \<lparr>wk_codec = sample_codec, wk_send = over sample_env, wk_executor = beside failing_executor,
     wk_polls = 0, wk_sleep = (\<lambda>w. w), wk_id = ''w1'', wk_lease = 60, wk_stages = []\<rparr>"

lemma sample_start_reached: "cp_reach (wire_service sample_out) sample_start"
  by (rule cp_reach.start) (simp add: sample_start_def)

lemma commands_keep_history_witness:
  "cp_inv (w_state (snd (control_plane_command sample_service ''enqueue'' sample_start))) \<and>
   cp_inv (w_state (snd (run_local sample_service (beside failing_executor) 0 (out_of (m_ret sample_issue))
     ''config.json'' ''issue.json'' [] sample_start)))"
  using commands_keep_history [OF sample_start_reached, of "''enqueue''" failing_executor 0 "[]" "[]" "[]"
      "m_ret sample_issue" "''config.json''" "''issue.json''" "[]" "he_plan sample_env" None]
  unfolding stays_in_def sample_service_def by blast

lemma worker_keeps_history_witness:
  "\<exists>r w'. worker_loop 1 sample_worker True sample_start = Some (r, w') \<and> cp_inv (w_state w') \<and>
     cp_reach sample_service w'"
proof -
  obtain r w' where l: "worker_loop (Suc 0) sample_worker True sample_start = Some (r, w')"
    using worker_once_returns [of 0 sample_worker sample_start] by blast
  have s: "he_service sample_env = wire_service sample_out" by (simp add: sample_env_def sample_service_def)
  have "remote_worker sample_env failing_executor sample_worker"
    by (simp add: remote_worker_def sample_worker_def)
  from worker_keeps_history [OF s this sample_start_reached l] l show ?thesis
    by (auto simp: stays_in_def sample_service_def)
qed

end
