(* ===== verification/Secrets.thy ===== *)
theory Secrets
  imports StageInputs
begin

section \<open>Where secrets come from (internal/secrets)\<close>

text \<open>
  The providers of the chain: the keychain of the machine, the secret manager and a file of fixtures.
  Running a program is a parameter: what it printed, and what it printed to its error stream with the
  error it ended in.
\<close>

datatype command_end = Cmd_ok string | Cmd_failed string string

type_synonym 'x command_runner = "string list \<Rightarrow> 'x \<Rightarrow> command_end \<times> 'x"

fun text_contains :: "string \<Rightarrow> string \<Rightarrow> bool" where
  "text_contains [] sub = (sub = [])"
| "text_contains (c # cs) sub = (has_prefix (c # cs) sub \<or> text_contains cs sub)"

definition secret_not_found :: "string \<Rightarrow> secret_result" where
  "secret_not_found what = Sec_missing (''secret not found: '' @ what)"

subsection \<open>Providers\<close>

definition normalize_keychain_name :: "string \<Rightarrow> string" where
  "normalize_keychain_name name = map (\<lambda>c. if c = CHR ''/'' then CHR ''-'' else c) (trim_space name)"

definition keychain_resolve :: "'x command_runner \<Rightarrow> string \<Rightarrow> string \<Rightarrow> 'x \<Rightarrow> secret_result \<times> 'x" where
  "keychain_resolve run service name x =
     (let account = normalize_keychain_name name;
          ref = (if service = [] then ''autodev'' else service) @ ''/'' @ account
      in case run [''security'', ''find-generic-password'', ''-a'', account, ''-s'', ref, ''-w''] x of
           (Cmd_ok out, x') \<Rightarrow>
             (Sec_value \<lparr>sec_name = name, sec_source = ''keychain:'' @ ref, sec_text = trim_space out\<rparr>, x')
         | (Cmd_failed err e, x') \<Rightarrow>
             (if text_contains err ''could not be found'' then secret_not_found name
              else Sec_error (''resolve keychain secret '' @ name @ '': '' @ e), x'))"

text \<open>On systems other than macOS there is no keychain.\<close>

definition keychain_unsupported :: "string \<Rightarrow> 'x \<Rightarrow> secret_result \<times> 'x" where
  "keychain_unsupported name x = (secret_not_found ''keychain unsupported on this platform'', x)"

definition gcp_resolve :: "'x command_runner \<Rightarrow> string \<Rightarrow> string \<Rightarrow> 'x \<Rightarrow> secret_result \<times> 'x" where
  "gcp_resolve run project name x =
     (if trim_space project = [] then (secret_not_found ''missing GCP project'', x)
      else case run [''gcloud'', ''secrets'', ''versions'', ''access'', ''latest'', ''--secret'', name,
                ''--project'', project, ''--quiet''] x of
           (Cmd_ok out, x') \<Rightarrow>
             (Sec_value \<lparr>sec_name = name, sec_source = ''gcp-secret-manager:'' @ project @ ''/'' @ name,
                sec_text = trim_space out\<rparr>, x')
         | (Cmd_failed err e, x') \<Rightarrow>
             (if text_contains err ''NOT_FOUND'' \<or> text_contains err ''was not found'' then secret_not_found name
              else Sec_error (''resolve gcp secret '' @ name @ '': '' @ e), x'))"

definition new_file_provider ::
  "(string \<Rightarrow> ('x, string) go) \<Rightarrow> (string \<Rightarrow> string + string gomap) \<Rightarrow> string \<Rightarrow> ('x, string \<times> string gomap) go" where
  "new_file_provider read decode path =
     m_bind (read path) (\<lambda>data.
     m_bind (m_wrap ''decode smoke secrets fixture'' (m_lift (decode data))) (\<lambda>values. m_ret (path, values)))"

text \<open>A nil provider has no secrets.\<close>

definition file_resolve :: "(string \<times> string gomap) option \<Rightarrow> string \<Rightarrow> 'x \<Rightarrow> secret_result \<times> 'x" where
  "file_resolve provider name x =
     (case provider of
        None \<Rightarrow> (Sec_missing ''secret not found'', x)
      | Some (path, values) \<Rightarrow>
          (case gm_get values name of
             None \<Rightarrow> (secret_not_found name, x)
           | Some value \<Rightarrow> (Sec_value \<lparr>sec_name = name, sec_source = ''fixture:'' @ path, sec_text = value\<rparr>, x)))"

definition new_chain :: "'p option list \<Rightarrow> 'p list" where
  "new_chain providers = List.map_filter id providers"

definition default_provider ::
  "bool \<Rightarrow> 'x command_runner \<Rightarrow> string \<Rightarrow> string \<Rightarrow> (string \<Rightarrow> 'x \<Rightarrow> secret_result \<times> 'x) list" where
  "default_provider darwin run service project =
     new_chain [Some (if darwin then keychain_resolve run service else keychain_unsupported),
       Some (gcp_resolve run project)]"

subsection \<open>The chain\<close>

text \<open>The first provider that has the secret decides, whatever those before it answered.\<close>

definition lacks :: "(string \<Rightarrow> 'x \<Rightarrow> secret_result \<times> 'x) \<Rightarrow> string \<Rightarrow> bool" where
  "lacks p name \<longleftrightarrow> (\<forall>x. case p name x of (Sec_value v, _) \<Rightarrow> False | _ \<Rightarrow> True)"

lemma chain_skips:
  "list_all (\<lambda>p. lacks p name) ps \<Longrightarrow> \<exists>x' errs'. chain_resolve (ps @ qs) name errs x = chain_resolve qs name errs' x'"
proof (induction ps arbitrary: errs x)
  case Nil
  then show ?case by auto
next
  case (Cons p ps)
  obtain r x' where r: "p name x = (r, x')" by fastforce
  have "case p name x of (Sec_value v, _) \<Rightarrow> False | _ \<Rightarrow> True" using Cons.prems by (simp add: lacks_def)
  then show ?case using Cons.IH Cons.prems by (cases r) (auto simp: r)
qed

lemma file_first:
  "gm_get values name = Some value \<Longrightarrow>
   chain_resolve (file_resolve (Some (path, values)) # ps) name errs x =
     (Inr \<lparr>sec_name = name, sec_source = ''fixture:'' @ path, sec_text = value\<rparr>, x)"
  by (simp add: file_resolve_def)

end
