(* ===== verification/SecretsProps.thy ===== *)
theory SecretsProps
  imports Secrets ExecutorProps
begin

section \<open>The values of secrets stay with the executor\<close>

text \<open>
  \<open>hide_text f p\<close> is the provider \<open>p\<close> with every value changed by \<open>f\<close>.  An executor on such providers does
  exactly what it does on the original ones: no value of a secret reaches a file, a report, a container
  or a result.
\<close>

definition hidden :: "(string \<Rightarrow> string) \<Rightarrow> secret_value \<Rightarrow> secret_value" where
  "hidden f v = v\<lparr>sec_text := f (sec_text v)\<rparr>"

definition hide_text ::
  "(string \<Rightarrow> string) \<Rightarrow> (string \<Rightarrow> 'x \<Rightarrow> secret_result \<times> 'x) \<Rightarrow> string \<Rightarrow> 'x \<Rightarrow> secret_result \<times> 'x" where
  "hide_text f p name x =
     (case p name x of (Sec_value v, x') \<Rightarrow> (Sec_value (hidden f v), x') | r \<Rightarrow> r)"

definition hiding :: "(string \<Rightarrow> string) \<Rightarrow> 'x executor \<Rightarrow> 'x executor" where
  "hiding f ex = ex\<lparr>sx_secrets := map (hide_text f) (sx_secrets ex)\<rparr>"

named_theorems hiding_same

lemma hiding_fields [simp, hiding_same]:
  "sx_root_dir (hiding f ex) = sx_root_dir ex" "sx_data_dir (hiding f ex) = sx_data_dir ex"
  "sx_cwd (hiding f ex) = sx_cwd ex" "sx_repo_roots (hiding f ex) = sx_repo_roots ex"
  "sx_work_order_repo (hiding f ex) = sx_work_order_repo ex" "sx_artifact_root (hiding f ex) = sx_artifact_root ex"
  "sx_pipeline_catalog (hiding f ex) = sx_pipeline_catalog ex" "sx_has_env (hiding f ex) = sx_has_env ex"
  "sx_docker (hiding f ex) = sx_docker ex" "sx_repos (hiding f ex) = sx_repos ex"
  "sx_ranker (hiding f ex) = sx_ranker ex" "sx_now (hiding f ex) = sx_now ex"
  "sx_read_plan (hiding f ex) = sx_read_plan ex" "sx_read_text (hiding f ex) = sx_read_text ex"
  "sx_read_state (hiding f ex) = sx_read_state ex" "sx_load_result (hiding f ex) = sx_load_result ex"
  "sx_load_report (hiding f ex) = sx_load_report ex" "sx_marshal (hiding f ex) = sx_marshal ex"
  "sx_encode (hiding f ex) = sx_encode ex" "sx_mkdir_all (hiding f ex) = sx_mkdir_all ex"
  "sx_write_file (hiding f ex) = sx_write_file ex" "sx_sha256 (hiding f ex) = sx_sha256 ex"
  "sx_json (hiding f ex) = sx_json ex" "sx_decode_steps (hiding f ex) = sx_decode_steps ex"
  "sx_secrets (hiding f ex) = map (hide_text f) (sx_secrets ex)"
  by (simp_all add: hiding_def)

definition on_value :: "('a \<Rightarrow> 'b) \<Rightarrow> ('x, 'a) go \<Rightarrow> ('x, 'b) go" where
  "on_value h m = m_bind m (\<lambda>v. m_ret (h v))"

lemma on_value_apply: "on_value h m x = (case m x of (Inl e, x') \<Rightarrow> (Inl e, x') | (Inr v, x') \<Rightarrow> (Inr (h v), x'))"
  by (simp add: on_value_def m_bind_def m_ret_def split: prod.splits sum.splits)

lemma on_value_bind: "m_bind (on_value h m) k = m_bind m (\<lambda>v. k (h v))"
  by (simp add: on_value_def m_bind_assoc)

lemma on_value_wrap: "m_wrap msg (on_value h m) = on_value h (m_wrap msg m)"
  by (rule ext) (simp add: on_value_apply m_wrap_def split: prod.splits sum.splits)

lemma chain_hides: "chain_resolve (map (hide_text f) ps) n errs x = on_value (hidden f) (chain_resolve ps n errs) x"
proof (induction ps arbitrary: errs x)
  case Nil
  then show ?case by (simp add: on_value_apply m_err_def)
next
  case (Cons p ps)
  obtain r x' where r: "p n x = (r, x')" by fastforce
  show ?case using Cons.IH by (cases r) (simp_all add: hide_text_def r on_value_apply)
qed

lemma resolve_all_hides: "resolve_all (hiding f ex) ns = on_value (map (hidden f)) (resolve_all ex ns)"
proof (induction ns)
  case Nil
  then show ?case by (simp add: on_value_def)
next
  case (Cons n ns)
  have "chain_resolve (map (hide_text f) (sx_secrets ex)) n [] = on_value (hidden f) (chain_resolve (sx_secrets ex) n [])"
    by (rule ext) (rule chain_hides)
  with Cons.IH show ?case by (simp add: on_value_bind) (simp add: on_value_def m_bind_assoc)
qed

lemma metadata_hides: "secret_metadata (map (hidden f) vs) = secret_metadata vs"
  by (simp add: secret_metadata_def hidden_def)

text \<open>Nothing but the chain of providers depends on the values.\<close>

lemma hiding_writes [simp, hiding_same]:
  "sandbox_mkdir_all (hiding f ex) = sandbox_mkdir_all ex"
  "sandbox_write_file (hiding f ex) = sandbox_write_file ex"
  "sandbox_summary (hiding f ex) = sandbox_summary ex"
  "stage_dir_of (hiding f ex) = stage_dir_of ex"
  by (intro ext; unfold sandbox_mkdir_all_def sandbox_write_file_def sandbox_summary_def stage_dir_of_def hiding_same; rule refl)+

lemma hiding_workspace [simp, hiding_same]:
  "prepare_workspace (hiding f ex) = prepare_workspace ex"
  "write_workspace_json (hiding f ex) = write_workspace_json ex"
  "put_json (hiding f ex) = put_json ex"
  "load_workspace load (hiding f ex) = load_workspace load ex"
  by (intro ext; unfold prepare_workspace_def write_workspace_json_def put_json_def load_workspace_def hiding_same; rule refl)+

lemma hiding_repos [simp, hiding_same]:
  "component_repo (hiding f ex) = component_repo ex"
  "journal_repo (hiding f ex) = journal_repo ex"
  "gitops_repo (hiding f ex) = gitops_repo ex"
  by (intro ext; unfold component_repo_def journal_repo_def gitops_repo_def hiding_same; rule refl)+

lemma hiding_plan [simp, hiding_same]:
  "initialize_stage_repos (hiding f ex) = initialize_stage_repos ex"
  "load_invariant_context (hiding f ex) = load_invariant_context ex"
  "executor_plan (hiding f ex) = executor_plan ex"
  by (intro ext; unfold initialize_stage_repos_def load_invariant_context_def executor_plan_def hiding_same; rule refl)+

lemma hiding_images [simp, hiding_same]:
  "stage_catalog_for_run (hiding f ex) = stage_catalog_for_run ex"
  "runtime_image_for_stage (hiding f ex) = runtime_image_for_stage ex"
  "must_plan (hiding f ex) = must_plan ex"
  by (intro ext; unfold stage_catalog_for_run_def runtime_image_for_stage_def must_plan_def hiding_same; rule refl)+

lemma hiding_clock [simp, hiding_same]:
  "mark (hiding f ex) = mark ex"
  "estimate_attempt_stats (hiding f ex) = estimate_attempt_stats ex"
  "emit_stage_state (hiding f ex) = emit_stage_state ex"
  "run_entrypoint (hiding f ex) = run_entrypoint ex"
  by (intro ext; unfold mark_def estimate_attempt_stats_def emit_stage_state_def run_entrypoint_def hiding_same; rule refl)+

lemma hiding_polls [simp, hiding_same]: "poll_states n (hiding f ex) = poll_states n ex"
  by (induction n) (intro ext; simp)+

lemma hiding_run [simp, hiding_same]: "run_with_progress (hiding f ex) = run_with_progress ex"
  by (intro ext, unfold run_with_progress_def hiding_same) (rule refl)

lemma hiding_outputs [simp, hiding_same]:
  "base_outputs (hiding f ex) spec run attempt issue (map (hidden f) vs) sb now =
     base_outputs ex spec run attempt issue vs sb now"
  by (simp add: base_outputs_def metadata_hides)

lemma hiding_json [simp, hiding_same]:
  "validation_json (hiding f ex) = validation_json ex"
  "judge (hiding f ex) = judge ex"
  by (intro ext; unfold validation_json_def judge_def hiding_same; rule refl)+

lemma hiding_put_outputs [simp, hiding_same]: "put_outputs (hiding f ex) spec rid outputs as = put_outputs ex spec rid outputs as"
  by (induction as) (simp_all split: option.splits)

lemma hiding_store [simp, hiding_same]: "store_artifacts (hiding f ex) = store_artifacts ex"
  by (intro ext, unfold store_artifacts_def hiding_same) (rule refl)

abbreviation hide_inputs :: "(string \<Rightarrow> string) \<Rightarrow> stage_inputs \<Rightarrow> stage_inputs" where
  "hide_inputs f i \<equiv> i\<lparr>si_secrets := map (hidden f) (si_secrets i)\<rparr>"

lemma hiding_take [simp]:
  "take_result (hiding f ex) spec run attempt started (hide_inputs f inp) t rr =
   take_result ex spec run attempt started inp t rr"
  by (simp add: take_result_def conclude_stage_def Let_def)

lemma hiding_context [simp]:
  "context_payload (hiding f ex) spec run attempt issue (hide_inputs f inp) steps catalog images =
   context_payload ex spec run attempt issue inp steps catalog images"
  by (simp add: context_payload_def metadata_hides)

lemma prepare_hides:
  "prepare_inputs (hiding f ex) spec run attempt issue started =
   on_value (hide_inputs f) (prepare_inputs ex spec run attempt issue started)"
  by (simp add: prepare_inputs_def resolve_all_hides on_value_wrap on_value_bind Let_def case_prod_unfold)
    (simp add: on_value_def m_then_def m_bind_assoc)


end
