(* ===== verification/Spec2Isabelle.thy ===== *)
theory Spec2Isabelle
  imports Components Pipeline Isolation Locks Policy RunRecords Signals ControlPlaneWitness
    RatchetWitness ResolverWitness DockerWitness HttpWitness ExecutorWitness Config
    StageEntryWitness GitlabWitness CommandsWitness SecretsProps
begin

text \<open>
  autodev: a verification development of its control plane, its workers and the programs around them.

  THE PROGRAM. An issue labelled in GitLab becomes a run. The control plane (internal/controlplane, one
  process, all of its state in one JSON file) opens the run, plans its stages from the delivery target
  and the stage specifications, queues an attempt for each stage that is ready, and hands queued
  attempts to workers, which claim, beat and complete them over HTTP (internal/httpapi). A worker
  (cmd/stage-runner) executes a stage (internal/runner): it resolves the secrets of the stage, checks
  out the repositories of the run, ranks the invariants learnt from earlier findings, writes a context
  file and starts a container (internal/stagecontainer), in which tooling/runtime/single_plane.go
  interprets the operation plan of the stage and writes a result and a report; the executor judges both
  by the success criteria of the specification and stores the artifacts. Locks on repositories
  (internal/locks) keep two attempts from working on one repository; signals (internal/signals) and
  findings (internal/ratchet) are what operation leaves behind for people and later stages; merge
  requests (internal/gitlab) are what a stage publishes.

  HOW IT IS MODELLED.

  \<^item> Structs are records with the source's fields; enumerations are strings or
    datatypes as in the source; a Go map is an association list (\<open>gomap\<close>), since the order in which a
    map is visited is part of what is proved about (an order that the environment chooses is a step, or
    an argument). Times and durations are integers (nanoseconds); 64-bit arithmetic is written with
    \<open>wrap64\<close> where it can matter (costs, tokens, durations).

  \<^item> A function with effects is a value of type \<open>go\<close>: from the world to an error or a value, and a world
    (Prelude). An early return with an error is \<open>m_err\<close>, a wrapped error \<open>m_wrap\<close>, a deferred or ignored
    error \<open>m_try\<close>; the effects up to the error remain. A panic is an error value where it can arise.

  \<^item> A SQL statement, a file operation, an HTTP exchange and a run of git, docker or another program is
    one step, and each may fail where the source handles its failure. The mutex of the store makes a
    handler of the control plane one step; concurrency between processes is the order of such steps, and
    the theorems about the control plane quantify over every sequence of them, with any change of the
    outside world and any order of the map entries between two.

  \<^item> Code outside the repository (the JSON codec, the JSON schema library, git, docker, the database
    driver's transport, the operating system, net/http, html/template) is a parameter: a field of a
    record of the environment (\<open>service\<close>, \<open>executor\<close>, \<open>docker_env\<close>, \<open>repo_env\<close>, \<open>entry_env\<close>,
    \<open>contract_io\<close>) or an argument. The theorems say which documented behaviour of it they need (a codec
    that reads back what it wrote, a server that serves pages of a hundred), and a witness instantiates
    it. The lexical functions of the Go library that the program's safety rests on (path/filepath,
    strings) are defined, not assumed (GoStrings, Paths).

  THEORIES, IN THE ORDER OF THE IMPORTS.

  \<^item> Prelude: Go maps, sorting, the handler monad and its rules, \<open>keeps\<close> (a handler keeps an invariant),
    the collections of facts the component proofs share. GoStrings, Paths, Json: the strings and path
    functions of Go and decoded JSON values.

  \<^item> Model: internal/model/types.go, its records and the operations with logic (environments, selected
    components, repository scopes, accessors of a specification, orchestration plans). Components: the
    dependency order of the selected components. Topology: the worklist that stages and components
    share, proved once (a permutation, in dependency order, cycles last) over an abstract graph.

  \<^item> Pipeline: internal/pipeline (graph.go, plan.go, execution.go). \<open>specs_in_order\<close>,
    \<open>build_execution_plan\<close>, \<open>evaluate\<close>. \<open>evaluate_refines_spec\<close> gives the declarative reading of the
    evaluation, and safety (nothing starts before its dependencies succeeded) and progress are read off
    it.

  \<^item> Store: internal/store/store.go; \<open>Save\<close> through a temporary file refines replacing the state at once,
    whatever file operation fails. Locks: internal/locks, the interface, the manager that locks nothing
    and the Postgres one, and taking all the locks of an attempt or none. Signals: internal/signals, the
    service over an interface of stores (a locale, interpreted on both stores). Workorder:
    internal/workorder and the path functions that service.go repeats. Policy: internal/policy.
    RunRecords: the pure parts of service.go (labels, statistics, costs, what a completed stage leaves
    in its attempt).

  \<^item> ControlPlane: internal/controlplane/service.go, every method that reads or writes the state
    (\<open>EnqueueFromGitLab\<close>, \<open>Reconcile\<close>, \<open>EnsureRunForIssue\<close>, \<open>PersistPipelineArtifacts\<close>, \<open>ClaimNext\<close>,
    \<open>Heartbeat\<close>, \<open>Complete\<close>, \<open>RecoverStuckRuns\<close>, \<open>Snapshot\<close>), as handlers over \<open>world\<close>: the persisted
    state and everything outside it (clock, GitLab, locks, files, git). ControlPlaneInv proves the
    invariant \<open>cp_inv\<close> and the history (\<open>since\<close>: nothing is lost, and an attempt that
    ended does not become pending or running again) for each handler; ControlPlaneSafety defines the step relation \<open>cp_step\<close> and \<open>cp_reach\<close>
    and lifts them to it; ControlPlaneStarts and ControlPlaneComplete are about what a reconciliation
    starts, what a recovery requeues, and what a completion or a refused request leaves.

  \<^item> Ratchet, RatchetRank, RatchetInv, RatchetSafety: internal/ratchet. The tables that postgres.go
    maintains with SQL counters always agree with the list of recorded findings, also when a transaction
    is cut off at any statement; ranking is a sorted prefix of the invariants in scope.

  \<^item> Resolver, ResolverProps: the goal resolver of internal/runner (resolver.go, projection.go,
    git_ledger.go, catalogs and providers). The recursion of the source has no bound of its own: the
    model takes fuel, and \<open>resolve_terminates\<close> shows that fuel above the rank of the goal is enough when
    the dependencies have a rank.

  \<^item> Isolation: internal/isolation, what a stage may write. RepoManager: internal/repos. Docker,
    DockerSafety: internal/stagecontainer, the mounts and the arguments of the container. Materialize:
    runner/materialize.go.

  \<^item> Secrets, StageInputs, Executor: internal/secrets, internal/artifacts and runner.go, repos.go,
    workspace.go. ExecutorProps: results are judged by the contract, grants stay within the run.
    SecretsProps: executing a stage does not depend on the values of its secrets. ExecutorFrame: the
    executor changes the control plane through its reports of progress only.

  \<^item> Http, HttpViews, HttpProps: every route of httpapi/server.go. HttpClient: httpapi/client.go; a
    client over the server is the service.

  \<^item> Config: internal/config, internal/configsource, internal/app. Contracts: internal/contracts.

  \<^item> StageEntry, StageEntryProps: tooling/runtime/single_plane.go, the program inside the container.

  \<^item> Gitlab, MergeRequests, GitlabProps: internal/gitlab, both adapters, and runner/gitlab_mr.go.

  \<^item> Commands, CommandsProps: cmd/stage-runner and cmd/control-plane; the local loop, the worker over
    HTTP, a single stage, the subcommands. This is where the components meet: the commands are composed
    of the executor, the client, the server and the control plane, and every command refines the steps
    of the control plane.

  A theory whose name ends in Witness evaluates the model on concrete inputs and applies the theorems
  with hypotheses there.

  INTERFACES. Where the program has an interface or a discipline that several operations share, there is
  a locale, interpreted on the model's own definitions: \<open>lock_manager\<close> (the lock table), \<open>signal_source\<close>
  and \<open>finding_store\<close>, extended by \<open>tracking_store\<close> (the Postgres stores and those that keep nothing),
  \<open>result_ledger\<close> (the ledgers of the resolver), \<open>event_source\<close> (the signals as the control plane is
  wired to them), \<open>kahn_order\<close> (the worklist, for stages and for components), \<open>stage_environment\<close> (the
  surroundings of the executor beside a control plane) and \<open>merge_request_host\<close> (the adapter that merge
  requests are published through).

  WHAT IS SHOWN.

  \<^item> The control plane, in every reachable state: the invariant and the history; a claim takes a pending
    attempt, and on Postgres holds every lock it needs; a stage is started once, and only when
    evaluation allows; completion is all or nothing; a refused request changes nothing; recovery
    requeues what is stuck.

  \<^item> The server and the commands refine these steps, so that the guarantees hold for the running
    programs, also when a stage fails in any way.

  \<^item> Confinement: the sandbox's decision on paths, the mounts of a container, the grants of
    materialization, the artifacts of the journal, the values of secrets.

  \<^item> The program in the container: it succeeds only when every step ran and the criteria hold, it always
    ends with exit code 0 or 2, and it keeps exactly the first mebibyte of what a process prints.

  \<^item> Exactness of costs, counters of findings, numbers of merge requests, and lists read in pages.

  BOUNDS AND FUEL. \<open>resolve\<close> and \<open>project_current_state\<close>: any fuel above the rank of the goal.
  \<open>list_pages\<close>: one more than the number of pages, shown to be enough. \<open>worker_loop\<close>: the source's
  endless loop; each unit of fuel is one turn, and the theorem holds for every number of turns.
  \<open>local_loop\<close>: the source's own limit of 64 turns. The polling of the state file by a goroutine while a
  container runs is a number of polls, universally quantified. \<open>max_capture\<close>: the source's 2^20 bytes.

  NOT MODELLED. Creation of the SQL tables, and cmd/migrate, which sends one file to the database. The
  embedded user interface (httpapi/ui.go). runner/engine.go, telemetry.go, repo_state.go and
  internal/agent, which nothing calls. cmd/autodev, which does not compile (it calls a constructor that
  is not defined). cmd/cognition and tooling/lib/llm, which ask a remote language model. The sample
  project of the end-to-end tests. Parsing of flags, log lines, signals of the operating system and the
  durations of sleeps. Data races: the program's own locking is taken as the granularity of steps.
\<close>

end
